(* ===== verification/Prelude.thy ===== *)
theory Prelude
  imports Main "HOL-Library.Multiset" "HOL-Library.Char_ord" "HOL-Library.List_Lexorder"
    "HOL-Library.Product_Lexorder"
begin

text \<open>
  Shared vocabulary of the development: the errors of \<open>domain/errors.go\<close>, results as sums,
  Go maps with their unspecified iteration order, \<open>sort.Slice\<close>, and the generic lemmas about
  lists, maps and sums that the component theories use.

  Conventions:
  \<^item> a Go \<open>string\<close> is a sequence of bytes, an Isabelle \<open>string\<close> is a list of 8-bit characters;
  \<^item> a \<open>time.Time\<close> is an \<open>int\<close>: nanoseconds since 1970-01-01T00:00:00Z.
    \<open>t.UTC()\<close> changes only the display location, so it is the identity here;
    \<open>Before\<close>, \<open>After\<close> and \<open>Equal\<close> are \<open><\<close>, \<open>>\<close> and \<open>=\<close>;
  \<^item> a pointer that may be nil (\<open>*time.Time\<close>, \<open>*string\<close>) is an \<open>option\<close>;
  \<^item> a nil slice and an empty slice are the same list;
  \<^item> an operation that may fail returns \<open>Inl\<close> of the error, otherwise \<open>Inr\<close> of its value;
  \<^item> \<open>id.New()\<close>, \<open>s.now()\<close> and the order in which \<open>range\<close> visits a map are arguments.
\<close>

section \<open>Errors and results\<close>

datatype error =
    ErrNotFound
  | ErrForbidden
  | ErrConflict
  | ErrInvalid
  | ErrUnauthorized
  | ErrTooLarge
  | ErrInternal \<comment> \<open>any other error: the operating system's, the random source's\<close>

type_synonym 'a result = "error + 'a"
type_synonym time = int
type_synonym id = string

text \<open>
  Collections: \<open>op_defs\<close> unfolds operations, \<open>frame\<close> says which parts of the store an operation
  leaves alone, \<open>inv_intros\<close> collects preservation facts.
\<close>

named_theorems op_defs
named_theorems frame
named_theorems inv_intros

lemma result_cases:
  fixes r :: "'a result"
  obtains (Err) e where "r = Inl e" | (Ok) x where "r = Inr x"
  by (cases r) auto

text \<open>
  \<open>if err != nil { return err }\<close> after a call, in three forms: a call that reads, in an operation
  that only reads (\<open>read_ok\<close>); a call that reads, in an operation on the store \<open>s\<close> (\<open>guard_ok\<close>); a
  call that may write the store (\<open>call_ok\<close>).
\<close>

definition read_ok :: "'a result \<Rightarrow> ('a \<Rightarrow> 'b result) \<Rightarrow> 'b result" where
  "read_ok r f = (case r of Inl e \<Rightarrow> Inl e | Inr x \<Rightarrow> f x)"

definition guard_ok :: "'a result \<Rightarrow> 's \<Rightarrow> ('a \<Rightarrow> 'b result \<times> 's) \<Rightarrow> 'b result \<times> 's" where
  "guard_ok r s f = (case r of Inl e \<Rightarrow> (Inl e, s) | Inr x \<Rightarrow> f x)"

definition call_ok :: "'a result \<times> 's \<Rightarrow> ('a \<Rightarrow> 's \<Rightarrow> 'b result \<times> 's) \<Rightarrow> 'b result \<times> 's" where
  "call_ok p f = (case fst p of Inl e \<Rightarrow> (Inl e, snd p) | Inr x \<Rightarrow> f x (snd p))"

text \<open>
  An operation with an optimistic lock returns a value beside the error: on a conflict the current
  one, on any other error the zero value \<open>z\<close> of its type.
\<close>

type_synonym 'a locked_result = "(error \<times> 'a) + 'a"

definition guard_zero :: "'b \<Rightarrow> 'a result \<Rightarrow> 's \<Rightarrow> ('a \<Rightarrow> 'b locked_result \<times> 's) \<Rightarrow> 'b locked_result \<times> 's" where
  "guard_zero z r s f = (case r of Inl e \<Rightarrow> (Inl (e, z), s) | Inr x \<Rightarrow> f x)"

definition unlock :: "'a locked_result \<times> 's \<Rightarrow> 'a result \<times> 's" where
  "unlock p = ((case fst p of Inl (e, _) \<Rightarrow> Inl e | Inr x \<Rightarrow> Inr x), snd p)"

lemma unlock_simps [simp]:
  "unlock (Inl (e, x), s) = (Inl e, s)" "unlock (Inr y, s) = (Inr y, s)" "snd (unlock p) = snd p"
  by (simp_all add: unlock_def)

lemma unlock_guard [simp]: "unlock (guard_zero z r s f) = guard_ok r s (\<lambda>x. unlock (f x))"
  by (cases r) (simp_all add: guard_zero_def guard_ok_def)

lemma guard_zero_simps [simp]: "guard_zero z (Inl e) s f = (Inl (e, z), s)" "guard_zero z (Inr x) s f = f x"
  by (simp_all add: guard_zero_def)

lemma guard_zero_inv:
  "P s \<Longrightarrow> (\<And>x. r = Inr x \<Longrightarrow> P (snd (f x))) \<Longrightarrow> P (snd (guard_zero z r s f))"
  by (cases r) auto

lemma ok_simps [simp]:
  "read_ok (Inl e) f = Inl e" "read_ok (Inr x) f = f x"
  "guard_ok (Inl e) s g = (Inl e, s)" "guard_ok (Inr x) s g = g x"
  "call_ok (Inl e, t) h = (Inl e, t)" "call_ok (Inr x, t) h = h x t"
  by (simp_all add: read_ok_def guard_ok_def call_ok_def)

lemma read_ok_Inr [simp]: "read_ok r f = Inr y \<longleftrightarrow> (\<exists>x. r = Inr x \<and> f x = Inr y)"
  by (cases r) auto

lemma guard_ok_fst: "fst (guard_ok r s f) = (case r of Inl e \<Rightarrow> Inl e | Inr x \<Rightarrow> fst (f x))"
  and guard_ok_snd: "snd (guard_ok r s f) = (case r of Inl e \<Rightarrow> s | Inr x \<Rightarrow> snd (f x))"
  by (auto simp: guard_ok_def split: sum.splits)

lemma call_ok_fst: "fst (call_ok p f) = (case fst p of Inl e \<Rightarrow> Inl e | Inr x \<Rightarrow> fst (f x (snd p)))"
  and call_ok_snd: "snd (call_ok p f) = (case fst p of Inl e \<Rightarrow> snd p | Inr x \<Rightarrow> snd (f x (snd p)))"
  by (auto simp: call_ok_def split: sum.splits)

lemmas ok_fst = guard_ok_fst call_ok_fst
lemmas ok_snd = guard_ok_snd call_ok_snd

text \<open>What holds of the store whichever way the call went.\<close>

lemma guard_ok_inv:
  "P s \<Longrightarrow> (\<And>x. r = Inr x \<Longrightarrow> P (snd (f x))) \<Longrightarrow> P (snd (guard_ok r s f))"
  by (cases r) auto

lemma call_ok_inv:
  "P (snd p) \<Longrightarrow> (\<And>x. fst p = Inr x \<Longrightarrow> P (snd (f x (snd p)))) \<Longrightarrow> P (snd (call_ok p f))"
  by (cases p; cases "fst p") auto

lemmas ok_inv = guard_ok_inv call_ok_inv

text \<open>What holds of result and store together: it must allow every error.\<close>

lemma guard_ok_post:
  "(\<And>e. r = Inl e \<Longrightarrow> Q (Inl e, s)) \<Longrightarrow> (\<And>x. r = Inr x \<Longrightarrow> Q (f x)) \<Longrightarrow> Q (guard_ok r s f)"
  by (cases r) auto

lemma call_ok_post:
  "(\<And>e. fst p = Inl e \<Longrightarrow> Q (Inl e, snd p)) \<Longrightarrow>
   (\<And>x. fst p = Inr x \<Longrightarrow> Q (f x (snd p))) \<Longrightarrow> Q (call_ok p f)"
  by (cases p; cases "fst p") auto

lemmas ok_post = guard_ok_post call_ok_post

section \<open>Durations\<close>

definition Minute :: int where "Minute = 60 * 1000000000"
definition Hour :: int where "Hour = 60 * Minute"
definition Day :: int where "Day = 24 * Hour"

lemma Day_pos [simp]: "0 < Day" and Hour_pos [simp]: "0 < Hour" and Minute_pos [simp]: "0 < Minute"
  by (simp_all add: Day_def Hour_def Minute_def)

text \<open>Go's integer division truncates towards zero.\<close>

definition go_div :: "int \<Rightarrow> int \<Rightarrow> int" where
  "go_div n d = (let q = \<bar>n\<bar> div \<bar>d\<bar> in if (n < 0) = (d < 0) then q else - q)"

lemma go_div_mult [simp]: "0 < d \<Longrightarrow> go_div (n * d) d = n"
  by (auto simp: go_div_def Let_def abs_mult mult_less_0_iff)

section \<open>Go maps\<close>

text \<open>
  A Go map is a partial function. A \<open>range\<close> over it visits every key once, in an order the
  language leaves open: the order is an argument \<open>ks\<close> of the definitions, and
  \<open>range_order m ks\<close> says that \<open>ks\<close> is an order the runtime may choose.
\<close>

definition range_order :: "('k \<rightharpoonup> 'v) \<Rightarrow> 'k list \<Rightarrow> bool" where
  "range_order m ks \<longleftrightarrow> distinct ks \<and> set ks = dom m"

definition range_values :: "'k list \<Rightarrow> ('k \<rightharpoonup> 'v) \<Rightarrow> 'v list" where
  "range_values ks m = List.map_filter m ks"

lemma range_values_simps [simp]:
  "range_values [] m = []"
  "range_values (k # ks) m = (case m k of None \<Rightarrow> range_values ks m | Some v \<Rightarrow> v # range_values ks m)"
  by (simp_all add: range_values_def List.map_filter_simps split: option.split)

lemma set_range_values: "set (range_values ks m) = {v. \<exists>k \<in> set ks. m k = Some v}"
  by (induction ks) (auto split: option.splits)

lemma set_range_values_order:
  "range_order m ks \<Longrightarrow> set (range_values ks m) = ran m"
  by (auto simp: set_range_values range_order_def ran_def)

lemma mset_range_values:
  "mset (range_values ks m) = image_mset (\<lambda>k. the (m k)) (filter_mset (\<lambda>k. m k \<noteq> None) (mset ks))"
  by (induction ks) (auto split: option.splits)

lemma mset_range_values_unique:
  assumes "range_order m ks" and "range_order m ks'"
  shows "mset (range_values ks m) = mset (range_values ks' m)"
proof -
  have "mset ks = mset ks'"
    using assms by (simp add: range_order_def set_eq_iff_mset_eq_distinct [symmetric])
  then show ?thesis by (simp add: mset_range_values)
qed

lemma range_order_empty [simp]: "range_order Map.empty ks \<longleftrightarrow> ks = []"
  by (auto simp: range_order_def)

text \<open>The value of a missing key of a \<open>map[string][]T\<close> is the nil slice.\<close>

definition get_list :: "('k \<rightharpoonup> 'a list) \<Rightarrow> 'k \<Rightarrow> 'a list" where
  "get_list m k = (case m k of None \<Rightarrow> [] | Some xs \<Rightarrow> xs)"

lemma get_list_upd [simp]:
  "get_list (m(k \<mapsto> xs)) k' = (if k' = k then xs else get_list m k')"
  "get_list (m(k := None)) k' = (if k' = k then [] else get_list m k')"
  by (simp_all add: get_list_def)

lemma get_list_empty [simp]: "get_list Map.empty k = []"
  by (simp add: get_list_def)

text \<open>Reading a missing key of a map of structs gives the zero value \<open>z\<close> of the struct.\<close>

definition get_zero :: "'v \<Rightarrow> ('k \<rightharpoonup> 'v) \<Rightarrow> 'k \<Rightarrow> 'v" where
  "get_zero z m k = (case m k of None \<Rightarrow> z | Some v \<Rightarrow> v)"

lemma get_zero_Some [simp]: "m k = Some v \<Longrightarrow> get_zero z m k = v"
  by (simp add: get_zero_def)

lemma get_zero_upd [simp]: "get_zero z (m(k \<mapsto> v)) j = (if j = k then v else get_zero z m j)"
  by (simp add: get_zero_def)

section \<open>sort.Slice\<close>

text \<open>
  \<open>sort.Slice\<close> is not stable; the lists the code sorts come from ranging over maps, whose order
  is arbitrary already, so a stable sort of an arbitrary order gives every possible outcome.
\<close>

fun insert_by :: "('a \<Rightarrow> 'a \<Rightarrow> bool) \<Rightarrow> 'a \<Rightarrow> 'a list \<Rightarrow> 'a list" where
  "insert_by lt x [] = [x]"
| "insert_by lt x (y # ys) = (if lt y x then y # insert_by lt x ys else x # y # ys)"

definition sort_slice :: "('a \<Rightarrow> 'a \<Rightarrow> bool) \<Rightarrow> 'a list \<Rightarrow> 'a list" where
  "sort_slice lt xs = foldr (insert_by lt) xs []"

lemma sort_slice_simps [simp]:
  "sort_slice lt [] = []"
  "sort_slice lt (x # xs) = insert_by lt x (sort_slice lt xs)"
  by (simp_all add: sort_slice_def)

lemma mset_insert_by [simp]: "mset (insert_by lt x xs) = add_mset x (mset xs)"
  by (induction xs) auto

lemma mset_sort_slice [simp]: "mset (sort_slice lt xs) = mset xs"
  by (induction xs) auto

lemma set_sort_slice [simp]: "set (sort_slice lt xs) = set xs"
  by (metis mset_sort_slice set_mset_mset)

lemma length_sort_slice [simp]: "length (sort_slice lt xs) = length xs"
  by (metis mset_sort_slice size_mset)

lemma distinct_sort_slice [simp]: "distinct (sort_slice lt xs) = distinct xs"
  by (metis mset_sort_slice mset_eq_imp_distinct_iff)

text \<open>The contract of a comparison function that \<open>sort.Slice\<close> needs: a strict weak order.\<close>

locale slice_order =
  fixes lt :: "'a \<Rightarrow> 'a \<Rightarrow> bool"
  assumes asym: "lt a b \<Longrightarrow> \<not> lt b a"
    and neg_trans: "\<not> lt b a \<Longrightarrow> \<not> lt c b \<Longrightarrow> \<not> lt c a"
begin

lemma sorted_insert_by:
  "sorted_wrt (\<lambda>a b. \<not> lt b a) xs \<Longrightarrow> sorted_wrt (\<lambda>a b. \<not> lt b a) (insert_by lt x xs)"
proof (induction xs)
  case Nil
  then show ?case by simp
next
  case (Cons y ys)
  have "set (insert_by lt x ys) = insert x (set ys)"
    by (metis mset_insert_by set_mset_add_mset_insert set_mset_mset)
  with Cons show ?case
    by (auto dest: asym) (meson neg_trans)
qed

lemma sorted_sort_slice: "sorted_wrt (\<lambda>a b. \<not> lt b a) (sort_slice lt xs)"
  by (induction xs) (auto intro: sorted_insert_by)

end

text \<open>Comparing by a key, upwards or downwards, is such an order.\<close>

lemma slice_order_key: "slice_order (\<lambda>a b. (f a :: 'k :: linorder) < f b)"
  by unfold_locales auto

lemma slice_order_key_desc: "slice_order (\<lambda>a b. (f a :: 'k :: linorder) > f b)"
  by unfold_locales auto

text \<open>Comparing by age, and by identifier among things of the same age.\<close>

lemma slice_order_age:
  "slice_order (\<lambda>a b. if (age a :: int) = age b then (key a :: 'k :: linorder) < key b else age a < age b)"
  by unfold_locales (auto split: if_splits)

lemmas sorted_by_age = slice_order.sorted_sort_slice [OF slice_order_age]
text \<open>
  What a listing holds: the values of a map that pass a test, collected by ranging over the map and
  sorted by age.
\<close>

lemma distinct_range_values:
  assumes "distinct ks" and "\<And>k v. m k = Some v \<Longrightarrow> key v = k"
  shows "distinct (range_values ks m)"
proof -
  have "map key (range_values js m) = filter (\<lambda>k. m k \<noteq> None) js" for js
    using assms(2) by (induction js) (auto split: option.splits)
  then have "distinct (map key (range_values ks m))" using assms(1) by simp
  then show ?thesis by (simp add: distinct_map)
qed

lemma listing_facts:
  fixes age :: "'v \<Rightarrow> int" and key :: "'v \<Rightarrow> 'k :: linorder"
  assumes "range_order m ks" and "\<forall>k v. m k = Some v \<longrightarrow> key v = k"
    and "xs = sort_slice (\<lambda>a b. if age a = age b then key a < key b else age a < age b) (filter P (range_values ks m))"
  shows "distinct xs" and "set xs = {v. (\<exists>k. m k = Some v) \<and> P v}"
    and "sorted_wrt (\<lambda>a b. age a \<le> age b) (filter Q xs)"
proof -
  show "distinct xs"
    using distinct_range_values [of ks m key] assms by (simp add: range_order_def)
  show "set xs = {v. (\<exists>k. m k = Some v) \<and> P v}"
    using assms by (auto simp: set_range_values_order ran_def)
  have "sorted_wrt (\<lambda>a b. age a \<le> age b) xs"
    unfolding assms(3) by (rule sorted_wrt_mono_rel [OF _ sorted_by_age]) (auto split: if_splits)
  then show "sorted_wrt (\<lambda>a b. age a \<le> age b) (filter Q xs)" by (rule sorted_wrt_filter)
qed

lemmas sorted_by_key = slice_order.sorted_sort_slice [OF slice_order_key]
lemmas sorted_by_key_desc = slice_order.sorted_sort_slice [OF slice_order_key_desc]

section \<open>Lists\<close>

text \<open>Dropping the elements up to a size limit from the front: \<open>xs[len(xs)-n:]\<close>.\<close>

definition take_last :: "nat \<Rightarrow> 'a list \<Rightarrow> 'a list" where
  "take_last n xs = drop (length xs - n) xs"

lemma length_take_last [simp]: "length (take_last n xs) = min n (length xs)"
  by (simp add: take_last_def)

lemma last_take_last: "0 < n \<Longrightarrow> xs \<noteq> [] \<Longrightarrow> last (take_last n xs) = last xs"
  by (simp add: take_last_def last_drop)

text \<open>Writing through an enumeration: \<open>for i, k := range ks { m[k] = f(i, m[k]) }\<close>.\<close>

primrec fold_index :: "(nat \<Rightarrow> 'k \<Rightarrow> 's \<Rightarrow> 's) \<Rightarrow> nat \<Rightarrow> 'k list \<Rightarrow> 's \<Rightarrow> 's" where
  "fold_index f i [] s = s"
| "fold_index f i (k # ks) s = fold_index f (Suc i) ks (f i k s)"

lemma distinct_concat_map:
  "(\<And>x. x \<in> set xs \<Longrightarrow> distinct (f x)) \<Longrightarrow>
   (\<And>x y. x \<in> set xs \<Longrightarrow> y \<in> set xs \<Longrightarrow> g x \<noteq> g y \<Longrightarrow> set (f x) \<inter> set (f y) = {}) \<Longrightarrow>
   distinct (map g xs) \<Longrightarrow> distinct (concat (map f xs))"
proof (induction xs)
  case (Cons a xs)
  have "set (f a) \<inter> set (f x) = {}" if "x \<in> set xs" for x
    by (rule Cons.prems(2)) (use that Cons.prems(3) in auto)
  then have "set (f a) \<inter> set (concat (map f xs)) = {}" by auto
  moreover have "distinct (concat (map f xs))"
    using Cons by simp
  ultimately show ?case using Cons.prems(1) by simp
qed simp

lemma filter_neq_mset: "distinct xs \<Longrightarrow> mset (filter (\<lambda>y. y \<noteq> x) xs) = mset xs - {#x#}"
  by (induction xs) (auto simp: filter_id_conv)

end
