(* ===== verification/GoStrings.thy ===== *)
theory GoStrings
  imports Prelude
begin

text \<open>
  The functions of Go's \<open>strings\<close> package that the program uses, on byte strings.
  \<open>TrimSpace\<close> removes the Unicode white space characters, recognised by their UTF-8 bytes.
\<close>

section \<open>White space\<close>

text \<open>
  The width in bytes of the white space character at the front of a string, 0 if the first
  character is not white space: \<open>\t \n \v \f \r\<close> and space, U+0085, U+00A0, U+1680,
  U+2000 to U+200A, U+2028, U+2029, U+202F, U+205F and U+3000.
\<close>

definition byte :: "char \<Rightarrow> nat" where "byte c = of_char c"

definition ascii_space :: "nat \<Rightarrow> bool" where
  "ascii_space b \<longleftrightarrow> b = 32 \<or> (9 \<le> b \<and> b \<le> 13)"

definition space3 :: "nat \<Rightarrow> nat \<Rightarrow> nat \<Rightarrow> bool" where
  "space3 a b c \<longleftrightarrow>
     (a = 225 \<and> b = 154 \<and> c = 128) \<or>
     (a = 226 \<and> b = 128 \<and> (128 \<le> c \<and> c \<le> 138 \<or> c = 168 \<or> c = 169 \<or> c = 175)) \<or>
     (a = 226 \<and> b = 129 \<and> c = 159) \<or>
     (a = 227 \<and> b = 128 \<and> c = 128)"

fun space_width :: "string \<Rightarrow> nat" where
  "space_width [] = 0"
| "space_width [a] = (if ascii_space (byte a) then 1 else 0)"
| "space_width [a, b] =
     (if ascii_space (byte a) then 1
      else if byte a = 194 \<and> (byte b = 133 \<or> byte b = 160) then 2 else 0)"
| "space_width (a # b # c # s) =
     (if ascii_space (byte a) then 1
      else if byte a = 194 \<and> (byte b = 133 \<or> byte b = 160) then 2
      else if space3 (byte a) (byte b) (byte c) then 3 else 0)"

text \<open>The same for the last character of a string; the argument is the reversed string.\<close>

fun space_width_rev :: "string \<Rightarrow> nat" where
  "space_width_rev [] = 0"
| "space_width_rev [a] = (if ascii_space (byte a) then 1 else 0)"
| "space_width_rev [b, a] =
     (if ascii_space (byte b) then 1
      else if byte a = 194 \<and> (byte b = 133 \<or> byte b = 160) then 2 else 0)"
| "space_width_rev (c # b # a # s) =
     (if ascii_space (byte c) then 1
      else if byte b = 194 \<and> (byte c = 133 \<or> byte c = 160) then 2
      else if space3 (byte a) (byte b) (byte c) then 3 else 0)"

lemma space_width_le: "space_width s \<le> length s"
  by (cases s rule: space_width.cases) auto

lemma space_width_rev_le: "space_width_rev s \<le> length s"
  by (cases s rule: space_width_rev.cases) auto

function trim_left :: "string \<Rightarrow> string" where
  "trim_left s = (if space_width s = 0 then s else trim_left (drop (space_width s) s))"
  by pat_completeness auto
termination
proof (relation "measure length")
  fix s :: string assume "space_width s \<noteq> 0"
  with space_width_le [of s] show "(drop (space_width s) s, s) \<in> measure length"
    by auto
qed simp

function trim_rev :: "string \<Rightarrow> string" where
  "trim_rev s = (if space_width_rev s = 0 then s else trim_rev (drop (space_width_rev s) s))"
  by pat_completeness auto
termination
proof (relation "measure length")
  fix s :: string assume "space_width_rev s \<noteq> 0"
  with space_width_rev_le [of s] show "(drop (space_width_rev s) s, s) \<in> measure length"
    by auto
qed simp

declare trim_left.simps [simp del] trim_rev.simps [simp del]

definition TrimSpace :: "string \<Rightarrow> string" where
  "TrimSpace s = rev (trim_rev (rev (trim_left s)))"

lemma trim_left_fix: "space_width (trim_left s) = 0"
  by (induction s rule: trim_left.induct) (metis trim_left.simps)

lemma trim_rev_fix: "space_width_rev (trim_rev s) = 0"
  by (induction s rule: trim_rev.induct) (metis trim_rev.simps)

lemma trim_left_id: "space_width s = 0 \<Longrightarrow> trim_left s = s"
  by (simp add: trim_left.simps)

lemma trim_rev_id: "space_width_rev s = 0 \<Longrightarrow> trim_rev s = s"
  by (simp add: trim_rev.simps)

lemma trim_rev_suffix: "\<exists>p. s = p @ trim_rev s"
proof (induction s rule: trim_rev.induct)
  case (1 s)
  show ?case
  proof (cases "space_width_rev s = 0")
    case True
    then show ?thesis by (simp add: trim_rev_id)
  next
    case False
    then obtain p where "drop (space_width_rev s) s = p @ trim_rev (drop (space_width_rev s) s)"
      using 1 by blast
    then have "s = (take (space_width_rev s) s @ p) @ trim_rev (drop (space_width_rev s) s)"
      by (metis append.assoc append_take_drop_id)
    then have "s = (take (space_width_rev s) s @ p) @ trim_rev s"
      using False trim_rev.simps [of s] by simp
    then show ?thesis by blast
  qed
qed

text \<open>A prefix of a string that does not start with white space does not either.\<close>

lemma space_width_prefix: "space_width (s @ t) = 0 \<Longrightarrow> space_width s = 0"
proof (cases s rule: space_width.cases)
  case (2 a)
  assume "space_width (s @ t) = 0"
  with 2 show ?thesis by (cases "a # t" rule: space_width.cases) (auto split: if_splits)
next
  case (3 a b)
  assume "space_width (s @ t) = 0"
  with 3 show ?thesis by (cases t) (auto split: if_splits)
qed auto

lemma TrimSpace_idem [simp]: "TrimSpace (TrimSpace s) = TrimSpace s"
proof -
  let ?l = "trim_left s" and ?r = "rev (trim_rev (rev (trim_left s)))"
  obtain p where "rev ?l = p @ trim_rev (rev ?l)"
    using trim_rev_suffix by blast
  then have "?l = ?r @ rev p"
    by (metis rev_append rev_rev_ident)
  then have "space_width ?r = 0"
    by (metis space_width_prefix trim_left_fix)
  then show ?thesis
    by (simp add: TrimSpace_def trim_left_id trim_rev_id trim_rev_fix)
qed

lemma TrimSpace_Nil [simp]: "TrimSpace [] = []"
  by (simp add: TrimSpace_def trim_left.simps trim_rev.simps)

lemma trim_left_length: "length (trim_left s) \<le> length s"
proof (induction s rule: trim_left.induct)
  case (1 s)
  then show ?case by (cases "space_width s = 0") (auto simp: trim_left.simps [of s] intro: le_trans)
qed

lemma TrimSpace_length: "length (TrimSpace s) \<le> length s"
proof -
  obtain p where "rev (trim_left s) = p @ trim_rev (rev (trim_left s))" using trim_rev_suffix by blast
  then have "length (trim_rev (rev (trim_left s))) \<le> length (trim_left s)"
    by (metis length_append length_rev le_add2)
  then show ?thesis using trim_left_length [of s] by (simp add: TrimSpace_def)
qed

section \<open>ASCII case\<close>

definition ascii_lower :: "char \<Rightarrow> char" where
  "ascii_lower c = (if 65 \<le> byte c \<and> byte c \<le> 90 then char_of (byte c + 32) else c)"

text \<open>
  \<open>strings.EqualFold(s, t)\<close> for a \<open>t\<close> of ASCII letters other than k and s: none of these letters
  folds with a character outside ASCII, so folding is the ASCII one.
\<close>

definition EqualFold :: "string \<Rightarrow> string \<Rightarrow> bool" where
  "EqualFold s t \<longleftrightarrow> map ascii_lower s = map ascii_lower t"

section \<open>UTF-8 and strings.ToLower\<close>

text \<open>
  Decoding follows \<open>utf8.DecodeRune\<close>: the rune at the front and its width, or U+FFFD with width 1
  for bytes that are not valid UTF-8.
\<close>

definition cont_byte :: "nat \<Rightarrow> bool" where "cont_byte b \<longleftrightarrow> 128 \<le> b \<and> b \<le> 191"

fun decode_rune :: "nat list \<Rightarrow> nat \<times> nat" where
  "decode_rune [] = (65533, 0)"
| "decode_rune (a # r) =
     (if a < 128 then (a, 1)
      else if 194 \<le> a \<and> a \<le> 223 then
        (case r of b # _ \<Rightarrow> if cont_byte b then ((a - 192) * 64 + (b - 128), 2) else (65533, 1)
         | [] \<Rightarrow> (65533, 1))
      else if 224 \<le> a \<and> a \<le> 239 then
        (case r of b # c # _ \<Rightarrow>
           if (if a = 224 then 160 else 128) \<le> b \<and> b \<le> (if a = 237 then 159 else 191) \<and> cont_byte c
           then ((a - 224) * 4096 + (b - 128) * 64 + (c - 128), 3) else (65533, 1)
         | _ \<Rightarrow> (65533, 1))
      else if 240 \<le> a \<and> a \<le> 244 then
        (case r of b # c # d # _ \<Rightarrow>
           if (if a = 240 then 144 else 128) \<le> b \<and> b \<le> (if a = 244 then 143 else 191) \<and>
              cont_byte c \<and> cont_byte d
           then ((a - 240) * 262144 + (b - 128) * 4096 + (c - 128) * 64 + (d - 128), 4)
           else (65533, 1)
         | _ \<Rightarrow> (65533, 1))
      else (65533, 1))"

lemma decode_rune_width: "1 \<le> snd (decode_rune (a # r))"
  by (auto split: list.splits)

function runes_of :: "nat list \<Rightarrow> nat list" where
  "runes_of [] = []"
| "runes_of (a # r) = fst (decode_rune (a # r)) # runes_of (drop (snd (decode_rune (a # r))) (a # r))"
  by pat_completeness auto
termination
proof (relation "measure length")
  fix a r
  show "(drop (snd (decode_rune (a # r))) (a # r), a # r) \<in> measure length"
    using decode_rune_width [of a r] by (simp del: decode_rune.simps)
qed simp

definition encode_rune :: "nat \<Rightarrow> nat list" where
  "encode_rune c =
     (if c < 128 then [c]
      else if c < 2048 then [192 + c div 64, 128 + c mod 64]
      else if c > 1114111 \<or> (55296 \<le> c \<and> c \<le> 57343) then [239, 191, 189]
      else if c < 65536 then [224 + c div 4096, 128 + c div 64 mod 64, 128 + c mod 64]
      else [240 + c div 262144, 128 + c div 4096 mod 64, 128 + c div 64 mod 64, 128 + c mod 64])"

definition runes :: "string \<Rightarrow> nat list" where "runes s = runes_of (map byte s)"

definition of_runes :: "nat list \<Rightarrow> string" where
  "of_runes rs = map char_of (concat (map encode_rune rs))"

text \<open>
  \<open>strings.ToLower\<close>. The Unicode table \<open>unicode.ToLower\<close> is the argument \<open>lo\<close>; every theorem holds
  for any table.
\<close>

definition ToLower :: "(nat \<Rightarrow> nat) \<Rightarrow> string \<Rightarrow> string" where
  "ToLower lo s =
     (if list_all (\<lambda>c. byte c < 128) s then map ascii_lower s
      else of_runes (map lo (runes s)))"

section \<open>Prefixes, splitting\<close>

fun HasPrefix :: "string \<Rightarrow> string \<Rightarrow> bool" where
  "HasPrefix s [] = True"
| "HasPrefix [] (p # ps) = False"
| "HasPrefix (c # cs) (p # ps) = (c = p \<and> HasPrefix cs ps)"

definition HasSuffix :: "string \<Rightarrow> string \<Rightarrow> bool" where
  "HasSuffix s t = HasPrefix (rev s) (rev t)"

lemma HasPrefix_iff: "HasPrefix s p \<longleftrightarrow> (\<exists>t. s = p @ t)"
  by (induction s p rule: HasPrefix.induct) auto

lemma HasSuffix_iff: "HasSuffix s p \<longleftrightarrow> (\<exists>t. s = t @ p)"
  by (auto simp: HasSuffix_def HasPrefix_iff) (metis rev_append rev_rev_ident)

text \<open>\<open>strings.Split\<close> with a separator of one byte.\<close>

fun split_on :: "char \<Rightarrow> string \<Rightarrow> string list" where
  "split_on c [] = [[]]"
| "split_on c (x # xs) =
     (if x = c then [] # split_on c xs
      else (case split_on c xs of [] \<Rightarrow> [[x]] | l # ls \<Rightarrow> (x # l) # ls))"

fun join_with :: "char \<Rightarrow> string list \<Rightarrow> string" where
  "join_with c [] = []"
| "join_with c [l] = l"
| "join_with c (l # ls) = l @ c # join_with c ls"

lemma split_on_not_Nil [simp]: "split_on c s \<noteq> []"
  by (induction s) (auto split: list.splits)

lemma join_split: "join_with c (split_on c s) = s"
proof (induction s)
  case Nil
  then show ?case by simp
next
  case (Cons x xs)
  then show ?case
    by (cases "split_on c xs"; cases "tl (split_on c xs)") auto
qed

lemma split_on_no_sep: "l \<in> set (split_on c s) \<Longrightarrow> c \<notin> set l"
  by (induction s arbitrary: l) (fastforce split: if_splits list.splits)+

text \<open>\<open>strings.Contains\<close>.\<close>

fun Contains :: "string \<Rightarrow> string \<Rightarrow> bool" where
  "Contains [] p = (p = [])"
| "Contains (c # cs) p = (HasPrefix (c # cs) p \<or> Contains cs p)"

lemma Contains_iff: "Contains s p \<longleftrightarrow> (\<exists>a b. s = a @ p @ b)"
proof (induction s)
  case Nil
  then show ?case by auto
next
  case (Cons c cs)
  show ?case
  proof
    assume "Contains (c # cs) p"
    then consider (here) t where "c # cs = p @ t" | (later) a b where "cs = a @ p @ b"
      using Cons by (auto simp: HasPrefix_iff)
    then show "\<exists>a b. c # cs = a @ p @ b"
    proof cases
      case here
      then show ?thesis by (intro exI [of _ "[]"] exI [of _ t]) simp
    next
      case later
      then show ?thesis by (intro exI [of _ "c # a"] exI [of _ b]) simp
    qed
  next
    assume "\<exists>a b. c # cs = a @ p @ b"
    then obtain a b where ab: "c # cs = a @ p @ b" by blast
    show "Contains (c # cs) p"
    proof (cases a)
      case Nil
      with ab have "HasPrefix (c # cs) p" by (auto simp only: HasPrefix_iff append_Nil)
      then show ?thesis by simp
    next
      case (Cons a1 a2)
      with ab have "cs = a2 @ p @ b" by simp
      then show ?thesis using \<open>Contains cs p = _\<close> by auto
    qed
  qed
qed

end
