(* ===== verification/Domain.thy ===== *)
theory Domain
  imports GoStrings
begin

text \<open>
  The data model: the structs and constants of \<open>domain/domain.go\<close>, one record per struct, with
  the field names of the source behind a prefix per struct, and the small pure functions on them
  (\<open>RoleAtLeast\<close>, \<open>PageVisibleToGuest\<close>, \<open>DevDisplayName\<close>, \<open>ValidCollabRoom\<close>,
  \<open>ValidFilePurpose\<close>). A struct the code reads from a map without testing for the key has a
  \<open>zero_\<close> value, Go's zero value of the struct.
\<close>

section \<open>Roles\<close>

text \<open>A role is a string; the three roles the program knows are constants.\<close>

type_synonym role = string

definition RoleOwner :: role where "RoleOwner = ''owner''"
definition RoleMember :: role where "RoleMember = ''member''"
definition RoleGuest :: role where "RoleGuest = ''guest''"

text \<open>The map \<open>order\<close> gives 0 for a role it does not hold.\<close>

definition role_order :: "role \<Rightarrow> int" where
  "role_order r = (if r = RoleGuest then 0 else if r = RoleMember then 1
     else if r = RoleOwner then 2 else 0)"

definition RoleAtLeast :: "role \<Rightarrow> role \<Rightarrow> bool" where
  "RoleAtLeast have_role need \<longleftrightarrow> role_order have_role \<ge> role_order need"

lemma roles_distinct [simp]:
  "RoleOwner \<noteq> RoleMember" "RoleMember \<noteq> RoleOwner"
  "RoleOwner \<noteq> RoleGuest" "RoleGuest \<noteq> RoleOwner"
  "RoleMember \<noteq> RoleGuest" "RoleGuest \<noteq> RoleMember"
  "RoleOwner \<noteq> []" "RoleMember \<noteq> []" "RoleGuest \<noteq> []"
  "[] \<noteq> RoleOwner" "[] \<noteq> RoleMember" "[] \<noteq> RoleGuest"
  by (simp_all add: RoleOwner_def RoleMember_def RoleGuest_def)

lemma RoleAtLeast_owner [simp]: "RoleAtLeast r RoleOwner \<longleftrightarrow> r = RoleOwner"
  by (auto simp: RoleAtLeast_def role_order_def)

lemma RoleAtLeast_member [simp]: "RoleAtLeast r RoleMember \<longleftrightarrow> r = RoleOwner \<or> r = RoleMember"
  by (auto simp: RoleAtLeast_def role_order_def)

lemma RoleAtLeast_guest [simp]: "RoleAtLeast r RoleGuest"
  by (auto simp: RoleAtLeast_def role_order_def)

section \<open>Workspaces, members, invitations, audit events\<close>

record Workspace =
  ws_ID :: id
  ws_Name :: string
  ws_OrgID :: string
  ws_CreatedAt :: time

record Member =
  mb_WorkspaceID :: id
  mb_Sub :: string
  mb_DisplayName :: string
  mb_Role :: role
  mb_JoinedAt :: time

record Invitation =
  inv_ID :: id
  inv_WorkspaceID :: id
  inv_TokenHash :: string
  inv_Role :: role
  inv_InvitedEmail :: string
  inv_MaxUses :: int
  inv_UseCount :: int
  inv_ExpiresAt :: time
  inv_InvitedBy :: string
  inv_CreatedAt :: time
  inv_RevokedAt :: "time option"

record AuditEvent =
  ae_ID :: id
  ae_WorkspaceID :: id
  ae_ActorSub :: string
  ae_Type :: string
  ae_TargetSub :: string
  ae_InviteID :: string
  ae_CreatedAt :: time

section \<open>Boards, columns, cards, sprints\<close>

record Board =
  bd_ID :: id
  bd_WorkspaceID :: id
  bd_Name :: string
  bd_CreatedAt :: time
  bd_ArchivedAt :: "time option"

record Column =
  co_ID :: id
  co_BoardID :: id
  co_Name :: string
  co_Position :: int
  co_CreatedAt :: time

record Card =
  ca_ID :: id
  ca_ColumnID :: id
  ca_BoardID :: id
  ca_Title :: string
  ca_Description :: string
  ca_Position :: int
  ca_Version :: int
  ca_SprintID :: id
  ca_CompletedAt :: "time option"
  ca_AssigneeSub :: string
  ca_Priority :: string
  ca_DueDate :: "time option"
  ca_CreatedAt :: time
  ca_UpdatedAt :: time

record ColumnWithCards =
  cwc_Column :: Column
  cwc_Cards :: "Card list"

record BoardDetail =
  bdd_Board :: Board
  bdd_Columns :: "ColumnWithCards list"

record Sprint =
  sp_ID :: id
  sp_BoardID :: id
  sp_WorkspaceID :: id
  sp_Name :: string
  sp_StartAt :: time
  sp_EndAt :: time
  sp_CreatedAt :: time

definition zero_Column :: Column where
  "zero_Column = \<lparr>co_ID = [], co_BoardID = [], co_Name = [], co_Position = 0, co_CreatedAt = 0\<rparr>"

definition zero_Card :: Card where
  "zero_Card = \<lparr>ca_ID = [], ca_ColumnID = [], ca_BoardID = [], ca_Title = [], ca_Description = [],
     ca_Position = 0, ca_Version = 0, ca_SprintID = [], ca_CompletedAt = None, ca_AssigneeSub = [],
     ca_Priority = [], ca_DueDate = None, ca_CreatedAt = 0, ca_UpdatedAt = 0\<rparr>"

section \<open>Pages, page versions, documents, collaboration\<close>

record Page =
  pg_ID :: id
  pg_WorkspaceID :: id
  pg_ParentID :: id
  pg_Title :: string
  pg_Body :: string
  pg_Status :: string
  pg_Position :: int
  pg_Version :: int
  pg_CollabDocumentID :: id
  pg_CreatedAt :: time
  pg_UpdatedAt :: time
  pg_ArchivedAt :: "time option"

record PageVersion =
  pv_PageID :: id
  pv_Number :: int
  pv_Title :: string
  pv_Status :: string
  pv_Body :: string
  pv_Sub :: string
  pv_CreatedAt :: time

record PageVersionInfo =
  pvi_PageID :: id
  pvi_Number :: int
  pvi_Title :: string
  pvi_Status :: string
  pvi_Sub :: string
  pvi_CreatedAt :: time

record Document =
  doc_ID :: id
  doc_WorkspaceID :: id
  doc_Title :: string
  doc_Body :: string
  doc_CollabDocumentID :: id
  doc_LastEditorSub :: string
  doc_CreatedAt :: time
  doc_UpdatedAt :: time
  doc_DeletedAt :: "time option"

record CollabTicket =
  ct_ID :: id
  ct_Sub :: string
  ct_CollabDocumentID :: id
  ct_ReadOnly :: bool
  ct_ExpiresAt :: time

record CollabAuth =
  cau_Sub :: string
  cau_CollabDocumentID :: id
  cau_ReadOnly :: bool

definition zero_Page :: Page where
  "zero_Page = \<lparr>pg_ID = [], pg_WorkspaceID = [], pg_ParentID = [], pg_Title = [], pg_Body = [],
     pg_Status = [], pg_Position = 0, pg_Version = 0, pg_CollabDocumentID = [], pg_CreatedAt = 0,
     pg_UpdatedAt = 0, pg_ArchivedAt = None\<rparr>"

definition Info :: "PageVersion \<Rightarrow> PageVersionInfo" where
  "Info v = \<lparr>pvi_PageID = pv_PageID v, pvi_Number = pv_Number v, pvi_Title = pv_Title v,
     pvi_Status = pv_Status v, pvi_Sub = pv_Sub v, pvi_CreatedAt = pv_CreatedAt v\<rparr>"

section \<open>Channels, messages, tickets, files, search hits\<close>

record Channel =
  ch_ID :: id
  ch_WorkspaceID :: id
  ch_Name :: string
  ch_CreatedAt :: time

record ChannelView =
  cv_Channel :: Channel
  cv_LastReadSeq :: int
  cv_UnreadCount :: int

record ChatMessage =
  cm_ID :: id
  cm_ChannelID :: id
  cm_Sub :: string
  cm_Body :: string
  cm_Mentions :: "string list"
  cm_AttachmentFileID :: id
  cm_Seq :: int
  cm_CreatedAt :: time

record ChatTicket =
  cht_ID :: id
  cht_Sub :: string
  cht_ChannelID :: id
  cht_ReadOnly :: bool
  cht_ExpiresAt :: time

record StoredFile =
  sf_ID :: id
  sf_WorkspaceID :: id
  sf_UploaderSub :: string
  sf_Purpose :: string
  sf_Provider :: string
  sf_ContentType :: string
  sf_Size :: int
  sf_Name :: string
  sf_ViewToken :: string
  sf_Path :: string
  sf_CreatedAt :: time

record SearchHit =
  hit_Type :: string
  hit_ID :: id
  hit_Title :: string
  hit_Context :: string
  hit_MatchLabel :: string
  hit_Snippet :: string
  hit_HrefHints :: "(string \<times> string) list"

section \<open>Constants\<close>

definition PageStatusDraft :: string where "PageStatusDraft = ''draft''"
definition PageStatusPublished :: string where "PageStatusPublished = ''published''"
definition MaxPageTitle :: nat where "MaxPageTitle = 160"
definition MaxPageBody :: nat where "MaxPageBody = 100000"
definition MaxChannelName :: nat where "MaxChannelName = 80"
definition MaxColumnName :: nat where "MaxColumnName = 80"
definition MaxChatMessage :: nat where "MaxChatMessage = 4000"
definition DefaultChannelName :: string where "DefaultChannelName = ''general''"
definition MaxUploadBytes :: int where "MaxUploadBytes = 20 * 1024 * 1024"
definition PurposeWiki :: string where "PurposeWiki = ''wiki''"
definition PurposeChat :: string where "PurposeChat = ''chat''"
definition FileProviderLocal :: string where "FileProviderLocal = ''local''"
definition FileProviderP03 :: string where "FileProviderP03 = ''p03''"
definition DoneColumnName :: string where "DoneColumnName = ''Done''"
definition MaxSprintName :: nat where "MaxSprintName = 80"
definition MaxSprintDays :: nat where "MaxSprintDays = 90"
definition MaxPageVersions :: nat where "MaxPageVersions = 100"
definition MaxInviteUses :: int where "MaxInviteUses = 100"
definition CollabTicketTTL :: int where "CollabTicketTTL = 15 * Minute"

lemma status_distinct [simp]: "PageStatusDraft \<noteq> PageStatusPublished" "PageStatusPublished \<noteq> PageStatusDraft"
  by (simp_all add: PageStatusDraft_def PageStatusPublished_def)

lemma CollabTicketTTL_pos [simp]: "0 < CollabTicketTTL"
  by (simp add: CollabTicketTTL_def)

section \<open>Small functions\<close>

definition PageVisibleToGuest :: "Page \<Rightarrow> bool" where
  "PageVisibleToGuest p \<longleftrightarrow> pg_Status p = PageStatusPublished"

definition ColumnIsDone :: "string \<Rightarrow> bool" where
  "ColumnIsDone name = EqualFold (TrimSpace name) DoneColumnName"

definition DevDisplayName :: "string \<Rightarrow> string" where
  "DevDisplayName sub =
     (let t = TrimSpace sub in
      if t = ''demo-user-a'' then ''Demo User A''
      else if t = ''demo-user-b'' then ''Demo User B''
      else [])"

definition ValidFilePurpose :: "string \<Rightarrow> bool" where
  "ValidFilePurpose purpose \<longleftrightarrow> purpose = PurposeWiki \<or> purpose = PurposeChat"

text \<open>\<open>ulid_ok\<close> is the third-party \<open>ulid.Parse\<close>: whether it accepts the string.\<close>

definition ValidCollabRoom :: "(string \<Rightarrow> bool) \<Rightarrow> string \<Rightarrow> bool" where
  "ValidCollabRoom ulid_ok name = (if name = [] \<or> length name > 32 then False else ulid_ok name)"

end
