(* ===== verification/Store.thy ===== *)
theory Store
  imports Domain
begin

text \<open>
  The state of the program: the in-memory store of \<open>store/memory/store.go\<close>, its constructor, its
  tenant scoping (\<open>WithTenant\<close>, \<open>Unscoped\<close>, \<open>allowOrg\<close>), and the service's use of it
  (\<open>service/tenant.go\<close>).

  Every method of the Go store holds the store's mutex while it runs, so a method is one atomic
  step and is modelled as a function from the store to the store. \<open>WithTenant\<close> and \<open>Unscoped\<close>
  copy the struct: the copy has its own scope fields and shares the maps, so what is written through
  the copy is visible in the original (\<open>rejoin\<close>).
\<close>

section \<open>The store\<close>

record collabRef =
  cr_kind :: string
  cr_id :: id

record Store =
  orgFilter :: string
  skipTenant :: bool
  workspaces :: "id \<rightharpoonup> Workspace"
  members :: "id \<rightharpoonup> (string \<rightharpoonup> Member)"
  invitations :: "id \<rightharpoonup> Invitation"
  audits :: "id \<rightharpoonup> AuditEvent list"
  boards :: "id \<rightharpoonup> Board"
  columns :: "id \<rightharpoonup> Column"
  cards :: "id \<rightharpoonup> Card"
  boardCols :: "id \<rightharpoonup> id list"
  columnCards :: "id \<rightharpoonup> id list"
  pages :: "id \<rightharpoonup> Page"
  documents :: "id \<rightharpoonup> Document"
  tickets :: "id \<rightharpoonup> CollabTicket"
  collabIndex :: "id \<rightharpoonup> collabRef"
  channels :: "id \<rightharpoonup> Channel"
  messages :: "id \<rightharpoonup> ChatMessage list"
  chatReads :: "id \<rightharpoonup> (string \<rightharpoonup> int)"
  chatTickets :: "id \<rightharpoonup> ChatTicket"
  files :: "id \<rightharpoonup> StoredFile"
  pageFiles :: "id \<rightharpoonup> id list"
  sprints :: "id \<rightharpoonup> Sprint"
  pageVersions :: "id \<rightharpoonup> PageVersion list"

text \<open>The constructor \<open>New\<close>.\<close>

definition New :: Store where
  "New = \<lparr>orgFilter = [], skipTenant = False, workspaces = Map.empty, members = Map.empty,
     invitations = Map.empty, audits = Map.empty, boards = Map.empty, columns = Map.empty,
     cards = Map.empty, boardCols = Map.empty, columnCards = Map.empty, pages = Map.empty,
     documents = Map.empty, tickets = Map.empty, collabIndex = Map.empty, channels = Map.empty,
     messages = Map.empty, chatReads = Map.empty, chatTickets = Map.empty, files = Map.empty,
     pageFiles = Map.empty, sprints = Map.empty, pageVersions = Map.empty\<rparr>"

section \<open>Tenant scoping\<close>

definition WithTenant :: "string \<Rightarrow> Store \<Rightarrow> Store" where
  "WithTenant tenantID s = s\<lparr>orgFilter := tenantID, skipTenant := False\<rparr>"

definition Unscoped :: "Store \<Rightarrow> Store" where
  "Unscoped s = s\<lparr>skipTenant := True, orgFilter := []\<rparr>"

definition allowOrg :: "Store \<Rightarrow> string \<Rightarrow> bool" where
  "allowOrg s orgID = (if skipTenant s \<or> orgFilter s = [] then True else orgID = orgFilter s)"

text \<open>The maps of \<open>s'\<close>, seen through the handle \<open>s\<close>.\<close>

definition rejoin :: "Store \<Rightarrow> Store \<Rightarrow> Store" where
  "rejoin s s' = s'\<lparr>orgFilter := orgFilter s, skipTenant := skipTenant s\<rparr>"

text \<open>
  The service holds the two scoping functions when \<open>ConfigureTenant\<close> was called
  (\<open>tenant = True\<close>); without them it keeps its store.
\<close>

definition svc_ForOrg :: "bool \<Rightarrow> string \<Rightarrow> Store \<Rightarrow> Store" where
  "svc_ForOrg tenant orgID s = (if \<not> tenant then s else WithTenant orgID s)"

definition svc_Unscoped :: "bool \<Rightarrow> Store \<Rightarrow> Store" where
  "svc_Unscoped tenant s = (if \<not> tenant then s else Unscoped s)"

lemmas scope_defs = WithTenant_def Unscoped_def rejoin_def svc_ForOrg_def svc_Unscoped_def

section \<open>The parts of the store\<close>

text \<open>
  The maps that belong together. An operation of one component leaves the parts of the others
  alone, so an invariant of a part is kept by every operation that does not write it.
\<close>

definition membership_part where
  "membership_part s = (workspaces s, members s)"

definition board_part where
  "board_part s = (boards s, columns s, cards s, boardCols s, columnCards s, sprints s)"

definition page_part where
  "page_part s = (pages s, pageVersions s)"

definition collab_part where
  "collab_part s = (documents s, collabIndex s, tickets s)"

definition chat_part where
  "chat_part s = (channels s, messages s, chatReads s, chatTickets s)"

definition file_part where
  "file_part s = (files s, pageFiles s)"

lemmas parts =
  membership_part_def board_part_def page_part_def collab_part_def chat_part_def file_part_def

text \<open>Scoping changes no map.\<close>

lemma scope_parts [simp]:
  "membership_part (svc_ForOrg c k s) = membership_part s"
  "membership_part (svc_Unscoped c s) = membership_part s"
  "membership_part (rejoin s' s) = membership_part s"
  "board_part (rejoin s' s) = board_part s" "page_part (rejoin s' s) = page_part s"
  "collab_part (rejoin s' s) = collab_part s" "chat_part (rejoin s' s) = chat_part s"
  "file_part (rejoin s' s) = file_part s"
  by (simp_all add: scope_defs parts)

lemma scope_maps [simp]:
  "workspaces (svc_ForOrg c k s) = workspaces s" "workspaces (svc_Unscoped c s) = workspaces s"
  "workspaces (rejoin s' s) = workspaces s"
  "members (svc_ForOrg c k s) = members s" "members (svc_Unscoped c s) = members s"
  "members (rejoin s' s) = members s"
  "invitations (svc_ForOrg c k s) = invitations s" "invitations (svc_Unscoped c s) = invitations s"
  "invitations (rejoin s' s) = invitations s"
  "files (svc_Unscoped c s) = files s" "pages (svc_Unscoped c s) = pages s"
  "documents (svc_Unscoped c s) = documents s" "collabIndex (svc_Unscoped c s) = collabIndex s"
  by (simp_all add: scope_defs)

lemma rejoin_id [simp]: "rejoin s s = s"
  and rejoin_rejoin [simp]: "rejoin s (rejoin s' t) = rejoin s t"
  by (simp_all add: rejoin_def)

lemma rejoin_scope [simp]: "rejoin s (svc_ForOrg c k s) = s" "rejoin s (svc_Unscoped c s) = s"
  by (simp_all add: scope_defs)

section \<open>The environment\<close>

text \<open>
  What stays fixed while a server runs: the table of \<open>unicode.ToLower\<close>, SHA-256 in hexadecimal,
  the third-party \<open>ulid.Parse\<close> as a test, whether the tenant scoping is configured, and the file
  options of the service.
\<close>

record Env =
  env_lo :: "nat \<Rightarrow> nat"
  env_sha :: "string \<Rightarrow> string"
  env_ulid :: "string \<Rightarrow> bool"
  env_tenant :: bool
  env_publicURL :: string
  env_mediaURL :: string
  env_uploadDir :: string

text \<open>Forgetting the value of an operation: did it fail, and the new store.\<close>

definition outcome :: "'a result \<times> Store \<Rightarrow> unit result \<times> Store" where
  "outcome r = ((case fst r of Inl e \<Rightarrow> Inl e | Inr _ \<Rightarrow> Inr ()), snd r)"

lemma snd_outcome [simp]: "snd (outcome r) = snd r"
  by (simp add: outcome_def)

lemma fst_outcome [simp]:
  "fst (outcome r) = Inl e \<longleftrightarrow> fst r = Inl e" "fst (outcome r) = Inr u \<longleftrightarrow> (\<exists>x. fst r = Inr x)"
  by (cases "fst r"; simp add: outcome_def)+

section \<open>Fresh identifiers\<close>

text \<open>
  \<open>id.New()\<close> makes a ULID (a third-party package): 26 characters, never the same twice. What the
  program relies on is that a new identifier is not empty and is no key of a map yet.
\<close>

definition fresh :: "Store \<Rightarrow> id \<Rightarrow> bool" where
  "fresh s k \<longleftrightarrow> k \<noteq> [] \<and> workspaces s k = None \<and> members s k = None \<and> invitations s k = None \<and>
     boards s k = None \<and> columns s k = None \<and> cards s k = None \<and> boardCols s k = None \<and>
     columnCards s k = None \<and> pages s k = None \<and> documents s k = None \<and> tickets s k = None \<and>
     collabIndex s k = None \<and> channels s k = None \<and> messages s k = None \<and> chatReads s k = None \<and>
     chatTickets s k = None \<and> files s k = None \<and> pageFiles s k = None \<and> sprints s k = None \<and>
     pageVersions s k = None"

lemma fresh_New: "k \<noteq> [] \<Longrightarrow> fresh New k"
  by (simp add: fresh_def New_def)

end
