(* ===== verification/MemWorkspaces.thy ===== *)
theory MemWorkspaces
  imports Store
begin

text \<open>
  \<open>store/memory/store.go\<close>, first part: workspaces, members, invitations and audit events.
  An operation that may write returns its result and the new store. A list operation takes the
  order \<open>ks\<close> in which the runtime ranges over the map.
\<close>

section \<open>Workspaces\<close>

definition mem_CreateWorkspace ::
  "Store \<Rightarrow> id \<Rightarrow> string \<Rightarrow> string \<Rightarrow> string \<Rightarrow> time \<Rightarrow> Workspace result \<times> Store" where
  "mem_CreateWorkspace s nid name ownerSub orgID now =
     (let ws = \<lparr>ws_ID = nid, ws_Name = name, ws_OrgID = orgID, ws_CreatedAt = now\<rparr>;
          inner = (case members s nid of None \<Rightarrow> Map.empty | Some ms \<Rightarrow> ms);
          owner = \<lparr>mb_WorkspaceID = nid, mb_Sub = ownerSub, mb_DisplayName = DevDisplayName ownerSub,
                   mb_Role = RoleOwner, mb_JoinedAt = now\<rparr>
      in (Inr ws, s\<lparr>workspaces := (workspaces s)(nid \<mapsto> ws),
                    members := (members s)(nid \<mapsto> inner(ownerSub \<mapsto> owner))\<rparr>))"

definition mem_ListWorkspacesForSub :: "id list \<Rightarrow> Store \<Rightarrow> string \<Rightarrow> Workspace list" where
  "mem_ListWorkspacesForSub ks s sub =
     sort_slice (\<lambda>a b. ws_CreatedAt a < ws_CreatedAt b)
       (List.map_filter
          (\<lambda>wsID. case members s wsID of
             None \<Rightarrow> None
           | Some ms \<Rightarrow>
               (if ms sub = None then None
                else (case workspaces s wsID of
                        None \<Rightarrow> None
                      | Some ws \<Rightarrow> if allowOrg s (ws_OrgID ws) then Some ws else None)))
          ks)"

definition mem_GetWorkspace :: "Store \<Rightarrow> id \<Rightarrow> Workspace result" where
  "mem_GetWorkspace s wsID =
     (case workspaces s wsID of
        None \<Rightarrow> Inl ErrNotFound
      | Some ws \<Rightarrow> if \<not> allowOrg s (ws_OrgID ws) then Inl ErrNotFound else Inr ws)"

section \<open>Members\<close>

definition mem_MemberRole :: "Store \<Rightarrow> id \<Rightarrow> string \<Rightarrow> role result" where
  "mem_MemberRole s wsID sub =
     (case members s wsID of
        None \<Rightarrow> Inl ErrNotFound
      | Some ms \<Rightarrow> (case ms sub of None \<Rightarrow> Inl ErrForbidden | Some m \<Rightarrow> Inr (mb_Role m)))"

definition mem_ListMembers :: "string list \<Rightarrow> Store \<Rightarrow> id \<Rightarrow> Member list result" where
  "mem_ListMembers ks s wsID =
     (case members s wsID of
        None \<Rightarrow> Inl ErrNotFound
      | Some ms \<Rightarrow> Inr (sort_slice (\<lambda>a b. mb_JoinedAt a < mb_JoinedAt b) (range_values ks ms)))"

definition mem_GetMember :: "Store \<Rightarrow> id \<Rightarrow> string \<Rightarrow> Member result" where
  "mem_GetMember s wsID sub =
     (case members s wsID of
        None \<Rightarrow> Inl ErrNotFound
      | Some ms \<Rightarrow> (case ms sub of None \<Rightarrow> Inl ErrNotFound | Some m \<Rightarrow> Inr m))"

definition mem_AddMember ::
  "Store \<Rightarrow> id \<Rightarrow> string \<Rightarrow> role \<Rightarrow> time \<Rightarrow> Member result \<times> Store" where
  "mem_AddMember s wsID sub role now =
     (case members s wsID of
        None \<Rightarrow> (Inl ErrNotFound, s)
      | Some ms \<Rightarrow>
          (if ms sub \<noteq> None then (Inl ErrConflict, s)
           else (let m = \<lparr>mb_WorkspaceID = wsID, mb_Sub = sub, mb_DisplayName = DevDisplayName sub,
                          mb_Role = role, mb_JoinedAt = now\<rparr>
                 in (Inr m, s\<lparr>members := (members s)(wsID \<mapsto> ms(sub \<mapsto> m))\<rparr>))))"

definition mem_UpdateMemberRole ::
  "Store \<Rightarrow> id \<Rightarrow> string \<Rightarrow> role \<Rightarrow> Member result \<times> Store" where
  "mem_UpdateMemberRole s wsID sub role =
     (case members s wsID of
        None \<Rightarrow> (Inl ErrNotFound, s)
      | Some ms \<Rightarrow>
          (case ms sub of
             None \<Rightarrow> (Inl ErrNotFound, s)
           | Some m0 \<Rightarrow>
               (let m = m0\<lparr>mb_Role := role\<rparr>
                in (Inr m, s\<lparr>members := (members s)(wsID \<mapsto> ms(sub \<mapsto> m))\<rparr>))))"

definition mem_RemoveMember :: "Store \<Rightarrow> id \<Rightarrow> string \<Rightarrow> unit result \<times> Store" where
  "mem_RemoveMember s wsID sub =
     (case members s wsID of
        None \<Rightarrow> (Inl ErrNotFound, s)
      | Some ms \<Rightarrow>
          (if ms sub = None then (Inl ErrNotFound, s)
           else (Inr (), s\<lparr>members := (members s)(wsID \<mapsto> ms(sub := None))\<rparr>)))"

definition mem_UpdateMemberDisplayName ::
  "Store \<Rightarrow> id \<Rightarrow> string \<Rightarrow> string \<Rightarrow> Member result \<times> Store" where
  "mem_UpdateMemberDisplayName s wsID sub displayName0 =
     (let displayName = TrimSpace displayName0 in
      if displayName = [] then (Inl ErrInvalid, s)
      else (case members s wsID of
              None \<Rightarrow> (Inl ErrNotFound, s)
            | Some ms \<Rightarrow>
                (case ms sub of
                   None \<Rightarrow> (Inl ErrNotFound, s)
                 | Some m0 \<Rightarrow>
                     (let m = m0\<lparr>mb_DisplayName := displayName\<rparr>
                      in (Inr m, s\<lparr>members := (members s)(wsID \<mapsto> ms(sub \<mapsto> m))\<rparr>)))))"

section \<open>Invitations\<close>

definition mem_CreateInvitation ::
  "Store \<Rightarrow> id \<Rightarrow> id \<Rightarrow> string \<Rightarrow> role \<Rightarrow> string \<Rightarrow> int \<Rightarrow> time \<Rightarrow> string \<Rightarrow> time
   \<Rightarrow> Invitation result \<times> Store" where
  "mem_CreateInvitation s nid wsID tokenHash role invitedEmail maxUses expiresAt invitedBy now =
     (if workspaces s wsID = None then (Inl ErrNotFound, s)
      else (let iv = \<lparr>inv_ID = nid, inv_WorkspaceID = wsID, inv_TokenHash = tokenHash,
                       inv_Role = role, inv_InvitedEmail = invitedEmail, inv_MaxUses = maxUses,
                       inv_UseCount = 0, inv_ExpiresAt = expiresAt, inv_InvitedBy = invitedBy,
                       inv_CreatedAt = now, inv_RevokedAt = None\<rparr>
            in (Inr iv, s\<lparr>invitations := (invitations s)(nid \<mapsto> iv)\<rparr>)))"

definition mem_ListInvitations :: "id list \<Rightarrow> Store \<Rightarrow> id \<Rightarrow> Invitation list result" where
  "mem_ListInvitations ks s wsID =
     (if workspaces s wsID = None then Inl ErrNotFound
      else Inr (sort_slice (\<lambda>a b. inv_CreatedAt a > inv_CreatedAt b)
                  (filter (\<lambda>iv. inv_WorkspaceID iv = wsID) (range_values ks (invitations s)))))"

definition mem_GetInvitationByTokenHash :: "id list \<Rightarrow> Store \<Rightarrow> string \<Rightarrow> Invitation result" where
  "mem_GetInvitationByTokenHash ks s tokenHash =
     (case List.find (\<lambda>iv. inv_TokenHash iv = tokenHash) (range_values ks (invitations s)) of
        Some iv \<Rightarrow> Inr iv
      | None \<Rightarrow> Inl ErrNotFound)"

definition mem_UpdateInvitationPolicy ::
  "Store \<Rightarrow> id \<Rightarrow> id \<Rightarrow> role \<Rightarrow> string \<Rightarrow> int \<Rightarrow> time \<Rightarrow> Invitation result \<times> Store" where
  "mem_UpdateInvitationPolicy s wsID inviteID role invitedEmail maxUses expiresAt =
     (case invitations s inviteID of
        None \<Rightarrow> (Inl ErrNotFound, s)
      | Some iv0 \<Rightarrow>
          (if inv_WorkspaceID iv0 \<noteq> wsID then (Inl ErrNotFound, s)
           else if inv_RevokedAt iv0 \<noteq> None then (Inl ErrForbidden, s)
           else (let iv = iv0\<lparr>inv_Role := role, inv_InvitedEmail := invitedEmail,
                                inv_MaxUses := maxUses, inv_ExpiresAt := expiresAt\<rparr>
                 in (Inr iv, s\<lparr>invitations := (invitations s)(inviteID \<mapsto> iv)\<rparr>))))"

definition mem_RevokeInvitation ::
  "Store \<Rightarrow> id \<Rightarrow> id \<Rightarrow> time \<Rightarrow> (Invitation \<times> bool) result \<times> Store" where
  "mem_RevokeInvitation s wsID inviteID now =
     (case invitations s inviteID of
        None \<Rightarrow> (Inl ErrNotFound, s)
      | Some iv0 \<Rightarrow>
          (if inv_WorkspaceID iv0 \<noteq> wsID then (Inl ErrNotFound, s)
           else if inv_RevokedAt iv0 \<noteq> None then (Inr (iv0, False), s)
           else (let iv = iv0\<lparr>inv_RevokedAt := Some now\<rparr>
                 in (Inr (iv, True), s\<lparr>invitations := (invitations s)(inviteID \<mapsto> iv)\<rparr>))))"

definition inv_dead :: "Invitation \<Rightarrow> time \<Rightarrow> bool" where
  "inv_dead iv now \<longleftrightarrow>
     inv_RevokedAt iv \<noteq> None \<or> \<not> now < inv_ExpiresAt iv \<or> inv_UseCount iv \<ge> inv_MaxUses iv"

definition mem_AcceptInvitation ::
  "Store \<Rightarrow> id \<Rightarrow> string \<Rightarrow> time \<Rightarrow> (Invitation \<times> Member \<times> bool) result \<times> Store" where
  "mem_AcceptInvitation s inviteID sub now =
     (case invitations s inviteID of
        None \<Rightarrow> (Inl ErrNotFound, s)
      | Some iv \<Rightarrow>
          (if inv_dead iv now then (Inl ErrForbidden, s)
           else (case members s (inv_WorkspaceID iv) of
                   None \<Rightarrow> (Inl ErrNotFound, s)
                 | Some ms \<Rightarrow>
                     (case ms sub of
                        Some existing \<Rightarrow> (Inr (iv, existing, False), s)
                      | None \<Rightarrow>
                          (let member = \<lparr>mb_WorkspaceID = inv_WorkspaceID iv, mb_Sub = sub,
                                         mb_DisplayName = DevDisplayName sub,
                                         mb_Role = inv_Role iv, mb_JoinedAt = now\<rparr>;
                               iv' = iv\<lparr>inv_UseCount := inv_UseCount iv + 1\<rparr>
                           in (Inr (iv', member, True),
                               s\<lparr>members := (members s)(inv_WorkspaceID iv \<mapsto> ms(sub \<mapsto> member)),
                                 invitations := (invitations s)(inv_ID iv \<mapsto> iv')\<rparr>))))))"

section \<open>Audit events\<close>

definition mem_AddAuditEvent :: "Store \<Rightarrow> AuditEvent \<Rightarrow> Store" where
  "mem_AddAuditEvent s event =
     s\<lparr>audits := (audits s)(ae_WorkspaceID event \<mapsto>
         get_list (audits s) (ae_WorkspaceID event) @ [event])\<rparr>"

text \<open>
  Events with equal times may come out in any order: \<open>sort.Slice\<close> is not stable. \<open>shuffle\<close> is the
  order its algorithm leaves among them, any permutation of the list.
\<close>

definition mem_ListAuditEvents ::
  "(AuditEvent list \<Rightarrow> AuditEvent list) \<Rightarrow> Store \<Rightarrow> id \<Rightarrow> AuditEvent list result" where
  "mem_ListAuditEvents shuffle s wsID =
     Inr (sort_slice (\<lambda>a b. ae_CreatedAt a > ae_CreatedAt b) (shuffle (get_list (audits s) wsID)))"

lemmas mem_workspace_defs [op_defs] =
  mem_CreateWorkspace_def mem_GetWorkspace_def mem_MemberRole_def mem_GetMember_def
  mem_AddMember_def mem_UpdateMemberRole_def mem_RemoveMember_def mem_UpdateMemberDisplayName_def
  mem_CreateInvitation_def mem_UpdateInvitationPolicy_def mem_RevokeInvitation_def
  mem_AcceptInvitation_def mem_AddAuditEvent_def

end
