(* ===== verification/MemChat.thy ===== *)
theory MemChat
  imports Store
begin

text \<open>
  \<open>store/memory/store.go\<close>: channels, messages, read cursors and chat tickets; then files.
\<close>

section \<open>Channels\<close>

definition mem_CreateChannel :: "Store \<Rightarrow> id \<Rightarrow> id \<Rightarrow> string \<Rightarrow> time \<Rightarrow> Channel result \<times> Store" where
  "mem_CreateChannel s nid wsID name now =
     (if workspaces s wsID = None then (Inl ErrNotFound, s)
      else (let ch = \<lparr>ch_ID = nid, ch_WorkspaceID = wsID, ch_Name = name, ch_CreatedAt = now\<rparr>
            in (Inr ch, s\<lparr>channels := (channels s)(nid \<mapsto> ch),
                          messages := (messages s)(nid \<mapsto> [])\<rparr>)))"

definition mem_ListChannels :: "id list \<Rightarrow> Store \<Rightarrow> id \<Rightarrow> Channel list result" where
  "mem_ListChannels ks s wsID =
     (if workspaces s wsID = None then Inl ErrNotFound
      else Inr (sort_slice
             (\<lambda>a b. if ch_CreatedAt a = ch_CreatedAt b then ch_ID a < ch_ID b
                    else ch_CreatedAt a < ch_CreatedAt b)
             (filter (\<lambda>ch. ch_WorkspaceID ch = wsID) (range_values ks (channels s)))))"

definition mem_GetChannel :: "Store \<Rightarrow> id \<Rightarrow> Channel result" where
  "mem_GetChannel s channelID =
     (case channels s channelID of None \<Rightarrow> Inl ErrNotFound | Some ch \<Rightarrow> Inr ch)"

section \<open>Messages\<close>

definition mem_AppendMessage ::
  "Store \<Rightarrow> id \<Rightarrow> id \<Rightarrow> string \<Rightarrow> string \<Rightarrow> string list \<Rightarrow> id \<Rightarrow> time \<Rightarrow> ChatMessage result \<times> Store" where
  "mem_AppendMessage s nid channelID sub body mentions attachmentFileID now =
     (if channels s channelID = None then (Inl ErrNotFound, s)
      else (let seq = int (length (get_list (messages s) channelID)) + 1;
                msg = \<lparr>cm_ID = nid, cm_ChannelID = channelID, cm_Sub = sub, cm_Body = body,
                       cm_Mentions = mentions, cm_AttachmentFileID = attachmentFileID,
                       cm_Seq = seq, cm_CreatedAt = now\<rparr>
            in (Inr msg, s\<lparr>messages := (messages s)(channelID \<mapsto>
                  get_list (messages s) channelID @ [msg])\<rparr>)))"

definition mem_ListMessages :: "Store \<Rightarrow> id \<Rightarrow> int \<Rightarrow> ChatMessage list result" where
  "mem_ListMessages s channelID afterSeq =
     (if channels s channelID = None then Inl ErrNotFound
      else (let all_msgs = get_list (messages s) channelID in
            if afterSeq \<le> 0 then Inr all_msgs
            else Inr (filter (\<lambda>m. cm_Seq m > afterSeq) all_msgs)))"

definition mem_CountMessagesAfter :: "Store \<Rightarrow> id \<Rightarrow> int \<Rightarrow> int result" where
  "mem_CountMessagesAfter s channelID afterSeq =
     (if channels s channelID = None then Inl ErrNotFound
      else Inr (int (length (filter (\<lambda>m. cm_Seq m > afterSeq) (get_list (messages s) channelID)))))"

section \<open>Read cursors\<close>

definition mem_GetChannelRead :: "Store \<Rightarrow> id \<Rightarrow> string \<Rightarrow> int result" where
  "mem_GetChannelRead s channelID sub =
     (if channels s channelID = None then Inl ErrNotFound
      else (case chatReads s channelID of
              None \<Rightarrow> Inr 0
            | Some bySub \<Rightarrow> Inr (case bySub sub of None \<Rightarrow> 0 | Some n \<Rightarrow> n)))"

definition mem_UpsertChannelRead ::
  "Store \<Rightarrow> id \<Rightarrow> string \<Rightarrow> int \<Rightarrow> unit result \<times> Store" where
  "mem_UpsertChannelRead s channelID sub lastReadSeq =
     (if channels s channelID = None then (Inl ErrNotFound, s)
      else if lastReadSeq < 0 then (Inl ErrInvalid, s)
      else (let bySub = (case chatReads s channelID of None \<Rightarrow> Map.empty | Some m \<Rightarrow> m);
                current = (case bySub sub of None \<Rightarrow> 0 | Some n \<Rightarrow> n);
                bySub' = (if lastReadSeq > current then bySub(sub \<mapsto> lastReadSeq) else bySub)
            in (Inr (), s\<lparr>chatReads := (chatReads s)(channelID \<mapsto> bySub')\<rparr>)))"

section \<open>Chat tickets\<close>

definition mem_CreateChatTicket ::
  "Store \<Rightarrow> id \<Rightarrow> string \<Rightarrow> id \<Rightarrow> bool \<Rightarrow> time \<Rightarrow> ChatTicket \<times> Store" where
  "mem_CreateChatTicket s nid sub channelID readOnly now =
     (let t = \<lparr>cht_ID = nid, cht_Sub = sub, cht_ChannelID = channelID, cht_ReadOnly = readOnly,
               cht_ExpiresAt = now + CollabTicketTTL\<rparr>
      in (t, s\<lparr>chatTickets := (chatTickets s)(nid \<mapsto> t)\<rparr>))"

definition mem_GetChatTicket :: "Store \<Rightarrow> id \<Rightarrow> ChatTicket result" where
  "mem_GetChatTicket s ticketID =
     (case chatTickets s ticketID of None \<Rightarrow> Inl ErrNotFound | Some t \<Rightarrow> Inr t)"

lemmas mem_chat_defs [op_defs] =
  mem_CreateChannel_def mem_GetChannel_def mem_AppendMessage_def mem_ListMessages_def
  mem_CountMessagesAfter_def mem_GetChannelRead_def mem_UpsertChannelRead_def
  mem_CreateChatTicket_def mem_GetChatTicket_def

section \<open>Files\<close>

text \<open>
  \<open>store/memory/store.go\<close>: the records of uploaded files and the attachments of pages.
\<close>

definition mem_SaveFile :: "Store \<Rightarrow> StoredFile \<Rightarrow> unit result \<times> Store" where
  "mem_SaveFile s f =
     (if workspaces s (sf_WorkspaceID f) = None then (Inl ErrNotFound, s)
      else (Inr (), s\<lparr>files := (files s)(sf_ID f \<mapsto> f)\<rparr>))"

definition mem_GetFile :: "Store \<Rightarrow> id \<Rightarrow> StoredFile result" where
  "mem_GetFile s fileID = (case files s fileID of None \<Rightarrow> Inl ErrNotFound | Some f \<Rightarrow> Inr f)"

definition mem_AttachPageFile :: "Store \<Rightarrow> id \<Rightarrow> id \<Rightarrow> unit result \<times> Store" where
  "mem_AttachPageFile s pageID fileID =
     (if pages s pageID = None then (Inl ErrNotFound, s)
      else if files s fileID = None then (Inl ErrNotFound, s)
      else if fileID \<in> set (get_list (pageFiles s) pageID) then (Inr (), s)
      else (Inr (), s\<lparr>pageFiles := (pageFiles s)(pageID \<mapsto> get_list (pageFiles s) pageID @ [fileID])\<rparr>))"

definition mem_ListPageFiles :: "Store \<Rightarrow> id \<Rightarrow> StoredFile list result" where
  "mem_ListPageFiles s pageID =
     (if pages s pageID = None then Inl ErrNotFound
      else Inr (List.map_filter (files s) (get_list (pageFiles s) pageID)))"

lemmas mem_files_defs [op_defs] =
  mem_SaveFile_def mem_GetFile_def mem_AttachPageFile_def mem_ListPageFiles_def

end
