(* ===== verification/SvcMembers.thy ===== *)
theory SvcMembers
  imports MemWorkspaces MemChat
begin

text \<open>
  \<open>service/workspace.go\<close>, first part: the role checks every operation starts with, workspaces and
  members. The locale \<open>gated\<close> is the contract of an operation that checks a role before it acts;
  every operation of the service that does is an instance of it.
\<close>

section \<open>Role checks\<close>

definition svc_requireRole :: "Store \<Rightarrow> id \<Rightarrow> string \<Rightarrow> role \<Rightarrow> unit result" where
  "svc_requireRole s wsID sub need =
     (case mem_MemberRole s wsID sub of
        Inl e \<Rightarrow> Inl e
      | Inr role \<Rightarrow> if \<not> RoleAtLeast role need then Inl ErrForbidden else Inr ())"

definition svc_requireWrite :: "Store \<Rightarrow> id \<Rightarrow> string \<Rightarrow> unit result" where
  "svc_requireWrite s wsID sub = svc_requireRole s wsID sub RoleMember"

definition svc_requireRead :: "Store \<Rightarrow> id \<Rightarrow> string \<Rightarrow> unit result" where
  "svc_requireRead s wsID sub = svc_requireRole s wsID sub RoleGuest"

text \<open>\<open>has_role s wsID sub need\<close>: the subject is a member of the workspace with at least this role.\<close>

definition has_role :: "Store \<Rightarrow> id \<Rightarrow> string \<Rightarrow> role \<Rightarrow> bool" where
  "has_role s wsID sub need \<longleftrightarrow>
     (case members s wsID of
        None \<Rightarrow> False
      | Some ms \<Rightarrow> (case ms sub of None \<Rightarrow> False | Some m \<Rightarrow> RoleAtLeast (mb_Role m) need))"

lemma requireRole_iff: "svc_requireRole s wsID sub need = Inr () \<longleftrightarrow> has_role s wsID sub need"
  by (auto simp: svc_requireRole_def mem_MemberRole_def has_role_def split: option.splits)

lemma requireRole_Inr [simp]: "svc_requireRole s wsID sub need = Inr u \<longleftrightarrow> has_role s wsID sub need"
  using requireRole_iff by (metis (full_types) old.unit.exhaust)

lemma requireRole_cases:
  "(\<exists>e. svc_requireRole s wsID sub need = Inl e) \<longleftrightarrow> \<not> has_role s wsID sub need"
  by (metis (full_types) requireRole_iff old.unit.exhaust sum.exhaust sum.distinct(1))

text \<open>
  The contract: an operation that acts on the workspace \<open>wsOf s\<close> for the subject \<open>sub\<close> fails, and
  leaves the store alone, when the workspace cannot be found or the subject lacks the role.
\<close>

locale gated =
  fixes run :: "Store \<Rightarrow> 'a result \<times> Store"
    and wsOf :: "Store \<Rightarrow> id result"
    and sub :: string
    and need :: role
  assumes no_ws: "wsOf s = Inl e \<Longrightarrow> \<exists>e'. run s = (Inl e', s)"
    and no_role: "wsOf s = Inr w \<Longrightarrow> svc_requireRole s w sub need = Inl e \<Longrightarrow> \<exists>e'. run s = (Inl e', s)"
begin

lemma unauthorized_fails:
  assumes "\<And>w. wsOf s = Inr w \<Longrightarrow> \<not> has_role s w sub need"
  shows "\<exists>e. run s = (Inl e, s)"
proof (cases "wsOf s")
  case (Inl e)
  then show ?thesis by (rule no_ws)
next
  case (Inr w)
  then have "\<not> has_role s w sub need" by (rule assms)
  then obtain e where "svc_requireRole s w sub need = Inl e"
    using requireRole_cases by blast
  with Inr show ?thesis by (rule no_role)
qed

lemma effect_needs_role:
  assumes "snd (run s) \<noteq> s \<or> (\<exists>x. fst (run s) = Inr x)"
  shows "\<exists>w. wsOf s = Inr w \<and> has_role s w sub need"
  using unauthorized_fails assms by (metis fst_conv snd_conv sum.distinct(1))

end

section \<open>Workspaces\<close>

definition svc_CreateWorkspace ::
  "Store \<Rightarrow> id \<Rightarrow> id \<Rightarrow> string \<Rightarrow> string \<Rightarrow> string \<Rightarrow> time \<Rightarrow> time \<Rightarrow> Workspace result \<times> Store" where
  "svc_CreateWorkspace s nid chid sub name orgID now now2 =
     (if name = [] then (Inl ErrForbidden, s)
      else call_ok (mem_CreateWorkspace s nid name sub (TrimSpace orgID) now) (\<lambda>ws s1.
        (Inr ws, snd (mem_CreateChannel s1 chid (ws_ID ws) DefaultChannelName now2))))"

definition svc_ListWorkspaces :: "id list \<Rightarrow> Store \<Rightarrow> string \<Rightarrow> Workspace list" where
  "svc_ListWorkspaces ks s sub = mem_ListWorkspacesForSub ks s sub"

definition svc_GetWorkspace :: "Store \<Rightarrow> string \<Rightarrow> id \<Rightarrow> Workspace result" where
  "svc_GetWorkspace s sub wsID =
     read_ok (svc_requireRead s wsID sub) (\<lambda>_. mem_GetWorkspace s wsID)"

section \<open>Members\<close>

definition svc_ListMembers :: "string list \<Rightarrow> Store \<Rightarrow> string \<Rightarrow> id \<Rightarrow> Member list result" where
  "svc_ListMembers ks s sub wsID =
     read_ok (svc_requireRead s wsID sub) (\<lambda>_. mem_ListMembers ks s wsID)"

definition svc_GetMember :: "Store \<Rightarrow> string \<Rightarrow> id \<Rightarrow> string \<Rightarrow> Member result" where
  "svc_GetMember s sub wsID memberSub =
     read_ok (svc_requireRead s wsID sub) (\<lambda>_. mem_GetMember s wsID memberSub)"

definition svc_SyncMemberDisplayName ::
  "Store \<Rightarrow> string \<Rightarrow> id \<Rightarrow> string \<Rightarrow> Member result \<times> Store" where
  "svc_SyncMemberDisplayName s sub wsID displayName0 =
     guard_ok (svc_requireRead s wsID sub) s (\<lambda>_.
       let displayName = TrimSpace displayName0 in
       if displayName = [] then (Inl ErrInvalid, s)
       else mem_UpdateMemberDisplayName s wsID sub displayName)"

definition svc_AddMember ::
  "Store \<Rightarrow> string \<Rightarrow> id \<Rightarrow> string \<Rightarrow> role \<Rightarrow> time \<Rightarrow> Member result \<times> Store" where
  "svc_AddMember s actorSub wsID memberSub role0 now =
     guard_ok (svc_requireRole s wsID actorSub RoleOwner) s (\<lambda>_.
       let role = (if role0 = [] then RoleMember else role0) in
       if role = RoleOwner then (Inl ErrForbidden, s)
       else mem_AddMember s wsID memberSub role now)"

definition svc_countOwners :: "string list \<Rightarrow> Store \<Rightarrow> id \<Rightarrow> int result" where
  "svc_countOwners ks s wsID =
     read_ok (mem_ListMembers ks s wsID) (\<lambda>ms.
       Inr (int (length (filter (\<lambda>m. mb_Role m = RoleOwner) ms))))"

text \<open>
  The check that the last owner stays, which the three operations below share: \<open>Inr ()\<close> when the
  target may lose its place.
\<close>

definition svc_lastOwnerCheck :: "string list \<Rightarrow> Store \<Rightarrow> id \<Rightarrow> Member \<Rightarrow> unit result" where
  "svc_lastOwnerCheck ks s wsID target =
     (if mb_Role target = RoleOwner then
        read_ok (svc_countOwners ks s wsID) (\<lambda>owners.
          if owners \<le> 1 then Inl ErrForbidden else Inr ())
      else Inr ())"

definition audit_event :: "id \<Rightarrow> id \<Rightarrow> string \<Rightarrow> string \<Rightarrow> id \<Rightarrow> string \<Rightarrow> time \<Rightarrow> AuditEvent" where
  "audit_event nid wsID actorSub targetSub inviteID ty now =
     \<lparr>ae_ID = nid, ae_WorkspaceID = wsID, ae_ActorSub = actorSub, ae_Type = ty,
      ae_TargetSub = targetSub, ae_InviteID = inviteID, ae_CreatedAt = now\<rparr>"

definition svc_UpdateMemberRole ::
  "Store \<Rightarrow> id \<Rightarrow> string list \<Rightarrow> string \<Rightarrow> id \<Rightarrow> string \<Rightarrow> role \<Rightarrow> time \<Rightarrow> Member result \<times> Store" where
  "svc_UpdateMemberRole s nid ks actorSub wsID targetSub role now =
     (if TrimSpace targetSub = [] then (Inl ErrInvalid, s)
      else guard_ok (svc_requireRole s wsID actorSub RoleOwner) s (\<lambda>_.
        if role \<noteq> RoleMember \<and> role \<noteq> RoleGuest then (Inl ErrInvalid, s)
        else guard_ok (mem_GetMember s wsID targetSub) s (\<lambda>target.
          guard_ok (svc_lastOwnerCheck ks s wsID target) s (\<lambda>_.
            call_ok (mem_UpdateMemberRole s wsID targetSub role) (\<lambda>updated s1.
              (Inr updated, mem_AddAuditEvent s1
                 (audit_event nid wsID actorSub targetSub [] ''workspace.member.role_updated'' now)))))))"

definition svc_RemoveMember ::
  "Store \<Rightarrow> id \<Rightarrow> string list \<Rightarrow> string \<Rightarrow> id \<Rightarrow> string \<Rightarrow> time \<Rightarrow> unit result \<times> Store" where
  "svc_RemoveMember s nid ks actorSub wsID targetSub now =
     (if TrimSpace targetSub = [] then (Inl ErrInvalid, s)
      else guard_ok (svc_requireRole s wsID actorSub RoleOwner) s (\<lambda>_.
        if actorSub = targetSub then (Inl ErrInvalid, s)
        else guard_ok (mem_GetMember s wsID targetSub) s (\<lambda>target.
          guard_ok (svc_lastOwnerCheck ks s wsID target) s (\<lambda>_.
            call_ok (mem_RemoveMember s wsID targetSub) (\<lambda>_ s1.
              (Inr (), mem_AddAuditEvent s1
                 (audit_event nid wsID actorSub targetSub [] ''workspace.member.removed'' now)))))))"

definition svc_LeaveWorkspace ::
  "Store \<Rightarrow> id \<Rightarrow> string list \<Rightarrow> string \<Rightarrow> id \<Rightarrow> time \<Rightarrow> unit result \<times> Store" where
  "svc_LeaveWorkspace s nid ks sub wsID now =
     guard_ok (svc_requireRead s wsID sub) s (\<lambda>_.
       guard_ok (mem_GetMember s wsID sub) s (\<lambda>me.
         guard_ok (svc_lastOwnerCheck ks s wsID me) s (\<lambda>_.
           call_ok (mem_RemoveMember s wsID sub) (\<lambda>_ s1.
             (Inr (), mem_AddAuditEvent s1
                (audit_event nid wsID sub sub [] ''workspace.member.left'' now))))))"

definition svc_ListAuditEvents ::
  "(AuditEvent list \<Rightarrow> AuditEvent list) \<Rightarrow> Store \<Rightarrow> string \<Rightarrow> id \<Rightarrow> AuditEvent list result" where
  "svc_ListAuditEvents shuffle s actorSub wsID =
     read_ok (svc_requireRole s wsID actorSub RoleOwner) (\<lambda>_. mem_ListAuditEvents shuffle s wsID)"

lemmas svc_member_defs [op_defs] =
  svc_CreateWorkspace_def svc_SyncMemberDisplayName_def svc_AddMember_def svc_UpdateMemberRole_def
  svc_RemoveMember_def svc_LeaveWorkspace_def svc_requireRead_def svc_requireWrite_def

section \<open>Who may do what\<close>

interpretation sync_name: gated "\<lambda>s. svc_SyncMemberDisplayName s sub wsID name" "\<lambda>_. Inr wsID" sub RoleGuest
  for sub wsID name
  by unfold_locales (auto simp: svc_SyncMemberDisplayName_def svc_requireRead_def)

interpretation add_member: gated "\<lambda>s. svc_AddMember s actor wsID sub role now" "\<lambda>_. Inr wsID" actor RoleOwner
  for actor wsID sub role now
  by unfold_locales (auto simp: svc_AddMember_def)

interpretation update_role: gated "\<lambda>s. svc_UpdateMemberRole s nid ks actor wsID target role now"
  "\<lambda>_. Inr wsID" actor RoleOwner for nid ks actor wsID target role now
  by unfold_locales (auto simp: svc_UpdateMemberRole_def)

interpretation remove_member: gated "\<lambda>s. svc_RemoveMember s nid ks actor wsID target now"
  "\<lambda>_. Inr wsID" actor RoleOwner for nid ks actor wsID target now
  by unfold_locales (auto simp: svc_RemoveMember_def)

interpretation leave_ws: gated "\<lambda>s. svc_LeaveWorkspace s nid ks sub wsID now" "\<lambda>_. Inr wsID" sub RoleGuest
  for nid ks sub wsID now
  by unfold_locales (auto simp: svc_LeaveWorkspace_def svc_requireRead_def)

end
