(* ===== verification/SvcInvitations.thy ===== *)
theory SvcInvitations
  imports SvcMembers
begin

text \<open>
  \<open>service/workspace.go\<close>: invitations. Parameters of the model: \<open>lo\<close>, the table of
  \<open>unicode.ToLower\<close>; \<open>sha\<close>, the function SHA-256 followed by hexadecimal encoding; the bytes the
  random source returned (\<open>None\<close> when it failed).
\<close>

section \<open>Tokens and addresses\<close>

text \<open>\<open>base64.RawURLEncoding\<close>: the URL alphabet, no padding.\<close>

definition b64_digit :: "nat \<Rightarrow> char" where
  "b64_digit d =
     (if d < 26 then char_of (65 + d) else if d < 52 then char_of (97 + (d - 26))
      else if d < 62 then char_of (48 + (d - 52)) else if d = 62 then CHR ''-'' else CHR ''_'')"

fun b64_encode :: "nat list \<Rightarrow> string" where
  "b64_encode [] = []"
| "b64_encode [a] = [b64_digit (a div 4), b64_digit (a mod 4 * 16)]"
| "b64_encode [a, b] = [b64_digit (a div 4), b64_digit (a mod 4 * 16 + b div 16), b64_digit (b mod 16 * 4)]"
| "b64_encode (a # b # c # r) =
     b64_digit (a div 4) # b64_digit (a mod 4 * 16 + b div 16) #
     b64_digit (b mod 16 * 4 + c div 64) # b64_digit (c mod 64) # b64_encode r"

definition newInviteToken :: "nat list option \<Rightarrow> string result" where
  "newInviteToken rand = (case rand of None \<Rightarrow> Inl ErrInternal | Some b \<Rightarrow> Inr (b64_encode b))"

definition normalizeEmail :: "(nat \<Rightarrow> nat) \<Rightarrow> string \<Rightarrow> string" where
  "normalizeEmail lo email = ToLower lo (TrimSpace email)"

definition hashInviteToken :: "(string \<Rightarrow> string) \<Rightarrow> string \<Rightarrow> string" where
  "hashInviteToken sha token = sha token"

section \<open>Creating, listing, revoking\<close>

definition svc_CreateInvitation ::
  "(nat \<Rightarrow> nat) \<Rightarrow> (string \<Rightarrow> string) \<Rightarrow> Store \<Rightarrow> id \<Rightarrow> id \<Rightarrow> nat list option \<Rightarrow> string \<Rightarrow> id \<Rightarrow> role
   \<Rightarrow> string \<Rightarrow> int \<Rightarrow> int \<Rightarrow> time \<Rightarrow> (Invitation \<times> string) result \<times> Store" where
  "svc_CreateInvitation lo sha s nid aid rand actorSub wsID role0 invitedEmail maxUses0 ttlHours0 now =
     guard_ok (svc_requireRole s wsID actorSub RoleOwner) s (\<lambda>_.
       let role = (if role0 = [] then RoleMember else role0) in
       if role \<noteq> RoleMember \<and> role \<noteq> RoleGuest then (Inl ErrInvalid, s)
       else let maxUses = (if maxUses0 \<le> 0 then 1 else maxUses0) in
       if maxUses > MaxInviteUses then (Inl ErrInvalid, s)
       else let ttlHours = (if ttlHours0 \<le> 0 then 72 else ttlHours0) in
       if ttlHours > 24 * 14 then (Inl ErrInvalid, s)
       else guard_ok (newInviteToken rand) s (\<lambda>rawToken.
         let expiresAt = now + ttlHours * Hour in
         call_ok (mem_CreateInvitation s nid wsID (hashInviteToken sha rawToken) role
                    (normalizeEmail lo invitedEmail) maxUses expiresAt actorSub now) (\<lambda>iv s1.
           (Inr (iv, rawToken), mem_AddAuditEvent s1
              (audit_event aid wsID actorSub [] (inv_ID iv) ''workspace.invitation.created'' now)))))"

definition svc_ListInvitations :: "id list \<Rightarrow> Store \<Rightarrow> string \<Rightarrow> id \<Rightarrow> Invitation list result" where
  "svc_ListInvitations ks s actorSub wsID =
     read_ok (svc_requireRole s wsID actorSub RoleOwner) (\<lambda>_. mem_ListInvitations ks s wsID)"

definition svc_RevokeInvitation ::
  "Store \<Rightarrow> id \<Rightarrow> string \<Rightarrow> id \<Rightarrow> id \<Rightarrow> time \<Rightarrow> Invitation result \<times> Store" where
  "svc_RevokeInvitation s aid actorSub wsID inviteID now =
     (if TrimSpace inviteID = [] then (Inl ErrInvalid, s)
      else guard_ok (svc_requireRole s wsID actorSub RoleOwner) s (\<lambda>_.
        call_ok (mem_RevokeInvitation s wsID inviteID now) (\<lambda>(iv, revoked) s1.
          (Inr iv, if revoked then mem_AddAuditEvent s1
                     (audit_event aid wsID actorSub [] (inv_ID iv) ''workspace.invitation.revoked'' now)
                   else s1))))"

section \<open>Changing the policy\<close>

text \<open>The loop that looks an invitation up by identifier in the list of the workspace's.\<close>

definition find_invitation :: "Invitation list \<Rightarrow> id \<Rightarrow> Invitation result" where
  "find_invitation ivs inviteID =
     (case List.find (\<lambda>iv. inv_ID iv = inviteID) ivs of None \<Rightarrow> Inl ErrNotFound | Some iv \<Rightarrow> Inr iv)"

text \<open>The new role, address, maximum and expiry from the optional arguments; all but the address may be rejected.\<close>

definition policy_role :: "Invitation \<Rightarrow> role option \<Rightarrow> role result" where
  "policy_role base role =
     (case role of
        None \<Rightarrow> Inr (inv_Role base)
      | Some r \<Rightarrow>
          (let nextRole = (if r = [] then RoleMember else r) in
           if nextRole \<noteq> RoleMember \<and> nextRole \<noteq> RoleGuest then Inl ErrInvalid else Inr nextRole))"

definition policy_email :: "(nat \<Rightarrow> nat) \<Rightarrow> Invitation \<Rightarrow> string option \<Rightarrow> string" where
  "policy_email lo base email =
     (case email of None \<Rightarrow> inv_InvitedEmail base | Some e \<Rightarrow> normalizeEmail lo e)"

definition policy_max :: "Invitation \<Rightarrow> int option \<Rightarrow> int result" where
  "policy_max base maxUses =
     read_ok (case maxUses of
                None \<Rightarrow> Inr (inv_MaxUses base)
              | Some m \<Rightarrow>
                  (let nextMax = (if m \<le> 0 then 1 else m) in
                   if nextMax > MaxInviteUses then Inl ErrInvalid else Inr nextMax))
       (\<lambda>nextMax. if nextMax < inv_UseCount base then Inl ErrInvalid else Inr nextMax)"

definition policy_expires :: "Invitation \<Rightarrow> int option \<Rightarrow> time \<Rightarrow> time result" where
  "policy_expires base ttlHours now =
     (case ttlHours of
        None \<Rightarrow> Inr (inv_ExpiresAt base)
      | Some t \<Rightarrow>
          (let ttl = (if t \<le> 0 then 72 else t) in
           if ttl > 24 * 14 then Inl ErrInvalid else Inr (now + ttl * Hour)))"

definition svc_UpdateInvitationPolicy ::
  "(nat \<Rightarrow> nat) \<Rightarrow> Store \<Rightarrow> id \<Rightarrow> id list \<Rightarrow> string \<Rightarrow> id \<Rightarrow> id \<Rightarrow> role option \<Rightarrow> string option
   \<Rightarrow> int option \<Rightarrow> int option \<Rightarrow> time \<Rightarrow> Invitation result \<times> Store" where
  "svc_UpdateInvitationPolicy lo s aid ks actorSub wsID inviteID role invitedEmail maxUses ttlHours now =
     (if TrimSpace inviteID = [] then (Inl ErrInvalid, s)
      else if role = None \<and> invitedEmail = None \<and> maxUses = None \<and> ttlHours = None
        then (Inl ErrInvalid, s)
      else guard_ok (svc_requireRole s wsID actorSub RoleOwner) s (\<lambda>_.
        guard_ok (mem_ListInvitations ks s wsID) s (\<lambda>ivs.
        guard_ok (find_invitation ivs inviteID) s (\<lambda>base.
        if inv_RevokedAt base \<noteq> None then (Inl ErrForbidden, s)
        else guard_ok (policy_role base role) s (\<lambda>nextRole.
        guard_ok (policy_max base maxUses) s (\<lambda>nextMax.
        guard_ok (policy_expires base ttlHours now) s (\<lambda>nextExpires.
        call_ok (mem_UpdateInvitationPolicy s wsID inviteID nextRole
                   (policy_email lo base invitedEmail) nextMax nextExpires) (\<lambda>updated s1.
          (Inr updated, mem_AddAuditEvent s1
             (audit_event aid wsID actorSub [] (inv_ID updated)
                ''workspace.invitation.policy_updated'' now))))))))))"

text \<open>
  \<open>Duration.Hours\<close> is a float, truncated by the conversion to \<open>int\<close>; for durations up to the
  336 hours after which the next line caps the result the truncation is exact.
\<close>

definition svc_ResendInvitation ::
  "(nat \<Rightarrow> nat) \<Rightarrow> (string \<Rightarrow> string) \<Rightarrow> Store \<Rightarrow> id \<Rightarrow> id \<Rightarrow> id \<Rightarrow> nat list option \<Rightarrow> id list \<Rightarrow> string
   \<Rightarrow> id \<Rightarrow> id \<Rightarrow> time \<Rightarrow> time \<Rightarrow> (Invitation \<times> string) result \<times> Store" where
  "svc_ResendInvitation lo sha s nid aid aid2 rand ks actorSub wsID inviteID now now2 =
     (if TrimSpace inviteID = [] then (Inl ErrInvalid, s)
      else guard_ok (svc_requireRole s wsID actorSub RoleOwner) s (\<lambda>_.
        guard_ok (mem_ListInvitations ks s wsID) s (\<lambda>ivs.
        guard_ok (find_invitation ivs inviteID) s (\<lambda>base.
        let ttl0 = go_div (inv_ExpiresAt base - inv_CreatedAt base) Hour;
            ttl1 = (if ttl0 \<le> 0 then 72 else ttl0);
            ttlHours = (if ttl1 > 24 * 14 then 24 * 14 else ttl1)
        in call_ok (svc_CreateInvitation lo sha s nid aid rand actorSub wsID (inv_Role base)
                      (inv_InvitedEmail base) (inv_MaxUses base) ttlHours now) (\<lambda>(iv, token) s1.
             (Inr (iv, token), mem_AddAuditEvent s1
                (audit_event aid2 wsID actorSub [] (inv_ID iv)
                   ''workspace.invitation.resent'' now2)))))))"

section \<open>Using an invitation\<close>

definition svc_PreviewInvitation ::
  "(string \<Rightarrow> string) \<Rightarrow> bool \<Rightarrow> id list \<Rightarrow> Store \<Rightarrow> string \<Rightarrow> string \<Rightarrow> time
   \<Rightarrow> (Invitation \<times> Workspace) result" where
  "svc_PreviewInvitation sha tenant ks s sub rawToken now =
     (if TrimSpace sub = [] \<or> TrimSpace rawToken = [] then Inl ErrInvalid
      else let st = svc_Unscoped tenant s in
        (case mem_GetInvitationByTokenHash ks st (hashInviteToken sha rawToken) of
           Inl _ \<Rightarrow> Inl ErrNotFound
         | Inr iv \<Rightarrow>
             (if inv_dead iv now then Inl ErrNotFound
              else (case mem_GetWorkspace st (inv_WorkspaceID iv) of
                      Inl _ \<Rightarrow> Inl ErrNotFound
                    | Inr ws \<Rightarrow> Inr (iv, ws)))))"

text \<open>
  The part of \<open>AcceptInvitation\<close> that runs on the store scoped to the workspace's organisation;
  \<open>s\<close> here is the scoped handle.
\<close>

definition svc_accept_scoped ::
  "Store \<Rightarrow> id \<Rightarrow> id \<Rightarrow> string \<Rightarrow> time \<Rightarrow> (Member \<times> Workspace) result \<times> Store" where
  "svc_accept_scoped s aid inviteID sub now =
     (let p = mem_AcceptInvitation s inviteID sub now in
      (case fst p of
         Inl e \<Rightarrow> (if e = ErrForbidden then (Inl ErrNotFound, snd p) else (Inl e, snd p))
       | Inr (updated, member, joined) \<Rightarrow>
           (let s2 = (if joined then mem_AddAuditEvent (snd p)
                        (audit_event aid (inv_WorkspaceID updated) sub sub (inv_ID updated)
                           ''workspace.invitation.accepted'' now)
                      else snd p)
            in guard_ok (mem_GetWorkspace s2 (inv_WorkspaceID updated)) s2 (\<lambda>ws.
                 (Inr (member, ws), s2)))))"

definition svc_AcceptInvitation ::
  "(nat \<Rightarrow> nat) \<Rightarrow> (string \<Rightarrow> string) \<Rightarrow> bool \<Rightarrow> id list \<Rightarrow> Store \<Rightarrow> id \<Rightarrow> string \<Rightarrow> string \<Rightarrow> string \<Rightarrow> time
   \<Rightarrow> (Member \<times> Workspace) result \<times> Store" where
  "svc_AcceptInvitation lo sha tenant ks s aid sub email rawToken now =
     (if TrimSpace sub = [] \<or> TrimSpace rawToken = [] then (Inl ErrInvalid, s)
      else let st = svc_Unscoped tenant s in
        (case mem_GetInvitationByTokenHash ks st (hashInviteToken sha rawToken) of
           Inl _ \<Rightarrow> (Inl ErrNotFound, s)
         | Inr iv \<Rightarrow>
        (if inv_InvitedEmail iv \<noteq> [] \<and> normalizeEmail lo email \<noteq> inv_InvitedEmail iv
           then (Inl ErrForbidden, s)
         else (case mem_GetWorkspace st (inv_WorkspaceID iv) of
           Inl _ \<Rightarrow> (Inl ErrNotFound, s)
         | Inr ws \<Rightarrow>
             (let p = svc_accept_scoped (svc_ForOrg tenant (ws_OrgID ws) s) aid (inv_ID iv) sub now
              in (fst p, rejoin s (snd p)))))))"

section \<open>Who may do what\<close>

interpretation create_invitation: gated
  "\<lambda>s. svc_CreateInvitation lo sha s nid aid rand actor wsID role email mx ttl now"
  "\<lambda>_. Inr wsID" actor RoleOwner
  for lo sha nid aid rand actor wsID role email mx ttl now
  by unfold_locales (auto simp: svc_CreateInvitation_def)

interpretation revoke_invitation: gated "\<lambda>s. svc_RevokeInvitation s aid actor wsID inviteID now"
  "\<lambda>_. Inr wsID" actor RoleOwner for aid actor wsID inviteID now
  by unfold_locales (auto simp: svc_RevokeInvitation_def)

interpretation invitation_policy: gated
  "\<lambda>s. svc_UpdateInvitationPolicy lo s aid ks actor wsID inviteID role email mx ttl now"
  "\<lambda>_. Inr wsID" actor RoleOwner
  for lo aid ks actor wsID inviteID role email mx ttl now
  by unfold_locales (auto simp: svc_UpdateInvitationPolicy_def)

interpretation resend_invitation: gated
  "\<lambda>s. svc_ResendInvitation lo sha s nid aid aid2 rand ks actor wsID inviteID now now2"
  "\<lambda>_. Inr wsID" actor RoleOwner
  for lo sha nid aid aid2 rand ks actor wsID inviteID now now2
  by unfold_locales (auto simp: svc_ResendInvitation_def)

end
