(* ===== verification/Membership.thy ===== *)
theory Membership
  imports SvcInvitations
begin

text \<open>
  The membership component as a whole: every request of the service that writes workspaces,
  members or invitations, what keeps them well formed, and the theorems about ownership and about
  invitations.
\<close>

section \<open>Requests\<close>

datatype member_req =
    CreateWorkspace id id string string string time time
  | SyncMemberDisplayName string id string
  | AddMember string id string role time
  | UpdateMemberRole id "string list" string id string role time
  | RemoveMember id "string list" string id string time
  | LeaveWorkspace id "string list" string id time
  | CreateInvitation id id "nat list option" string id role string int int time
  | RevokeInvitation id string id id time
  | UpdateInvitationPolicy id "id list" string id id "role option" "string option" "int option" "int option" time
  | ResendInvitation id id id "nat list option" "id list" string id id time time
  | AcceptInvitation "id list" id string string string time

fun exec_member :: "Env \<Rightarrow> member_req \<Rightarrow> Store \<Rightarrow> unit result \<times> Store" where
  "exec_member env (CreateWorkspace nid chid sub name orgID now now2) s =
     outcome (svc_CreateWorkspace s nid chid sub name orgID now now2)"
| "exec_member env (SyncMemberDisplayName sub wsID name) s =
     outcome (svc_SyncMemberDisplayName s sub wsID name)"
| "exec_member env (AddMember actor wsID sub role now) s =
     outcome (svc_AddMember s actor wsID sub role now)"
| "exec_member env (UpdateMemberRole aid ks actor wsID target role now) s =
     outcome (svc_UpdateMemberRole s aid ks actor wsID target role now)"
| "exec_member env (RemoveMember aid ks actor wsID target now) s =
     outcome (svc_RemoveMember s aid ks actor wsID target now)"
| "exec_member env (LeaveWorkspace aid ks sub wsID now) s =
     outcome (svc_LeaveWorkspace s aid ks sub wsID now)"
| "exec_member env (CreateInvitation nid aid rand actor wsID role email mx ttl now) s =
     outcome (svc_CreateInvitation (env_lo env) (env_sha env) s nid aid rand actor wsID role email mx ttl now)"
| "exec_member env (RevokeInvitation aid actor wsID inviteID now) s =
     outcome (svc_RevokeInvitation s aid actor wsID inviteID now)"
| "exec_member env (UpdateInvitationPolicy aid ks actor wsID inviteID role email mx ttl now) s =
     outcome (svc_UpdateInvitationPolicy (env_lo env) s aid ks actor wsID inviteID role email mx ttl now)"
| "exec_member env (ResendInvitation nid aid aid2 rand ks actor wsID inviteID now now2) s =
     outcome (svc_ResendInvitation (env_lo env) (env_sha env) s nid aid aid2 rand ks actor wsID inviteID now now2)"
| "exec_member env (AcceptInvitation ks aid sub email token now) s =
     outcome (svc_AcceptInvitation (env_lo env) (env_sha env) (env_tenant env) ks s aid sub email token now)"

text \<open>
  What the runtime guarantees of the arguments it supplies: new identifiers are fresh and a range
  order lists the keys of the map it ranges over.
\<close>

definition orders_members :: "Store \<Rightarrow> id \<Rightarrow> string list \<Rightarrow> bool" where
  "orders_members s wsID ks \<longleftrightarrow> (\<forall>ms. members s wsID = Some ms \<longrightarrow> range_order ms ks)"

fun runtime_member :: "Store \<Rightarrow> member_req \<Rightarrow> bool" where
  "runtime_member s (CreateWorkspace nid chid sub name orgID now now2) \<longleftrightarrow>
     fresh s nid \<and> fresh s chid \<and> nid \<noteq> chid"
| "runtime_member s (UpdateMemberRole aid ks actor wsID target role now) \<longleftrightarrow> orders_members s wsID ks"
| "runtime_member s (RemoveMember aid ks actor wsID target now) \<longleftrightarrow> orders_members s wsID ks"
| "runtime_member s (LeaveWorkspace aid ks sub wsID now) \<longleftrightarrow> orders_members s wsID ks"
| "runtime_member s (CreateInvitation nid aid rand actor wsID role email mx ttl now) \<longleftrightarrow> fresh s nid"
| "runtime_member s (UpdateInvitationPolicy aid ks actor wsID inviteID role email mx ttl now) \<longleftrightarrow>
     range_order (invitations s) ks"
| "runtime_member s (ResendInvitation nid aid aid2 rand ks actor wsID inviteID now now2) \<longleftrightarrow>
     fresh s nid \<and> range_order (invitations s) ks"
| "runtime_member s (AcceptInvitation ks aid sub email token now) \<longleftrightarrow> range_order (invitations s) ks"
| "runtime_member s _ \<longleftrightarrow> True"

section \<open>Owners\<close>

definition owners :: "(string \<rightharpoonup> Member) \<Rightarrow> string set" where
  "owners ms = {sub. \<exists>m. ms sub = Some m \<and> mb_Role m = RoleOwner}"

text \<open>The updates that change no owner.\<close>

lemma owners_upd:
  "ms sub = None \<Longrightarrow> mb_Role m \<noteq> RoleOwner \<Longrightarrow> owners (ms(sub \<mapsto> m)) = owners ms"
  "ms sub = Some m0 \<Longrightarrow> mb_Role m = mb_Role m0 \<Longrightarrow> owners (ms(sub \<mapsto> m)) = owners ms"
  "sub \<notin> owners ms \<Longrightarrow> mb_Role m \<noteq> RoleOwner \<Longrightarrow> owners (ms(sub \<mapsto> m)) = owners ms"
  "sub \<notin> owners ms \<Longrightarrow> owners (ms(sub := None)) = owners ms"
  by (auto simp: owners_def)

lemma owners_new: "mb_Role m = RoleOwner \<Longrightarrow> owners [sub \<mapsto> m] = {sub}"
  by (auto simp: owners_def)

lemma owners_empty [simp]: "owners Map.empty = {}"
  by (simp add: owners_def)

lemma owners_iff: "ms sub = Some m \<Longrightarrow> sub \<in> owners ms \<longleftrightarrow> mb_Role m = RoleOwner"
  by (auto simp: owners_def)

definition member_wf :: "id \<Rightarrow> (string \<rightharpoonup> Member) \<Rightarrow> bool" where
  "member_wf wsID ms \<longleftrightarrow> (\<forall>sub m. ms sub = Some m \<longrightarrow> mb_Sub m = sub \<and> mb_WorkspaceID m = wsID)"

definition membership_inv :: "Store \<Rightarrow> bool" where
  "membership_inv s \<longleftrightarrow>
     dom (members s) = dom (workspaces s) \<and>
     (\<forall>wsID ws. workspaces s wsID = Some ws \<longrightarrow> ws_ID ws = wsID) \<and>
     (\<forall>wsID ms. members s wsID = Some ms \<longrightarrow> member_wf wsID ms \<and> (\<exists>own. owners ms = {own}))"

definition invitation_wf :: "id \<Rightarrow> Invitation \<Rightarrow> bool" where
  "invitation_wf k iv \<longleftrightarrow>
     inv_ID iv = k \<and> (inv_Role iv = RoleMember \<or> inv_Role iv = RoleGuest) \<and>
     0 \<le> inv_UseCount iv \<and> inv_UseCount iv \<le> inv_MaxUses iv \<and>
     1 \<le> inv_MaxUses iv \<and> inv_MaxUses iv \<le> MaxInviteUses"

definition invitation_inv :: "Store \<Rightarrow> bool" where
  "invitation_inv s \<longleftrightarrow>
     (\<forall>k iv. invitations s k = Some iv \<longrightarrow> invitation_wf k iv \<and> workspaces s (inv_WorkspaceID iv) \<noteq> None)"

lemma membership_inv_New: "membership_inv New" and invitation_inv_New: "invitation_inv New"
  by (simp_all add: membership_inv_def invitation_inv_def New_def)

lemma membership_inv_cong: "membership_part s = membership_part t \<Longrightarrow> membership_inv s = membership_inv t"
  by (simp add: membership_inv_def parts)

lemma membership_invD:
  "membership_inv s \<Longrightarrow> members s wsID = Some ms \<Longrightarrow> member_wf wsID ms"
  "membership_inv s \<Longrightarrow> members s wsID = Some ms \<Longrightarrow> \<exists>own. owners ms = {own}"
  by (auto simp: membership_inv_def)

lemma invitation_invD:
  "invitation_inv s \<Longrightarrow> invitations s k = Some iv \<Longrightarrow> invitation_wf k iv"
  "invitation_inv s \<Longrightarrow> invitations s k = Some iv \<Longrightarrow> workspaces s (inv_WorkspaceID iv) \<noteq> None"
  by (auto simp: invitation_inv_def)

lemma invitation_role: "invitation_inv s \<Longrightarrow> invitations s k = Some iv \<Longrightarrow> inv_Role iv \<noteq> RoleOwner"
  using invitation_invD(1) [of s k iv] by (auto simp: invitation_wf_def)

text \<open>Changing the members of one workspace.\<close>

lemma membership_inv_members:
  assumes "membership_inv s" and "members s wsID = Some ms"
    and "member_wf wsID ms'" and "owners ms' = owners ms"
  shows "membership_inv (s\<lparr>members := (members s)(wsID \<mapsto> ms')\<rparr>)"
  using assms by (auto simp: membership_inv_def)

lemma membership_inv_audit [simp]: "membership_inv (mem_AddAuditEvent s e) = membership_inv s"
  by (rule membership_inv_cong) (simp add: mem_AddAuditEvent_def parts)

lemma invitation_inv_audit [simp]: "invitation_inv (mem_AddAuditEvent s e) = invitation_inv s"
  by (simp add: invitation_inv_def mem_AddAuditEvent_def)

section \<open>Counting owners\<close>

lemma length_filter_range_values:
  "distinct ks \<Longrightarrow>
   length (filter P (range_values ks m)) = card {k \<in> set ks. \<exists>v. m k = Some v \<and> P v}"
proof (induction ks)
  case Nil
  then show ?case by simp
next
  case (Cons k ks)
  have split: "{j \<in> set (k # ks). \<exists>v. m j = Some v \<and> P v} =
      (if \<exists>v. m k = Some v \<and> P v then insert k {j \<in> set ks. \<exists>v. m j = Some v \<and> P v}
       else {j \<in> set ks. \<exists>v. m j = Some v \<and> P v})"
    by auto
  show ?case
    unfolding split using Cons by (auto split: option.splits)
qed

lemma length_filter_sort_slice: "length (filter P (sort_slice lt xs)) = length (filter P xs)"
  by (metis mset_filter mset_sort_slice size_mset)

lemma countOwners_card:
  "members s wsID = Some ms \<Longrightarrow> range_order ms ks \<Longrightarrow>
   svc_countOwners ks s wsID = Inr (int (card (owners ms)))"
proof -
  assume ms: "members s wsID = Some ms" and ks: "range_order ms ks"
  then have "{k \<in> set ks. \<exists>v. ms k = Some v \<and> mb_Role v = RoleOwner} = owners ms"
    by (auto simp: range_order_def owners_def)
  with ms ks show ?thesis
    by (simp add: svc_countOwners_def mem_ListMembers_def length_filter_sort_slice
        length_filter_range_values range_order_def)
qed

text \<open>With one owner, the check lets everyone but the owner go.\<close>

lemma lastOwnerCheck_iff:
  assumes "membership_inv s" and "members s wsID = Some ms" and "range_order ms ks" and "ms sub = Some m"
  shows "svc_lastOwnerCheck ks s wsID m =
    (if sub \<in> owners ms then Inl ErrForbidden else Inr ())"
proof -
  obtain own where "owners ms = {own}"
    using assms membership_invD by blast
  then show ?thesis
    using assms countOwners_card [OF assms(2,3)] owners_iff [of ms sub m]
    by (simp add: svc_lastOwnerCheck_def)
qed

section \<open>Every request keeps the members well formed and the owners in place\<close>

text \<open>
  \<open>sound_change s t\<close>: \<open>t\<close> is well formed, has every workspace of \<open>s\<close>, and the same owners in it.
\<close>

definition sound_change :: "Store \<Rightarrow> Store \<Rightarrow> bool" where
  "sound_change s t \<longleftrightarrow> membership_inv t \<and>
     (\<forall>wsID ms. members s wsID = Some ms \<longrightarrow> (\<exists>ms'. members t wsID = Some ms' \<and> owners ms' = owners ms))"

lemma sound_refl: "membership_inv s \<Longrightarrow> sound_change s s"
  by (simp add: sound_change_def)

lemma sound_cong: "membership_part t = membership_part u \<Longrightarrow> sound_change s t = sound_change s u"
  using membership_inv_cong [of t u] by (simp add: sound_change_def parts)

lemma sound_audit [simp]: "sound_change s (mem_AddAuditEvent t e) = sound_change s t"
  by (rule sound_cong) (simp add: mem_AddAuditEvent_def parts)

lemma sound_same: "membership_inv s \<Longrightarrow> membership_part t = membership_part s \<Longrightarrow> sound_change s t"
  using sound_cong sound_refl by blast

lemma sound_members:
  assumes "membership_inv s" and "members s wsID = Some ms"
    and "member_wf wsID ms'" and "owners ms' = owners ms"
  shows "sound_change s (s\<lparr>members := (members s)(wsID \<mapsto> ms')\<rparr>)"
  using membership_inv_members [OF assms] assms(2,4) by (auto simp: sound_change_def)

lemma member_wf_upd [intro]:
  "member_wf wsID ms \<Longrightarrow> mb_Sub m = sub \<Longrightarrow> mb_WorkspaceID m = wsID \<Longrightarrow> member_wf wsID (ms(sub \<mapsto> m))"
  "member_wf wsID ms \<Longrightarrow> member_wf wsID (ms(sub := None))"
  by (auto simp: member_wf_def)

lemmas sound_ok = ok_inv [where P = "sound_change s" for s]

text \<open>The store's operations.\<close>

lemma sound_mem_AddMember:
  "membership_inv s \<Longrightarrow> role \<noteq> RoleOwner \<Longrightarrow> sound_change s (snd (mem_AddMember s wsID sub role now))"
  by (auto simp: mem_AddMember_def Let_def sound_refl owners_upd dest: membership_invD
      intro!: sound_members split: option.splits)

lemma sound_mem_UpdateMemberRole:
  assumes "membership_inv s" and "role \<noteq> RoleOwner" and "\<And>ms. members s wsID = Some ms \<Longrightarrow> sub \<notin> owners ms"
  shows "sound_change s (snd (mem_UpdateMemberRole s wsID sub role))"
  using assms
  by (auto simp: mem_UpdateMemberRole_def Let_def sound_refl owners_upd member_wf_def dest: membership_invD
      intro!: sound_members split: option.splits)

lemma sound_mem_RemoveMember:
  assumes "membership_inv s" and "\<And>ms. members s wsID = Some ms \<Longrightarrow> sub \<notin> owners ms"
  shows "sound_change s (snd (mem_RemoveMember s wsID sub))"
  using assms
  by (auto simp: mem_RemoveMember_def sound_refl owners_upd dest: membership_invD
      intro!: sound_members split: option.splits)

lemma sound_mem_UpdateMemberDisplayName:
  "membership_inv s \<Longrightarrow> sound_change s (snd (mem_UpdateMemberDisplayName s wsID sub name))"
  by (auto simp: mem_UpdateMemberDisplayName_def Let_def sound_refl owners_upd member_wf_def
      dest: membership_invD intro!: sound_members split: option.splits)

lemma sound_mem_AcceptInvitation:
  assumes "membership_inv s" and "invitation_inv s"
  shows "sound_change s (snd (mem_AcceptInvitation s k sub now))"
proof -
  have new: "sound_change s (s\<lparr>members := (members s)(wsID \<mapsto> ms(sub \<mapsto> m)), invitations := is\<rparr>)"
    if "members s wsID = Some ms" "ms sub = None" "mb_Role m \<noteq> RoleOwner" "mb_Sub m = sub"
      "mb_WorkspaceID m = wsID" for wsID ms m "is"
  proof -
    have "sound_change s (s\<lparr>members := (members s)(wsID \<mapsto> ms(sub \<mapsto> m))\<rparr>)"
      using that assms(1) by (intro sound_members) (auto simp: owners_upd dest: membership_invD)
    then show ?thesis by (rule sound_cong [THEN iffD1, rotated]) (simp add: parts)
  qed
  show ?thesis
    using assms
    by (auto simp: mem_AcceptInvitation_def Let_def sound_refl intro!: new
        dest: invitation_role split: option.splits)
qed

lemma sound_mem_CreateWorkspace:
  assumes "membership_inv s" and "fresh s nid"
  shows "sound_change s (snd (mem_CreateWorkspace s nid name sub orgID now))"
  using assms
  by (auto simp: mem_CreateWorkspace_def Let_def sound_change_def membership_inv_def fresh_def
      member_wf_def owners_new)

lemma sound_mem_CreateChannel:
  "sound_change s t \<Longrightarrow> sound_change s (snd (mem_CreateChannel t nid wsID name now))"
proof (rule sound_cong [THEN iffD1, rotated])
  show "membership_part t = membership_part (snd (mem_CreateChannel t nid wsID name now))"
    by (simp add: mem_CreateChannel_def Let_def parts)
qed

lemma sound_mem_invitations:
  assumes "membership_inv s"
  shows "sound_change s (snd (mem_CreateInvitation s nid wsID h role em mx ex actor now))"
    and "sound_change s (snd (mem_RevokeInvitation s wsID k now))"
    and "sound_change s (snd (mem_UpdateInvitationPolicy s wsID k role em mx ex))"
  using assms
  by (auto simp: mem_CreateInvitation_def mem_RevokeInvitation_def mem_UpdateInvitationPolicy_def
      Let_def parts intro!: sound_same split: option.splits)

lemmas sound_mem =
  sound_mem_AddMember sound_mem_UpdateMemberRole sound_mem_RemoveMember
  sound_mem_UpdateMemberDisplayName sound_mem_AcceptInvitation sound_mem_CreateWorkspace
  sound_mem_CreateChannel sound_mem_invitations

text \<open>The service's operations.\<close>

lemma lastOwnerCheck_pass:
  assumes "membership_inv s" and "orders_members s wsID ks" and "mem_GetMember s wsID sub = Inr target"
    and "svc_lastOwnerCheck ks s wsID target = Inr u" and "members s wsID = Some ms"
  shows "sub \<notin> owners ms"
  using lastOwnerCheck_iff [OF assms(1,5)] assms
  by (auto simp: orders_members_def mem_GetMember_def split: option.splits if_splits)

lemma sound_svc_UpdateMemberRole:
  assumes "membership_inv s" and "orders_members s wsID ks"
  shows "sound_change s (snd (svc_UpdateMemberRole s aid ks actor wsID target role now))"
  using assms
  by (auto simp: svc_UpdateMemberRole_def sound_refl dest: lastOwnerCheck_pass
      intro!: sound_ok sound_mem_UpdateMemberRole)

lemma sound_svc_RemoveMember:
  assumes "membership_inv s" and "orders_members s wsID ks"
  shows "sound_change s (snd (svc_RemoveMember s aid ks actor wsID target now))"
  using assms
  by (auto simp: svc_RemoveMember_def sound_refl dest: lastOwnerCheck_pass
      intro!: sound_ok sound_mem_RemoveMember)

lemma sound_svc_LeaveWorkspace:
  assumes "membership_inv s" and "orders_members s wsID ks"
  shows "sound_change s (snd (svc_LeaveWorkspace s aid ks sub wsID now))"
  using assms
  by (auto simp: svc_LeaveWorkspace_def sound_refl dest: lastOwnerCheck_pass
      intro!: sound_ok sound_mem_RemoveMember)

lemma sound_svc_CreateWorkspace:
  assumes "membership_inv s" and "fresh s nid"
  shows "sound_change s (snd (svc_CreateWorkspace s nid chid sub name orgID now now2))"
  using assms
  by (auto simp: svc_CreateWorkspace_def sound_refl intro!: sound_ok sound_mem)

lemma sound_svc_others:
  assumes "membership_inv s"
  shows "sound_change s (snd (svc_SyncMemberDisplayName s sub wsID name))"
    and "sound_change s (snd (svc_AddMember s actor wsID sub role now))"
    and "sound_change s (snd (svc_RevokeInvitation s aid actor wsID k now))"
    and "sound_change s (snd (svc_UpdateInvitationPolicy lo s aid ks actor wsID k r em mx ttl now))"
    and "sound_change s (snd (svc_CreateInvitation lo sha s nid aid rand actor wsID ro em2 mx2 ttl2 now))"
  using assms
  by (auto simp: svc_SyncMemberDisplayName_def svc_AddMember_def svc_RevokeInvitation_def
      svc_UpdateInvitationPolicy_def svc_CreateInvitation_def sound_refl Let_def
      intro!: sound_ok sound_mem)

lemma sound_svc_ResendInvitation:
  assumes "membership_inv s"
  shows "sound_change s (snd (svc_ResendInvitation lo sha s nid aid aid2 rand ks actor wsID k now now2))"
  using assms
  by (auto simp: svc_ResendInvitation_def sound_refl Let_def intro!: sound_ok sound_svc_others)

lemma sound_rejoin [simp]: "sound_change s (rejoin u t) = sound_change s t"
  by (rule sound_cong) simp

lemma sound_scope [simp]: "sound_change (svc_ForOrg c k s) t = sound_change s t"
  by (simp add: sound_change_def)

lemma inv_scope [simp]:
  "membership_inv (svc_ForOrg c k s) = membership_inv s" "invitation_inv (svc_ForOrg c k s) = invitation_inv s"
  "membership_inv (rejoin s' s) = membership_inv s" "invitation_inv (rejoin s' s) = invitation_inv s"
  by (auto simp: invitation_inv_def intro!: membership_inv_cong)

lemma sound_svc_accept_scoped:
  assumes "membership_inv s" and "invitation_inv s"
  shows "sound_change s (snd (svc_accept_scoped s aid k sub now))"
  using sound_mem_AcceptInvitation [OF assms]
  by (auto simp: svc_accept_scoped_def Let_def intro!: sound_ok split: sum.splits prod.splits)

lemma sound_svc_AcceptInvitation:
  assumes "membership_inv s" and "invitation_inv s"
  shows "sound_change s (snd (svc_AcceptInvitation lo sha c ks s aid sub em tok now))"
  using assms sound_svc_accept_scoped [of "svc_ForOrg c _ s"]
  by (auto simp: svc_AcceptInvitation_def sound_refl Let_def split: sum.splits)

theorem exec_member_sound:
  assumes "membership_inv s" and "invitation_inv s" and "runtime_member s r"
  shows "sound_change s (snd (exec_member env r s))"
  using assms
  by (cases r)
    (auto intro: sound_svc_UpdateMemberRole sound_svc_RemoveMember sound_svc_LeaveWorkspace
      sound_svc_CreateWorkspace sound_svc_others
      sound_svc_ResendInvitation sound_svc_AcceptInvitation)


section \<open>Every request keeps the invitations within their bounds\<close>

definition workspaces_kept :: "Store \<Rightarrow> Store \<Rightarrow> bool" where
  "workspaces_kept s t \<longleftrightarrow> dom (workspaces s) \<subseteq> dom (workspaces t)"

lemma invitation_inv_same:
  "invitation_inv s \<Longrightarrow> invitations t = invitations s \<Longrightarrow> workspaces_kept s t \<Longrightarrow> invitation_inv t"
  by (fastforce simp: invitation_inv_def workspaces_kept_def dom_def)

lemma invitation_inv_upd:
  assumes "invitation_inv s" and "invitation_wf k iv" and "workspaces s (inv_WorkspaceID iv) \<noteq> None"
  shows "invitation_inv (s\<lparr>invitations := (invitations s)(k \<mapsto> iv)\<rparr>)"
  using assms by (auto simp: invitation_inv_def)

lemmas iv_ok = ok_inv [where P = invitation_inv]

lemma iv_mem_members:
  assumes "invitation_inv s"
  shows "invitation_inv (snd (mem_AddMember s wsID sub role now))"
    and "invitation_inv (snd (mem_UpdateMemberRole s wsID sub role))"
    and "invitation_inv (snd (mem_RemoveMember s wsID sub))"
    and "invitation_inv (snd (mem_UpdateMemberDisplayName s wsID sub name))"
    and "invitation_inv (snd (mem_CreateWorkspace s nid name sub orgID now))"
    and "invitation_inv (snd (mem_CreateChannel s nid wsID name now))"
  by (rule invitation_inv_same [OF assms];
      auto simp: op_defs Let_def workspaces_kept_def split: option.splits)+

lemma iv_mem_CreateInvitation:
  assumes "invitation_inv s" and "role = RoleMember \<or> role = RoleGuest" and "1 \<le> mx" and "mx \<le> MaxInviteUses"
  shows "invitation_inv (snd (mem_CreateInvitation s nid wsID h role em mx ex actor now))"
  using assms
  by (auto simp: mem_CreateInvitation_def Let_def invitation_wf_def intro!: invitation_inv_upd)

lemma iv_mem_RevokeInvitation:
  assumes "invitation_inv s"
  shows "invitation_inv (snd (mem_RevokeInvitation s wsID k now))"
  using assms
  by (auto simp: mem_RevokeInvitation_def Let_def invitation_wf_def dest: invitation_invD
      intro!: invitation_inv_upd split: option.splits)

lemma iv_mem_UpdateInvitationPolicy:
  assumes "invitation_inv s" and "role = RoleMember \<or> role = RoleGuest" and "1 \<le> mx" and "mx \<le> MaxInviteUses"
    and "\<And>iv. invitations s k = Some iv \<Longrightarrow> inv_UseCount iv \<le> mx"
  shows "invitation_inv (snd (mem_UpdateInvitationPolicy s wsID k role em mx ex))"
  using assms
  by (auto simp: mem_UpdateInvitationPolicy_def Let_def invitation_wf_def dest: invitation_invD
      intro!: invitation_inv_upd split: option.splits)

lemma iv_mem_AcceptInvitation:
  assumes "invitation_inv s"
  shows "invitation_inv (snd (mem_AcceptInvitation s k sub now))"
proof -
  have "invitation_inv (s\<lparr>members := ms', invitations := (invitations s)(inv_ID iv \<mapsto> iv\<lparr>inv_UseCount := inv_UseCount iv + 1\<rparr>)\<rparr>)"
    if "invitations s k = Some iv" "inv_UseCount iv < inv_MaxUses iv" for iv ms'
    using invitation_invD [OF assms that(1)] that(2) assms by (auto simp: invitation_inv_def invitation_wf_def)
  then show ?thesis
    using assms by (auto simp: mem_AcceptInvitation_def Let_def inv_dead_def split: option.splits)
qed

lemmas iv_mem = iv_mem_members iv_mem_CreateInvitation iv_mem_RevokeInvitation
  iv_mem_UpdateInvitationPolicy iv_mem_AcceptInvitation

lemma iv_svc_CreateInvitation:
  "invitation_inv s \<Longrightarrow>
   invitation_inv (snd (svc_CreateInvitation lo sha s nid aid rand actor wsID role em mx ttl now))"
  by (auto simp: svc_CreateInvitation_def Let_def intro!: iv_ok iv_mem)

text \<open>The loop over the list finds the invitation the store holds under the identifier.\<close>

lemma find_in_list:
  assumes "mem_ListInvitations ks s wsID = Inr ivs" and "range_order (invitations s) ks"
    and "find_invitation ivs k = Inr base" and "invitation_inv s"
  shows "invitations s k = Some base" and "inv_WorkspaceID base = wsID"
proof -
  have base: "base \<in> set ivs" "inv_ID base = k"
    using assms(3) by (auto simp: find_invitation_def find_Some_iff in_set_conv_nth split: option.splits)
  then have "base \<in> ran (invitations s)" and ws: "inv_WorkspaceID base = wsID"
    using assms(1,2) by (auto simp: mem_ListInvitations_def set_range_values_order split: if_splits)
  then obtain k' where "invitations s k' = Some base" by (auto simp: ran_def)
  with base show "invitations s k = Some base"
    using invitation_invD(1) [OF assms(4)] by (auto simp: invitation_wf_def)
  show "inv_WorkspaceID base = wsID" by (rule ws)
qed

lemma iv_svc_UpdateInvitationPolicy:
  assumes iv: "invitation_inv s" and ks: "range_order (invitations s) ks"
  shows "invitation_inv (snd (svc_UpdateInvitationPolicy lo s aid ks actor wsID k r em mx ttl now))"
proof -
  have upd: "invitation_inv (snd (mem_UpdateInvitationPolicy s wsID k nr e nm ex))"
    if "mem_ListInvitations ks s wsID = Inr ivs" "find_invitation ivs k = Inr base"
      "policy_role base r = Inr nr" "policy_max base mx = Inr nm" for ivs base r nr e mx nm ex
  proof -
    have base: "invitations s k = Some base" by (rule find_in_list(1) [OF that(1) ks that(2) iv])
    then have wf: "invitation_wf k base" by (rule invitation_invD(1) [OF iv])
    have "nr = RoleMember \<or> nr = RoleGuest"
      using that(3) wf by (auto simp: policy_role_def Let_def invitation_wf_def split: option.splits if_splits)
    moreover have "1 \<le> nm \<and> nm \<le> MaxInviteUses \<and> inv_UseCount base \<le> nm"
      using that(4) wf
      by (auto simp: policy_max_def Let_def invitation_wf_def MaxInviteUses_def split: option.splits if_splits)
    ultimately show ?thesis
      using iv base by (intro iv_mem_UpdateInvitationPolicy) auto
  qed
  show ?thesis
    unfolding svc_UpdateInvitationPolicy_def
    using iv by (auto simp: Let_def intro!: iv_ok) (rule upd; assumption)+
qed

lemma iv_svc_members:
  assumes "invitation_inv s"
  shows "invitation_inv (snd (svc_SyncMemberDisplayName s sub wsID name))"
    and "invitation_inv (snd (svc_AddMember s actor wsID sub role now))"
    and "invitation_inv (snd (svc_UpdateMemberRole s aid ks actor wsID target role now))"
    and "invitation_inv (snd (svc_RemoveMember s aid ks actor wsID target now))"
    and "invitation_inv (snd (svc_LeaveWorkspace s aid ks sub wsID now))"
    and "invitation_inv (snd (svc_RevokeInvitation s aid actor wsID k now))"
    and "invitation_inv (snd (svc_CreateWorkspace s nid chid sub name orgID now now2))"
    and "invitation_inv (snd (svc_ResendInvitation lo sha s nid aid aid2 rand ks2 actor wsID k now now2))"
  using assms
  by (auto simp: svc_SyncMemberDisplayName_def svc_AddMember_def svc_UpdateMemberRole_def svc_RemoveMember_def
      svc_LeaveWorkspace_def svc_RevokeInvitation_def svc_CreateWorkspace_def svc_ResendInvitation_def Let_def
      intro!: iv_ok iv_mem iv_svc_CreateInvitation split: prod.splits)

lemma iv_svc_AcceptInvitation:
  assumes "invitation_inv s"
  shows "invitation_inv (snd (svc_AcceptInvitation lo sha c ks s aid sub em tok now))"
  using assms
  by (auto simp: svc_AcceptInvitation_def svc_accept_scoped_def Let_def
      intro!: iv_ok iv_mem_AcceptInvitation split: sum.splits prod.splits)

theorem exec_member_invitation_inv:
  assumes "invitation_inv s" and "runtime_member s r"
  shows "invitation_inv (snd (exec_member env r s))"
  using assms
  by (cases r)
    (auto intro: iv_svc_members iv_svc_CreateInvitation iv_svc_UpdateInvitationPolicy iv_svc_AcceptInvitation)


section \<open>Who may send a request\<close>

text \<open>
  The workspace, the subject and the role a request is checked against. Creating a workspace needs
  no role, and accepting an invitation needs its token instead of one.
\<close>

fun member_need :: "member_req \<Rightarrow> (id \<times> string \<times> role) option" where
  "member_need (SyncMemberDisplayName sub wsID name) = Some (wsID, sub, RoleGuest)"
| "member_need (AddMember actor wsID sub role now) = Some (wsID, actor, RoleOwner)"
| "member_need (UpdateMemberRole aid ks actor wsID target role now) = Some (wsID, actor, RoleOwner)"
| "member_need (RemoveMember aid ks actor wsID target now) = Some (wsID, actor, RoleOwner)"
| "member_need (LeaveWorkspace aid ks sub wsID now) = Some (wsID, sub, RoleGuest)"
| "member_need (CreateInvitation nid aid rand actor wsID role email mx ttl now) = Some (wsID, actor, RoleOwner)"
| "member_need (RevokeInvitation aid actor wsID inviteID now) = Some (wsID, actor, RoleOwner)"
| "member_need (UpdateInvitationPolicy aid ks actor wsID inviteID role email mx ttl now) =
     Some (wsID, actor, RoleOwner)"
| "member_need (ResendInvitation nid aid aid2 rand ks actor wsID inviteID now now2) =
     Some (wsID, actor, RoleOwner)"
| "member_need (CreateWorkspace nid chid sub name orgID now now2) = None"
| "member_need (AcceptInvitation ks aid sub email token now) = None"

lemma outcome_fails: "\<exists>e. r = (Inl e, s) \<Longrightarrow> \<exists>e. outcome r = (Inl e, s)"
  by (auto simp: outcome_def)

text \<open>
  A request that needs a role in a workspace fails and changes nothing when its sender does
  not have that role there.
\<close>

theorem member_request_needs_role:
  assumes "member_need r = Some (wsID, sub, need)" and "\<not> has_role s wsID sub need"
  shows "\<exists>e. exec_member env r s = (Inl e, s)"
  using assms
  by (cases r)
    (auto intro!: outcome_fails sync_name.unauthorized_fails add_member.unauthorized_fails
      update_role.unauthorized_fails remove_member.unauthorized_fails leave_ws.unauthorized_fails
      create_invitation.unauthorized_fails revoke_invitation.unauthorized_fails
      invitation_policy.unauthorized_fails resend_invitation.unauthorized_fails)

text \<open>A workspace with an owner and a guest, made by the service's own operations.\<close>

definition demo_team :: Store where
  "demo_team = snd (svc_AddMember
     (snd (svc_CreateWorkspace New ''w'' ''c'' ''ann'' ''Team'' ''org'' 0 0)) ''ann'' ''w'' ''gus'' RoleGuest 1)"

text \<open>An environment for the examples.\<close>

definition demo_env :: Env where
  "demo_env = \<lparr>env_lo = id, env_sha = id, env_ulid = (\<lambda>x. length x = 1), env_tenant = True,
     env_publicURL = ''https://api'', env_mediaURL = [], env_uploadDir = ''up''\<rparr>"

lemma demo_values:
  "DevDisplayName ''ann'' = []" "DevDisplayName ''gus'' = []" "DevDisplayName ''bea'' = []"
  "TrimSpace ''ann'' = ''ann''" "TrimSpace ''gus'' = ''gus''" "TrimSpace ''bea'' = ''bea''"
  "TrimSpace ''org'' = ''org''" "TrimSpace ''tok'' = ''tok''"
  by code_simp+

lemma demo_team_members:
  "members demo_team = [''w'' \<mapsto> [''ann'' \<mapsto> \<lparr>mb_WorkspaceID = ''w'', mb_Sub = ''ann'', mb_DisplayName = [],
       mb_Role = RoleOwner, mb_JoinedAt = 0\<rparr>,
     ''gus'' \<mapsto> \<lparr>mb_WorkspaceID = ''w'', mb_Sub = ''gus'', mb_DisplayName = [],
       mb_Role = RoleGuest, mb_JoinedAt = 1\<rparr>]]"
  and demo_team_workspaces:
  "workspaces demo_team = [''w'' \<mapsto> \<lparr>ws_ID = ''w'', ws_Name = ''Team'', ws_OrgID = ''org'', ws_CreatedAt = 0\<rparr>]"
  and demo_team_rest: "invitations demo_team = Map.empty" "audits demo_team = Map.empty"
    "orgFilter demo_team = []" "skipTenant demo_team = False"
  by (simp_all add: demo_team_def op_defs New_def svc_requireRole_def Let_def demo_values)

lemma demo_team_inv: "membership_inv demo_team"
  by (auto simp: membership_inv_def demo_team_members demo_team_workspaces member_wf_def owners_def split: if_splits)

theorem member_request_needs_role_witness:
  "\<exists>e. exec_member demo_env (AddMember ''gus'' ''w'' ''eve'' RoleMember 5) demo_team = (Inl e, demo_team)"
  by (rule member_request_needs_role [of _ "''w''" "''gus''" RoleOwner])
    (simp_all add: has_role_def demo_team_members)

end
