(* ===== verification/Invitations.thy ===== *)
theory Invitations
  imports Membership
begin

text \<open>
  What an invitation promises: it admits at most as many people as it allows, never after it
  was revoked, has expired or is used up, the audit trail records every admission, and the preview
  tells what accepting it will do. Also leaving a workspace and losing one's place in it.
\<close>

section \<open>Accepting an invitation\<close>

text \<open>The member an invitation admits, and the store afterwards.\<close>

definition admitted :: "Invitation \<Rightarrow> string \<Rightarrow> time \<Rightarrow> Member" where
  "admitted iv sub now =
     \<lparr>mb_WorkspaceID = inv_WorkspaceID iv, mb_Sub = sub, mb_DisplayName = DevDisplayName sub,
      mb_Role = inv_Role iv, mb_JoinedAt = now\<rparr>"

definition after_admission :: "Store \<Rightarrow> Invitation \<Rightarrow> (string \<rightharpoonup> Member) \<Rightarrow> id \<Rightarrow> string \<Rightarrow> time \<Rightarrow> Store" where
  "after_admission s iv ms aid sub now =
     s\<lparr>members := (members s)(inv_WorkspaceID iv \<mapsto> ms(sub \<mapsto> admitted iv sub now)),
       invitations := (invitations s)(inv_ID iv \<mapsto> iv\<lparr>inv_UseCount := inv_UseCount iv + 1\<rparr>),
       audits := (audits s)(inv_WorkspaceID iv \<mapsto> get_list (audits s) (inv_WorkspaceID iv) @
         [audit_event aid (inv_WorkspaceID iv) sub sub (inv_ID iv) ''workspace.invitation.accepted'' now])\<rparr>"

lemma lookup_stored:
  assumes "mem_GetInvitationByTokenHash ks s h = Inr iv" and "range_order (invitations s) ks"
    and "invitation_inv s"
  shows "invitations s (inv_ID iv) = Some iv" and "inv_TokenHash iv = h"
proof -
  have "iv \<in> set (range_values ks (invitations s))" and h: "inv_TokenHash iv = h"
    using assms(1) by (auto simp: mem_GetInvitationByTokenHash_def find_Some_iff in_set_conv_nth split: option.splits)
  then obtain k where k: "invitations s k = Some iv"
    using assms(2) by (auto simp: set_range_values)
  with assms(3) show "invitations s (inv_ID iv) = Some iv"
    by (auto dest: invitation_invD simp: invitation_wf_def)
  show "inv_TokenHash iv = h" by (rule h)
qed

lemma allowOrg_own [simp]: "allowOrg (svc_ForOrg True org s) org"
  by (simp add: allowOrg_def scope_defs)

lemma allowOrg_unscoped [simp]: "allowOrg (svc_Unscoped True s) org"
  by (simp add: allowOrg_def scope_defs)

lemma lookup_scope [simp]:
  "mem_GetInvitationByTokenHash ks (svc_Unscoped c s) h = mem_GetInvitationByTokenHash ks s h"
  by (simp add: mem_GetInvitationByTokenHash_def)

lemma get_workspace_unscoped [simp]:
  "workspaces s w = Some ws \<Longrightarrow> mem_GetWorkspace (svc_Unscoped True s) w = Inr ws"
  "workspaces s w = None \<Longrightarrow> mem_GetWorkspace (svc_Unscoped True s) w = Inl ErrNotFound"
  by (simp_all add: mem_GetWorkspace_def)

lemma accept_scoped_outcome:
  assumes "invitations s (inv_ID iv) = Some iv" and "members s (inv_WorkspaceID iv) = Some ms"
    and "workspaces s (inv_WorkspaceID iv) = Some ws" and "allowOrg s (ws_OrgID ws)"
  shows "svc_accept_scoped s aid (inv_ID iv) sub now =
    (if inv_dead iv now then (Inl ErrNotFound, s)
     else case ms sub of
       Some m \<Rightarrow> (Inr (m, ws), s)
     | None \<Rightarrow> (Inr (admitted iv sub now, ws), after_admission s iv ms aid sub now))"
  using assms
  by (auto simp: svc_accept_scoped_def mem_AcceptInvitation_def mem_AddAuditEvent_def mem_GetWorkspace_def
      Let_def admitted_def after_admission_def audit_event_def allowOrg_def split: option.splits)

lemma after_admission_scope [simp]:
  "rejoin s (after_admission (svc_ForOrg c k s) iv ms aid sub now) = after_admission s iv ms aid sub now"
  by (simp add: after_admission_def scope_defs)

lemma accept_outcome:
  assumes "invitation_inv s" and "range_order (invitations s) ks"
    and "TrimSpace sub \<noteq> []" and "TrimSpace tok \<noteq> []"
    and "mem_GetInvitationByTokenHash ks s (hashInviteToken sha tok) = Inr iv"
    and "workspaces s (inv_WorkspaceID iv) = Some ws" and "members s (inv_WorkspaceID iv) = Some ms"
  shows "svc_AcceptInvitation lo sha True ks s aid sub email tok now =
    (if inv_InvitedEmail iv \<noteq> [] \<and> normalizeEmail lo email \<noteq> inv_InvitedEmail iv then (Inl ErrForbidden, s)
     else if inv_dead iv now then (Inl ErrNotFound, s)
     else case ms sub of
       Some m \<Rightarrow> (Inr (m, ws), s)
     | None \<Rightarrow> (Inr (admitted iv sub now, ws), after_admission s iv ms aid sub now))"
  using assms lookup_stored(1) [OF assms(5,2,1)]
    accept_scoped_outcome [of "svc_ForOrg True (ws_OrgID ws) s" iv ms ws aid sub now]
  by (simp add: svc_AcceptInvitation_def split: option.split)

text \<open>
  (C11) Accepting an invitation that the token's hash finds: an address other than the invited one
  is turned away, a revoked, expired or used-up invitation is not found, someone who is a member
  already keeps the membership unchanged and uses nothing up, and anyone else becomes a member with
  the invitation's role, uses it once and leaves an audit event. Nothing else of the store changes.
\<close>

theorem accept_invitation_outcome:
  assumes "invitation_inv s" and "range_order (invitations s) ks"
    and "TrimSpace sub \<noteq> []" and "TrimSpace tok \<noteq> []"
    and "mem_GetInvitationByTokenHash ks s (hashInviteToken sha tok) = Inr iv"
    and "workspaces s (inv_WorkspaceID iv) = Some ws" and "members s (inv_WorkspaceID iv) = Some ms"
  shows "svc_AcceptInvitation lo sha True ks s aid sub email tok now =
    (if inv_InvitedEmail iv \<noteq> [] \<and> normalizeEmail lo email \<noteq> inv_InvitedEmail iv then (Inl ErrForbidden, s)
     else if inv_dead iv now then (Inl ErrNotFound, s)
     else case ms sub of
       Some m \<Rightarrow> (Inr (m, ws), s)
     | None \<Rightarrow> (Inr (admitted iv sub now, ws), after_admission s iv ms aid sub now))"
  using assms by (rule accept_outcome)


text \<open>The team of the example with an open invitation, whose token is \<open>AAAA\<close> (the hash is the identity).\<close>

definition demo_invited :: Store where
  "demo_invited = snd (svc_CreateInvitation id id demo_team ''i'' ''e'' (Some [0, 0, 0]) ''ann'' ''w'' [] [] 0 0 2)"

definition demo_invitation :: Invitation where
  "demo_invitation = \<lparr>inv_ID = ''i'', inv_WorkspaceID = ''w'', inv_TokenHash = ''AAAA'', inv_Role = RoleMember,
     inv_InvitedEmail = [], inv_MaxUses = 1, inv_UseCount = 0, inv_ExpiresAt = 259200000000002,
     inv_InvitedBy = ''ann'', inv_CreatedAt = 2, inv_RevokedAt = None\<rparr>"

lemma demo_token: "b64_digit 0 = CHR ''A''" "b64_encode [0, 0, 0] = ''AAAA''" "TrimSpace ''AAAA'' = ''AAAA''"
    "normalizeEmail id [] = []"
  by code_simp+

lemma demo_invited_maps:
  "invitations demo_invited = [''i'' \<mapsto> demo_invitation]"
  "members demo_invited = members demo_team" "workspaces demo_invited = workspaces demo_team"
  by (simp_all add: demo_invited_def svc_CreateInvitation_def svc_requireRole_def op_defs Let_def
      demo_team_members demo_team_workspaces demo_team_rest newInviteToken_def hashInviteToken_def
      demo_token MaxInviteUses_def demo_invitation_def Hour_def Minute_def)

lemma demo_invited_facts:
  "invitation_inv demo_invited" "range_order (invitations demo_invited) [''i'']"
  "mem_GetInvitationByTokenHash [''i''] demo_invited ''AAAA'' = Inr demo_invitation"
  by (auto simp: invitation_inv_def invitation_wf_def range_order_def demo_invited_maps demo_team_workspaces
      mem_GetInvitationByTokenHash_def MaxInviteUses_def demo_invitation_def)

lemma demo_invited_w:
  "workspaces demo_invited (inv_WorkspaceID demo_invitation) =
     Some \<lparr>ws_ID = ''w'', ws_Name = ''Team'', ws_OrgID = ''org'', ws_CreatedAt = 0\<rparr>"
  "members demo_invited (inv_WorkspaceID demo_invitation) = members demo_team ''w''"
  by (simp_all add: demo_invited_maps demo_team_workspaces demo_invitation_def)

lemma demo_open: "inv_InvitedEmail demo_invitation = []" "\<not> inv_dead demo_invitation 5"
  by (simp_all add: demo_invitation_def inv_dead_def)

theorem accept_invitation_outcome_witness:
  "fst (svc_AcceptInvitation id id True [''i''] demo_invited ''a'' ''bea'' [] ''AAAA'' 5) =
     Inr (admitted demo_invitation ''bea'' 5,
          \<lparr>ws_ID = ''w'', ws_Name = ''Team'', ws_OrgID = ''org'', ws_CreatedAt = 0\<rparr>)"
  using accept_invitation_outcome [where iv = demo_invitation and lo = id and sha = id and tok = "''AAAA''"
      and sub = "''bea''" and aid = "''a''" and email = "[]" and now = 5, OF demo_invited_facts(1,2) _ _ _
      demo_invited_w(1) demo_invited_w(2) [unfolded demo_team_members fun_upd_same]]
  by (simp add: demo_values demo_token demo_invited_facts hashInviteToken_def demo_open)

lemma has_members:
  assumes "membership_inv s" and "workspaces s w = Some ws"
  shows "\<exists>ms. members s w = Some ms"
proof -
  have "w \<in> dom (members s)" using assms by (auto simp: membership_inv_def)
  then show ?thesis by blast
qed

text \<open>
  (C18) The preview and the acceptance of an invitation agree: for a subject whose address fits, the
  preview shows a workspace exactly when accepting the invitation gives a membership in it.
\<close>

theorem preview_iff_accept:
  assumes "membership_inv s" and "invitation_inv s" and "range_order (invitations s) ks"
    and "\<And>iv. mem_GetInvitationByTokenHash ks s (hashInviteToken sha tok) = Inr iv \<Longrightarrow>
      inv_InvitedEmail iv = [] \<or> normalizeEmail lo email = inv_InvitedEmail iv"
  shows "(\<exists>iv. svc_PreviewInvitation sha True ks s sub tok now = Inr (iv, ws)) \<longleftrightarrow>
    (\<exists>m. fst (svc_AcceptInvitation lo sha True ks s aid sub email tok now) = Inr (m, ws))"
proof (cases "TrimSpace sub = [] \<or> TrimSpace tok = []")
  case True
  then show ?thesis by (auto simp: svc_PreviewInvitation_def svc_AcceptInvitation_def)
next
  case ne: False
  show ?thesis
  proof (cases "mem_GetInvitationByTokenHash ks s (hashInviteToken sha tok)")
    case (Inl e)
    with ne show ?thesis by (auto simp: svc_PreviewInvitation_def svc_AcceptInvitation_def)
  next
    case (Inr iv)
    have iv: "invitations s (inv_ID iv) = Some iv"
      by (rule lookup_stored(1) [OF Inr assms(3,2)])
    then obtain ws' ms where ws: "workspaces s (inv_WorkspaceID iv) = Some ws'"
        and ms: "members s (inv_WorkspaceID iv) = Some ms"
      using has_members [OF assms(1)] invitation_invD(2) [OF assms(2) iv] by blast
    have em: "\<not> (inv_InvitedEmail iv \<noteq> [] \<and> normalizeEmail lo email \<noteq> inv_InvitedEmail iv)"
      using assms(4) [OF Inr] by auto
    have "svc_PreviewInvitation sha True ks s sub tok now =
        (if inv_dead iv now then Inl ErrNotFound else Inr (iv, ws'))"
      using ne Inr ws by (simp add: svc_PreviewInvitation_def)
    moreover have "fst (svc_AcceptInvitation lo sha True ks s aid sub email tok now) =
        (if inv_dead iv now then Inl ErrNotFound
         else Inr (case ms sub of Some m \<Rightarrow> m | None \<Rightarrow> admitted iv sub now, ws'))"
      using ne em
      by (subst accept_outcome [OF assms(2,3) _ _ Inr ws ms]) (auto split: option.split)
    ultimately show ?thesis by simp
  qed
qed


lemma demo_invited_membership: "membership_inv demo_invited"
  by (auto simp: membership_inv_def demo_invited_maps demo_team_members demo_team_workspaces member_wf_def owners_def
      split: if_splits)

theorem preview_iff_accept_witness:
  "\<exists>m. fst (svc_AcceptInvitation id id True [''i''] demo_invited ''a'' ''bea'' ''bea@x'' ''AAAA'' 5) =
     Inr (m, \<lparr>ws_ID = ''w'', ws_Name = ''Team'', ws_OrgID = ''org'', ws_CreatedAt = 0\<rparr>)"
proof (rule preview_iff_accept [OF demo_invited_membership demo_invited_facts(1,2), THEN iffD1])
  show "\<exists>iv. svc_PreviewInvitation id True [''i''] demo_invited ''bea'' ''AAAA'' 5 =
     Inr (iv, \<lparr>ws_ID = ''w'', ws_Name = ''Team'', ws_OrgID = ''org'', ws_CreatedAt = 0\<rparr>)"
    using demo_invited_w(1)
    by (simp add: svc_PreviewInvitation_def demo_values demo_token demo_invited_facts hashInviteToken_def demo_open)
qed (simp add: hashInviteToken_def demo_invited_facts demo_open)

section \<open>Leaving a workspace\<close>

text \<open>
  A member who leaves disappears from the workspace and an audit event remains; the owner
  cannot leave, nor can someone who is not a member, and then nothing changes.
\<close>

theorem leave_workspace_outcome:
  assumes "membership_inv s" and "orders_members s wsID ks" and "members s wsID = Some ms"
  shows "svc_LeaveWorkspace s aid ks sub wsID now =
    (case ms sub of
       None \<Rightarrow> (Inl ErrForbidden, s)
     | Some m \<Rightarrow>
         if mb_Role m = RoleOwner then (Inl ErrForbidden, s)
         else (Inr (), s\<lparr>members := (members s)(wsID \<mapsto> ms(sub := None)),
                audits := (audits s)(wsID \<mapsto> get_list (audits s) wsID @
                  [audit_event aid wsID sub sub [] ''workspace.member.left'' now])\<rparr>))"
proof (cases "ms sub")
  case None
  then show ?thesis
    using assms by (simp add: svc_LeaveWorkspace_def svc_requireRead_def svc_requireRole_def mem_MemberRole_def)
next
  case (Some m)
  have "svc_requireRead s wsID sub = Inr ()" "mem_GetMember s wsID sub = Inr m"
    using assms Some by (simp_all add: svc_requireRead_def has_role_def mem_GetMember_def)
  moreover have "svc_lastOwnerCheck ks s wsID m = (if mb_Role m = RoleOwner then Inl ErrForbidden else Inr ())"
    using lastOwnerCheck_iff [OF assms(1,3) _ Some] assms(2,3) owners_iff [of ms sub m]
    by (simp add: orders_members_def Some)
  ultimately show ?thesis
    using assms(3) Some
    by (simp add: svc_LeaveWorkspace_def mem_RemoveMember_def mem_AddAuditEvent_def audit_event_def)
qed

theorem leave_workspace_outcome_witness:
  "fst (svc_LeaveWorkspace demo_invited ''a'' [''gus'', ''ann''] ''gus'' ''w'' 9) = Inr () \<and>
   fst (svc_LeaveWorkspace demo_invited ''a'' [''gus'', ''ann''] ''ann'' ''w'' 9) = Inl ErrForbidden"
proof -
  have ks: "orders_members demo_invited ''w'' [''gus'', ''ann'']"
    by (auto simp: orders_members_def demo_invited_maps demo_team_members range_order_def)
  note leave_workspace_outcome [OF demo_invited_membership ks, unfolded demo_invited_maps demo_team_members, OF fun_upd_same]
  then show ?thesis by simp
qed


section \<open>The audit trail records every admission\<close>

definition admissions :: "id \<Rightarrow> AuditEvent list \<Rightarrow> AuditEvent list" where
  "admissions k es = filter (\<lambda>e. ae_Type e = ''workspace.invitation.accepted'' \<and> ae_InviteID e = k) es"

lemma admissions_simps [simp]:
  "admissions k [] = []" "admissions k (es @ es') = admissions k es @ admissions k es'"
  "admissions k [e] = (if ae_Type e = ''workspace.invitation.accepted'' \<and> ae_InviteID e = k then [e] else [])"
  by (simp_all add: admissions_def)

definition audit_trail :: "Store \<Rightarrow> bool" where
  "audit_trail s \<longleftrightarrow>
     invitations s [] = None \<and>
     (\<forall>k iv. invitations s k = Some iv \<longrightarrow>
        inv_UseCount iv = int (length (admissions k (get_list (audits s) (inv_WorkspaceID iv))))) \<and>
     (\<forall>w. \<forall>e \<in> set (get_list (audits s) w). ae_InviteID e \<noteq> [] \<longrightarrow> invitations s (ae_InviteID e) \<noteq> None)"

lemma audit_trail_New: "audit_trail New"
  by (simp add: audit_trail_def New_def)

lemma audit_trail_cong:
  "invitations s = invitations t \<Longrightarrow> audits s = audits t \<Longrightarrow> audit_trail s = audit_trail t"
  by (simp add: audit_trail_def)

lemmas at_ok = ok_inv [where P = audit_trail]

lemma at_event:
  assumes "audit_trail s" and "ae_Type e \<noteq> ''workspace.invitation.accepted''"
    and "ae_InviteID e = [] \<or> invitations s (ae_InviteID e) \<noteq> None"
  shows "audit_trail (mem_AddAuditEvent s e)"
  using assms by (auto simp: audit_trail_def mem_AddAuditEvent_def)

lemma at_mem_members:
  assumes "audit_trail s"
  shows "audit_trail (snd (mem_AddMember s wsID sub role now))"
    and "audit_trail (snd (mem_UpdateMemberRole s wsID sub role))"
    and "audit_trail (snd (mem_RemoveMember s wsID sub))"
    and "audit_trail (snd (mem_UpdateMemberDisplayName s wsID sub name))"
    and "audit_trail (snd (mem_CreateWorkspace s nid name sub orgID now))"
    and "audit_trail (snd (mem_CreateChannel s nid wsID name now))"
  by (rule audit_trail_cong [THEN iffD1, OF _ _ assms];
      auto simp: op_defs Let_def split: option.splits)+

text \<open>Changing an invitation without touching its count or its workspace.\<close>

lemma at_invitation_upd:
  assumes "audit_trail s" and "invitations s k = Some iv0"
    and "inv_UseCount iv = inv_UseCount iv0" and "inv_WorkspaceID iv = inv_WorkspaceID iv0"
  shows "audit_trail (s\<lparr>invitations := (invitations s)(k \<mapsto> iv)\<rparr>)"
  using assms by (auto simp: audit_trail_def)

lemma at_mem_RevokeInvitation: "audit_trail s \<Longrightarrow> audit_trail (snd (mem_RevokeInvitation s wsID k now))"
  by (auto simp: mem_RevokeInvitation_def Let_def intro!: at_invitation_upd split: option.splits)

lemma at_mem_UpdateInvitationPolicy:
  "audit_trail s \<Longrightarrow> audit_trail (snd (mem_UpdateInvitationPolicy s wsID k role em mx ex))"
  by (auto simp: mem_UpdateInvitationPolicy_def Let_def intro!: at_invitation_upd split: option.splits)

lemma no_admissions:
  assumes "audit_trail s" and "k \<noteq> []" and "invitations s k = None"
  shows "admissions k (get_list (audits s) w) = []"
  using assms by (force simp: audit_trail_def admissions_def filter_empty_conv)

lemma at_mem_CreateInvitation:
  assumes "audit_trail s" and "fresh s nid"
  shows "audit_trail (snd (mem_CreateInvitation s nid wsID h role em mx ex actor now))"
proof -
  have "nid \<noteq> []" "invitations s nid = None" using assms(2) by (auto simp: fresh_def)
  with assms(1) show ?thesis
    using no_admissions [OF assms(1)]
    by (auto simp: mem_CreateInvitation_def Let_def audit_trail_def)
qed

lemmas at_mem = at_mem_members at_mem_RevokeInvitation at_mem_UpdateInvitationPolicy at_mem_CreateInvitation

text \<open>The identifier an event is recorded with is that of a stored invitation.\<close>

lemma invitations_audit [simp]: "invitations (mem_AddAuditEvent s e) = invitations s"
  by (simp add: mem_AddAuditEvent_def)

lemma event_id:
  "fst (mem_RevokeInvitation s wsID k now) = Inr (iv, b) \<Longrightarrow> invitation_inv s \<Longrightarrow>
     \<exists>y. invitations (snd (mem_RevokeInvitation s wsID k now)) (inv_ID iv) = Some y"
  "fst (mem_UpdateInvitationPolicy s wsID k role em mx ex) = Inr iv \<Longrightarrow> invitation_inv s \<Longrightarrow>
     \<exists>y. invitations (snd (mem_UpdateInvitationPolicy s wsID k role em mx ex)) (inv_ID iv) = Some y"
  "fst (mem_CreateInvitation s nid wsID h role em mx ex actor now) = Inr iv \<Longrightarrow>
     \<exists>y. invitations (snd (mem_CreateInvitation s nid wsID h role em mx ex actor now)) (inv_ID iv) = Some y"
  by (auto simp: mem_RevokeInvitation_def mem_UpdateInvitationPolicy_def mem_CreateInvitation_def Let_def
      invitation_wf_def dest: invitation_invD(1) split: option.splits if_splits)

lemma audit_event_simps [simp]:
  "ae_Type (audit_event nid wsID a tg k ty now) = ty" "ae_InviteID (audit_event nid wsID a tg k ty now) = k"
  "ae_WorkspaceID (audit_event nid wsID a tg k ty now) = wsID"
  by (simp_all add: audit_event_def)

lemma at_svc_CreateInvitation:
  assumes "audit_trail s" and "fresh s nid"
  shows "audit_trail (snd (svc_CreateInvitation lo sha s nid aid rand actor wsID role em mx ttl now))"
  using assms
  by (auto simp: svc_CreateInvitation_def Let_def intro!: at_ok at_mem at_event)
    (rule event_id; assumption)+

definition names_invitation :: "(Invitation \<times> string) result \<times> Store \<Rightarrow> bool" where
  "names_invitation p \<longleftrightarrow>
     (\<forall>iv tok. fst p = Inr (iv, tok) \<longrightarrow> (\<exists>y. invitations (snd p) (inv_ID iv) = Some y))"

lemma names_invitation_simps [simp]:
  "names_invitation (Inl e, s)"
  "names_invitation (Inr (iv, tok), s) \<longleftrightarrow> (\<exists>y. invitations s (inv_ID iv) = Some y)"
  by (auto simp: names_invitation_def)

lemmas names_ok = ok_post [where Q = names_invitation]

lemma created_names: "names_invitation (svc_CreateInvitation lo sha s nid aid rand actor wsID role em mx ttl now)"
  by (auto simp: svc_CreateInvitation_def Let_def intro!: names_ok) (rule event_id; assumption)+

lemma created_invitation:
  "fst (svc_CreateInvitation lo sha s nid aid rand actor wsID role em mx ttl now) = Inr (iv, tok) \<Longrightarrow>
   \<exists>y. invitations (snd (svc_CreateInvitation lo sha s nid aid rand actor wsID role em mx ttl now)) (inv_ID iv) = Some y"
  using created_names unfolding names_invitation_def by blast

lemma at_svc_others:
  assumes "audit_trail s" and "invitation_inv s"
  shows "audit_trail (snd (svc_SyncMemberDisplayName s sub wsID name))"
    and "audit_trail (snd (svc_AddMember s actor wsID sub role now))"
    and "audit_trail (snd (svc_UpdateMemberRole s aid ks actor wsID target role now))"
    and "audit_trail (snd (svc_RemoveMember s aid ks actor wsID target now))"
    and "audit_trail (snd (svc_LeaveWorkspace s aid ks sub wsID now))"
    and "audit_trail (snd (svc_RevokeInvitation s aid actor wsID k now))"
    and "audit_trail (snd (svc_CreateWorkspace s nid chid sub name orgID now now2))"
    and "audit_trail (snd (svc_UpdateInvitationPolicy lo s aid ks actor wsID k r em mx ttl now))"
  using assms
  by (auto simp: svc_SyncMemberDisplayName_def svc_AddMember_def svc_UpdateMemberRole_def svc_RemoveMember_def
      svc_LeaveWorkspace_def svc_RevokeInvitation_def svc_CreateWorkspace_def svc_UpdateInvitationPolicy_def
      Let_def intro!: at_ok at_mem at_event split: prod.splits)
    (rule event_id; assumption)+

lemma at_svc_ResendInvitation:
  assumes "audit_trail s" and "fresh s nid"
  shows "audit_trail (snd (svc_ResendInvitation lo sha s nid aid aid2 rand ks actor wsID k now now2))"
  using assms
  by (auto simp: svc_ResendInvitation_def Let_def
      intro!: at_ok at_svc_CreateInvitation at_event split: prod.splits)
    (rule created_invitation; assumption)+


lemma at_svc_accept_scoped:
  assumes "audit_trail s" and "invitation_inv s" and "invitations s k = Some iv"
    and "members s (inv_WorkspaceID iv) \<noteq> None" and "workspaces s (inv_WorkspaceID iv) = Some ws" and "allowOrg s (ws_OrgID ws)"
  shows "audit_trail (snd (svc_accept_scoped s aid k sub now))"
proof -
  obtain ms where ms: "members s (inv_WorkspaceID iv) = Some ms" using assms(4) by blast
  have "inv_ID iv = k" using invitation_invD(1) [OF assms(2,3)] by (simp add: invitation_wf_def)
  moreover have "audit_trail (after_admission s iv ms aid sub now)"
    using assms(1,3) \<open>inv_ID iv = k\<close> by (auto simp: after_admission_def audit_trail_def)
  ultimately show ?thesis
    using assms ms accept_scoped_outcome [of s iv ms ws aid sub now] by (auto split: option.split)
qed

lemma at_scope [simp]:
  "audit_trail (svc_ForOrg c k s) = audit_trail s" "audit_trail (rejoin u s) = audit_trail s"
  by (rule audit_trail_cong; simp add: scope_defs)+

lemma at_svc_AcceptInvitation:
  assumes "audit_trail s" and "invitation_inv s" and "membership_inv s" and "range_order (invitations s) ks"
  shows "audit_trail (snd (svc_AcceptInvitation lo sha True ks s aid sub em tok now))"
proof -
  have "audit_trail (snd (svc_accept_scoped (svc_ForOrg True (ws_OrgID ws) s) aid (inv_ID iv) sub now))"
    if "mem_GetInvitationByTokenHash ks s (hashInviteToken sha tok) = Inr iv"
      "mem_GetWorkspace (svc_Unscoped True s) (inv_WorkspaceID iv) = Inr ws" for iv ws
  proof -
    have "workspaces s (inv_WorkspaceID iv) = Some ws"
      using that(2) by (simp add: mem_GetWorkspace_def split: option.splits)
    then show ?thesis
      using assms lookup_stored(1) [OF that(1) assms(4,2)] has_members [OF assms(3)]
      by (intro at_svc_accept_scoped) auto
  qed
  then show ?thesis
    using assms(1) by (auto simp: svc_AcceptInvitation_def Let_def split: sum.splits)
qed

lemma exec_member_audit_trail:
  assumes "membership_inv s" and "invitation_inv s" and "audit_trail s" and "runtime_member s r" and "env_tenant env"
  shows "audit_trail (snd (exec_member env r s))"
  using assms
  by (cases r)
    (auto intro: at_svc_others at_svc_CreateInvitation at_svc_ResendInvitation at_svc_AcceptInvitation)

end
