(* ===== verification/MemPages.thy ===== *)
theory MemPages
  imports Store
begin

text \<open>
  \<open>store/memory/store.go\<close>: wiki pages and their versions. The two loops that follow links between
  pages have a fuel argument, the number of pages and one; on the forest of pages that the store
  holds it is enough (theory \<open>Pages\<close>), and a loop out of fuel yields the internal error, which the
  program has no branch for.
\<close>

section \<open>Parents\<close>

text \<open>
  The loop of \<open>validateParentLocked\<close>: from \<open>cur\<close> upwards, refusing to meet \<open>pageID\<close> or a page
  already seen, and stopping at the root or at a page that does not exist.
\<close>

fun parent_walk :: "nat \<Rightarrow> (id \<rightharpoonup> Page) \<Rightarrow> id \<Rightarrow> id set \<Rightarrow> id \<Rightarrow> unit result" where
  "parent_walk 0 ps pageID seen cur = Inl ErrInternal"
| "parent_walk (Suc fuel) ps pageID seen cur =
     (if cur = [] then Inr ()
      else if cur = pageID then Inl ErrInvalid
      else if cur \<in> seen then Inl ErrInvalid
      else (case ps cur of
              None \<Rightarrow> Inr ()
            | Some next_page \<Rightarrow> parent_walk fuel ps pageID (insert cur seen) (pg_ParentID next_page)))"

definition page_count :: "(id \<rightharpoonup> Page) \<Rightarrow> nat" where
  "page_count ps = card (dom ps)"

definition validateParentLocked :: "Store \<Rightarrow> id \<Rightarrow> id \<Rightarrow> id \<Rightarrow> unit result" where
  "validateParentLocked s pageID wsID parentID =
     (if parentID = [] then Inr ()
      else if parentID = pageID then Inl ErrInvalid
      else (case pages s parentID of
              None \<Rightarrow> Inl ErrNotFound
            | Some par \<Rightarrow>
                (if pg_WorkspaceID par \<noteq> wsID then Inl ErrInvalid
                 else parent_walk (page_count (pages s) + 2) (pages s) pageID {parentID} (pg_ParentID par))))"

section \<open>Creating and reading\<close>

text \<open>The loop that finds the position after the last sibling, over the pages in the order \<open>ks\<close>.\<close>

fun next_position :: "id list \<Rightarrow> (id \<rightharpoonup> Page) \<Rightarrow> id \<Rightarrow> id \<Rightarrow> int \<Rightarrow> int" where
  "next_position [] ps wsID parentID pos = pos"
| "next_position (k # ks) ps wsID parentID pos =
     (case ps k of
        None \<Rightarrow> next_position ks ps wsID parentID pos
      | Some p \<Rightarrow>
          (if pg_WorkspaceID p = wsID \<and> pg_ParentID p = parentID \<and> pg_Position p \<ge> pos
           then next_position ks ps wsID parentID (pg_Position p + 1)
           else next_position ks ps wsID parentID pos))"

definition mem_CreatePage ::
  "Store \<Rightarrow> id \<Rightarrow> id \<Rightarrow> id list \<Rightarrow> id \<Rightarrow> id \<Rightarrow> string \<Rightarrow> string \<Rightarrow> string \<Rightarrow> time \<Rightarrow> Page result \<times> Store" where
  "mem_CreatePage s nid cid ks wsID parentID title body status now =
     (if workspaces s wsID = None then (Inl ErrNotFound, s)
      else guard_ok (validateParentLocked s [] wsID parentID) s (\<lambda>_.
        let pos = next_position ks (pages s) wsID parentID 0;
            page = \<lparr>pg_ID = nid, pg_WorkspaceID = wsID, pg_ParentID = parentID, pg_Title = title,
                    pg_Body = body, pg_Status = status, pg_Position = pos, pg_Version = 1,
                    pg_CollabDocumentID = cid, pg_CreatedAt = now, pg_UpdatedAt = now, pg_ArchivedAt = None\<rparr>
        in (Inr page, s\<lparr>pages := (pages s)(nid \<mapsto> page),
                        collabIndex := (collabIndex s)(cid \<mapsto> \<lparr>cr_kind = ''page'', cr_id = nid\<rparr>)\<rparr>)))"

definition mem_GetPage :: "Store \<Rightarrow> id \<Rightarrow> Page result" where
  "mem_GetPage s pageID = (case pages s pageID of None \<Rightarrow> Inl ErrNotFound | Some p \<Rightarrow> Inr p)"

definition mem_ListPages :: "id list \<Rightarrow> Store \<Rightarrow> id \<Rightarrow> Page list result" where
  "mem_ListPages ks s wsID =
     (if workspaces s wsID = None then Inl ErrNotFound
      else Inr (filter (\<lambda>p. pg_WorkspaceID p = wsID) (range_values ks (pages s))))"

definition mem_PageWorkspaceID :: "Store \<Rightarrow> id \<Rightarrow> id result" where
  "mem_PageWorkspaceID s pageID =
     (case pages s pageID of None \<Rightarrow> Inl ErrNotFound | Some p \<Rightarrow> Inr (pg_WorkspaceID p))"

section \<open>Archiving a page with everything below it\<close>

text \<open>
  The recursion of \<open>descendantPageIDsLocked\<close>. Every call ranges over the pages again, here in the
  same order \<open>ks\<close>; the identifiers are only used as a set.
\<close>

fun descendants :: "nat \<Rightarrow> id list \<Rightarrow> (id \<rightharpoonup> Page) \<Rightarrow> id \<Rightarrow> id list" where
  "descendants 0 ks ps parentID = []"
| "descendants (Suc fuel) ks ps parentID =
     concat (map (\<lambda>k. case ps k of
                        None \<Rightarrow> []
                      | Some p \<Rightarrow> if pg_ParentID p = parentID then k # descendants fuel ks ps k else [])
       ks)"

definition descendantPageIDsLocked :: "id list \<Rightarrow> Store \<Rightarrow> id \<Rightarrow> id list" where
  "descendantPageIDsLocked ks s parentID = descendants (page_count (pages s)) ks (pages s) parentID"

definition set_archived :: "time option \<Rightarrow> id list \<Rightarrow> (id \<rightharpoonup> Page) \<Rightarrow> (id \<rightharpoonup> Page)" where
  "set_archived t ids ps = fold (\<lambda>k m. m(k \<mapsto> (get_zero zero_Page m k)\<lparr>pg_ArchivedAt := t\<rparr>)) ids ps"

definition mem_ArchivePage :: "Store \<Rightarrow> id list \<Rightarrow> id \<Rightarrow> time \<Rightarrow> unit result \<times> Store" where
  "mem_ArchivePage s ks pageID now =
     (if pages s pageID = None then (Inl ErrNotFound, s)
      else (let ids = descendantPageIDsLocked ks s pageID @ [pageID]
            in (Inr (), s\<lparr>pages := set_archived (Some now) ids (pages s)\<rparr>)))"

definition mem_UnarchivePage :: "Store \<Rightarrow> id list \<Rightarrow> id \<Rightarrow> unit result \<times> Store" where
  "mem_UnarchivePage s ks pageID =
     (if pages s pageID = None then (Inl ErrNotFound, s)
      else (let ids = descendantPageIDsLocked ks s pageID @ [pageID]
            in (Inr (), s\<lparr>pages := set_archived None ids (pages s)\<rparr>)))"

section \<open>Updating\<close>

definition mem_UpdatePage ::
  "Store \<Rightarrow> id \<Rightarrow> string option \<Rightarrow> string option \<Rightarrow> string option \<Rightarrow> id option \<Rightarrow> int \<Rightarrow> time
   \<Rightarrow> Page locked_result \<times> Store" where
  "mem_UpdatePage s pageID title body status parentID version now =
     (case pages s pageID of
        None \<Rightarrow> (Inl (ErrNotFound, zero_Page), s)
      | Some p0 \<Rightarrow>
          (if pg_Version p0 \<noteq> version then (Inl (ErrConflict, p0), s)
           else guard_zero zero_Page
             (case parentID of None \<Rightarrow> Inr () | Some par \<Rightarrow> validateParentLocked s pageID (pg_WorkspaceID p0) par) s
             (\<lambda>_. let p1 = (case parentID of None \<Rightarrow> p0 | Some par \<Rightarrow> p0\<lparr>pg_ParentID := par\<rparr>);
                      p2 = (case title of None \<Rightarrow> p1 | Some t \<Rightarrow> p1\<lparr>pg_Title := t\<rparr>);
                      p3 = (case body of None \<Rightarrow> p2 | Some b \<Rightarrow> p2\<lparr>pg_Body := b\<rparr>);
                      p4 = (case status of None \<Rightarrow> p3 | Some st \<Rightarrow> p3\<lparr>pg_Status := st\<rparr>);
                      p = p4\<lparr>pg_Version := pg_Version p4 + 1, pg_UpdatedAt := now\<rparr>
                  in (Inr p, s\<lparr>pages := (pages s)(pageID \<mapsto> p)\<rparr>))))"

section \<open>Versions\<close>

definition new_version :: "PageVersion list \<Rightarrow> id \<Rightarrow> string \<Rightarrow> string \<Rightarrow> string \<Rightarrow> string \<Rightarrow> time \<Rightarrow> PageVersion" where
  "new_version vers pageID title body status sub now =
     (let v = \<lparr>pv_PageID = pageID, pv_Number = int (length vers) + 1, pv_Title = title, pv_Status = status,
               pv_Body = body, pv_Sub = sub, pv_CreatedAt = now\<rparr>
      in if vers \<noteq> [] then v\<lparr>pv_Number := pv_Number (last vers) + 1\<rparr> else v)"

definition mem_AppendPageVersionIfChanged ::
  "Store \<Rightarrow> id \<Rightarrow> string \<Rightarrow> string \<Rightarrow> string \<Rightarrow> string \<Rightarrow> time \<Rightarrow> (PageVersion \<times> bool) result \<times> Store" where
  "mem_AppendPageVersionIfChanged s pageID title body status sub now =
     (if pages s pageID = None then (Inl ErrNotFound, s)
      else let vers = get_list (pageVersions s) pageID in
      if vers \<noteq> [] \<and> pv_Title (last vers) = title \<and> pv_Body (last vers) = body \<and> pv_Status (last vers) = status
      then (Inr (last vers, False), s)
      else let v = new_version vers pageID title body status sub now;
               vers1 = vers @ [v];
               vers2 = (if length vers1 > MaxPageVersions then take_last MaxPageVersions vers1 else vers1)
           in (Inr (v, True), s\<lparr>pageVersions := (pageVersions s)(pageID \<mapsto> vers2)\<rparr>))"

definition mem_ListPageVersions :: "Store \<Rightarrow> id \<Rightarrow> PageVersion list result" where
  "mem_ListPageVersions s pageID =
     (if pages s pageID = None then Inl ErrNotFound else Inr (get_list (pageVersions s) pageID))"

definition mem_GetPageVersion :: "Store \<Rightarrow> id \<Rightarrow> int \<Rightarrow> PageVersion result" where
  "mem_GetPageVersion s pageID number =
     (if pages s pageID = None then Inl ErrNotFound
      else (case List.find (\<lambda>v. pv_Number v = number) (get_list (pageVersions s) pageID) of
              None \<Rightarrow> Inl ErrNotFound
            | Some v \<Rightarrow> Inr v))"

end
