(* ===== verification/Forest.thy ===== *)
theory Forest
  imports Prelude
begin

text \<open>
  Parent links that form a forest. \<open>L\<close> maps a node to its parent, \<open>r\<close> stands for the root;
  \<open>depth L r k n\<close> says that \<open>n\<close> links lead from \<open>k\<close> to the root, so a node that has a depth lies on no
  cycle. \<open>leads L k j\<close>: following links from \<open>k\<close> one comes to \<open>j\<close>.
\<close>

inductive depth :: "('k \<rightharpoonup> 'k) \<Rightarrow> 'k \<Rightarrow> 'k \<Rightarrow> nat \<Rightarrow> bool" for L and r where
  depth_root: "depth L r r 0"
| depth_step: "k \<noteq> r \<Longrightarrow> L k = Some q \<Longrightarrow> depth L r q n \<Longrightarrow> depth L r k (Suc n)"

inductive_cases depthE: "depth L r k n"
inductive_simps depth_Suc: "depth L r k (Suc n)"
inductive_simps depth_0 [simp]: "depth L r k 0"

lemma depth_unique: "depth L r k n \<Longrightarrow> depth L r k m \<Longrightarrow> m = n"
proof (induction arbitrary: m rule: depth.induct)
  case depth_root
  then show ?case by (cases rule: depth.cases) auto
next
  case (depth_step k q n)
  from depth_step.prems depth_step.hyps obtain m' where "m = Suc m'" "depth L r q m'"
    by (cases rule: depth.cases) auto
  with depth_step.IH show ?case by simp
qed

definition leads :: "('k \<rightharpoonup> 'k) \<Rightarrow> 'k \<Rightarrow> 'k \<Rightarrow> bool" where
  "leads L k j \<longleftrightarrow> (k, j) \<in> {(a, b). L a = Some b}\<^sup>*"

lemma leads_refl [simp]: "leads L k k"
  by (simp add: leads_def)

lemma leads_step: "L k = Some q \<Longrightarrow> leads L k j \<longleftrightarrow> k = j \<or> leads L q j"
  unfolding leads_def by (auto elim: converse_rtranclE intro: converse_rtrancl_into_rtrancl)

lemma leads_end: "L k = None \<Longrightarrow> leads L k j \<longleftrightarrow> k = j"
  unfolding leads_def by (auto elim: converse_rtranclE)

lemma leads_append: "leads L k j \<Longrightarrow> L j = Some i \<Longrightarrow> leads L k i"
  unfolding leads_def by (auto intro: rtrancl_into_rtrancl)

lemma leads_trans: "leads L k j \<Longrightarrow> leads L j i \<Longrightarrow> leads L k i"
  unfolding leads_def by (rule rtrancl_trans)

lemma leads_depth: "leads L k j \<Longrightarrow> depth L r k n \<Longrightarrow> L r = None \<Longrightarrow> \<exists>m \<le> n. depth L r j m"
  unfolding leads_def
proof (induction arbitrary: n rule: converse_rtrancl_induct)
  case (step a b)
  then obtain n' where "n = Suc n'" "depth L r b n'" by (auto elim: depthE)
  with step.IH step.prems show ?case by (metis le_SucI)
qed blast

text \<open>Two nodes of the same depth are on one path only when they are equal.\<close>

lemma no_cycle: "depth L r k n \<Longrightarrow> L r = None \<Longrightarrow> L k = Some q \<Longrightarrow> \<not> leads L q k"
proof
  assume k: "depth L r k n" and r: "L r = None" and q: "L k = Some q" and lead: "leads L q k"
  from k q r obtain n' where n': "n = Suc n'" "depth L r q n'" by (auto elim: depthE)
  from leads_depth [OF lead n'(2) r] obtain m where "m \<le> n'" "depth L r k m" by blast
  with depth_unique [OF k] n'(1) show False by fastforce
qed

text \<open>The depth is at most the number of nodes.\<close>

lemma depth_path:
  "depth L r k n \<Longrightarrow> \<exists>ks. length ks = n \<and> distinct ks \<and> set ks \<subseteq> dom L \<and> (\<forall>j \<in> set ks. \<exists>m \<le> n. depth L r j m)"
proof (induction rule: depth.induct)
  case depth_root
  then show ?case by simp
next
  case (depth_step k q n)
  then obtain ks where ks: "length ks = n" "distinct ks" "set ks \<subseteq> dom L" "\<forall>j \<in> set ks. \<exists>m \<le> n. depth L r j m"
    by blast
  have k: "depth L r k (Suc n)" by (rule depth.depth_step) (use depth_step in auto)
  then have "k \<notin> set ks" using ks(4) depth_unique by fastforce
  moreover have "\<forall>j \<in> set (k # ks). \<exists>m \<le> Suc n. depth L r j m"
    using k ks(4) by (metis le_SucI order_refl set_ConsD)
  moreover have "k \<in> dom L" using depth_step by auto
  ultimately show ?case using ks(1,2,3) by (intro exI [of _ "k # ks"]) auto
qed

lemma depth_bound: "finite (dom L) \<Longrightarrow> depth L r k n \<Longrightarrow> n \<le> card (dom L)"
  using depth_path [of L r k n] by (metis card_mono distinct_card)

text \<open>The whole of \<open>L\<close> is a forest.\<close>

definition forest :: "('k \<rightharpoonup> 'k) \<Rightarrow> 'k \<Rightarrow> bool" where
  "forest L r \<longleftrightarrow> L r = None \<and> (\<forall>k \<in> dom L. \<exists>n. depth L r k n)"

lemma forest_empty: "forest Map.empty r"
  by (simp add: forest_def)

lemma forest_depth: "forest L r \<Longrightarrow> L k \<noteq> None \<Longrightarrow> \<exists>n. depth L r k n"
  by (auto simp: forest_def)

text \<open>A parent is the root or a node.\<close>

lemma forest_parent: "forest L r \<Longrightarrow> L k = Some q \<Longrightarrow> q = r \<or> L q \<noteq> None"
proof -
  assume f: "forest L r" and k: "L k = Some q"
  then obtain n where "depth L r k n" using forest_depth by fastforce
  then obtain m where "depth L r q m" using f k by (auto simp: forest_def elim: depthE)
  then show ?thesis by (auto elim: depthE)
qed

text \<open>Giving \<open>x\<close> the parent \<open>y\<close>, where no link leads from \<open>y\<close> to \<open>x\<close>, keeps the forest.\<close>

lemma depth_relink_other:
  "depth L r k n \<Longrightarrow> \<not> leads L k x \<Longrightarrow> depth (L(x \<mapsto> y)) r k n"
proof (induction rule: depth.induct)
  case depth_root
  then show ?case by (simp add: depth.depth_root)
next
  case (depth_step k q n)
  then have "k \<noteq> x" "\<not> leads L q x" by (auto simp: leads_step)
  with depth_step show ?case by (intro depth.depth_step) auto
qed

lemma forest_relink:
  assumes f: "forest L r" and x: "x \<noteq> r" and y: "y = r \<or> L y \<noteq> None" and no: "\<not> leads L y x"
  shows "forest (L(x \<mapsto> y)) r"
proof -
  obtain n where "depth L r y n"
    using y f forest_depth depth.depth_root by metis
  then have "depth (L(x \<mapsto> y)) r y n" using no by (rule depth_relink_other)
  then have dx: "depth (L(x \<mapsto> y)) r x (Suc n)"
    using x by (intro depth.depth_step) auto
  have "\<exists>m. depth (L(x \<mapsto> y)) r k m" if "depth L r k n" for k n
    using that
  proof (induction rule: depth.induct)
    case depth_root
    then show ?case by (blast intro: depth.depth_root)
  next
    case (depth_step k q n)
    then obtain m where m: "depth (L(x \<mapsto> y)) r q m" by blast
    show ?case
    proof (cases "k = x")
      case True
      then show ?thesis using dx by blast
    next
      case False
      then have "depth (L(x \<mapsto> y)) r k (Suc m)"
        using depth_step m by (intro depth.depth_step) auto
      then show ?thesis by blast
    qed
  qed
  then have "\<exists>m. depth (L(x \<mapsto> y)) r k m" if "k \<in> dom (L(x \<mapsto> y))" for k
    using that dx forest_depth [OF f] by (cases "k = x") (blast, fastforce)
  then show ?thesis
    using f x unfolding forest_def by simp
qed

end
