(* ===== verification/PageTree.thy ===== *)
theory PageTree
  imports Domain Forest
begin

text \<open>
  \<open>domain/tree.go\<close>: the tree that is built from the flat list of pages, and what a guest may see of
  it. Both follow parent links. The filter remembers the pages it has passed, which is why it
  returns even on links that form a cycle; the tree is built downwards from the pages without a
  parent, with the number of pages as the depth limit.
\<close>

section \<open>The tree\<close>

datatype PageNode =
  PageNode (pn_ID: id) (pn_ParentID: id) (pn_Title: string) (pn_Status: string) (pn_Position: int)
    (pn_Children: "PageNode list")

definition page_before :: "Page \<Rightarrow> Page \<Rightarrow> bool" where
  "page_before a b =
     (if pg_Position a \<noteq> pg_Position b then pg_Position a < pg_Position b
      else pg_CreatedAt a < pg_CreatedAt b)"

text \<open>The entry of the map \<open>byParent\<close> at a parent: its pages in list order, then sorted.\<close>

definition byParent :: "Page list \<Rightarrow> id \<Rightarrow> Page list" where
  "byParent pages parentID = sort_slice page_before (filter (\<lambda>p. pg_ParentID p = parentID) pages)"

text \<open>
  The recursion of \<open>buildNodes\<close>. \<open>fuel\<close> bounds its depth; a path in the tree visits every page at
  most once, so the number of pages and one more for the root call is enough.
\<close>

fun buildNodes :: "nat \<Rightarrow> (id \<Rightarrow> Page list) \<Rightarrow> id \<Rightarrow> PageNode list" where
  "buildNodes 0 kids parentID = []"
| "buildNodes (Suc fuel) kids parentID =
     map (\<lambda>p. PageNode (pg_ID p) (pg_ParentID p) (pg_Title p) (pg_Status p) (pg_Position p)
                (buildNodes fuel kids (pg_ID p)))
       (kids parentID)"

definition BuildPageTree :: "Page list \<Rightarrow> PageNode list" where
  "BuildPageTree pages = buildNodes (Suc (length pages)) (byParent pages) []"

section \<open>What a guest sees\<close>

text \<open>\<open>byID\<close>: a later page with the same identifier replaces an earlier one.\<close>

definition byID :: "Page list \<Rightarrow> (id \<rightharpoonup> Page)" where
  "byID pages = map_of (rev (map (\<lambda>p. (pg_ID p, p)) pages))"

lemma byID_Some: "byID pages k = Some p \<Longrightarrow> p \<in> set pages \<and> pg_ID p = k"
  by (auto simp: byID_def dest!: map_of_SomeD)

lemma byID_mem: "p \<in> set pages \<Longrightarrow> \<exists>q. byID pages (pg_ID p) = Some q"
proof -
  assume "p \<in> set pages"
  then have "pg_ID p \<in> fst ` set (rev (map (\<lambda>p. (pg_ID p, p)) pages))" by force
  then show ?thesis unfolding byID_def by (metis map_of_eq_None_iff not_None_eq)
qed

lemma byID_distinct: "distinct (map pg_ID pages) \<Longrightarrow> p \<in> set pages \<Longrightarrow> byID pages (pg_ID p) = Some p"
proof -
  assume d: "distinct (map pg_ID pages)" and p: "p \<in> set pages"
  then obtain q where q: "byID pages (pg_ID p) = Some q" using byID_mem by blast
  then have "q \<in> set pages" "pg_ID q = pg_ID p" by (auto dest: byID_Some)
  then have "q = p" using d p by (auto simp: distinct_map dest: inj_onD)
  with q show ?thesis by simp
qed

function ancestors_visible :: "Page list \<Rightarrow> id set \<Rightarrow> id \<Rightarrow> bool" where
  "ancestors_visible pages seen cur =
     (if cur = [] then True
      else if cur \<in> seen then False
      else (case byID pages cur of
              None \<Rightarrow> False
            | Some par \<Rightarrow>
                (if \<not> PageVisibleToGuest par then False
                 else ancestors_visible pages (insert cur seen) (pg_ParentID par))))"
  by pat_completeness auto
termination
proof (relation "measure (\<lambda>(pages, seen, cur). card (pg_ID ` set pages - seen))", goal_cases)
  case 1
  then show ?case by simp
next
  case (2 pages seen cur par)
  then have "cur \<in> pg_ID ` set pages - seen" by (auto dest: byID_Some)
  then have "card (pg_ID ` set pages - insert cur seen) < card (pg_ID ` set pages - seen)"
    by (intro psubset_card_mono) auto
  then show ?case by simp
qed

declare ancestors_visible.simps [simp del]

definition FilterGuestPages :: "Page list \<Rightarrow> Page list" where
  "FilterGuestPages pages =
     filter (\<lambda>p. PageVisibleToGuest p \<and> ancestors_visible pages {} (pg_ParentID p)) pages"

section \<open>The filter keeps exactly the pages with a published path to the root\<close>

text \<open>\<open>published_path pages cur\<close>: from \<open>cur\<close> the parent links lead to the root through published pages.\<close>

inductive published_path :: "Page list \<Rightarrow> id \<Rightarrow> bool" for pages where
  root: "published_path pages []"
| step: "byID pages cur = Some par \<Longrightarrow> PageVisibleToGuest par \<Longrightarrow> published_path pages (pg_ParentID par) \<Longrightarrow>
    published_path pages cur"

inductive_cases published_pathE: "published_path pages cur"

text \<open>A path cannot come back to where it started: the paths are finite and the links functional.\<close>

inductive path_len :: "Page list \<Rightarrow> id \<Rightarrow> nat \<Rightarrow> bool" for pages where
  "path_len pages [] 0"
| "cur \<noteq> [] \<Longrightarrow> byID pages cur = Some par \<Longrightarrow> PageVisibleToGuest par \<Longrightarrow> path_len pages (pg_ParentID par) n \<Longrightarrow>
    path_len pages cur (Suc n)"

lemma path_len_unique: "path_len pages cur n \<Longrightarrow> path_len pages cur m \<Longrightarrow> m = n"
proof (induction arbitrary: m rule: path_len.induct)
  case 1
  then show ?case by (cases rule: path_len.cases) auto
next
  case (2 cur par n)
  from "2.prems" "2.hyps" obtain m' where "m = Suc m'" "path_len pages (pg_ParentID par) m'"
    by (cases rule: path_len.cases) auto
  with "2.IH" show ?case by simp
qed

lemma published_path_len: "published_path pages cur \<Longrightarrow> \<exists>n. path_len pages cur n"
proof (induction rule: published_path.induct)
  case root
  then show ?case by (blast intro: path_len.intros)
next
  case (step cur par)
  then show ?case by (cases "cur = []") (blast intro: path_len.intros)+
qed

lemma path_len_published: "path_len pages cur n \<Longrightarrow> published_path pages cur"
  by (induction rule: path_len.induct) (auto intro: published_path.intros)

lemma path_len_visible:
  "path_len pages cur n \<Longrightarrow> (\<And>k m. k \<in> seen \<Longrightarrow> path_len pages k m \<Longrightarrow> n < m) \<Longrightarrow> ancestors_visible pages seen cur"
proof (induction arbitrary: seen rule: path_len.induct)
  case 1
  then show ?case by (simp add: ancestors_visible.simps)
next
  case (2 cur par n)
  have "path_len pages cur (Suc n)" by (rule path_len.intros(2)) (use 2 in auto)
  then have "cur \<notin> seen" using "2.prems" by blast
  moreover have "ancestors_visible pages (insert cur seen) (pg_ParentID par)"
  proof (rule "2.IH")
    fix k m assume "k \<in> insert cur seen" "path_len pages k m"
    then show "n < m"
      using "2.prems" path_len_unique [OF \<open>path_len pages cur (Suc n)\<close>] by (metis Suc_lessD insertE lessI)
  qed
  ultimately show ?case using 2 by (subst ancestors_visible.simps) simp
qed

lemma visible_path: "ancestors_visible pages seen cur \<Longrightarrow> published_path pages cur"
proof (induction pages seen cur rule: ancestors_visible.induct)
  case (1 pages seen cur)
  from "1.prems" show ?case
    by (subst (asm) ancestors_visible.simps)
      (auto split: if_splits option.splits intro: published_path.intros "1.IH")
qed

lemma ancestors_visible_iff: "ancestors_visible pages {} cur \<longleftrightarrow> published_path pages cur"
  using path_len_visible [of pages cur _ "{}"] visible_path published_path_len by blast

text \<open>
  (C23) A guest sees a page exactly when it is published and its parent links lead to the root
  through published pages only; the order of the list is kept.
\<close>

theorem FilterGuestPages_iff:
  "FilterGuestPages pages =
     filter (\<lambda>p. pg_Status p = PageStatusPublished \<and> published_path pages (pg_ParentID p)) pages"
  by (simp add: FilterGuestPages_def ancestors_visible_iff PageVisibleToGuest_def)


section \<open>The tree holds every page that hangs from the root, once\<close>

text \<open>The identifiers of a tree, parents before children.\<close>

fun tree_ids :: "PageNode list \<Rightarrow> id list" where
  "tree_ids [] = []"
| "tree_ids (PageNode k parent title status position kids # ns) = k # tree_ids kids @ tree_ids ns"

lemma tree_ids_map:
  "tree_ids (map (\<lambda>p. PageNode (f p) (a p) (b p) (c p) (d p) (g p)) ps) = concat (map (\<lambda>p. f p # tree_ids (g p)) ps)"
  by (induction ps) auto

lemma set_byParent [simp]: "set (byParent pages k) = {p \<in> set pages. pg_ParentID p = k}"
  by (auto simp: byParent_def)

lemma distinct_byParent: "distinct (map pg_ID pages) \<Longrightarrow> distinct (map pg_ID (byParent pages k))"
  by (auto simp: byParent_def distinct_map inj_on_def)

text \<open>The identifiers \<open>n\<close> levels below \<open>k\<close>.\<close>

primrec level :: "Page list \<Rightarrow> nat \<Rightarrow> id \<Rightarrow> id set" where
  "level pages 0 k = {k}"
| "level pages (Suc n) k = (\<Union>p \<in> {p \<in> set pages. pg_ParentID p = k}. level pages n (pg_ID p))"

lemma set_tree_ids: "set (tree_ids (buildNodes fuel (byParent pages) k)) = (\<Union>n \<in> {1..fuel}. level pages n k)"
proof (induction fuel arbitrary: k)
  case 0
  then show ?case by simp
next
  case (Suc fuel)
  have "insert j (\<Union>n \<in> {1..fuel}. level pages n j) = (\<Union>n \<in> {0..fuel}. level pages n j)" for j
  proof -
    have "{0..fuel} = insert 0 {1..fuel}" by auto
    then show ?thesis by simp
  qed
  then have "set (tree_ids (buildNodes (Suc fuel) (byParent pages) k)) =
      (\<Union>p \<in> {p \<in> set pages. pg_ParentID p = k}. \<Union>n \<in> {0..fuel}. level pages n (pg_ID p))"
    by (simp add: tree_ids_map Suc.IH)
  also have "\<dots> = (\<Union>n \<in> {0..fuel}. level pages (Suc n) k)" by auto
  also have "\<dots> = (\<Union>n \<in> {1..Suc fuel}. level pages n k)"
    by (simp add: image_Suc_atLeastAtMost [symmetric] del: image_Suc_atLeastAtMost level.simps)
  finally show ?case .
qed

text \<open>The distance of a page from the root, along the parent links.\<close>

definition page_links :: "Page list \<Rightarrow> (id \<rightharpoonup> id)" where
  "page_links pages = (\<lambda>k. map_option pg_ParentID (byID pages k))"

abbreviation root_len :: "Page list \<Rightarrow> id \<Rightarrow> nat \<Rightarrow> bool" where
  "root_len pages k n \<equiv> depth (page_links pages) [] k n"

lemma root_len_step: "k \<noteq> [] \<Longrightarrow> byID pages k = Some p \<Longrightarrow> root_len pages (pg_ParentID p) n \<Longrightarrow> root_len pages k (Suc n)"
  by (rule depth_step) (simp_all add: page_links_def)

lemma page_links_dom: "dom (page_links pages) \<subseteq> pg_ID ` set pages"
  by (auto simp: page_links_def dest: byID_Some)

lemma root_len_bound: "root_len pages k n \<Longrightarrow> n \<le> length pages"
proof -
  assume len: "root_len pages k n"
  have "finite (dom (page_links pages))"
    using page_links_dom by (rule finite_subset) simp
  then have "n \<le> card (dom (page_links pages))" using len by (rule depth_bound)
  also have "\<dots> \<le> card (pg_ID ` set pages)"
    by (rule card_mono [OF _ page_links_dom]) simp
  also have "\<dots> \<le> length pages"
    using card_image_le [of "set pages" pg_ID] card_length [of pages] by simp
  finally show ?thesis .
qed

definition pages_wf :: "Page list \<Rightarrow> bool" where
  "pages_wf pages \<longleftrightarrow> distinct (map pg_ID pages) \<and> (\<forall>p \<in> set pages. pg_ID p \<noteq> [])"

definition parent_of :: "Page list \<Rightarrow> id \<Rightarrow> id" where
  "parent_of pages k = (case byID pages k of None \<Rightarrow> [] | Some p \<Rightarrow> pg_ParentID p)"

lemma level_parent:
  "pages_wf pages \<Longrightarrow> j \<in> level pages n k \<Longrightarrow> (parent_of pages ^^ n) j = k"
proof (induction n arbitrary: k)
  case (Suc n)
  then obtain p where p: "p \<in> set pages" "pg_ParentID p = k" "j \<in> level pages n (pg_ID p)" by auto
  then have "(parent_of pages ^^ n) j = pg_ID p" using Suc by blast
  moreover have "parent_of pages (pg_ID p) = k"
    using p Suc.prems(1) by (simp add: parent_of_def byID_distinct pages_wf_def)
  ultimately show ?case by simp
qed simp

lemma level_root_len:
  "pages_wf pages \<Longrightarrow> root_len pages k m \<Longrightarrow> j \<in> level pages n k \<Longrightarrow> root_len pages j (m + n)"
proof (induction n arbitrary: k m)
  case (Suc n)
  then obtain p where p: "p \<in> set pages" "pg_ParentID p = k" "j \<in> level pages n (pg_ID p)" by auto
  then have "root_len pages (pg_ID p) (Suc m)"
    using Suc.prems(1,2) by (intro root_len_step) (auto simp: byID_distinct pages_wf_def)
  with Suc.IH [OF Suc.prems(1) _ p(3)] show ?case by fastforce
qed simp

lemma level_step: "j \<in> level pages n k \<Longrightarrow> p \<in> set pages \<Longrightarrow> pg_ParentID p = j \<Longrightarrow> pg_ID p \<in> level pages (Suc n) k"
  by (induction n arbitrary: k) auto

lemma root_len_level: "root_len pages j n \<Longrightarrow> j \<in> level pages n []"
proof (induction rule: depth.induct)
  case (depth_step k q n)
  then obtain p where "p \<in> set pages" "pg_ID p = k" "pg_ParentID p = q"
    by (auto simp: page_links_def dest: byID_Some)
  with depth_step.IH level_step show ?case by blast
qed simp

lemma distinct_tree_ids:
  assumes wf: "pages_wf pages"
  shows "root_len pages k m \<Longrightarrow> distinct (tree_ids (buildNodes fuel (byParent pages) k))"
proof (induction fuel arbitrary: k m)
  case 0
  then show ?case by simp
next
  case (Suc fuel)
  let ?sub = "\<lambda>p. pg_ID p # tree_ids (buildNodes fuel (byParent pages) (pg_ID p))"
  have child: "root_len pages (pg_ID p) (Suc m)" if "p \<in> set (byParent pages k)" for p
    using that wf Suc.prems by (intro root_len_step) (auto simp: byID_distinct pages_wf_def)
  have sub: "set (?sub p) = (\<Union>n \<in> {0..fuel}. level pages n (pg_ID p))" for p
  proof -
    have "{0..fuel} = insert 0 {1..fuel}" by auto
    then show ?thesis by (simp add: set_tree_ids)
  qed
  have same: "n1 = n2 \<and> pg_ID p = pg_ID q"
    if "p \<in> set (byParent pages k)" "q \<in> set (byParent pages k)" "j \<in> level pages n1 (pg_ID p)"
      "j \<in> level pages n2 (pg_ID q)" for p q j n1 n2
  proof -
    have "root_len pages j (Suc m + n1)" "root_len pages j (Suc m + n2)"
      using that level_root_len [OF wf child] by blast+
    then have "n1 = n2" using depth_unique by fastforce
    with that level_parent [OF wf] show ?thesis by metis
  qed
  have "distinct (?sub p)" if p: "p \<in> set (byParent pages k)" for p
  proof -
    have "pg_ID p \<notin> (\<Union>n \<in> {1..fuel}. level pages n (pg_ID p))"
    proof
      assume "pg_ID p \<in> (\<Union>n \<in> {1..fuel}. level pages n (pg_ID p))"
      then obtain n where n: "1 \<le> n" "pg_ID p \<in> level pages n (pg_ID p)" by auto
      then show False using same [OF p p, of "pg_ID p" 0 n] by simp
    qed
    with Suc.IH [OF child [OF p]] show ?thesis by (simp add: set_tree_ids)
  qed
  moreover have "set (?sub p) \<inter> set (?sub q) = {}"
    if "p \<in> set (byParent pages k)" "q \<in> set (byParent pages k)" "pg_ID p \<noteq> pg_ID q" for p q
    unfolding sub using same [OF that(1,2)] that(3) by blast
  moreover have "distinct (map pg_ID (byParent pages k))"
    using wf by (simp add: pages_wf_def distinct_byParent)
  ultimately have "distinct (concat (map ?sub (byParent pages k)))"
    by (rule distinct_concat_map [where g = pg_ID])
  then show ?case by (simp add: tree_ids_map)
qed

lemma tree_complete:
  assumes "pages_wf pages"
  shows "set (tree_ids (BuildPageTree pages)) = {pg_ID p | p n. p \<in> set pages \<and> root_len pages (pg_ID p) n} \<and>
    distinct (tree_ids (BuildPageTree pages))"
proof
  have "(\<Union>n \<in> {1..Suc (length pages)}. level pages n []) = {pg_ID p | p n. p \<in> set pages \<and> root_len pages (pg_ID p) n}"
  proof (intro equalityI subsetI)
    fix j assume "j \<in> (\<Union>n \<in> {1..Suc (length pages)}. level pages n [])"
    then obtain n where n: "1 \<le> n" "j \<in> level pages n []" by auto
    then have "root_len pages j n"
      using level_root_len [OF assms depth_root] by fastforce
    moreover then have "j \<in> pg_ID ` set pages"
      using n(1) by (cases rule: depth.cases) (auto simp: page_links_def dest: byID_Some)
    ultimately show "j \<in> {pg_ID p | p n. p \<in> set pages \<and> root_len pages (pg_ID p) n}" by blast
  next
    fix j assume "j \<in> {pg_ID p | p n. p \<in> set pages \<and> root_len pages (pg_ID p) n}"
    then obtain p n where p: "p \<in> set pages" "j = pg_ID p" "root_len pages j n" by blast
    moreover have "j \<noteq> []" using assms p by (auto simp: pages_wf_def)
    ultimately have "1 \<le> n" by (cases n) auto
    then show "j \<in> (\<Union>n \<in> {1..Suc (length pages)}. level pages n [])"
      using p root_len_level root_len_bound by fastforce
  qed
  then show "set (tree_ids (BuildPageTree pages)) = {pg_ID p | p n. p \<in> set pages \<and> root_len pages (pg_ID p) n}"
    by (simp only: BuildPageTree_def set_tree_ids)
  show "distinct (tree_ids (BuildPageTree pages))"
    unfolding BuildPageTree_def by (rule distinct_tree_ids [OF assms depth_root])
qed

text \<open>
  The page tree holds exactly the listed pages whose parent links lead to the root through
  listed pages, and each of them once, whatever order the list has: nothing is lost, repeated or
  cut off by the recursion.
\<close>

theorem BuildPageTree_ids:
  assumes "pages_wf pages"
  shows "set (tree_ids (BuildPageTree pages)) = {pg_ID p | p n. p \<in> set pages \<and> root_len pages (pg_ID p) n} \<and>
    distinct (tree_ids (BuildPageTree pages))"
  using assms by (rule tree_complete)

theorem BuildPageTree_ids_witness:
  "let pages = [zero_Page\<lparr>pg_ID := ''b'', pg_ParentID := ''a''\<rparr>, zero_Page\<lparr>pg_ID := ''a''\<rparr>,
     zero_Page\<lparr>pg_ID := ''c'', pg_ParentID := ''c''\<rparr>] in
   distinct (tree_ids (BuildPageTree pages)) \<and> tree_ids (BuildPageTree pages) = [''a'', ''b'']"
proof -
  define pages where "pages = [zero_Page\<lparr>pg_ID := ''b'', pg_ParentID := ''a''\<rparr>, zero_Page\<lparr>pg_ID := ''a''\<rparr>,
     zero_Page\<lparr>pg_ID := ''c'', pg_ParentID := ''c''\<rparr>]"
  have "pages_wf pages" by (simp add: pages_wf_def pages_def)
  moreover have "tree_ids (BuildPageTree pages) = [''a'', ''b'']"
    by (simp add: pages_def BuildPageTree_def byParent_def zero_Page_def)
  ultimately show ?thesis using BuildPageTree_ids [of pages] unfolding pages_def Let_def by blast
qed

end
