(* ===== verification/LineDiff.thy ===== *)
theory LineDiff
  imports Domain "HOL-Library.Sublist"
begin

text \<open>
  \<open>domain/diff.go\<close>: the line-level diff of two page bodies. \<open>dp\<close> is the table of longest common
  subsequence lengths of the suffixes, filled from the last row and column; \<open>diff_loop\<close> walks it
  from the front. The lemmas show that a diff is a faithful edit script (dropping the inserted
  lines gives the old text, dropping the deleted ones the new text) and that no script keeps more
  lines than this one.
\<close>

section \<open>Lines\<close>

definition SplitLines :: "string \<Rightarrow> string list" where
  "SplitLines s = (if s = [] then [] else split_on (CHR ''\<newline>'') s)"

record DiffLine =
  dl_Op :: string
  dl_Text :: string

record PageDiff =
  pd_PageID :: id
  pd_From :: int
  pd_To :: int
  pd_TitleChanged :: bool
  pd_FromTitle :: string
  pd_ToTitle :: string
  pd_Lines :: "DiffLine list"

section \<open>The table\<close>

text \<open>
  The cell for row \<open>i\<close>, from the cells below (\<open>down = dp[i+1][j]\<close>), right (\<open>right = dp[i][j+1]\<close>)
  and diagonally below (\<open>diag = dp[i+1][j+1]\<close>).
\<close>

definition cell :: "'a \<Rightarrow> 'a \<Rightarrow> nat \<Rightarrow> nat \<Rightarrow> nat \<Rightarrow> nat" where
  "cell x y diag down right =
     (if x = y then diag + 1 else if down \<ge> right then down else right)"

text \<open>
  One row, from the row below it: the inner loop over \<open>j = m-1, ..., 0\<close>. The last entry of every
  row is \<open>dp[i][m] = 0\<close>.
\<close>

fun dp_row :: "'a \<Rightarrow> 'a list \<Rightarrow> nat list \<Rightarrow> nat list" where
  "dp_row x (y # ys) (down # below) =
     (let row = dp_row x ys below in cell x y (hd below) down (hd row) # row)"
| "dp_row x _ _ = [0]"

text \<open>The outer loop over \<open>i = n-1, ..., 0\<close>, starting from the row of zeros \<open>dp[n]\<close>.\<close>

fun dp_table :: "'a list \<Rightarrow> 'a list \<Rightarrow> nat list list" where
  "dp_table [] ys = [replicate (length ys + 1) 0]"
| "dp_table (x # xs) ys = (let below = dp_table xs ys in dp_row x ys (hd below) # below)"

definition dp_at :: "nat list list \<Rightarrow> nat \<Rightarrow> nat \<Rightarrow> nat" where
  "dp_at dp i j = dp ! i ! j"

section \<open>The walk\<close>

function diff_loop :: "nat list list \<Rightarrow> string list \<Rightarrow> string list \<Rightarrow> nat \<Rightarrow> nat \<Rightarrow> DiffLine list" where
  "diff_loop dp a b i j =
     (if i < length a \<and> j < length b then
        (if a ! i = b ! j then \<lparr>dl_Op = ''equal'', dl_Text = a ! i\<rparr> # diff_loop dp a b (i + 1) (j + 1)
         else if dp_at dp (i + 1) j \<ge> dp_at dp i (j + 1)
           then \<lparr>dl_Op = ''delete'', dl_Text = a ! i\<rparr> # diff_loop dp a b (i + 1) j
         else \<lparr>dl_Op = ''insert'', dl_Text = b ! j\<rparr> # diff_loop dp a b i (j + 1))
      else if i < length a then \<lparr>dl_Op = ''delete'', dl_Text = a ! i\<rparr> # diff_loop dp a b (i + 1) j
      else if j < length b then \<lparr>dl_Op = ''insert'', dl_Text = b ! j\<rparr> # diff_loop dp a b i (j + 1)
      else [])"
  by pat_completeness auto
termination
  by (relation "measure (\<lambda>(dp, a, b, i, j). (length a - i) + (length b - j))") auto

declare diff_loop.simps [simp del]

definition diff_lines :: "string list \<Rightarrow> string list \<Rightarrow> DiffLine list" where
  "diff_lines a b =
     (if length a = 0 \<and> length b = 0 then [] else diff_loop (dp_table a b) a b 0 0)"

definition LineDiff :: "string \<Rightarrow> string \<Rightarrow> DiffLine list" where
  "LineDiff from_s to_s = diff_lines (SplitLines from_s) (SplitLines to_s)"

definition DiffPages :: "id \<Rightarrow> PageVersion \<Rightarrow> PageVersion \<Rightarrow> PageDiff" where
  "DiffPages pageID fromVer toVer =
     \<lparr>pd_PageID = pageID, pd_From = pv_Number fromVer, pd_To = pv_Number toVer,
      pd_TitleChanged = (pv_Title fromVer \<noteq> pv_Title toVer),
      pd_FromTitle = pv_Title fromVer, pd_ToTitle = pv_Title toVer,
      pd_Lines = LineDiff (pv_Body fromVer) (pv_Body toVer)\<rparr>"

section \<open>Applying a diff\<close>

definition old_side :: "DiffLine list \<Rightarrow> string list" where
  "old_side ds = map dl_Text (filter (\<lambda>d. dl_Op d \<noteq> ''insert'') ds)"

definition new_side :: "DiffLine list \<Rightarrow> string list" where
  "new_side ds = map dl_Text (filter (\<lambda>d. dl_Op d \<noteq> ''delete'') ds)"

definition kept :: "DiffLine list \<Rightarrow> string list" where
  "kept ds = map dl_Text (filter (\<lambda>d. dl_Op d = ''equal'') ds)"

lemmas sides_def = old_side_def new_side_def kept_def

lemma diff_loop_old: "old_side (diff_loop dp a b i j) = drop i a"
proof (induction dp a b i j rule: diff_loop.induct)
  case (1 dp a b i j)
  then show ?case
    by (subst diff_loop.simps) (auto simp: old_side_def Cons_nth_drop_Suc [symmetric])
qed

lemma diff_loop_new: "new_side (diff_loop dp a b i j) = drop j b"
proof (induction dp a b i j rule: diff_loop.induct)
  case (1 dp a b i j)
  then show ?case
    by (subst diff_loop.simps) (auto simp: new_side_def Cons_nth_drop_Suc [symmetric])
qed

section \<open>The table holds the longest common subsequence lengths\<close>

fun lcs_len :: "'a list \<Rightarrow> 'a list \<Rightarrow> nat" where
  "lcs_len [] ys = 0"
| "lcs_len xs [] = 0"
| "lcs_len (x # xs) (y # ys) =
     (if x = y then Suc (lcs_len xs ys) else max (lcs_len xs (y # ys)) (lcs_len (x # xs) ys))"

lemma lcs_len_Nil [simp]: "lcs_len xs [] = 0"
  by (cases xs) auto

lemma dp_row_length: "length below = length ys + 1 \<Longrightarrow> length (dp_row x ys below) = length ys + 1"
  by (induction x ys below rule: dp_row.induct) (auto simp: Let_def)

lemma dp_row_lcs:
  "length below = length ys + 1 \<Longrightarrow> (\<And>j. j \<le> length ys \<Longrightarrow> below ! j = lcs_len xs (drop j ys)) \<Longrightarrow>
   j \<le> length ys \<Longrightarrow> dp_row x ys below ! j = lcs_len (x # xs) (drop j ys)"
proof (induction x ys below arbitrary: j rule: dp_row.induct)
  case (1 x y ys down below)
  from "1.prems"(1) have len: "length below = length ys + 1" by simp
  have tl: "\<And>j. j \<le> length ys \<Longrightarrow> below ! j = lcs_len xs (drop j ys)"
    using "1.prems"(2) [of "Suc _"] by simp
  have IH: "\<And>j. j \<le> length ys \<Longrightarrow> dp_row x ys below ! j = lcs_len (x # xs) (drop j ys)"
    using "1.IH" len tl by blast
  have down: "down = lcs_len xs (y # ys)" using "1.prems"(2) [of 0] by simp
  have diag: "hd below = lcs_len xs ys" using tl [of 0] len by (cases below) auto
  have right: "hd (dp_row x ys below) = lcs_len (x # xs) ys"
    using IH [of 0] dp_row_length [OF len, of x] by (cases "dp_row x ys below") auto
  show ?case
  proof (cases j)
    case 0
    then show ?thesis using down diag right by (auto simp: Let_def cell_def)
  next
    case (Suc k)
    then show ?thesis using IH [of k] "1.prems"(3) by (simp add: Let_def)
  qed
qed auto

lemma dp_table_rows: "length (dp_table xs ys) = length xs + 1 \<and> length (hd (dp_table xs ys)) = length ys + 1"
  by (induction xs) (auto simp: Let_def dp_row_length)

lemma dp_table_hd: "j \<le> length ys \<Longrightarrow> hd (dp_table xs ys) ! j = lcs_len xs (drop j ys)"
proof (induction xs arbitrary: j)
  case Nil
  then show ?case by (simp add: nth_replicate del: replicate.simps)
next
  case (Cons x xs)
  then show ?case
    using dp_table_rows [of xs ys] by (simp add: Let_def dp_row_lcs)
qed

lemma dp_table_drop: "i \<le> length xs \<Longrightarrow> dp_table xs ys ! i = hd (dp_table (drop i xs) ys)"
proof (induction xs arbitrary: i)
  case Nil
  then show ?case by simp
next
  case (Cons x xs)
  then show ?case by (cases i) (auto simp: Let_def)
qed

lemma dp_at_lcs:
  "i \<le> length xs \<Longrightarrow> j \<le> length ys \<Longrightarrow> dp_at (dp_table xs ys) i j = lcs_len (drop i xs) (drop j ys)"
  by (simp add: dp_at_def dp_table_drop dp_table_hd)

lemma lcs_len_drop:
  "i < length a \<Longrightarrow> j < length b \<Longrightarrow> lcs_len (drop i a) (drop j b) =
     (if a ! i = b ! j then Suc (lcs_len (drop (Suc i) a) (drop (Suc j) b))
      else max (lcs_len (drop (Suc i) a) (drop j b)) (lcs_len (drop i a) (drop (Suc j) b)))"
  by (simp add: Cons_nth_drop_Suc [symmetric] del: drop_Suc_Cons)

lemma diff_loop_kept:
  "dp = dp_table a b \<Longrightarrow> i \<le> length a \<Longrightarrow> j \<le> length b \<Longrightarrow>
   length (kept (diff_loop dp a b i j)) = lcs_len (drop i a) (drop j b)"
proof (induction dp a b i j rule: diff_loop.induct)
  case (1 dp a b i j)
  show ?case
  proof (cases "i < length a \<and> j < length b")
    case True
    then have le: "dp_at dp (i + 1) j = lcs_len (drop (Suc i) a) (drop j b)"
      "dp_at dp i (j + 1) = lcs_len (drop i a) (drop (Suc j) b)"
      using dp_at_lcs [of "i + 1" a j b] dp_at_lcs [of i a "j + 1" b] "1.prems"(1) by auto
    show ?thesis
      using True "1.IH"(1-3) "1.prems" le
      by (subst diff_loop.simps) (auto simp: lcs_len_drop kept_def)
  next
    case False
    then show ?thesis
      using "1.IH"(4,5) "1.prems"
      by (subst diff_loop.simps) (auto simp: kept_def)
  qed
qed

text \<open>No common subsequence is longer.\<close>

lemma lcs_len_upper: "subseq zs xs \<Longrightarrow> subseq zs ys \<Longrightarrow> length zs \<le> lcs_len xs ys"
proof (induction xs ys arbitrary: zs rule: lcs_len.induct)
  case (3 x xs y ys)
  show ?case
  proof (cases zs)
    case (Cons z zt)
    show ?thesis
    proof (cases "x = y")
      case True
      have "subseq zt xs" "subseq zt ys"
        using "3.prems" Cons by (auto simp: subseq_Cons2_iff split: if_splits dest: subseq_Cons')
      then show ?thesis using "3.IH"(1) True Cons by simp
    next
      case False
      then have "subseq zs xs \<or> subseq zs ys"
        using "3.prems" Cons by (auto split: if_splits)
      then show ?thesis
        using "3.IH"(2,3) "3.prems" False by (auto simp: le_max_iff_disj)
    qed
  qed simp
qed auto

lemma kept_subseq: "subseq (kept ds) (old_side ds) \<and> subseq (kept ds) (new_side ds)"
  by (induction ds) (auto simp: sides_def)

lemma diff_lines_sides: "old_side (diff_lines a b) = a \<and> new_side (diff_lines a b) = b"
  by (auto simp: diff_lines_def diff_loop_old diff_loop_new) (simp_all add: sides_def)

lemma diff_lines_kept: "length (kept (diff_lines a b)) = lcs_len a b"
proof (cases "a = [] \<and> b = []")
  case True
  then show ?thesis by (simp add: diff_lines_def kept_def)
next
  case False
  then show ?thesis
    using diff_loop_kept [of _ a b 0 0] by (auto simp: diff_lines_def)
qed

section \<open>Properties\<close>

text \<open>
  (C16) A line diff is an edit script from the old text to the new one: without its inserted lines it
  is the old text's lines in order, without its deleted lines the new text's.
\<close>

theorem LineDiff_edit_script:
  "old_side (LineDiff f t) = SplitLines f \<and> new_side (LineDiff f t) = SplitLines t"
  by (simp add: LineDiff_def diff_lines_sides)

text \<open>
  (C17) The lines a diff marks as equal are a longest common subsequence of the two texts: they are a
  subsequence of both, and no common subsequence is longer.
\<close>

theorem LineDiff_longest:
  assumes "subseq zs (SplitLines f)" and "subseq zs (SplitLines t)"
  shows "subseq (kept (LineDiff f t)) (SplitLines f) \<and> subseq (kept (LineDiff f t)) (SplitLines t) \<and>
    length zs \<le> length (kept (LineDiff f t))"
  using kept_subseq [of "LineDiff f t"] lcs_len_upper [OF assms]
  by (simp add: LineDiff_def diff_lines_sides diff_lines_kept)

theorem LineDiff_longest_witness:
  "subseq [''b''] (SplitLines (''a'' @ CHR ''\<newline>'' # ''b'')) \<and>
   length [''b''] \<le> length (kept (LineDiff (''a'' @ CHR ''\<newline>'' # ''b'') ''b''))"
  using LineDiff_longest [of "[''b'']" "''a'' @ CHR ''\<newline>'' # ''b''" "''b''"]
  by (simp add: SplitLines_def)

end
