(* ===== verification/SvcPages.thy ===== *)
theory SvcPages
  imports SvcMembers MemPages PageTree LineDiff
begin

text \<open>
  \<open>service/workspace.go\<close> and \<open>service/sprints.go\<close>: the operations on wiki pages and on their
  versions.
\<close>

section \<open>Writing pages\<close>

definition valid_status :: "string \<Rightarrow> bool" where
  "valid_status status \<longleftrightarrow> status = PageStatusDraft \<or> status = PageStatusPublished"

definition svc_CreatePage ::
  "Store \<Rightarrow> id \<Rightarrow> id \<Rightarrow> id list \<Rightarrow> string \<Rightarrow> id \<Rightarrow> id \<Rightarrow> string \<Rightarrow> string \<Rightarrow> string \<Rightarrow> time \<Rightarrow> time
   \<Rightarrow> Page result \<times> Store" where
  "svc_CreatePage s nid cid ks sub wsID parentID title body status0 now now2 =
     guard_ok (svc_requireWrite s wsID sub) s (\<lambda>_.
       if title = [] \<or> length title > MaxPageTitle then (Inl ErrInvalid, s)
       else if length body > MaxPageBody then (Inl ErrInvalid, s)
       else let status = (if status0 = [] then PageStatusDraft else status0) in
       if \<not> valid_status status then (Inl ErrInvalid, s)
       else call_ok (mem_CreatePage s nid cid ks wsID parentID title body status now) (\<lambda>page s1.
         (Inr page, snd (mem_AppendPageVersionIfChanged s1 (pg_ID page) (pg_Title page) (pg_Body page)
                          (pg_Status page) sub now2))))"

text \<open>The checks on the optional arguments, and the title without the white space around it.\<close>

definition checked_title :: "string option \<Rightarrow> string option result" where
  "checked_title title =
     (case title of
        None \<Rightarrow> Inr None
      | Some t0 \<Rightarrow> (let t = TrimSpace t0 in
                    if t = [] \<or> length t > MaxPageTitle then Inl ErrInvalid else Inr (Some t)))"

definition svc_UpdatePage ::
  "Store \<Rightarrow> string \<Rightarrow> id \<Rightarrow> string option \<Rightarrow> string option \<Rightarrow> string option \<Rightarrow> id option \<Rightarrow> int \<Rightarrow> time \<Rightarrow> time
   \<Rightarrow> Page locked_result \<times> Store" where
  "svc_UpdatePage s sub pageID title0 body status parentID version now now2 =
     guard_zero zero_Page (mem_PageWorkspaceID s pageID) s (\<lambda>wsID.
     guard_zero zero_Page (svc_requireWrite s wsID sub) s (\<lambda>_.
     guard_zero zero_Page (checked_title title0) s (\<lambda>title.
       if (case body of None \<Rightarrow> False | Some b \<Rightarrow> length b > MaxPageBody) then (Inl (ErrInvalid, zero_Page), s)
       else if (case status of None \<Rightarrow> False | Some st \<Rightarrow> \<not> valid_status st) then (Inl (ErrInvalid, zero_Page), s)
       else let p = mem_UpdatePage s pageID title body status parentID version now in
       (case fst p of
          Inl e \<Rightarrow> (Inl e, snd p)
        | Inr page \<Rightarrow>
            (Inr page,
             if title \<noteq> None \<or> body \<noteq> None \<or> status \<noteq> None
             then snd (mem_AppendPageVersionIfChanged (snd p) (pg_ID page) (pg_Title page) (pg_Body page)
                         (pg_Status page) sub now2)
             else snd p)))))"

definition svc_ArchivePage :: "Store \<Rightarrow> id list \<Rightarrow> string \<Rightarrow> id \<Rightarrow> time \<Rightarrow> unit result \<times> Store" where
  "svc_ArchivePage s ks sub pageID now =
     guard_ok (mem_PageWorkspaceID s pageID) s (\<lambda>wsID.
     guard_ok (svc_requireWrite s wsID sub) s (\<lambda>_. mem_ArchivePage s ks pageID now))"

definition svc_UnarchivePage :: "Store \<Rightarrow> id list \<Rightarrow> string \<Rightarrow> id \<Rightarrow> unit result \<times> Store" where
  "svc_UnarchivePage s ks sub pageID =
     guard_ok (mem_PageWorkspaceID s pageID) s (\<lambda>wsID.
     guard_ok (svc_requireWrite s wsID sub) s (\<lambda>_. mem_UnarchivePage s ks pageID))"

section \<open>Reading pages\<close>

definition svc_PageTree :: "id list \<Rightarrow> Store \<Rightarrow> string \<Rightarrow> id \<Rightarrow> PageNode list result" where
  "svc_PageTree ks s sub wsID =
     read_ok (mem_MemberRole s wsID sub) (\<lambda>role.
     read_ok (mem_ListPages ks s wsID) (\<lambda>ps0.
       let ps = (if role = RoleGuest then FilterGuestPages ps0 else ps0);
           live = filter (\<lambda>p. pg_ArchivedAt p = None) ps
       in Inr (BuildPageTree live)))"

definition svc_ArchivedPages :: "id list \<Rightarrow> Store \<Rightarrow> string \<Rightarrow> id \<Rightarrow> Page list result" where
  "svc_ArchivedPages ks s sub wsID =
     read_ok (mem_MemberRole s wsID sub) (\<lambda>role.
       if role = RoleGuest then Inr []
       else read_ok (mem_ListPages ks s wsID) (\<lambda>ps.
         Inr (filter (\<lambda>p. pg_ArchivedAt p \<noteq> None) ps)))"

definition svc_GetPage :: "id list \<Rightarrow> Store \<Rightarrow> string \<Rightarrow> id \<Rightarrow> Page result" where
  "svc_GetPage ks s sub pageID =
     read_ok (mem_PageWorkspaceID s pageID) (\<lambda>wsID.
     read_ok (mem_MemberRole s wsID sub) (\<lambda>role.
     read_ok (mem_GetPage s pageID) (\<lambda>page.
       if pg_ArchivedAt page \<noteq> None \<and> role = RoleGuest then Inl ErrNotFound
       else if role = RoleGuest \<and> \<not> PageVisibleToGuest page then Inl ErrNotFound
       else if role = RoleGuest then
         read_ok (mem_ListPages ks s wsID) (\<lambda>ancestors.
           if \<exists>p \<in> set (FilterGuestPages ancestors). pg_ID p = pageID then Inr page else Inl ErrNotFound)
       else Inr page)))"

section \<open>Versions\<close>

definition svc_ListPageVersions :: "id list \<Rightarrow> Store \<Rightarrow> string \<Rightarrow> id \<Rightarrow> PageVersionInfo list result" where
  "svc_ListPageVersions ks s sub pageID =
     read_ok (svc_GetPage ks s sub pageID) (\<lambda>_.
     read_ok (mem_ListPageVersions s pageID) (\<lambda>vers. Inr (map Info vers)))"

definition svc_GetPageVersion :: "id list \<Rightarrow> Store \<Rightarrow> string \<Rightarrow> id \<Rightarrow> int \<Rightarrow> PageVersion result" where
  "svc_GetPageVersion ks s sub pageID number =
     read_ok (svc_GetPage ks s sub pageID) (\<lambda>_. mem_GetPageVersion s pageID number)"

definition svc_DiffPageVersions :: "id list \<Rightarrow> Store \<Rightarrow> string \<Rightarrow> id \<Rightarrow> int \<Rightarrow> int \<Rightarrow> PageDiff result" where
  "svc_DiffPageVersions ks s sub pageID from_v to_v =
     read_ok (svc_GetPage ks s sub pageID) (\<lambda>_.
       if from_v < 1 \<or> to_v < 1 \<or> from_v = to_v then Inl ErrInvalid
       else read_ok (mem_GetPageVersion s pageID from_v) (\<lambda>a.
         read_ok (mem_GetPageVersion s pageID to_v) (\<lambda>b. Inr (DiffPages pageID a b))))"

definition svc_RestorePageVersion ::
  "Store \<Rightarrow> string \<Rightarrow> id \<Rightarrow> int \<Rightarrow> int \<Rightarrow> time \<Rightarrow> time \<Rightarrow> Page locked_result \<times> Store" where
  "svc_RestorePageVersion s sub pageID number lockVersion now now2 =
     guard_zero zero_Page (mem_PageWorkspaceID s pageID) s (\<lambda>wsID.
     guard_zero zero_Page (svc_requireWrite s wsID sub) s (\<lambda>_.
     guard_zero zero_Page (mem_GetPageVersion s pageID number) s (\<lambda>snap.
       let statusPtr = (if pv_Status snap \<noteq> [] then Some (pv_Status snap) else None) in
       svc_UpdatePage s sub pageID (Some (pv_Title snap)) (Some (pv_Body snap)) statusPtr None lockVersion now now2)))"

section \<open>Who may do what\<close>

interpretation create_page: gated "\<lambda>s. svc_CreatePage s nid cid ks sub wsID par title body st now now2"
  "\<lambda>_. Inr wsID" sub RoleMember
  for nid cid ks sub wsID par title body st now now2
  by unfold_locales (auto simp: svc_CreatePage_def svc_requireWrite_def)

interpretation update_page: gated "\<lambda>s. unlock (svc_UpdatePage s sub k title body st par v now now2)"
  "\<lambda>s. mem_PageWorkspaceID s k" sub RoleMember
  for sub k title body st par v now now2
  by unfold_locales (auto simp: svc_UpdatePage_def svc_requireWrite_def)

interpretation archive_page: gated "\<lambda>s. svc_ArchivePage s ks sub k now" "\<lambda>s. mem_PageWorkspaceID s k" sub RoleMember
  for ks sub k now
  by unfold_locales (auto simp: svc_ArchivePage_def svc_requireWrite_def)

interpretation unarchive_page: gated "\<lambda>s. svc_UnarchivePage s ks sub k" "\<lambda>s. mem_PageWorkspaceID s k" sub RoleMember
  for ks sub k
  by unfold_locales (auto simp: svc_UnarchivePage_def svc_requireWrite_def)

interpretation restore_page: gated "\<lambda>s. unlock (svc_RestorePageVersion s sub k n v now now2)"
  "\<lambda>s. mem_PageWorkspaceID s k" sub RoleMember
  for sub k n v now now2
  by unfold_locales (auto simp: svc_RestorePageVersion_def svc_requireWrite_def)

end
