(* ===== verification/GoPaths.thy ===== *)
theory GoPaths
  imports GoStrings
begin

text \<open>
  The functions of Go's \<open>path/filepath\<close> that the program uses, for a system whose separator is the
  slash: \<open>Base\<close>, \<open>Clean\<close> and \<open>Join\<close> of two elements.
\<close>

section \<open>Base\<close>

text \<open>Trailing slashes are dropped, then everything up to the last slash; the empty path is a dot.\<close>

definition strip_slashes :: "string \<Rightarrow> string" where
  "strip_slashes s = rev (dropWhile (\<lambda>c. c = CHR ''/'') (rev s))"

definition Base :: "string \<Rightarrow> string" where
  "Base s =
     (if s = [] then ''.''
      else let t = last (split_on (CHR ''/'') (strip_slashes s)) in
      if t = [] then ''/'' else t)"

lemma Base_no_slash: "Base s = ''/'' \<or> CHR ''/'' \<notin> set (Base s)"
proof -
  have "CHR ''/'' \<notin> set (last (split_on (CHR ''/'') (strip_slashes s)))"
    by (rule split_on_no_sep [OF last_in_set]) simp
  then show ?thesis by (simp add: Base_def Let_def)
qed

lemma Base_not_empty: "Base s \<noteq> []"
  by (simp add: Base_def Let_def)

section \<open>Clean and Join\<close>

text \<open>
  One element of the path at a time, on a stack with the last element first: an empty element and a
  dot say nothing, a double dot takes the last element off again, if there is one to take.
\<close>

definition push_element :: "bool \<Rightarrow> string list \<Rightarrow> string \<Rightarrow> string list" where
  "push_element rooted out e =
     (if e = [] \<or> e = ''.'' then out
      else if e = ''..'' then
        (case out of
           [] \<Rightarrow> if rooted then [] else [''..'']
         | p # ps \<Rightarrow> if p = ''..'' then ''..'' # out else ps)
      else e # out)"

definition Clean :: "string \<Rightarrow> string" where
  "Clean s =
     (let rooted = HasPrefix s ''/'';
          out = rev (foldl (push_element rooted) [] (split_on (CHR ''/'') s))
      in if rooted then CHR ''/'' # join_with (CHR ''/'') out
         else if out = [] then ''.'' else join_with (CHR ''/'') out)"

definition Join :: "string \<Rightarrow> string \<Rightarrow> string" where
  "Join dir name =
     (if dir = [] \<and> name = [] then []
      else if dir = [] then Clean name
      else if name = [] then Clean dir
      else Clean (dir @ ''/'' @ name))"

end
