(* ===== verification/SvcFiles.thy ===== *)
theory SvcFiles
  imports SvcPages MemChat GoPaths
begin

text \<open>
  \<open>service/files.go\<close>: uploads, links to files of a remote media server, attachments of pages, and
  opening a file by its token. The upload directory is a second piece of state, the map \<open>fs\<close> from paths
  to contents; what the operating system may refuse is the argument \<open>os\<close>.
\<close>

record UploadConfig =
  uc_Provider :: string
  uc_MaxBytes :: int
  uc_MediaAPIURL :: string

record FileView =
  fv_ID :: id
  fv_WorkspaceID :: id
  fv_Purpose :: string
  fv_Provider :: string
  fv_ContentType :: string
  fv_Size :: int
  fv_Name :: string
  fv_URL :: string

definition svc_UploadConfig :: "Env \<Rightarrow> UploadConfig" where
  "svc_UploadConfig env =
     (let cfg = \<lparr>uc_Provider = FileProviderLocal, uc_MaxBytes = MaxUploadBytes, uc_MediaAPIURL = []\<rparr>
      in if env_mediaURL env \<noteq> []
         then cfg\<lparr>uc_Provider := FileProviderP03, uc_MediaAPIURL := env_mediaURL env\<rparr> else cfg)"

definition FileURL :: "Env \<Rightarrow> StoredFile \<Rightarrow> string" where
  "FileURL env f = env_publicURL env @ ''/v1/files/'' @ sf_ID f @ ''/content?t='' @ sf_ViewToken f"

definition toFileView :: "Env \<Rightarrow> StoredFile \<Rightarrow> FileView" where
  "toFileView env f = \<lparr>fv_ID = sf_ID f, fv_WorkspaceID = sf_WorkspaceID f, fv_Purpose = sf_Purpose f,
     fv_Provider = sf_Provider f, fv_ContentType = sf_ContentType f, fv_Size = sf_Size f, fv_Name = sf_Name f,
     fv_URL = FileURL env f\<rparr>"

section \<open>Uploads\<close>

text \<open>The name shown for a file: the last element of the path, never a directory.\<close>

definition file_name :: "string \<Rightarrow> string" where
  "file_name name0 =
     (let name = Base (TrimSpace name0) in
      if name = [] \<or> name = ''.'' \<or> name = ''..'' then ''upload'' else name)"

text \<open>
  What the operating system does: whether the directory can be made, whether the file can be opened
  (it is also refused when it exists), and whether copying fails.
\<close>

record OS =
  os_mkdir :: bool
  os_open :: bool
  os_copy :: bool

definition svc_SaveLocalFile ::
  "Env \<Rightarrow> OS \<Rightarrow> Store \<Rightarrow> (string \<rightharpoonup> string) \<Rightarrow> id \<Rightarrow> id \<Rightarrow> string \<Rightarrow> id \<Rightarrow> string \<Rightarrow> string \<Rightarrow> string \<Rightarrow> int \<Rightarrow> string
   \<Rightarrow> time \<Rightarrow> FileView result \<times> Store \<times> (string \<rightharpoonup> string)" where
  "svc_SaveLocalFile env os s fs nid token sub wsID purpose name0 contentType0 declared data now =
     (case svc_requireWrite s wsID sub of
        Inl e \<Rightarrow> (Inl e, s, fs)
      | Inr _ \<Rightarrow>
     (if \<not> ValidFilePurpose purpose then (Inl ErrInvalid, s, fs)
      else if declared < 0 \<or> declared > MaxUploadBytes then (Inl ErrTooLarge, s, fs)
      else let contentType = (if contentType0 = [] then ''application/octet-stream'' else contentType0);
               name = file_name name0 in
      if \<not> os_mkdir os then (Inl ErrInternal, s, fs)
      else let path = Join (env_uploadDir env) nid in
      if \<not> os_open os \<or> fs path \<noteq> None then (Inl ErrInternal, s, fs)
      else let limited = take (nat (MaxUploadBytes + 1)) data;
               fs1 = fs(path \<mapsto> limited);
               written = int (length limited) in
      if \<not> os_copy os then (Inl ErrInternal, s, fs1(path := None))
      else if written > MaxUploadBytes then (Inl ErrTooLarge, s, fs1(path := None))
      else let f = \<lparr>sf_ID = nid, sf_WorkspaceID = wsID, sf_UploaderSub = sub, sf_Purpose = purpose,
                    sf_Provider = FileProviderLocal, sf_ContentType = contentType, sf_Size = written,
                    sf_Name = name, sf_ViewToken = token, sf_Path = path, sf_CreatedAt = now\<rparr> in
      (case mem_SaveFile s f of
         (Inl e, s1) \<Rightarrow> (Inl e, s1, fs1(path := None))
       | (Inr _, s1) \<Rightarrow> (Inr (toFileView env f), s1, fs1))))"

definition svc_LinkRemoteFile ::
  "Env \<Rightarrow> Store \<Rightarrow> id \<Rightarrow> string \<Rightarrow> id \<Rightarrow> string \<Rightarrow> id \<Rightarrow> string \<Rightarrow> string \<Rightarrow> int \<Rightarrow> time \<Rightarrow> FileView result \<times> Store" where
  "svc_LinkRemoteFile env s token sub wsID purpose fileID0 name0 contentType0 declared now =
     (if env_mediaURL env = [] then (Inl ErrInvalid, s)
      else guard_ok (svc_requireWrite s wsID sub) s (\<lambda>_.
        if \<not> ValidFilePurpose purpose then (Inl ErrInvalid, s)
        else let fileID = TrimSpace fileID0 in
        if fileID = [] \<or> \<not> env_ulid env fileID then (Inl ErrInvalid, s)
        else if declared < 0 \<or> declared > MaxUploadBytes then (Inl ErrTooLarge, s)
        else let contentType = (if contentType0 = [] then ''application/octet-stream'' else contentType0);
                 f = \<lparr>sf_ID = fileID, sf_WorkspaceID = wsID, sf_UploaderSub = sub, sf_Purpose = purpose,
                      sf_Provider = FileProviderP03, sf_ContentType = contentType, sf_Size = declared,
                      sf_Name = file_name name0, sf_ViewToken = token, sf_Path = [], sf_CreatedAt = now\<rparr> in
        call_ok (mem_SaveFile s f) (\<lambda>_ s1. (Inr (toFileView env f), s1))))"

section \<open>Attachments and access\<close>

definition svc_AttachPageFile :: "Env \<Rightarrow> id list \<Rightarrow> Store \<Rightarrow> string \<Rightarrow> id \<Rightarrow> id \<Rightarrow> FileView result \<times> Store" where
  "svc_AttachPageFile env ks s sub pageID fileID =
     guard_ok (svc_GetPage ks s sub pageID) s (\<lambda>page.
     guard_ok (svc_requireWrite s (pg_WorkspaceID page) sub) s (\<lambda>_.
     guard_ok (mem_GetFile s fileID) s (\<lambda>f.
       if sf_WorkspaceID f \<noteq> pg_WorkspaceID page \<or> sf_Purpose f \<noteq> PurposeWiki then (Inl ErrForbidden, s)
       else call_ok (mem_AttachPageFile s pageID fileID) (\<lambda>_ s1. (Inr (toFileView env f), s1)))))"

definition svc_ListPageFiles :: "Env \<Rightarrow> id list \<Rightarrow> Store \<Rightarrow> string \<Rightarrow> id \<Rightarrow> FileView list result" where
  "svc_ListPageFiles env ks s sub pageID =
     read_ok (svc_GetPage ks s sub pageID) (\<lambda>_.
     read_ok (mem_ListPageFiles s pageID) (\<lambda>fs. Inr (map (toFileView env) fs)))"

definition svc_GetFileForMember :: "Env \<Rightarrow> Store \<Rightarrow> string \<Rightarrow> id \<Rightarrow> FileView result" where
  "svc_GetFileForMember env s sub fileID =
     read_ok (mem_GetFile s fileID) (\<lambda>f.
     read_ok (svc_requireRead s (sf_WorkspaceID f) sub) (\<lambda>_. Inr (toFileView env f)))"

definition svc_OpenFileByToken :: "bool \<Rightarrow> Store \<Rightarrow> id \<Rightarrow> string \<Rightarrow> StoredFile result" where
  "svc_OpenFileByToken tenant s fileID token =
     read_ok (mem_GetFile (svc_Unscoped tenant s) fileID) (\<lambda>f.
       if token = [] \<or> token \<noteq> sf_ViewToken f then Inl ErrUnauthorized else Inr f)"

definition svc_requireChatFile :: "Store \<Rightarrow> id \<Rightarrow> id \<Rightarrow> unit result" where
  "svc_requireChatFile s wsID fileID =
     (case mem_GetFile s fileID of
        Inl _ \<Rightarrow> Inl ErrInvalid
      | Inr f \<Rightarrow> if sf_WorkspaceID f \<noteq> wsID \<or> sf_Purpose f \<noteq> PurposeChat then Inl ErrForbidden else Inr ())"

section \<open>Who may do what\<close>

interpretation link_file: gated "\<lambda>s. svc_LinkRemoteFile env s token sub wsID purpose fileID name ctype declared now"
  "\<lambda>_. Inr wsID" sub RoleMember
  for env token sub wsID purpose fileID name ctype declared now
  by unfold_locales (auto simp: svc_LinkRemoteFile_def svc_requireWrite_def)

interpretation attach_file: gated "\<lambda>s. svc_AttachPageFile env ks s sub k f"
  "\<lambda>s. mem_PageWorkspaceID s k" sub RoleMember
  for env ks sub k f
proof unfold_locales
  fix s w e assume "mem_PageWorkspaceID s k = Inr w" "svc_requireRole s w sub RoleMember = Inl e"
  moreover then have "pg_WorkspaceID p = w" if "svc_GetPage ks s sub k = Inr p" for p
    using that by (auto simp: svc_GetPage_def mem_GetPage_def mem_PageWorkspaceID_def split: option.splits if_splits)
  ultimately show "\<exists>e'. svc_AttachPageFile env ks s sub k f = (Inl e', s)"
    by (cases "svc_GetPage ks s sub k") (auto simp: svc_AttachPageFile_def svc_requireWrite_def)
qed (auto simp: svc_AttachPageFile_def svc_GetPage_def)

end
