(* ===== verification/Mentions.thy ===== *)
theory Mentions
  imports GoStrings
begin

text \<open>
  \<open>domain/mentions.go\<close>: the members mentioned in a chat message. The regular expression
  \<open>@([A-Za-z0-9._-]+)\<close> is matched from left to right; its class holds only ASCII characters and not
  the at sign, so matching bytes is matching runes, and after every at sign that is followed by a
  character of the class there is exactly one match, as long as possible.
\<close>

definition mention_char :: "char \<Rightarrow> bool" where
  "mention_char c \<longleftrightarrow>
     (65 \<le> byte c \<and> byte c \<le> 90) \<or> (97 \<le> byte c \<and> byte c \<le> 122) \<or> (48 \<le> byte c \<and> byte c \<le> 57) \<or>
     c = CHR ''.'' \<or> c = CHR ''_'' \<or> c = CHR ''-''"

text \<open>\<open>FindAllStringSubmatch\<close>, the first group of every match.\<close>

function mention_matches :: "string \<Rightarrow> string list" where
  "mention_matches [] = []"
| "mention_matches (c # cs) =
     (if c = CHR ''@'' \<and> takeWhile mention_char cs \<noteq> []
      then takeWhile mention_char cs # mention_matches (dropWhile mention_char cs)
      else mention_matches cs)"
  by pat_completeness auto
termination
  by (relation "measure length") (auto simp: less_Suc_eq_le length_dropWhile_le)

text \<open>The loop over the matches: what is allowed and was not seen yet is appended.\<close>

definition collect_mentions :: "string set \<Rightarrow> string list \<Rightarrow> string list" where
  "collect_mentions allow matches =
     fold (\<lambda>sub out. if sub \<notin> allow \<or> sub \<in> set out then out else out @ [sub]) matches []"

definition ExtractMentions :: "string \<Rightarrow> string list \<Rightarrow> string list" where
  "ExtractMentions body memberSubs = collect_mentions {sub \<in> set memberSubs. sub \<noteq> []} (mention_matches body)"

section \<open>What is matched\<close>

text \<open>
  \<open>mentioned body sub\<close>: somewhere in the body there is an at sign, then \<open>sub\<close>, and then the body ends
  or goes on with a character that no name has.
\<close>

definition mentioned :: "string \<Rightarrow> string \<Rightarrow> bool" where
  "mentioned body sub \<longleftrightarrow> sub \<noteq> [] \<and> list_all mention_char sub \<and>
     (\<exists>pre post. body = pre @ CHR ''@'' # sub @ post \<and> (post = [] \<or> \<not> mention_char (hd post)))"

lemma not_mention_at [simp]: "\<not> mention_char CHR ''@''"
  by (simp add: mention_char_def byte_def)

lemma takeWhile_token:
  "list_all P xs \<Longrightarrow> ys = [] \<or> \<not> P (hd ys) \<Longrightarrow> takeWhile P (xs @ ys) = xs \<and> dropWhile P (xs @ ys) = ys"
  by (induction xs) (cases ys; auto)+

lemma list_all_takeWhile: "list_all P (takeWhile P xs)"
  by (induction xs) auto

text \<open>An at sign lies at the front, or behind the characters of a name.\<close>

lemma mentioned_Cons:
  "mentioned (c # cs) sub \<longleftrightarrow> (c = CHR ''@'' \<and> takeWhile mention_char cs = sub \<and> sub \<noteq> []) \<or> mentioned cs sub"
proof
  assume m: "mentioned (c # cs) sub"
  then obtain pre post where p: "c # cs = pre @ CHR ''@'' # sub @ post" "post = [] \<or> \<not> mention_char (hd post)"
    "sub \<noteq> []" "list_all mention_char sub" by (auto simp: mentioned_def)
  show "(c = CHR ''@'' \<and> takeWhile mention_char cs = sub \<and> sub \<noteq> []) \<or> mentioned cs sub"
  proof (cases pre)
    case Nil
    then show ?thesis using p takeWhile_token [OF p(4,2)] by auto
  next
    case (Cons d pre')
    then have "mentioned cs sub" using p unfolding mentioned_def by auto
    then show ?thesis ..
  qed
next
  assume "(c = CHR ''@'' \<and> takeWhile mention_char cs = sub \<and> sub \<noteq> []) \<or> mentioned cs sub"
  then show "mentioned (c # cs) sub"
  proof
    assume h: "c = CHR ''@'' \<and> takeWhile mention_char cs = sub \<and> sub \<noteq> []"
    then have "c # cs = [] @ CHR ''@'' # sub @ dropWhile mention_char cs" by auto
    moreover have "list_all mention_char sub" using h list_all_takeWhile by blast
    moreover have "dropWhile mention_char cs = [] \<or> \<not> mention_char (hd (dropWhile mention_char cs))"
      using hd_dropWhile [of mention_char cs] by blast
    ultimately show ?thesis using h unfolding mentioned_def by blast
  next
    assume "mentioned cs sub"
    then show ?thesis unfolding mentioned_def by (metis append_Cons)
  qed
qed

lemma mentioned_Nil [simp]: "\<not> mentioned [] sub"
  by (simp add: mentioned_def)

lemma mentioned_skip: "list_all mention_char xs \<Longrightarrow> mentioned (xs @ ys) sub = mentioned ys sub"
  by (induction xs) (auto simp: mentioned_Cons)

lemma set_mention_matches: "set (mention_matches body) = {sub. mentioned body sub}"
proof (induction body rule: mention_matches.induct)
  case (2 c cs)
  have "mentioned (dropWhile mention_char cs) sub = mentioned cs sub" for sub
    using mentioned_skip [of "takeWhile mention_char cs" "dropWhile mention_char cs" sub]
    by (simp add: list_all_takeWhile)
  then have drop: "{sub. mentioned (dropWhile mention_char cs) sub} = {sub. mentioned cs sub}" by blast
  show ?case
  proof (cases "c = CHR ''@'' \<and> takeWhile mention_char cs \<noteq> []")
    case True
    then have "{sub. mentioned (c # cs) sub} = insert (takeWhile mention_char cs) {sub. mentioned cs sub}"
      unfolding mentioned_Cons by auto
    then show ?thesis using "2.IH"(1) [OF True] drop True by simp
  next
    case False
    then have "mentioned (c # cs) sub \<longleftrightarrow> mentioned cs sub" for sub unfolding mentioned_Cons by blast
    moreover have "mention_matches (c # cs) = mention_matches cs"
      unfolding mention_matches.simps(2) by (rule if_not_P [OF False])
    ultimately show ?thesis using "2.IH"(2) [OF False] by simp
  qed
qed simp

lemma collect_fold:
  "distinct out \<Longrightarrow> set out \<subseteq> allow \<Longrightarrow>
   set (fold (\<lambda>sub out. if sub \<notin> allow \<or> sub \<in> set out then out else out @ [sub]) ms out) = set out \<union> (set ms \<inter> allow) \<and>
   distinct (fold (\<lambda>sub out. if sub \<notin> allow \<or> sub \<in> set out then out else out @ [sub]) ms out)"
  by (induction ms arbitrary: out) auto

lemma mention_set:
  "set (ExtractMentions body subs) = {sub \<in> set subs. mentioned body sub} \<and> distinct (ExtractMentions body subs)"
  using collect_fold [of "[]" "{sub \<in> set subs. sub \<noteq> []}" "mention_matches body"]
  by (auto simp: ExtractMentions_def collect_mentions_def set_mention_matches mentioned_def)

text \<open>
  (C31) The mentions of a message are, each once, the members whose whole name stands behind an at
  sign: a longer run of name characters that only starts with the name does not mention its bearer.
\<close>

theorem ExtractMentions_iff:
  "set (ExtractMentions body subs) = {sub \<in> set subs. mentioned body sub} \<and> distinct (ExtractMentions body subs)"
  by (rule mention_set)

text \<open>A full stop belongs to a name, so the end of a sentence hides a mention.\<close>

lemma mention_before_full_stop: "ExtractMentions ''Thanks @bob.'' [''bob''] = [] \<and> ExtractMentions ''@bob, thanks'' [''bob''] = [''bob'']"
  by code_simp

end
