(* ===== verification/SvcChat.thy ===== *)
theory SvcChat
  imports SvcFiles MemChat Mentions
begin

text \<open>
  \<open>service/workspace.go\<close>: channels, messages, read cursors and chat tickets. The broadcaster is a
  parameter of the program; what a message hands to it is the second result of \<open>PostMessage\<close>.
\<close>

section \<open>Channels\<close>

definition svc_CreateChannel :: "Store \<Rightarrow> id \<Rightarrow> string \<Rightarrow> id \<Rightarrow> string \<Rightarrow> time \<Rightarrow> Channel result \<times> Store" where
  "svc_CreateChannel s nid sub wsID name0 now =
     guard_ok (svc_requireWrite s wsID sub) s (\<lambda>_.
       let name = TrimSpace name0 in
       if name = [] \<or> length name > MaxChannelName then (Inl ErrInvalid, s)
       else mem_CreateChannel s nid wsID name now)"

text \<open>The channel with the reader's cursor and the number of messages behind it.\<close>

definition channel_view :: "Store \<Rightarrow> string \<Rightarrow> Channel \<Rightarrow> ChannelView result" where
  "channel_view s sub ch =
     read_ok (mem_GetChannelRead s (ch_ID ch) sub) (\<lambda>lastRead.
     read_ok (mem_CountMessagesAfter s (ch_ID ch) lastRead) (\<lambda>unread.
       Inr \<lparr>cv_Channel = ch, cv_LastReadSeq = lastRead, cv_UnreadCount = unread\<rparr>))"

fun channel_views :: "Store \<Rightarrow> string \<Rightarrow> Channel list \<Rightarrow> ChannelView list result" where
  "channel_views s sub [] = Inr []"
| "channel_views s sub (ch # chs) =
     read_ok (channel_view s sub ch) (\<lambda>v. read_ok (channel_views s sub chs) (\<lambda>vs. Inr (v # vs)))"

definition svc_ListChannels :: "id list \<Rightarrow> Store \<Rightarrow> string \<Rightarrow> id \<Rightarrow> ChannelView list result" where
  "svc_ListChannels ks s sub wsID =
     read_ok (svc_requireRead s wsID sub) (\<lambda>_.
     read_ok (mem_ListChannels ks s wsID) (\<lambda>chs. channel_views s sub chs))"

definition svc_MarkChannelRead :: "Store \<Rightarrow> string \<Rightarrow> id \<Rightarrow> int \<Rightarrow> ChannelView result \<times> Store" where
  "svc_MarkChannelRead s sub channelID lastSeq =
     guard_ok (mem_GetChannel s channelID) s (\<lambda>ch.
     guard_ok (svc_requireRead s (ch_WorkspaceID ch) sub) s (\<lambda>_.
       if lastSeq < 0 then (Inl ErrInvalid, s)
       else call_ok (mem_UpsertChannelRead s channelID sub lastSeq) (\<lambda>_ s1.
         guard_ok (mem_GetChannelRead s1 channelID sub) s1 (\<lambda>lastRead.
         guard_ok (mem_CountMessagesAfter s1 channelID lastRead) s1 (\<lambda>unread.
           (Inr \<lparr>cv_Channel = ch, cv_LastReadSeq = lastRead, cv_UnreadCount = unread\<rparr>, s1))))))"

definition svc_GetChannel :: "Store \<Rightarrow> string \<Rightarrow> id \<Rightarrow> Channel result" where
  "svc_GetChannel s sub channelID =
     read_ok (mem_GetChannel s channelID) (\<lambda>ch.
     read_ok (svc_requireRead s (ch_WorkspaceID ch) sub) (\<lambda>_. Inr ch))"

section \<open>Messages\<close>

definition svc_PostMessage ::
  "Store \<Rightarrow> string list \<Rightarrow> id \<Rightarrow> string \<Rightarrow> id \<Rightarrow> string \<Rightarrow> id \<Rightarrow> time \<Rightarrow> ChatMessage result \<times> Store" where
  "svc_PostMessage s ks nid sub channelID body0 attachmentFileID0 now =
     guard_ok (mem_GetChannel s channelID) s (\<lambda>ch.
     guard_ok (svc_requireWrite s (ch_WorkspaceID ch) sub) s (\<lambda>_.
       let body = TrimSpace body0; attachmentFileID = TrimSpace attachmentFileID0 in
       if body = [] \<and> attachmentFileID = [] then (Inl ErrInvalid, s)
       else if length body > MaxChatMessage then (Inl ErrInvalid, s)
       else guard_ok (if attachmentFileID \<noteq> [] then svc_requireChatFile s (ch_WorkspaceID ch) attachmentFileID else Inr ()) s (\<lambda>_.
         guard_ok (mem_ListMembers ks s (ch_WorkspaceID ch)) s (\<lambda>ms.
           let subs = map mb_Sub ms; mentions = ExtractMentions body subs in
           mem_AppendMessage s nid channelID sub body mentions attachmentFileID now))))"

text \<open>The broadcaster is told about a message exactly when it was stored.\<close>

definition broadcast_of :: "ChatMessage result \<times> Store \<Rightarrow> (id \<times> ChatMessage) option" where
  "broadcast_of r = (case fst r of Inl _ \<Rightarrow> None | Inr msg \<Rightarrow> Some (cm_ChannelID msg, msg))"

definition svc_ListMessages :: "Store \<Rightarrow> string \<Rightarrow> id \<Rightarrow> int \<Rightarrow> ChatMessage list result" where
  "svc_ListMessages s sub channelID afterSeq =
     read_ok (mem_GetChannel s channelID) (\<lambda>ch.
     read_ok (svc_requireRead s (ch_WorkspaceID ch) sub) (\<lambda>_. mem_ListMessages s channelID afterSeq))"

section \<open>Tickets\<close>

record IssuedChatTicket =
  ict_Ticket :: id
  ict_ChannelID :: id
  ict_ReadOnly :: bool
  ict_ExpiresAt :: time

definition svc_IssueChatTicket :: "Store \<Rightarrow> id \<Rightarrow> string \<Rightarrow> id \<Rightarrow> time \<Rightarrow> IssuedChatTicket result \<times> Store" where
  "svc_IssueChatTicket s nid sub channelID now =
     guard_ok (svc_GetChannel s sub channelID) s (\<lambda>ch.
     guard_ok (mem_MemberRole s (ch_WorkspaceID ch) sub) s (\<lambda>role.
       let readOnly = (\<not> RoleAtLeast role RoleMember);
           (t, s1) = mem_CreateChatTicket s nid sub channelID readOnly now in
       (Inr \<lparr>ict_Ticket = cht_ID t, ict_ChannelID = cht_ChannelID t, ict_ReadOnly = cht_ReadOnly t,
             ict_ExpiresAt = cht_ExpiresAt t\<rparr>, s1)))"

definition svc_AuthorizeChat :: "Store \<Rightarrow> id \<Rightarrow> id \<Rightarrow> time \<Rightarrow> ChatTicket result" where
  "svc_AuthorizeChat s ticketID channelID now =
     (case mem_GetChatTicket s ticketID of
        Inl _ \<Rightarrow> Inl ErrUnauthorized
      | Inr t \<Rightarrow>
          (if \<not> now < cht_ExpiresAt t then Inl ErrUnauthorized
           else if channelID \<noteq> [] \<and> cht_ChannelID t \<noteq> channelID then Inl ErrForbidden
           else Inr t))"

section \<open>Who may do what\<close>

definition channel_workspace :: "Store \<Rightarrow> id \<Rightarrow> id result" where
  "channel_workspace s channelID = read_ok (mem_GetChannel s channelID) (\<lambda>ch. Inr (ch_WorkspaceID ch))"

interpretation create_channel: gated "\<lambda>s. svc_CreateChannel s nid sub wsID name now" "\<lambda>_. Inr wsID" sub RoleMember
  for nid sub wsID name now
  by unfold_locales (auto simp: svc_CreateChannel_def svc_requireWrite_def)

interpretation mark_read: gated "\<lambda>s. svc_MarkChannelRead s sub k n" "\<lambda>s. channel_workspace s k" sub RoleGuest
  for sub k n
  by unfold_locales
    (auto simp: svc_MarkChannelRead_def svc_requireRead_def channel_workspace_def mem_GetChannel_def split: option.splits)

interpretation post_message: gated "\<lambda>s. svc_PostMessage s ks nid sub k body att now" "\<lambda>s. channel_workspace s k" sub RoleMember
  for ks nid sub k body att now
  by unfold_locales
    (auto simp: svc_PostMessage_def svc_requireWrite_def channel_workspace_def mem_GetChannel_def split: option.splits)

interpretation issue_chat: gated "\<lambda>s. svc_IssueChatTicket s nid sub k now" "\<lambda>s. channel_workspace s k" sub RoleGuest
  for nid sub k now
  by unfold_locales
    (auto simp: svc_IssueChatTicket_def svc_GetChannel_def svc_requireRead_def channel_workspace_def mem_GetChannel_def
      split: option.splits)

end
