(* ===== verification/Contracts.thy ===== *)
theory Contracts
  imports Store
begin

text \<open>
  Two interfaces that several components share, as locales: the optimistic lock of cards and pages, and the
  tickets of collaboration rooms and chat channels.
\<close>

section \<open>Optimistic locks\<close>

text \<open>
  The optimistic lock of cards and pages as an interface. A writer reads a thing with its version
  and sends the version back with the change; the store refuses a change that was made on an older
  version. \<open>version\<close> reads the version a state holds, \<open>put v\<close> is a change made on version \<open>v\<close>.
\<close>

locale versioned =
  fixes version :: "'s \<Rightarrow> int option"
    and put :: "int \<Rightarrow> 's \<Rightarrow> ((error \<times> 'a) + 'a) \<times> 's"
  assumes stale: "version s = Some w \<Longrightarrow> w \<noteq> v \<Longrightarrow> \<exists>x. put v s = (Inl (ErrConflict, x), s)"
    and gone: "version s = None \<Longrightarrow> \<exists>x. put v s = (Inl (ErrNotFound, x), s)"
    and bump: "put v s = (Inr y, t) \<Longrightarrow> version t = Some (v + 1)"
    and refuse: "put v s = (Inl e, t) \<Longrightarrow> t = s"
begin

text \<open>A change that succeeds was made on the current version.\<close>

lemma success_current: "put v s = (Inr y, t) \<Longrightarrow> version s = Some v"
  by (metis gone stale Inr_Inl_False fst_conv option.exhaust)

end

text \<open>Two kinds of change to the same thing, under the same lock.\<close>

locale versioned_pair = one: versioned version put1 + two: versioned version put2
  for version :: "'s \<Rightarrow> int option"
    and put1 :: "int \<Rightarrow> 's \<Rightarrow> ((error \<times> 'a) + 'a) \<times> 's"
    and put2 :: "int \<Rightarrow> 's \<Rightarrow> ((error \<times> 'a) + 'a) \<times> 's"
begin

text \<open>Of two changes made on the same version, the later one is refused: no update is lost.\<close>

lemma no_lost_update:
  assumes "put1 v s = (Inr y, t)"
  shows "\<exists>x. put2 v t = (Inl (ErrConflict, x), t)"
  using one.bump [OF assms] by (intro two.stale) auto

end

section \<open>Tickets\<close>

text \<open>
  The tickets with which a browser opens a WebSocket, as an interface: the collaboration rooms and
  the chat channels issue and check them in the same way. \<open>issue s k sub r ro now\<close> stores under the
  identifier \<open>k\<close> a ticket for the room \<open>r\<close>; \<open>check s k r t\<close> gives the subject and the read-only flag
  when the ticket \<open>k\<close> opens the room \<open>r\<close> at the time \<open>t\<close>. \<open>valid\<close> are the room names the check accepts.
\<close>

locale ticket_office =
  fixes issue :: "Store \<Rightarrow> id \<Rightarrow> string \<Rightarrow> id \<Rightarrow> bool \<Rightarrow> time \<Rightarrow> Store"
    and check :: "Store \<Rightarrow> id \<Rightarrow> id \<Rightarrow> time \<Rightarrow> (string \<times> bool) result"
    and valid :: "id \<Rightarrow> bool"
  assumes same_room: "valid r \<Longrightarrow> check (issue s k sub r ro now) k r t =
      (if t < now + CollabTicketTTL then Inr (sub, ro) else Inl ErrUnauthorized)"
    and other_room: "valid r' \<Longrightarrow> r' \<noteq> r \<Longrightarrow> check (issue s k sub r ro now) k r' t =
      (if t < now + CollabTicketTTL then Inl ErrForbidden else Inl ErrUnauthorized)"
    and other_ticket: "j \<noteq> k \<Longrightarrow> check (issue s k sub r ro now) j r' t = check s j r' t"
    and expires: "check s k r t = Inr x \<Longrightarrow> t' \<le> t \<Longrightarrow> check s k r t' = Inr x"
begin

text \<open>Issuing further tickets, each under its own identifier, changes nothing for a ticket.\<close>

lemma issue_more:
  "k \<notin> set (map fst later) \<Longrightarrow>
   check (fold (\<lambda>(j, sub, r, ro, now) s. issue s j sub r ro now) later s) k r' t = check s k r' t"
  by (induction later arbitrary: s) (auto simp: other_ticket)

text \<open>The whole contract of one ticket, whatever else is issued after it.\<close>

lemma ticket_opens:
  assumes "valid r'" and "k \<notin> set (map fst later)"
  shows "check (fold (\<lambda>(j, sub, r, ro, now) s. issue s j sub r ro now) later (issue s k sub r ro now)) k r' t =
    (if \<not> t < now + CollabTicketTTL then Inl ErrUnauthorized
     else if r' = r then Inr (sub, ro) else Inl ErrForbidden)"
  using assms same_room other_room by (cases "r' = r") (simp_all add: issue_more)

text \<open>Before its time is up it never stops to open its room, afterwards it never opens it again.\<close>

lemma ticket_window:
  "valid r \<Longrightarrow> check (issue s k sub r ro now) k r t = Inr x \<longleftrightarrow> x = (sub, ro) \<and> t < now + CollabTicketTTL"
  by (auto simp: same_room)

end

end
