(* ===== verification/Chat.thy ===== *)
theory Chat
  imports SvcChat Contracts
begin

text \<open>
  The chat component as a whole: its requests, the invariant (the messages of a channel are numbered
  1, 2, 3 and so on, cursors are not negative, tickets are for channels that exist) and its
  preservation. Numbered messages make the filter of \<open>ListMessages\<close> a cut of the list.
\<close>

section \<open>Requests\<close>

datatype chat_req =
    CreateChannel id string id string time
  | MarkChannelRead string id int
  | PostMessage "string list" id string id string id time
  | IssueChatTicket id string id time

fun exec_chat :: "chat_req \<Rightarrow> Store \<Rightarrow> unit result \<times> Store" where
  "exec_chat (CreateChannel nid sub wsID name now) s = outcome (svc_CreateChannel s nid sub wsID name now)"
| "exec_chat (MarkChannelRead sub k n) s = outcome (svc_MarkChannelRead s sub k n)"
| "exec_chat (PostMessage ks nid sub k body att now) s = outcome (svc_PostMessage s ks nid sub k body att now)"
| "exec_chat (IssueChatTicket nid sub k now) s = outcome (svc_IssueChatTicket s nid sub k now)"

fun runtime_chat :: "Store \<Rightarrow> chat_req \<Rightarrow> bool" where
  "runtime_chat s (CreateChannel nid sub wsID name now) \<longleftrightarrow> fresh s nid"
| "runtime_chat s (PostMessage ks nid sub k body att now) \<longleftrightarrow>
     fresh s nid \<and> (\<forall>ch ms. channels s k = Some ch \<longrightarrow> members s (ch_WorkspaceID ch) = Some ms \<longrightarrow> range_order ms ks)"
| "runtime_chat s (IssueChatTicket nid sub k now) \<longleftrightarrow> fresh s nid"
| "runtime_chat s _ \<longleftrightarrow> True"

section \<open>Numbered messages\<close>

definition numbered_from :: "nat \<Rightarrow> ChatMessage list \<Rightarrow> bool" where
  "numbered_from j msgs \<longleftrightarrow> map cm_Seq msgs = map int [j..<j + length msgs]"

lemma numbered_from_Cons [simp]:
  "numbered_from j (m # msgs) \<longleftrightarrow> cm_Seq m = int j \<and> numbered_from (Suc j) msgs"
  by (simp add: numbered_from_def upt_rec)

lemma numbered_from_Nil [simp]: "numbered_from j []"
  by (simp add: numbered_from_def)

lemma numbered_from_snoc [simp]:
  "numbered_from j (msgs @ [m]) \<longleftrightarrow> numbered_from j msgs \<and> cm_Seq m = int (j + length msgs)"
  by (induction msgs arbitrary: j) auto

lemma filter_numbered: "numbered_from j msgs \<Longrightarrow> filter (\<lambda>m. cm_Seq m > int a) msgs = drop (Suc a - j) msgs"
proof (induction msgs arbitrary: j)
  case (Cons m msgs)
  have IH: "filter (\<lambda>m. cm_Seq m > int a) msgs = drop (Suc a - Suc j) msgs"
    by (rule Cons.IH) (use Cons.prems in simp)
  show ?case
  proof (cases "j \<le> a")
    case True
    then have "Suc a - j = Suc (a - j)" by simp
    with True Cons.prems IH show ?thesis by simp
  next
    case False
    then have "Suc a - j = 0" "Suc a - Suc j = 0" by simp_all
    with False Cons.prems IH show ?thesis by simp
  qed
qed simp

lemma messages_after: "numbered_from 1 msgs \<Longrightarrow> 0 \<le> a \<Longrightarrow> filter (\<lambda>m. cm_Seq m > a) msgs = drop (nat a) msgs"
  using filter_numbered [of 1 msgs "nat a"] by simp

section \<open>The invariant\<close>

definition channel_ok :: "Store \<Rightarrow> id \<Rightarrow> Channel \<Rightarrow> bool" where
  "channel_ok s k ch \<longleftrightarrow> ch_ID ch = k \<and> workspaces s (ch_WorkspaceID ch) \<noteq> None \<and>
     (\<exists>msgs. messages s k = Some msgs \<and> numbered_from 1 msgs \<and> (\<forall>m \<in> set msgs. cm_ChannelID m = k))"

definition chat_inv :: "Store \<Rightarrow> bool" where
  "chat_inv s \<longleftrightarrow>
     (\<forall>k ch. channels s k = Some ch \<longrightarrow> channel_ok s k ch) \<and>
     (\<forall>k bySub sub n. chatReads s k = Some bySub \<longrightarrow> bySub sub = Some n \<longrightarrow> 0 \<le> n) \<and>
     (\<forall>k t. chatTickets s k = Some t \<longrightarrow> cht_ID t = k \<and> channels s (cht_ChannelID t) \<noteq> None)"

lemma chat_inv_New: "chat_inv New"
  by (simp add: chat_inv_def New_def)

lemma chat_invD:
  assumes "chat_inv s"
  shows "channels s k = Some ch \<Longrightarrow> channel_ok s k ch"
    and "channels s k = Some ch \<Longrightarrow> \<exists>msgs. messages s k = Some msgs \<and> numbered_from 1 msgs"
    and "chatReads s k = Some bySub \<Longrightarrow> bySub sub = Some n \<Longrightarrow> 0 \<le> n"
  using assms unfolding chat_inv_def channel_ok_def by blast+

lemma chat_inv_cong:
  assumes "chat_part t = chat_part s" and "dom (workspaces s) \<subseteq> dom (workspaces t)" and iv: "chat_inv s"
  shows "chat_inv t"
proof -
  have eqs: "channels t = channels s" "messages t = messages s" "chatReads t = chatReads s" "chatTickets t = chatTickets s"
    using assms(1) by (simp_all add: chat_part_def)
  have "channel_ok t k ch" if "channels s k = Some ch" for k ch
  proof -
    have ok: "channel_ok s k ch" by (rule chat_invD(1) [OF iv that])
    then have "ch_WorkspaceID ch \<in> dom (workspaces t)" using assms(2) by (auto simp: channel_ok_def)
    with ok show ?thesis by (auto simp: channel_ok_def eqs)
  qed
  then show ?thesis using iv by (simp add: chat_inv_def eqs)
qed

section \<open>Preservation\<close>

lemma chi_CreateChannel:
  assumes iv: "chat_inv s" and new: "channels s nid = None"
  shows "chat_inv (snd (mem_CreateChannel s nid wsID name now))"
proof (cases "workspaces s wsID")
  case (Some ws)
  then show ?thesis using iv new by (auto simp: mem_CreateChannel_def chat_inv_def channel_ok_def Let_def)
qed (use iv in \<open>simp add: mem_CreateChannel_def\<close>)

lemma chi_AppendMessage:
  assumes iv: "chat_inv s"
  shows "chat_inv (snd (mem_AppendMessage s nid k sub body mentions att now))"
proof (cases "channels s k")
  case (Some ch)
  then obtain msgs where "messages s k = Some msgs" "numbered_from 1 msgs" "\<forall>m \<in> set msgs. cm_ChannelID m = k"
    using chat_invD(1) [OF iv Some] by (auto simp: channel_ok_def)
  then show ?thesis using iv Some by (auto simp: mem_AppendMessage_def chat_inv_def channel_ok_def get_list_def Let_def)
qed (use iv in \<open>simp add: mem_AppendMessage_def\<close>)

lemma chi_UpsertChannelRead:
  assumes iv: "chat_inv s"
  shows "chat_inv (snd (mem_UpsertChannelRead s k sub n))"
proof -
  define old where "old = (case chatReads s k of None \<Rightarrow> Map.empty | Some m \<Rightarrow> m)"
  have pos: "0 \<le> i" if "old u = Some i" for u i
    using that chat_invD(3) [OF iv] by (auto simp: old_def split: option.splits)
  have put: "chat_inv (s\<lparr>chatReads := (chatReads s)(k \<mapsto> bySub)\<rparr>)" if "\<And>u i. bySub u = Some i \<Longrightarrow> 0 \<le> i" for bySub
    using iv that by (auto simp: chat_inv_def channel_ok_def)
  have "chat_inv (s\<lparr>chatReads := (chatReads s)(k \<mapsto> old)\<rparr>)"
    by (rule put) (rule pos)
  moreover have "chat_inv (s\<lparr>chatReads := (chatReads s)(k \<mapsto> old(sub \<mapsto> n))\<rparr>)" if "0 \<le> n"
    by (rule put) (use that pos in \<open>auto split: if_splits\<close>)
  ultimately show ?thesis using iv by (simp add: mem_UpsertChannelRead_def Let_def flip: old_def)
qed

lemma chi_CreateChatTicket:
  "chat_inv s \<Longrightarrow> channels s k \<noteq> None \<Longrightarrow> chat_inv (snd (mem_CreateChatTicket s nid sub k ro now))"
  by (auto simp: chat_inv_def channel_ok_def mem_CreateChatTicket_def Let_def)

theorem exec_chat_inv:
  assumes "chat_inv s" and "runtime_chat s r"
  shows "chat_inv (snd (exec_chat r s))"
proof (cases r)
  case (CreateChannel nid sub wsID name now)
  then show ?thesis
    using assms by (auto simp: svc_CreateChannel_def fresh_def Let_def intro!: guard_ok_inv [where P = chat_inv] chi_CreateChannel)
next
  case (MarkChannelRead sub k n)
  then show ?thesis
    using assms by (auto simp: svc_MarkChannelRead_def Let_def intro!: ok_inv [where P = chat_inv] chi_UpsertChannelRead)
next
  case (PostMessage ks nid sub k body att now)
  then show ?thesis
    using assms by (auto simp: svc_PostMessage_def Let_def intro!: guard_ok_inv [where P = chat_inv] chi_AppendMessage)
next
  case (IssueChatTicket nid sub k now)
  have "chat_inv (snd (let (t, s1) = mem_CreateChatTicket s nid sub k ro now in (f t, s1)))" if "channels s k \<noteq> None" for ro f
    using chi_CreateChatTicket [OF assms(1) that] by (simp add: split_beta)
  then show ?thesis
    using IssueChatTicket assms(1)
    by (auto simp: svc_IssueChatTicket_def svc_GetChannel_def mem_GetChannel_def Let_def split: option.splits
        intro!: guard_ok_inv [where P = chat_inv])
qed

end
