(* ===== verification/MemDocs.thy ===== *)
theory MemDocs
  imports Store
begin

text \<open>
  \<open>store/memory/store.go\<close>: documents, and what the collaboration server needs: the index from
  collaboration rooms to pages and documents, the tickets, and the snapshots of the text.
\<close>

section \<open>Documents\<close>

definition mem_CreateDocument ::
  "Store \<Rightarrow> id \<Rightarrow> id \<Rightarrow> id \<Rightarrow> string \<Rightarrow> string \<Rightarrow> time \<Rightarrow> Document result \<times> Store" where
  "mem_CreateDocument s nid cid wsID title body now =
     (if workspaces s wsID = None then (Inl ErrNotFound, s)
      else (let doc = \<lparr>doc_ID = nid, doc_WorkspaceID = wsID, doc_Title = title, doc_Body = body,
                       doc_CollabDocumentID = cid, doc_LastEditorSub = [], doc_CreatedAt = now,
                       doc_UpdatedAt = now, doc_DeletedAt = None\<rparr>
            in (Inr doc, s\<lparr>documents := (documents s)(nid \<mapsto> doc),
                          collabIndex := (collabIndex s)(cid \<mapsto> \<lparr>cr_kind = ''document'', cr_id = nid\<rparr>)\<rparr>)))"

definition document_before :: "Document \<Rightarrow> Document \<Rightarrow> bool" where
  "document_before a b =
     (if doc_CreatedAt a = doc_CreatedAt b then doc_ID a < doc_ID b else doc_CreatedAt a < doc_CreatedAt b)"

definition mem_ListDocuments :: "id list \<Rightarrow> Store \<Rightarrow> id \<Rightarrow> Document list result" where
  "mem_ListDocuments ks s wsID =
     (if workspaces s wsID = None then Inl ErrNotFound
      else Inr (sort_slice document_before
             (filter (\<lambda>d. doc_WorkspaceID d = wsID) (range_values ks (documents s)))))"

definition mem_GetDocument :: "Store \<Rightarrow> id \<Rightarrow> Document result" where
  "mem_GetDocument s docID = (case documents s docID of None \<Rightarrow> Inl ErrNotFound | Some d \<Rightarrow> Inr d)"

definition mem_UpdateDocumentTitle :: "Store \<Rightarrow> id \<Rightarrow> string \<Rightarrow> time \<Rightarrow> Document result \<times> Store" where
  "mem_UpdateDocumentTitle s docID title now =
     (case documents s docID of
        None \<Rightarrow> (Inl ErrNotFound, s)
      | Some d0 \<Rightarrow>
          (let d = d0\<lparr>doc_Title := title, doc_UpdatedAt := now\<rparr>
           in (Inr d, s\<lparr>documents := (documents s)(docID \<mapsto> d)\<rparr>)))"

definition mem_TrashDocument :: "Store \<Rightarrow> id \<Rightarrow> time \<Rightarrow> unit result \<times> Store" where
  "mem_TrashDocument s docID now =
     (case documents s docID of
        None \<Rightarrow> (Inl ErrNotFound, s)
      | Some d \<Rightarrow> (Inr (), s\<lparr>documents := (documents s)(docID \<mapsto> d\<lparr>doc_DeletedAt := Some now\<rparr>)\<rparr>))"

definition mem_RestoreDocument :: "Store \<Rightarrow> id \<Rightarrow> unit result \<times> Store" where
  "mem_RestoreDocument s docID =
     (case documents s docID of
        None \<Rightarrow> (Inl ErrNotFound, s)
      | Some d \<Rightarrow> (Inr (), s\<lparr>documents := (documents s)(docID \<mapsto> d\<lparr>doc_DeletedAt := None\<rparr>)\<rparr>))"

section \<open>Collaboration\<close>

definition mem_LookupCollab :: "Store \<Rightarrow> id \<Rightarrow> (string \<times> id) result" where
  "mem_LookupCollab s cid =
     (case collabIndex s cid of None \<Rightarrow> Inl ErrNotFound | Some ref \<Rightarrow> Inr (cr_kind ref, cr_id ref))"

definition mem_CreateTicket :: "Store \<Rightarrow> id \<Rightarrow> string \<Rightarrow> id \<Rightarrow> bool \<Rightarrow> time \<Rightarrow> CollabTicket \<times> Store" where
  "mem_CreateTicket s nid sub cid readOnly now =
     (let t = \<lparr>ct_ID = nid, ct_Sub = sub, ct_CollabDocumentID = cid, ct_ReadOnly = readOnly,
               ct_ExpiresAt = now + CollabTicketTTL\<rparr>
      in (t, s\<lparr>tickets := (tickets s)(nid \<mapsto> t)\<rparr>))"

definition mem_GetTicket :: "Store \<Rightarrow> id \<Rightarrow> CollabTicket result" where
  "mem_GetTicket s ticketID = (case tickets s ticketID of None \<Rightarrow> Inl ErrNotFound | Some t \<Rightarrow> Inr t)"

definition mem_ApplyCollabSnapshot :: "Store \<Rightarrow> id \<Rightarrow> string \<Rightarrow> string \<Rightarrow> time \<Rightarrow> unit result \<times> Store" where
  "mem_ApplyCollabSnapshot s cid plaintext editorSub now =
     (case collabIndex s cid of
        None \<Rightarrow> (Inl ErrNotFound, s)
      | Some ref \<Rightarrow>
          (if cr_kind ref = ''page'' then
             (case pages s (cr_id ref) of
                None \<Rightarrow> (Inl ErrNotFound, s)
              | Some p \<Rightarrow>
                  (Inr (), s\<lparr>pages := (pages s)(cr_id ref \<mapsto> p\<lparr>pg_Body := plaintext, pg_UpdatedAt := now\<rparr>)\<rparr>))
           else if cr_kind ref = ''document'' then
             (case documents s (cr_id ref) of
                None \<Rightarrow> (Inl ErrNotFound, s)
              | Some d \<Rightarrow>
                  (Inr (), s\<lparr>documents := (documents s)(cr_id ref \<mapsto>
                     d\<lparr>doc_Body := plaintext, doc_UpdatedAt := now, doc_LastEditorSub := editorSub\<rparr>)\<rparr>))
           else (Inl ErrNotFound, s)))"

lemmas mem_docs_defs [op_defs] =
  mem_CreateDocument_def mem_GetDocument_def mem_UpdateDocumentTitle_def mem_TrashDocument_def
  mem_RestoreDocument_def mem_LookupCollab_def mem_CreateTicket_def mem_GetTicket_def
  mem_ApplyCollabSnapshot_def

end
