(* ===== verification/SvcDocs.thy ===== *)
theory SvcDocs
  imports SvcPages MemDocs
begin

text \<open>
  \<open>service/workspace.go\<close>: documents, the tickets with which a browser opens a collaboration room,
  and the two calls of the collaboration server, which reads the text of a room and writes it back.
  \<open>ulid\<close> is the third-party \<open>ulid.Parse\<close> as a test.
\<close>

section \<open>Documents\<close>

definition svc_CreateDocument ::
  "Store \<Rightarrow> id \<Rightarrow> id \<Rightarrow> string \<Rightarrow> id \<Rightarrow> string \<Rightarrow> string \<Rightarrow> time \<Rightarrow> Document result \<times> Store" where
  "svc_CreateDocument s nid cid sub wsID title0 body now =
     guard_ok (svc_requireWrite s wsID sub) s (\<lambda>_.
       let title = TrimSpace title0 in
       if title = [] \<or> length title > MaxPageTitle then (Inl ErrInvalid, s)
       else if length body > MaxPageBody then (Inl ErrInvalid, s)
       else mem_CreateDocument s nid cid wsID title body now)"

definition svc_ListDocuments :: "id list \<Rightarrow> Store \<Rightarrow> string \<Rightarrow> id \<Rightarrow> Document list result" where
  "svc_ListDocuments ks s sub wsID =
     read_ok (svc_requireRead s wsID sub) (\<lambda>_.
     read_ok (mem_ListDocuments ks s wsID) (\<lambda>ds. Inr (filter (\<lambda>d. doc_DeletedAt d = None) ds)))"

text \<open>A caller who may not write gets an empty list; another error is passed on.\<close>

definition svc_ListTrashedDocuments :: "id list \<Rightarrow> Store \<Rightarrow> string \<Rightarrow> id \<Rightarrow> Document list result" where
  "svc_ListTrashedDocuments ks s sub wsID =
     (case svc_requireWrite s wsID sub of
        Inl e \<Rightarrow> (if e = ErrForbidden then Inr [] else Inl e)
      | Inr _ \<Rightarrow> read_ok (mem_ListDocuments ks s wsID) (\<lambda>ds. Inr (filter (\<lambda>d. doc_DeletedAt d \<noteq> None) ds)))"

definition svc_GetDocument :: "Store \<Rightarrow> string \<Rightarrow> id \<Rightarrow> Document result" where
  "svc_GetDocument s sub docID =
     read_ok (mem_GetDocument s docID) (\<lambda>doc.
     read_ok (svc_requireRead s (doc_WorkspaceID doc) sub) (\<lambda>_.
       if doc_DeletedAt doc \<noteq> None then
         read_ok (mem_MemberRole s (doc_WorkspaceID doc) sub) (\<lambda>role.
           if role = RoleGuest then Inl ErrNotFound else Inr doc)
       else Inr doc))"

definition svc_UpdateDocumentTitle :: "Store \<Rightarrow> string \<Rightarrow> id \<Rightarrow> string \<Rightarrow> time \<Rightarrow> Document result \<times> Store" where
  "svc_UpdateDocumentTitle s sub docID title0 now =
     guard_ok (mem_GetDocument s docID) s (\<lambda>doc.
     guard_ok (svc_requireWrite s (doc_WorkspaceID doc) sub) s (\<lambda>_.
       let title = TrimSpace title0 in
       if title = [] \<or> length title > MaxPageTitle then (Inl ErrInvalid, s)
       else mem_UpdateDocumentTitle s docID title now))"

definition svc_TrashDocument :: "Store \<Rightarrow> string \<Rightarrow> id \<Rightarrow> time \<Rightarrow> unit result \<times> Store" where
  "svc_TrashDocument s sub docID now =
     guard_ok (mem_GetDocument s docID) s (\<lambda>doc.
     guard_ok (svc_requireWrite s (doc_WorkspaceID doc) sub) s (\<lambda>_. mem_TrashDocument s docID now))"

definition svc_RestoreDocument :: "Store \<Rightarrow> string \<Rightarrow> id \<Rightarrow> unit result \<times> Store" where
  "svc_RestoreDocument s sub docID =
     guard_ok (mem_GetDocument s docID) s (\<lambda>doc.
     guard_ok (svc_requireWrite s (doc_WorkspaceID doc) sub) s (\<lambda>_. mem_RestoreDocument s docID))"

section \<open>Collaboration tickets\<close>

record IssuedTicket =
  it_Ticket :: id
  it_CollabDocumentID :: id
  it_ReadOnly :: bool
  it_ExpiresAt :: time

text \<open>The \<open>switch\<close> on the kind of the room: may the subject open it, and only to read?\<close>

definition collab_read_only :: "id list \<Rightarrow> Store \<Rightarrow> string \<Rightarrow> string \<Rightarrow> id \<Rightarrow> bool result" where
  "collab_read_only ks s sub kind target =
     (if kind = ''page'' then
        read_ok (svc_GetPage ks s sub target) (\<lambda>page.
        read_ok (mem_MemberRole s (pg_WorkspaceID page) sub) (\<lambda>role. Inr (role = RoleGuest)))
      else if kind = ''document'' then
        read_ok (svc_GetDocument s sub target) (\<lambda>doc.
        read_ok (mem_MemberRole s (doc_WorkspaceID doc) sub) (\<lambda>role. Inr (\<not> RoleAtLeast role RoleMember)))
      else Inl ErrNotFound)"

definition svc_IssueCollabTicket ::
  "(string \<Rightarrow> bool) \<Rightarrow> id list \<Rightarrow> Store \<Rightarrow> id \<Rightarrow> string \<Rightarrow> id \<Rightarrow> time \<Rightarrow> IssuedTicket result \<times> Store" where
  "svc_IssueCollabTicket ulid ks s nid sub cid now =
     (if \<not> ValidCollabRoom ulid cid then (Inl ErrInvalid, s)
      else guard_ok (mem_LookupCollab s cid) s (\<lambda>(kind, target).
        guard_ok (collab_read_only ks s sub kind target) s (\<lambda>readOnly.
          let (t, s1) = mem_CreateTicket s nid sub cid readOnly now in
          (Inr \<lparr>it_Ticket = ct_ID t, it_CollabDocumentID = ct_CollabDocumentID t,
                it_ReadOnly = ct_ReadOnly t, it_ExpiresAt = ct_ExpiresAt t\<rparr>, s1))))"

definition svc_AuthorizeCollab :: "(string \<Rightarrow> bool) \<Rightarrow> Store \<Rightarrow> id \<Rightarrow> id \<Rightarrow> time \<Rightarrow> CollabAuth result" where
  "svc_AuthorizeCollab ulid s ticketID documentName now =
     (if \<not> ValidCollabRoom ulid documentName then Inl ErrInvalid
      else (case mem_GetTicket s ticketID of
              Inl _ \<Rightarrow> Inl ErrUnauthorized
            | Inr t \<Rightarrow>
                (if \<not> now < ct_ExpiresAt t then Inl ErrUnauthorized
                 else if ct_CollabDocumentID t \<noteq> documentName then Inl ErrForbidden
                 else Inr \<lparr>cau_Sub = ct_Sub t, cau_CollabDocumentID = ct_CollabDocumentID t,
                           cau_ReadOnly = ct_ReadOnly t\<rparr>)))"

section \<open>The text of a room\<close>

definition svc_CollabPlaintext :: "(string \<Rightarrow> bool) \<Rightarrow> bool \<Rightarrow> Store \<Rightarrow> id \<Rightarrow> string result" where
  "svc_CollabPlaintext ulid tenant s cid =
     (if \<not> ValidCollabRoom ulid cid then Inl ErrInvalid
      else let st = svc_Unscoped tenant s in
        read_ok (mem_LookupCollab st cid) (\<lambda>(kind, target).
          if kind = ''page'' then read_ok (mem_GetPage st target) (\<lambda>p. Inr (pg_Body p))
          else if kind = ''document'' then read_ok (mem_GetDocument st target) (\<lambda>d. Inr (doc_Body d))
          else Inl ErrNotFound))"

text \<open>The error of \<open>AppendPageVersionIfChanged\<close> is dropped, as in the code.\<close>

definition svc_ApplyCollabSnapshot ::
  "(string \<Rightarrow> bool) \<Rightarrow> bool \<Rightarrow> Store \<Rightarrow> id \<Rightarrow> string \<Rightarrow> string \<Rightarrow> time \<Rightarrow> time \<Rightarrow> unit result \<times> Store" where
  "svc_ApplyCollabSnapshot ulid tenant s cid plaintext editorSub now now2 =
     (if \<not> ValidCollabRoom ulid cid then (Inl ErrInvalid, s)
      else if length plaintext > MaxPageBody then (Inl ErrInvalid, s)
      else let st = svc_Unscoped tenant s;
               p = guard_ok (mem_LookupCollab st cid) st (\<lambda>(kind, target).
                     call_ok (mem_ApplyCollabSnapshot st cid plaintext editorSub now) (\<lambda>_ st1.
                       if kind = ''page'' then
                         guard_ok (mem_GetPage st1 target) st1 (\<lambda>page.
                           (Inr (), snd (mem_AppendPageVersionIfChanged st1 (pg_ID page) (pg_Title page)
                                           (pg_Body page) (pg_Status page) editorSub now2)))
                       else (Inr (), st1)))
           in (fst p, rejoin s (snd p)))"

section \<open>Who may do what\<close>

text \<open>The workspace of a document.\<close>

definition document_workspace :: "Store \<Rightarrow> id \<Rightarrow> id result" where
  "document_workspace s docID = read_ok (mem_GetDocument s docID) (\<lambda>d. Inr (doc_WorkspaceID d))"

interpretation create_document: gated "\<lambda>s. svc_CreateDocument s nid cid sub wsID title body now"
  "\<lambda>_. Inr wsID" sub RoleMember
  for nid cid sub wsID title body now
  by unfold_locales (auto simp: svc_CreateDocument_def svc_requireWrite_def)

interpretation update_document: gated "\<lambda>s. svc_UpdateDocumentTitle s sub k title now"
  "\<lambda>s. document_workspace s k" sub RoleMember
  for sub k title now
  by unfold_locales
    (auto simp: svc_UpdateDocumentTitle_def svc_requireWrite_def document_workspace_def mem_GetDocument_def split: option.splits)

interpretation trash_document: gated "\<lambda>s. svc_TrashDocument s sub k now" "\<lambda>s. document_workspace s k" sub RoleMember
  for sub k now
  by unfold_locales
    (auto simp: svc_TrashDocument_def svc_requireWrite_def document_workspace_def mem_GetDocument_def split: option.splits)

interpretation restore_document: gated "\<lambda>s. svc_RestoreDocument s sub k" "\<lambda>s. document_workspace s k" sub RoleMember
  for sub k
  by unfold_locales
    (auto simp: svc_RestoreDocument_def svc_requireWrite_def document_workspace_def mem_GetDocument_def split: option.splits)

end
