(* ===== verification/Pages.thy ===== *)
theory Pages
  imports SvcPages Contracts
begin

text \<open>
  The wiki component as a whole: its requests, the invariant (pages form a forest inside their
  workspace, each with a history whose last version is its content), and its preservation. Here it
  is shown that the loops along parent links have fuel enough.
\<close>

section \<open>Requests\<close>

datatype page_req =
    CreatePage id id "id list" string id id string string string time time
  | UpdatePage string id "string option" "string option" "string option" "id option" int time time
  | ArchivePage "id list" string id time
  | UnarchivePage "id list" string id
  | RestorePageVersion string id int int time time

fun exec_page :: "page_req \<Rightarrow> Store \<Rightarrow> unit result \<times> Store" where
  "exec_page (CreatePage nid cid ks sub wsID par title body st now now2) s =
     outcome (svc_CreatePage s nid cid ks sub wsID par title body st now now2)"
| "exec_page (UpdatePage sub k title body st par v now now2) s =
     outcome (unlock (svc_UpdatePage s sub k title body st par v now now2))"
| "exec_page (ArchivePage ks sub k now) s = outcome (svc_ArchivePage s ks sub k now)"
| "exec_page (UnarchivePage ks sub k) s = outcome (svc_UnarchivePage s ks sub k)"
| "exec_page (RestorePageVersion sub k n v now now2) s =
     outcome (unlock (svc_RestorePageVersion s sub k n v now now2))"

fun runtime_page :: "Store \<Rightarrow> page_req \<Rightarrow> bool" where
  "runtime_page s (CreatePage nid cid ks sub wsID par title body st now now2) \<longleftrightarrow>
     fresh s nid \<and> fresh s cid \<and> nid \<noteq> cid \<and> range_order (pages s) ks"
| "runtime_page s (ArchivePage ks sub k now) \<longleftrightarrow> range_order (pages s) ks"
| "runtime_page s (UnarchivePage ks sub k) \<longleftrightarrow> range_order (pages s) ks"
| "runtime_page s _ \<longleftrightarrow> True"

section \<open>The forest of pages\<close>

definition links :: "(id \<rightharpoonup> Page) \<Rightarrow> (id \<rightharpoonup> id)" where
  "links ps = (\<lambda>k. map_option pg_ParentID (ps k))"

lemma links_upd [simp]: "links (ps(k \<mapsto> p)) = (links ps)(k \<mapsto> pg_ParentID p)"
  by (auto simp: links_def)

lemma links_simps [simp]: "dom (links ps) = dom ps" "links ps k = None \<longleftrightarrow> ps k = None"
  by (auto simp: links_def)

lemma links_Some: "ps k = Some p \<Longrightarrow> links ps k = Some (pg_ParentID p)"
  by (simp add: links_def)

definition page_forest :: "(id \<rightharpoonup> Page) \<Rightarrow> bool" where
  "page_forest ps \<longleftrightarrow> finite (dom ps) \<and> forest (links ps) []"

lemma page_forest_root: "page_forest ps \<Longrightarrow> ps [] = None"
  by (auto simp: page_forest_def forest_def)

lemma page_depth: "page_forest ps \<Longrightarrow> ps k \<noteq> None \<Longrightarrow> \<exists>n \<le> page_count ps. depth (links ps) [] k n"
  unfolding page_forest_def page_count_def using depth_bound forest_depth by (metis links_simps)

text \<open>On a forest the walk to the root ends, and it fails exactly when it would meet the page.\<close>

lemma parent_walk_forest:
  "depth (links ps) [] cur n \<Longrightarrow> n < fuel \<Longrightarrow> ps [] = None \<Longrightarrow> (\<And>j. j \<in> seen \<Longrightarrow> \<not> leads (links ps) cur j) \<Longrightarrow>
   parent_walk fuel ps k seen cur = (if k \<noteq> [] \<and> leads (links ps) cur k then Inl ErrInvalid else Inr ())"
proof (induction arbitrary: fuel seen rule: depth.induct)
  case depth_root
  then show ?case by (cases fuel) (auto simp: leads_end)
next
  case (depth_step cur q n)
  then obtain f where fuel: "fuel = Suc f" "n < f" by (cases fuel) auto
  obtain p where p: "ps cur = Some p" "pg_ParentID p = q"
    using depth_step.hyps by (auto simp: links_def)
  have "\<not> leads (links ps) q j" if "j \<in> insert cur seen" for j
  proof (cases "j = cur")
    case True
    have "depth (links ps) [] cur (Suc n)" by (rule depth.depth_step) (use depth_step in auto)
    then show ?thesis
      using no_cycle [of "links ps" "[]" cur "Suc n" q] depth_step.hyps depth_step.prems True by simp
  next
    case False
    with that depth_step.prems depth_step.hyps show ?thesis by (auto simp: leads_step)
  qed
  then have "parent_walk f ps k (insert cur seen) q =
      (if k \<noteq> [] \<and> leads (links ps) q k then Inl ErrInvalid else Inr ())"
    using depth_step.IH [OF fuel(2) depth_step.prems(2)] by blast
  moreover have "cur \<notin> seen" using depth_step.prems(3) [of cur] by auto
  ultimately show ?case
    using depth_step.hyps p by (auto simp: fuel(1) leads_step)
qed

lemma validate_iff:
  assumes f: "page_forest (pages s)"
  shows "validateParentLocked s k wsID par =
    (if par = [] then Inr ()
     else if par = k then Inl ErrInvalid
     else case pages s par of
       None \<Rightarrow> Inl ErrNotFound
     | Some q \<Rightarrow>
         if pg_WorkspaceID q \<noteq> wsID \<or> k \<noteq> [] \<and> leads (links (pages s)) par k then Inl ErrInvalid
         else Inr ())"
proof (cases "par = [] \<or> par = k \<or> pages s par = None")
  case True
  then show ?thesis by (auto simp: validateParentLocked_def)
next
  case False
  then obtain q where q: "pages s par = Some q" by blast
  obtain n where n: "n \<le> page_count (pages s)" "depth (links (pages s)) [] par n"
    using page_depth [OF f] q by blast
  with False q obtain m where m: "n = Suc m" "depth (links (pages s)) [] (pg_ParentID q) m"
    by (auto simp: links_Some elim: depthE)
  have "\<not> leads (links (pages s)) (pg_ParentID q) par"
    using no_cycle [OF n(2)] page_forest_root [OF f] links_Some [of "pages s" par q] q by (simp add: links_def)
  then have "parent_walk (page_count (pages s) + 2) (pages s) k {par} (pg_ParentID q) =
      (if k \<noteq> [] \<and> leads (links (pages s)) (pg_ParentID q) k then Inl ErrInvalid else Inr ())"
    using n(1) m page_forest_root [OF f] by (intro parent_walk_forest [of _ _ m]) auto
  then show ?thesis
    using False q leads_step [of "links (pages s)" par "pg_ParentID q" k] links_Some [of "pages s" par q]
    by (simp add: validateParentLocked_def)
qed

text \<open>On a forest the recursion over the children finds everything below a page.\<close>

definition below :: "(id \<rightharpoonup> Page) \<Rightarrow> id \<Rightarrow> id set" where
  "below ps k = {j. ps j \<noteq> None \<and> j \<noteq> k \<and> leads (links ps) j k}"

inductive down :: "(id \<rightharpoonup> Page) \<Rightarrow> nat \<Rightarrow> id \<Rightarrow> id \<Rightarrow> bool" for ps where
  "ps j = Some p \<Longrightarrow> pg_ParentID p = k \<Longrightarrow> down ps (Suc 0) k j"
| "ps i = Some p \<Longrightarrow> pg_ParentID p = k \<Longrightarrow> down ps n i j \<Longrightarrow> down ps (Suc n) k j"

inductive_cases downE: "down ps n k j"

lemma down_append: "down ps n k j \<Longrightarrow> ps i = Some p \<Longrightarrow> pg_ParentID p = j \<Longrightarrow> down ps (Suc n) k i"
  by (induction rule: down.induct) (auto intro: down.intros)

lemma descendants_child:
  assumes "range_order ps ks" and "ps i = Some p" and "pg_ParentID p = k"
  shows "set (i # descendants fuel ks ps i) \<subseteq> set (descendants (Suc fuel) ks ps k)"
proof -
  have "i \<in> set ks" using assms by (auto simp: range_order_def)
  then have "set (case ps i of None \<Rightarrow> []
      | Some p \<Rightarrow> if pg_ParentID p = k then i # descendants fuel ks ps i else []) \<subseteq> set (descendants (Suc fuel) ks ps k)"
    by auto
  then show ?thesis using assms by simp
qed

lemma down_descendants:
  "down ps n k j \<Longrightarrow> range_order ps ks \<Longrightarrow> n \<le> fuel \<Longrightarrow> j \<in> set (descendants fuel ks ps k)"
proof (induction arbitrary: fuel rule: down.induct)
  case (1 j p k)
  then obtain f where "fuel = Suc f" by (cases fuel) auto
  with descendants_child [OF "1.prems"(1) "1.hyps"] show ?case by (auto simp del: descendants.simps)
next
  case (2 i p k n j)
  then obtain f where f: "fuel = Suc f" "n \<le> f" by (cases fuel) auto
  with "2.IH" "2.prems" have "j \<in> set (descendants f ks ps i)" by blast
  with descendants_child [OF "2.prems"(1) "2.hyps"(1,2)] f show ?case by (auto simp del: descendants.simps)
qed

lemma descendants_down: "j \<in> set (descendants fuel ks ps k) \<Longrightarrow> \<exists>n \<le> fuel. down ps n k j"
proof (induction fuel arbitrary: k)
  case (Suc fuel)
  then obtain i where "j \<in> set (case ps i of None \<Rightarrow> []
      | Some p \<Rightarrow> if pg_ParentID p = k then i # descendants fuel ks ps i else [])" by auto
  then obtain p where i: "ps i = Some p" "pg_ParentID p = k" "j = i \<or> j \<in> set (descendants fuel ks ps i)"
    by (cases "ps i") (auto split: if_splits)
  show ?case
  proof (cases "j = i")
    case True
    then have "down ps (Suc 0) k j" using i by (auto intro: down.intros)
    then show ?thesis by auto
  next
    case False
    then obtain n where "n \<le> fuel" "down ps n i j" using i Suc.IH by blast
    then have "down ps (Suc n) k j" "Suc n \<le> Suc fuel" using i by (auto intro: down.intros)
    then show ?thesis by blast
  qed
qed simp

lemma set_descendants:
  "range_order ps ks \<Longrightarrow> set (descendants fuel ks ps k) = {j. \<exists>n \<le> fuel. down ps n k j}"
  using down_descendants descendants_down by blast

lemma down_leads: "down ps n k j \<Longrightarrow> ps j \<noteq> None \<and> leads (links ps) j k"
proof (induction rule: down.induct)
  case (1 j p k)
  then show ?case by (simp add: leads_step links_Some)
next
  case (2 i p k n j)
  then show ?case using leads_append links_Some by fastforce
qed

lemma down_depth: "down ps n k j \<Longrightarrow> depth (links ps) [] k m \<Longrightarrow> ps [] = None \<Longrightarrow> depth (links ps) [] j (m + n)"
proof (induction arbitrary: m rule: down.induct)
  case (1 j p k)
  then have "depth (links ps) [] j (Suc m)" by (intro depth_step) (auto simp: links_def)
  then show ?case by simp
next
  case (2 i p k n j)
  then have "depth (links ps) [] i (Suc m)" by (intro depth_step) (auto simp: links_def)
  with "2.IH" "2.prems" show ?case by fastforce
qed

lemma leads_down: "leads (links ps) j k \<Longrightarrow> j = k \<or> (\<exists>n. down ps n k j)"
  unfolding leads_def
proof (induction rule: converse_rtrancl_induct)
  case (step a b)
  then obtain p where "ps a = Some p" "pg_ParentID p = b" by (auto simp: links_def)
  with step.IH show ?case by (auto intro: down.intros down_append)
qed simp

lemma descendants_below:
  assumes f: "page_forest (pages s)" and ks: "range_order (pages s) ks" and k: "pages s k \<noteq> None"
  shows "set (descendantPageIDsLocked ks s k) = below (pages s) k"
proof -
  have root: "pages s [] = None" by (rule page_forest_root [OF f])
  obtain m where m: "depth (links (pages s)) [] k m" using page_depth [OF f k] by blast
  have bound: "n \<le> page_count (pages s)" "j \<noteq> k" if dn: "down (pages s) n k j" for n j
  proof -
    have d: "depth (links (pages s)) [] j (m + n)" by (rule down_depth [OF dn m root])
    then obtain n' where "n' \<le> page_count (pages s)" "depth (links (pages s)) [] j n'"
      using page_depth [OF f] down_leads [OF dn] by blast
    with depth_unique [OF d] show "n \<le> page_count (pages s)" by fastforce
    have "0 < n" using dn by (cases rule: downE) auto
    then show "j \<noteq> k" using depth_unique [OF d] m by fastforce
  qed
  show ?thesis
    unfolding descendantPageIDsLocked_def set_descendants [OF ks] below_def
    using bound down_leads leads_down by blast
qed


section \<open>The invariant\<close>

definition content_ok :: "string \<Rightarrow> string \<Rightarrow> string \<Rightarrow> bool" where
  "content_ok title body status \<longleftrightarrow>
     title \<noteq> [] \<and> length title \<le> MaxPageTitle \<and> length body \<le> MaxPageBody \<and> valid_status status"

definition page_wf :: "(id \<rightharpoonup> Workspace) \<Rightarrow> (id \<rightharpoonup> Page) \<Rightarrow> id \<Rightarrow> Page \<Rightarrow> bool" where
  "page_wf W ps k p \<longleftrightarrow>
     pg_ID p = k \<and> W (pg_WorkspaceID p) \<noteq> None \<and> 1 \<le> pg_Version p \<and>
     content_ok (pg_Title p) (pg_Body p) (pg_Status p) \<and>
     (pg_ParentID p = [] \<or> (\<exists>q. ps (pg_ParentID p) = Some q \<and> pg_WorkspaceID q = pg_WorkspaceID p))"

text \<open>
  A history: at most 100 versions of the page with consecutive numbers, the last one with the
  page's content.
\<close>

definition same_content :: "PageVersion \<Rightarrow> Page \<Rightarrow> bool" where
  "same_content v p \<longleftrightarrow> pv_Title v = pg_Title p \<and> pv_Body v = pg_Body p \<and> pv_Status v = pg_Status p"

definition numbered :: "id \<Rightarrow> PageVersion list \<Rightarrow> bool" where
  "numbered k vers \<longleftrightarrow>
     (\<exists>first \<ge> 1. map pv_Number vers = map (\<lambda>i. first + int i) [0..<length vers]) \<and>
     (\<forall>v \<in> set vers. pv_PageID v = k \<and> content_ok (pv_Title v) (pv_Body v) (pv_Status v))"

definition history_ok :: "Page \<Rightarrow> PageVersion list \<Rightarrow> bool" where
  "history_ok p vers \<longleftrightarrow>
     vers \<noteq> [] \<and> length vers \<le> MaxPageVersions \<and> numbered (pg_ID p) vers \<and> same_content (last vers) p"

definition page_inv :: "Store \<Rightarrow> bool" where
  "page_inv s \<longleftrightarrow>
     page_forest (pages s) \<and>
     (\<forall>k p. pages s k = Some p \<longrightarrow> page_wf (workspaces s) (pages s) k p \<and>
        (\<exists>vers. pageVersions s k = Some vers \<and> history_ok p vers))"

lemma page_inv_New: "page_inv New"
  by (auto simp: page_inv_def page_forest_def forest_def New_def links_def)

lemma page_wf_mono: "page_wf W ps k p \<Longrightarrow> dom W \<subseteq> dom W' \<Longrightarrow> page_wf W' ps k p"
proof -
  assume wf: "page_wf W ps k p" and sub: "dom W \<subseteq> dom W'"
  then have "pg_WorkspaceID p \<in> dom W'" by (auto simp: page_wf_def)
  then show ?thesis using wf by (simp add: page_wf_def domIff)
qed

lemma page_inv_cong:
  assumes "page_part t = page_part s" and "dom (workspaces s) \<subseteq> dom (workspaces t)" and "page_inv s"
  shows "page_inv t"
proof -
  have "pages t = pages s" "pageVersions t = pageVersions s" using assms(1) by (simp_all add: page_part_def)
  then show ?thesis
    using assms(3) page_wf_mono [OF _ assms(2)] unfolding page_inv_def by simp
qed

lemma page_invD:
  assumes "page_inv s"
  shows "page_forest (pages s)"
    and "pages s k = Some p \<Longrightarrow> page_wf (workspaces s) (pages s) k p"
    and "pages s k = Some p \<Longrightarrow> \<exists>vers. pageVersions s k = Some vers \<and> history_ok p vers"
  using assms by (auto simp: page_inv_def)

text \<open>Adding a version.\<close>

lemma numbered_first: "vers \<noteq> [] \<Longrightarrow> numbered k vers \<Longrightarrow> 1 \<le> pv_Number (last vers)"
proof -
  assume ne: "vers \<noteq> []" and "numbered k vers"
  then obtain f where f: "1 \<le> f" "map pv_Number vers = map (\<lambda>i. f + int i) [0..<length vers]"
    by (auto simp: numbered_def)
  then have "map pv_Number vers ! (length vers - 1) = f + int (length vers - 1)" using ne by simp
  then show ?thesis using f(1) ne by (simp add: last_conv_nth)
qed

lemma numbered_append:
  assumes "numbered k vers" and "content_ok title body status"
  shows "numbered k (vers @ [new_version vers k title body status sub now])"
proof (cases "vers = []")
  case True
  then show ?thesis using assms(2) by (auto simp: numbered_def new_version_def)
next
  case False
  from assms(1) obtain f where f: "1 \<le> f" "map pv_Number vers = map (\<lambda>i. f + int i) [0..<length vers]"
    by (auto simp: numbered_def)
  then have "map pv_Number vers ! (length vers - 1) = f + int (length vers - 1)" using False by simp
  then have "pv_Number (last vers) = f + int (length vers - 1)" using False by (simp add: last_conv_nth)
  then have "pv_Number (new_version vers k title body status sub now) = f + int (length vers)"
    using False by (cases "length vers") (simp_all add: new_version_def Let_def)
  then show ?thesis
    using assms f False by (auto simp: numbered_def new_version_def Let_def intro!: exI [of _ f])
qed

lemma numbered_drop:
  assumes "numbered k vers"
  shows "numbered k (drop n vers)"
proof -
  from assms obtain f where f: "1 \<le> f" "map pv_Number vers = map (\<lambda>i. f + int i) [0..<length vers]"
    by (auto simp: numbered_def)
  have "map pv_Number (drop n vers) = map (\<lambda>i. (f + int n) + int i) [0..<length (drop n vers)]"
  proof (rule nth_equalityI)
    fix i assume "i < length (map pv_Number (drop n vers))"
    then have i: "n + i < length vers" by simp
    then have "pv_Number (vers ! (n + i)) = f + int (n + i)"
      using arg_cong [OF f(2), of "\<lambda>xs. xs ! (n + i)"] by simp
    then show "map pv_Number (drop n vers) ! i = map (\<lambda>i. (f + int n) + int i) [0..<length (drop n vers)] ! i"
      using i by simp
  qed simp
  moreover have "1 \<le> f + int n" using f(1) by simp
  moreover have "\<forall>v \<in> set (drop n vers). pv_PageID v = k \<and> content_ok (pv_Title v) (pv_Body v) (pv_Status v)"
    using assms set_drop_subset by (fastforce simp: numbered_def)
  ultimately show ?thesis unfolding numbered_def by blast
qed

text \<open>After the append the history ends with the content, whether a version was added or not.\<close>

lemma append_history:
  assumes "pages s k = Some p" and "get_list (pageVersions s) k = vers" and "numbered k vers"
    and "length vers \<le> MaxPageVersions" and "content_ok title body status"
  shows "\<exists>vers'. snd (mem_AppendPageVersionIfChanged s k title body status sub now) = 
      (if pageVersions s k = Some vers' then s else s\<lparr>pageVersions := (pageVersions s)(k \<mapsto> vers')\<rparr>) \<and>
    vers' \<noteq> [] \<and> length vers' \<le> MaxPageVersions \<and> numbered k vers' \<and>
    pv_Title (last vers') = title \<and> pv_Body (last vers') = body \<and> pv_Status (last vers') = status"
proof (cases "vers \<noteq> [] \<and> pv_Title (last vers) = title \<and> pv_Body (last vers) = body \<and> pv_Status (last vers) = status")
  case True
  then have "pageVersions s k = Some vers" using assms(2) by (auto simp: get_list_def split: option.splits)
  with True assms show ?thesis
    by (intro exI [of _ vers]) (simp add: mem_AppendPageVersionIfChanged_def Let_def)
next
  case False
  let ?v = "new_version vers k title body status sub now"
  let ?vers1 = "vers @ [?v]"
  let ?vers2 = "if length ?vers1 > MaxPageVersions then take_last MaxPageVersions ?vers1 else ?vers1"
  have num: "numbered k ?vers1" by (rule numbered_append [OF assms(3,5)])
  have v: "pv_Title ?v = title" "pv_Body ?v = body" "pv_Status ?v = status"
    by (simp_all add: new_version_def Let_def)
  have last: "?vers2 \<noteq> [] \<and> last ?vers2 = ?v"
    using last_take_last [of MaxPageVersions ?vers1] by (simp add: MaxPageVersions_def take_last_def)
  moreover have "numbered k (take_last MaxPageVersions ?vers1)"
    unfolding take_last_def by (rule numbered_drop [OF num])
  then have "numbered k ?vers2" using num by simp
  moreover have "length ?vers2 \<le> MaxPageVersions" by simp
  moreover have "snd (mem_AppendPageVersionIfChanged s k title body status sub now) =
      s\<lparr>pageVersions := (pageVersions s)(k \<mapsto> ?vers2)\<rparr>"
    using assms(1,2) False by (auto simp: mem_AppendPageVersionIfChanged_def Let_def)
  moreover have "s\<lparr>pageVersions := (pageVersions s)(k \<mapsto> ?vers2)\<rparr> = s" if "pageVersions s k = Some ?vers2"
    using that by (simp add: map_upd_triv)
  ultimately show ?thesis
    using v by (intro exI [of _ ?vers2]) (simp split del: if_split add: if_cancel split: if_split)
qed


lemma append_effect:
  assumes "pages s k = Some p" and "numbered k (get_list (pageVersions s) k)"
    and "length (get_list (pageVersions s) k) \<le> MaxPageVersions"
    and "content_ok (pg_Title p) (pg_Body p) (pg_Status p)" and "pg_ID p = k"
    and t: "t = snd (mem_AppendPageVersionIfChanged s k (pg_Title p) (pg_Body p) (pg_Status p) sub now)"
  shows "\<exists>vers. pages t = pages s \<and> workspaces t = workspaces s \<and> pageVersions t = (pageVersions s)(k \<mapsto> vers) \<and>
    history_ok p vers"
proof -
  obtain vers where "t = (if pageVersions s k = Some vers then s else s\<lparr>pageVersions := (pageVersions s)(k \<mapsto> vers)\<rparr>)"
    "vers \<noteq> []" "length vers \<le> MaxPageVersions" "numbered k vers" "same_content (last vers) p"
    using append_history [OF assms(1) refl assms(2,3,4), of sub now] unfolding t same_content_def by blast
  then show ?thesis
    using assms(5) by (intro exI [of _ vers]) (simp add: history_ok_def map_upd_triv)
qed

section \<open>Preservation\<close>

lemma page_inv_put:
  assumes iv: "page_inv s" and f: "page_forest ((pages s)(k \<mapsto> p))"
    and wf: "page_wf (workspaces s) ((pages s)(k \<mapsto> p)) k p"
    and ws: "\<And>p0. pages s k = Some p0 \<Longrightarrow> pg_WorkspaceID p0 = pg_WorkspaceID p"
    and hist: "history_ok p vers"
    and t: "pages t = (pages s)(k \<mapsto> p)" "workspaces t = workspaces s" "pageVersions t = (pageVersions s)(k \<mapsto> vers)"
  shows "page_inv t"
proof -
  have "page_wf (workspaces s) ((pages s)(k \<mapsto> p)) j q" if q: "pages s j = Some q" for j q
  proof -
    have "page_wf (workspaces s) (pages s) j q" by (rule page_invD(2) [OF iv q])
    then show ?thesis
      using ws by (auto simp: page_wf_def split: if_splits)
  qed
  then show ?thesis
    using f wf hist page_invD(3) [OF iv] unfolding page_inv_def t by auto
qed

lemma links_leads_dom:
  assumes "page_forest ps" and "ps k = None" and "k \<noteq> []" and "ps q \<noteq> None \<or> q = []"
  shows "\<not> leads (links ps) q k"
proof
  assume "leads (links ps) q k"
  then have "leads (links ps) q k \<Longrightarrow> False"
    using assms unfolding leads_def
  proof (induction rule: rtrancl_induct)
    case (step y z)
    then show ?case
      using forest_parent [of "links ps" "[]" y z] by (auto simp: page_forest_def)
  qed auto
  with \<open>leads (links ps) q k\<close> show False by blast
qed

lemma page_forest_put:
  assumes "page_forest ps" and "k \<noteq> []" and "pg_ParentID p = [] \<or> ps (pg_ParentID p) \<noteq> None"
    and "\<not> leads (links ps) (pg_ParentID p) k"
  shows "page_forest (ps(k \<mapsto> p))"
  using assms forest_relink [of "links ps" "[]" k "pg_ParentID p"] by (auto simp: page_forest_def)

lemma bi_svc_CreatePage:
  assumes iv: "page_inv s" and new: "fresh s nid"
  shows "page_inv (snd (svc_CreatePage s nid cid ks sub wsID par title body st0 now now2))"
proof -
  have f: "page_forest (pages s)" by (rule page_invD(1) [OF iv])
  have k: "nid \<noteq> []" "pages s nid = None" "pageVersions s nid = None"
    using new by (simp_all add: fresh_def)
  have "page_inv (snd (mem_AppendPageVersionIfChanged s1 (pg_ID page) (pg_Title page) (pg_Body page) (pg_Status page) sub now2))"
    if run: "mem_CreatePage s nid cid ks wsID par title body st now = (Inr page, s1)"
      and ok: "content_ok title body st" for st page s1
  proof -
    have valid: "validateParentLocked s [] wsID par = Inr ()" and ws: "workspaces s wsID \<noteq> None"
      using run by (auto simp: mem_CreatePage_def guard_ok_def split: if_splits sum.splits)
    have page: "pg_ID page = nid" "pg_ParentID page = par" "pg_WorkspaceID page = wsID" "pg_Version page = 1"
        "pg_Title page = title" "pg_Body page = body" "pg_Status page = st"
      and s1: "pages s1 = (pages s)(nid \<mapsto> page)" "pageVersions s1 = pageVersions s" "workspaces s1 = workspaces s"
      using run valid ws by (auto simp: mem_CreatePage_def Let_def)
    have parent: "par = [] \<or> (\<exists>q. pages s par = Some q \<and> pg_WorkspaceID q = wsID)"
      using valid unfolding validate_iff [OF f] by (auto split: if_splits option.splits)
    have "numbered nid (get_list (pageVersions s1) nid)" using k by (auto simp: s1 get_list_def numbered_def intro: exI [of _ 1])
    then obtain vers where t: "pages t = pages s1" "workspaces t = workspaces s1"
        "pageVersions t = (pageVersions s1)(nid \<mapsto> vers)" "history_ok page vers"
      if "t = snd (mem_AppendPageVersionIfChanged s1 nid (pg_Title page) (pg_Body page) (pg_Status page) sub now2)" for t
      using append_effect [of s1 nid page _ sub now2] k page s1 ok by (fastforce simp: get_list_def)
    show ?thesis
    proof (rule page_inv_put [OF iv])
      show "page_forest ((pages s)(nid \<mapsto> page))"
        by (rule page_forest_put [OF f]) (use k parent page links_leads_dom [OF f k(2,1)] in auto)
      show "page_wf (workspaces s) ((pages s)(nid \<mapsto> page)) nid page"
        using parent page ws ok k by (auto simp: page_wf_def)
    qed (use k t page s1 in auto)
  qed
  note created = this
  define st where "st = (if st0 = [] then PageStatusDraft else st0)"
  obtain r s1 where run: "mem_CreatePage s nid cid ks wsID par title body st now = (r, s1)" by fastforce
  show ?thesis
  proof (cases r)
    case (Inl e)
    with run have "s1 = s" by (auto simp: mem_CreatePage_def Let_def guard_ok_def split: if_splits sum.splits)
    with iv run Inl show ?thesis
      unfolding svc_CreatePage_def Let_def st_def [symmetric] by (intro guard_ok_inv [where P = page_inv]) simp_all
  next
    case (Inr page)
    with iv run created [of st page s1] show ?thesis
      unfolding svc_CreatePage_def Let_def st_def [symmetric] by (intro guard_ok_inv [where P = page_inv]) (simp_all add: content_ok_def)
  qed
qed

text \<open>A successful update of a page, spelled out.\<close>

definition given :: "'a option \<Rightarrow> 'a \<Rightarrow> 'a" where
  "given x d = (case x of None \<Rightarrow> d | Some y \<Rightarrow> y)"

lemma given_simps [simp]: "given None d = d" "given (Some y) d = y"
  by (simp_all add: given_def)

definition updated_page :: "Page \<Rightarrow> string option \<Rightarrow> string option \<Rightarrow> string option \<Rightarrow> id option \<Rightarrow> time \<Rightarrow> Page" where
  "updated_page p title body status par now =
     p\<lparr>pg_ParentID := given par (pg_ParentID p), pg_Title := given title (pg_Title p),
       pg_Body := given body (pg_Body p), pg_Status := given status (pg_Status p),
       pg_Version := pg_Version p + 1, pg_UpdatedAt := now\<rparr>"

lemma UpdatePage_eq:
  assumes "pages s k = Some p" and "pg_Version p = v"
  shows "mem_UpdatePage s k title body status par v now =
    guard_zero zero_Page (case par of None \<Rightarrow> Inr () | Some q \<Rightarrow> validateParentLocked s k (pg_WorkspaceID p) q) s
      (\<lambda>_. (Inr (updated_page p title body status par now),
             s\<lparr>pages := (pages s)(k \<mapsto> updated_page p title body status par now)\<rparr>))"
  using assms
  by (cases par; cases title; cases body; cases status)
    (simp_all add: mem_UpdatePage_def updated_page_def Let_def)

lemma UpdatePage_cases:
  assumes "mem_UpdatePage s k title body status par v now = (r, t)"
  obtains (fail) e where "r = Inl e" and "t = s"
  | (ok) p where "pages s k = Some p" and "pg_Version p = v" and "r = Inr (updated_page p title body status par now)"
      and "t = s\<lparr>pages := (pages s)(k \<mapsto> updated_page p title body status par now)\<rparr>"
      and "\<And>q. par = Some q \<Longrightarrow> validateParentLocked s k (pg_WorkspaceID p) q = Inr ()"
proof (cases "\<exists>p. pages s k = Some p \<and> pg_Version p = v")
  case False
  then show thesis using assms fail by (auto simp: mem_UpdatePage_def split: option.splits if_splits)
next
  case True
  then obtain p where p: "pages s k = Some p" "pg_Version p = v" by blast
  show thesis
  proof (cases "case par of None \<Rightarrow> Inr () | Some q \<Rightarrow> validateParentLocked s k (pg_WorkspaceID p) q")
    case (Inl e)
    then have "r = Inl (e, zero_Page)" "t = s" using assms by (simp_all add: UpdatePage_eq [OF p])
    then show thesis by (rule fail)
  next
    case (Inr u)
    then show thesis using assms by (intro ok [OF p]) (auto simp: UpdatePage_eq [OF p])
  qed
qed

lemma updated_page_simps [simp]:
  "pg_ID (updated_page p title body status par now) = pg_ID p"
  "pg_WorkspaceID (updated_page p title body status par now) = pg_WorkspaceID p"
  "pg_ParentID (updated_page p title body status par now) = given par (pg_ParentID p)"
  "pg_Title (updated_page p title body status par now) = given title (pg_Title p)"
  "pg_Body (updated_page p title body status par now) = given body (pg_Body p)"
  "pg_Status (updated_page p title body status par now) = given status (pg_Status p)"
  "pg_Version (updated_page p title body status par now) = pg_Version p + 1"
  "pg_ArchivedAt (updated_page p title body status par now) = pg_ArchivedAt p"
  by (simp_all add: updated_page_def)

lemma bi_mem_UpdatePage:
  assumes iv: "page_inv s" and p: "pages s k = Some p"
    and valid: "\<And>q. par = Some q \<Longrightarrow> validateParentLocked s k (pg_WorkspaceID p) q = Inr ()"
    and ok: "content_ok (given title (pg_Title p)) (given body (pg_Body p)) (given status (pg_Status p))"
    and hist: "history_ok (updated_page p title body status par now) vers"
    and t: "pages t = (pages s)(k \<mapsto> updated_page p title body status par now)" "workspaces t = workspaces s"
      "pageVersions t = (pageVersions s)(k \<mapsto> vers)"
  shows "page_inv t"
proof (rule page_inv_put [OF iv _ _ _ hist t])
  let ?p = "updated_page p title body status par now"
  have f: "page_forest (pages s)" by (rule page_invD(1) [OF iv])
  have wf: "page_wf (workspaces s) (pages s) k p" by (rule page_invD(2) [OF iv p])
  have k: "k \<noteq> []" using page_forest_root [OF f] p by auto
  have parent: "given par (pg_ParentID p) = [] \<or>
      (\<exists>q. pages s (given par (pg_ParentID p)) = Some q \<and> pg_WorkspaceID q = pg_WorkspaceID p)"
    and no: "\<not> leads (links (pages s)) (given par (pg_ParentID p)) k"
  proof (atomize (full), cases par)
    case None
    obtain n where "depth (links (pages s)) [] k n" using page_depth [OF f] p by blast
    then have "\<not> leads (links (pages s)) (pg_ParentID p) k"
      using no_cycle [of "links (pages s)" "[]" k n "pg_ParentID p"] page_forest_root [OF f]
      by (simp add: links_Some [of "pages s" k p] p)
    with None wf show "(given par (pg_ParentID p) = [] \<or>
      (\<exists>q. pages s (given par (pg_ParentID p)) = Some q \<and> pg_WorkspaceID q = pg_WorkspaceID p)) \<and>
      \<not> leads (links (pages s)) (given par (pg_ParentID p)) k" by (auto simp: page_wf_def)
  next
    case (Some q)
    with valid [of q] k show "(given par (pg_ParentID p) = [] \<or>
      (\<exists>q. pages s (given par (pg_ParentID p)) = Some q \<and> pg_WorkspaceID q = pg_WorkspaceID p)) \<and>
      \<not> leads (links (pages s)) (given par (pg_ParentID p)) k"
      unfolding validate_iff [OF f]
      by (cases "q = []") (auto simp: leads_end page_forest_root [OF f] split: if_splits option.splits)
  qed
  show "page_forest ((pages s)(k \<mapsto> ?p))"
    by (rule page_forest_put [OF f k]) (use parent no in auto)
  show "page_wf (workspaces s) ((pages s)(k \<mapsto> ?p)) k ?p"
    using wf ok parent by (auto simp: page_wf_def)
  show "pg_WorkspaceID p0 = pg_WorkspaceID ?p" if "pages s k = Some p0" for p0
    using that p by simp
qed

lemma history_parts:
  "history_ok p vers \<Longrightarrow> numbered (pg_ID p) vers \<and> length vers \<le> MaxPageVersions"
  by (simp add: history_ok_def)

lemma bi_svc_UpdatePage:
  assumes iv: "page_inv s"
  shows "page_inv (snd (svc_UpdatePage s sub k title0 body status par v now now2))"
proof -
  have run: "page_inv (snd (case fst r of Inl e \<Rightarrow> (Inl e, snd r)
      | Inr page \<Rightarrow> (Inr page, if title \<noteq> None \<or> body \<noteq> None \<or> status \<noteq> None
          then snd (mem_AppendPageVersionIfChanged (snd r) (pg_ID page) (pg_Title page) (pg_Body page) (pg_Status page) sub now2)
          else snd r)))"
    if r: "r = mem_UpdatePage s k title body status par v now"
      and title: "checked_title title0 = Inr title"
      and body0: "\<not> (case body of None \<Rightarrow> False | Some b \<Rightarrow> length b > MaxPageBody)"
      and status0: "\<not> (case status of None \<Rightarrow> False | Some st \<Rightarrow> \<not> valid_status st)" for r title
  proof -
    have body: "\<And>b. body = Some b \<Longrightarrow> length b \<le> MaxPageBody" using body0 by simp
    have status: "\<And>st. status = Some st \<Longrightarrow> valid_status st" using status0 by simp
    obtain x t where xt: "mem_UpdatePage s k title body status par v now = (x, t)" by fastforce
    from xt show ?thesis
    proof (cases rule: UpdatePage_cases)
      case (fail e)
      then show ?thesis using iv by (simp add: r xt)
    next
      case (ok p)
      let ?p = "updated_page p title body status par now"
      have wf: "page_wf (workspaces s) (pages s) k p" by (rule page_invD(2) [OF iv ok(1)])
      then have id: "pg_ID p = k" by (simp add: page_wf_def)
      have content: "content_ok (pg_Title ?p) (pg_Body ?p) (pg_Status ?p)"
        using wf title body status
        by (cases title0; cases body; cases status)
          (auto simp: page_wf_def content_ok_def checked_title_def Let_def split: if_splits)
      obtain vers where vers: "pageVersions s k = Some vers" "history_ok p vers"
        using page_invD(3) [OF iv ok(1)] by blast
      have tt: "pages t = (pages s)(k \<mapsto> ?p)" "workspaces t = workspaces s" "pageVersions t = pageVersions s"
        by (simp_all add: ok(4))
      show ?thesis
      proof (cases "title \<noteq> None \<or> body \<noteq> None \<or> status \<noteq> None")
        case True
        define u where "u = snd (mem_AppendPageVersionIfChanged t k (pg_Title ?p) (pg_Body ?p) (pg_Status ?p) sub now2)"
        have pt: "pages t k = Some ?p" and vt: "get_list (pageVersions t) k = vers" and id': "pg_ID ?p = k"
          using tt vers(1) id by (simp_all add: get_list_def)
        have num: "numbered k (get_list (pageVersions t) k)" "length (get_list (pageVersions t) k) \<le> MaxPageVersions"
          using history_parts [OF vers(2)] id unfolding vt by simp_all
        obtain vers' where u: "pages u = pages t" "workspaces u = workspaces t"
            "pageVersions u = (pageVersions t)(k \<mapsto> vers')" "history_ok ?p vers'"
          using append_effect [OF pt num content id' u_def] by blast
        then have "page_inv u"
          using bi_mem_UpdatePage [OF iv ok(1), of par title body status now vers' u] ok(5) content tt by simp
        then show ?thesis using True id by (simp add: r xt ok(3) u_def)
      next
        case False
        then have "history_ok ?p vers" using vers(2) by (auto simp: history_ok_def same_content_def)
        then have "page_inv t"
          using bi_mem_UpdatePage [OF iv ok(1), of par title body status now vers t] ok(5) content tt vers(1)
          by (simp add: map_upd_triv)
        moreover have "fst r = Inr ?p" "snd r = t" by (simp_all add: r xt ok(3))
        ultimately show ?thesis using False by simp
      qed
    qed
  qed
  show ?thesis
    unfolding svc_UpdatePage_def
  proof (intro guard_zero_inv [where P = page_inv] iv, goal_cases)
    case (1 wsID u title)
    then show ?case using run [OF refl 1(3)] iv by (simp add: Let_def)
  qed
qed


text \<open>Archiving and unarchiving.\<close>

lemma set_archived_eq:
  "set_archived t ids ps j = (if j \<in> set ids then Some ((get_zero zero_Page ps j)\<lparr>pg_ArchivedAt := t\<rparr>) else ps j)"
  unfolding set_archived_def
proof (induction ids arbitrary: ps)
  case (Cons k ids)
  then show ?case by (auto simp: get_zero_def split: option.split)
qed simp

lemma set_archived_dom:
  assumes "set ids \<subseteq> dom ps"
  shows "set_archived t ids ps j = (if j \<in> set ids then map_option (\<lambda>p. p\<lparr>pg_ArchivedAt := t\<rparr>) (ps j) else ps j)"
proof (cases "j \<in> set ids")
  case True
  then obtain p where "ps j = Some p" using assms by blast
  with True show ?thesis by (simp add: set_archived_eq)
qed (simp add: set_archived_eq)

lemma bi_set_archived:
  assumes iv: "page_inv s" and sub: "set ids \<subseteq> dom (pages s)"
  shows "page_inv (s\<lparr>pages := set_archived t ids (pages s)\<rparr>)"
proof -
  let ?ps = "set_archived t ids (pages s)"
  have old: "\<exists>p0. pages s j = Some p0 \<and> p\<lparr>pg_ArchivedAt := None\<rparr> = p0\<lparr>pg_ArchivedAt := None\<rparr>"
    if "?ps j = Some p" for j p
    using that by (auto simp: set_archived_dom [OF sub] split: if_splits)
  have new: "\<exists>p. ?ps j = Some p \<and> pg_WorkspaceID p = pg_WorkspaceID p0 \<and> pg_ParentID p = pg_ParentID p0"
    if "pages s j = Some p0" for j p0
    using that by (auto simp: set_archived_dom [OF sub])
  have same: "map_option pg_ParentID (?ps j) = map_option pg_ParentID (pages s j)" for j
    by (cases "pages s j") (auto simp: set_archived_dom [OF sub])
  then have links: "links ?ps = links (pages s)" by (simp add: links_def)
  then have "dom ?ps = dom (pages s)" by (metis links_simps(1))
  then have "page_forest ?ps" using page_invD(1) [OF iv] links by (simp add: page_forest_def)
  moreover have "page_wf (workspaces s) ?ps j p \<and> (\<exists>vers. pageVersions s j = Some vers \<and> history_ok p vers)"
    if p: "?ps j = Some p" for j p
  proof -
    obtain p0 where p0: "pages s j = Some p0" "p\<lparr>pg_ArchivedAt := None\<rparr> = p0\<lparr>pg_ArchivedAt := None\<rparr>"
      using old [OF p] by blast
    then have eqs: "pg_ID p = pg_ID p0" "pg_WorkspaceID p = pg_WorkspaceID p0" "pg_ParentID p = pg_ParentID p0"
      "pg_Title p = pg_Title p0" "pg_Body p = pg_Body p0" "pg_Status p = pg_Status p0" "pg_Version p = pg_Version p0"
      by (metis Page.ext_inject Page.surjective Page.update_convs(12))+
    show ?thesis
      using page_invD(2,3) [OF iv p0(1)] new
      by (auto simp: page_wf_def history_ok_def same_content_def eqs) metis
  qed
  ultimately show ?thesis by (simp add: page_inv_def)
qed

lemma archived_ids:
  assumes "page_inv s" and "range_order (pages s) ks" and "pages s k \<noteq> None"
  shows "set (descendantPageIDsLocked ks s k @ [k]) = insert k (below (pages s) k)"
    and "set (descendantPageIDsLocked ks s k @ [k]) \<subseteq> dom (pages s)"
  using descendants_below [OF page_invD(1) [OF assms(1)] assms(2,3)] assms(3) by (auto simp: below_def)

lemma bi_mem_Archive:
  assumes "page_inv s" and "range_order (pages s) ks"
  shows "page_inv (snd (mem_ArchivePage s ks k now))" and "page_inv (snd (mem_UnarchivePage s ks k))"
  using assms bi_set_archived [OF assms(1) archived_ids(2) [OF assms]]
  by (simp_all add: mem_ArchivePage_def mem_UnarchivePage_def Let_def)

lemma bi_svc_Archive:
  assumes "page_inv s" and "range_order (pages s) ks"
  shows "page_inv (snd (svc_ArchivePage s ks sub k now))" and "page_inv (snd (svc_UnarchivePage s ks sub k))"
  unfolding svc_ArchivePage_def svc_UnarchivePage_def
  using assms bi_mem_Archive by (intro guard_ok_inv [where P = page_inv]; simp)+

lemma bi_svc_Restore:
  "page_inv s \<Longrightarrow> page_inv (snd (svc_RestorePageVersion s sub k n v now now2))"
  unfolding svc_RestorePageVersion_def Let_def
  by (intro guard_zero_inv [where P = page_inv] bi_svc_UpdatePage)

theorem exec_page_inv:
  assumes "page_inv s" and "runtime_page s r"
  shows "page_inv (snd (exec_page r s))"
  using assms by (cases r) (auto intro: bi_svc_CreatePage bi_svc_UpdatePage bi_svc_Archive bi_svc_Restore)

end
