(* ===== verification/Collab.thy ===== *)
theory Collab
  imports SvcDocs Pages Contracts
begin

text \<open>
  Documents and collaboration as a component: its requests, the invariant (every collaboration room
  belongs to exactly one page or document, and every page and document has its room), preserved by
  these requests and by those of the wiki, and the preservation of the wiki's invariant.
\<close>

section \<open>Requests\<close>

datatype collab_req =
    CreateDocument id id string id string string time
  | UpdateDocumentTitle string id string time
  | TrashDocument string id time
  | RestoreDocument string id
  | IssueCollabTicket "id list" id string id time
  | ApplyCollabSnapshot id string string time time

fun exec_collab :: "Env \<Rightarrow> collab_req \<Rightarrow> Store \<Rightarrow> unit result \<times> Store" where
  "exec_collab env (CreateDocument nid cid sub wsID title body now) s =
     outcome (svc_CreateDocument s nid cid sub wsID title body now)"
| "exec_collab env (UpdateDocumentTitle sub k title now) s = outcome (svc_UpdateDocumentTitle s sub k title now)"
| "exec_collab env (TrashDocument sub k now) s = outcome (svc_TrashDocument s sub k now)"
| "exec_collab env (RestoreDocument sub k) s = outcome (svc_RestoreDocument s sub k)"
| "exec_collab env (IssueCollabTicket ks nid sub cid now) s =
     outcome (svc_IssueCollabTicket (env_ulid env) ks s nid sub cid now)"
| "exec_collab env (ApplyCollabSnapshot cid plain editor now now2) s =
     outcome (svc_ApplyCollabSnapshot (env_ulid env) (env_tenant env) s cid plain editor now now2)"

fun runtime_collab :: "Store \<Rightarrow> collab_req \<Rightarrow> bool" where
  "runtime_collab s (CreateDocument nid cid sub wsID title body now) \<longleftrightarrow> fresh s nid \<and> fresh s cid \<and> nid \<noteq> cid"
| "runtime_collab s (IssueCollabTicket ks nid sub cid now) \<longleftrightarrow> fresh s nid \<and> range_order (pages s) ks"
| "runtime_collab s _ \<longleftrightarrow> True"

section \<open>Rooms\<close>

text \<open>
  \<open>indexed room kind m idx\<close>: the things of the map \<open>m\<close> and the rooms of this kind in the index
  correspond to each other.
\<close>

definition indexed :: "('v \<Rightarrow> id) \<Rightarrow> string \<Rightarrow> (id \<rightharpoonup> 'v) \<Rightarrow> (id \<rightharpoonup> collabRef) \<Rightarrow> bool" where
  "indexed room kind m idx \<longleftrightarrow>
     (\<forall>k v. m k = Some v \<longrightarrow> idx (room v) = Some \<lparr>cr_kind = kind, cr_id = k\<rparr>) \<and>
     (\<forall>cid ref. idx cid = Some ref \<longrightarrow> cr_kind ref = kind \<longrightarrow> (\<exists>v. m (cr_id ref) = Some v \<and> room v = cid))"

lemma indexedD:
  "indexed room kind m idx \<Longrightarrow> m k = Some v \<Longrightarrow> idx (room v) = Some \<lparr>cr_kind = kind, cr_id = k\<rparr>"
  "indexed room kind m idx \<Longrightarrow> idx cid = Some ref \<Longrightarrow> cr_kind ref = kind \<Longrightarrow> \<exists>v. m (cr_id ref) = Some v \<and> room v = cid"
  by (auto simp: indexed_def)

lemma indexed_add:
  assumes "indexed room kind m idx" and "m k = None" and "idx (room v) = None"
  shows "indexed room kind (m(k \<mapsto> v)) (idx(room v \<mapsto> \<lparr>cr_kind = kind, cr_id = k\<rparr>))"
proof -
  have "room w \<noteq> room v" if "m j = Some w" for j w using indexedD(1) [OF assms(1) that] assms(3) by auto
  moreover have "cr_id ref \<noteq> k" if "idx cid = Some ref" "cr_kind ref = kind" for cid ref
    using indexedD(2) [OF assms(1) that] assms(2) by auto
  ultimately show ?thesis
    using assms(1) unfolding indexed_def by auto
qed

lemma indexed_other:
  assumes "indexed room kind m idx" and "idx cid = None" and "kind' \<noteq> kind"
  shows "indexed room kind m (idx(cid \<mapsto> \<lparr>cr_kind = kind', cr_id = k\<rparr>))"
  using assms by (auto simp: indexed_def)

lemma indexed_same:
  assumes "\<And>k. map_option room (m' k) = map_option room (m k)"
  shows "indexed room kind m' idx = indexed room kind m idx"
proof -
  have eq: "(\<exists>v. m' k = Some v \<and> room v = c) \<longleftrightarrow> (\<exists>v. m k = Some v \<and> room v = c)" for k c
    using assms [of k] by (cases "m k"; cases "m' k") auto
  have all: "(\<forall>v. m' k = Some v \<longrightarrow> idx (room v) = R) \<longleftrightarrow> (\<forall>v. m k = Some v \<longrightarrow> idx (room v) = R)" for k R
    using assms [of k] by (cases "m k"; cases "m' k") auto
  show ?thesis unfolding indexed_def eq all ..
qed

lemma indexed_upd:
  "m k = Some v0 \<Longrightarrow> room v = room v0 \<Longrightarrow> indexed room kind (m(k \<mapsto> v)) idx = indexed room kind m idx"
  by (rule indexed_same) simp

section \<open>The invariant\<close>

definition doc_wf :: "(id \<rightharpoonup> Workspace) \<Rightarrow> id \<Rightarrow> Document \<Rightarrow> bool" where
  "doc_wf W k d \<longleftrightarrow> doc_ID d = k \<and> W (doc_WorkspaceID d) \<noteq> None \<and>
     doc_Title d \<noteq> [] \<and> length (doc_Title d) \<le> MaxPageTitle \<and> length (doc_Body d) \<le> MaxPageBody"

definition rooms_ok :: "Store \<Rightarrow> bool" where
  "rooms_ok s \<longleftrightarrow>
     indexed pg_CollabDocumentID ''page'' (pages s) (collabIndex s) \<and>
     indexed doc_CollabDocumentID ''document'' (documents s) (collabIndex s) \<and>
     (\<forall>cid ref. collabIndex s cid = Some ref \<longrightarrow> cr_kind ref = ''page'' \<or> cr_kind ref = ''document'')"

definition collab_inv :: "Store \<Rightarrow> bool" where
  "collab_inv s \<longleftrightarrow> rooms_ok s \<and>
     (\<forall>k d. documents s k = Some d \<longrightarrow> doc_wf (workspaces s) k d) \<and>
     (\<forall>k t. tickets s k = Some t \<longrightarrow> ct_ID t = k \<and> collabIndex s (ct_CollabDocumentID t) \<noteq> None)"

lemma collab_inv_New: "collab_inv New"
  by (simp add: collab_inv_def rooms_ok_def indexed_def New_def)

lemma collab_invD:
  assumes "collab_inv s"
  shows "rooms_ok s" and "documents s k = Some d \<Longrightarrow> doc_wf (workspaces s) k d"
    and "tickets s i = Some t \<Longrightarrow> ct_ID t = i" and "tickets s i = Some t \<Longrightarrow> collabIndex s (ct_CollabDocumentID t) \<noteq> None"
  using assms by (auto simp: collab_inv_def)

lemma doc_wf_mono: "doc_wf W k d \<Longrightarrow> dom W \<subseteq> dom W' \<Longrightarrow> doc_wf W' k d"
  by (auto simp: doc_wf_def)

text \<open>What keeps the invariant: the rooms of the pages and the three maps of the component.\<close>

lemma collab_inv_cong:
  assumes "collab_part t = collab_part s" and "\<And>k. map_option pg_CollabDocumentID (pages t k) = map_option pg_CollabDocumentID (pages s k)"
    and "dom (workspaces s) \<subseteq> dom (workspaces t)" and iv: "collab_inv s"
  shows "collab_inv t"
proof -
  have eqs: "documents t = documents s" "collabIndex t = collabIndex s" "tickets t = tickets s"
    using assms(1) by (simp_all add: collab_part_def)
  have "rooms_ok t"
    using collab_invD(1) [OF iv] indexed_same [of pg_CollabDocumentID, OF assms(2)]
    by (simp add: rooms_ok_def eqs)
  moreover have "doc_wf (workspaces t) k d" if "documents s k = Some d" for k d
    using doc_wf_mono [OF collab_invD(2) [OF iv that] assms(3)] .
  ultimately show ?thesis using iv by (simp add: collab_inv_def eqs)
qed

section \<open>Preservation by the requests of the component\<close>

lemma ci_document:
  assumes iv: "collab_inv s" and d0: "documents s k = Some d0" and "doc_CollabDocumentID d = doc_CollabDocumentID d0"
    and wf: "doc_wf (workspaces s) k d"
  shows "collab_inv (s\<lparr>documents := (documents s)(k \<mapsto> d)\<rparr>)"
  using iv wf indexed_upd [of "documents s" k d0 doc_CollabDocumentID d "''document''" "collabIndex s", OF d0 assms(3)]
  by (auto simp: collab_inv_def rooms_ok_def)

lemma ci_mem_CreateDocument:
  assumes iv: "collab_inv s" and new: "fresh s nid" "fresh s cid"
    and ok: "title \<noteq> []" "length title \<le> MaxPageTitle" "length body \<le> MaxPageBody"
  shows "collab_inv (snd (mem_CreateDocument s nid cid wsID title body now))"
proof (cases "workspaces s wsID")
  case None
  then show ?thesis using iv by (simp add: mem_CreateDocument_def)
next
  case (Some ws)
  have n: "documents s nid = None" "collabIndex s cid = None" using new by (simp_all add: fresh_def)
  note rooms = collab_invD(1) [OF iv, unfolded rooms_ok_def]
  define d where "d = \<lparr>doc_ID = nid, doc_WorkspaceID = wsID, doc_Title = title, doc_Body = body,
    doc_CollabDocumentID = cid, doc_LastEditorSub = [], doc_CreatedAt = now, doc_UpdatedAt = now, doc_DeletedAt = None\<rparr>"
  have cid: "doc_CollabDocumentID d = cid" by (simp add: d_def)
  have "indexed doc_CollabDocumentID ''document'' ((documents s)(nid \<mapsto> d)) ((collabIndex s)(cid \<mapsto> \<lparr>cr_kind = ''document'', cr_id = nid\<rparr>))"
    using indexed_add [of doc_CollabDocumentID "''document''" "documents s" "collabIndex s" nid d] rooms n cid by simp
  moreover have "indexed pg_CollabDocumentID ''page'' (pages s) ((collabIndex s)(cid \<mapsto> \<lparr>cr_kind = ''document'', cr_id = nid\<rparr>))"
    by (rule indexed_other) (use rooms n in auto)
  moreover have "doc_wf (workspaces s) nid d" using ok Some by (simp add: doc_wf_def d_def)
  ultimately have "collab_inv (s\<lparr>documents := (documents s)(nid \<mapsto> d),
      collabIndex := (collabIndex s)(cid \<mapsto> \<lparr>cr_kind = ''document'', cr_id = nid\<rparr>)\<rparr>)"
    using iv rooms by (auto simp: collab_inv_def rooms_ok_def)
  then show ?thesis by (simp add: mem_CreateDocument_def Some d_def Let_def)
qed

lemma ci_mem_document:
  assumes "collab_inv s"
  shows "title \<noteq> [] \<Longrightarrow> length title \<le> MaxPageTitle \<Longrightarrow> collab_inv (snd (mem_UpdateDocumentTitle s k title now))"
    and "collab_inv (snd (mem_TrashDocument s k now))" and "collab_inv (snd (mem_RestoreDocument s k))"
  using assms collab_invD(2) [OF assms, of k]
  by (auto simp: mem_UpdateDocumentTitle_def mem_TrashDocument_def mem_RestoreDocument_def Let_def doc_wf_def
      intro!: ci_document split: option.splits)

lemma ci_mem_CreateTicket:
  "collab_inv s \<Longrightarrow> collabIndex s cid \<noteq> None \<Longrightarrow> collab_inv (snd (mem_CreateTicket s nid sub cid ro now))"
  by (auto simp: collab_inv_def rooms_ok_def mem_CreateTicket_def Let_def)

lemma ci_mem_Snapshot:
  assumes iv: "collab_inv s" and ok: "length plain \<le> MaxPageBody"
  shows "collab_inv (snd (mem_ApplyCollabSnapshot s cid plain editor now))"
proof -
  have page: "collab_inv (s\<lparr>pages := (pages s)(k \<mapsto> p\<lparr>pg_Body := b, pg_UpdatedAt := u\<rparr>)\<rparr>)" if "pages s k = Some p" for k p b u
    by (rule collab_inv_cong [OF _ _ _ iv]) (simp_all add: collab_part_def that)
  show ?thesis
    using iv ok collab_invD(2) [OF iv]
    by (auto simp: mem_ApplyCollabSnapshot_def doc_wf_def intro!: ci_document page split: option.splits)
qed

lemma append_parts:
  "collab_part (snd (mem_AppendPageVersionIfChanged s k a b c d e)) = collab_part s"
  "pages (snd (mem_AppendPageVersionIfChanged s k a b c d e)) = pages s"
  "workspaces (snd (mem_AppendPageVersionIfChanged s k a b c d e)) = workspaces s"
  by (simp_all add: mem_AppendPageVersionIfChanged_def Let_def parts)

lemma ci_append: "collab_inv s \<Longrightarrow> collab_inv (snd (mem_AppendPageVersionIfChanged s k a b c d e))"
  by (rule collab_inv_cong [OF append_parts(1)]) (simp_all add: append_parts)

lemma ci_scope [simp]: "collab_inv (svc_Unscoped c s) = collab_inv s" "collab_inv (rejoin s' s) = collab_inv s"
  by (simp_all add: collab_inv_def rooms_ok_def scope_defs)

theorem exec_collab_inv:
  assumes "collab_inv s" and "runtime_collab s r"
  shows "collab_inv (snd (exec_collab env r s))"
proof (cases r)
  case (CreateDocument nid cid sub wsID title body now)
  then show ?thesis
    using assms by (auto simp: svc_CreateDocument_def Let_def intro!: guard_ok_inv [where P = collab_inv] ci_mem_CreateDocument)
next
  case (UpdateDocumentTitle sub k title now)
  then show ?thesis
    using assms by (auto simp: svc_UpdateDocumentTitle_def Let_def intro!: guard_ok_inv [where P = collab_inv] ci_mem_document)
next
  case (TrashDocument sub k now)
  then show ?thesis
    using assms by (auto simp: svc_TrashDocument_def intro!: guard_ok_inv [where P = collab_inv] ci_mem_document)
next
  case (RestoreDocument sub k)
  then show ?thesis
    using assms by (auto simp: svc_RestoreDocument_def intro!: guard_ok_inv [where P = collab_inv] ci_mem_document)
next
  case (IssueCollabTicket ks nid sub cid now)
  have "collab_inv (snd (let (t, s1) = mem_CreateTicket s nid sub cid ro now in (f t, s1)))"
    if "collabIndex s cid \<noteq> None" for ro f
    using ci_mem_CreateTicket [OF assms(1) that] by (simp add: split_beta)
  then show ?thesis
    using IssueCollabTicket assms(1)
    by (auto simp: svc_IssueCollabTicket_def mem_LookupCollab_def split: option.splits intro!: guard_ok_inv [where P = collab_inv])
next
  case (ApplyCollabSnapshot cid plain editor now now2)
  then show ?thesis
    using assms(1)
    by (auto simp: svc_ApplyCollabSnapshot_def Let_def split_beta intro!: ok_inv [where P = collab_inv] ci_append
        ci_mem_Snapshot [OF _ leI])
qed

section \<open>Preservation by the requests of the wiki\<close>

lemma ci_mem_CreatePage:
  assumes iv: "collab_inv s" and new: "fresh s nid" "fresh s cid"
  shows "collab_inv (snd (mem_CreatePage s nid cid ks wsID par title body st now))"
proof -
  have n: "pages s nid = None" "collabIndex s cid = None" using new by (simp_all add: fresh_def)
  note rooms = collab_invD(1) [OF iv, unfolded rooms_ok_def]
  have add: "collab_inv (s\<lparr>pages := (pages s)(nid \<mapsto> p),
      collabIndex := (collabIndex s)(cid \<mapsto> \<lparr>cr_kind = ''page'', cr_id = nid\<rparr>)\<rparr>)"
    if cid: "pg_CollabDocumentID p = cid" for p
  proof -
    have "indexed pg_CollabDocumentID ''page'' ((pages s)(nid \<mapsto> p)) ((collabIndex s)(cid \<mapsto> \<lparr>cr_kind = ''page'', cr_id = nid\<rparr>))"
      using indexed_add [of pg_CollabDocumentID "''page''" "pages s" "collabIndex s" nid p] rooms n cid by simp
    moreover have "indexed doc_CollabDocumentID ''document'' (documents s) ((collabIndex s)(cid \<mapsto> \<lparr>cr_kind = ''page'', cr_id = nid\<rparr>))"
      by (rule indexed_other) (use rooms n in auto)
    ultimately show ?thesis using iv rooms by (auto simp: collab_inv_def rooms_ok_def)
  qed
  show ?thesis
    unfolding mem_CreatePage_def using iv by (auto simp: Let_def intro!: guard_ok_inv [where P = collab_inv] add)
qed

lemma ci_mem_UpdatePage: "collab_inv s \<Longrightarrow> collab_inv (snd (mem_UpdatePage s k title body status par v now))"
proof -
  assume iv: "collab_inv s"
  obtain r t where rt: "mem_UpdatePage s k title body status par v now = (r, t)" by fastforce
  then have "collab_inv t"
  proof (cases rule: UpdatePage_cases)
    case (ok p)
    show ?thesis
      by (rule collab_inv_cong [OF _ _ _ iv]) (simp_all add: ok(4) parts ok(1) updated_page_def)
  qed (simp add: iv)
  with rt show ?thesis by simp
qed

lemma ci_mem_Archive:
  assumes iv: "collab_inv s" and "page_inv s" and "range_order (pages s) ks"
  shows "collab_inv (snd (mem_ArchivePage s ks k now))" and "collab_inv (snd (mem_UnarchivePage s ks k))"
proof -
  have "collab_inv (s\<lparr>pages := set_archived u (descendantPageIDsLocked ks s k @ [k]) (pages s)\<rparr>)"
    if k: "pages s k \<noteq> None" for u
  proof (rule collab_inv_cong [OF _ _ _ iv])
    fix j show "map_option pg_CollabDocumentID (pages (s\<lparr>pages := set_archived u (descendantPageIDsLocked ks s k @ [k]) (pages s)\<rparr>) j) =
        map_option pg_CollabDocumentID (pages s j)"
      using set_archived_dom [OF archived_ids(2) [OF assms(2,3) k], of u j] by (cases "pages s j") auto
  qed (simp_all add: parts)
  then show "collab_inv (snd (mem_ArchivePage s ks k now))" "collab_inv (snd (mem_UnarchivePage s ks k))"
    using iv by (auto simp: mem_ArchivePage_def mem_UnarchivePage_def Let_def)
qed

lemma ci_svc_UpdatePage: "collab_inv s \<Longrightarrow> collab_inv (snd (svc_UpdatePage s sub k title body st par v now now2))"
  unfolding svc_UpdatePage_def
  by (intro guard_zero_inv [where P = collab_inv])
    (auto simp: Let_def ci_mem_UpdatePage ci_append split: sum.split)

theorem exec_page_collab_inv:
  assumes iv: "collab_inv s" "page_inv s" and "runtime_page s r"
  shows "collab_inv (snd (exec_page r s))"
proof (cases r)
  case (CreatePage nid cid ks sub wsID par title body st now now2)
  then show ?thesis
    using assms by (auto simp: svc_CreatePage_def Let_def intro!: ok_inv [where P = collab_inv] ci_mem_CreatePage ci_append)
next
  case (UpdatePage sub k title body st par v now now2)
  then show ?thesis using iv(1) by (simp add: ci_svc_UpdatePage)
next
  case (ArchivePage ks sub k now)
  then show ?thesis
    using assms by (auto simp: svc_ArchivePage_def intro!: guard_ok_inv [where P = collab_inv] ci_mem_Archive)
next
  case (UnarchivePage ks sub k)
  then show ?thesis
    using assms by (auto simp: svc_UnarchivePage_def intro!: guard_ok_inv [where P = collab_inv] ci_mem_Archive)
next
  case (RestorePageVersion sub k n v now now2)
  then show ?thesis
    using iv(1) by (auto simp: svc_RestorePageVersion_def Let_def intro!: guard_ok_inv [where P = collab_inv] ci_svc_UpdatePage)
qed

section \<open>A snapshot keeps the wiki well formed\<close>

lemma page_inv_body:
  assumes iv: "page_inv s" and p: "pages s k = Some p" and ok: "length plain \<le> MaxPageBody"
    and q: "q = p\<lparr>pg_Body := plain, pg_UpdatedAt := u\<rparr>" and s1: "s1 = s\<lparr>pages := (pages s)(k \<mapsto> q)\<rparr>"
  shows "page_inv (snd (mem_AppendPageVersionIfChanged s1 k (pg_Title q) (pg_Body q) (pg_Status q) editor now2))"
proof -
  obtain vers where vers: "pageVersions s k = Some vers" "history_ok p vers" using page_invD(3) [OF iv p] by blast
  have wf: "page_wf (workspaces s) (pages s) k p" by (rule page_invD(2) [OF iv p])
  then have id: "pg_ID p = k" by (simp add: page_wf_def)
  have par: "pg_ParentID q = pg_ParentID p" "pg_ID q = k" "pg_WorkspaceID q = pg_WorkspaceID p" using id by (simp_all add: q)
  have content: "content_ok (pg_Title q) (pg_Body q) (pg_Status q)"
    using wf ok by (simp add: page_wf_def content_ok_def q)
  have hist: "numbered k (get_list (pageVersions s1) k)" "length (get_list (pageVersions s1) k) \<le> MaxPageVersions"
    using history_parts [OF vers(2)] id vers(1) by (simp_all add: s1 get_list_def)
  define t where "t = snd (mem_AppendPageVersionIfChanged s1 k (pg_Title q) (pg_Body q) (pg_Status q) editor now2)"
  have "pages s1 k = Some q" by (simp add: s1)
  from append_effect [OF this hist content par(2) t_def] obtain vers'
    where t: "pages t = (pages s)(k \<mapsto> q)" "workspaces t = workspaces s" "pageVersions t = (pageVersions s)(k \<mapsto> vers')"
      "history_ok q vers'" by (auto simp: s1)
  have "links ((pages s)(k \<mapsto> q)) = links (pages s)"
    using p by (simp add: par(1) map_upd_triv links_Some)
  moreover have "dom ((pages s)(k \<mapsto> q)) = dom (pages s)" using p by auto
  ultimately have "page_forest ((pages s)(k \<mapsto> q))" using page_invD(1) [OF iv] unfolding page_forest_def by simp
  moreover have "page_wf (workspaces s) ((pages s)(k \<mapsto> q)) k q"
    using wf content par p by (auto simp: page_wf_def q split: if_splits)
  ultimately have "page_inv t" by (rule page_inv_put [OF iv _ _ _ t(4) t(1-3)]) (use p par in auto)
  then show ?thesis by (simp add: t_def)
qed

lemma page_inv_same: "page_part t = page_part s \<Longrightarrow> workspaces t = workspaces s \<Longrightarrow> page_inv s \<Longrightarrow> page_inv t"
  by (rule page_inv_cong) simp_all

theorem exec_collab_page_inv:
  assumes iv: "page_inv s" and rooms: "collab_inv s"
  shows "page_inv (snd (exec_collab env r s))"
proof (cases r)
  case (ApplyCollabSnapshot cid plain editor now now2)
  let ?st = "svc_Unscoped (env_tenant env) s"
  have st: "page_inv ?st" by (rule page_inv_same [OF _ _ iv]) (simp_all add: scope_defs parts)
  have run: "page_inv (snd (call_ok (mem_ApplyCollabSnapshot ?st cid plain editor now) (\<lambda>_ st1.
      if kind = ''page'' then guard_ok (mem_GetPage st1 target) st1 (\<lambda>page. (Inr (),
        snd (mem_AppendPageVersionIfChanged st1 (pg_ID page) (pg_Title page) (pg_Body page) (pg_Status page) editor now2)))
      else (Inr (), st1))))"
    if look: "mem_LookupCollab ?st cid = Inr (kind, target)" and len: "length plain \<le> MaxPageBody" for kind target
  proof -
    obtain ref where ref: "collabIndex s cid = Some ref" "kind = cr_kind ref" "target = cr_id ref"
      using look by (auto simp: mem_LookupCollab_def split: option.splits)
    show ?thesis
    proof (cases "kind = ''page''")
      case True
      then obtain p where p: "pages s target = Some p"
        using collab_invD(1) [OF rooms] ref unfolding rooms_ok_def indexed_def by metis
      then have pst: "pages ?st target = Some p" by simp
      have "pg_ID p = target" using page_invD(2) [OF iv p] by (simp add: page_wf_def)
      then show ?thesis
        using page_inv_body [OF st pst len refl refl, of now editor now2] True ref p
        by (simp add: mem_ApplyCollabSnapshot_def mem_GetPage_def)
    next
      case False
      then show ?thesis
        using ref st page_inv_same [OF _ _ st]
        by (auto simp: mem_ApplyCollabSnapshot_def parts split: option.splits)
    qed
  qed
  have "page_inv (snd (guard_ok (mem_LookupCollab ?st cid) ?st (\<lambda>(kind, target).
      call_ok (mem_ApplyCollabSnapshot ?st cid plain editor now) (\<lambda>_ st1.
        if kind = ''page'' then guard_ok (mem_GetPage st1 target) st1 (\<lambda>page. (Inr (),
          snd (mem_AppendPageVersionIfChanged st1 (pg_ID page) (pg_Title page) (pg_Body page) (pg_Status page) editor now2)))
        else (Inr (), st1)))))" if "length plain \<le> MaxPageBody"
    using st run that by (intro guard_ok_inv [where P = page_inv]) (auto split: prod.split)
  then show ?thesis
    using iv page_inv_same [of "rejoin s t" t for t]
    by (simp add: ApplyCollabSnapshot svc_ApplyCollabSnapshot_def Let_def not_less)
qed (use iv in \<open>auto simp: svc_CreateDocument_def svc_UpdateDocumentTitle_def svc_TrashDocument_def svc_RestoreDocument_def
    svc_IssueCollabTicket_def mem_CreateDocument_def mem_UpdateDocumentTitle_def mem_TrashDocument_def mem_RestoreDocument_def
    mem_CreateTicket_def Let_def parts split: option.split intro!: guard_ok_inv [where P = page_inv] intro: page_inv_same\<close>)

end
