(* ===== verification/PageReads.thy ===== *)
theory PageReads
  imports Pages
begin

text \<open>
  Who sees which page: what \<open>GetPage\<close> answers to a guest and to the others, and what the page tree
  holds. A guest sees a page when it and every page above it is published; the tree leaves out what
  is archived or hangs below something archived.
\<close>

section \<open>A property of a page and of everything above it\<close>

definition all_up :: "(id \<rightharpoonup> Page) \<Rightarrow> id \<Rightarrow> (Page \<Rightarrow> bool) \<Rightarrow> bool" where
  "all_up ps k P \<longleftrightarrow> (\<forall>j q. leads (links ps) k j \<longrightarrow> ps j = Some q \<longrightarrow> P q)"

lemma all_up_step: "ps k = Some p \<Longrightarrow> all_up ps k P \<longleftrightarrow> P p \<and> all_up ps (pg_ParentID p) P"
  by (auto simp: all_up_def links_Some [THEN leads_step])

lemma all_up_end: "ps k = None \<Longrightarrow> all_up ps k P"
  by (auto simp: all_up_def leads_end)

lemma all_up_mono: "all_up ps k P \<Longrightarrow> (\<And>q. P q \<Longrightarrow> Q q) \<Longrightarrow> all_up ps k Q"
  by (auto simp: all_up_def)

text \<open>
  On a forest, a node keeps its way to the root in the part of the links where \<open>P\<close> holds exactly
  when \<open>P\<close> holds all the way up.
\<close>

lemma depth_restrict:
  assumes "depth (links ps) [] k n" and "ps [] = None"
  shows "(\<exists>m. depth (\<lambda>j. map_option pg_ParentID (case ps j of None \<Rightarrow> None | Some q \<Rightarrow> if P q then Some q else None)) [] k m)
    \<longleftrightarrow> all_up ps k P"
  using assms
proof (induction rule: depth.induct)
  case depth_root
  then show ?case by (auto simp: all_up_end intro: depth.depth_root)
next
  case (depth_step k q n)
  then obtain p where p: "ps k = Some p" "pg_ParentID p = q" by (auto simp: links_def)
  let ?L = "\<lambda>j. map_option pg_ParentID (case ps j of None \<Rightarrow> None | Some q \<Rightarrow> if P q then Some q else None)"
  have "(\<exists>m. depth ?L [] k m) \<longleftrightarrow> P p \<and> (\<exists>m. depth ?L [] q m)"
  proof
    assume "\<exists>m. depth ?L [] k m"
    then obtain m where "depth ?L [] k m" by blast
    then show "P p \<and> (\<exists>m. depth ?L [] q m)"
      using depth_step.hyps(1) p by (cases rule: depth.cases) (auto split: if_splits)
  next
    assume "P p \<and> (\<exists>m. depth ?L [] q m)"
    then obtain m where "P p" "depth ?L [] q m" by blast
    then have "depth ?L [] k (Suc m)" using depth_step.hyps(1) p by (intro depth.depth_step) auto
    then show "\<exists>m. depth ?L [] k m" by blast
  qed
  then show ?case using depth_step p by (simp add: all_up_step [of ps k p] p(1))
qed

text \<open>The parent links of a list of pages that were taken from the store by a test \<open>P\<close>.\<close>

definition taken :: "id list \<Rightarrow> Store \<Rightarrow> (Page \<Rightarrow> bool) \<Rightarrow> Page list" where
  "taken ks s P = filter P (range_values ks (pages s))"

lemma filter_taken: "filter Q (taken ks s P) = taken ks s (\<lambda>p. P p \<and> Q p)"
  by (simp add: taken_def conj_commute)

lemma taken_facts:
  assumes iv: "page_inv s" and ks: "range_order (pages s) ks"
  shows "p \<in> set (taken ks s P) \<longleftrightarrow> pages s (pg_ID p) = Some p \<and> P p" and "pages_wf (taken ks s P)"
proof -
  have key: "pages s k = Some p \<Longrightarrow> pg_ID p = k" for k p
    using page_invD(2) [OF iv] by (simp add: page_wf_def)
  have mem: "p \<in> set (taken ks s P) \<longleftrightarrow> pages s (pg_ID p) = Some p \<and> P p" for p
    using key by (auto simp: taken_def set_range_values_order [OF ks] ran_def)
  then show "p \<in> set (taken ks s P) \<longleftrightarrow> pages s (pg_ID p) = Some p \<and> P p" .
  have ids: "map pg_ID (range_values js (pages s)) = filter (\<lambda>k. pages s k \<noteq> None) js" for js
    using key by (induction js) (auto split: option.splits)
  have "distinct (map pg_ID (taken ks s P))"
    unfolding taken_def using ks ids [of ks] distinct_map_filter [of pg_ID "range_values ks (pages s)" P]
    by (simp add: range_order_def)
  moreover have "pg_ID p \<noteq> []" if "p \<in> set (taken ks s P)" for p
    using that mem page_forest_root [OF page_invD(1) [OF iv]] by force
  ultimately show "pages_wf (taken ks s P)" by (auto simp: pages_wf_def)
qed

lemma byID_taken:
  assumes "page_inv s" and "range_order (pages s) ks"
  shows "byID (taken ks s P) k = (case pages s k of None \<Rightarrow> None | Some p \<Rightarrow> if P p then Some p else None)"
proof -
  have key: "pages s k = Some p \<Longrightarrow> pg_ID p = k" for p
    using page_invD(2) [OF assms(1)] by (simp add: page_wf_def)
  show ?thesis
  proof (cases "\<exists>p. pages s k = Some p \<and> P p")
    case True
    then obtain p where p: "pages s k = Some p" "P p" by blast
    then have "p \<in> set (taken ks s P)" using key taken_facts(1) [OF assms] by simp
    then show ?thesis
      using byID_distinct [of "taken ks s P" p] taken_facts(2) [OF assms, of P] p key by (simp add: pages_wf_def)
  next
    case False
    then have "byID (taken ks s P) k \<noteq> Some p" for p
      using taken_facts(1) [OF assms] by (auto dest!: byID_Some)
    with False show ?thesis by (auto split: option.splits)
  qed
qed

lemma root_len_taken:
  assumes iv: "page_inv s" and ks: "range_order (pages s) ks" and k: "pages s k \<noteq> None \<or> k = []"
  shows "(\<exists>n. root_len (taken ks s P) k n) \<longleftrightarrow> all_up (pages s) k P"
proof -
  have root: "pages s [] = None" by (rule page_forest_root [OF page_invD(1) [OF iv]])
  obtain n where "depth (links (pages s)) [] k n"
    using k page_depth [OF page_invD(1) [OF iv], of k] depth_root [of "links (pages s)" "[]"] by metis
  from depth_restrict [OF this root, of P] show ?thesis
    by (simp add: page_links_def byID_taken [OF iv ks])
qed

section \<open>The filter for guests, on the pages of a workspace\<close>

lemma published_root_len:
  "published_path ps cur \<longleftrightarrow> (\<exists>n. path_len ps cur n)"
  using published_path_len path_len_published by blast

lemma path_len_depth:
  assumes "page_inv s" and "range_order (pages s) ks"
  shows "path_len (taken ks s P) cur n \<longleftrightarrow> root_len (taken ks s (\<lambda>p. P p \<and> PageVisibleToGuest p)) cur n"
proof
  show "path_len (taken ks s P) cur n \<Longrightarrow> root_len (taken ks s (\<lambda>p. P p \<and> PageVisibleToGuest p)) cur n"
    by (induction rule: path_len.induct)
      (auto simp: byID_taken [OF assms] intro!: depth_root root_len_step split: option.splits if_splits)
  show "root_len (taken ks s (\<lambda>p. P p \<and> PageVisibleToGuest p)) cur n \<Longrightarrow> path_len (taken ks s P) cur n"
    by (induction rule: depth.induct)
      (auto simp: page_links_def byID_taken [OF assms] intro!: path_len.intros split: option.splits if_splits)
qed

lemma all_up_workspace:
  assumes iv: "page_inv s" and p: "pages s k = Some p"
  shows "all_up (pages s) k (\<lambda>q. pg_WorkspaceID q = pg_WorkspaceID p)"
proof -
  obtain n where "depth (links (pages s)) [] k n"
    using page_depth [OF page_invD(1) [OF iv], of k] p by auto
  then show ?thesis
    using p
  proof (induction arbitrary: p rule: depth.induct)
    case depth_root
    then show ?case using page_forest_root [OF page_invD(1) [OF iv]] by simp
  next
    case (depth_step k q n)
    then have q: "q = pg_ParentID p" by (simp add: links_def)
    from page_invD(2) [OF iv depth_step.prems] consider "q = []"
      | q' where "pages s q = Some q'" "pg_WorkspaceID q' = pg_WorkspaceID p"
      by (auto simp: page_wf_def q)
    then show ?case
    proof cases
      case 1
      then show ?thesis
        using depth_step.prems page_forest_root [OF page_invD(1) [OF iv]]
        by (simp add: all_up_step q all_up_end)
    next
      case 2
      then show ?thesis using depth_step.IH [OF 2(1)] depth_step.prems by (simp add: all_up_step q)
    qed
  qed
qed

lemma all_up_conj: "all_up ps k (\<lambda>q. P q \<and> Q q) \<longleftrightarrow> all_up ps k P \<and> all_up ps k Q"
  by (auto simp: all_up_def)

lemma guest_pages:
  assumes iv: "page_inv s" and ks: "range_order (pages s) ks"
  shows "FilterGuestPages (taken ks s (\<lambda>p. pg_WorkspaceID p = w)) =
    taken ks s (\<lambda>p. pg_WorkspaceID p = w \<and> all_up (pages s) (pg_ID p) PageVisibleToGuest)"
proof -
  let ?list = "taken ks s (\<lambda>p. pg_WorkspaceID p = w)"
  have "PageVisibleToGuest p \<and> ancestors_visible ?list {} (pg_ParentID p) \<longleftrightarrow>
      all_up (pages s) (pg_ID p) PageVisibleToGuest" if p: "p \<in> set ?list" for p
  proof -
    have k: "pages s (pg_ID p) = Some p" "pg_WorkspaceID p = w"
      using p taken_facts(1) [OF iv ks] by auto
    have par: "pages s (pg_ParentID p) \<noteq> None \<or> pg_ParentID p = []"
      using page_invD(2) [OF iv k(1)] by (auto simp: page_wf_def)
    have "all_up (pages s) (pg_ParentID p) (\<lambda>q. pg_WorkspaceID q = w)"
      using all_up_workspace [OF iv k(1)] k by (simp add: all_up_step)
    then show ?thesis
      using root_len_taken [OF iv ks par, of "\<lambda>p. pg_WorkspaceID p = w \<and> PageVisibleToGuest p"]
      by (simp add: ancestors_visible_iff published_root_len path_len_depth [OF iv ks] all_up_conj
          all_up_step [of "pages s" "pg_ID p" p] k(1))
  qed
  then have "FilterGuestPages ?list = filter (\<lambda>p. all_up (pages s) (pg_ID p) PageVisibleToGuest) ?list"
    unfolding FilterGuestPages_def by (rule filter_cong [OF refl])
  then show ?thesis by (simp only: filter_taken)
qed

lemma ListPages_taken:
  "workspaces s w \<noteq> None \<Longrightarrow> mem_ListPages ks s w = Inr (taken ks s (\<lambda>p. pg_WorkspaceID p = w))"
  by (simp add: mem_ListPages_def taken_def)

end
