(* ===== verification/PageProps.thy ===== *)
theory PageProps
  imports PageReads Membership
begin

text \<open>
  What the wiki promises: pages never form a cycle and may be moved wherever that holds, archiving
  takes exactly the subtree, no update is lost, a restored version is the content afterwards, and a
  guest sees a page only when everything above it is published too.
\<close>

section \<open>Who may send a request\<close>

fun page_target :: "page_req \<Rightarrow> Store \<Rightarrow> id result" where
  "page_target (CreatePage nid cid ks sub wsID par title body st now now2) s = Inr wsID"
| "page_target (UpdatePage sub k title body st par v now now2) s = mem_PageWorkspaceID s k"
| "page_target (ArchivePage ks sub k now) s = mem_PageWorkspaceID s k"
| "page_target (UnarchivePage ks sub k) s = mem_PageWorkspaceID s k"
| "page_target (RestorePageVersion sub k n v now now2) s = mem_PageWorkspaceID s k"

fun page_sender :: "page_req \<Rightarrow> string" where
  "page_sender (CreatePage nid cid ks sub wsID par title body st now now2) = sub"
| "page_sender (UpdatePage sub k title body st par v now now2) = sub"
| "page_sender (ArchivePage ks sub k now) = sub"
| "page_sender (UnarchivePage ks sub k) = sub"
| "page_sender (RestorePageVersion sub k n v now now2) = sub"

text \<open>
  A request that writes a page fails and changes nothing unless its sender is an owner or a
  member of the page's workspace.
\<close>

theorem page_request_needs_member:
  assumes "\<And>w. page_target r s = Inr w \<Longrightarrow> \<not> has_role s w (page_sender r) RoleMember"
  shows "\<exists>e. exec_page r s = (Inl e, s)"
  using assms
  by (cases r)
    (auto intro!: outcome_fails intro: create_page.unauthorized_fails update_page.unauthorized_fails
      archive_page.unauthorized_fails unarchive_page.unauthorized_fails restore_page.unauthorized_fails)

theorem page_request_needs_member_witness:
  "\<exists>e. exec_page (CreatePage ''n'' ''m'' [] ''gus'' ''w'' [] ''T'' [] [] 7 8) demo_team = (Inl e, demo_team)"
  by (rule page_request_needs_member) (auto simp: has_role_def demo_team_members split: if_splits)

section \<open>An example\<close>

text \<open>The wiki of the example team: a published page with a draft below it.\<close>

definition demo_page :: Store where
  "demo_page = snd (svc_CreatePage demo_team ''p'' ''d'' [] ''ann'' ''w'' [] ''Home'' ''Hi'' PageStatusPublished 3 4)"

definition demo_wiki :: Store where
  "demo_wiki = snd (svc_CreatePage demo_page ''q'' ''e'' [''p''] ''ann'' ''w'' ''p'' ''Sub'' [] [] 5 6)"

definition demo_pg :: "id \<Rightarrow> id \<Rightarrow> id \<Rightarrow> string \<Rightarrow> string \<Rightarrow> string \<Rightarrow> time \<Rightarrow> Page" where
  "demo_pg k cid par title body st t = \<lparr>pg_ID = k, pg_WorkspaceID = ''w'', pg_ParentID = par, pg_Title = title,
     pg_Body = body, pg_Status = st, pg_Position = 0, pg_Version = 1, pg_CollabDocumentID = cid,
     pg_CreatedAt = t, pg_UpdatedAt = t, pg_ArchivedAt = None\<rparr>"

definition demo_version :: "id \<Rightarrow> string \<Rightarrow> string \<Rightarrow> string \<Rightarrow> time \<Rightarrow> PageVersion" where
  "demo_version k title body st t = \<lparr>pv_PageID = k, pv_Number = 1, pv_Title = title, pv_Status = st,
     pv_Body = body, pv_Sub = ''ann'', pv_CreatedAt = t\<rparr>"

lemma demo_team_pages: "pages demo_team = Map.empty" "pageVersions demo_team = Map.empty"
  by (simp_all add: demo_team_def op_defs New_def svc_requireRole_def Let_def demo_values)

lemmas demo_run = svc_requireWrite_def svc_requireRole_def mem_MemberRole_def RoleAtLeast_def role_order_def
  valid_status_def MaxPageTitle_def MaxPageBody_def PageStatusDraft_def PageStatusPublished_def
  mem_AppendPageVersionIfChanged_def new_version_def MaxPageVersions_def Let_def RoleOwner_def RoleMember_def RoleGuest_def

lemma demo_page_maps:
  "pages demo_page = [''p'' \<mapsto> demo_pg ''p'' ''d'' [] ''Home'' ''Hi'' PageStatusPublished 3]"
  "pageVersions demo_page = [''p'' \<mapsto> [demo_version ''p'' ''Home'' ''Hi'' PageStatusPublished 4]]"
  "members demo_page = members demo_team" "workspaces demo_page = workspaces demo_team"
  by (simp_all add: demo_page_def svc_CreatePage_def mem_CreatePage_def demo_run demo_team_pages
      demo_team_members demo_team_workspaces validateParentLocked_def demo_pg_def demo_version_def)

lemma demo_wiki_maps:
  "pages demo_wiki = [''p'' \<mapsto> demo_pg ''p'' ''d'' [] ''Home'' ''Hi'' PageStatusPublished 3,
     ''q'' \<mapsto> demo_pg ''q'' ''e'' ''p'' ''Sub'' [] PageStatusDraft 5]"
  "pageVersions demo_wiki = [''p'' \<mapsto> [demo_version ''p'' ''Home'' ''Hi'' PageStatusPublished 4],
     ''q'' \<mapsto> [demo_version ''q'' ''Sub'' [] PageStatusDraft 6]]"
  "members demo_wiki = members demo_team" "workspaces demo_wiki = workspaces demo_team"
  by (simp_all add: demo_wiki_def svc_CreatePage_def mem_CreatePage_def demo_run demo_page_maps
      demo_team_members demo_team_workspaces validateParentLocked_def demo_pg_def demo_version_def page_count_def)

lemma demo_fresh:
  "x \<notin> {[], ''w'', ''c''} \<Longrightarrow> fresh demo_team x"
  "x \<notin> {[], ''w'', ''c'', ''p'', ''d''} \<Longrightarrow> fresh demo_page x"
  "x \<notin> {[], ''w'', ''c'', ''p'', ''d'', ''q'', ''e''} \<Longrightarrow> fresh demo_wiki x"
proof -
  show a: "x \<notin> {[], ''w'', ''c''} \<Longrightarrow> fresh demo_team x" for x
    by (simp add: fresh_def demo_team_def op_defs New_def svc_requireRole_def Let_def demo_values)
  show b: "x \<notin> {[], ''w'', ''c'', ''p'', ''d''} \<Longrightarrow> fresh demo_page x" for x
    using a [of x] by (simp add: fresh_def demo_page_def svc_CreatePage_def mem_CreatePage_def
      validateParentLocked_def demo_run demo_team_pages demo_team_members demo_team_workspaces)
  show "x \<notin> {[], ''w'', ''c'', ''p'', ''d'', ''q'', ''e''} \<Longrightarrow> fresh demo_wiki x" for x
    using b [of x] by (simp add: fresh_def demo_wiki_def svc_CreatePage_def mem_CreatePage_def demo_pg_def page_count_def
      validateParentLocked_def demo_run demo_page_maps demo_team_members demo_team_workspaces)
qed

lemma demo_page_inv: "page_inv demo_page" and demo_wiki_inv: "page_inv demo_wiki"
proof -
  have "page_inv demo_team"
    by (simp add: page_inv_def demo_team_pages page_forest_def links_def forest_empty)
  then show iv: "page_inv demo_page"
    unfolding demo_page_def by (rule bi_svc_CreatePage) (simp add: demo_fresh)
  then show "page_inv demo_wiki"
    unfolding demo_wiki_def by (rule bi_svc_CreatePage) (simp add: demo_fresh)
qed

lemma demo_wiki_order: "range_order (pages demo_wiki) [''p'', ''q'']"
  by (auto simp: range_order_def demo_wiki_maps)

lemma demo_wiki_below: "below (pages demo_wiki) ''p'' = {''q''}" "below (pages demo_wiki) ''q'' = {}"
proof -
  have "leads (links (pages demo_wiki)) ''q'' ''p''" "leads (links (pages demo_wiki)) ''p'' j \<longleftrightarrow> j = ''p'' \<or> j = []"
    for j
    using leads_step [of "links (pages demo_wiki)" "''q''" "''p''"]
      leads_step [of "links (pages demo_wiki)" "''p''" "[]" j] leads_end [of "links (pages demo_wiki)" "[]" j]
    by (auto simp: links_def demo_wiki_maps demo_pg_def)
  then show "below (pages demo_wiki) ''p'' = {''q''}" "below (pages demo_wiki) ''q'' = {}"
    by (auto simp: below_def demo_wiki_maps split: if_splits)
qed

section \<open>Moving a page\<close>

text \<open>
  (C21) With the current version, a page can be given any parent in its workspace but itself and the
  pages below it, or none: the loop that looks for a cycle always ends, and it refuses exactly the
  moves that would make one.
\<close>

theorem UpdatePage_parent:
  assumes iv: "page_inv s" and p: "pages s k = Some p" and v: "pg_Version p = v"
  shows "fst (mem_UpdatePage s k title body status (Some par) v now) =
    (if par = [] \<or> (\<exists>q. pages s par = Some q \<and> pg_WorkspaceID q = pg_WorkspaceID p \<and>
          par \<noteq> k \<and> par \<notin> below (pages s) k)
     then Inr (updated_page p title body status (Some par) now)
     else Inl (if par \<noteq> k \<and> pages s par = None then ErrNotFound else ErrInvalid, zero_Page))"
proof -
  have "k \<noteq> []" using page_forest_root [OF page_invD(1) [OF iv]] p by auto
  then show ?thesis
    unfolding UpdatePage_eq [OF p v] option.case validate_iff [OF page_invD(1) [OF iv]] below_def
    using p by (auto split: option.splits)
qed

theorem UpdatePage_parent_witness:
  "fst (mem_UpdatePage demo_wiki ''p'' None None None (Some ''q'') 1 9) = Inl (ErrInvalid, zero_Page) \<and>
   (\<exists>p. fst (mem_UpdatePage demo_wiki ''q'' None None None (Some []) 1 9) = Inr p)"
  using UpdatePage_parent [OF demo_wiki_inv, of "''p''" _ 1 None None None "''q''" 9]
    UpdatePage_parent [OF demo_wiki_inv, of "''q''" _ 1 None None None "[]" 9]
  by (simp add: demo_wiki_below) (simp add: demo_wiki_maps demo_pg_def)

section \<open>Archiving\<close>

text \<open>
  (C22) Archiving a page marks the page and every page below it, and no other; unarchiving clears
  the mark on exactly the same pages.
\<close>

theorem ArchivePage_subtree:
  assumes iv: "page_inv s" and ks: "range_order (pages s) ks" and k: "pages s k \<noteq> None"
  shows "pages (snd (mem_ArchivePage s ks k now)) = (\<lambda>j.
      if j = k \<or> j \<in> below (pages s) k then map_option (\<lambda>p. p\<lparr>pg_ArchivedAt := Some now\<rparr>) (pages s j) else pages s j) \<and>
    pages (snd (mem_UnarchivePage s ks k)) = (\<lambda>j.
      if j = k \<or> j \<in> below (pages s) k then map_option (\<lambda>p. p\<lparr>pg_ArchivedAt := None\<rparr>) (pages s j) else pages s j)"
proof -
  let ?ids = "descendantPageIDsLocked ks s k @ [k]"
  have arch: "pages (snd (mem_ArchivePage s ks k now)) = set_archived (Some now) ?ids (pages s)"
    "pages (snd (mem_UnarchivePage s ks k)) = set_archived None ?ids (pages s)"
    using k by (auto simp: mem_ArchivePage_def mem_UnarchivePage_def Let_def)
  have ids: "set ?ids = insert k (below (pages s) k)" "set ?ids \<subseteq> dom (pages s)"
    using archived_ids [OF iv ks k] by blast+
  show ?thesis
    unfolding arch set_archived_dom [OF ids(2)] ids(1) by simp
qed

theorem ArchivePage_subtree_witness:
  "\<exists>p q. pages (snd (mem_ArchivePage demo_wiki [''p'', ''q''] ''p'' 9)) ''q'' = Some q \<and> pg_ArchivedAt q = Some 9 \<and>
     pages (snd (mem_ArchivePage demo_wiki [''p'', ''q''] ''q'' 9)) ''p'' = Some p \<and> pg_ArchivedAt p = None"
  using ArchivePage_subtree [OF demo_wiki_inv demo_wiki_order, of "''p''" 9]
    ArchivePage_subtree [OF demo_wiki_inv demo_wiki_order, of "''q''" 9]
  by (simp add: demo_wiki_below) (simp add: demo_wiki_maps demo_pg_def)

section \<open>No update of a page is lost\<close>

definition page_version :: "id \<Rightarrow> Store \<Rightarrow> int option" where
  "page_version k s = map_option pg_Version (pages s k)"

interpretation page_update: versioned "page_version k" "\<lambda>v s. mem_UpdatePage s k title body status par v now"
  for k title body status par now
proof unfold_locales
  show "page_version k t = Some (v + 1)" if "mem_UpdatePage s k title body status par v now = (Inr y, t)" for v s y t
    using that by (rule UpdatePage_cases) (simp_all add: page_version_def)
  show "t = s" if "mem_UpdatePage s k title body status par v now = (Inl e, t)" for v s e t
    using that by (rule UpdatePage_cases) simp_all
qed (auto simp: page_version_def mem_UpdatePage_def)

interpretation page_updates: versioned_pair "page_version k" "\<lambda>v s. mem_UpdatePage s k title body status par v now"
  "\<lambda>v s. mem_UpdatePage s k title2 body2 status2 par2 v now2"
  for k title body status par now title2 body2 status2 par2 now2
  by unfold_locales

text \<open>
  Of two updates of a page made on the same version, the second is refused with the conflict
  error and changes nothing.
\<close>

theorem page_no_lost_update:
  assumes "mem_UpdatePage s k title body status par v now = (Inr p, t)"
  shows "\<exists>x. mem_UpdatePage t k title2 body2 status2 par2 v now2 = (Inl (ErrConflict, x), t)"
  using assms by (rule page_updates.no_lost_update)

theorem page_no_lost_update_witness:
  "\<exists>x. mem_UpdatePage (snd (mem_UpdatePage demo_wiki ''q'' (Some ''A'') None None None 1 9)) ''q'' (Some ''B'') None None None 1 10 =
     (Inl (ErrConflict, x), snd (mem_UpdatePage demo_wiki ''q'' (Some ''A'') None None None 1 9))"
proof -
  have "\<exists>p. mem_UpdatePage demo_wiki ''q'' (Some ''A'') None None None 1 9 =
      (Inr p, snd (mem_UpdatePage demo_wiki ''q'' (Some ''A'') None None None 1 9))"
    by (simp add: mem_UpdatePage_def demo_wiki_maps demo_pg_def Let_def)
  then show ?thesis using page_no_lost_update by blast
qed

section \<open>Restoring a version\<close>

text \<open>
  (C24) Restoring a version with the page's current version number puts the title, body and status
  of the snapshot back, with the white space around the title removed, and the history ends with
  that content. A snapshot whose title is only white space is refused and nothing changes.
\<close>

theorem RestorePageVersion_outcome:
  assumes iv: "page_inv s" and p: "pages s k = Some p" and role: "has_role s (pg_WorkspaceID p) sub RoleMember"
    and snap: "mem_GetPageVersion s k n = Inr v"
  shows "fst (svc_RestorePageVersion s sub k n (pg_Version p) now now2) =
      (if TrimSpace (pv_Title v) = [] then Inl (ErrInvalid, zero_Page)
       else Inr (updated_page p (Some (TrimSpace (pv_Title v))) (Some (pv_Body v)) (Some (pv_Status v)) None now)) \<and>
    (TrimSpace (pv_Title v) = [] \<longrightarrow> snd (svc_RestorePageVersion s sub k n (pg_Version p) now now2) = s) \<and>
    (TrimSpace (pv_Title v) \<noteq> [] \<longrightarrow>
      (\<exists>vers. pageVersions (snd (svc_RestorePageVersion s sub k n (pg_Version p) now now2)) = (pageVersions s)(k \<mapsto> vers) \<and>
        pv_Title (last vers) = TrimSpace (pv_Title v) \<and> pv_Body (last vers) = pv_Body v \<and>
        pv_Status (last vers) = pv_Status v \<and> length vers \<le> MaxPageVersions))"
proof -
  obtain vers where vers: "pageVersions s k = Some vers" "history_ok p vers"
    using page_invD(3) [OF iv p] by blast
  have wf: "page_wf (workspaces s) (pages s) k p" by (rule page_invD(2) [OF iv p])
  then have id: "pg_ID p = k" by (simp add: page_wf_def)
  have "v \<in> set vers"
    using snap vers p by (auto simp: mem_GetPageVersion_def get_list_def find_Some_iff split: option.splits)
  then have ok: "content_ok (pv_Title v) (pv_Body v) (pv_Status v)"
    using vers(2) by (auto simp: history_ok_def numbered_def)
  then have st: "pv_Status v \<noteq> []" "valid_status (pv_Status v)" "length (pv_Body v) \<le> MaxPageBody"
    by (auto simp: content_ok_def valid_status_def PageStatusDraft_def PageStatusPublished_def)
  have gates: "mem_PageWorkspaceID s k = Inr (pg_WorkspaceID p)" "svc_requireWrite s (pg_WorkspaceID p) sub = Inr ()"
    using p role by (simp_all add: mem_PageWorkspaceID_def svc_requireWrite_def)
  show ?thesis
  proof (cases "TrimSpace (pv_Title v) = []")
    case True
    then show ?thesis
      using gates snap st by (simp add: svc_RestorePageVersion_def svc_UpdatePage_def checked_title_def Let_def)
  next
    case False
    let ?q = "updated_page p (Some (TrimSpace (pv_Title v))) (Some (pv_Body v)) (Some (pv_Status v)) None now"
    let ?t = "s\<lparr>pages := (pages s)(k \<mapsto> ?q)\<rparr>"
    let ?u = "snd (mem_AppendPageVersionIfChanged ?t k (pg_Title ?q) (pg_Body ?q) (pg_Status ?q) sub now2)"
    have title: "length (TrimSpace (pv_Title v)) \<le> MaxPageTitle"
      using TrimSpace_length [of "pv_Title v"] ok by (simp add: content_ok_def)
    have run: "svc_RestorePageVersion s sub k n (pg_Version p) now now2 = (Inr ?q, ?u)"
      using False gates snap st title id
      by (simp add: svc_RestorePageVersion_def svc_UpdatePage_def checked_title_def Let_def UpdatePage_eq [OF p refl])
    have content: "content_ok (pg_Title ?q) (pg_Body ?q) (pg_Status ?q)"
      using ok False title by (simp add: content_ok_def)
    have hist: "numbered k (get_list (pageVersions ?t) k)" "length (get_list (pageVersions ?t) k) \<le> MaxPageVersions"
      using history_parts [OF vers(2)] id vers(1) by (simp_all add: get_list_def)
    obtain vers' where "pageVersions ?u = (pageVersions ?t)(k \<mapsto> vers')" "history_ok ?q vers'"
      using append_effect [of ?t k ?q, OF _ hist content _ refl] id by auto
    then show ?thesis using False by (auto simp: run history_ok_def same_content_def)
  qed
qed

theorem RestorePageVersion_outcome_witness:
  "\<exists>p. fst (svc_RestorePageVersion demo_wiki ''ann'' ''p'' 1 1 9 10) = Inr p \<and> pg_Title p = ''Home'' \<and> pg_Version p = 2"
proof -
  have "pages demo_wiki ''p'' = Some (demo_pg ''p'' ''d'' [] ''Home'' ''Hi'' PageStatusPublished 3)"
    by (simp add: demo_wiki_maps)
  moreover have "mem_GetPageVersion demo_wiki ''p'' 1 = Inr (demo_version ''p'' ''Home'' ''Hi'' PageStatusPublished 4)"
    by (simp add: mem_GetPageVersion_def demo_wiki_maps get_list_def demo_version_def)
  moreover have "TrimSpace ''Home'' = ''Home''" by code_simp
  ultimately show ?thesis
    using RestorePageVersion_outcome [OF demo_wiki_inv, of "''p''" "demo_pg ''p'' ''d'' [] ''Home'' ''Hi'' PageStatusPublished 3"
        "''ann''" 1 "demo_version ''p'' ''Home'' ''Hi'' PageStatusPublished 4" 9 10]
    by (simp add: has_role_def demo_wiki_maps demo_team_members demo_pg_def demo_version_def demo_run)
qed

section \<open>Reading pages\<close>

lemma GetPage_eq:
  assumes iv: "page_inv s" and ks: "range_order (pages s) ks" and p: "pages s k = Some p"
    and role: "mem_MemberRole s (pg_WorkspaceID p) sub = Inr role"
  shows "svc_GetPage ks s sub k =
    (if role = RoleGuest \<and> \<not> (pg_ArchivedAt p = None \<and> all_up (pages s) k PageVisibleToGuest)
     then Inl ErrNotFound else Inr p)"
proof -
  have wf: "page_wf (workspaces s) (pages s) k p" by (rule page_invD(2) [OF iv p])
  then have id: "pg_ID p = k" and ws: "workspaces s (pg_WorkspaceID p) \<noteq> None" by (simp_all add: page_wf_def)
  let ?own = "\<lambda>q. pg_WorkspaceID q = pg_WorkspaceID p \<and> all_up (pages s) (pg_ID q) PageVisibleToGuest"
  have "(\<exists>q \<in> set (taken ks s ?own). pg_ID q = k) \<longleftrightarrow> all_up (pages s) k PageVisibleToGuest"
    unfolding taken_facts(1) [OF iv ks] Bex_def using p id by blast
  moreover have "all_up (pages s) k PageVisibleToGuest \<Longrightarrow> PageVisibleToGuest p"
    by (simp add: all_up_step [of "pages s" k p] p)
  moreover have "svc_GetPage ks s sub k =
      (if role = RoleGuest \<and> (pg_ArchivedAt p \<noteq> None \<or> \<not> PageVisibleToGuest p) then Inl ErrNotFound
       else if role = RoleGuest then if \<exists>q \<in> set (taken ks s ?own). pg_ID q = k then Inr p else Inl ErrNotFound
       else Inr p)"
    by (simp add: svc_GetPage_def mem_PageWorkspaceID_def mem_GetPage_def p role ListPages_taken [OF ws]
        guest_pages [OF iv ks])
  ultimately show ?thesis by auto
qed

text \<open>
  Reading a page gives a member of the workspace the page. A guest gets it only when it is not
  archived and it and every page above it is published; otherwise the page does not exist for them.
\<close>

theorem GetPage_outcome:
  assumes iv: "page_inv s" and ks: "range_order (pages s) ks" and p: "pages s k = Some p"
    and role: "mem_MemberRole s (pg_WorkspaceID p) sub = Inr role"
  shows "svc_GetPage ks s sub k =
    (if role = RoleGuest \<and> \<not> (pg_ArchivedAt p = None \<and> all_up (pages s) k PageVisibleToGuest)
     then Inl ErrNotFound else Inr p)"
  by (rule GetPage_eq [OF assms])

theorem GetPage_outcome_witness:
  "svc_GetPage [''p'', ''q''] demo_wiki ''gus'' ''q'' = Inl ErrNotFound \<and>
   (\<exists>p. svc_GetPage [''p'', ''q''] demo_wiki ''gus'' ''p'' = Inr p)"
proof -
  have q: "pages demo_wiki ''q'' = Some (demo_pg ''q'' ''e'' ''p'' ''Sub'' [] PageStatusDraft 5)"
    and p: "pages demo_wiki ''p'' = Some (demo_pg ''p'' ''d'' [] ''Home'' ''Hi'' PageStatusPublished 3)"
    by (simp_all add: demo_wiki_maps)
  have "pages demo_wiki [] = None" by (simp add: demo_wiki_maps)
  then have "all_up (pages demo_wiki) ''p'' PageVisibleToGuest" "\<not> all_up (pages demo_wiki) ''q'' PageVisibleToGuest"
    by (simp_all add: all_up_step [of "pages demo_wiki" "''p''", OF p] all_up_step [of "pages demo_wiki" "''q''", OF q]
        all_up_end PageVisibleToGuest_def demo_pg_def)
  moreover have "mem_MemberRole demo_wiki ''w'' ''gus'' = Inr RoleGuest"
    by (simp add: mem_MemberRole_def demo_wiki_maps demo_team_members)
  ultimately show ?thesis
    using GetPage_outcome [OF demo_wiki_inv demo_wiki_order p, of "''gus''" RoleGuest]
      GetPage_outcome [OF demo_wiki_inv demo_wiki_order q, of "''gus''" RoleGuest]
    by (simp add: demo_pg_def)
qed

text \<open>The pages of a workspace that the tree shows to a role.\<close>

definition shown :: "role \<Rightarrow> Page \<Rightarrow> bool" where
  "shown role q \<longleftrightarrow> pg_ArchivedAt q = None \<and> (role = RoleGuest \<longrightarrow> PageVisibleToGuest q)"

lemma tree_shown:
  assumes iv: "page_inv s" and ks: "range_order (pages s) ks" and ws: "workspaces s w \<noteq> None"
    and role: "mem_MemberRole s w sub = Inr role"
  shows "\<exists>ns. svc_PageTree ks s sub w = Inr ns \<and> distinct (tree_ids ns) \<and>
    set (tree_ids ns) = {k. \<exists>p. pages s k = Some p \<and> pg_WorkspaceID p = w \<and> all_up (pages s) k (shown role)}"
proof -
  let ?P = "\<lambda>p. (pg_WorkspaceID p = w \<and> (role = RoleGuest \<longrightarrow> all_up (pages s) (pg_ID p) PageVisibleToGuest)) \<and>
    pg_ArchivedAt p = None"
  have run: "svc_PageTree ks s sub w = Inr (BuildPageTree (taken ks s ?P))"
    using role by (auto simp: svc_PageTree_def ListPages_taken [OF ws] guest_pages [OF iv ks] filter_taken)
  have up: "all_up (pages s) k ?P \<longleftrightarrow> all_up (pages s) k (shown role)"
    if k: "pages s k = Some p" "pg_WorkspaceID p = w" for k p
  proof -
    have "all_up (pages s) k (\<lambda>q. pg_WorkspaceID q = w)" using all_up_workspace [OF iv k(1)] k(2) by simp
    moreover have "all_up (pages s) k (\<lambda>q. all_up (pages s) (pg_ID q) PageVisibleToGuest) \<longleftrightarrow>
        all_up (pages s) k PageVisibleToGuest"
    proof
      assume "all_up (pages s) k (\<lambda>q. all_up (pages s) (pg_ID q) PageVisibleToGuest)"
      moreover have "pg_ID p = k" using page_invD(2) [OF iv k(1)] by (simp add: page_wf_def)
      ultimately show "all_up (pages s) k PageVisibleToGuest"
        using all_up_step [of "pages s" k p "\<lambda>q. all_up (pages s) (pg_ID q) PageVisibleToGuest"] k(1) by simp
    next
      assume up: "all_up (pages s) k PageVisibleToGuest"
      show "all_up (pages s) k (\<lambda>q. all_up (pages s) (pg_ID q) PageVisibleToGuest)"
        unfolding all_up_def [of _ k]
      proof (intro allI impI)
        fix j q assume j: "leads (links (pages s)) k j" "pages s j = Some q"
        then have "pg_ID q = j" using page_invD(2) [OF iv] by (simp add: page_wf_def)
        with up j show "all_up (pages s) (pg_ID q) PageVisibleToGuest"
          by (auto simp: all_up_def intro: leads_trans)
      qed
    qed
    moreover have "shown role = (\<lambda>q. pg_ArchivedAt q = None \<and> (role = RoleGuest \<longrightarrow> PageVisibleToGuest q))"
      by (rule ext) (simp add: shown_def)
    ultimately show ?thesis
      by (cases "role = RoleGuest") (simp_all add: all_up_conj conj_commute)
  qed
  have ids: "{pg_ID p | p n. p \<in> set (taken ks s ?P) \<and> root_len (taken ks s ?P) (pg_ID p) n} =
      {k. \<exists>p. pages s k = Some p \<and> pg_WorkspaceID p = w \<and> all_up (pages s) k (shown role)}" (is "?A = ?B")
  proof (intro set_eqI iffI)
    fix k assume "k \<in> ?A"
    then obtain p n where p: "pages s k = Some p" "?P p" "root_len (taken ks s ?P) k n"
      using taken_facts(1) [OF iv ks, of _ ?P] by auto
    then have "all_up (pages s) k ?P" using root_len_taken [OF iv ks, of k ?P] by blast
    then show "k \<in> ?B" using up [OF p(1)] p by blast
  next
    fix k assume "k \<in> ?B"
    then obtain p where p: "pages s k = Some p" "pg_WorkspaceID p = w" "all_up (pages s) k (shown role)" by blast
    then have all: "all_up (pages s) k ?P" using up by blast
    then have "?P p" using p(1) by (simp add: all_up_step [of "pages s" k p])
    moreover have "pg_ID p = k" using page_invD(2) [OF iv p(1)] by (simp add: page_wf_def)
    ultimately have "p \<in> set (taken ks s ?P)" "pg_ID p = k" using taken_facts(1) [OF iv ks, of _ ?P] p(1) by auto
    moreover obtain n where "root_len (taken ks s ?P) k n"
      using all root_len_taken [OF iv ks, of k ?P] p(1) by blast
    ultimately show "k \<in> ?A" by blast
  qed
  show ?thesis
    using tree_complete [OF taken_facts(2) [OF iv ks, of ?P]] unfolding run ids by blast
qed

text \<open>
  (C25) The page tree of a workspace shows each page once, and shows to a member the pages that are
  not archived and hang below no archived page, to a guest those of them that are published all the
  way up to the root.
\<close>

theorem PageTree_content:
  assumes "page_inv s" and "range_order (pages s) ks" and "membership_inv s"
    and "mem_MemberRole s w sub = Inr role"
  shows "\<exists>ns. svc_PageTree ks s sub w = Inr ns \<and> distinct (tree_ids ns) \<and>
    set (tree_ids ns) = {k. \<exists>p. pages s k = Some p \<and> pg_WorkspaceID p = w \<and> all_up (pages s) k (shown role)}"
proof (rule tree_shown [OF assms(1,2) _ assms(4)])
  have "w \<in> dom (members s)" using assms(4) by (auto simp: mem_MemberRole_def split: option.splits)
  then have "w \<in> dom (workspaces s)" using assms(3) unfolding membership_inv_def by blast
  then show "workspaces s w \<noteq> None" by blast
qed

lemma demo_wiki_member: "membership_inv demo_wiki" "mem_MemberRole demo_wiki ''w'' ''gus'' = Inr RoleGuest"
    "mem_MemberRole demo_wiki ''w'' ''ann'' = Inr RoleOwner"
  by (auto simp: membership_inv_def demo_wiki_maps demo_team_members demo_team_workspaces member_wf_def owners_def
      mem_MemberRole_def)

lemma demo_wiki_up:
  "all_up (pages demo_wiki) ''p'' P \<longleftrightarrow> P (demo_pg ''p'' ''d'' [] ''Home'' ''Hi'' PageStatusPublished 3)"
  "all_up (pages demo_wiki) ''q'' P \<longleftrightarrow> P (demo_pg ''q'' ''e'' ''p'' ''Sub'' [] PageStatusDraft 5) \<and>
     P (demo_pg ''p'' ''d'' [] ''Home'' ''Hi'' PageStatusPublished 3)"
proof -
  have "pages demo_wiki [] = None" by (simp add: demo_wiki_maps)
  moreover have q: "pages demo_wiki ''q'' = Some (demo_pg ''q'' ''e'' ''p'' ''Sub'' [] PageStatusDraft 5)"
    and p: "pages demo_wiki ''p'' = Some (demo_pg ''p'' ''d'' [] ''Home'' ''Hi'' PageStatusPublished 3)"
    by (simp_all add: demo_wiki_maps)
  ultimately show "all_up (pages demo_wiki) ''p'' P \<longleftrightarrow> P (demo_pg ''p'' ''d'' [] ''Home'' ''Hi'' PageStatusPublished 3)"
    "all_up (pages demo_wiki) ''q'' P \<longleftrightarrow> P (demo_pg ''q'' ''e'' ''p'' ''Sub'' [] PageStatusDraft 5) \<and>
      P (demo_pg ''p'' ''d'' [] ''Home'' ''Hi'' PageStatusPublished 3)"
    by (simp_all add: all_up_step [of "pages demo_wiki" "''p''", OF p] all_up_step [of "pages demo_wiki" "''q''", OF q]
        all_up_end) (simp_all add: demo_pg_def all_up_end all_up_step [of "pages demo_wiki" "''p''", OF p])
qed

theorem PageTree_content_witness:
  "\<exists>ns. svc_PageTree [''p'', ''q''] demo_wiki ''gus'' ''w'' = Inr ns \<and> set (tree_ids ns) = {''p''}"
proof -
  have "{k. \<exists>p. pages demo_wiki k = Some p \<and> pg_WorkspaceID p = ''w'' \<and> all_up (pages demo_wiki) k (shown RoleGuest)} =
      {''p''}" (is "?A = _")
  proof (intro set_eqI iffI)
    fix k assume "k \<in> ?A"
    then have "k = ''p'' \<or> k = ''q''" "all_up (pages demo_wiki) k (shown RoleGuest)"
      by (auto simp: demo_wiki_maps split: if_splits)
    then show "k \<in> {''p''}" by (auto simp: demo_wiki_up shown_def PageVisibleToGuest_def demo_pg_def)
  next
    fix k assume "k \<in> {''p''}"
    then have k: "k = ''p''" by simp
    have "all_up (pages demo_wiki) ''p'' (shown RoleGuest)"
      by (simp add: demo_wiki_up shown_def PageVisibleToGuest_def demo_pg_def)
    then show "k \<in> ?A" unfolding k by (simp add: demo_wiki_maps demo_pg_def)
  qed
  then show ?thesis
    using PageTree_content [OF demo_wiki_inv demo_wiki_order demo_wiki_member(1,2)] by auto
qed

text \<open>
  For a member, a page is in neither the page tree nor the list of archived pages exactly when
  it is not archived itself but a page above it is: such a page can only be reached by its identifier.
\<close>

theorem unlisted_page_iff:
  assumes iv: "page_inv s" and ks: "range_order (pages s) ks"
    and role: "mem_MemberRole s (pg_WorkspaceID p) sub = Inr role" "role \<noteq> RoleGuest" and p: "pages s k = Some p"
  shows "(\<exists>ns arch. svc_PageTree ks s sub (pg_WorkspaceID p) = Inr ns \<and>
      svc_ArchivedPages ks s sub (pg_WorkspaceID p) = Inr arch \<and>
      k \<notin> set (tree_ids ns) \<and> k \<notin> pg_ID ` set arch) \<longleftrightarrow>
    pg_ArchivedAt p = None \<and>
    (\<exists>j q. leads (links (pages s)) (pg_ParentID p) j \<and> pages s j = Some q \<and> pg_ArchivedAt q \<noteq> None)"
proof -
  let ?w = "pg_WorkspaceID p"
  have wf: "page_wf (workspaces s) (pages s) k p" by (rule page_invD(2) [OF iv p])
  then have id: "pg_ID p = k" and ws: "workspaces s ?w \<noteq> None" by (simp_all add: page_wf_def)
  obtain ns where ns: "svc_PageTree ks s sub ?w = Inr ns"
    "set (tree_ids ns) = {k. \<exists>p'. pages s k = Some p' \<and> pg_WorkspaceID p' = ?w \<and> all_up (pages s) k (shown role)}"
    using tree_shown [OF iv ks ws role(1)] by blast
  have arch: "svc_ArchivedPages ks s sub ?w = Inr (taken ks s (\<lambda>q. pg_WorkspaceID q = ?w \<and> pg_ArchivedAt q \<noteq> None))"
    using role by (simp add: svc_ArchivedPages_def ListPages_taken [OF ws] filter_taken)
  have "k \<in> pg_ID ` set (taken ks s (\<lambda>q. pg_WorkspaceID q = ?w \<and> pg_ArchivedAt q \<noteq> None)) \<longleftrightarrow> pg_ArchivedAt p \<noteq> None" (is "_ \<in> pg_ID ` set ?arch \<longleftrightarrow> _")
  proof
    assume "k \<in> pg_ID ` set ?arch"
    then obtain q where "q \<in> set ?arch" "k = pg_ID q" by blast
    then show "pg_ArchivedAt p \<noteq> None" unfolding taken_facts(1) [OF iv ks] using p by simp
  next
    assume "pg_ArchivedAt p \<noteq> None"
    then have "p \<in> set ?arch" unfolding taken_facts(1) [OF iv ks] using p id by simp
    then show "k \<in> pg_ID ` set ?arch" using id by blast
  qed
  moreover have "k \<in> set (tree_ids ns) \<longleftrightarrow> pg_ArchivedAt p = None \<and> all_up (pages s) (pg_ParentID p) (shown role)"
    using ns(2) p all_up_step [of "pages s" k p "shown role"] role(2) by (simp add: shown_def)
  moreover have "all_up (pages s) (pg_ParentID p) (shown role) \<longleftrightarrow>
      \<not> (\<exists>j q. leads (links (pages s)) (pg_ParentID p) j \<and> pages s j = Some q \<and> pg_ArchivedAt q \<noteq> None)"
    using role(2) by (auto simp: all_up_def shown_def)
  ultimately show ?thesis using ns(1) arch by auto
qed

text \<open>The example: the whole wiki is archived, then only the draft below the page is taken back.\<close>

definition demo_gap :: Store where
  "demo_gap = snd (svc_UnarchivePage (snd (svc_ArchivePage demo_wiki [''p'', ''q''] ''ann'' ''p'' 9)) [''p'', ''q''] ''ann'' ''q'')"

lemma demo_gap_maps:
  "pages demo_gap = [''p'' \<mapsto> (demo_pg ''p'' ''d'' [] ''Home'' ''Hi'' PageStatusPublished 3)\<lparr>pg_ArchivedAt := Some 9\<rparr>,
     ''q'' \<mapsto> demo_pg ''q'' ''e'' ''p'' ''Sub'' [] PageStatusDraft 5]"
  "members demo_gap = members demo_wiki" "workspaces demo_gap = workspaces demo_wiki"
  by (simp_all add: demo_gap_def svc_UnarchivePage_def svc_ArchivePage_def mem_UnarchivePage_def mem_ArchivePage_def
      mem_PageWorkspaceID_def demo_run demo_wiki_maps demo_team_members set_archived_def descendantPageIDsLocked_def
      page_count_def demo_pg_def fun_upd_twist)

lemma demo_gap_inv: "page_inv demo_gap"
proof -
  have dom: "dom (pages (snd (svc_ArchivePage demo_wiki [''p'', ''q''] ''ann'' ''p'' 9))) = {''p'', ''q''}"
    by (auto simp: svc_ArchivePage_def mem_ArchivePage_def mem_PageWorkspaceID_def demo_run demo_wiki_maps
        demo_team_members set_archived_def descendantPageIDsLocked_def page_count_def demo_pg_def)
  show ?thesis
    unfolding demo_gap_def
    by (intro bi_svc_Archive demo_wiki_inv demo_wiki_order) (simp add: range_order_def dom)
qed

theorem unlisted_page_iff_witness:
  "\<exists>ns arch. svc_PageTree [''p'', ''q''] demo_gap ''ann'' ''w'' = Inr ns \<and>
     svc_ArchivedPages [''p'', ''q''] demo_gap ''ann'' ''w'' = Inr arch \<and>
     ''q'' \<notin> set (tree_ids ns) \<and> ''q'' \<notin> pg_ID ` set arch"
proof -
  let ?q = "demo_pg ''q'' ''e'' ''p'' ''Sub'' [] PageStatusDraft 5"
  have "range_order (pages demo_gap) [''p'', ''q'']" "pages demo_gap ''q'' = Some ?q"
    "mem_MemberRole demo_gap (pg_WorkspaceID ?q) ''ann'' = Inr RoleOwner"
    using demo_wiki_member
    by (auto simp: range_order_def demo_gap_maps mem_MemberRole_def demo_pg_def)
  note iff = unlisted_page_iff [OF demo_gap_inv this(1,3) _ this(2)]
  have "pages demo_gap ''p'' = Some ((demo_pg ''p'' ''d'' [] ''Home'' ''Hi'' PageStatusPublished 3)\<lparr>pg_ArchivedAt := Some 9\<rparr>)"
    by (simp add: demo_gap_maps)
  then have "\<exists>j q. leads (links (pages demo_gap)) (pg_ParentID ?q) j \<and> pages demo_gap j = Some q \<and> pg_ArchivedAt q \<noteq> None"
    by (intro exI [of _ "''p''"]) (simp add: demo_pg_def)
  then show ?thesis using iff by (simp add: demo_pg_def RoleOwner_def RoleGuest_def)
qed

end
