(* ===== verification/CollabProps.thy ===== *)
theory CollabProps
  imports Collab PageProps
begin

text \<open>
  What documents and collaboration promise: what a ticket opens, for how long and for whom to write,
  that a snapshot is read back and touches no other room, which calls of the collaboration server
  fail, and what the lists of documents hold.
\<close>

section \<open>Tickets\<close>

definition collab_check :: "(string \<Rightarrow> bool) \<Rightarrow> Store \<Rightarrow> id \<Rightarrow> id \<Rightarrow> time \<Rightarrow> (string \<times> bool) result" where
  "collab_check ulid s k r t = read_ok (svc_AuthorizeCollab ulid s k r t) (\<lambda>a. Inr (cau_Sub a, cau_ReadOnly a))"

interpretation collab_tickets: ticket_office
  "\<lambda>s k sub r ro now. snd (mem_CreateTicket s k sub r ro now)" "collab_check ulid" "ValidCollabRoom ulid"
  for ulid
  by unfold_locales
    (auto simp: collab_check_def svc_AuthorizeCollab_def mem_CreateTicket_def mem_GetTicket_def Let_def read_ok_def
      split: option.splits if_splits sum.splits)

lemma issue_effect:
  assumes "svc_IssueCollabTicket ulid ks s nid sub cid now = (Inr it, t)"
  shows "it_Ticket it = nid \<and> it_ExpiresAt it = now + CollabTicketTTL \<and>
    t = snd (mem_CreateTicket s nid sub cid (it_ReadOnly it) now) \<and> ValidCollabRoom ulid cid \<and>
    (\<exists>kind target. mem_LookupCollab s cid = Inr (kind, target) \<and> collab_read_only ks s sub kind target = Inr (it_ReadOnly it))"
  using assms
  by (auto simp: svc_IssueCollabTicket_def mem_CreateTicket_def Let_def guard_ok_def split: if_splits sum.splits)

text \<open>
  (C30) A collaboration ticket opens exactly the room it was issued for, for fifteen minutes from its
  issue, for the subject that asked and with the read-only flag it was told, whatever tickets are
  issued after it: the expired ticket is unauthorized, another room forbidden.
\<close>

theorem collab_ticket_window:
  assumes "svc_IssueCollabTicket ulid ks s nid sub cid now = (Inr it, t)" and "ValidCollabRoom ulid room"
    and "it_Ticket it \<notin> set (map fst later)"
  shows "read_ok (svc_AuthorizeCollab ulid
      (fold (\<lambda>(j, sub, r, ro, now) s. snd (mem_CreateTicket s j sub r ro now)) later t) (it_Ticket it) room u)
      (\<lambda>a. Inr (cau_Sub a, cau_ReadOnly a)) =
    (if \<not> u < now + CollabTicketTTL then Inl ErrUnauthorized
     else if room = cid then Inr (sub, it_ReadOnly it) else Inl ErrForbidden)"
proof -
  note eff = issue_effect [OF assms(1)]
  then have "it_Ticket it = nid" "t = snd (mem_CreateTicket s nid sub cid (it_ReadOnly it) now)" by blast+
  with collab_tickets.ticket_opens [OF assms(2), of nid later s sub cid "it_ReadOnly it" now u] assms(3)
  show ?thesis by (simp add: collab_check_def)
qed

section \<open>The example\<close>

text \<open>The wiki of the example with a document \<open>n\<close> in the room \<open>o\<close>, and a member with a role the program does not know.\<close>

definition demo_docs :: Store where
  "demo_docs = snd (svc_CreateDocument demo_wiki ''n'' ''o'' ''ann'' ''w'' ''Plan'' ''Text'' 7)"

definition demo_doc :: Document where
  "demo_doc = \<lparr>doc_ID = ''n'', doc_WorkspaceID = ''w'', doc_Title = ''Plan'', doc_Body = ''Text'',
     doc_CollabDocumentID = ''o'', doc_LastEditorSub = [], doc_CreatedAt = 7, doc_UpdatedAt = 7, doc_DeletedAt = None\<rparr>"

lemma demo_wiki_collab:
  "collabIndex demo_wiki = [''d'' \<mapsto> \<lparr>cr_kind = ''page'', cr_id = ''p''\<rparr>, ''e'' \<mapsto> \<lparr>cr_kind = ''page'', cr_id = ''q''\<rparr>]"
  "documents demo_wiki = Map.empty" "tickets demo_wiki = Map.empty"
proof -
  have t: "collabIndex demo_team = Map.empty" "documents demo_team = Map.empty" "tickets demo_team = Map.empty"
    by (simp_all add: demo_team_def op_defs New_def svc_requireRole_def Let_def demo_values)
  have p: "collabIndex demo_page = [''d'' \<mapsto> \<lparr>cr_kind = ''page'', cr_id = ''p''\<rparr>]"
    "documents demo_page = Map.empty" "tickets demo_page = Map.empty"
    by (simp_all add: t demo_page_def svc_CreatePage_def mem_CreatePage_def validateParentLocked_def demo_run
        demo_team_pages demo_team_members demo_team_workspaces)
  show "collabIndex demo_wiki = [''d'' \<mapsto> \<lparr>cr_kind = ''page'', cr_id = ''p''\<rparr>, ''e'' \<mapsto> \<lparr>cr_kind = ''page'', cr_id = ''q''\<rparr>]"
    "documents demo_wiki = Map.empty" "tickets demo_wiki = Map.empty"
    by (simp_all add: p demo_wiki_def svc_CreatePage_def mem_CreatePage_def validateParentLocked_def demo_run
        demo_page_maps demo_team_members demo_team_workspaces demo_pg_def page_count_def)
qed

lemma demo_title: "TrimSpace ''Plan'' = ''Plan''"
  by code_simp

lemma demo_docs_maps:
  "documents demo_docs = [''n'' \<mapsto> demo_doc]" "tickets demo_docs = Map.empty"
  "collabIndex demo_docs = [''d'' \<mapsto> \<lparr>cr_kind = ''page'', cr_id = ''p''\<rparr>, ''e'' \<mapsto> \<lparr>cr_kind = ''page'', cr_id = ''q''\<rparr>,
     ''o'' \<mapsto> \<lparr>cr_kind = ''document'', cr_id = ''n''\<rparr>]"
  "pages demo_docs = pages demo_wiki" "pageVersions demo_docs = pageVersions demo_wiki"
  "members demo_docs = members demo_team" "workspaces demo_docs = workspaces demo_team"
  by (simp_all add: demo_docs_def svc_CreateDocument_def mem_CreateDocument_def demo_run demo_title demo_wiki_maps
      demo_team_members demo_team_workspaces demo_wiki_collab demo_doc_def)

lemma demo_docs_inv: "collab_inv demo_docs" "page_inv demo_docs"
proof -
  have "collab_inv demo_wiki"
    by (auto simp: collab_inv_def rooms_ok_def indexed_def demo_wiki_collab demo_wiki_maps demo_pg_def split: if_splits)
  then show "collab_inv demo_docs"
    using exec_collab_inv [of demo_wiki "CreateDocument ''n'' ''o'' ''ann'' ''w'' ''Plan'' ''Text'' 7" demo_env] demo_fresh(3)
    by (simp add: demo_docs_def)
  show "page_inv demo_docs"
    by (rule page_inv_same [OF _ _ demo_wiki_inv]) (simp_all add: parts demo_docs_maps demo_wiki_maps)
qed

lemma demo_room: "ValidCollabRoom (env_ulid demo_env) [c]"
  by (simp add: ValidCollabRoom_def demo_env_def)

lemma demo_docs_order: "range_order (pages demo_docs) [''p'', ''q'']"
  using demo_wiki_order by (simp add: demo_docs_maps)

lemma demo_ticket:
  "svc_IssueCollabTicket (env_ulid demo_env) ks demo_docs ''t'' ''gus'' ''o'' 100 =
    (Inr \<lparr>it_Ticket = ''t'', it_CollabDocumentID = ''o'', it_ReadOnly = True, it_ExpiresAt = 100 + CollabTicketTTL\<rparr>,
     snd (mem_CreateTicket demo_docs ''t'' ''gus'' ''o'' True 100))"
  by (simp add: svc_IssueCollabTicket_def demo_room mem_LookupCollab_def collab_read_only_def svc_GetDocument_def
      mem_GetDocument_def svc_requireRead_def svc_requireRole_def mem_MemberRole_def demo_docs_maps demo_doc_def
      demo_team_members mem_CreateTicket_def Let_def)

theorem collab_ticket_window_witness:
  "svc_AuthorizeCollab (env_ulid demo_env) (snd (mem_CreateTicket demo_docs ''t'' ''gus'' ''o'' True 100)) ''t'' ''o''
     (100 + CollabTicketTTL) = Inl ErrUnauthorized"
  using collab_ticket_window [OF demo_ticket demo_room [of "CHR ''o''"], where later = "[]" and u = "100 + CollabTicketTTL"]
  by (auto simp: read_ok_def split: sum.splits)

section \<open>Who may write in a room\<close>

text \<open>The workspace of the page or document behind a room.\<close>

definition room_workspace :: "Store \<Rightarrow> id \<Rightarrow> id result" where
  "room_workspace s cid = read_ok (mem_LookupCollab s cid) (\<lambda>(kind, target).
     if kind = ''page'' then mem_PageWorkspaceID s target
     else if kind = ''document'' then document_workspace s target else Inl ErrNotFound)"

lemma GetPage_source: "svc_GetPage ks s sub k = Inr p \<Longrightarrow> mem_GetPage s k = Inr p"
  by (auto simp: svc_GetPage_def split: if_splits)

lemma GetDocument_source: "svc_GetDocument s sub k = Inr d \<Longrightarrow> mem_GetDocument s k = Inr d"
  by (auto simp: svc_GetDocument_def split: if_splits)

lemma read_only_role:
  assumes "collab_read_only ks s sub kind target = Inr ro" and "mem_LookupCollab s cid = Inr (kind, target)"
  shows "\<exists>w role. room_workspace s cid = Inr w \<and> mem_MemberRole s w sub = Inr role \<and>
    ro = (if kind = ''page'' then role = RoleGuest else \<not> RoleAtLeast role RoleMember)"
  using assms
  by (auto simp: collab_read_only_def room_workspace_def document_workspace_def mem_PageWorkspaceID_def mem_GetPage_def
      dest!: GetPage_source GetDocument_source split: if_splits option.splits)

text \<open>
  A ticket is only issued to someone with a role in the workspace of the room, and for the three
  roles of the program it lets its holder write exactly when they are an owner or a member there.
\<close>

theorem collab_ticket_rights:
  assumes "svc_IssueCollabTicket ulid ks s nid sub cid now = (Inr it, t)"
  shows "\<exists>w role. room_workspace s cid = Inr w \<and> mem_MemberRole s w sub = Inr role \<and>
    (role \<in> {RoleOwner, RoleMember, RoleGuest} \<longrightarrow> (it_ReadOnly it \<longleftrightarrow> \<not> has_role s w sub RoleMember))"
proof -
  obtain kind target where look: "mem_LookupCollab s cid = Inr (kind, target)"
    and ro: "collab_read_only ks s sub kind target = Inr (it_ReadOnly it)"
    using issue_effect [OF assms] by blast
  obtain w role where w: "room_workspace s cid = Inr w" "mem_MemberRole s w sub = Inr role"
    "it_ReadOnly it = (if kind = ''page'' then role = RoleGuest else \<not> RoleAtLeast role RoleMember)"
    using read_only_role [OF ro look] by blast
  moreover have "has_role s w sub RoleMember \<longleftrightarrow> RoleAtLeast role RoleMember"
    using w(2) by (auto simp: has_role_def mem_MemberRole_def split: option.splits)
  ultimately show ?thesis by (intro exI [of _ w] exI [of _ role]) auto
qed

theorem collab_ticket_rights_witness:
  "\<exists>w role. room_workspace demo_docs ''o'' = Inr w \<and> mem_MemberRole demo_docs w ''gus'' = Inr role"
  using collab_ticket_rights [OF demo_ticket] by blast

text \<open>
  With a role the program does not know, which \<open>AddMember\<close> accepts, the two kinds of rooms differ:
  the page may not be written, but its room may.
\<close>

definition demo_viewer :: Store where
  "demo_viewer = snd (svc_AddMember demo_docs ''ann'' ''w'' ''vic'' ''viewer'' 8)"

lemma unknown_role_writes_page_room:
  "(\<exists>e. svc_UpdatePage demo_viewer ''vic'' ''p'' None (Some ''x'') None None 1 9 10 = (Inl e, demo_viewer)) \<and>
   (\<exists>it. fst (svc_IssueCollabTicket (env_ulid demo_env) [''p'', ''q''] demo_viewer ''t'' ''vic'' ''d'' 100) = Inr it \<and>
      \<not> it_ReadOnly it)"
proof -
  have v: "RoleAtLeast ''viewer'' RoleMember = False" "''viewer'' \<noteq> RoleOwner" "''viewer'' \<noteq> RoleMember" "''viewer'' \<noteq> RoleGuest"
      "TrimSpace ''vic'' = ''vic''" "DevDisplayName ''vic'' = []"
    by code_simp+
  have ms: "members demo_viewer ''w'' = Some ((the (members demo_team ''w''))(''vic'' \<mapsto>
      \<lparr>mb_WorkspaceID = ''w'', mb_Sub = ''vic'', mb_DisplayName = [], mb_Role = ''viewer'', mb_JoinedAt = 8\<rparr>))"
    and ps: "pages demo_viewer = pages demo_wiki" "collabIndex demo_viewer = collabIndex demo_docs"
    by (simp_all add: demo_viewer_def svc_AddMember_def mem_AddMember_def svc_requireRole_def mem_MemberRole_def
        demo_docs_maps demo_team_members v Let_def)
  have role: "mem_MemberRole demo_viewer ''w'' ''vic'' = Inr ''viewer''" by (simp add: mem_MemberRole_def ms)
  have ws: "mem_PageWorkspaceID demo_viewer ''p'' = Inr ''w''"
    by (simp add: mem_PageWorkspaceID_def ps demo_wiki_maps demo_pg_def)
  have "svc_UpdatePage demo_viewer ''vic'' ''p'' None (Some ''x'') None None 1 9 10 = (Inl (ErrForbidden, zero_Page), demo_viewer)"
    by (simp add: svc_UpdatePage_def ws svc_requireWrite_def svc_requireRole_def role v)
  moreover have "\<exists>it. fst (svc_IssueCollabTicket (env_ulid demo_env) [''p'', ''q''] demo_viewer ''t'' ''vic'' ''d'' 100) = Inr it \<and>
      \<not> it_ReadOnly it"
    by (simp add: svc_IssueCollabTicket_def demo_room mem_LookupCollab_def ps demo_docs_maps collab_read_only_def
        svc_GetPage_def ws role v mem_GetPage_def demo_wiki_maps demo_pg_def mem_CreateTicket_def Let_def)
  ultimately show ?thesis by blast
qed

section \<open>Snapshots\<close>

lemma rooms_cases:
  assumes "collab_inv s" and "collabIndex s cid = Some ref"
  obtains (page) p where "cr_kind ref = ''page''" and "pages s (cr_id ref) = Some p" and "pg_CollabDocumentID p = cid"
  | (document) d where "cr_kind ref = ''document''" and "documents s (cr_id ref) = Some d" and "doc_CollabDocumentID d = cid"
proof -
  have "cr_kind ref = ''page'' \<or> cr_kind ref = ''document''"
    using collab_invD(1) [OF assms(1)] assms(2) by (auto simp: rooms_ok_def)
  then show thesis
  proof
    assume k: "cr_kind ref = ''page''"
    then show thesis
      using page collab_invD(1) [OF assms(1)]
        indexedD(2) [of pg_CollabDocumentID "''page''" "pages s" "collabIndex s" cid ref, OF _ assms(2) k]
      by (auto simp: rooms_ok_def)
  next
    assume k: "cr_kind ref = ''document''"
    then show thesis
      using document collab_invD(1) [OF assms(1)]
        indexedD(2) [of doc_CollabDocumentID "''document''" "documents s" "collabIndex s" cid ref, OF _ assms(2) k]
      by (auto simp: rooms_ok_def)
  qed
qed

text \<open>The text that the collaboration server reads in a room.\<close>

definition room_text :: "Store \<Rightarrow> id \<Rightarrow> string result" where
  "room_text s cid = (case collabIndex s cid of
     None \<Rightarrow> Inl ErrNotFound
   | Some ref \<Rightarrow> if cr_kind ref = ''page'' then Inr (pg_Body (the (pages s (cr_id ref))))
                else Inr (doc_Body (the (documents s (cr_id ref)))))"

lemma plaintext_room_text:
  assumes "collab_inv s"
  shows "svc_CollabPlaintext ulid tenant s cid = (if ValidCollabRoom ulid cid then room_text s cid else Inl ErrInvalid)"
proof (cases "collabIndex s cid")
  case None
  then show ?thesis by (simp add: svc_CollabPlaintext_def room_text_def mem_LookupCollab_def Let_def)
next
  case (Some ref)
  from assms Some show ?thesis
    by (cases rule: rooms_cases)
      (auto simp: svc_CollabPlaintext_def room_text_def mem_LookupCollab_def mem_GetPage_def mem_GetDocument_def
        Let_def Some)
qed

lemma room_text_append [simp]: "room_text (snd (mem_AppendPageVersionIfChanged s k a b c d e)) cid = room_text s cid"
  using append_parts [of s k a b c d e] by (auto simp: room_text_def collab_part_def split: option.split)

lemma room_text_scope [simp]: "room_text (svc_Unscoped c s) cid = room_text s cid" "room_text (rejoin s' s) cid = room_text s cid"
  by (auto simp: room_text_def scope_defs split: option.split)

lemma rooms_same:
  assumes iv: "collab_inv s" and "collabIndex s c = Some r" and "collabIndex s cid = Some ref"
    and "cr_kind r = cr_kind ref" and "cr_id r = cr_id ref"
  shows "c = cid"
  using iv assms(2)
proof (cases rule: rooms_cases)
  case (page p)
  then show ?thesis using assms(3-5) by (auto elim: rooms_cases [OF iv])
next
  case (document d)
  then show ?thesis using assms(3-5) by (auto elim: rooms_cases [OF iv])
qed

lemma snapshot_text:
  assumes iv: "collab_inv s" and run: "mem_ApplyCollabSnapshot s cid plain editor now = (Inr (), t)"
  shows "room_text t c = (if c = cid then Inr plain else room_text s c)"
proof -
  obtain ref where ref: "collabIndex s cid = Some ref" using run by (auto simp: mem_ApplyCollabSnapshot_def split: option.splits)
  have other: "collabIndex s c = Some r \<Longrightarrow> c \<noteq> cid \<Longrightarrow> cr_kind r = cr_kind ref \<Longrightarrow> cr_id r \<noteq> cr_id ref" for r
    using rooms_same [OF iv _ ref] by blast
  from iv ref show ?thesis
  proof (cases rule: rooms_cases)
    case (page p)
    with run ref have t: "t = s\<lparr>pages := (pages s)(cr_id ref \<mapsto> p\<lparr>pg_Body := plain, pg_UpdatedAt := now\<rparr>)\<rparr>"
      by (simp add: mem_ApplyCollabSnapshot_def)
    show ?thesis using other page(1) ref by (auto simp: room_text_def t split: option.split)
  next
    case (document d)
    with run ref have t: "t = s\<lparr>documents := (documents s)(cr_id ref \<mapsto>
        d\<lparr>doc_Body := plain, doc_UpdatedAt := now, doc_LastEditorSub := editor\<rparr>)\<rparr>"
      by (simp add: mem_ApplyCollabSnapshot_def)
    show ?thesis
      using other document(1) ref by (auto simp: room_text_def t split: option.split elim: rooms_cases [OF iv])
  qed
qed

lemma snapshot_runs:
  assumes iv: "collab_inv s" and ref: "collabIndex s cid = Some ref"
  shows "\<exists>t. mem_ApplyCollabSnapshot s cid plain editor now = (Inr (), t) \<and>
    (cr_kind ref = ''page'' \<longrightarrow> pages t (cr_id ref) \<noteq> None)"
  using iv ref by (cases rule: rooms_cases) (auto simp: mem_ApplyCollabSnapshot_def ref)

lemma svc_snapshot_outcome:
  assumes iv: "collab_inv s"
  shows "fst (svc_ApplyCollabSnapshot ulid tenant s cid plain editor now now2) =
      (if \<not> ValidCollabRoom ulid cid \<or> length plain > MaxPageBody then Inl ErrInvalid
       else if collabIndex s cid = None then Inl ErrNotFound else Inr ()) \<and>
    (fst (svc_ApplyCollabSnapshot ulid tenant s cid plain editor now now2) = Inr () \<longrightarrow>
      (\<forall>c. room_text (snd (svc_ApplyCollabSnapshot ulid tenant s cid plain editor now now2)) c =
        (if c = cid then Inr plain else room_text s c)))"
proof (cases "\<not> ValidCollabRoom ulid cid \<or> length plain > MaxPageBody \<or> collabIndex s cid = None")
  case True
  then show ?thesis by (auto simp: svc_ApplyCollabSnapshot_def mem_LookupCollab_def Let_def)
next
  case False
  then obtain ref where ref: "collabIndex s cid = Some ref" by blast
  let ?st = "svc_Unscoped tenant s"
  have st: "collab_inv ?st" "collabIndex ?st cid = Some ref" using iv ref by simp_all
  then obtain t where t: "mem_ApplyCollabSnapshot ?st cid plain editor now = (Inr (), t)"
    "cr_kind ref = ''page'' \<longrightarrow> pages t (cr_id ref) \<noteq> None" using snapshot_runs by blast
  have look: "mem_LookupCollab ?st cid = Inr (cr_kind ref, cr_id ref)" using st by (simp add: mem_LookupCollab_def)
  have reads: "room_text t c = (if c = cid then Inr plain else room_text s c)" for c
    using snapshot_text [OF st(1) t(1), of c] by simp
  show ?thesis
  proof (cases "cr_kind ref = ''page''")
    case True
    then obtain p where "pages t (cr_id ref) = Some p" using t(2) by blast
    then show ?thesis
      using False True t(1) look reads by (auto simp: svc_ApplyCollabSnapshot_def Let_def mem_GetPage_def)
  next
    case kind: False
    then show ?thesis using False t(1) look reads by (auto simp: svc_ApplyCollabSnapshot_def Let_def)
  qed
qed

text \<open>
  A snapshot fails only for a name that is no room, a text that is too long, or a room nobody
  has: the index never points to something that is gone.
\<close>

theorem ApplyCollabSnapshot_errors:
  assumes "collab_inv s"
  shows "fst (svc_ApplyCollabSnapshot ulid tenant s cid plain editor now now2) =
    (if \<not> ValidCollabRoom ulid cid \<or> length plain > MaxPageBody then Inl ErrInvalid
     else if collabIndex s cid = None then Inl ErrNotFound else Inr ())"
  using svc_snapshot_outcome [OF assms] by (rule conjunct1)

theorem ApplyCollabSnapshot_errors_witness:
  "fst (svc_ApplyCollabSnapshot (env_ulid demo_env) True demo_docs ''o'' ''New'' ''gus'' 8 9) = Inr () \<and>
   fst (svc_ApplyCollabSnapshot (env_ulid demo_env) True demo_docs ''z'' ''New'' ''gus'' 8 9) = Inl ErrNotFound"
  unfolding ApplyCollabSnapshot_errors [OF demo_docs_inv(1)]
  by (simp add: demo_room demo_docs_maps MaxPageBody_def)

text \<open>
  After a snapshot the room reads back exactly the text that was written, and every other room
  reads as before.
\<close>

theorem snapshot_roundtrip:
  assumes iv: "collab_inv s" and run: "svc_ApplyCollabSnapshot ulid tenant s cid plain editor now now2 = (Inr (), t)"
  shows "svc_CollabPlaintext ulid tenant t c =
    (if c = cid then Inr plain else svc_CollabPlaintext ulid tenant s c)"
proof -
  have valid: "ValidCollabRoom ulid cid" and len: "\<not> MaxPageBody < length plain"
    using run by (auto simp: svc_ApplyCollabSnapshot_def split: if_splits)
  have "collab_inv (snd (exec_collab (demo_env\<lparr>env_ulid := ulid, env_tenant := tenant\<rparr>)
      (ApplyCollabSnapshot cid plain editor now now2) s))"
    by (rule exec_collab_inv [OF iv]) simp
  then have t: "collab_inv t" using run by simp
  show ?thesis
    using svc_snapshot_outcome [OF iv, of ulid tenant cid plain editor now now2] run valid
    by (simp add: plaintext_room_text [OF iv] plaintext_room_text [OF t])
qed

theorem snapshot_roundtrip_witness:
  "svc_CollabPlaintext (env_ulid demo_env) True
     (snd (svc_ApplyCollabSnapshot (env_ulid demo_env) True demo_docs ''o'' ''New'' ''gus'' 8 9)) ''o'' = Inr ''New''"
proof -
  have "fst (svc_ApplyCollabSnapshot (env_ulid demo_env) True demo_docs ''o'' ''New'' ''gus'' 8 9) = Inr ()"
    using svc_snapshot_outcome [OF demo_docs_inv(1)] by (simp add: demo_room demo_docs_maps MaxPageBody_def)
  then have "svc_ApplyCollabSnapshot (env_ulid demo_env) True demo_docs ''o'' ''New'' ''gus'' 8 9 =
      (Inr (), snd (svc_ApplyCollabSnapshot (env_ulid demo_env) True demo_docs ''o'' ''New'' ''gus'' 8 9))"
    by (metis prod.collapse)
  from snapshot_roundtrip [OF demo_docs_inv(1) this, of "''o''"] show ?thesis by simp
qed

section \<open>Lists of documents\<close>

text \<open>
  An owner or a member finds every document of the workspace in exactly one of two lists, the
  live documents or the trash, once, the older ones first.
\<close>

theorem document_lists:
  assumes ks: "range_order (documents s) ks" and "collab_inv s"
    and role: "has_role s w sub RoleMember" and ws: "workspaces s w \<noteq> None"
  shows "\<exists>live trash. svc_ListDocuments ks s sub w = Inr live \<and> svc_ListTrashedDocuments ks s sub w = Inr trash \<and>
    distinct (live @ trash) \<and>
    set live = {d. (\<exists>k. documents s k = Some d) \<and> doc_WorkspaceID d = w \<and> doc_DeletedAt d = None} \<and>
    set trash = {d. (\<exists>k. documents s k = Some d) \<and> doc_WorkspaceID d = w \<and> doc_DeletedAt d \<noteq> None} \<and>
    sorted_wrt (\<lambda>a b. doc_CreatedAt a \<le> doc_CreatedAt b) live \<and> sorted_wrt (\<lambda>a b. doc_CreatedAt a \<le> doc_CreatedAt b) trash"
proof -
  let ?docs = "sort_slice document_before (filter (\<lambda>d. doc_WorkspaceID d = w) (range_values ks (documents s)))"
  have gates: "svc_requireWrite s w sub = Inr ()" "svc_requireRead s w sub = Inr ()"
    using role by (auto simp: svc_requireWrite_def svc_requireRead_def has_role_def split: option.splits)
  have id: "\<forall>k d. documents s k = Some d \<longrightarrow> doc_ID d = k"
    using collab_invD(2) [OF assms(2)] by (simp add: doc_wf_def)
  have "?docs = sort_slice (\<lambda>a b. if doc_CreatedAt a = doc_CreatedAt b then doc_ID a < doc_ID b else doc_CreatedAt a < doc_CreatedAt b)
      (filter (\<lambda>d. doc_WorkspaceID d = w) (range_values ks (documents s)))"
    by (intro arg_cong2 [where f = sort_slice] ext refl) (simp add: document_before_def)
  note facts = listing_facts [where key = doc_ID and age = doc_CreatedAt, OF ks id this]
  have sets: "set (filter Q ?docs) = {d. (\<exists>k. documents s k = Some d) \<and> doc_WorkspaceID d = w \<and> Q d}" for Q
    unfolding set_filter facts(2) by blast
  have "distinct (filter (\<lambda>d. doc_DeletedAt d = None) ?docs @ filter (\<lambda>d. doc_DeletedAt d \<noteq> None) ?docs)"
    using facts(1) by auto
  have run: "svc_ListDocuments ks s sub w = Inr (filter (\<lambda>d. doc_DeletedAt d = None) ?docs)"
    "svc_ListTrashedDocuments ks s sub w = Inr (filter (\<lambda>d. doc_DeletedAt d \<noteq> None) ?docs)"
    using ws by (simp_all add: svc_ListDocuments_def svc_ListTrashedDocuments_def gates mem_ListDocuments_def)
  show ?thesis
    unfolding run
    by (intro exI conjI) (rule refl sets facts(3) \<open>distinct (_ @ _)\<close>)+
qed

theorem document_lists_witness:
  "\<exists>live. svc_ListDocuments [''n''] demo_docs ''ann'' ''w'' = Inr live \<and> set live = {demo_doc}"
proof -
  have "{d. (\<exists>k. documents demo_docs k = Some d) \<and> doc_WorkspaceID d = ''w'' \<and> doc_DeletedAt d = None} = {demo_doc}"
    by (auto simp: demo_docs_maps demo_doc_def split: if_splits)
  moreover have "range_order (documents demo_docs) [''n'']" "has_role demo_docs ''w'' ''ann'' RoleMember"
    "workspaces demo_docs ''w'' \<noteq> None"
    by (auto simp: range_order_def has_role_def demo_docs_maps demo_team_members demo_team_workspaces)
  ultimately show ?thesis using document_lists [of demo_docs "[''n'']" "''w''" "''ann''"] demo_docs_inv(1) by auto
qed

end
