(* ===== verification/ChatProps.thy ===== *)
theory ChatProps
  imports Chat CollabProps
begin

text \<open>
  What the chat promises: what posting a message stores, that a client that asks for the messages
  behind the last one it has seen misses none, how read cursors and unread counts move, and what a
  chat ticket opens.
\<close>

section \<open>The example\<close>

text \<open>The channel \<open>c\<close> that the team got when it was created, with one message by its owner.\<close>

definition demo_chat :: Store where
  "demo_chat = snd (svc_PostMessage demo_team [''ann'', ''gus''] ''m'' ''ann'' ''c'' ''Hi @gus'' [] 4)"

definition demo_message :: ChatMessage where
  "demo_message = \<lparr>cm_ID = ''m'', cm_ChannelID = ''c'', cm_Sub = ''ann'', cm_Body = ''Hi @gus'', cm_Mentions = [''gus''],
     cm_AttachmentFileID = [], cm_Seq = 1, cm_CreatedAt = 4\<rparr>"

definition demo_channel :: Channel where
  "demo_channel = \<lparr>ch_ID = ''c'', ch_WorkspaceID = ''w'', ch_Name = ''general'', ch_CreatedAt = 0\<rparr>"

lemma demo_team_chat:
  "channels demo_team = [''c'' \<mapsto> demo_channel]" "messages demo_team = [''c'' \<mapsto> []]"
  "chatReads demo_team = Map.empty" "chatTickets demo_team = Map.empty"
  by (simp_all add: demo_team_def op_defs New_def svc_requireRole_def Let_def demo_values DefaultChannelName_def demo_channel_def)

lemma demo_chat_values: "TrimSpace ''Hi @gus'' = ''Hi @gus''" "ExtractMentions ''Hi @gus'' [''ann'', ''gus''] = [''gus'']"
  by code_simp+

lemma demo_members_list:
  "members s = members demo_team \<Longrightarrow> \<exists>ms. mem_ListMembers [''ann'', ''gus''] s ''w'' = Inr ms \<and> map mb_Sub ms = [''ann'', ''gus'']"
  by (simp add: mem_ListMembers_def demo_team_members)

lemma demo_chat_maps:
  "channels demo_chat = [''c'' \<mapsto> demo_channel]" "messages demo_chat = [''c'' \<mapsto> [demo_message]]"
  "chatReads demo_chat = Map.empty" "chatTickets demo_chat = Map.empty"
  "members demo_chat = members demo_team" "workspaces demo_chat = workspaces demo_team"
  by (simp_all add: demo_chat_def svc_PostMessage_def mem_GetChannel_def demo_team_chat demo_channel_def demo_run
      demo_team_members demo_chat_values MaxChatMessage_def mem_ListMembers_def mem_AppendMessage_def get_list_def demo_message_def)

lemma demo_chat_inv: "chat_inv demo_chat"
  by (auto simp: chat_inv_def channel_ok_def demo_chat_maps demo_channel_def demo_message_def demo_team_workspaces
      split: if_splits)

section \<open>Posting\<close>

text \<open>
  (C32) Posting to a channel. Someone without the member role is refused; a message without text and
  attachment, or one that is too long, is invalid; an attachment must be a chat file of the
  workspace. Otherwise the message gets the next number, the trimmed text and the members it
  mentions, it becomes the last message of its channel, and no other channel changes.
\<close>

theorem PostMessage_outcome:
  assumes iv: "chat_inv s" and ch: "channels s k = Some ch" and ms: "members s (ch_WorkspaceID ch) = Some ms"
    and ks: "range_order ms ks" and sub: "member_wf (ch_WorkspaceID ch) ms"
  shows "let body = TrimSpace body0; att = TrimSpace att0; r = svc_PostMessage s ks nid sub k body0 att0 now in
    if \<not> has_role s (ch_WorkspaceID ch) sub RoleMember then r = (Inl ErrForbidden, s)
    else if body = [] \<and> att = [] \<or> length body > MaxChatMessage then r = (Inl ErrInvalid, s)
    else if att \<noteq> [] \<and> svc_requireChatFile s (ch_WorkspaceID ch) att \<noteq> Inr () then \<exists>e. r = (Inl e, s)
    else \<exists>msg. fst r = Inr msg \<and> cm_Seq msg = int (length (get_list (messages s) k)) + 1 \<and> cm_Body msg = body \<and>
      cm_Sub msg = sub \<and> cm_AttachmentFileID msg = att \<and>
      set (cm_Mentions msg) = {m. ms m \<noteq> None \<and> mentioned body m} \<and>
      messages (snd r) = (messages s)(k \<mapsto> get_list (messages s) k @ [msg])"
proof -
  have roles: "svc_requireWrite s (ch_WorkspaceID ch) sub =
      (if has_role s (ch_WorkspaceID ch) sub RoleMember then Inr () else Inl ErrForbidden)"
    using ms by (auto simp: svc_requireWrite_def svc_requireRole_def mem_MemberRole_def has_role_def split: option.split)
  obtain list where list: "mem_ListMembers ks s (ch_WorkspaceID ch) = Inr list"
    "set list = ran ms"
    using ms ks by (simp add: mem_ListMembers_def set_range_values_order)
  have "mb_Sub ` ran ms = dom ms" using sub by (force simp: member_wf_def ran_def)
  then have subs: "set (map mb_Sub list) = dom ms" using list(2) by simp
  have get: "mem_GetChannel s k = Inr ch" by (simp add: mem_GetChannel_def ch)
  have mention: "set (ExtractMentions (TrimSpace body0) (map mb_Sub list)) = {m. ms m \<noteq> None \<and> mentioned (TrimSpace body0) m}"
    using mention_set [of "TrimSpace body0" "map mb_Sub list"] subs by auto
  show ?thesis
    by (cases "svc_requireChatFile s (ch_WorkspaceID ch) (TrimSpace att0)")
      (auto simp: svc_PostMessage_def get roles list(1) mem_AppendMessage_def ch Let_def mention simp del: set_map)
qed

theorem PostMessage_outcome_witness:
  "\<exists>msg. fst (svc_PostMessage demo_chat [''ann'', ''gus''] ''n'' ''ann'' ''c'' ''Hi @gus'' [] 5) = Inr msg \<and> cm_Seq msg = 2"
proof -
  have ch: "channels demo_chat ''c'' = Some demo_channel" by (simp add: demo_chat_maps)
  obtain ms where ms: "members demo_chat ''w'' = Some ms" "range_order ms [''ann'', ''gus'']" "member_wf ''w'' ms"
    "has_role demo_chat ''w'' ''ann'' RoleMember"
    by (rule that [of "the (members demo_team ''w'')"])
      (auto simp: demo_chat_maps demo_team_members range_order_def member_wf_def has_role_def split: if_splits)
  have w: "ch_WorkspaceID demo_channel = ''w''" by (simp add: demo_channel_def)
  show ?thesis
    using PostMessage_outcome [OF demo_chat_inv ch, unfolded w, OF ms(1,2,3), of "''Hi @gus''" "[]" "''n''" "''ann''" 5] ms(4)
    by (auto simp: demo_chat_values MaxChatMessage_def demo_chat_maps get_list_def Let_def)
qed

section \<open>Reading\<close>

text \<open>
  Asking for the messages behind number n gives the messages of the channel without the first
  n: a client that remembers the number of the last message it has and asks for the rest has then
  seen every message, in order and without repetition.
\<close>

theorem ListMessages_after:
  assumes iv: "chat_inv s" and ch: "channels s k = Some ch" and role: "has_role s (ch_WorkspaceID ch) sub RoleGuest"
  shows "svc_ListMessages s sub k n = Inr (drop (nat n) (get_list (messages s) k)) \<and>
    (\<forall>seen. svc_ListMessages s sub k 0 = Inr seen \<longrightarrow>
       svc_ListMessages s sub k n = Inr rest \<longrightarrow> take (nat n) seen @ rest = seen)"
proof -
  obtain msgs where msgs: "messages s k = Some msgs" "numbered_from 1 msgs" using chat_invD(2) [OF iv ch] by blast
  have "svc_ListMessages s sub k m = Inr (drop (nat m) msgs)" for m
    using ch role msgs messages_after [OF msgs(2), of m]
    by (simp add: svc_ListMessages_def mem_GetChannel_def mem_ListMessages_def svc_requireRead_def get_list_def Let_def)
  then show ?thesis using msgs(1) by (auto simp: get_list_def)
qed

theorem ListMessages_after_witness:
  "svc_ListMessages demo_chat ''gus'' ''c'' 0 = Inr [demo_message] \<and> svc_ListMessages demo_chat ''gus'' ''c'' 1 = Inr []"
proof -
  have "channels demo_chat ''c'' = Some demo_channel" "has_role demo_chat (ch_WorkspaceID demo_channel) ''gus'' RoleGuest"
    by (auto simp: demo_chat_maps demo_channel_def has_role_def demo_team_members)
  note out = ListMessages_after [OF demo_chat_inv this]
  show ?thesis
    using out [of 0] out [of 1] by (simp add: demo_chat_maps get_list_def)
qed

section \<open>Unread messages\<close>

definition cursor :: "Store \<Rightarrow> id \<Rightarrow> string \<Rightarrow> int" where
  "cursor s k sub = (case chatReads s k of None \<Rightarrow> 0 | Some bySub \<Rightarrow> (case bySub sub of None \<Rightarrow> 0 | Some n \<Rightarrow> n))"

definition unread :: "Store \<Rightarrow> id \<Rightarrow> string \<Rightarrow> int" where
  "unread s k sub = max 0 (int (length (get_list (messages s) k)) - cursor s k sub)"

lemma cursor_pos: "chat_inv s \<Longrightarrow> 0 \<le> cursor s k sub"
  using chat_invD(3) by (auto simp: cursor_def split: option.split)

lemma view_counts:
  assumes iv: "chat_inv s" and ch: "channels s k = Some ch"
  shows "mem_GetChannelRead s k sub = Inr (cursor s k sub)"
    and "mem_CountMessagesAfter s k (cursor s k sub) = Inr (unread s k sub)"
proof -
  show "mem_GetChannelRead s k sub = Inr (cursor s k sub)"
    using ch by (auto simp: mem_GetChannelRead_def cursor_def split: option.split)
  obtain msgs where msgs: "messages s k = Some msgs" "numbered_from 1 msgs" using chat_invD(2) [OF iv ch] by blast
  show "mem_CountMessagesAfter s k (cursor s k sub) = Inr (unread s k sub)"
    using ch msgs messages_after [OF msgs(2) cursor_pos [OF iv]] cursor_pos [OF iv, of k sub]
    by (simp add: mem_CountMessagesAfter_def get_list_def unread_def max_def of_nat_diff nat_le_iff)
qed

lemma UpsertChannelRead_cursor:
  assumes "channels s k \<noteq> None" and "0 \<le> n"
  shows "cursor (snd (mem_UpsertChannelRead s k sub n)) k' sub' =
    (if k' = k \<and> sub' = sub then max (cursor s k sub) n else cursor s k' sub')"
  using assms by (auto simp: mem_UpsertChannelRead_def cursor_def Let_def split: option.split)

text \<open>
  (C33) Marking a channel as read up to number n moves the cursor of the reader forward to n and never
  back, moves no other cursor, and answers with the messages that are still behind it. A number
  below zero is refused.
\<close>

theorem MarkChannelRead_outcome:
  assumes iv: "chat_inv s" and ch: "channels s k = Some ch" and role: "has_role s (ch_WorkspaceID ch) sub RoleGuest"
  shows "let r = svc_MarkChannelRead s sub k n in
    if n < 0 then r = (Inl ErrInvalid, s)
    else fst r = Inr \<lparr>cv_Channel = ch, cv_LastReadSeq = max (cursor s k sub) n,
           cv_UnreadCount = max 0 (int (length (get_list (messages s) k)) - max (cursor s k sub) n)\<rparr> \<and>
      messages (snd r) = messages s \<and>
      (\<forall>k' sub'. cursor (snd r) k' sub' = (if k' = k \<and> sub' = sub then max (cursor s k sub) n else cursor s k' sub'))"
proof -
  have reads: "svc_requireRead s (ch_WorkspaceID ch) sub = Inr ()"
    using role by (simp add: svc_requireRead_def)
  show ?thesis
  proof (cases "n < 0")
    case True
    then show ?thesis using ch reads by (simp add: svc_MarkChannelRead_def mem_GetChannel_def Let_def)
  next
    case False
    define t where "t = snd (mem_UpsertChannelRead s k sub n)"
    have run: "mem_UpsertChannelRead s k sub n = (Inr (), t)"
      using ch False by (simp add: t_def mem_UpsertChannelRead_def Let_def)
    have t: "chat_inv t" "channels t k = Some ch" "messages t = messages s"
      using chi_UpsertChannelRead [OF iv, of k sub n] ch False by (simp_all add: t_def mem_UpsertChannelRead_def Let_def)
    have cur: "cursor t k' sub' = (if k' = k \<and> sub' = sub then max (cursor s k sub) n else cursor s k' sub')" for k' sub'
      using UpsertChannelRead_cursor [of s k n sub k' sub'] ch False by (simp add: t_def)
    have unr: "unread t k sub = max 0 (int (length (get_list (messages s) k)) - max (cursor s k sub) n)"
      by (simp add: unread_def cur t(3))
    have "svc_MarkChannelRead s sub k n =
        (Inr \<lparr>cv_Channel = ch, cv_LastReadSeq = cursor t k sub, cv_UnreadCount = unread t k sub\<rparr>, t)"
      using ch reads False
      by (simp add: svc_MarkChannelRead_def mem_GetChannel_def run view_counts [OF t(1,2)])
    then show ?thesis using False by (simp add: Let_def cur unr t(3))
  qed
qed

theorem MarkChannelRead_outcome_witness:
  "\<exists>v. fst (svc_MarkChannelRead demo_chat ''gus'' ''c'' 1) = Inr v \<and> cv_UnreadCount v = 0 \<and>
     (\<exists>v. fst (svc_MarkChannelRead demo_chat ''gus'' ''c'' 0) = Inr v \<and> cv_UnreadCount v = 1)"
proof -
  have "channels demo_chat ''c'' = Some demo_channel" "has_role demo_chat (ch_WorkspaceID demo_channel) ''gus'' RoleGuest"
    by (auto simp: demo_chat_maps demo_channel_def has_role_def demo_team_members)
  note out = MarkChannelRead_outcome [OF demo_chat_inv this]
  show ?thesis using out [of 1] out [of 0] by (simp add: demo_chat_maps get_list_def cursor_def Let_def)
qed

lemma channel_views_all:
  "chat_inv s \<Longrightarrow> \<forall>ch \<in> set chs. channels s (ch_ID ch) = Some ch \<Longrightarrow>
   channel_views s sub chs = Inr (map (\<lambda>ch. \<lparr>cv_Channel = ch, cv_LastReadSeq = cursor s (ch_ID ch) sub,
     cv_UnreadCount = unread s (ch_ID ch) sub\<rparr>) chs)"
  by (induction chs) (auto simp: channel_view_def view_counts)

text \<open>
  The list of channels holds every channel of the workspace once, the older ones first, each
  with the reader's cursor and the exact number of messages behind it.
\<close>

theorem ListChannels_counts:
  assumes iv: "chat_inv s" and ks: "range_order (channels s) ks" and role: "has_role s w sub RoleGuest"
    and ws: "workspaces s w \<noteq> None"
  shows "\<exists>views. svc_ListChannels ks s sub w = Inr views \<and> distinct (map cv_Channel views) \<and>
    set (map cv_Channel views) = {ch. (\<exists>k. channels s k = Some ch) \<and> ch_WorkspaceID ch = w} \<and>
    sorted_wrt (\<lambda>a b. ch_CreatedAt a \<le> ch_CreatedAt b) (map cv_Channel views) \<and>
    (\<forall>v \<in> set views. cv_LastReadSeq v = cursor s (ch_ID (cv_Channel v)) sub \<and>
       cv_UnreadCount v = max 0 (int (length (get_list (messages s) (ch_ID (cv_Channel v)))) - cv_LastReadSeq v))"
proof -
  define chs where "chs = sort_slice (\<lambda>a b. if ch_CreatedAt a = ch_CreatedAt b then ch_ID a < ch_ID b
    else ch_CreatedAt a < ch_CreatedAt b) (filter (\<lambda>ch. ch_WorkspaceID ch = w) (range_values ks (channels s)))"
  have id: "\<forall>k ch. channels s k = Some ch \<longrightarrow> ch_ID ch = k"
    using chat_invD(1) [OF iv] by (simp add: channel_ok_def)
  note facts = listing_facts [where key = ch_ID and age = ch_CreatedAt, OF ks id chs_def]
  have "\<forall>ch \<in> set chs. channels s (ch_ID ch) = Some ch" using id unfolding facts(2) by auto
  then have run: "svc_ListChannels ks s sub w = Inr (map (\<lambda>ch. \<lparr>cv_Channel = ch, cv_LastReadSeq = cursor s (ch_ID ch) sub,
      cv_UnreadCount = unread s (ch_ID ch) sub\<rparr>) chs)"
    using ws role channel_views_all [OF iv, of chs sub]
    by (simp add: svc_ListChannels_def svc_requireRead_def mem_ListChannels_def flip: chs_def)
  have chans: "map cv_Channel (map (\<lambda>ch. \<lparr>cv_Channel = ch, cv_LastReadSeq = cursor s (ch_ID ch) sub,
      cv_UnreadCount = unread s (ch_ID ch) sub\<rparr>) chs) = chs"
    by (simp add: comp_def)
  have sorted: "sorted_wrt (\<lambda>a b. ch_CreatedAt a \<le> ch_CreatedAt b) chs"
    using facts(3) [of "\<lambda>_. True"] by simp
  show ?thesis
    by (rule exI, rule conjI, rule run, unfold chans) (use facts(1,2) sorted in \<open>simp add: unread_def\<close>)
qed

theorem ListChannels_counts_witness:
  "\<exists>views. svc_ListChannels [''c''] demo_chat ''gus'' ''w'' = Inr views \<and> set (map cv_Channel views) = {demo_channel}"
proof -
  have "{ch. (\<exists>k. channels demo_chat k = Some ch) \<and> ch_WorkspaceID ch = ''w''} = {demo_channel}"
    by (auto simp: demo_chat_maps demo_channel_def split: if_splits)
  moreover have "range_order (channels demo_chat) [''c'']" "has_role demo_chat ''w'' ''gus'' RoleGuest"
    "workspaces demo_chat ''w'' \<noteq> None"
    by (auto simp: range_order_def has_role_def demo_chat_maps demo_team_members demo_team_workspaces)
  ultimately show ?thesis using ListChannels_counts [OF demo_chat_inv, of "[''c'']" "''w''" "''gus''"] by auto
qed

section \<open>Tickets\<close>

definition chat_check :: "Store \<Rightarrow> id \<Rightarrow> id \<Rightarrow> time \<Rightarrow> (string \<times> bool) result" where
  "chat_check s k r t = read_ok (svc_AuthorizeChat s k r t) (\<lambda>a. Inr (cht_Sub a, cht_ReadOnly a))"

interpretation chat_tickets: ticket_office
  "\<lambda>s k sub r ro now. snd (mem_CreateChatTicket s k sub r ro now)" chat_check "\<lambda>r. r \<noteq> []"
  by unfold_locales
    (auto simp: chat_check_def svc_AuthorizeChat_def mem_CreateChatTicket_def mem_GetChatTicket_def Let_def read_ok_def
      split: option.splits if_splits sum.splits)

text \<open>
  A chat ticket is for a channel of a workspace its holder belongs to, lets them write exactly
  when they are an owner or a member there, and opens that channel and no other for fifteen minutes,
  whatever tickets are issued after it.
\<close>

theorem chat_ticket_contract:
  assumes run: "svc_IssueChatTicket s nid sub k now = (Inr it, t)" and "room \<noteq> []" and "nid \<notin> set (map fst later)"
  shows "(\<exists>ch. channels s k = Some ch \<and> has_role s (ch_WorkspaceID ch) sub RoleGuest \<and>
      (ict_ReadOnly it \<longleftrightarrow> \<not> has_role s (ch_WorkspaceID ch) sub RoleMember)) \<and>
    read_ok (svc_AuthorizeChat (fold (\<lambda>(j, sub, r, ro, now) s. snd (mem_CreateChatTicket s j sub r ro now)) later t) nid room u)
      (\<lambda>a. Inr (cht_Sub a, cht_ReadOnly a)) =
    (if \<not> u < now + CollabTicketTTL then Inl ErrUnauthorized
     else if room = k then Inr (sub, ict_ReadOnly it) else Inl ErrForbidden)"
proof -
  obtain ch role where ch: "channels s k = Some ch" "mem_MemberRole s (ch_WorkspaceID ch) sub = Inr role"
    "ict_ReadOnly it = (\<not> RoleAtLeast role RoleMember)" "t = snd (mem_CreateChatTicket s nid sub k (ict_ReadOnly it) now)"
    using run
    by (auto simp: svc_IssueChatTicket_def svc_GetChannel_def mem_GetChannel_def mem_CreateChatTicket_def Let_def
        guard_ok_def split: sum.splits option.splits)
  have role: "has_role s (ch_WorkspaceID ch) sub need \<longleftrightarrow> RoleAtLeast role need" for need
    using ch(2) by (auto simp: has_role_def mem_MemberRole_def split: option.splits)
  show ?thesis
    using chat_tickets.ticket_opens [OF assms(2,3), of s sub k "ict_ReadOnly it" now u] ch(1,3) role
    unfolding chat_check_def ch(4) [symmetric] by auto
qed

theorem chat_ticket_contract_witness:
  "\<exists>it t. svc_IssueChatTicket demo_chat ''t'' ''gus'' ''c'' 100 = (Inr it, t) \<and> ict_ReadOnly it \<and>
     svc_AuthorizeChat t ''t'' ''d'' 200 = Inl ErrForbidden"
proof -
  obtain it t where run: "svc_IssueChatTicket demo_chat ''t'' ''gus'' ''c'' 100 = (Inr it, t)"
    by (auto simp: svc_IssueChatTicket_def svc_GetChannel_def mem_GetChannel_def demo_chat_maps demo_channel_def
        svc_requireRead_def svc_requireRole_def mem_MemberRole_def demo_team_members mem_CreateChatTicket_def Let_def)
  have "\<not> has_role demo_chat ''w'' ''gus'' RoleMember"
    by (simp add: has_role_def demo_chat_maps demo_team_members)
  then show ?thesis
    using chat_ticket_contract [OF run, of "''d''" "[]" 200] run
    by (auto simp: demo_chat_maps demo_channel_def CollabTicketTTL_def Minute_def read_ok_def split: sum.splits)
qed

end
