(* ===== verification/Files.thy ===== *)
theory Files
  imports SvcFiles Contracts
begin

text \<open>
  The files component as a whole: its requests on the store and the upload directory, the handler that
  serves a file (\<open>serveFileContent\<close> of \<open>web/files.go\<close>), the invariant that ties the records to the
  contents on disk, and its preservation.
\<close>

section \<open>Requests\<close>

type_synonym disk = "string \<rightharpoonup> string"

datatype file_req =
    SaveLocalFile OS id id string id string string string int string time
  | LinkRemoteFile id string id string id string string int time
  | AttachPageFile "id list" string id id

fun exec_file :: "Env \<Rightarrow> file_req \<Rightarrow> Store \<times> disk \<Rightarrow> unit result \<times> Store \<times> disk" where
  "exec_file env (SaveLocalFile os nid token sub wsID purpose name ctype declared data now) (s, fs) =
     (case svc_SaveLocalFile env os s fs nid token sub wsID purpose name ctype declared data now of
        (r, s', fs') \<Rightarrow> (fst (outcome (r, s')), s', fs'))"
| "exec_file env (LinkRemoteFile token sub wsID purpose fileID name ctype declared now) (s, fs) =
     (case outcome (svc_LinkRemoteFile env s token sub wsID purpose fileID name ctype declared now) of
        (r, s') \<Rightarrow> (r, s', fs))"
| "exec_file env (AttachPageFile ks sub pageID fileID) (s, fs) =
     (case outcome (svc_AttachPageFile env ks s sub pageID fileID) of (r, s') \<Rightarrow> (r, s', fs))"

fun runtime_file :: "Store \<Rightarrow> file_req \<Rightarrow> bool" where
  "runtime_file s (SaveLocalFile os nid token sub wsID purpose name ctype declared data now) \<longleftrightarrow> fresh s nid"
| "runtime_file s _ \<longleftrightarrow> True"

text \<open>
  \<open>serveFileContent\<close>: the record the token opens, then the contents of its path. What it answers is the
  content type and the bytes.
\<close>

definition serveFileContent :: "bool \<Rightarrow> Store \<Rightarrow> disk \<Rightarrow> id \<Rightarrow> string \<Rightarrow> (string \<times> string) result" where
  "serveFileContent tenant s fs fileID t =
     read_ok (svc_OpenFileByToken tenant s fileID (TrimSpace t)) (\<lambda>f.
       if sf_Provider f \<noteq> FileProviderLocal \<or> sf_Path f = [] then Inl ErrNotFound
       else case fs (sf_Path f) of None \<Rightarrow> Inl ErrNotFound | Some data \<Rightarrow> Inr (sf_ContentType f, data))"

section \<open>Uploads in one step\<close>

text \<open>The record that an upload leaves.\<close>

definition uploaded :: "Env \<Rightarrow> id \<Rightarrow> id \<Rightarrow> string \<Rightarrow> id \<Rightarrow> string \<Rightarrow> string \<Rightarrow> string \<Rightarrow> string \<Rightarrow> time \<Rightarrow> StoredFile" where
  "uploaded env nid token sub wsID purpose name ctype data now =
     \<lparr>sf_ID = nid, sf_WorkspaceID = wsID, sf_UploaderSub = sub, sf_Purpose = purpose,
      sf_Provider = FileProviderLocal, sf_ContentType = (if ctype = [] then ''application/octet-stream'' else ctype),
      sf_Size = int (length data), sf_Name = file_name name, sf_ViewToken = token,
      sf_Path = Join (env_uploadDir env) nid, sf_CreatedAt = now\<rparr>"

definition accepts_upload :: "Env \<Rightarrow> OS \<Rightarrow> Store \<Rightarrow> disk \<Rightarrow> id \<Rightarrow> string \<Rightarrow> id \<Rightarrow> string \<Rightarrow> int \<Rightarrow> string \<Rightarrow> bool" where
  "accepts_upload env os s fs nid sub wsID purpose declared data \<longleftrightarrow>
     has_role s wsID sub RoleMember \<and> workspaces s wsID \<noteq> None \<and> ValidFilePurpose purpose \<and>
     0 \<le> declared \<and> declared \<le> MaxUploadBytes \<and> int (length data) \<le> MaxUploadBytes \<and>
     os_mkdir os \<and> os_open os \<and> os_copy os \<and> fs (Join (env_uploadDir env) nid) = None"

lemma limited_copy:
  "int (length (take (nat (MaxUploadBytes + 1)) data)) \<le> MaxUploadBytes \<longleftrightarrow> int (length data) \<le> MaxUploadBytes"
  "int (length data) \<le> MaxUploadBytes \<Longrightarrow> take (nat (MaxUploadBytes + 1)) data = data"
  by (auto simp: MaxUploadBytes_def min_def)

lemma upd_absent [simp]: "m k = None \<Longrightarrow> m(k := None) = m"
  by auto

lemma SaveLocalFile_cases:
  "if accepts_upload env os s fs nid sub wsID purpose declared data
   then svc_SaveLocalFile env os s fs nid token sub wsID purpose name ctype declared data now =
     (Inr (toFileView env (uploaded env nid token sub wsID purpose name ctype data now)),
      s\<lparr>files := (files s)(nid \<mapsto> uploaded env nid token sub wsID purpose name ctype data now)\<rparr>,
      fs(Join (env_uploadDir env) nid \<mapsto> data))
   else \<exists>e. svc_SaveLocalFile env os s fs nid token sub wsID purpose name ctype declared data now = (Inl e, s, fs)"
proof (cases "svc_requireWrite s wsID sub")
  case (Inl e)
  then have "\<not> has_role s wsID sub RoleMember"
    using requireRole_cases [of s wsID sub RoleMember] by (auto simp: svc_requireWrite_def)
  with Inl show ?thesis by (simp add: svc_SaveLocalFile_def accepts_upload_def)
next
  case (Inr u)
  then have role: "has_role s wsID sub RoleMember" by (simp add: svc_requireWrite_def)
  show ?thesis
  proof (cases "int (length data) \<le> MaxUploadBytes")
    case True
    then show ?thesis
      using Inr role
      by (auto simp: svc_SaveLocalFile_def accepts_upload_def uploaded_def limited_copy mem_SaveFile_def Let_def)
  next
    case False
    then have "\<not> int (length (take (nat (MaxUploadBytes + 1)) data)) \<le> MaxUploadBytes"
      by (simp only: limited_copy not_False_eq_True)
    with False show ?thesis
      using Inr role
      by (auto simp: svc_SaveLocalFile_def accepts_upload_def Let_def simp del: length_take)
  qed
qed

section \<open>The invariant\<close>

text \<open>
  \<open>record_ok\<close>: the record has its own key, a workspace that exists, a purpose, a size within the bound,
  and, when the file is a local one, contents of that size on the disk.
\<close>

definition record_ok :: "(id \<rightharpoonup> Workspace) \<Rightarrow> disk \<Rightarrow> id \<Rightarrow> StoredFile \<Rightarrow> bool" where
  "record_ok W fs k f \<longleftrightarrow> sf_ID f = k \<and> W (sf_WorkspaceID f) \<noteq> None \<and> ValidFilePurpose (sf_Purpose f) \<and>
     0 \<le> sf_Size f \<and> sf_Size f \<le> MaxUploadBytes \<and> sf_Name f \<notin> {[], ''.'', ''..''} \<and>
     (sf_Provider f = FileProviderLocal \<longrightarrow> (\<exists>data. fs (sf_Path f) = Some data \<and> int (length data) = sf_Size f))"

definition file_inv :: "Store \<Rightarrow> disk \<Rightarrow> bool" where
  "file_inv s fs \<longleftrightarrow>
     (\<forall>k f. files s k = Some f \<longrightarrow> record_ok (workspaces s) fs k f) \<and>
     (\<forall>p fids. pageFiles s p = Some fids \<longrightarrow> pages s p \<noteq> None \<and> distinct fids \<and> (\<forall>k \<in> set fids. files s k \<noteq> None))"

lemma file_inv_New: "file_inv New fs"
  by (simp add: file_inv_def New_def)

lemma file_invD:
  assumes "file_inv s fs"
  shows "files s k = Some f \<Longrightarrow> record_ok (workspaces s) fs k f"
    and "pageFiles s p = Some fids \<Longrightarrow> pages s p \<noteq> None \<and> distinct fids \<and> (\<forall>k \<in> set fids. files s k \<noteq> None)"
  using assms unfolding file_inv_def by blast+

lemma file_inv_cong:
  assumes "file_part t = file_part s" and "dom (workspaces s) \<subseteq> dom (workspaces t)" and "dom (pages s) \<subseteq> dom (pages t)"
    and iv: "file_inv s fs"
  shows "file_inv t fs"
proof -
  have eqs: "files t = files s" "pageFiles t = pageFiles s" using assms(1) by (simp_all add: file_part_def)
  have "record_ok (workspaces t) fs k f" if "files s k = Some f" for k f
    using file_invD(1) [OF iv that] assms(2) by (auto simp: record_ok_def)
  moreover have "pages t p \<noteq> None" if "pages s p \<noteq> None" for p
    using that assms(3) by blast
  ultimately show ?thesis using file_invD(2) [OF iv] by (simp add: file_inv_def eqs)
qed

lemma file_name_shape: "file_name name \<notin> {[], ''.'', ''..''}"
  by (simp add: file_name_def Let_def)

lemma file_inv_put:
  assumes iv: "file_inv s fs" and ok: "record_ok (workspaces s) fs' k f"
    and keep: "\<And>p data. fs p = Some data \<Longrightarrow> fs' p = Some data"
  shows "file_inv (s\<lparr>files := (files s)(k \<mapsto> f)\<rparr>) fs'"
proof -
  have "record_ok (workspaces s) fs' j g" if "files s j = Some g" for j g
    using file_invD(1) [OF iv that] keep by (force simp: record_ok_def)
  then show ?thesis using ok file_invD(2) [OF iv] by (simp add: file_inv_def)
qed

lemma uploaded_ok:
  assumes "accepts_upload env os s fs nid sub wsID purpose declared data"
  shows "record_ok (workspaces s) (fs(Join (env_uploadDir env) nid \<mapsto> data)) nid
    (uploaded env nid token sub wsID purpose name ctype data now)"
  using assms file_name_shape [of name] by (simp add: record_ok_def uploaded_def accepts_upload_def)

theorem exec_file_inv:
  assumes iv: "file_inv s fs"
  shows "case snd (exec_file env r (s, fs)) of (s', fs') \<Rightarrow> file_inv s' fs'"
proof (cases r)
  case (SaveLocalFile os nid token sub wsID purpose name ctype declared data now)
  show ?thesis
  proof (cases "accepts_upload env os s fs nid sub wsID purpose declared data")
    case True
    have "file_inv (s\<lparr>files := (files s)(nid \<mapsto> uploaded env nid token sub wsID purpose name ctype data now)\<rparr>)
        (fs(Join (env_uploadDir env) nid \<mapsto> data))"
      by (rule file_inv_put [OF iv uploaded_ok [OF True]]) (use True in \<open>auto simp: accepts_upload_def\<close>)
    then show ?thesis
      using SaveLocalFile_cases [of env os s fs nid sub wsID purpose declared data token name ctype now] True
      by (simp add: SaveLocalFile outcome_def)
  next
    case False
    then show ?thesis
      using SaveLocalFile_cases [of env os s fs nid sub wsID purpose declared data token name ctype now] iv
      by (auto simp: SaveLocalFile outcome_def)
  qed
next
  case (LinkRemoteFile token sub wsID purpose fileID name ctype declared now)
  have put: "file_inv (s\<lparr>files := (files s)(k \<mapsto> f)\<rparr>) fs" if "record_ok (workspaces s) fs k f" for k f
    by (rule file_inv_put [OF iv that])
  have "file_inv (snd (svc_LinkRemoteFile env s token sub wsID purpose fileID name ctype declared now)) fs"
    using iv file_name_shape [of name]
    by (auto simp: svc_LinkRemoteFile_def mem_SaveFile_def Let_def record_ok_def FileProviderP03_def FileProviderLocal_def
        intro!: put guard_ok_inv [where P = "\<lambda>s. file_inv s fs"])
  then show ?thesis by (simp add: LinkRemoteFile split_beta)
next
  case (AttachPageFile ks sub pageID fileID)
  have "file_inv (snd (mem_AttachPageFile s pageID fileID)) fs"
    using iv file_invD(2) [OF iv, of pageID]
    by (auto simp: mem_AttachPageFile_def file_inv_def get_list_def split: option.splits)
  then have "file_inv (snd (svc_AttachPageFile env ks s sub pageID fileID)) fs"
    using iv by (auto simp: svc_AttachPageFile_def intro!: guard_ok_inv [where P = "\<lambda>s. file_inv s fs"]
        call_ok_inv [where P = "\<lambda>s. file_inv s fs"])
  then show ?thesis by (simp add: AttachPageFile split_beta)
qed

end
