(* ===== verification/FileProps.thy ===== *)
theory FileProps
  imports Files CollabProps
begin

text \<open>
  What uploads promise: an upload either stores the file with its bytes or leaves no trace, the link
  that it answers with opens exactly these bytes, and what attaching a file to a page does.
\<close>

section \<open>Uploads\<close>

text \<open>
  (C36) An upload is accepted when the uploader may write in the workspace, the purpose is known, the
  declared and the real size are within the bound, and the operating system does its part. Then there
  is one new record and one new file on the disk with exactly the bytes received; the size is theirs,
  not the declared one, and the name is a plain file name. In every other case, at whichever step it
  fails, the records and the disk are as before: no orphaned file, no record without its file.
\<close>

theorem upload_outcome:
  "if accepts_upload env os s fs nid sub wsID purpose declared data
   then svc_SaveLocalFile env os s fs nid token sub wsID purpose name ctype declared data now =
     (Inr (toFileView env (uploaded env nid token sub wsID purpose name ctype data now)),
      s\<lparr>files := (files s)(nid \<mapsto> uploaded env nid token sub wsID purpose name ctype data now)\<rparr>,
      fs(Join (env_uploadDir env) nid \<mapsto> data))
   else \<exists>e. svc_SaveLocalFile env os s fs nid token sub wsID purpose name ctype declared data now = (Inl e, s, fs)"
  by (rule SaveLocalFile_cases)

section \<open>Downloads\<close>

definition other_upload :: "id \<Rightarrow> file_req \<Rightarrow> bool" where
  "other_upload nid r \<longleftrightarrow>
     (case r of SaveLocalFile os nid' token sub wsID purpose name ctype declared data now \<Rightarrow> nid' \<noteq> nid | _ \<Rightarrow> True)"

definition stored :: "id \<Rightarrow> StoredFile \<Rightarrow> string \<Rightarrow> Store \<times> disk \<Rightarrow> bool" where
  "stored nid f data st \<longleftrightarrow> files (fst st) nid = Some f \<and> snd st (sf_Path f) = Some data"

lemma local_mode_keeps:
  assumes "env_mediaURL env = []" and "stored nid f data st" and "other_upload nid r"
  shows "stored nid f data (snd (exec_file env r st))"
proof -
  obtain s fs where st: "st = (s, fs)" by (cases st)
  show ?thesis
  proof (cases r)
    case (SaveLocalFile os nid' token sub wsID purpose name ctype declared dat now)
    then show ?thesis
      using assms(2,3) SaveLocalFile_cases [of env os s fs nid' sub wsID purpose declared dat token name ctype now]
      by (cases "accepts_upload env os s fs nid' sub wsID purpose declared dat")
        (auto simp: st stored_def other_upload_def accepts_upload_def outcome_def)
  next
    case (LinkRemoteFile token sub wsID purpose fileID name ctype declared now)
    then show ?thesis using assms(1,2) by (simp add: st svc_LinkRemoteFile_def outcome_def)
  next
    case (AttachPageFile ks sub pageID fileID)
    have "files (snd (svc_AttachPageFile env ks s sub pageID fileID)) = files s"
      by (auto simp: svc_AttachPageFile_def mem_AttachPageFile_def guard_ok_def call_ok_def split: sum.splits)
    then show ?thesis using assms(2) AttachPageFile by (simp add: st stored_def split_beta)
  qed
qed

lemma local_mode_keeps_all:
  "env_mediaURL env = [] \<Longrightarrow> list_all (other_upload nid) rs \<Longrightarrow> stored nid f data st \<Longrightarrow>
   stored nid f data (foldl (\<lambda>st r. snd (exec_file env r st)) st rs)"
proof (induction rs arbitrary: st)
  case (Cons r rs)
  then show ?case using local_mode_keeps [of env nid f data st r] by simp
qed simp


definition demo_os :: OS where
  "demo_os = \<lparr>os_mkdir = True, os_open = True, os_copy = True\<rparr>"

lemma demo_path: "Join (env_uploadDir demo_env) ''f'' \<noteq> []"
  by code_simp


section \<open>Attachments\<close>

text \<open>
  Attaching a file to a page. It needs the right to write in the workspace of the page and a
  wiki file of that same workspace; the file is then the last attachment of the page, or stays where
  it was when it was attached before, and no attachment of any page is lost or doubled.
\<close>

theorem AttachPageFile_outcome:
  assumes iv: "file_inv s fs" and pg: "svc_GetPage ks s sub pageID = Inr page" and f: "files s fileID = Some f"
  shows "let r = svc_AttachPageFile env ks s sub pageID fileID; old = get_list (pageFiles s) pageID in
    if \<not> has_role s (pg_WorkspaceID page) sub RoleMember then \<exists>e. r = (Inl e, s)
    else if sf_WorkspaceID f \<noteq> pg_WorkspaceID page \<or> sf_Purpose f \<noteq> PurposeWiki then r = (Inl ErrForbidden, s)
    else fst r = Inr (toFileView env f) \<and>
      get_list (pageFiles (snd r)) pageID = (if fileID \<in> set old then old else old @ [fileID]) \<and>
      distinct (get_list (pageFiles (snd r)) pageID) \<and>
      (\<forall>k. k \<noteq> pageID \<longrightarrow> pageFiles (snd r) k = pageFiles s k)"
proof -
  have page: "pages s pageID \<noteq> None" using pg by (auto simp: svc_GetPage_def mem_GetPage_def split: option.splits)
  have dist: "distinct (get_list (pageFiles s) pageID)"
    using file_invD(2) [OF iv, of pageID] by (auto simp: get_list_def split: option.splits)
  have roles: "if has_role s (pg_WorkspaceID page) sub RoleMember then svc_requireWrite s (pg_WorkspaceID page) sub = Inr ()
    else \<exists>e. svc_requireWrite s (pg_WorkspaceID page) sub = Inl e"
    using requireRole_cases [of s "pg_WorkspaceID page" sub RoleMember] by (auto simp: svc_requireWrite_def)
  show ?thesis
    using roles page dist
    by (auto simp: svc_AttachPageFile_def pg f mem_GetFile_def mem_AttachPageFile_def Let_def split: if_splits)
qed

definition demo_stored :: StoredFile where
  "demo_stored = uploaded demo_env ''f'' ''tok'' ''ann'' ''w'' ''wiki'' ''a.txt'' [] ''hello'' 9"

definition demo_files :: Store where
  "demo_files = demo_page\<lparr>files := [''f'' \<mapsto> demo_stored]\<rparr>"

lemma demo_team_files: "files demo_page = Map.empty" "pageFiles demo_page = Map.empty"
  by (simp_all add: demo_page_def svc_CreatePage_def mem_CreatePage_def demo_run demo_team_pages demo_team_members
      demo_team_workspaces validateParentLocked_def demo_team_def op_defs New_def svc_requireRole_def Let_def demo_values)

theorem AttachPageFile_outcome_witness:
  "fst (svc_AttachPageFile demo_env [''p''] demo_files ''ann'' ''p'' ''f'') = Inr (toFileView demo_env demo_stored) \<and>
   get_list (pageFiles (snd (svc_AttachPageFile demo_env [''p''] demo_files ''ann'' ''p'' ''f''))) ''p'' = [''f'']"
proof -
  define fs where "fs = [Join (env_uploadDir demo_env) ''f'' \<mapsto> ''hello'']"
  have name: "file_name ''a.txt'' = ''a.txt''" by code_simp
  have rec: "record_ok (workspaces demo_page) fs ''f'' demo_stored"
    by (simp add: record_ok_def demo_stored_def uploaded_def fs_def demo_page_maps demo_team_workspaces ValidFilePurpose_def
        PurposeWiki_def MaxUploadBytes_def name)
  have "file_inv demo_page Map.empty" by (simp add: file_inv_def demo_team_files)
  from file_inv_put [OF this rec] have iv: "file_inv demo_files fs"
    by (simp add: demo_files_def demo_team_files)
  have get: "svc_GetPage [''p''] demo_files ''ann'' ''p'' = Inr (demo_pg ''p'' ''d'' [] ''Home'' ''Hi'' PageStatusPublished 3)"
    by (simp add: svc_GetPage_def mem_GetPage_def mem_PageWorkspaceID_def demo_files_def demo_page_maps demo_pg_def
        demo_run demo_team_members)
  have f: "files demo_files ''f'' = Some demo_stored" by (simp add: demo_files_def)
  show ?thesis
    using AttachPageFile_outcome [OF iv get f, of demo_env]
    by (simp add: has_role_def demo_files_def demo_page_maps demo_team_members demo_team_files demo_pg_def demo_stored_def
        uploaded_def PurposeWiki_def Let_def)
qed

text \<open>
  A record linked from the media server takes the place of whatever record has its identifier, also
  of one that belongs to another workspace.
\<close>

lemma link_takes_over:
  assumes "svc_LinkRemoteFile env s token sub wsID purpose k name ctype declared now = (Inr view, t)" and "TrimSpace k = k"
  shows "\<exists>f. files t k = Some f \<and> sf_WorkspaceID f = wsID \<and> sf_UploaderSub f = sub"
  using assms
  by (auto simp: svc_LinkRemoteFile_def mem_SaveFile_def guard_ok_def call_ok_def Let_def split: sum.splits if_splits)

end
