(* ===== verification/Shelf.thy ===== *)
theory Shelf
  imports Prelude
begin

text \<open>
  Things kept in numbered order under a parent: the columns of a board and the cards of a column
  have the same shape. A map \<open>idx\<close> from parents to lists of identifiers holds the order, and every
  thing in the map \<open>m\<close> knows its parent and its position. The locale \<open>shelf\<close> is the interface:
  how to read the parent and the position of a thing and how to set the position.
\<close>

text \<open>The loop \<open>for i, id := range ids { v := m[id]; v.Position = i; m[id] = v }\<close>.\<close>

definition put_at :: "(int \<Rightarrow> 'v \<Rightarrow> 'v) \<Rightarrow> 'v \<Rightarrow> nat \<Rightarrow> 'k \<Rightarrow> ('k \<rightharpoonup> 'v) \<Rightarrow> ('k \<rightharpoonup> 'v)" where
  "put_at setpos z i k m = m(k \<mapsto> setpos (int i) (get_zero z m k))"

definition renumber :: "(int \<Rightarrow> 'v \<Rightarrow> 'v) \<Rightarrow> 'v \<Rightarrow> 'k list \<Rightarrow> ('k \<rightharpoonup> 'v) \<Rightarrow> ('k \<rightharpoonup> 'v)" where
  "renumber setpos z ids m = fold_index (put_at setpos z) 0 ids m"

text \<open>
  \<open>shelved par pos idx m\<close>: the list of a parent holds its children, each once, in the order of
  their positions 0, 1, 2 and so on, and every child has a parent with a list.
\<close>

definition shelved :: "('v \<Rightarrow> 'k) \<Rightarrow> ('v \<Rightarrow> int) \<Rightarrow> ('k \<rightharpoonup> 'k list) \<Rightarrow> ('k \<rightharpoonup> 'v) \<Rightarrow> bool" where
  "shelved par pos idx m \<longleftrightarrow>
     (\<forall>p ids. idx p = Some ids \<longrightarrow>
        distinct ids \<and> (\<forall>k. k \<in> set ids \<longleftrightarrow> (\<exists>v. m k = Some v \<and> par v = p)) \<and>
        (\<forall>i < length ids. \<forall>v. m (ids ! i) = Some v \<longrightarrow> pos v = int i)) \<and>
     (\<forall>k v. m k = Some v \<longrightarrow> idx (par v) \<noteq> None)"

lemma shelvedD:
  assumes "shelved par pos idx m" and "idx p = Some ids"
  shows "distinct ids" and "k \<in> set ids \<longleftrightarrow> (\<exists>v. m k = Some v \<and> par v = p)"
    and "i < length ids \<Longrightarrow> m (ids ! i) = Some v \<Longrightarrow> pos v = int i"
  using assms by (auto simp: shelved_def)

lemma shelved_parent: "shelved par pos idx m \<Longrightarrow> m k = Some v \<Longrightarrow> \<exists>ids. idx (par v) = Some ids \<and> k \<in> set ids"
proof -
  assume sh: "shelved par pos idx m" and k: "m k = Some v"
  then have "idx (par v) \<noteq> None" unfolding shelved_def by blast
  then obtain ids where ids: "idx (par v) = Some ids" by blast
  then show ?thesis using shelvedD(2) [OF sh ids, of k] k by blast
qed

lemma shelved_idx: "shelved par pos idx m \<Longrightarrow> m k = Some v \<Longrightarrow> idx (par v) \<noteq> None"
  using shelved_parent by fastforce

lemma shelved_empty: "shelved par pos Map.empty Map.empty"
  by (simp add: shelved_def)

lemma put_at_apply: "put_at setpos z i k m j = (if j = k then Some (setpos (int i) (get_zero z m k)) else m j)"
  by (simp add: put_at_def)

lemma fold_put_other: "k \<notin> set ids \<Longrightarrow> fold_index (put_at setpos z) j ids m k = m k"
  by (induction ids arbitrary: j m) (auto simp: put_at_apply)

lemma fold_put_nth:
  "distinct ids \<Longrightarrow> i < length ids \<Longrightarrow>
   fold_index (put_at setpos z) j ids m (ids ! i) = Some (setpos (int (j + i)) (get_zero z m (ids ! i)))"
proof (induction ids arbitrary: i j m)
  case Nil
  then show ?case by simp
next
  case (Cons x xs)
  show ?case
  proof (cases i)
    case 0
    with Cons.prems show ?thesis by (simp add: fold_put_other) (simp add: put_at_apply)
  next
    case (Suc n)
    with Cons.prems have "xs ! n \<noteq> x" by (auto simp: in_set_conv_nth)
    with Suc Cons.prems Cons.IH [of n "Suc j"] show ?thesis by (simp add: get_zero_def put_at_apply)
  qed
qed

lemma renumber_other: "k \<notin> set ids \<Longrightarrow> renumber setpos z ids m k = m k"
  by (simp add: renumber_def fold_put_other)

lemma renumber_nth:
  "distinct ids \<Longrightarrow> i < length ids \<Longrightarrow>
   renumber setpos z ids m (ids ! i) = Some (setpos (int i) (get_zero z m (ids ! i)))"
  using fold_put_nth [of ids i setpos z 0 m] by (simp add: renumber_def)

lemma renumber_mem:
  assumes "distinct ids" and "k \<in> set ids"
  shows "\<exists>i < length ids. ids ! i = k \<and> renumber setpos z ids m k = Some (setpos (int i) (get_zero z m k))"
  using assms renumber_nth [OF assms(1)] by (metis in_set_conv_nth)

lemma renumber_dom: "distinct ids \<Longrightarrow> renumber setpos z ids m k = None \<longleftrightarrow> k \<notin> set ids \<and> m k = None"
  using renumber_mem renumber_other by (metis option.distinct(1))

lemma renumber_cong:
  assumes "distinct ids" and "\<And>k. k \<in> set ids \<Longrightarrow> m k = m' k" and "k \<in> set ids"
  shows "renumber setpos z ids m k = renumber setpos z ids m' k"
proof -
  obtain i where "i < length ids" "ids ! i = k" using assms(3) by (auto simp: in_set_conv_nth)
  with assms show ?thesis
    using renumber_nth [OF assms(1), of i setpos z m] renumber_nth [OF assms(1), of i setpos z m']
    by (simp add: get_zero_def)
qed

text \<open>What a renumbering keeps: everything \<open>setpos\<close> does not touch.\<close>

lemma renumber_keeps:
  assumes "distinct ids" and "\<And>k. k \<in> set ids \<Longrightarrow> m k \<noteq> None"
    and "\<And>i v. f (setpos i v) = f v"
  shows "map_option f (renumber setpos z ids m k) = map_option f (m k)"
proof (cases "k \<in> set ids")
  case True
  with assms(2) obtain v where "m k = Some v" by blast
  with True assms(1,3) show ?thesis using renumber_mem [OF assms(1) True, of setpos z m] by auto
qed (simp add: renumber_other)

text \<open>The changes that need no renumbering.\<close>

lemma shelved_replace:
  assumes sh: "shelved par pos idx m" and k: "m k = Some v" and v': "par v' = par v" "pos v' = pos v"
  shows "shelved par pos idx (m(k \<mapsto> v'))"
proof -
  have par_iff: "(\<exists>w. (m(k \<mapsto> v')) j = Some w \<and> par w = p) \<longleftrightarrow> (\<exists>w. m j = Some w \<and> par w = p)" for j p
    using k v' by auto
  show ?thesis
    using sh k v' unfolding shelved_def par_iff by (auto split: if_splits)
qed

lemma shelved_append:
  assumes sh: "shelved par pos idx m" and p: "idx p = Some ids" and k: "m k = None"
    and v: "par v = p" "pos v = int (length ids)"
  shows "shelved par pos (idx(p \<mapsto> ids @ [k])) (m(k \<mapsto> v))"
proof -
  have old: "j \<in> set qs \<longleftrightarrow> (\<exists>w. m j = Some w \<and> par w = q)" if "idx q = Some qs" for j q qs
    by (rule shelvedD(2) [OF sh that])
  have k': "k \<notin> set qs" if "idx q = Some qs" for q qs
    using old [OF that] k by simp
  show ?thesis
    unfolding shelved_def
  proof (intro conjI allI impI)
    fix q qs assume q: "(idx(p \<mapsto> ids @ [k])) q = Some qs"
    show "distinct qs" using q p k' shelvedD(1) [OF sh] by (auto split: if_splits)
    show "j \<in> set qs \<longleftrightarrow> (\<exists>w. (m(k \<mapsto> v)) j = Some w \<and> par w = q)" for j
      using q p v k' [of q qs] old [of q qs j] old [OF p, of j] by (auto split: if_splits)
    fix i w assume i: "i < length qs" "(m(k \<mapsto> v)) (qs ! i) = Some w"
    show "pos w = int i"
    proof (cases "q = p \<and> i = length ids")
      case True
      with q i v show ?thesis by auto
    next
      case False
      with q i p obtain rs where rs: "idx q = Some rs" "i < length rs" "qs ! i = rs ! i"
        by (fastforce simp: nth_append split: if_splits)
      then have "qs ! i \<noteq> k" using k' [OF rs(1)] nth_mem by metis
      with i rs show ?thesis using shelvedD(3) [OF sh rs(1,2)] by simp
    qed
  next
    fix j w assume "(m(k \<mapsto> v)) j = Some w"
    then show "(idx(p \<mapsto> ids @ [k])) (par w) \<noteq> None"
      using shelved_idx [OF sh] v by (auto split: if_splits)
  qed
qed

lemma shelved_new_parent:
  assumes sh: "shelved par pos idx m" and p: "idx p = None"
  shows "shelved par pos (idx(p \<mapsto> [])) m"
proof -
  have no: "\<not> (\<exists>v. m k = Some v \<and> par v = p)" for k
    using shelved_idx [OF sh] p by blast
  show ?thesis
    unfolding shelved_def
  proof (intro conjI allI impI)
    fix q qs assume q: "(idx(p \<mapsto> [])) q = Some qs"
    then show "distinct qs" using shelvedD(1) [OF sh] by (auto split: if_splits)
    show "k \<in> set qs \<longleftrightarrow> (\<exists>v. m k = Some v \<and> par v = q)" for k
      using q no [of k] shelvedD(2) [OF sh, of q qs k] by (auto split: if_splits)
    show "pos v = int i" if "i < length qs" "m (qs ! i) = Some v" for i v
      using q that shelvedD(3) [OF sh, of q qs i v] by (auto split: if_splits)
  next
    show "(idx(p \<mapsto> [])) (par v) \<noteq> None" if "m k = Some v" for k v
      using shelved_idx [OF sh that] by simp
  qed
qed

lemma shelved_drop_parent:
  assumes "shelved par pos idx m" and "idx p = Some []"
  shows "shelved par pos (idx(p := None)) m"
  using assms shelvedD(2) [OF assms] by (auto simp: shelved_def)

lemma shelved_map:
  assumes sh: "shelved par pos idx m" and f: "\<And>v. par (f v) = par v" "\<And>v. pos (f v) = pos v"
  shows "shelved par pos idx (\<lambda>k. map_option f (m k))"
proof -
  have "(\<exists>w. map_option f (m j) = Some w \<and> par w = p) \<longleftrightarrow> (\<exists>w. m j = Some w \<and> par w = p)" for j p
    by (cases "m j") (auto simp: f)
  then show ?thesis
    using sh f unfolding shelved_def by (simp split: option.splits) (metis map_option_eq_Some)
qed

text \<open>The entry a later write replaces does not matter to the renumbering.\<close>

lemma renumber_override:
  assumes "distinct ids"
  shows "(renumber setpos z ids (m(k := w)))(k \<mapsto> v) = (renumber setpos z ids m)(k \<mapsto> v)"
proof
  fix j
  have "renumber setpos z ids (m(k := w)) j = renumber setpos z ids m j" if "j \<noteq> k"
  proof (cases "j \<in> set ids")
    case True
    then obtain n where "n < length ids" "ids ! n = j" by (auto simp: in_set_conv_nth)
    with that assms show ?thesis
      using renumber_nth [of ids n setpos z m] renumber_nth [of ids n setpos z "m(k := w)"]
      by (simp add: get_zero_def)
  qed (use that in \<open>simp add: renumber_other\<close>)
  then show "((renumber setpos z ids (m(k := w)))(k \<mapsto> v)) j = ((renumber setpos z ids m)(k \<mapsto> v)) j"
    by simp
qed

locale shelf =
  fixes par :: "'v \<Rightarrow> 'k" and pos :: "'v \<Rightarrow> int" and setpos :: "int \<Rightarrow> 'v \<Rightarrow> 'v" and z :: 'v
  assumes par_setpos [simp]: "par (setpos i v) = par v"
    and pos_setpos [simp]: "pos (setpos i v) = i"
begin

lemma renumber_par:
  assumes "distinct ids" and "\<And>k. k \<in> set ids \<Longrightarrow> m k \<noteq> None"
  shows "(\<exists>v. renumber setpos z ids m k = Some v \<and> par v = p) \<longleftrightarrow> (\<exists>v. m k = Some v \<and> par v = p)"
proof -
  have "map_option par (renumber setpos z ids m k) = map_option par (m k)"
    by (rule renumber_keeps) (use assms in auto)
  then show ?thesis by (cases "m k"; cases "renumber setpos z ids m k") auto
qed

lemma renumber_pos:
  "distinct ids \<Longrightarrow> i < length ids \<Longrightarrow> renumber setpos z ids m (ids ! i) = Some v \<Longrightarrow> pos v = int i"
  by (auto simp: renumber_nth)

text \<open>A new order of the same children.\<close>

lemma shelved_permute:
  assumes sh: "shelved par pos idx m" and p: "idx p = Some ids"
    and ids': "distinct ids'" "set ids' = set ids"
  shows "shelved par pos (idx(p \<mapsto> ids')) (renumber setpos z ids' m)"
proof -
  have old: "k \<in> set ids \<longleftrightarrow> (\<exists>v. m k = Some v \<and> par v = p)" for k
    by (rule shelvedD(2) [OF sh p])
  have par_iff: "(\<exists>v. renumber setpos z ids' m k = Some v \<and> par v = q) \<longleftrightarrow> (\<exists>v. m k = Some v \<and> par v = q)" for k q
    by (rule renumber_par [OF ids'(1)]) (use ids' old in auto)
  show ?thesis
    unfolding shelved_def
  proof (intro conjI allI impI)
    fix q qs assume q: "(idx(p \<mapsto> ids')) q = Some qs"
    show "distinct qs" using q ids' shelvedD(1) [OF sh] by (auto split: if_splits)
    show "k \<in> set qs \<longleftrightarrow> (\<exists>v. renumber setpos z ids' m k = Some v \<and> par v = q)" for k
      unfolding par_iff using q ids' old shelvedD(2) [OF sh, of q qs k] by (auto split: if_splits)
    fix i v assume i: "i < length qs" "renumber setpos z ids' m (qs ! i) = Some v"
    show "pos v = int i"
    proof (cases "q = p")
      case True
      with q i ids' show ?thesis by (auto intro: renumber_pos)
    next
      case False
      with q have q': "idx q = Some qs" by simp
      with i obtain w where "m (qs ! i) = Some w" "par w = q"
        using shelvedD(2) [OF sh q'] nth_mem by blast
      with False old ids' have "qs ! i \<notin> set ids'" by auto
      with i q' show ?thesis using shelvedD(3) [OF sh q'] by (simp add: renumber_other)
    qed
  next
    fix k v assume "renumber setpos z ids' m k = Some v"
    then have "\<exists>w. m k = Some w \<and> par w = par v" using par_iff by blast
    then show "(idx(p \<mapsto> ids')) (par v) \<noteq> None"
      using shelved_idx [OF sh] by (metis fun_upd_apply option.distinct(1))
  qed
qed

text \<open>Taking a child out.\<close>

lemma shelved_remove:
  assumes sh: "shelved par pos idx m" and p: "idx p = Some ids"
  shows "shelved par pos (idx(p \<mapsto> filter (\<lambda>j. j \<noteq> k) ids))
    ((renumber setpos z (filter (\<lambda>j. j \<noteq> k) ids) m)(k := if k \<in> set ids then None else m k))"
proof -
  let ?ids = "filter (\<lambda>j. j \<noteq> k) ids" let ?m = "m(k := if k \<in> set ids then None else m k)"
  have old: "j \<in> set ids \<longleftrightarrow> (\<exists>v. m j = Some v \<and> par v = p)" for j
    by (rule shelvedD(2) [OF sh p])
  have d: "distinct ids" by (rule shelvedD(1) [OF sh p])
  define ids0 where "ids0 = ?ids"
  have in0: "j \<in> set ids0 \<longleftrightarrow> j \<in> set ids \<and> j \<noteq> k" for j by (auto simp: ids0_def)
  have d0: "distinct ids0" using d by (simp add: ids0_def)
  have par_iff: "(\<exists>v. renumber setpos z ids0 m j = Some v \<and> par v = q) \<longleftrightarrow> (\<exists>v. m j = Some v \<and> par v = q)" for j q
    by (rule renumber_par [OF d0]) (use in0 old in auto)
  have "shelved par pos (idx(p \<mapsto> ids0)) ((renumber setpos z ids0 m)(k := if k \<in> set ids then None else m k))"
    unfolding shelved_def
  proof (intro conjI allI impI)
    fix q qs assume q: "(idx(p \<mapsto> ids0)) q = Some qs"
    show "distinct qs" using q d0 shelvedD(1) [OF sh] by (auto split: if_splits)
    show "j \<in> set qs \<longleftrightarrow> (\<exists>v. ((renumber setpos z ids0 m)(k := if k \<in> set ids then None else m k)) j = Some v \<and> par v = q)" for j
      using q in0 old par_iff [of j q] shelvedD(2) [OF sh, of q qs j] by (auto split: if_splits)
    fix i v assume i: "i < length qs"
      "((renumber setpos z ids0 m)(k := if k \<in> set ids then None else m k)) (qs ! i) = Some v"
    show "pos v = int i"
    proof (cases "q = p")
      case True
      with q have "qs = ids0" by simp
      moreover have "qs ! i \<noteq> k" using i(1) in0 \<open>qs = ids0\<close> nth_mem by blast
      ultimately show ?thesis using i d0 by (auto intro: renumber_pos)
    next
      case False
      with q have q': "idx q = Some qs" by simp
      have mem: "qs ! i \<in> set qs" using i(1) by simp
      then obtain w where w: "m (qs ! i) = Some w" "par w = q"
        using shelvedD(2) [OF sh q'] by blast
      with False old in0 have "qs ! i \<notin> set ids0" "qs ! i \<notin> set ids" by auto
      with i w have "v = w" by (auto simp: renumber_other split: if_splits)
      with i w show ?thesis using shelvedD(3) [OF sh q'] by blast
    qed
  next
    fix j v assume "((renumber setpos z ids0 m)(k := if k \<in> set ids then None else m k)) j = Some v"
    then have "\<exists>w. m j = Some w \<and> par w = par v" using par_iff [of j "par v"] by (auto split: if_splits)
    then show "(idx(p \<mapsto> ids0)) (par v) \<noteq> None"
      using shelved_idx [OF sh] by (metis fun_upd_apply option.distinct(1))
  qed
  then show ?thesis by (simp add: ids0_def)
qed

text \<open>Putting a new child in at position \<open>i\<close>.\<close>

lemma shelved_insert:
  assumes sh: "shelved par pos idx m" and p: "idx p = Some ids" and k: "m k = None" and i: "i \<le> length ids"
    and v: "par v = p" "pos v = int i"
  shows "shelved par pos (idx(p \<mapsto> take i ids @ [k] @ drop i ids))
    ((renumber setpos z (take i ids @ [k] @ drop i ids) m)(k \<mapsto> v))"
proof -
  define ids' where "ids' = take i ids @ [k] @ drop i ids"
  have "k \<notin> set ids" using shelvedD(2) [OF sh p, of k] k by simp
  moreover have "mset ids' = mset (ids @ [k])"
  proof -
    have "mset ids' = mset [k] + (mset (take i ids) + mset (drop i ids))"
      by (simp add: ids'_def)
    also have "mset (take i ids) + mset (drop i ids) = mset ids"
      by (metis append_take_drop_id mset_append)
    finally show ?thesis by simp
  qed
  moreover have "distinct (ids @ [k])" using shelvedD(1) [OF sh p] \<open>k \<notin> set ids\<close> by simp
  ultimately have ids': "distinct ids'" "set ids' = set (ids @ [k])"
    using mset_eq_setD [of ids' "ids @ [k]"] mset_eq_imp_distinct_iff [of ids' "ids @ [k]"] by simp_all
  have "shelved par pos (idx(p \<mapsto> ids @ [k])) (m(k \<mapsto> setpos (int (length ids)) v))"
    using v by (intro shelved_append [OF sh p k]) auto
  then have "shelved par pos ((idx(p \<mapsto> ids @ [k]))(p \<mapsto> ids'))
      (renumber setpos z ids' (m(k \<mapsto> setpos (int (length ids)) v)))"
    by (rule shelved_permute [where ids = "ids @ [k]"]) (use ids' in simp_all)
  moreover have "renumber setpos z ids' (m(k \<mapsto> setpos (int (length ids)) v)) k =
      Some (setpos (int i) (setpos (int (length ids)) v))"
  proof -
    have "i < length ids'" "ids' ! i = k" using i by (auto simp: ids'_def nth_append)
    then show ?thesis
      using renumber_nth [OF ids'(1), of i setpos z "m(k \<mapsto> setpos (int (length ids)) v)"] by simp
  qed
  ultimately have "shelved par pos (idx(p \<mapsto> ids'))
      ((renumber setpos z ids' (m(k \<mapsto> setpos (int (length ids)) v)))(k \<mapsto> v))"
    using v by (simp add: shelved_replace)
  then show ?thesis unfolding renumber_override [OF ids'(1)] by (simp add: ids'_def)
qed

end

end
