(* ===== verification/MemBoards.thy ===== *)
theory MemBoards
  imports Store Shelf
begin

text \<open>
  \<open>store/memory/store.go\<close>: boards, their columns, the cards of a column, and sprints. A board
  keeps the order of its columns in \<open>boardCols\<close>, a column the order of its cards in
  \<open>columnCards\<close>; columns and cards also carry their position.
\<close>

section \<open>Boards\<close>

definition defaultNames :: "string list" where
  "defaultNames = [''To Do'', ''In Progress'', ''Done'']"

text \<open>The loop over the default names: column \<open>cid\<close> with name \<open>n\<close> at position \<open>i\<close>.\<close>

definition new_column :: "id \<Rightarrow> time \<Rightarrow> nat \<times> id \<times> string \<Rightarrow> Column" where
  "new_column bid now = (\<lambda>(i, cid, n).
     \<lparr>co_ID = cid, co_BoardID = bid, co_Name = n, co_Position = int i, co_CreatedAt = now\<rparr>)"

definition add_column :: "Column \<Rightarrow> Store \<Rightarrow> Store" where
  "add_column col s =
     s\<lparr>columns := (columns s)(co_ID col \<mapsto> col), columnCards := (columnCards s)(co_ID col \<mapsto> [])\<rparr>"

definition mem_CreateBoard ::
  "Store \<Rightarrow> id \<Rightarrow> id list \<Rightarrow> id \<Rightarrow> string \<Rightarrow> time \<Rightarrow> (Board \<times> Column list) result \<times> Store" where
  "mem_CreateBoard s bid cids wsID name now =
     (if workspaces s wsID = None then (Inl ErrNotFound, s)
      else (let board = \<lparr>bd_ID = bid, bd_WorkspaceID = wsID, bd_Name = name, bd_CreatedAt = now,
                         bd_ArchivedAt = None\<rparr>;
                s1 = s\<lparr>boards := (boards s)(bid \<mapsto> board)\<rparr>;
                cols = map (new_column bid now) (List.enumerate 0 (zip cids defaultNames));
                s2 = fold add_column cols s1
            in (Inr (board, cols), s2\<lparr>boardCols := (boardCols s2)(bid \<mapsto> map co_ID cols)\<rparr>)))"

definition mem_ArchiveBoard :: "Store \<Rightarrow> id \<Rightarrow> time \<Rightarrow> unit result \<times> Store" where
  "mem_ArchiveBoard s boardID now =
     (case boards s boardID of
        None \<Rightarrow> (Inl ErrNotFound, s)
      | Some b \<Rightarrow> (Inr (), s\<lparr>boards := (boards s)(boardID \<mapsto> b\<lparr>bd_ArchivedAt := Some now\<rparr>)\<rparr>))"

definition mem_UnarchiveBoard :: "Store \<Rightarrow> id \<Rightarrow> unit result \<times> Store" where
  "mem_UnarchiveBoard s boardID =
     (case boards s boardID of
        None \<Rightarrow> (Inl ErrNotFound, s)
      | Some b \<Rightarrow> (Inr (), s\<lparr>boards := (boards s)(boardID \<mapsto> b\<lparr>bd_ArchivedAt := None\<rparr>)\<rparr>))"

definition mem_ListBoards :: "id list \<Rightarrow> Store \<Rightarrow> id \<Rightarrow> Board list result" where
  "mem_ListBoards ks s wsID =
     (if workspaces s wsID = None then Inl ErrNotFound
      else Inr (sort_slice (\<lambda>a b. bd_CreatedAt a < bd_CreatedAt b)
                  (filter (\<lambda>b. bd_WorkspaceID b = wsID) (range_values ks (boards s)))))"

definition column_with_cards :: "Store \<Rightarrow> id \<Rightarrow> ColumnWithCards" where
  "column_with_cards s colID =
     \<lparr>cwc_Column = get_zero zero_Column (columns s) colID,
      cwc_Cards = map (get_zero zero_Card (cards s)) (get_list (columnCards s) colID)\<rparr>"

definition mem_GetBoardDetail :: "Store \<Rightarrow> id \<Rightarrow> BoardDetail result" where
  "mem_GetBoardDetail s boardID =
     (case boards s boardID of
        None \<Rightarrow> Inl ErrNotFound
      | Some board \<Rightarrow> Inr \<lparr>bdd_Board = board,
                          bdd_Columns = map (column_with_cards s) (get_list (boardCols s) boardID)\<rparr>)"

definition mem_BoardWorkspaceID :: "Store \<Rightarrow> id \<Rightarrow> id result" where
  "mem_BoardWorkspaceID s boardID =
     (case boards s boardID of None \<Rightarrow> Inl ErrNotFound | Some b \<Rightarrow> Inr (bd_WorkspaceID b))"

definition mem_ColumnBoardID :: "Store \<Rightarrow> id \<Rightarrow> id result" where
  "mem_ColumnBoardID s columnID =
     (case columns s columnID of None \<Rightarrow> Inl ErrNotFound | Some col \<Rightarrow> Inr (co_BoardID col))"

section \<open>Columns\<close>

definition mem_CreateColumn :: "Store \<Rightarrow> id \<Rightarrow> id \<Rightarrow> string \<Rightarrow> time \<Rightarrow> Column result \<times> Store" where
  "mem_CreateColumn s nid boardID name now =
     (if boards s boardID = None then (Inl ErrNotFound, s)
      else (let ids = get_list (boardCols s) boardID;
                col = new_column boardID now (length ids, nid, name)
            in (Inr col, s\<lparr>columns := (columns s)(nid \<mapsto> col),
                           boardCols := (boardCols s)(boardID \<mapsto> ids @ [nid]),
                           columnCards := (columnCards s)(nid \<mapsto> [])\<rparr>)))"

definition mem_RenameColumn :: "Store \<Rightarrow> id \<Rightarrow> string \<Rightarrow> Column result \<times> Store" where
  "mem_RenameColumn s columnID name =
     (case columns s columnID of
        None \<Rightarrow> (Inl ErrNotFound, s)
      | Some col0 \<Rightarrow>
          (let col = col0\<lparr>co_Name := name\<rparr>
           in (Inr col, s\<lparr>columns := (columns s)(columnID \<mapsto> col)\<rparr>)))"

text \<open>The loop that renumbers columns: \<open>c := s.columns[id]; c.Position = i; s.columns[id] = c\<close>.\<close>

definition number_columns :: "id list \<Rightarrow> (id \<rightharpoonup> Column) \<Rightarrow> (id \<rightharpoonup> Column)" where
  "number_columns = renumber (\<lambda>i c. c\<lparr>co_Position := i\<rparr>) zero_Column"

definition mem_DeleteColumn :: "Store \<Rightarrow> id \<Rightarrow> unit result \<times> Store" where
  "mem_DeleteColumn s columnID =
     (case columns s columnID of
        None \<Rightarrow> (Inl ErrNotFound, s)
      | Some col \<Rightarrow>
          (if get_list (columnCards s) columnID \<noteq> [] then (Inl ErrInvalid, s)
           else let ids = get_list (boardCols s) (co_BoardID col) in
           if length ids \<le> 1 then (Inl ErrForbidden, s)
           else (let next_ids = filter (\<lambda>k. k \<noteq> columnID) ids;
                     cols = number_columns next_ids (columns s)
                 in (Inr (), s\<lparr>boardCols := (boardCols s)(co_BoardID col \<mapsto> next_ids),
                               columns := cols(columnID := None),
                               columnCards := (columnCards s)(columnID := None)\<rparr>))))"

text \<open>The loop that ticks off the identifiers already seen; \<open>None\<close> when one is not expected.\<close>

fun tick_off :: "id set \<Rightarrow> id list \<Rightarrow> id set option" where
  "tick_off seen [] = Some seen"
| "tick_off seen (k # ks) = (if k \<notin> seen then None else tick_off (seen - {k}) ks)"

definition mem_ReorderColumns :: "Store \<Rightarrow> id \<Rightarrow> id list \<Rightarrow> unit result \<times> Store" where
  "mem_ReorderColumns s boardID columnIDs =
     (if boards s boardID = None then (Inl ErrNotFound, s)
      else let current = get_list (boardCols s) boardID in
      if length current \<noteq> length columnIDs then (Inl ErrInvalid, s)
      else (case tick_off (set current) columnIDs of
              None \<Rightarrow> (Inl ErrInvalid, s)
            | Some seen \<Rightarrow>
                (if seen \<noteq> {} then (Inl ErrInvalid, s)
                 else (Inr (), s\<lparr>boardCols := (boardCols s)(boardID \<mapsto> columnIDs),
                                columns := number_columns columnIDs (columns s)\<rparr>))))"

section \<open>Cards\<close>

definition mem_CreateCard ::
  "Store \<Rightarrow> id \<Rightarrow> id \<Rightarrow> string \<Rightarrow> string \<Rightarrow> time \<Rightarrow> Card result \<times> Store" where
  "mem_CreateCard s nid columnID title description now =
     (case columns s columnID of
        None \<Rightarrow> (Inl ErrNotFound, s)
      | Some col \<Rightarrow>
     (case boards s (co_BoardID col) of
        None \<Rightarrow> (Inl ErrNotFound, s)
      | Some board \<Rightarrow>
          (let ids = get_list (columnCards s) columnID;
               card = \<lparr>ca_ID = nid, ca_ColumnID = columnID, ca_BoardID = bd_ID board, ca_Title = title,
                       ca_Description = description, ca_Position = int (length ids), ca_Version = 1,
                       ca_SprintID = [], ca_CompletedAt = (if ColumnIsDone (co_Name col) then Some now else None),
                       ca_AssigneeSub = [], ca_Priority = [], ca_DueDate = None,
                       ca_CreatedAt = now, ca_UpdatedAt = now\<rparr>
           in (Inr card, s\<lparr>cards := (cards s)(nid \<mapsto> card),
                           columnCards := (columnCards s)(columnID \<mapsto> ids @ [nid])\<rparr>))))"

definition mem_GetCard :: "Store \<Rightarrow> id \<Rightarrow> Card result" where
  "mem_GetCard s cardID = (case cards s cardID of None \<Rightarrow> Inl ErrNotFound | Some c \<Rightarrow> Inr c)"

definition mem_CardWorkspaceID :: "Store \<Rightarrow> id \<Rightarrow> id result" where
  "mem_CardWorkspaceID s cardID =
     (case cards s cardID of
        None \<Rightarrow> Inl ErrNotFound
      | Some c \<Rightarrow> (case boards s (ca_BoardID c) of None \<Rightarrow> Inl ErrNotFound | Some b \<Rightarrow> Inr (bd_WorkspaceID b)))"

definition mem_UpdateCard ::
  "Store \<Rightarrow> id \<Rightarrow> string \<Rightarrow> string \<Rightarrow> id option \<Rightarrow> int \<Rightarrow> time \<Rightarrow> Card locked_result \<times> Store" where
  "mem_UpdateCard s cardID title description sprintID version now =
     (case cards s cardID of
        None \<Rightarrow> (Inl (ErrNotFound, zero_Card), s)
      | Some c0 \<Rightarrow>
          (if ca_Version c0 \<noteq> version then (Inl (ErrConflict, c0), s)
           else let c1 = (if title \<noteq> [] then c0\<lparr>ca_Title := title\<rparr> else c0)\<lparr>ca_Description := description\<rparr>;
                    r = (case sprintID of
                           None \<Rightarrow> Inr c1
                         | Some sid \<Rightarrow>
                             (if sid = [] then Inr (c1\<lparr>ca_SprintID := []\<rparr>)
                              else (case sprints s sid of
                                      None \<Rightarrow> Inl ErrNotFound
                                    | Some sp \<Rightarrow>
                                        (if sp_BoardID sp \<noteq> ca_BoardID c1 then Inl ErrInvalid
                                         else Inr (c1\<lparr>ca_SprintID := sid\<rparr>)))))
                in (case r of
                      Inl e \<Rightarrow> (Inl (e, zero_Card), s)
                    | Inr c2 \<Rightarrow>
                        (let c = c2\<lparr>ca_Version := ca_Version c2 + 1, ca_UpdatedAt := now\<rparr>
                         in (Inr c, s\<lparr>cards := (cards s)(cardID \<mapsto> c)\<rparr>)))))"

definition number_cards :: "id list \<Rightarrow> (id \<rightharpoonup> Card) \<Rightarrow> (id \<rightharpoonup> Card)" where
  "number_cards = renumber (\<lambda>i c. c\<lparr>ca_Position := i\<rparr>) zero_Card"

definition reindexColumnLocked :: "id \<Rightarrow> Store \<Rightarrow> Store" where
  "reindexColumnLocked columnID s =
     s\<lparr>cards := number_cards (get_list (columnCards s) columnID) (cards s)\<rparr>"

definition mem_MoveCard ::
  "Store \<Rightarrow> id \<Rightarrow> id \<Rightarrow> int \<Rightarrow> int \<Rightarrow> time \<Rightarrow> Card locked_result \<times> Store" where
  "mem_MoveCard s cardID targetColumnID position0 version now =
     (case cards s cardID of
        None \<Rightarrow> (Inl (ErrNotFound, zero_Card), s)
      | Some c0 \<Rightarrow>
     (if ca_Version c0 \<noteq> version then (Inl (ErrConflict, c0), s)
      else (case columns s targetColumnID of
        None \<Rightarrow> (Inl (ErrNotFound, zero_Card), s)
      | Some targetCol \<Rightarrow>
     (if co_BoardID targetCol \<noteq> ca_BoardID c0 then (Inl (ErrForbidden, zero_Card), s)
      else
        let oldColumnID = ca_ColumnID c0;
            newOld = filter (\<lambda>k. k \<noteq> cardID) (get_list (columnCards s) oldColumnID);
            s1 = reindexColumnLocked oldColumnID (s\<lparr>columnCards := (columnCards s)(oldColumnID \<mapsto> newOld)\<rparr>);
            targetIDs = get_list (columnCards s1) targetColumnID;
            position1 = (if position0 < 0 then 0 else position0);
            position = (if position1 > int (length targetIDs) then int (length targetIDs) else position1);
            targetIDs' = take (nat position) targetIDs @ [cardID] @ drop (nat position) targetIDs;
            s2 = reindexColumnLocked targetColumnID
                   (s1\<lparr>columnCards := (columnCards s1)(targetColumnID \<mapsto> targetIDs')\<rparr>);
            completed = (if ColumnIsDone (co_Name targetCol)
                         then (if ca_CompletedAt c0 = None then Some now else ca_CompletedAt c0)
                         else None);
            c = c0\<lparr>ca_ColumnID := targetColumnID, ca_Position := position, ca_CompletedAt := completed,
                    ca_Version := ca_Version c0 + 1, ca_UpdatedAt := now\<rparr>
        in (Inr c, s2\<lparr>cards := (cards s2)(cardID \<mapsto> c)\<rparr>)))))"

definition mem_ListCardsInWorkspace :: "id list \<Rightarrow> Store \<Rightarrow> id \<Rightarrow> Card list result" where
  "mem_ListCardsInWorkspace ks s wsID =
     (if workspaces s wsID = None then Inl ErrNotFound
      else Inr (filter (\<lambda>c. case boards s (ca_BoardID c) of None \<Rightarrow> False | Some b \<Rightarrow> bd_WorkspaceID b = wsID)
                  (range_values ks (cards s))))"

definition mem_ListCardsOnBoard :: "id list \<Rightarrow> Store \<Rightarrow> id \<Rightarrow> Card list result" where
  "mem_ListCardsOnBoard ks s boardID =
     (if boards s boardID = None then Inl ErrNotFound
      else Inr (filter (\<lambda>c. ca_BoardID c = boardID) (range_values ks (cards s))))"

section \<open>Sprints\<close>

definition mem_CreateSprint ::
  "Store \<Rightarrow> id \<Rightarrow> id \<Rightarrow> string \<Rightarrow> time \<Rightarrow> time \<Rightarrow> time \<Rightarrow> Sprint result \<times> Store" where
  "mem_CreateSprint s nid boardID name startAt endAt now =
     (case boards s boardID of
        None \<Rightarrow> (Inl ErrNotFound, s)
      | Some board \<Rightarrow>
          (let sp = \<lparr>sp_ID = nid, sp_BoardID = boardID, sp_WorkspaceID = bd_WorkspaceID board, sp_Name = name,
                     sp_StartAt = startAt, sp_EndAt = endAt, sp_CreatedAt = now\<rparr>
           in (Inr sp, s\<lparr>sprints := (sprints s)(nid \<mapsto> sp)\<rparr>)))"

definition sprint_before :: "Sprint \<Rightarrow> Sprint \<Rightarrow> bool" where
  "sprint_before a b =
     (if sp_StartAt a = sp_StartAt b then sp_ID a < sp_ID b else sp_StartAt a < sp_StartAt b)"

definition mem_ListSprints :: "id list \<Rightarrow> Store \<Rightarrow> id \<Rightarrow> Sprint list result" where
  "mem_ListSprints ks s boardID =
     (if boards s boardID = None then Inl ErrNotFound
      else Inr (sort_slice sprint_before (filter (\<lambda>sp. sp_BoardID sp = boardID) (range_values ks (sprints s)))))"

definition mem_GetSprint :: "Store \<Rightarrow> id \<Rightarrow> Sprint result" where
  "mem_GetSprint s sprintID = (case sprints s sprintID of None \<Rightarrow> Inl ErrNotFound | Some sp \<Rightarrow> Inr sp)"

definition mem_UpdateSprint ::
  "Store \<Rightarrow> id \<Rightarrow> string \<Rightarrow> time option \<Rightarrow> time option \<Rightarrow> time \<Rightarrow> Sprint result \<times> Store" where
  "mem_UpdateSprint s sprintID name startAt endAt now =
     (case sprints s sprintID of
        None \<Rightarrow> (Inl ErrNotFound, s)
      | Some sp0 \<Rightarrow>
          (let sp1 = (if name \<noteq> [] then sp0\<lparr>sp_Name := name\<rparr> else sp0);
               sp2 = (case startAt of None \<Rightarrow> sp1 | Some t \<Rightarrow> sp1\<lparr>sp_StartAt := t\<rparr>);
               sp = (case endAt of None \<Rightarrow> sp2 | Some t \<Rightarrow> sp2\<lparr>sp_EndAt := t\<rparr>)
           in (Inr sp, s\<lparr>sprints := (sprints s)(sprintID \<mapsto> sp)\<rparr>)))"

text \<open>The loop over the cards writes existing keys only, so its order does not matter.\<close>

definition clear_sprint :: "id \<Rightarrow> Card \<Rightarrow> Card" where
  "clear_sprint sprintID c = (if ca_SprintID c = sprintID then c\<lparr>ca_SprintID := []\<rparr> else c)"

definition mem_DeleteSprint :: "Store \<Rightarrow> id \<Rightarrow> unit result \<times> Store" where
  "mem_DeleteSprint s sprintID =
     (if sprints s sprintID = None then (Inl ErrNotFound, s)
      else (Inr (), s\<lparr>sprints := (sprints s)(sprintID := None),
                     cards := (\<lambda>k. map_option (clear_sprint sprintID) (cards s k))\<rparr>))"

lemmas mem_board_defs [op_defs] =
  mem_ArchiveBoard_def mem_UnarchiveBoard_def mem_BoardWorkspaceID_def mem_ColumnBoardID_def
  mem_CreateColumn_def mem_RenameColumn_def mem_GetCard_def mem_CardWorkspaceID_def
  mem_CreateSprint_def mem_GetSprint_def mem_UpdateSprint_def mem_DeleteSprint_def

end
