(* ===== verification/Burndown.thy ===== *)
theory Burndown
  imports Domain
begin

text \<open>
  \<open>domain/sprint.go\<close>: the days of a sprint, the window check and the burndown chart. A time is a
  number of nanoseconds, so midnight in UTC is the multiple of a day below it and the next day is
  24 hours later.
\<close>

section \<open>Days\<close>

definition UTCDate :: "time \<Rightarrow> time" where
  "UTCDate t = t div Day * Day"

text \<open>The loop \<open>for !d.After(last)\<close>, which adds a day each time.\<close>

function days_from :: "time \<Rightarrow> time \<Rightarrow> time list" where
  "days_from d lim = (if d > lim then [] else d # days_from (d + Day) lim)"
  by pat_completeness auto
termination
  by (relation "measure (\<lambda>(d, lim). nat (lim + 1 - d))") (auto simp: Day_def Hour_def Minute_def)

declare days_from.simps [simp del]

definition EachUTCDate :: "time \<Rightarrow> time \<Rightarrow> time list" where
  "EachUTCDate start end_t =
     (let d = UTCDate start; lim = UTCDate end_t
      in if lim < d then [] else days_from d lim)"

definition SprintDayCount :: "time \<Rightarrow> time \<Rightarrow> int" where
  "SprintDayCount start end_t = int (length (EachUTCDate start end_t))"

definition ValidSprintWindow :: "time \<Rightarrow> time \<Rightarrow> bool" where
  "ValidSprintWindow start end_t =
     (if \<not> end_t > start then False
      else (let n = SprintDayCount start end_t in n \<ge> 1 \<and> n \<le> int MaxSprintDays))"

section \<open>Burndown\<close>

record BurndownPoint =
  bp_Date :: string
  bp_Remaining :: int

record Burndown =
  bu_SprintID :: id
  bu_Unit :: string
  bu_Points :: "BurndownPoint list"

definition CardOpenOn :: "Card \<Rightarrow> time \<Rightarrow> bool" where
  "CardOpenOn c day0 =
     (let day = UTCDate day0 in
      if UTCDate (ca_CreatedAt c) > day then False
      else (case ca_CompletedAt c of
              None \<Rightarrow> True
            | Some t \<Rightarrow> if \<not> UTCDate t > day then False else True))"

text \<open>
  \<open>Format("2006-01-02")\<close>: the proleptic Gregorian date of a day number since 1970-01-01, computed
  over years that start in March, with four digits for the year.
\<close>

definition civil_date :: "int \<Rightarrow> int \<times> int \<times> int" where
  "civil_date z0 =
     (let z = z0 + 719468; era = z div 146097; doe = z mod 146097;
          yoe = (doe - doe div 1460 + doe div 36524 - doe div 146096) div 365;
          doy = doe - (365 * yoe + yoe div 4 - yoe div 100);
          mp = (5 * doy + 2) div 153;
          d = doy - (153 * mp + 2) div 5 + 1;
          m = (if mp < 10 then mp + 3 else mp - 9)
      in (yoe + era * 400 + (if m \<le> 2 then 1 else 0), m, d))"

definition digit :: "int \<Rightarrow> char" where
  "digit n = char_of (48 + nat (n mod 10))"

definition two_digits :: "int \<Rightarrow> string" where
  "two_digits n = [digit (n div 10), digit n]"

text \<open>Years from 0 to 9999: the range in which the printed date has this form.\<close>

definition format_date :: "time \<Rightarrow> string" where
  "format_date t =
     (case civil_date (t div Day) of (y, m, d) \<Rightarrow>
        two_digits (y div 100) @ two_digits y @ ''-'' @ two_digits m @ ''-'' @ two_digits d)"

text \<open>The inner loop counts the cards of the sprint that are open on the day.\<close>

fun count_open :: "id \<Rightarrow> time \<Rightarrow> Card list \<Rightarrow> int \<Rightarrow> int" where
  "count_open sprintID day [] remaining = remaining"
| "count_open sprintID day (c # cs) remaining =
     (if ca_SprintID c \<noteq> sprintID then count_open sprintID day cs remaining
      else if CardOpenOn c day then count_open sprintID day cs (remaining + 1)
      else count_open sprintID day cs remaining)"

definition BurndownFor :: "Sprint \<Rightarrow> Card list \<Rightarrow> Burndown" where
  "BurndownFor sprint cards =
     \<lparr>bu_SprintID = sp_ID sprint, bu_Unit = ''cards'',
      bu_Points = map (\<lambda>day. \<lparr>bp_Date = format_date day,
                              bp_Remaining = count_open (sp_ID sprint) day cards 0\<rparr>)
                      (EachUTCDate (sp_StartAt sprint) (sp_EndAt sprint))\<rparr>"

section \<open>Facts about days\<close>

lemma UTCDate_day [simp]: "UTCDate (k * Day) = k * Day"
  by (simp add: UTCDate_def)

lemma UTCDate_plus [simp]: "UTCDate (UTCDate t + k * Day) = UTCDate t + k * Day"
  by (simp add: UTCDate_def distrib_right)

lemma UTCDate_mono: "t \<le> u \<Longrightarrow> UTCDate t \<le> UTCDate u"
  by (simp add: UTCDate_def zdiv_mono1)

lemma UTCDate_bounds: "UTCDate t \<le> t" "t < UTCDate t + Day"
proof -
  have "UTCDate t + t mod Day = t" "0 \<le> t mod Day" "t mod Day < Day"
    by (simp_all add: UTCDate_def)
  then show "UTCDate t \<le> t" "t < UTCDate t + Day" by linarith+
qed

lemma day_div_le: "m \<le> t div Day \<longleftrightarrow> m * Day \<le> t"
proof
  assume "m \<le> t div Day"
  then have "m * Day \<le> UTCDate t" by (simp add: UTCDate_def)
  then show "m * Day \<le> t" using UTCDate_bounds(1) [of t] by linarith
next
  assume "m * Day \<le> t"
  then have "m * Day div Day \<le> t div Day" by (rule zdiv_mono1) simp
  then show "m \<le> t div Day" using Day_pos by (simp split: if_splits)
qed

lemma days_from_eq: "days_from (a * Day) (b * Day) = map (\<lambda>k. k * Day) [a..b]"
proof (induction "nat (b + 1 - a)" arbitrary: a)
  case 0
  then have "b < a" by simp
  then show ?case by (simp add: days_from.simps)
next
  case (Suc n)
  then have "a \<le> b" and IH: "days_from ((a + 1) * Day) (b * Day) = map (\<lambda>k. k * Day) [a + 1..b]"
    by auto
  then show ?case
    using upto_rec1 [of a b] by (subst days_from.simps) (auto simp: algebra_simps not_less)
qed

lemma EachUTCDate_eq: "EachUTCDate start end_t = map (\<lambda>k. k * Day) [start div Day..end_t div Day]"
  using days_from_eq [of "start div Day" "end_t div Day"]
  by (auto simp: EachUTCDate_def UTCDate_def Let_def)

lemma nth_EachUTCDate:
  "i < length (EachUTCDate start end_t) \<Longrightarrow> EachUTCDate start end_t ! i = UTCDate start + int i * Day"
  by (simp add: EachUTCDate_eq UTCDate_def algebra_simps)

lemma count_open_eq:
  "count_open k day cs n = n + int (length (filter (\<lambda>c. ca_SprintID c = k \<and> CardOpenOn c day) cs))"
  by (induction cs arbitrary: n) auto

text \<open>Some dates.\<close>

lemma format_date_examples:
  "format_date 0 = ''1970-01-01''" "format_date (11016 * Day) = ''2000-02-29''"
  "format_date (-1) = ''1969-12-31''" "format_date (20454 * Day + 5) = ''2026-01-01''"
  by code_simp+


section \<open>The window and the chart\<close>

lemma length_EachUTCDate: "int (length (EachUTCDate start end_t)) = max 0 (end_t div Day - start div Day + 1)"
  by (simp add: EachUTCDate_eq)

text \<open>
  A sprint window is valid exactly when it ends after it starts and the midnights of its first
  and its last day are at most 89 days apart, so that it touches at most 90 days.
\<close>

theorem ValidSprintWindow_iff:
  "ValidSprintWindow start end_t \<longleftrightarrow>
     start < end_t \<and> UTCDate end_t \<le> UTCDate start + 89 * Day"
proof -
  have "UTCDate end_t \<le> UTCDate start + 89 * Day \<longleftrightarrow> end_t div Day * Day \<le> (start div Day + 89) * Day"
    by (simp add: UTCDate_def distrib_right)
  also have "\<dots> \<longleftrightarrow> end_t div Day \<le> start div Day + 89"
    by (rule mult_le_cancel_right_pos) simp
  moreover have "start div Day \<le> end_t div Day" if "start < end_t"
    using that by (simp add: zdiv_mono1)
  ultimately show ?thesis
    by (auto simp: ValidSprintWindow_def SprintDayCount_def length_EachUTCDate MaxSprintDays_def Let_def)
qed

definition burndown_cards :: "Sprint \<Rightarrow> Card list \<Rightarrow> Card list" where
  "burndown_cards sp cs = filter (\<lambda>c. ca_SprintID c = sp_ID sp) cs"

text \<open>
  (C20) The chart has one point per day of the sprint, in order; the point of the i-th day carries
  that day's date and the number of the sprint's cards created by the end of the day and not
  completed by then.
\<close>

theorem BurndownFor_points:
  "length (bu_Points (BurndownFor sp cs)) = length (EachUTCDate (sp_StartAt sp) (sp_EndAt sp)) \<and>
   (\<forall>i < length (bu_Points (BurndownFor sp cs)).
      let day = UTCDate (sp_StartAt sp) + int i * Day in
      bu_Points (BurndownFor sp cs) ! i =
        \<lparr>bp_Date = format_date day,
         bp_Remaining = int (length (filter
           (\<lambda>c. ca_CreatedAt c < day + Day \<and> (\<forall>t. ca_CompletedAt c = Some t \<longrightarrow> day + Day \<le> t))
           (burndown_cards sp cs)))\<rparr>)"
proof -
  have after: "UTCDate t > k * Day \<longleftrightarrow> t \<ge> k * Day + Day" for t k
  proof -
    have "UTCDate t > k * Day \<longleftrightarrow> t div Day \<ge> k + 1"
      by (simp add: UTCDate_def) linarith
    also have "\<dots> \<longleftrightarrow> t \<ge> (k + 1) * Day"
      by (rule day_div_le)
    finally show ?thesis by (simp add: distrib_right)
  qed
  have open_iff: "CardOpenOn c (k * Day) \<longleftrightarrow>
      ca_CreatedAt c < k * Day + Day \<and> (\<forall>t. ca_CompletedAt c = Some t \<longrightarrow> k * Day + Day \<le> t)" for c k
    by (auto simp: CardOpenOn_def Let_def after not_le split: option.splits)
  have day: "UTCDate a + int i * Day = (a div Day + int i) * Day" for a i
    by (simp add: UTCDate_def distrib_right)
  show ?thesis
    unfolding Let_def day BurndownFor_def burndown_cards_def EachUTCDate_eq
    by (simp add: count_open_eq open_iff conj_commute)
qed

theorem BurndownFor_points_witness:
  "let sp = \<lparr>sp_ID = ''s'', sp_BoardID = ''b'', sp_WorkspaceID = ''w'', sp_Name = ''One'', sp_StartAt = 5,
       sp_EndAt = Day + 7, sp_CreatedAt = 0\<rparr>;
     c = zero_Card\<lparr>ca_SprintID := ''s'', ca_CompletedAt := Some (Day + 1)\<rparr> in
   bu_Points (BurndownFor sp [c]) ! 1 = \<lparr>bp_Date = ''1970-01-02'', bp_Remaining = 0\<rparr>"
proof -
  define sp where "sp = \<lparr>sp_ID = ''s'', sp_BoardID = ''b'', sp_WorkspaceID = ''w'', sp_Name = ''One'',
    sp_StartAt = 5, sp_EndAt = Day + 7, sp_CreatedAt = 0\<rparr>"
  define c where "c = zero_Card\<lparr>ca_SprintID := ''s'', ca_CompletedAt := Some (Day + 1)\<rparr>"
  have "length (bu_Points (BurndownFor sp [c])) = 2" and start: "UTCDate (sp_StartAt sp) = 0"
    by (simp_all add: sp_def BurndownFor_def EachUTCDate_eq UTCDate_def Day_def Hour_def Minute_def upto.simps)
  moreover have "format_date Day = ''1970-01-02''" by code_simp
  ultimately have "bu_Points (BurndownFor sp [c]) ! 1 = \<lparr>bp_Date = ''1970-01-02'', bp_Remaining = 0\<rparr>"
    using BurndownFor_points [of sp "[c]"]
    by (auto simp: Let_def burndown_cards_def c_def zero_Card_def Day_def Hour_def Minute_def)
  then show ?thesis by (simp add: sp_def c_def)
qed

end
