(* ===== verification/SvcBoards.thy ===== *)
theory SvcBoards
  imports SvcMembers MemBoards Burndown
begin

text \<open>
  \<open>service/workspace.go\<close> and \<open>service/sprints.go\<close>: the operations on boards, columns, cards and
  sprints. Each finds the workspace of what it is about, checks the subject's role there, checks its
  arguments and calls the store.
\<close>

section \<open>Finding the workspace\<close>

definition column_workspace :: "Store \<Rightarrow> id \<Rightarrow> id result" where
  "column_workspace s columnID = read_ok (mem_ColumnBoardID s columnID) (mem_BoardWorkspaceID s)"

definition sprint_workspace :: "Store \<Rightarrow> id \<Rightarrow> id result" where
  "sprint_workspace s sprintID = read_ok (mem_GetSprint s sprintID) (\<lambda>sp. Inr (sp_WorkspaceID sp))"

section \<open>Boards\<close>

definition svc_CreateBoard ::
  "Store \<Rightarrow> id \<Rightarrow> id list \<Rightarrow> string \<Rightarrow> id \<Rightarrow> string \<Rightarrow> time \<Rightarrow> BoardDetail result \<times> Store" where
  "svc_CreateBoard s bid cids sub wsID name now =
     guard_ok (svc_requireWrite s wsID sub) s (\<lambda>_.
       if name = [] then (Inl ErrInvalid, s)
       else call_ok (mem_CreateBoard s bid cids wsID name now) (\<lambda>(board, cols) s1.
         (Inr \<lparr>bdd_Board = board,
               bdd_Columns = map (\<lambda>col. \<lparr>cwc_Column = col, cwc_Cards = []\<rparr>) cols\<rparr>, s1)))"

definition svc_ArchiveBoard :: "Store \<Rightarrow> string \<Rightarrow> id \<Rightarrow> time \<Rightarrow> unit result \<times> Store" where
  "svc_ArchiveBoard s sub boardID now =
     guard_ok (mem_BoardWorkspaceID s boardID) s (\<lambda>wsID.
     guard_ok (svc_requireWrite s wsID sub) s (\<lambda>_. mem_ArchiveBoard s boardID now))"

definition svc_UnarchiveBoard :: "Store \<Rightarrow> string \<Rightarrow> id \<Rightarrow> unit result \<times> Store" where
  "svc_UnarchiveBoard s sub boardID =
     guard_ok (mem_BoardWorkspaceID s boardID) s (\<lambda>wsID.
     guard_ok (svc_requireWrite s wsID sub) s (\<lambda>_. mem_UnarchiveBoard s boardID))"

definition svc_ListBoards :: "id list \<Rightarrow> Store \<Rightarrow> string \<Rightarrow> id \<Rightarrow> Board list result" where
  "svc_ListBoards ks s sub wsID = read_ok (svc_requireRead s wsID sub) (\<lambda>_. mem_ListBoards ks s wsID)"

definition svc_GetBoard :: "Store \<Rightarrow> string \<Rightarrow> id \<Rightarrow> BoardDetail result" where
  "svc_GetBoard s sub boardID =
     read_ok (mem_BoardWorkspaceID s boardID) (\<lambda>wsID.
     read_ok (svc_requireRead s wsID sub) (\<lambda>_. mem_GetBoardDetail s boardID))"

section \<open>Columns\<close>

definition svc_CreateColumn :: "Store \<Rightarrow> id \<Rightarrow> string \<Rightarrow> id \<Rightarrow> string \<Rightarrow> time \<Rightarrow> Column result \<times> Store" where
  "svc_CreateColumn s nid sub boardID name0 now =
     guard_ok (mem_BoardWorkspaceID s boardID) s (\<lambda>wsID.
     guard_ok (svc_requireWrite s wsID sub) s (\<lambda>_.
       let name = TrimSpace name0 in
       if name = [] \<or> length name > MaxColumnName then (Inl ErrInvalid, s)
       else mem_CreateColumn s nid boardID name now))"

definition svc_RenameColumn :: "Store \<Rightarrow> string \<Rightarrow> id \<Rightarrow> string \<Rightarrow> Column result \<times> Store" where
  "svc_RenameColumn s sub columnID name0 =
     guard_ok (mem_ColumnBoardID s columnID) s (\<lambda>boardID.
     guard_ok (mem_BoardWorkspaceID s boardID) s (\<lambda>wsID.
     guard_ok (svc_requireWrite s wsID sub) s (\<lambda>_.
       let name = TrimSpace name0 in
       if name = [] \<or> length name > MaxColumnName then (Inl ErrInvalid, s)
       else mem_RenameColumn s columnID name)))"

definition svc_DeleteColumn :: "Store \<Rightarrow> string \<Rightarrow> id \<Rightarrow> unit result \<times> Store" where
  "svc_DeleteColumn s sub columnID =
     guard_ok (mem_ColumnBoardID s columnID) s (\<lambda>boardID.
     guard_ok (mem_BoardWorkspaceID s boardID) s (\<lambda>wsID.
     guard_ok (svc_requireWrite s wsID sub) s (\<lambda>_. mem_DeleteColumn s columnID)))"

definition svc_ReorderColumns :: "Store \<Rightarrow> string \<Rightarrow> id \<Rightarrow> id list \<Rightarrow> unit result \<times> Store" where
  "svc_ReorderColumns s sub boardID columnIDs =
     guard_ok (mem_BoardWorkspaceID s boardID) s (\<lambda>wsID.
     guard_ok (svc_requireWrite s wsID sub) s (\<lambda>_.
       if columnIDs = [] then (Inl ErrInvalid, s)
       else mem_ReorderColumns s boardID columnIDs))"

section \<open>Cards\<close>

definition svc_CreateCard ::
  "Store \<Rightarrow> id \<Rightarrow> string \<Rightarrow> id \<Rightarrow> string \<Rightarrow> string \<Rightarrow> time \<Rightarrow> Card result \<times> Store" where
  "svc_CreateCard s nid sub columnID title description now =
     guard_ok (mem_ColumnBoardID s columnID) s (\<lambda>boardID.
     guard_ok (mem_BoardWorkspaceID s boardID) s (\<lambda>wsID.
     guard_ok (svc_requireWrite s wsID sub) s (\<lambda>_.
       if title = [] then (Inl ErrForbidden, s)
       else mem_CreateCard s nid columnID title description now)))"

definition svc_GetCard :: "Store \<Rightarrow> string \<Rightarrow> id \<Rightarrow> Card result" where
  "svc_GetCard s sub cardID =
     read_ok (mem_CardWorkspaceID s cardID) (\<lambda>wsID.
     read_ok (svc_requireRead s wsID sub) (\<lambda>_. mem_GetCard s cardID))"

definition svc_UpdateCard ::
  "Store \<Rightarrow> string \<Rightarrow> id \<Rightarrow> string \<Rightarrow> string \<Rightarrow> id option \<Rightarrow> int \<Rightarrow> time \<Rightarrow> Card locked_result \<times> Store" where
  "svc_UpdateCard s sub cardID title description sprintID version now =
     guard_zero zero_Card (mem_CardWorkspaceID s cardID) s (\<lambda>wsID.
     guard_zero zero_Card (svc_requireWrite s wsID sub) s (\<lambda>_.
       mem_UpdateCard s cardID title description sprintID version now))"

definition svc_MoveCard ::
  "Store \<Rightarrow> string \<Rightarrow> id \<Rightarrow> id \<Rightarrow> int \<Rightarrow> int \<Rightarrow> time \<Rightarrow> Card locked_result \<times> Store" where
  "svc_MoveCard s sub cardID columnID position version now =
     guard_zero zero_Card (mem_CardWorkspaceID s cardID) s (\<lambda>wsID.
     guard_zero zero_Card (svc_requireWrite s wsID sub) s (\<lambda>_.
       mem_MoveCard s cardID columnID position version now))"

section \<open>Sprints\<close>

definition svc_CreateSprint ::
  "Store \<Rightarrow> id \<Rightarrow> string \<Rightarrow> id \<Rightarrow> string \<Rightarrow> time \<Rightarrow> time \<Rightarrow> time \<Rightarrow> Sprint result \<times> Store" where
  "svc_CreateSprint s nid sub boardID name0 startAt endAt now =
     guard_ok (mem_BoardWorkspaceID s boardID) s (\<lambda>wsID.
     guard_ok (svc_requireWrite s wsID sub) s (\<lambda>_.
       let name = TrimSpace name0 in
       if name = [] \<or> length name > MaxSprintName then (Inl ErrInvalid, s)
       else if \<not> ValidSprintWindow startAt endAt then (Inl ErrInvalid, s)
       else mem_CreateSprint s nid boardID name startAt endAt now))"

definition svc_ListSprints :: "id list \<Rightarrow> Store \<Rightarrow> string \<Rightarrow> id \<Rightarrow> Sprint list result" where
  "svc_ListSprints ks s sub boardID =
     read_ok (mem_BoardWorkspaceID s boardID) (\<lambda>wsID.
     read_ok (svc_requireRead s wsID sub) (\<lambda>_. mem_ListSprints ks s boardID))"

definition svc_GetSprint :: "Store \<Rightarrow> string \<Rightarrow> id \<Rightarrow> Sprint result" where
  "svc_GetSprint s sub sprintID =
     read_ok (mem_GetSprint s sprintID) (\<lambda>sp.
     read_ok (svc_requireRead s (sp_WorkspaceID sp) sub) (\<lambda>_. Inr sp))"

definition svc_UpdateSprint ::
  "Store \<Rightarrow> string \<Rightarrow> id \<Rightarrow> string \<Rightarrow> time option \<Rightarrow> time option \<Rightarrow> time \<Rightarrow> Sprint result \<times> Store" where
  "svc_UpdateSprint s sub sprintID name0 startAt endAt now =
     guard_ok (mem_GetSprint s sprintID) s (\<lambda>sp.
     guard_ok (svc_requireWrite s (sp_WorkspaceID sp) sub) s (\<lambda>_.
       let name = TrimSpace name0 in
       if name \<noteq> [] \<and> length name > MaxSprintName then (Inl ErrInvalid, s)
       else let nextStart = (case startAt of None \<Rightarrow> sp_StartAt sp | Some t \<Rightarrow> t);
                nextEnd = (case endAt of None \<Rightarrow> sp_EndAt sp | Some t \<Rightarrow> t) in
       if \<not> ValidSprintWindow nextStart nextEnd then (Inl ErrInvalid, s)
       else let startPtr = (if startAt \<noteq> None then Some nextStart else None);
                endPtr = (if endAt \<noteq> None then Some nextEnd else None) in
       mem_UpdateSprint s sprintID name startPtr endPtr now))"

definition svc_DeleteSprint :: "Store \<Rightarrow> string \<Rightarrow> id \<Rightarrow> unit result \<times> Store" where
  "svc_DeleteSprint s sub sprintID =
     guard_ok (mem_GetSprint s sprintID) s (\<lambda>sp.
     guard_ok (svc_requireWrite s (sp_WorkspaceID sp) sub) s (\<lambda>_. mem_DeleteSprint s sprintID))"

definition svc_SprintBurndown :: "id list \<Rightarrow> Store \<Rightarrow> string \<Rightarrow> id \<Rightarrow> Burndown result" where
  "svc_SprintBurndown ks s sub sprintID =
     read_ok (svc_GetSprint s sub sprintID) (\<lambda>sp.
     read_ok (mem_ListCardsOnBoard ks s (sp_BoardID sp)) (\<lambda>cards. Inr (BurndownFor sp cards)))"

lemmas svc_board_defs =
  svc_CreateBoard_def svc_ArchiveBoard_def svc_UnarchiveBoard_def svc_CreateColumn_def
  svc_RenameColumn_def svc_DeleteColumn_def svc_ReorderColumns_def svc_CreateCard_def
  svc_UpdateCard_def svc_MoveCard_def svc_CreateSprint_def svc_UpdateSprint_def svc_DeleteSprint_def

section \<open>Who may do what\<close>

lemmas gate_defs = svc_board_defs svc_requireWrite_def column_workspace_def sprint_workspace_def

interpretation create_board: gated "\<lambda>s. svc_CreateBoard s bid cids sub wsID name now" "\<lambda>_. Inr wsID" sub RoleMember
  for bid cids sub wsID name now by unfold_locales (auto simp: gate_defs)

interpretation archive_board: gated "\<lambda>s. svc_ArchiveBoard s sub b now" "\<lambda>s. mem_BoardWorkspaceID s b" sub RoleMember
  for sub b now by unfold_locales (auto simp: gate_defs)

interpretation unarchive_board: gated "\<lambda>s. svc_UnarchiveBoard s sub b" "\<lambda>s. mem_BoardWorkspaceID s b" sub RoleMember
  for sub b by unfold_locales (auto simp: gate_defs)

interpretation create_column: gated "\<lambda>s. svc_CreateColumn s nid sub b name now" "\<lambda>s. mem_BoardWorkspaceID s b"
  sub RoleMember for nid sub b name now by unfold_locales (auto simp: gate_defs)

interpretation reorder_columns: gated "\<lambda>s. svc_ReorderColumns s sub b ids" "\<lambda>s. mem_BoardWorkspaceID s b"
  sub RoleMember for sub b ids by unfold_locales (auto simp: gate_defs)

interpretation create_sprint: gated "\<lambda>s. svc_CreateSprint s nid sub b name t u now" "\<lambda>s. mem_BoardWorkspaceID s b"
  sub RoleMember for nid sub b name t u now by unfold_locales (auto simp: gate_defs)

text \<open>The operations on a column, a card or a sprint find the workspace in two steps.\<close>

lemma two_steps:
  "read_ok r f = Inl e \<Longrightarrow> (\<And>x. r = Inr x \<Longrightarrow> f x = Inl e \<Longrightarrow> P) \<Longrightarrow> (r = Inl e \<Longrightarrow> P) \<Longrightarrow> P"
  by (cases r) auto

interpretation rename_column: gated "\<lambda>s. svc_RenameColumn s sub c name" "\<lambda>s. column_workspace s c" sub RoleMember
  for sub c name by unfold_locales (auto simp: gate_defs elim: two_steps)

interpretation delete_column: gated "\<lambda>s. svc_DeleteColumn s sub c" "\<lambda>s. column_workspace s c" sub RoleMember
  for sub c by unfold_locales (auto simp: gate_defs elim: two_steps)

interpretation create_card: gated "\<lambda>s. svc_CreateCard s nid sub c title d now" "\<lambda>s. column_workspace s c" sub RoleMember
  for nid sub c title d now by unfold_locales (auto simp: gate_defs elim: two_steps)

interpretation update_card: gated "\<lambda>s. unlock (svc_UpdateCard s sub k title d sp v now)"
  "\<lambda>s. mem_CardWorkspaceID s k" sub RoleMember
  for sub k title d sp v now by unfold_locales (auto simp: gate_defs)

interpretation move_card: gated "\<lambda>s. unlock (svc_MoveCard s sub k c p v now)"
  "\<lambda>s. mem_CardWorkspaceID s k" sub RoleMember
  for sub k c p v now by unfold_locales (auto simp: gate_defs)

interpretation update_sprint: gated "\<lambda>s. svc_UpdateSprint s sub k name t u now" "\<lambda>s. sprint_workspace s k" sub RoleMember
  for sub k name t u now by unfold_locales (auto simp: gate_defs elim: two_steps)

interpretation delete_sprint: gated "\<lambda>s. svc_DeleteSprint s sub k" "\<lambda>s. sprint_workspace s k" sub RoleMember
  for sub k by unfold_locales (auto simp: gate_defs elim: two_steps)

end
