(* ===== verification/SearchText.thy ===== *)
theory SearchText
  imports Domain
begin

text \<open>
  \<open>domain/search.go\<close>: the types of a search, matching without regard to case, and the snippet around
  a match. The snippet cuts the text at rune positions found in its lower-case form; the theorems show
  that the cut is never out of range and holds the match.
\<close>

section \<open>The types of a search\<close>

definition DefaultSearchTypes :: "string list" where
  "DefaultSearchTypes = [''page'', ''document'', ''board'', ''card'', ''channel'', ''message'']"

text \<open>The loop over the parts: \<open>seen\<close> is the list built so far.\<close>

fun parse_types :: "(nat \<Rightarrow> nat) \<Rightarrow> string list \<Rightarrow> string list \<Rightarrow> string list result" where
  "parse_types lo seen [] = Inr seen"
| "parse_types lo seen (part # parts) =
     (let t = ToLower lo (TrimSpace part) in
      if t = [] then parse_types lo seen parts
      else if t \<notin> set DefaultSearchTypes then Inl ErrInvalid
      else if t \<in> set seen then parse_types lo seen parts
      else parse_types lo (seen @ [t]) parts)"

definition ParseSearchTypes :: "(nat \<Rightarrow> nat) \<Rightarrow> string \<Rightarrow> string list result" where
  "ParseSearchTypes lo raw0 =
     (let raw = TrimSpace raw0 in
      if raw = [] then Inr DefaultSearchTypes
      else read_ok (parse_types lo [] (split_on (CHR '','') raw)) (\<lambda>out.
        if out = [] then Inl ErrInvalid else Inr out))"

section \<open>Matching\<close>

definition ContainsFold :: "(nat \<Rightarrow> nat) \<Rightarrow> string \<Rightarrow> string \<Rightarrow> bool" where
  "ContainsFold lo haystack needle = (if needle = [] then False else Contains (ToLower lo haystack) (ToLower lo needle))"

definition matches_at :: "nat list \<Rightarrow> nat list \<Rightarrow> nat \<Rightarrow> bool" where
  "matches_at haystack needle i = list_all (\<lambda>j. haystack ! (i + j) = needle ! j) [0..<length needle]"

definition indexRunes :: "nat list \<Rightarrow> nat list \<Rightarrow> int" where
  "indexRunes haystack needle =
     (if needle = [] \<or> length needle > length haystack then -1
      else case List.find (matches_at haystack needle) [0..<length haystack + 1 - length needle] of
        None \<Rightarrow> -1
      | Some i \<Rightarrow> int i)"

section \<open>Snippets\<close>

text \<open>A slice \<open>xs[i:j]\<close> of Go; outside \<open>0 \<le> i \<le> j \<le> len(xs)\<close> it panics, here \<open>None\<close>.\<close>

definition slice :: "'a list \<Rightarrow> int \<Rightarrow> int \<Rightarrow> 'a list option" where
  "slice xs i j = (if 0 \<le> i \<and> i \<le> j \<and> j \<le> int (length xs) then Some (take (nat j - nat i) (drop (nat i) xs)) else None)"

definition ellipsis :: string where "ellipsis = of_runes [8230]"

definition Snippet :: "(nat \<Rightarrow> nat) \<Rightarrow> string \<Rightarrow> string \<Rightarrow> int \<Rightarrow> string option" where
  "Snippet lo body needle width0 =
     (let width = (if width0 < 16 then 80 else width0); hay = runes body in
      if hay = [] then Some []
      else let ned = runes (ToLower lo needle); low = runes (ToLower lo body); at = indexRunes low ned in
      if at < 0 then
        (if int (length hay) \<le> width then Some body
         else map_option (\<lambda>h. of_runes h @ ellipsis) (slice hay 0 width))
      else let start = (if at - 20 < 0 then 0 else at - 20);
               stop = (if at + int (length ned) + 40 > int (length hay) then int (length hay)
                       else at + int (length ned) + 40)
      in map_option (\<lambda>h. let s1 = (if start > 0 then ellipsis @ of_runes h else of_runes h)
                         in if stop < int (length hay) then s1 @ ellipsis else s1)
           (slice hay start stop))"

section \<open>Runes survive encoding\<close>

definition valid_rune :: "nat \<Rightarrow> nat" where
  "valid_rune c = (if c > 1114111 \<or> (55296 \<le> c \<and> c \<le> 57343) then 65533 else c)"

lemma decode_bytes:
  "2 \<le> x \<Longrightarrow> x < 32 \<Longrightarrow> y < 64 \<Longrightarrow> decode_rune ((192 + x) # (128 + y) # r) = (x * 64 + y, 2)"
  "x < 16 \<Longrightarrow> y < 64 \<Longrightarrow> z < 64 \<Longrightarrow> x = 0 \<longrightarrow> 32 \<le> y \<Longrightarrow> x = 13 \<longrightarrow> y < 32 \<Longrightarrow>
   decode_rune ((224 + x) # (128 + y) # (128 + z) # r) = (x * 4096 + y * 64 + z, 3)"
  "w \<le> 4 \<Longrightarrow> x < 64 \<Longrightarrow> y < 64 \<Longrightarrow> z < 64 \<Longrightarrow> w = 0 \<longrightarrow> 16 \<le> x \<Longrightarrow> w = 4 \<longrightarrow> x < 16 \<Longrightarrow>
   decode_rune ((240 + w) # (128 + x) # (128 + y) # (128 + z) # r) = (w * 262144 + x * 4096 + y * 64 + z, 4)"
  by (auto simp: cont_byte_def)

text \<open>A rune in digits of six bits.\<close>

lemma six_bits: "(c :: nat) = c div 64 * 64 + c mod 64" "c div 64 = c div 4096 * 64 + c div 64 mod 64"
  "c div 4096 = c div 262144 * 64 + c div 4096 mod 64"
proof -
  have "c div 64 div 64 = c div 4096" "c div 4096 div 64 = c div 262144" by (simp_all flip: div_mult2_eq)
  then show "c div 64 = c div 4096 * 64 + c div 64 mod 64" "c div 4096 = c div 262144 * 64 + c div 4096 mod 64"
    by (metis div_mult_mod_eq)+
qed simp

lemma decode_2:
  assumes "128 \<le> c" and "c < 2048"
  shows "decode_rune ((192 + c div 64) # (128 + c mod 64) # r) = (c, 2)"
proof -
  have "c mod 64 < 64" by simp
  then have "2 \<le> c div 64" "c div 64 < 32" using assms six_bits(1) [of c] by linarith+
  then show ?thesis using decode_bytes(1) [of "c div 64" "c mod 64" r] by simp
qed

lemma decode_3:
  assumes "2048 \<le> c" "c < 65536" "\<not> (55296 \<le> c \<and> c \<le> 57343)"
  shows "decode_rune ((224 + c div 4096) # (128 + c div 64 mod 64) # (128 + c mod 64) # r) = (c, 3)"
proof -
  define x y z where "x = c div 4096" and "y = c div 64 mod 64" and "z = c mod 64"
  have c: "c = x * 4096 + y * 64 + z" using six_bits(1,2) [of c] unfolding x_def y_def z_def by linarith
  have yz: "y < 64" "z < 64" by (simp_all add: y_def z_def)
  have "x < 16" using assms(2) c by linarith
  moreover have "x = 0 \<longrightarrow> 32 \<le> y" using assms(1) c yz by linarith
  moreover have "x = 13 \<longrightarrow> y < 32" using assms(3) c yz by linarith
  ultimately show ?thesis using decode_bytes(2) [OF _ yz, of x r] c unfolding x_def y_def z_def by simp
qed

lemma decode_4:
  assumes "65536 \<le> c" "c \<le> 1114111"
  shows "decode_rune ((240 + c div 262144) # (128 + c div 4096 mod 64) # (128 + c div 64 mod 64) # (128 + c mod 64) # r) = (c, 4)"
proof -
  define w x y z where "w = c div 262144" and "x = c div 4096 mod 64" and "y = c div 64 mod 64" and "z = c mod 64"
  have c: "c = w * 262144 + x * 4096 + y * 64 + z"
    using six_bits [of c] unfolding w_def x_def y_def z_def by linarith
  have xyz: "x < 64" "y < 64" "z < 64" by (simp_all add: x_def y_def z_def)
  have "w \<le> 4" using assms(2) c by linarith
  moreover have "w = 0 \<longrightarrow> 16 \<le> x" using assms(1) c xyz by linarith
  moreover have "w = 4 \<longrightarrow> x < 16" using assms(2) c by linarith
  ultimately show ?thesis using decode_bytes(3) [OF _ xyz, of w r] c unfolding w_def x_def y_def z_def by simp
qed

lemma decode_encode: "decode_rune (encode_rune c @ r) = (valid_rune c, length (encode_rune c))"
proof -
  consider "c < 128" | "128 \<le> c" "c < 2048" | "c > 1114111 \<or> (55296 \<le> c \<and> c \<le> 57343)"
    | "2048 \<le> c" "c < 65536" "\<not> (55296 \<le> c \<and> c \<le> 57343)" | "65536 \<le> c" "c \<le> 1114111" by linarith
  then show ?thesis
  proof cases
    case 2 then show ?thesis using decode_2 [of c r] by (simp add: encode_rune_def valid_rune_def del: decode_rune.simps)
  next
    case 4
    then have "encode_rune c = [224 + c div 4096, 128 + c div 64 mod 64, 128 + c mod 64]" "valid_rune c = c"
      by (auto simp: encode_rune_def valid_rune_def)
    then show ?thesis using decode_3 [OF 4] by simp
  next
    case 5 then show ?thesis using decode_4 [of c r] by (simp add: encode_rune_def valid_rune_def del: decode_rune.simps)
  qed (auto simp: encode_rune_def valid_rune_def cont_byte_def)
qed

lemma encode_rune_Cons: "\<exists>a r. encode_rune c = a # r"
  by (simp add: encode_rune_def)

lemma runes_of_encode: "runes_of (concat (map encode_rune rs)) = map valid_rune rs"
proof (induction rs)
  case (Cons c rs)
  obtain a r where e: "encode_rune c = a # r" using encode_rune_Cons by blast
  have "runes_of (encode_rune c @ concat (map encode_rune rs)) =
      valid_rune c # runes_of (drop (length (encode_rune c)) (encode_rune c @ concat (map encode_rune rs)))"
    using decode_encode [of c "concat (map encode_rune rs)"] by (simp add: e del: decode_rune.simps)
  then show ?case using Cons by simp
qed simp

lemma encode_byte: "b \<in> set (encode_rune c) \<Longrightarrow> b < 256"
proof -
  have "c \<le> 1114111 \<Longrightarrow> c div 262144 < 16" by linarith
  moreover have "c < 65536 \<Longrightarrow> c div 4096 < 16" by linarith
  moreover have "c < 2048 \<Longrightarrow> c div 64 < 64" by linarith
  moreover have "c mod 64 < 64" "c div 64 mod 64 < 64" "c div 4096 mod 64 < 64" by simp_all
  ultimately show "b \<in> set (encode_rune c) \<Longrightarrow> b < 256" by (auto simp: encode_rune_def split: if_splits)
qed

lemma runes_of_runes: "runes (of_runes rs) = map valid_rune rs"
proof -
  have "map byte (of_runes rs) = concat (map encode_rune rs)"
    unfolding of_runes_def map_map by (rule map_idI) (auto simp: byte_def dest: encode_byte)
  then show ?thesis by (simp add: runes_def runes_of_encode)
qed

lemma length_ToLower: "length (runes (ToLower lo s)) = length (runes s)"
proof (cases "list_all (\<lambda>c. byte c < 128) s")
  case True
  have low: "list_all (\<lambda>b. b < 128) bs \<Longrightarrow> runes_of bs = bs" for bs
    by (induction bs) auto
  have small: "byte c < 128 \<Longrightarrow> byte (ascii_lower c) < 128" for c
    by (auto simp: ascii_lower_def byte_def)
  have "list_all (\<lambda>b. b < 128) (map byte s)" using True by (simp add: list_all_iff)
  moreover have "list_all (\<lambda>b. b < 128) (map byte (map ascii_lower s))" using True small by (simp add: list_all_iff)
  ultimately show ?thesis using True by (simp add: ToLower_def runes_def low del: map_map)
next
  case False
  then show ?thesis by (simp only: ToLower_def if_False runes_of_runes length_map)
qed

section \<open>The first occurrence\<close>

definition occurs_at :: "nat \<Rightarrow> 'a list \<Rightarrow> 'a list \<Rightarrow> bool" where
  "occurs_at i xs ys \<longleftrightarrow> (\<exists>a b. xs = a @ ys @ b \<and> length a = i)"

lemma matches_iff: "i + length ys \<le> length xs \<Longrightarrow> matches_at xs ys i \<longleftrightarrow> occurs_at i xs ys"
proof -
  assume len: "i + length ys \<le> length xs"
  have "length (take (length ys) (drop i xs)) = length ys" using len by simp
  then have "matches_at xs ys i \<longleftrightarrow> take (length ys) (drop i xs) = ys"
    using len unfolding matches_at_def list_all_iff list_eq_iff_nth_eq by (simp add: Ball_def)
  also have "\<dots> \<longleftrightarrow> occurs_at i xs ys"
  proof
    assume "take (length ys) (drop i xs) = ys"
    then have "xs = take i xs @ ys @ drop (length ys) (drop i xs)" by (metis append_take_drop_id)
    moreover have "length (take i xs) = i" using len by simp
    ultimately show "occurs_at i xs ys" unfolding occurs_at_def by blast
  qed (auto simp: occurs_at_def)
  finally show ?thesis .
qed

lemma occurs_length: "occurs_at i xs ys \<Longrightarrow> i + length ys \<le> length xs"
  by (auto simp: occurs_at_def)

lemma indexRunes_cases:
  "if \<exists>i. ned \<noteq> [] \<and> occurs_at i low ned
   then \<exists>i. indexRunes low ned = int i \<and> occurs_at i low ned \<and> (\<forall>j < i. \<not> occurs_at j low ned)
   else indexRunes low ned = - 1"
proof (cases "ned = [] \<or> length ned > length low")
  case True
  then show ?thesis using occurs_length [of _ low ned] by (force simp: indexRunes_def)
next
  case False
  let ?is = "[0..<length low + 1 - length ned]"
  have match: "matches_at low ned i \<longleftrightarrow> occurs_at i low ned" if "i < length low + 1 - length ned" for i
    by (rule matches_iff) (use that False in linarith)
  show ?thesis
  proof (cases "List.find (matches_at low ned) ?is")
    case None
    then have "\<not> (\<exists>i. occurs_at i low ned)"
      using match occurs_length [of _ low ned] unfolding find_None_iff by fastforce
    with None False show ?thesis by (simp add: indexRunes_def)
  next
    case (Some i)
    then have i: "i < length low + 1 - length ned" "matches_at low ned i" "\<forall>j < i. \<not> matches_at low ned j"
      by (auto simp: find_Some_iff)
    then have "occurs_at i low ned" "\<forall>j < i. \<not> occurs_at j low ned" using match by auto
    with Some False show ?thesis by (auto simp: indexRunes_def)
  qed
qed

section \<open>What a snippet shows\<close>

definition dots :: "nat list \<Rightarrow> string" where
  "dots rest = (if rest = [] then [] else ellipsis)"

lemma occurs_window:
  assumes "occurs_at i xs ys" and "a \<le> i" and "i + length ys \<le> b"
  shows "\<exists>j. occurs_at j (take (b - a) (drop a xs)) ys"
proof -
  obtain u v where xs: "xs = u @ ys @ v" "length u = i" using assms(1) by (auto simp: occurs_at_def)
  have "drop a xs = drop a u @ ys @ v" using xs assms(2) by simp
  moreover have "length (drop a u) + length ys \<le> b - a" using assms(2,3) xs(2) by simp
  ultimately have "take (b - a) (drop a xs) = drop a u @ ys @ take (b - a - (length (drop a u) + length ys)) v"
    by (simp add: take_append add.assoc)
  then show ?thesis unfolding occurs_at_def by blast
qed

lemma slice_Some: "0 \<le> i \<Longrightarrow> i \<le> j \<Longrightarrow> j \<le> int (length xs) \<Longrightarrow> slice xs i j = Some (take (nat j - nat i) (drop (nat i) xs))"
  by (simp add: slice_def)


section \<open>The types asked for\<close>

text \<open>
  The types of a search: none given means all six; otherwise the known types named between the
  commas, in any case and with blanks around them, each once and in the order first named. An unknown
  type, or a list with no type in it, is an error.
\<close>

theorem ParseSearchTypes_outcome:
  "let parts = filter (\<lambda>t. t \<noteq> []) (map (\<lambda>p. ToLower lo (TrimSpace p)) (split_on (CHR '','') (TrimSpace raw))) in
   if TrimSpace raw = [] then ParseSearchTypes lo raw = Inr DefaultSearchTypes
   else if parts \<noteq> [] \<and> set parts \<subseteq> set DefaultSearchTypes then
     \<exists>out. ParseSearchTypes lo raw = Inr out \<and> out = rev (remdups (rev parts))
   else ParseSearchTypes lo raw = Inl ErrInvalid"
proof -
  have loop: "parse_types lo seen ps =
      (let parts = filter (\<lambda>t. t \<noteq> []) (map (\<lambda>p. ToLower lo (TrimSpace p)) ps) in
       if set parts \<subseteq> set DefaultSearchTypes then Inr (rev (remdups (rev (seen @ parts)))) else Inl ErrInvalid)"
    if "distinct seen" for seen ps
    using that
  proof (induction ps arbitrary: seen)
    case Nil
    then show ?case by (simp add: distinct_remdups_id)
  next
    case (Cons p ps)
    have rem: "t \<in> set seen \<Longrightarrow> remdups (ts @ t # rev seen) = remdups (ts @ rev seen)" for t ts
      by (induction ts) auto
    show ?case using Cons by (auto simp: Let_def rem)
  qed
  have "rev (remdups (rev ts)) = [] \<longleftrightarrow> ts = []" for ts :: "string list" by simp
  then show ?thesis
    by (auto simp: ParseSearchTypes_def loop Let_def)
qed

end
