(* ===== verification/SvcSearch.thy ===== *)
theory SvcSearch
  imports SvcPages SvcDocs SvcBoards SvcChat SearchText
begin

text \<open>
  \<open>service/search.go\<close>: the search over a workspace. The labels of the hits are the Japanese words of
  the source, written as code points. The orders in which the maps of the store are ranged over are
  the record \<open>Ranges\<close>; boards and channels are listed twice, each time in an order of its own.
\<close>

section \<open>Words\<close>

definition word_body :: string where "word_body = of_runes [26412, 25991]"
definition word_page :: string where "word_page = of_runes [12506, 12540, 12472, 21517]"
definition word_document :: string where "word_document = of_runes [12489, 12461, 12517, 12513, 12531, 12488, 21517]"
definition word_board :: string where "word_board = of_runes [12508, 12540, 12489, 21517]"
definition word_card :: string where "word_card = of_runes [12459, 12540, 12489, 21517]"
definition word_description :: string where "word_description = of_runes [35500, 26126]"
definition word_channel :: string where "word_channel = of_runes [12481, 12515, 12531, 12493, 12523, 21517]"
definition word_message :: string where "word_message = of_runes [12513, 12483, 12475, 12540, 12472]"
definition in_wiki :: string where "in_wiki = ''Wiki '' @ of_runes [183, 32]"
definition in_board :: string where "in_board = of_runes [12508, 12540, 12489, 32, 183, 32]"
definition in_channel :: string where "in_channel = of_runes [12481, 12515, 12531, 12493, 12523, 32, 183, 32]"

text \<open>\<open>strconv.Itoa\<close>.\<close>

fun digits :: "nat \<Rightarrow> string" where
  "digits n = (if n < 10 then [char_of (48 + n)] else digits (n div 10) @ [char_of (48 + n mod 10)])"

definition Itoa :: "int \<Rightarrow> string" where
  "Itoa i = (if i < 0 then CHR ''-'' # digits (nat (- i)) else digits (nat i))"

text \<open>A snippet; \<open>None\<close>, the panic, is impossible (\<open>Snippet_window\<close>).\<close>

definition snippet :: "(nat \<Rightarrow> nat) \<Rightarrow> string \<Rightarrow> string \<Rightarrow> string" where
  "snippet lo body q = the (Snippet lo body q 80)"

section \<open>The six searches\<close>

record Ranges =
  rg_pages :: "id list"
  rg_documents :: "id list"
  rg_boards :: "id list"
  rg_cards :: "id list"
  rg_cardBoards :: "id list"
  rg_channels :: "id list"
  rg_msgChannels :: "id list"

definition page_hit :: "(nat \<Rightarrow> nat) \<Rightarrow> id \<Rightarrow> string \<Rightarrow> Page \<Rightarrow> SearchHit option" where
  "page_hit lo wsID q p =
     (if pg_ArchivedAt p \<noteq> None then None
      else let titleMatch = ContainsFold lo (pg_Title p) q; bodyMatch = ContainsFold lo (pg_Body p) q in
      if \<not> titleMatch \<and> \<not> bodyMatch then None
      else Some \<lparr>hit_Type = ''page'', hit_ID = pg_ID p, hit_Title = pg_Title p, hit_Context = in_wiki @ pg_Status p,
        hit_MatchLabel = (if titleMatch then word_page else word_body),
        hit_Snippet = (if titleMatch then pg_Title p else snippet lo (pg_Body p) q),
        hit_HrefHints = [(''workspaceId'', wsID), (''pageId'', pg_ID p)]\<rparr>)"

definition svc_searchPages :: "(nat \<Rightarrow> nat) \<Rightarrow> id list \<Rightarrow> Store \<Rightarrow> id \<Rightarrow> role \<Rightarrow> string \<Rightarrow> SearchHit list result" where
  "svc_searchPages lo ks s wsID role q =
     read_ok (mem_ListPages ks s wsID) (\<lambda>ps0.
       let ps = (if role = RoleGuest then FilterGuestPages ps0 else ps0)
       in Inr (List.map_filter (page_hit lo wsID q) ps))"

definition document_hit :: "(nat \<Rightarrow> nat) \<Rightarrow> id \<Rightarrow> string \<Rightarrow> Document \<Rightarrow> SearchHit option" where
  "document_hit lo wsID q d =
     (if doc_DeletedAt d \<noteq> None then None
      else let titleMatch = ContainsFold lo (doc_Title d) q; bodyMatch = ContainsFold lo (doc_Body d) q in
      if \<not> titleMatch \<and> \<not> bodyMatch then None
      else Some \<lparr>hit_Type = ''document'', hit_ID = doc_ID d, hit_Title = doc_Title d, hit_Context = ''Docs'',
        hit_MatchLabel = (if titleMatch then word_document else word_body),
        hit_Snippet = (if titleMatch then doc_Title d else snippet lo (doc_Body d) q),
        hit_HrefHints = [(''workspaceId'', wsID), (''documentId'', doc_ID d)]\<rparr>)"

definition svc_searchDocuments :: "(nat \<Rightarrow> nat) \<Rightarrow> id list \<Rightarrow> Store \<Rightarrow> id \<Rightarrow> string \<Rightarrow> SearchHit list result" where
  "svc_searchDocuments lo ks s wsID q =
     read_ok (mem_ListDocuments ks s wsID) (\<lambda>docs. Inr (List.map_filter (document_hit lo wsID q) docs))"

definition board_hit :: "(nat \<Rightarrow> nat) \<Rightarrow> string \<Rightarrow> Board \<Rightarrow> SearchHit option" where
  "board_hit lo q b =
     (if bd_ArchivedAt b \<noteq> None \<or> \<not> ContainsFold lo (bd_Name b) q then None
      else Some \<lparr>hit_Type = ''board'', hit_ID = bd_ID b, hit_Title = bd_Name b, hit_Context = [],
        hit_MatchLabel = word_board, hit_Snippet = bd_Name b, hit_HrefHints = [(''boardId'', bd_ID b)]\<rparr>)"

definition svc_searchBoards :: "(nat \<Rightarrow> nat) \<Rightarrow> id list \<Rightarrow> Store \<Rightarrow> id \<Rightarrow> string \<Rightarrow> SearchHit list result" where
  "svc_searchBoards lo ks s wsID q =
     read_ok (mem_ListBoards ks s wsID) (\<lambda>bs. Inr (List.map_filter (board_hit lo q) bs))"

text \<open>\<open>boardName\<close> and \<open>archived\<close>, filled from the list of boards: the last of equal keys counts.\<close>

definition board_index :: "Board list \<Rightarrow> id \<rightharpoonup> Board" where
  "board_index bs = foldl (\<lambda>m b. m(bd_ID b \<mapsto> b)) Map.empty bs"

definition card_hit :: "(nat \<Rightarrow> nat) \<Rightarrow> (id \<rightharpoonup> Board) \<Rightarrow> string \<Rightarrow> Card \<Rightarrow> SearchHit option" where
  "card_hit lo bm q c =
     (if (case bm (ca_BoardID c) of None \<Rightarrow> False | Some b \<Rightarrow> bd_ArchivedAt b \<noteq> None) then None
      else if \<not> ContainsFold lo (ca_Title c @ [CHR 0x0A] @ ca_Description c) q then None
      else let inTitle = ContainsFold lo (ca_Title c) q
      in Some \<lparr>hit_Type = ''card'', hit_ID = ca_ID c, hit_Title = ca_Title c,
        hit_Context = in_board @ (case bm (ca_BoardID c) of None \<Rightarrow> [] | Some b \<Rightarrow> bd_Name b),
        hit_MatchLabel = (if inTitle then word_card else word_description),
        hit_Snippet = (if inTitle then ca_Title c else snippet lo (ca_Description c) q),
        hit_HrefHints = [(''boardId'', ca_BoardID c), (''cardId'', ca_ID c)]\<rparr>)"

definition svc_searchCards :: "(nat \<Rightarrow> nat) \<Rightarrow> id list \<Rightarrow> id list \<Rightarrow> Store \<Rightarrow> id \<Rightarrow> string \<Rightarrow> SearchHit list result" where
  "svc_searchCards lo ks bks s wsID q =
     read_ok (mem_ListCardsInWorkspace ks s wsID) (\<lambda>cs.
     read_ok (mem_ListBoards bks s wsID) (\<lambda>bs. Inr (List.map_filter (card_hit lo (board_index bs) q) cs)))"

definition channel_hit :: "(nat \<Rightarrow> nat) \<Rightarrow> string \<Rightarrow> Channel \<Rightarrow> SearchHit option" where
  "channel_hit lo q ch =
     (if \<not> ContainsFold lo (ch_Name ch) q then None
      else Some \<lparr>hit_Type = ''channel'', hit_ID = ch_ID ch, hit_Title = ch_Name ch, hit_Context = [],
        hit_MatchLabel = word_channel, hit_Snippet = ch_Name ch, hit_HrefHints = [(''channelId'', ch_ID ch)]\<rparr>)"

definition svc_searchChannels :: "(nat \<Rightarrow> nat) \<Rightarrow> id list \<Rightarrow> Store \<Rightarrow> id \<Rightarrow> string \<Rightarrow> SearchHit list result" where
  "svc_searchChannels lo ks s wsID q =
     read_ok (mem_ListChannels ks s wsID) (\<lambda>chs. Inr (List.map_filter (channel_hit lo q) chs))"

definition message_hit :: "(nat \<Rightarrow> nat) \<Rightarrow> string \<Rightarrow> Channel \<Rightarrow> ChatMessage \<Rightarrow> SearchHit option" where
  "message_hit lo q ch m =
     (if \<not> ContainsFold lo (cm_Body m) q then None
      else Some \<lparr>hit_Type = ''message'', hit_ID = cm_ID m, hit_Title = cm_Body m, hit_Context = in_channel @ ch_Name ch,
        hit_MatchLabel = word_message, hit_Snippet = snippet lo (cm_Body m) q,
        hit_HrefHints = [(''channelId'', ch_ID ch), (''seq'', Itoa (cm_Seq m))]\<rparr>)"

fun search_channels :: "(nat \<Rightarrow> nat) \<Rightarrow> Store \<Rightarrow> string \<Rightarrow> Channel list \<Rightarrow> SearchHit list result" where
  "search_channels lo s q [] = Inr []"
| "search_channels lo s q (ch # chs) =
     read_ok (mem_ListMessages s (ch_ID ch) 0) (\<lambda>msgs.
     read_ok (search_channels lo s q chs) (\<lambda>hits. Inr (List.map_filter (message_hit lo q ch) msgs @ hits)))"

definition svc_searchMessages :: "(nat \<Rightarrow> nat) \<Rightarrow> id list \<Rightarrow> Store \<Rightarrow> id \<Rightarrow> string \<Rightarrow> SearchHit list result" where
  "svc_searchMessages lo ks s wsID q = read_ok (mem_ListChannels ks s wsID) (search_channels lo s q)"

section \<open>The search\<close>

text \<open>The switch on one type; the types that \<open>ParseSearchTypes\<close> lets through are the six of them.\<close>

definition search_type :: "(nat \<Rightarrow> nat) \<Rightarrow> Ranges \<Rightarrow> Store \<Rightarrow> id \<Rightarrow> role \<Rightarrow> string \<Rightarrow> string \<Rightarrow> SearchHit list result" where
  "search_type lo rg s wsID role q t =
     (if t = ''page'' then svc_searchPages lo (rg_pages rg) s wsID role q
      else if t = ''document'' then svc_searchDocuments lo (rg_documents rg) s wsID q
      else if t = ''board'' then svc_searchBoards lo (rg_boards rg) s wsID q
      else if t = ''card'' then svc_searchCards lo (rg_cards rg) (rg_cardBoards rg) s wsID q
      else if t = ''channel'' then svc_searchChannels lo (rg_channels rg) s wsID q
      else if t = ''message'' then svc_searchMessages lo (rg_msgChannels rg) s wsID q
      else Inr [])"

fun search_types :: "(nat \<Rightarrow> nat) \<Rightarrow> Ranges \<Rightarrow> Store \<Rightarrow> id \<Rightarrow> role \<Rightarrow> string \<Rightarrow> SearchHit list \<Rightarrow> string list
    \<Rightarrow> SearchHit list result" where
  "search_types lo rg s wsID role q hits [] = Inr hits"
| "search_types lo rg s wsID role q hits (t # ts) =
     read_ok (search_type lo rg s wsID role q t) (\<lambda>part. search_types lo rg s wsID role q (hits @ part) ts)"

definition svc_Search :: "Env \<Rightarrow> Ranges \<Rightarrow> Store \<Rightarrow> string \<Rightarrow> id \<Rightarrow> string \<Rightarrow> string \<Rightarrow> SearchHit list result" where
  "svc_Search env rg s sub wsID q0 typesRaw =
     read_ok (svc_requireRead s wsID sub) (\<lambda>_.
       let q = TrimSpace q0 in
       if q = [] then Inl ErrInvalid
       else read_ok (ParseSearchTypes (env_lo env) typesRaw) (\<lambda>types.
       read_ok (mem_MemberRole s wsID sub) (\<lambda>role.
         search_types (env_lo env) rg s wsID role q [] types)))"

end
