(* ===== verification/Boards.thy ===== *)
theory Boards
  imports SvcBoards
begin

text \<open>
  The board component as a whole: every request that writes boards, columns, cards or sprints, the
  invariant that ties them together, and its preservation.
\<close>

section \<open>Requests\<close>

datatype board_req =
    CreateBoard id "id list" string id string time
  | ArchiveBoard string id time
  | UnarchiveBoard string id
  | CreateColumn id string id string time
  | RenameColumn string id string
  | DeleteColumn string id
  | ReorderColumns string id "id list"
  | CreateCard id string id string string time
  | UpdateCard string id string string "id option" int time
  | MoveCard string id id int int time
  | CreateSprint id string id string time time time
  | UpdateSprint string id string "time option" "time option" time
  | DeleteSprint string id

fun exec_board :: "board_req \<Rightarrow> Store \<Rightarrow> unit result \<times> Store" where
  "exec_board (CreateBoard bid cids sub wsID name now) s = outcome (svc_CreateBoard s bid cids sub wsID name now)"
| "exec_board (ArchiveBoard sub b now) s = outcome (svc_ArchiveBoard s sub b now)"
| "exec_board (UnarchiveBoard sub b) s = outcome (svc_UnarchiveBoard s sub b)"
| "exec_board (CreateColumn nid sub b name now) s = outcome (svc_CreateColumn s nid sub b name now)"
| "exec_board (RenameColumn sub c name) s = outcome (svc_RenameColumn s sub c name)"
| "exec_board (DeleteColumn sub c) s = outcome (svc_DeleteColumn s sub c)"
| "exec_board (ReorderColumns sub b ids) s = outcome (svc_ReorderColumns s sub b ids)"
| "exec_board (CreateCard nid sub c title d now) s = outcome (svc_CreateCard s nid sub c title d now)"
| "exec_board (UpdateCard sub k title d sp v now) s = outcome (unlock (svc_UpdateCard s sub k title d sp v now))"
| "exec_board (MoveCard sub k c p v now) s = outcome (unlock (svc_MoveCard s sub k c p v now))"
| "exec_board (CreateSprint nid sub b name t u now) s = outcome (svc_CreateSprint s nid sub b name t u now)"
| "exec_board (UpdateSprint sub k name t u now) s = outcome (svc_UpdateSprint s sub k name t u now)"
| "exec_board (DeleteSprint sub k) s = outcome (svc_DeleteSprint s sub k)"

text \<open>New identifiers are fresh; a new board takes one for each default column.\<close>

fun runtime_board :: "Store \<Rightarrow> board_req \<Rightarrow> bool" where
  "runtime_board s (CreateBoard bid cids sub wsID name now) \<longleftrightarrow>
     fresh s bid \<and> length cids = length defaultNames \<and> distinct (bid # cids) \<and> (\<forall>k \<in> set cids. fresh s k)"
| "runtime_board s (CreateColumn nid sub b name now) \<longleftrightarrow> fresh s nid"
| "runtime_board s (CreateCard nid sub c title d now) \<longleftrightarrow> fresh s nid"
| "runtime_board s (CreateSprint nid sub b name t u now) \<longleftrightarrow> fresh s nid"
| "runtime_board s _ \<longleftrightarrow> True"

section \<open>The invariant\<close>

text \<open>Columns on a board and cards in a column are two shelves.\<close>

interpretation column_shelf: shelf co_BoardID co_Position "\<lambda>i c. c\<lparr>co_Position := i\<rparr>" zero_Column
  by unfold_locales simp_all

interpretation card_shelf: shelf ca_ColumnID ca_Position "\<lambda>i c. c\<lparr>ca_Position := i\<rparr>" zero_Card
  by unfold_locales simp_all

text \<open>The workspace of a board, the board of a column and the board of a sprint.\<close>

definition board_ws :: "(id \<rightharpoonup> Board) \<Rightarrow> (id \<rightharpoonup> id)" where
  "board_ws B = (\<lambda>b. map_option bd_WorkspaceID (B b))"

definition column_board :: "(id \<rightharpoonup> Column) \<Rightarrow> (id \<rightharpoonup> id)" where
  "column_board C = (\<lambda>k. map_option co_BoardID (C k))"

definition sprint_board :: "(id \<rightharpoonup> Sprint) \<Rightarrow> (id \<rightharpoonup> id)" where
  "sprint_board P = (\<lambda>k. map_option sp_BoardID (P k))"

lemma link_upd [simp]:
  "board_ws (B(b \<mapsto> bd)) = (board_ws B)(b \<mapsto> bd_WorkspaceID bd)"
  "column_board (C(k \<mapsto> c)) = (column_board C)(k \<mapsto> co_BoardID c)"
  "column_board (C(k := None)) = (column_board C)(k := None)"
  "sprint_board (P(k \<mapsto> sp)) = (sprint_board P)(k \<mapsto> sp_BoardID sp)"
  "sprint_board (P(k := None)) = (sprint_board P)(k := None)"
  by (auto simp: board_ws_def column_board_def sprint_board_def)

lemma link_None [simp]:
  "board_ws B b = None \<longleftrightarrow> B b = None" "column_board C k = None \<longleftrightarrow> C k = None"
  "sprint_board P k = None \<longleftrightarrow> P k = None"
  by (auto simp: board_ws_def column_board_def sprint_board_def)

lemma link_Some:
  "B b = Some bd \<Longrightarrow> board_ws B b = Some (bd_WorkspaceID bd)"
  "C k = Some c \<Longrightarrow> column_board C k = Some (co_BoardID c)"
  "P k = Some sp \<Longrightarrow> sprint_board P k = Some (sp_BoardID sp)"
  by (auto simp: board_ws_def column_board_def sprint_board_def)

definition boards_ok :: "(id \<rightharpoonup> Workspace) \<Rightarrow> (id \<rightharpoonup> Board) \<Rightarrow> (id \<rightharpoonup> id list) \<Rightarrow> bool" where
  "boards_ok W B BC \<longleftrightarrow>
     (\<forall>b bd. B b = Some bd \<longrightarrow> bd_ID bd = b \<and> W (bd_WorkspaceID bd) \<noteq> None) \<and>
     dom BC = dom B \<and> (\<forall>b. BC b \<noteq> Some [])"

definition columns_ok :: "(id \<rightharpoonup> Column) \<Rightarrow> (id \<rightharpoonup> id list) \<Rightarrow> bool" where
  "columns_ok C CC \<longleftrightarrow> (\<forall>k c. C k = Some c \<longrightarrow> co_ID c = k) \<and> dom CC = dom C"

definition card_wf :: "(id \<rightharpoonup> id) \<Rightarrow> (id \<rightharpoonup> id) \<Rightarrow> id \<Rightarrow> Card \<Rightarrow> bool" where
  "card_wf colb sprb k ca \<longleftrightarrow>
     ca_ID ca = k \<and> 1 \<le> ca_Version ca \<and> colb (ca_ColumnID ca) = Some (ca_BoardID ca) \<and>
     (ca_SprintID ca = [] \<or> sprb (ca_SprintID ca) = Some (ca_BoardID ca))"

definition cards_ok :: "(id \<rightharpoonup> id) \<Rightarrow> (id \<rightharpoonup> id) \<Rightarrow> (id \<rightharpoonup> Card) \<Rightarrow> bool" where
  "cards_ok colb sprb K \<longleftrightarrow> (\<forall>k ca. K k = Some ca \<longrightarrow> card_wf colb sprb k ca)"

definition sprint_wf :: "(id \<rightharpoonup> id) \<Rightarrow> id \<Rightarrow> Sprint \<Rightarrow> bool" where
  "sprint_wf bws k sp \<longleftrightarrow>
     sp_ID sp = k \<and> bws (sp_BoardID sp) = Some (sp_WorkspaceID sp) \<and>
     ValidSprintWindow (sp_StartAt sp) (sp_EndAt sp)"

definition sprints_ok :: "(id \<rightharpoonup> id) \<Rightarrow> (id \<rightharpoonup> Sprint) \<Rightarrow> bool" where
  "sprints_ok bws P \<longleftrightarrow> (\<forall>k sp. P k = Some sp \<longrightarrow> sprint_wf bws k sp)"

definition board_inv :: "Store \<Rightarrow> bool" where
  "board_inv s \<longleftrightarrow>
     boards_ok (workspaces s) (boards s) (boardCols s) \<and> columns_ok (columns s) (columnCards s) \<and>
     cards_ok (column_board (columns s)) (sprint_board (sprints s)) (cards s) \<and>
     sprints_ok (board_ws (boards s)) (sprints s) \<and>
     shelved co_BoardID co_Position (boardCols s) (columns s) \<and>
     shelved ca_ColumnID ca_Position (columnCards s) (cards s)"

lemma board_inv_New: "board_inv New"
  by (simp add: board_inv_def boards_ok_def columns_ok_def cards_ok_def sprints_ok_def New_def shelved_empty)

text \<open>The invariant depends on the boards and on which workspaces there are.\<close>

lemma boards_ok_mono: "boards_ok W B BC \<Longrightarrow> dom W \<subseteq> dom W' \<Longrightarrow> boards_ok W' B BC"
  by (fastforce simp: boards_ok_def)

lemma board_inv_cong:
  assumes "board_part t = board_part s" and "dom (workspaces s) \<subseteq> dom (workspaces t)" and "board_inv s"
  shows "board_inv t"
  using assms boards_ok_mono by (fastforce simp: board_inv_def parts)

lemma board_invD:
  assumes "board_inv s"
  shows "boards_ok (workspaces s) (boards s) (boardCols s)" and "columns_ok (columns s) (columnCards s)"
    and "cards_ok (column_board (columns s)) (sprint_board (sprints s)) (cards s)"
    and "sprints_ok (board_ws (boards s)) (sprints s)"
    and "shelved co_BoardID co_Position (boardCols s) (columns s)"
    and "shelved ca_ColumnID ca_Position (columnCards s) (cards s)"
  using assms by (simp_all add: board_inv_def)

lemma board_cols: "board_inv s \<Longrightarrow> boards s b = Some bd \<Longrightarrow> \<exists>ids. boardCols s b = Some ids \<and> ids \<noteq> []"
  using board_invD(1) [of s] unfolding boards_ok_def by (metis domD domI)

lemma column_cards: "board_inv s \<Longrightarrow> columns s k = Some c \<Longrightarrow> \<exists>ids. columnCards s k = Some ids"
  using board_invD(2) [of s] unfolding columns_ok_def by (metis domD domI)

lemmas bi_ok = ok_inv [where P = board_inv]

section \<open>The parts under updates\<close>

lemma boards_ok_id: "boards_ok W B BC \<Longrightarrow> B b = Some bd \<Longrightarrow> bd_ID bd = b"
  and columns_ok_id: "columns_ok C CC \<Longrightarrow> C k = Some c \<Longrightarrow> co_ID c = k"
  by (auto simp: boards_ok_def columns_ok_def)

lemma boards_ok_upd:
  "boards_ok W B BC \<Longrightarrow> B b = Some bd \<Longrightarrow> bd_ID bd' = b \<Longrightarrow> bd_WorkspaceID bd' = bd_WorkspaceID bd \<Longrightarrow>
   boards_ok W (B(b \<mapsto> bd')) BC"
  by (auto simp: boards_ok_def)

lemma boards_ok_cols:
  "boards_ok W B BC \<Longrightarrow> BC b \<noteq> None \<Longrightarrow> ids \<noteq> [] \<Longrightarrow> boards_ok W B (BC(b \<mapsto> ids))"
  by (auto simp: boards_ok_def)

lemma boards_ok_new:
  "boards_ok W B BC \<Longrightarrow> bd_ID bd = b \<Longrightarrow> W (bd_WorkspaceID bd) \<noteq> None \<Longrightarrow> ids \<noteq> [] \<Longrightarrow>
   boards_ok W (B(b \<mapsto> bd)) (BC(b \<mapsto> ids))"
  by (auto simp: boards_ok_def)

lemma columns_ok_put:
  "columns_ok C CC \<Longrightarrow> co_ID c = k \<Longrightarrow> columns_ok (C(k \<mapsto> c)) (CC(k \<mapsto> ids))"
  by (auto simp: columns_ok_def)

lemma columns_ok_upd:
  "columns_ok C CC \<Longrightarrow> C k \<noteq> None \<Longrightarrow> co_ID c = k \<Longrightarrow> columns_ok (C(k \<mapsto> c)) CC"
  by (auto simp: columns_ok_def)

lemma columns_ok_cards: "columns_ok C CC \<Longrightarrow> CC k \<noteq> None \<Longrightarrow> columns_ok C (CC(k \<mapsto> ids))"
  by (auto simp: columns_ok_def)

lemma columns_ok_del: "columns_ok C CC \<Longrightarrow> columns_ok (C(k := None)) (CC(k := None))"
  by (auto simp: columns_ok_def)

lemma cards_ok_put: "cards_ok f g K \<Longrightarrow> card_wf f g k c \<Longrightarrow> cards_ok f g (K(k \<mapsto> c))"
  by (auto simp: cards_ok_def)

lemma cards_ok_new_column: "cards_ok f g K \<Longrightarrow> f k = None \<Longrightarrow> cards_ok (f(k \<mapsto> b)) g K"
  by (auto simp: cards_ok_def card_wf_def)

lemma cards_ok_new_sprint: "cards_ok f g K \<Longrightarrow> g k = None \<Longrightarrow> cards_ok f (g(k \<mapsto> b)) K"
  by (force simp: cards_ok_def card_wf_def)

lemma sprints_ok_put: "sprints_ok f P \<Longrightarrow> sprint_wf f k sp \<Longrightarrow> sprints_ok f (P(k \<mapsto> sp))"
  by (auto simp: sprints_ok_def)

lemma sprints_ok_new_board: "sprints_ok f P \<Longrightarrow> f b = None \<Longrightarrow> sprints_ok (f(b \<mapsto> w)) P"
  by (auto simp: sprints_ok_def sprint_wf_def)

section \<open>Preservation by the store's operations\<close>

lemma board_ws_same: "B b = Some bd \<Longrightarrow> bd_WorkspaceID bd' = bd_WorkspaceID bd \<Longrightarrow> board_ws (B(b \<mapsto> bd')) = board_ws B"
  by (auto simp: board_ws_def)

lemma column_board_same:
  "C k = Some c \<Longrightarrow> co_BoardID c' = co_BoardID c \<Longrightarrow> column_board (C(k \<mapsto> c')) = column_board C"
  by (auto simp: column_board_def)

lemma board_id: "board_inv s \<Longrightarrow> boards s b = Some bd \<Longrightarrow> bd_ID bd = b"
  and column_id: "board_inv s \<Longrightarrow> columns s k = Some c \<Longrightarrow> co_ID c = k"
  and card_id: "board_inv s \<Longrightarrow> cards s k = Some ca \<Longrightarrow> card_wf (column_board (columns s)) (sprint_board (sprints s)) k ca"
  and sprint_id: "board_inv s \<Longrightarrow> sprints s k = Some sp \<Longrightarrow> sprint_wf (board_ws (boards s)) k sp"
  by (auto simp: board_inv_def boards_ok_def columns_ok_def cards_ok_def sprints_ok_def)

lemma bi_ArchiveBoard: "board_inv s \<Longrightarrow> board_inv (snd (mem_ArchiveBoard s b now))"
  and bi_UnarchiveBoard: "board_inv s \<Longrightarrow> board_inv (snd (mem_UnarchiveBoard s b))"
  by (auto simp: mem_ArchiveBoard_def mem_UnarchiveBoard_def board_inv_def board_ws_same
      dest: boards_ok_id intro!: boards_ok_upd split: option.splits simp del: link_upd)

lemma bi_RenameColumn: "board_inv s \<Longrightarrow> board_inv (snd (mem_RenameColumn s c name))"
  by (auto simp: mem_RenameColumn_def board_inv_def Let_def column_board_same
      dest: columns_ok_id intro!: shelved_replace columns_ok_upd split: option.splits simp del: link_upd)

lemma bi_CreateColumn:
  assumes iv: "board_inv s" and "fresh s nid"
  shows "board_inv (snd (mem_CreateColumn s nid b name now))"
proof (cases "boards s b")
  case None
  then show ?thesis using iv by (simp add: mem_CreateColumn_def)
next
  case (Some bd)
  with iv obtain ids where ids: "boardCols s b = Some ids"
    using board_cols by blast
  have new: "columns s nid = None" "columnCards s nid = None"
    using assms(2) by (simp_all add: fresh_def)
  show ?thesis
    using Some ids new board_invD [OF iv]
    by (simp add: mem_CreateColumn_def Let_def board_inv_def new_column_def get_list_def
        boards_ok_cols columns_ok_put cards_ok_new_column shelved_append shelved_new_parent)
qed


text \<open>Renumbering changes neither identifiers nor links.\<close>

lemma column_board_number:
  "distinct ids \<Longrightarrow> (\<And>k. k \<in> set ids \<Longrightarrow> C k \<noteq> None) \<Longrightarrow> column_board (number_columns ids C) = column_board C"
  unfolding column_board_def number_columns_def by (rule ext, rule renumber_keeps) auto

lemma columns_ok_number:
  assumes "columns_ok C CC" and "distinct ids" and "\<And>k. k \<in> set ids \<Longrightarrow> C k \<noteq> None"
  shows "columns_ok (number_columns ids C) CC"
proof -
  have same: "map_option co_ID (number_columns ids C k) = map_option co_ID (C k)" for k
    unfolding number_columns_def by (rule renumber_keeps) (use assms in auto)
  have "number_columns ids C k = None \<longleftrightarrow> C k = None" for k
    using same [of k] by (metis map_option_is_None)
  then have "dom (number_columns ids C) = dom C" by (simp add: dom_def)
  moreover have "co_ID c = k" if "number_columns ids C k = Some c" for k c
    using same [of k] that assms(1) by (cases "C k") (auto simp: columns_ok_def)
  ultimately show ?thesis using assms(1) by (simp add: columns_ok_def)
qed

lemma cards_ok_number:
  assumes "cards_ok f g K" and "distinct ids" and "\<And>k. k \<in> set ids \<Longrightarrow> K k \<noteq> None"
  shows "cards_ok f g (number_cards ids K)"
proof -
  have "map_option (\<lambda>ca. ca\<lparr>ca_Position := 0\<rparr>) (number_cards ids K k) =
      map_option (\<lambda>ca. ca\<lparr>ca_Position := 0\<rparr>) (K k)" for k
    unfolding number_cards_def by (rule renumber_keeps) (use assms in auto)
  then have "\<exists>ca'. K k = Some ca' \<and> ca\<lparr>ca_Position := 0\<rparr> = ca'\<lparr>ca_Position := 0\<rparr>"
    if "number_cards ids K k = Some ca" for k ca
    using that by (metis map_option_eq_Some)
  moreover have "card_wf f g k ca = card_wf f g k (ca\<lparr>ca_Position := 0\<rparr>)" for k ca
    by (simp add: card_wf_def)
  ultimately show ?thesis
    using assms(1) unfolding cards_ok_def by metis
qed

lemma shelf_ids:
  assumes "shelved par pos idx m" and "idx p = Some ids"
  shows "distinct ids" and "\<And>k. k \<in> set ids \<Longrightarrow> m k \<noteq> None"
  using shelvedD [OF assms] by blast+

lemma bi_DeleteColumn:
  assumes iv: "board_inv s"
  shows "board_inv (snd (mem_DeleteColumn s k))"
proof (cases "\<exists>col. columns s k = Some col \<and> get_list (columnCards s) k = [] \<and>
    \<not> length (get_list (boardCols s) (co_BoardID col)) \<le> 1")
  case False
  then show ?thesis using iv by (auto simp: mem_DeleteColumn_def Let_def split: option.split)
next
  case True
  then obtain col where col: "columns s k = Some col" and empty: "get_list (columnCards s) k = []"
    and two: "\<not> length (get_list (boardCols s) (co_BoardID col)) \<le> 1"
    by blast
  note parts = board_invD [OF iv]
  obtain ids where ids: "boardCols s (co_BoardID col) = Some ids" "k \<in> set ids"
    using shelved_parent [OF parts(5) col] by blast
  have cc: "columnCards s k = Some []"
    using column_cards [OF iv col] empty by (auto simp: get_list_def)
  have d: "distinct ids" "\<And>j. j \<in> set ids \<Longrightarrow> columns s j \<noteq> None"
    using shelf_ids [OF parts(5) ids(1)] by blast+
  let ?ids = "filter (\<lambda>j. j \<noteq> k) ids"
  have "?ids \<noteq> []"
  proof
    assume "?ids = []"
    then have "set ids \<subseteq> {k}" by (auto simp: filter_empty_conv)
    then have "card (set ids) \<le> 1" using card_mono [of "{k}" "set ids"] by simp
    then show False using two ids d(1) by (simp add: distinct_card get_list_def)
  qed
  moreover have "cards_ok ((column_board (columns s))(k := None)) (sprint_board (sprints s)) (cards s)"
    using parts(3) shelvedD(2) [OF parts(6) cc] by (auto simp: cards_ok_def card_wf_def)
  moreover have "column_board (number_columns ?ids (columns s)) = column_board (columns s)"
    by (rule column_board_number) (use d in auto)
  moreover have "columns_ok (number_columns ?ids (columns s)) (columnCards s)"
    by (rule columns_ok_number [OF parts(2)]) (use d in auto)
  moreover have "shelved co_BoardID co_Position ((boardCols s)(co_BoardID col \<mapsto> ?ids))
      ((number_columns ?ids (columns s))(k := None))"
    using column_shelf.shelved_remove [OF parts(5) ids(1), of k] ids(2) by (simp add: number_columns_def)
  ultimately show ?thesis
    using parts col empty two ids cc
    by (simp add: mem_DeleteColumn_def Let_def board_inv_def get_list_def boards_ok_cols columns_ok_del
        shelved_drop_parent)
qed

lemma tick_off_Some: "tick_off S ks = Some S' \<longleftrightarrow> distinct ks \<and> set ks \<subseteq> S \<and> S' = S - set ks"
  by (induction S ks rule: tick_off.induct) (auto split: if_splits)

lemma bi_ReorderColumns:
  assumes iv: "board_inv s"
  shows "board_inv (snd (mem_ReorderColumns s b ids'))"
proof (cases "boards s b")
  case None
  then show ?thesis using iv by (simp add: mem_ReorderColumns_def)
next
  case (Some bd)
  note parts = board_invD [OF iv]
  obtain ids where ids: "boardCols s b = Some ids" "ids \<noteq> []"
    using board_cols [OF iv Some] by blast
  have "board_inv (s\<lparr>boardCols := (boardCols s)(b \<mapsto> ids'), columns := number_columns ids' (columns s)\<rparr>)"
    if "distinct ids'" "set ids' = set ids"
  proof -
    have mem: "\<And>k. k \<in> set ids' \<Longrightarrow> columns s k \<noteq> None"
      using shelf_ids(2) [OF parts(5) ids(1)] that(2) by blast
    have "ids' \<noteq> []" using that ids by auto
    then show ?thesis
      using parts ids column_shelf.shelved_permute [OF parts(5) ids(1) that]
        column_board_number [OF that(1) mem] columns_ok_number [OF parts(2) that(1) mem]
      by (simp add: board_inv_def boards_ok_cols number_columns_def [symmetric])
  qed
  then show ?thesis
    using iv Some ids by (auto simp: mem_ReorderColumns_def Let_def get_list_def tick_off_Some split: option.split)
qed

lemma bi_CreateCard:
  assumes iv: "board_inv s" and "fresh s nid"
  shows "board_inv (snd (mem_CreateCard s nid k title d now))"
proof (cases "\<exists>col bd. columns s k = Some col \<and> boards s (co_BoardID col) = Some bd")
  case False
  then show ?thesis using iv by (auto simp: mem_CreateCard_def split: option.split)
next
  case True
  then obtain col bd where col: "columns s k = Some col" "boards s (co_BoardID col) = Some bd" by blast
  then obtain ids where ids: "columnCards s k = Some ids" using column_cards [OF iv] by blast
  have new: "cards s nid = None" using assms(2) by (simp add: fresh_def)
  note parts = board_invD [OF iv]
  show ?thesis
    using parts col ids new board_id [OF iv col(2)]
    by (simp add: mem_CreateCard_def Let_def board_inv_def get_list_def columns_ok_cards cards_ok_put card_wf_def
        shelved_append link_Some)
qed

lemma bi_UpdateCard:
  assumes iv: "board_inv s"
  shows "board_inv (snd (mem_UpdateCard s k title d sid v now))"
proof -
  have upd: "board_inv (s\<lparr>cards := (cards s)(k \<mapsto> c)\<rparr>)"
    if "cards s k = Some c0" "ca_ID c = ca_ID c0" "ca_ColumnID c = ca_ColumnID c0" "ca_BoardID c = ca_BoardID c0"
      "ca_Position c = ca_Position c0" "ca_Version c = ca_Version c0 + 1"
      "ca_SprintID c = ca_SprintID c0 \<or> ca_SprintID c = [] \<or>
       sprint_board (sprints s) (ca_SprintID c) = Some (ca_BoardID c0)" for c0 c
    using that board_invD [OF iv] card_id [OF iv that(1)]
    by (auto simp: board_inv_def card_wf_def intro!: cards_ok_put shelved_replace)
  show ?thesis
    using iv by (auto simp: mem_UpdateCard_def Let_def link_Some intro!: upd split: option.splits)
qed


text \<open>
  A move in closed form: the order of the columns afterwards and the cards, where the moved card is
  the one returned.
\<close>

definition clamp :: "int \<Rightarrow> nat \<Rightarrow> nat" where
  "clamp position n = (if position < 0 then 0 else if position > int n then n else nat position)"

definition moved_order :: "(id \<rightharpoonup> id list) \<Rightarrow> id \<Rightarrow> id \<Rightarrow> id \<Rightarrow> int \<Rightarrow> (id \<rightharpoonup> id list)" where
  "moved_order CC k old target position =
     (let CC1 = CC(old \<mapsto> filter (\<lambda>j. j \<noteq> k) (get_list CC old));
          ids = get_list CC1 target; i = clamp position (length ids)
      in CC1(target \<mapsto> take i ids @ [k] @ drop i ids))"

definition moved_card :: "Card \<Rightarrow> Column \<Rightarrow> nat \<Rightarrow> time \<Rightarrow> Card" where
  "moved_card c col i now =
     c\<lparr>ca_ColumnID := co_ID col, ca_Position := int i,
       ca_CompletedAt := (if ColumnIsDone (co_Name col)
         then (if ca_CompletedAt c = None then Some now else ca_CompletedAt c) else None),
       ca_Version := ca_Version c + 1, ca_UpdatedAt := now\<rparr>"

lemma clamp_le: "clamp position n \<le> n"
  by (simp add: clamp_def) linarith

lemma MoveCard_eq:
  assumes "cards s k = Some c" and "ca_Version c = v" and "columns s target = Some col"
    and "co_ID col = target" and "co_BoardID col = ca_BoardID c"
  shows "mem_MoveCard s k target position v now =
    (let CC1 = (columnCards s)(ca_ColumnID c \<mapsto> filter (\<lambda>j. j \<noteq> k) (get_list (columnCards s) (ca_ColumnID c)));
         CC2 = moved_order (columnCards s) k (ca_ColumnID c) target position;
         card = moved_card c col (clamp position (length (get_list CC1 target))) now
     in (Inr card, s\<lparr>columnCards := CC2,
           cards := (number_cards (get_list CC2 target)
             (number_cards (get_list CC1 (ca_ColumnID c)) (cards s)))(k \<mapsto> card)\<rparr>))"
proof -
  have pos: "(let p1 = (if position < 0 then 0 else position) in if p1 > int n then int n else p1) = int (clamp position n)"
    for n by (simp add: clamp_def)
  show ?thesis
    using assms pos
    by (simp add: mem_MoveCard_def reindexColumnLocked_def moved_order_def moved_card_def Let_def clamp_def)
qed

lemma shelved_move:
  fixes position :: int
  assumes sh: "shelved ca_ColumnID ca_Position CC K" and k: "K k = Some c" and target: "CC target \<noteq> None"
  defines "CC1 \<equiv> CC(ca_ColumnID c \<mapsto> filter (\<lambda>j. j \<noteq> k) (get_list CC (ca_ColumnID c)))"
    and "CC2 \<equiv> moved_order CC k (ca_ColumnID c) target position"
  assumes v: "ca_ColumnID v = target" "ca_Position v = int (clamp position (length (get_list CC1 target)))"
  shows "shelved ca_ColumnID ca_Position CC2
      ((number_cards (get_list CC2 target) (number_cards (get_list CC1 (ca_ColumnID c)) K))(k \<mapsto> v))"
    and "distinct (get_list CC2 target)"
    and "set (get_list CC2 target) \<subseteq> dom K" and "set (get_list CC1 (ca_ColumnID c)) \<subseteq> dom K"
    and "distinct (get_list CC1 (ca_ColumnID c))"
proof -
  obtain ids where ids: "CC (ca_ColumnID c) = Some ids" "k \<in> set ids"
    using shelved_parent [OF sh k] by blast
  let ?old = "filter (\<lambda>j. j \<noteq> k) ids"
  let ?K1 = "(number_cards ?old K)(k := None)"
  have CC1: "CC1 = CC(ca_ColumnID c \<mapsto> ?old)" and old: "get_list CC1 (ca_ColumnID c) = ?old"
    using ids by (simp_all add: CC1_def get_list_def)
  have sh1: "shelved ca_ColumnID ca_Position CC1 ?K1"
    using card_shelf.shelved_remove [OF sh ids(1), of k] ids(2) by (simp add: CC1 number_cards_def)
  obtain tids where tids: "CC1 target = Some tids"
    using target by (cases "target = ca_ColumnID c") (auto simp: CC1)
  let ?i = "clamp position (length tids)"
  have CC2: "CC2 = CC1(target \<mapsto> take ?i tids @ [k] @ drop ?i tids)"
  proof -
    have "get_list CC1 target = tids" using tids by (simp add: get_list_def)
    then show ?thesis by (simp only: CC2_def moved_order_def Let_def CC1_def [symmetric])
  qed
  have sh2: "shelved ca_ColumnID ca_Position CC2
      ((number_cards (take ?i tids @ [k] @ drop ?i tids) ?K1)(k \<mapsto> v))"
    unfolding CC2 number_cards_def
    by (rule card_shelf.shelved_insert)
      (use sh1 tids v clamp_le in \<open>simp_all add: get_list_def number_cards_def\<close>)
  have new: "get_list CC2 target = take ?i tids @ [k] @ drop ?i tids" by (simp add: CC2)
  then show d: "distinct (get_list CC2 target)"
    using shelvedD(1) [OF sh2, of target] by (simp add: CC2)
  show "shelved ca_ColumnID ca_Position CC2
      ((number_cards (get_list CC2 target) (number_cards (get_list CC1 (ca_ColumnID c)) K))(k \<mapsto> v))"
    using sh2 renumber_override [OF d, of "\<lambda>i c. c\<lparr>ca_Position := i\<rparr>" zero_Card "number_cards ?old K" k None v]
    unfolding new old number_cards_def by simp
  have old_sub: "set ?old \<subseteq> dom K" using shelf_ids(2) [OF sh ids(1)] by auto
  show "set (get_list CC1 (ca_ColumnID c)) \<subseteq> dom K" "distinct (get_list CC1 (ca_ColumnID c))"
    using old_sub shelf_ids(1) [OF sh ids(1)] unfolding old by simp_all
  have "j \<in> dom K" if "j \<in> set tids" for j
  proof -
    have "?K1 j \<noteq> None" using shelf_ids(2) [OF sh1 tids that] .
    then have "number_cards ?old K j \<noteq> None" by (auto split: if_splits)
    then show ?thesis
      using old_sub renumber_other [of j ?old] unfolding number_cards_def by (metis domIff subsetD)
  qed
  moreover have "set (get_list CC2 target) = insert k (set tids)"
  proof -
    have "set (take ?i tids) \<union> set (drop ?i tids) = set tids"
      by (metis append_take_drop_id set_append)
    then show ?thesis unfolding new by auto
  qed
  ultimately show "set (get_list CC2 target) \<subseteq> dom K" using k by auto
qed

lemma bi_MoveCard:
  assumes iv: "board_inv s"
  shows "board_inv (snd (mem_MoveCard s k target position v now))"
proof (cases "\<exists>c col. cards s k = Some c \<and> ca_Version c = v \<and> columns s target = Some col \<and> co_BoardID col = ca_BoardID c")
  case False
  then show ?thesis using iv by (auto simp: mem_MoveCard_def split: option.split)
next
  case True
  then obtain c col where c: "cards s k = Some c" "ca_Version c = v"
    and col: "columns s target = Some col" "co_BoardID col = ca_BoardID c" by blast
  note parts = board_invD [OF iv]
  have target: "columnCards s target \<noteq> None" using column_cards [OF iv col(1)] by blast
  have id: "co_ID col = target" by (rule column_id [OF iv col(1)])
  define CC1 where "CC1 = (columnCards s)(ca_ColumnID c \<mapsto> filter (\<lambda>j. j \<noteq> k) (get_list (columnCards s) (ca_ColumnID c)))"
  define CC2 where "CC2 = moved_order (columnCards s) k (ca_ColumnID c) target position"
  define card where "card = moved_card c col (clamp position (length (get_list CC1 target))) now"
  have "ca_ColumnID card = target" "ca_Position card = int (clamp position (length (get_list CC1 target)))"
    by (simp_all add: card_def moved_card_def id)
  note sh = shelved_move [OF parts(6) c(1) target, where v = card and position = position, folded CC1_def CC2_def, OF this]
  have "cards_ok (column_board (columns s)) (sprint_board (sprints s))
      ((number_cards (get_list CC2 target) (number_cards (get_list CC1 (ca_ColumnID c)) (cards s)))(k \<mapsto> card))"
  proof (intro cards_ok_put cards_ok_number parts(3) sh(2,5))
    show "card_wf (column_board (columns s)) (sprint_board (sprints s)) k card"
      using card_id [OF iv c(1)] col by (auto simp: card_wf_def card_def moved_card_def id link_Some)
  qed (use sh(3,4) in \<open>auto simp: number_cards_def renumber_dom [OF sh(5)]\<close>)
  moreover have "columns_ok (columns s) CC2"
    using parts(2) target c(1) shelved_idx [OF parts(6) c(1)]
    by (auto simp: CC2_def moved_order_def Let_def intro!: columns_ok_cards)
  ultimately show ?thesis
    using parts sh(1)
    by (simp add: MoveCard_eq [OF c col(1) id col(2)] Let_def board_inv_def CC1_def [symmetric] CC2_def [symmetric]
        card_def [symmetric])
qed


lemma bi_CreateSprint:
  assumes iv: "board_inv s" and "fresh s nid" and "ValidSprintWindow t u"
  shows "board_inv (snd (mem_CreateSprint s nid b name t u now))"
proof (cases "boards s b")
  case None
  then show ?thesis using iv by (simp add: mem_CreateSprint_def)
next
  case (Some bd)
  have "sprints s nid = None" using assms(2) by (simp add: fresh_def)
  then show ?thesis
    using board_invD [OF iv] Some assms(3)
    by (simp add: mem_CreateSprint_def Let_def board_inv_def sprints_ok_put sprint_wf_def cards_ok_new_sprint link_Some)
qed

lemma sprint_board_same:
  "P k = Some sp \<Longrightarrow> sp_BoardID sp' = sp_BoardID sp \<Longrightarrow> sprint_board (P(k \<mapsto> sp')) = sprint_board P"
  by (auto simp: sprint_board_def)

lemma bi_UpdateSprint:
  assumes iv: "board_inv s"
    and "\<And>sp. sprints s k = Some sp \<Longrightarrow>
      ValidSprintWindow (case t of None \<Rightarrow> sp_StartAt sp | Some x \<Rightarrow> x) (case u of None \<Rightarrow> sp_EndAt sp | Some x \<Rightarrow> x)"
  shows "board_inv (snd (mem_UpdateSprint s k name t u now))"
proof (cases "sprints s k")
  case None
  then show ?thesis using iv by (simp add: mem_UpdateSprint_def)
next
  case (Some sp)
  have "board_inv (s\<lparr>sprints := (sprints s)(k \<mapsto> sp')\<rparr>)"
    if "sp_ID sp' = sp_ID sp" "sp_BoardID sp' = sp_BoardID sp" "sp_WorkspaceID sp' = sp_WorkspaceID sp"
      "ValidSprintWindow (sp_StartAt sp') (sp_EndAt sp')" for sp'
    using board_invD [OF iv] sprint_id [OF iv Some] that sprint_board_same [of "sprints s" k sp sp'] Some
    by (simp add: board_inv_def sprints_ok_put sprint_wf_def del: link_upd)
  then show ?thesis
    using Some assms(2) [OF Some] by (cases t; cases u) (simp_all add: mem_UpdateSprint_def Let_def)
qed

lemma bi_DeleteSprint:
  assumes iv: "board_inv s"
  shows "board_inv (snd (mem_DeleteSprint s k))"
proof -
  note parts = board_invD [OF iv]
  have "shelved ca_ColumnID ca_Position (columnCards s) (\<lambda>j. map_option (clear_sprint k) (cards s j))"
    by (rule shelved_map [OF parts(6)]) (simp_all add: clear_sprint_def)
  moreover have "card_wf f (g(k := None)) j (clear_sprint k ca)" if "card_wf f g j ca" for f g j ca
    using that by (simp add: card_wf_def clear_sprint_def)
  then have "cards_ok (column_board (columns s)) ((sprint_board (sprints s))(k := None))
      (\<lambda>j. map_option (clear_sprint k) (cards s j))"
    using parts(3) by (auto simp: cards_ok_def)
  moreover have "sprints_ok (board_ws (boards s)) ((sprints s)(k := None))"
    using parts(4) by (simp add: sprints_ok_def)
  ultimately show ?thesis
    using iv by (simp add: mem_DeleteSprint_def board_inv_def)
qed

lemma three: "length xs = 3 \<Longrightarrow> \<exists>a b c. xs = [a, b, c]"
  by (auto simp: length_Suc_conv numeral_3_eq_3)

lemma bi_CreateBoard:
  assumes iv: "board_inv s" and new: "fresh s bid" "length cids = length defaultNames" "distinct (bid # cids)"
    "\<And>k. k \<in> set cids \<Longrightarrow> fresh s k"
  shows "board_inv (snd (mem_CreateBoard s bid cids wsID name now))"
proof -
  obtain a b c where cids: "cids = [a, b, c]"
    using three [of cids] new(2) by (auto simp: defaultNames_def)
  then have d: "distinct [bid, a, b, c]" "distinct [c, b, a]" using new(3) by auto
  have none: "boards s bid = None" "boardCols s bid = None" "columns s a = None" "columns s b = None"
    "columns s c = None" "columnCards s a = None" "columnCards s b = None" "columnCards s c = None"
    using new(1,4) cids by (simp_all add: fresh_def)
  note parts = board_invD [OF iv]
  have "shelved co_BoardID co_Position ((boardCols s)(bid \<mapsto> [a, b, c]))
      ((columns s)(a \<mapsto> new_column bid now (0, a, x), b \<mapsto> new_column bid now (1, b, y),
        c \<mapsto> new_column bid now (2, c, z)))" for x y z
  proof -
    have "shelved co_BoardID co_Position ((boardCols s)(bid \<mapsto> [])) (columns s)"
      by (rule shelved_new_parent [OF parts(5)]) (use none in simp)
    then have "shelved co_BoardID co_Position ((boardCols s)(bid \<mapsto> [a]))
        ((columns s)(a \<mapsto> new_column bid now (0, a, x)))"
      using shelved_append [where p = bid and ids = "[]" and k = a] none d by (fastforce simp: new_column_def)
    then have "shelved co_BoardID co_Position ((boardCols s)(bid \<mapsto> [a, b]))
        ((columns s)(a \<mapsto> new_column bid now (0, a, x), b \<mapsto> new_column bid now (1, b, y)))"
      using shelved_append [where p = bid and ids = "[a]" and k = b] none d by (fastforce simp: new_column_def)
    then show ?thesis
      using shelved_append [where p = bid and ids = "[a, b]" and k = c] none d by (fastforce simp: new_column_def)
  qed
  moreover have "shelved ca_ColumnID ca_Position ((columnCards s)(a \<mapsto> [], b \<mapsto> [], c \<mapsto> [])) (cards s)"
    by (intro shelved_new_parent parts(6)) (use none d in simp_all)
  ultimately show ?thesis
    using parts none d cids
    by (simp add: mem_CreateBoard_def board_inv_def Let_def defaultNames_def add_column_def boards_ok_new
        columns_ok_put cards_ok_new_column sprints_ok_new_board new_column_def)
qed

section \<open>Preservation by the requests\<close>

lemmas bi_mem = bi_ArchiveBoard bi_UnarchiveBoard bi_RenameColumn bi_CreateColumn bi_DeleteColumn
  bi_ReorderColumns bi_CreateCard bi_UpdateCard bi_MoveCard bi_CreateSprint bi_DeleteSprint bi_CreateBoard

lemma bi_svc_CreateBoard:
  "board_inv s \<Longrightarrow> runtime_board s (CreateBoard bid cids sub wsID name now) \<Longrightarrow>
   board_inv (snd (svc_CreateBoard s bid cids sub wsID name now))"
  by (auto simp: svc_CreateBoard_def intro!: bi_ok bi_CreateBoard split: prod.splits)

lemma bi_svc_UpdateSprint: "board_inv s \<Longrightarrow> board_inv (snd (svc_UpdateSprint s sub k name t u now))"
  by (auto simp: svc_UpdateSprint_def Let_def mem_GetSprint_def intro!: bi_ok bi_UpdateSprint split: option.splits)

theorem exec_board_inv:
  assumes "board_inv s" and "runtime_board s r"
  shows "board_inv (snd (exec_board r s))"
  using assms
  by (cases r)
    (auto simp: svc_ArchiveBoard_def svc_UnarchiveBoard_def svc_CreateColumn_def svc_RenameColumn_def
      svc_DeleteColumn_def svc_ReorderColumns_def svc_CreateCard_def svc_UpdateCard_def svc_MoveCard_def
      svc_CreateSprint_def svc_DeleteSprint_def Let_def
      intro!: bi_ok guard_zero_inv [where P = board_inv] bi_mem bi_svc_UpdateSprint bi_svc_CreateBoard)

end
