(* ===== verification/SearchProps.thy ===== *)
theory SearchProps
  imports SvcSearch Boards ChatProps
begin

text \<open>
  What a search promises: which hits it has, in terms of the store and not of the order in which the
  maps happen to be ranged over, and that it shows a subject no page that they could not open.
\<close>

section \<open>The hits of one type\<close>

text \<open>
  The hits that the pages, documents, boards, cards, channels and messages of a workspace should give
  for the words \<open>q\<close>. A guest is shown a page only when it and everything above it is published.
\<close>

definition type_hits :: "(nat \<Rightarrow> nat) \<Rightarrow> Store \<Rightarrow> id \<Rightarrow> role \<Rightarrow> string \<Rightarrow> string \<Rightarrow> SearchHit set" where
  "type_hits lo s w role q t =
     (if t = ''page'' then {h. \<exists>k p. pages s k = Some p \<and> pg_WorkspaceID p = w \<and>
          (role = RoleGuest \<longrightarrow> all_up (pages s) k PageVisibleToGuest) \<and> page_hit lo w q p = Some h}
      else if t = ''document'' then {h. \<exists>k d. documents s k = Some d \<and> doc_WorkspaceID d = w \<and> document_hit lo w q d = Some h}
      else if t = ''board'' then {h. \<exists>k b. boards s k = Some b \<and> bd_WorkspaceID b = w \<and> board_hit lo q b = Some h}
      else if t = ''card'' then {h. \<exists>k c b. cards s k = Some c \<and> boards s (ca_BoardID c) = Some b \<and> bd_WorkspaceID b = w \<and>
          card_hit lo (boards s) q c = Some h}
      else if t = ''channel'' then {h. \<exists>k ch. channels s k = Some ch \<and> ch_WorkspaceID ch = w \<and> channel_hit lo q ch = Some h}
      else if t = ''message'' then {h. \<exists>k ch m. channels s k = Some ch \<and> ch_WorkspaceID ch = w \<and>
          m \<in> set (get_list (messages s) k) \<and> message_hit lo q ch m = Some h}
      else {})"

definition search_ranges :: "Store \<Rightarrow> Ranges \<Rightarrow> bool" where
  "search_ranges s rg \<longleftrightarrow> range_order (pages s) (rg_pages rg) \<and> range_order (documents s) (rg_documents rg) \<and>
     range_order (boards s) (rg_boards rg) \<and> range_order (cards s) (rg_cards rg) \<and>
     range_order (boards s) (rg_cardBoards rg) \<and> range_order (channels s) (rg_channels rg) \<and>
     range_order (channels s) (rg_msgChannels rg)"

lemma set_map_filter: "set (List.map_filter f xs) = {y. \<exists>x \<in> set xs. f x = Some y}"
  by (induction xs) (auto simp: List.map_filter_def)

lemma board_index_Some:
  "(board_index bs k = Some b \<longrightarrow> b \<in> set bs \<and> bd_ID b = k) \<and> (board_index bs k = None \<longrightarrow> k \<notin> bd_ID ` set bs)"
  unfolding board_index_def by (induction bs rule: rev_induct) auto

lemma listed_boards:
  assumes iv: "board_inv s" and ks: "range_order (boards s) ks" and ws: "workspaces s w \<noteq> None"
  shows "\<exists>bs. mem_ListBoards ks s w = Inr bs \<and> set bs = {b. \<exists>k. boards s k = Some b \<and> bd_WorkspaceID b = w} \<and>
    (\<forall>k b. boards s k = Some b \<longrightarrow> bd_WorkspaceID b = w \<longrightarrow> board_index bs k = Some b)"
proof -
  obtain bs where bs: "mem_ListBoards ks s w = Inr bs" "set bs = {b. \<exists>k. boards s k = Some b \<and> bd_WorkspaceID b = w}"
    using ws by (auto simp: mem_ListBoards_def set_range_values_order [OF ks] ran_def)
  have "board_index bs k = Some b" if k: "boards s k = Some b" "bd_WorkspaceID b = w" for k b
  proof (cases "board_index bs k")
    case None
    then have "k \<notin> bd_ID ` set bs" using board_index_Some [of bs k b] by blast
    moreover have "b \<in> set bs" using k bs(2) by blast
    ultimately show ?thesis using board_id [OF iv k(1)] by blast
  next
    case (Some b')
    then have "b' \<in> set bs" "bd_ID b' = k" using board_index_Some [of bs k b'] by blast+
    then have "boards s k = Some b'" using bs(2) board_id [OF iv] by auto
    with Some k show ?thesis by simp
  qed
  with bs show ?thesis by blast
qed

lemma search_channels_set:
  "\<forall>ch \<in> set chs. channels s (ch_ID ch) \<noteq> None \<Longrightarrow>
   \<exists>hs. search_channels lo s q chs = Inr hs \<and>
     set hs = {h. \<exists>ch \<in> set chs. \<exists>m \<in> set (get_list (messages s) (ch_ID ch)). message_hit lo q ch m = Some h}"
proof (induction chs)
  case (Cons ch chs)
  then obtain hs where "search_channels lo s q chs = Inr hs"
    "set hs = {h. \<exists>ch \<in> set chs. \<exists>m \<in> set (get_list (messages s) (ch_ID ch)). message_hit lo q ch m = Some h}" by auto
  then show ?case using Cons.prems by (auto simp: mem_ListMessages_def set_map_filter)
qed simp

lemma hits_pages:
  assumes iv: "page_inv s" and ws: "workspaces s w \<noteq> None" and ks: "range_order (pages s) ks"
  shows "\<exists>hs. svc_searchPages lo ks s w role q = Inr hs \<and> set hs = type_hits lo s w role q ''page''"
proof -
  let ?see = "\<lambda>k. role = RoleGuest \<longrightarrow> all_up (pages s) k PageVisibleToGuest"
  let ?list = "taken ks s (\<lambda>p. pg_WorkspaceID p = w \<and> ?see (pg_ID p))"
  have run: "svc_searchPages lo ks s w role q = Inr (List.map_filter (page_hit lo w q) ?list)"
    by (simp add: svc_searchPages_def ListPages_taken [OF ws] guest_pages [OF iv ks])
  have id: "pages s k = Some p \<Longrightarrow> pg_ID p = k" for k p using page_invD(2) [OF iv] by (simp add: page_wf_def)
  have "set (List.map_filter (page_hit lo w q) ?list) =
      {h. \<exists>k p. pages s k = Some p \<and> pg_WorkspaceID p = w \<and> ?see k \<and> page_hit lo w q p = Some h}"
    unfolding set_map_filter Bex_def taken_facts(1) [OF iv ks] by (intro Collect_cong iffI) (blast, metis id)
  then show ?thesis by (simp add: run type_hits_def)
qed

lemma hits_documents:
  assumes ws: "workspaces s w \<noteq> None" and ks: "range_order (documents s) ks"
  shows "\<exists>hs. svc_searchDocuments lo ks s w q = Inr hs \<and> set hs = type_hits lo s w role q ''document''"
  using ws by (auto simp: svc_searchDocuments_def mem_ListDocuments_def set_map_filter type_hits_def
      set_range_values_order [OF ks] ran_def)

lemma hits_boards:
  assumes ws: "workspaces s w \<noteq> None" and ks: "range_order (boards s) ks"
  shows "\<exists>hs. svc_searchBoards lo ks s w q = Inr hs \<and> set hs = type_hits lo s w role q ''board''"
  using ws by (auto simp: svc_searchBoards_def mem_ListBoards_def set_map_filter type_hits_def
      set_range_values_order [OF ks] ran_def)

lemma hits_channels:
  assumes ws: "workspaces s w \<noteq> None" and ks: "range_order (channels s) ks"
  shows "\<exists>hs. svc_searchChannels lo ks s w q = Inr hs \<and> set hs = type_hits lo s w role q ''channel''"
  using ws by (auto simp: svc_searchChannels_def mem_ListChannels_def set_map_filter type_hits_def
      set_range_values_order [OF ks] ran_def)

lemma hits_cards:
  assumes iv: "board_inv s" and ws: "workspaces s w \<noteq> None" and ks: "range_order (cards s) ks" "range_order (boards s) bks"
  shows "\<exists>hs. svc_searchCards lo ks bks s w q = Inr hs \<and> set hs = type_hits lo s w role q ''card''"
proof -
  obtain bs where bs: "mem_ListBoards bks s w = Inr bs"
    "\<forall>k b. boards s k = Some b \<longrightarrow> bd_WorkspaceID b = w \<longrightarrow> board_index bs k = Some b"
    using listed_boards [OF iv ks(2) ws] by blast
  have same: "card_hit lo (board_index bs) q c = card_hit lo (boards s) q c"
    if "boards s (ca_BoardID c) = Some b" "bd_WorkspaceID b = w" for c b
    using bs(2) that by (simp add: card_hit_def)
  have "{h. \<exists>c \<in> set (filter (\<lambda>c. case boards s (ca_BoardID c) of None \<Rightarrow> False | Some b \<Rightarrow> bd_WorkspaceID b = w)
        (range_values ks (cards s))). card_hit lo (board_index bs) q c = Some h} = type_hits lo s w role q ''card''"
    using same by (auto simp: type_hits_def set_range_values_order [OF ks(1)] ran_def split: option.splits) blast+
  then show ?thesis using ws by (simp add: svc_searchCards_def mem_ListCardsInWorkspace_def bs(1) set_map_filter)
qed

lemma hits_messages:
  assumes iv: "chat_inv s" and ws: "workspaces s w \<noteq> None" and ks: "range_order (channels s) ks"
  shows "\<exists>hs. svc_searchMessages lo ks s w q = Inr hs \<and> set hs = type_hits lo s w role q ''message''"
proof -
  obtain chs where chs: "mem_ListChannels ks s w = Inr chs" "set chs = {ch. \<exists>k. channels s k = Some ch \<and> ch_WorkspaceID ch = w}"
    using ws by (auto simp: mem_ListChannels_def set_range_values_order [OF ks] ran_def)
  have id: "channels s k = Some ch \<Longrightarrow> ch_ID ch = k" for k ch using chat_invD(1) [OF iv] by (simp add: channel_ok_def)
  then have "\<forall>ch \<in> set chs. channels s (ch_ID ch) \<noteq> None" by (auto simp: chs(2))
  from search_channels_set [OF this, of lo q] obtain hs where hs: "search_channels lo s q chs = Inr hs"
    "set hs = {h. \<exists>ch \<in> set chs. \<exists>m \<in> set (get_list (messages s) (ch_ID ch)). message_hit lo q ch m = Some h}" by blast
  have "set hs = type_hits lo s w role q ''message''"
    unfolding hs(2) chs(2) using id by (fastforce simp: type_hits_def)
  then show ?thesis by (simp add: svc_searchMessages_def chs(1) hs(1))
qed

lemma search_type_set:
  assumes "page_inv s" "board_inv s" "chat_inv s" and ws: "workspaces s w \<noteq> None" and rg: "search_ranges s rg"
  shows "\<exists>hs. search_type lo rg s w role q t = Inr hs \<and> set hs = type_hits lo s w role q t"
proof -
  note orders = rg [unfolded search_ranges_def]
  consider "t = ''page''" | "t = ''document''" | "t = ''board''" | "t = ''card''" | "t = ''channel''" | "t = ''message''"
    | "t \<notin> set DefaultSearchTypes" by (auto simp: DefaultSearchTypes_def)
  then show ?thesis
  proof cases
    case 1 then show ?thesis using hits_pages [OF assms(1) ws] orders by (simp add: search_type_def)
  next
    case 2 then show ?thesis using hits_documents [OF ws] orders by (simp add: search_type_def)
  next
    case 3 then show ?thesis using hits_boards [OF ws] orders by (simp add: search_type_def)
  next
    case 4 then show ?thesis using hits_cards [OF assms(2) ws] orders by (simp add: search_type_def)
  next
    case 5 then show ?thesis using hits_channels [OF ws] orders by (simp add: search_type_def)
  next
    case 6 then show ?thesis using hits_messages [OF assms(3) ws] orders by (simp add: search_type_def)
  next
    case 7 then show ?thesis by (simp add: search_type_def type_hits_def DefaultSearchTypes_def)
  qed
qed

lemma search_types_set:
  assumes "page_inv s" "board_inv s" "chat_inv s" "workspaces s w \<noteq> None" "search_ranges s rg"
  shows "\<exists>hs. search_types lo rg s w role q hits ts = Inr hs \<and> set hs = set hits \<union> (\<Union>t \<in> set ts. type_hits lo s w role q t)"
proof (induction ts arbitrary: hits)
  case (Cons t ts)
  obtain part where part: "search_type lo rg s w role q t = Inr part" "set part = type_hits lo s w role q t"
    using search_type_set [OF assms] by blast
  show ?case using Cons.IH [of "hits @ part"] part by (auto simp: Un_assoc)
qed simp

section \<open>The search\<close>

lemma Search_cases:
  assumes "page_inv s" "board_inv s" "chat_inv s" "membership_inv s" "search_ranges s rg"
  shows "let r = svc_Search env rg s sub w q0 raw in
    if \<not> has_role s w sub RoleGuest then \<exists>e. r = Inl e
    else if TrimSpace q0 = [] then r = Inl ErrInvalid
    else case ParseSearchTypes (env_lo env) raw of
      Inl e \<Rightarrow> r = Inl e
    | Inr types \<Rightarrow> \<exists>hits role. r = Inr hits \<and> mem_MemberRole s w sub = Inr role \<and>
        set hits = (\<Union>t \<in> set types. type_hits (env_lo env) s w role (TrimSpace q0) t)"
proof (cases "has_role s w sub RoleGuest")
  case False
  then show ?thesis using requireRole_cases [of s w sub RoleGuest] by (auto simp: svc_Search_def svc_requireRead_def Let_def)
next
  case True
  then obtain role where role: "mem_MemberRole s w sub = Inr role" and ws: "workspaces s w \<noteq> None"
    using assms(4) by (auto simp: has_role_def mem_MemberRole_def membership_inv_def split: option.splits)
  have read: "svc_requireRead s w sub = Inr ()" using True by (simp add: svc_requireRead_def)
  show ?thesis
    using search_types_set [OF assms(1,2,3) ws assms(5), of "env_lo env" role "TrimSpace q0" "[]"] True
    by (auto simp: svc_Search_def read role Let_def split: sum.split)
qed


lemma demo_docs_empty:
  "boards demo_docs = Map.empty" "boardCols demo_docs = Map.empty" "columns demo_docs = Map.empty" "columnCards demo_docs = Map.empty"
  "cards demo_docs = Map.empty" "sprints demo_docs = Map.empty"
  by (simp_all add: demo_docs_def svc_CreateDocument_def mem_CreateDocument_def demo_run demo_title demo_wiki_maps
      demo_team_members demo_team_workspaces demo_wiki_def svc_CreatePage_def mem_CreatePage_def demo_page_maps
      validateParentLocked_def demo_pg_def page_count_def demo_page_def demo_team_pages
      demo_team_def op_defs New_def svc_requireRole_def Let_def demo_values)

lemma demo_docs_chat: "channels demo_docs = channels demo_team" "messages demo_docs = messages demo_team"
  "chatReads demo_docs = chatReads demo_team" "chatTickets demo_docs = chatTickets demo_team"
  by (simp_all add: demo_docs_def svc_CreateDocument_def mem_CreateDocument_def demo_run demo_title demo_wiki_maps
      demo_team_members demo_team_workspaces demo_wiki_def svc_CreatePage_def mem_CreatePage_def demo_page_maps
      validateParentLocked_def demo_pg_def page_count_def demo_page_def demo_team_pages)

definition demo_ranges :: Ranges where
  "demo_ranges = \<lparr>rg_pages = [''p'', ''q''], rg_documents = [''n''], rg_boards = [], rg_cards = [], rg_cardBoards = [],
     rg_channels = [''c''], rg_msgChannels = [''c'']\<rparr>"

lemma demo_searchable: "board_inv demo_docs" "chat_inv demo_docs" "search_ranges demo_docs demo_ranges" "membership_inv demo_docs"
proof -
  show "board_inv demo_docs"
    by (simp add: board_inv_def boards_ok_def columns_ok_def cards_ok_def sprints_ok_def demo_docs_empty shelved_empty)
  show "chat_inv demo_docs"
    by (auto simp: chat_inv_def channel_ok_def demo_docs_chat demo_docs_maps demo_team_chat demo_channel_def
        demo_team_workspaces split: if_splits)
  show "search_ranges demo_docs demo_ranges"
    using demo_docs_order
    by (auto simp: search_ranges_def demo_ranges_def demo_docs_empty demo_docs_chat demo_docs_maps demo_team_chat
        range_order_def)
  show "membership_inv demo_docs"
    using membership_inv_cong [of demo_docs demo_team] demo_team_inv by (simp add: parts demo_docs_maps)
qed

lemma demo_words: "TrimSpace ''plan'' = ''plan''" "TrimSpace ''sub'' = ''sub''"
  "ParseSearchTypes id ''Document'' = Inr [''document'']" "ParseSearchTypes id ''page'' = Inr [''page'']"
  "ContainsFold id ''Plan'' ''plan''" "\<not> ContainsFold id ''Home'' ''sub''" "\<not> ContainsFold id ''Hi'' ''sub''"
  "ContainsFold id ''Sub'' ''sub''"
  by code_simp+


lemma hit_types:
  "h \<in> type_hits lo s w role q t \<Longrightarrow> hit_Type h = t"
  by (auto simp: type_hits_def page_hit_def document_hit_def board_hit_def card_hit_def channel_hit_def message_hit_def Let_def
      split: if_splits)

lemma page_hit_ID: "page_hit lo w q p = Some h \<Longrightarrow> hit_ID h = pg_ID p"
  by (auto simp: page_hit_def Let_def split: if_splits)

lemma page_hit_shown:
  "(\<exists>h. page_hit lo w q p = Some h) \<longleftrightarrow> pg_ArchivedAt p = None \<and> (ContainsFold lo (pg_Title p) q \<or> ContainsFold lo (pg_Body p) q)"
  by (simp add: page_hit_def Let_def)

text \<open>
  (C40) A search never shows a page its subject could not open, and hides none that they could: when
  pages are asked for, the page hits are exactly the pages of the workspace that reading would give this
  subject, that are not archived, and that hold the words in their title or body.
\<close>

theorem search_pages_readable:
  assumes iv: "page_inv s" "board_inv s" "chat_inv s" "membership_inv s" "search_ranges s rg"
    and run: "svc_Search env rg s sub w q0 raw = Inr hits"
    and types: "ParseSearchTypes (env_lo env) raw = Inr types" "''page'' \<in> set types" and ks: "range_order (pages s) ks"
  shows "{hit_ID h |h. h \<in> set hits \<and> hit_Type h = ''page''} =
    {k. \<exists>p. svc_GetPage ks s sub k = Inr p \<and> pg_WorkspaceID p = w \<and> pg_ArchivedAt p = None \<and>
      (ContainsFold (env_lo env) (pg_Title p) (TrimSpace q0) \<or> ContainsFold (env_lo env) (pg_Body p) (TrimSpace q0))}"
proof -
  let ?lo = "env_lo env" and ?q = "TrimSpace q0"
  obtain role where role: "mem_MemberRole s w sub = Inr role"
    and set: "set hits = (\<Union>t \<in> set types. type_hits ?lo s w role ?q t)"
    using Search_cases [OF iv, of env sub w q0 raw] run types(1) by (auto simp: Let_def split: if_splits)
  have id: "pages s k = Some p \<Longrightarrow> pg_ID p = k" for k p using page_invD(2) [OF iv(1)] by (simp add: page_wf_def)
  have pages: "{h \<in> set hits. hit_Type h = ''page''} = type_hits ?lo s w role ?q ''page''"
    unfolding set using types(2) hit_types [of _ ?lo s w role ?q] by auto
  have opens: "svc_GetPage ks s sub k = Inr p \<and> pg_WorkspaceID p = w \<and> pg_ArchivedAt p = None \<longleftrightarrow>
      pages s k = Some p \<and> pg_WorkspaceID p = w \<and> pg_ArchivedAt p = None \<and> (role = RoleGuest \<longrightarrow> all_up (pages s) k PageVisibleToGuest)"
    for k p
  proof (cases "pages s k = Some p \<and> pg_WorkspaceID p = w")
    case True
    then show ?thesis using GetPage_eq [OF iv(1) ks, of k p sub role] role by auto
  next
    case False
    then show ?thesis by (auto simp: svc_GetPage_def mem_GetPage_def split: option.splits if_splits)
  qed
  have "{hit_ID h |h. h \<in> set hits \<and> hit_Type h = ''page''} = hit_ID ` type_hits ?lo s w role ?q ''page''"
    unfolding pages [symmetric] by blast
  also have "\<dots> = {k. \<exists>p. pages s k = Some p \<and> pg_WorkspaceID p = w \<and>
      (role = RoleGuest \<longrightarrow> all_up (pages s) k PageVisibleToGuest) \<and> (\<exists>h. page_hit ?lo w ?q p = Some h)}"
  proof -
    have "hit_ID ` {h. \<exists>k p. P k p \<and> page_hit ?lo w ?q p = Some h} = {k. \<exists>p. P k p \<and> (\<exists>h. page_hit ?lo w ?q p = Some h)}"
      if "\<And>k p. P k p \<Longrightarrow> pg_ID p = k" for P
      using page_hit_ID that by (fastforce simp: image_iff)
    from this [of "\<lambda>k p. pages s k = Some p \<and> pg_WorkspaceID p = w \<and> (role = RoleGuest \<longrightarrow> all_up (pages s) k PageVisibleToGuest)"]
    show ?thesis using id by (simp add: type_hits_def)
  qed
  also have "\<dots> = {k. \<exists>p. pages s k = Some p \<and> pg_WorkspaceID p = w \<and> pg_ArchivedAt p = None \<and>
      (role = RoleGuest \<longrightarrow> all_up (pages s) k PageVisibleToGuest) \<and> (ContainsFold ?lo (pg_Title p) ?q \<or> ContainsFold ?lo (pg_Body p) ?q)}"
    unfolding page_hit_shown by blast
  finally show ?thesis using opens by blast
qed

theorem search_pages_readable_witness:
  "\<exists>hits. svc_Search demo_env demo_ranges demo_docs ''ann'' ''w'' ''sub'' ''page'' = Inr hits \<and>
     {hit_ID h |h. h \<in> set hits \<and> hit_Type h = ''page''} = {''q''}"
proof -
  have ann: "has_role demo_docs ''w'' ''ann'' RoleGuest" by (simp add: has_role_def demo_docs_maps demo_team_members)
  have lo: "env_lo demo_env = id" by (simp add: demo_env_def)
  have types: "ParseSearchTypes (env_lo demo_env) ''page'' = Inr [''page'']" by (simp add: lo demo_words)
  obtain hits where hits: "svc_Search demo_env demo_ranges demo_docs ''ann'' ''w'' ''sub'' ''page'' = Inr hits"
    using Search_cases [OF demo_docs_inv(2) demo_searchable(1,2,4,3), of demo_env "''ann''" "''w''" "''sub''" "''page''"] ann
    by (auto simp: demo_words lo)
  have get: "svc_GetPage [''p'', ''q''] demo_docs ''ann'' k =
      (case pages demo_wiki k of None \<Rightarrow> Inl ErrNotFound | Some p \<Rightarrow> Inr p)" for k
    by (simp add: svc_GetPage_def mem_PageWorkspaceID_def mem_GetPage_def demo_docs_maps demo_wiki_maps demo_pg_def demo_run
        demo_team_members)
  show ?thesis
    using search_pages_readable [OF demo_docs_inv(2) demo_searchable(1,2,4,3) hits types _ demo_docs_order] hits
    by (force simp: get lo demo_words demo_wiki_maps demo_pg_def split: if_splits)
qed

end
