(* ===== verification/Hub.thy ===== *)
theory Hub
  imports Prelude
begin

text \<open>
  \<open>realtime/hub.go\<close>: the hub that passes chat messages to the open connections. Its map of rooms is
  guarded by a mutex, but a broadcast copies the subscribers under the mutex and sends to them
  after releasing it, so the sends of a broadcast interleave with everything else. The operations
  are functions; the interleavings are the step relation \<open>hub_step\<close>. A channel of Go is an address
  with a queue of at most 16 payloads and a flag that it is closed; sending to a closed channel and
  closing it twice is a panic, here the failure \<open>Inl ()\<close>. A channel that was never made occurs in no
  room; the branch of \<open>send\<close> for it is never taken.
\<close>

type_synonym chan = nat
type_synonym payload = string

record Hub =
  rooms :: "id \<rightharpoonup> chan set"
  queue :: "chan \<rightharpoonup> payload list"
  closed :: "chan set"

definition chan_capacity :: nat where "chan_capacity = 16"

definition NewHub :: Hub where
  "NewHub = \<lparr>rooms = Map.empty, queue = Map.empty, closed = {}\<rparr>"

text \<open>\<open>ch\<close> is the channel that \<open>make\<close> returns.\<close>

definition Subscribe :: "Hub \<Rightarrow> id \<Rightarrow> chan \<Rightarrow> Hub" where
  "Subscribe h channelID ch =
     (let subs = (case rooms h channelID of None \<Rightarrow> {} | Some cs \<Rightarrow> cs)
      in h\<lparr>queue := (queue h)(ch \<mapsto> []), rooms := (rooms h)(channelID \<mapsto> insert ch subs)\<rparr>)"

definition Unsubscribe :: "Hub \<Rightarrow> id \<Rightarrow> chan \<Rightarrow> unit + Hub" where
  "Unsubscribe h channelID ch =
     (case rooms h channelID of
        None \<Rightarrow> Inr h
      | Some cs \<Rightarrow>
          (let subs = cs - {ch} in
           if ch \<in> closed h then Inl ()
           else Inr (h\<lparr>closed := insert ch (closed h),
                      rooms := (if subs = {} then (rooms h)(channelID := None)
                                else (rooms h)(channelID \<mapsto> subs))\<rparr>)))"

text \<open>The two halves of \<open>Broadcast\<close>: the subscribers, in some order, and one send that does not block.\<close>

definition targets_of :: "Hub \<Rightarrow> id \<Rightarrow> chan list \<Rightarrow> bool" where
  "targets_of h channelID ts \<longleftrightarrow> distinct ts \<and> set ts = (case rooms h channelID of None \<Rightarrow> {} | Some cs \<Rightarrow> cs)"

definition send :: "payload \<Rightarrow> Hub \<Rightarrow> chan \<Rightarrow> unit + Hub" where
  "send p h ch =
     (if ch \<in> closed h then Inl ()
      else case queue h ch of
        None \<Rightarrow> Inr h
      | Some q \<Rightarrow> if length q < chan_capacity then Inr (h\<lparr>queue := (queue h)(ch \<mapsto> q @ [p])\<rparr>) else Inr h)"

fun send_all :: "payload \<Rightarrow> Hub \<Rightarrow> chan list \<Rightarrow> unit + Hub" where
  "send_all p h [] = Inr h"
| "send_all p h (ch # ts) = (case send p h ch of Inl u \<Rightarrow> Inl u | Inr h' \<Rightarrow> send_all p h' ts)"

section \<open>Interleavings\<close>

text \<open>
  \<open>conns\<close>: the connections that have subscribed and not yet unsubscribed, each with its room (the
  handler of a connection unsubscribes once, when it ends); \<open>flying\<close>: the broadcasts under way, each
  with the subscribers still to be served.
\<close>

record HubState =
  hub :: Hub
  conns :: "chan \<rightharpoonup> id"
  flying :: "(chan list \<times> payload) list"

definition hub_start :: HubState where
  "hub_start = \<lparr>hub = NewHub, conns = Map.empty, flying = []\<rparr>"

inductive hub_step :: "HubState \<Rightarrow> HubState \<Rightarrow> bool" where
  connect: "queue (hub s) ch = None \<Longrightarrow>
    hub_step s (s\<lparr>hub := Subscribe (hub s) r ch, conns := (conns s)(ch \<mapsto> r)\<rparr>)"
| leave: "conns s ch = Some r \<Longrightarrow> Unsubscribe (hub s) r ch = Inr h \<Longrightarrow>
    hub_step s (s\<lparr>hub := h, conns := (conns s)(ch := None)\<rparr>)"
| start: "targets_of (hub s) r ts \<Longrightarrow> hub_step s (s\<lparr>flying := flying s @ [(ts, p)]\<rparr>)"
| deliver: "flying s = a @ (ch # ts, p) # b \<Longrightarrow> send p (hub s) ch = Inr h \<Longrightarrow>
    hub_step s (s\<lparr>hub := h, flying := a @ (ts, p) # b\<rparr>)"
| finish: "flying s = a @ ([], p) # b \<Longrightarrow> hub_step s (s\<lparr>flying := a @ b\<rparr>)"
| receive: "conns s ch = Some r \<Longrightarrow> queue (hub s) ch = Some (p # q) \<Longrightarrow>
    hub_step s (s\<lparr>hub := (hub s)\<lparr>queue := (queue (hub s))(ch \<mapsto> q)\<rparr>\<rparr>)"

inductive hub_reachable :: "HubState \<Rightarrow> bool" where
  hub_init: "hub_reachable hub_start"
| hub_next: "hub_reachable s \<Longrightarrow> hub_step s t \<Longrightarrow> hub_reachable t"

inductive_cases hub_stepE: "hub_step s t"

text \<open>The next send of a broadcast under way would hit a closed channel.\<close>

definition panics :: "HubState \<Rightarrow> bool" where
  "panics s \<longleftrightarrow> (\<exists>ch ts p. (ch # ts, p) \<in> set (flying s) \<and> send p (hub s) ch = Inl ())"

section \<open>The invariant\<close>

definition hub_inv :: "HubState \<Rightarrow> bool" where
  "hub_inv s \<longleftrightarrow>
     (\<forall>r cs. rooms (hub s) r = Some cs \<longrightarrow> cs \<noteq> {}) \<and>
     (\<forall>ch r. conns s ch = Some r \<longleftrightarrow> (\<exists>cs. rooms (hub s) r = Some cs \<and> ch \<in> cs)) \<and>
     (\<forall>ch q. queue (hub s) ch = Some q \<longrightarrow> length q \<le> chan_capacity) \<and>
     (\<forall>ch r. conns s ch = Some r \<longrightarrow> queue (hub s) ch \<noteq> None \<and> ch \<notin> closed (hub s)) \<and>
     (\<forall>ch \<in> closed (hub s). queue (hub s) ch \<noteq> None)"

lemma hub_invD:
  assumes "hub_inv s"
  shows "rooms (hub s) r = Some cs \<Longrightarrow> cs \<noteq> {}"
    and "conns s ch = Some r \<longleftrightarrow> (\<exists>cs. rooms (hub s) r = Some cs \<and> ch \<in> cs)"
    and "queue (hub s) ch = Some q \<Longrightarrow> length q \<le> chan_capacity"
    and "conns s ch = Some r \<Longrightarrow> queue (hub s) ch \<noteq> None" and "conns s ch = Some r \<Longrightarrow> ch \<notin> closed (hub s)"
    and "ch \<in> closed (hub s) \<Longrightarrow> queue (hub s) ch \<noteq> None"
  using assms unfolding hub_inv_def by blast+

lemma hub_invI:
  assumes "\<And>r cs. rooms (hub s) r = Some cs \<Longrightarrow> cs \<noteq> {}"
    and "\<And>ch r. conns s ch = Some r \<longleftrightarrow> (\<exists>cs. rooms (hub s) r = Some cs \<and> ch \<in> cs)"
    and "\<And>ch q. queue (hub s) ch = Some q \<Longrightarrow> length q \<le> chan_capacity"
    and "\<And>ch r. conns s ch = Some r \<Longrightarrow> queue (hub s) ch \<noteq> None \<and> ch \<notin> closed (hub s)"
    and "\<And>ch. ch \<in> closed (hub s) \<Longrightarrow> queue (hub s) ch \<noteq> None"
  shows "hub_inv s"
  unfolding hub_inv_def using assms by blast

lemma hub_inv_connect:
  assumes iv: "hub_inv s" and new: "queue (hub s) ch = None"
  shows "hub_inv (s\<lparr>hub := Subscribe (hub s) r ch, conns := (conns s)(ch \<mapsto> r)\<rparr>)" (is "hub_inv ?t")
proof (rule hub_invI)
  have none: "conns s ch = None" using hub_invD(4) [OF iv, of ch] new by (cases "conns s ch") auto
  have cl: "ch \<notin> closed (hub s)" using hub_invD(6) [OF iv, of ch] new by auto
  fix x r'
  show "conns ?t x = Some r' \<longleftrightarrow> (\<exists>cs. rooms (hub ?t) r' = Some cs \<and> x \<in> cs)"
    using hub_invD(2) [OF iv, of x r'] none
    by (cases "x = ch"; cases "r' = r") (auto simp: Subscribe_def Let_def split: option.splits)
  show "conns ?t x = Some r' \<Longrightarrow> queue (hub ?t) x \<noteq> None \<and> x \<notin> closed (hub ?t)"
    using hub_invD(4,5) [OF iv, of x r'] cl by (cases "x = ch") (simp_all add: Subscribe_def Let_def)
  show "x \<in> closed (hub ?t) \<Longrightarrow> queue (hub ?t) x \<noteq> None"
    using hub_invD(6) [OF iv, of x] by (simp add: Subscribe_def Let_def)
next
  fix r' cs assume "rooms (hub ?t) r' = Some cs"
  then show "cs \<noteq> {}" using hub_invD(1) [OF iv, of r'] by (auto simp: Subscribe_def Let_def split: if_splits)
next
  fix x q assume "queue (hub ?t) x = Some q"
  then show "length q \<le> chan_capacity" using hub_invD(3) [OF iv, of x] by (auto simp: Subscribe_def Let_def split: if_splits)
qed

lemma hub_inv_leave:
  assumes iv: "hub_inv s" and c: "conns s ch = Some r"
  shows "\<exists>h. Unsubscribe (hub s) r ch = Inr h \<and> hub_inv (s\<lparr>hub := h, conns := (conns s)(ch := None)\<rparr>)"
proof -
  obtain cs where cs: "rooms (hub s) r = Some cs" "ch \<in> cs" using hub_invD(2) [OF iv] c by blast
  have cl: "ch \<notin> closed (hub s)" and q: "queue (hub s) ch \<noteq> None" using hub_invD(4,5) [OF iv c] by blast+
  have other: "rooms (hub s) r' = Some cs' \<Longrightarrow> ch \<in> cs' \<Longrightarrow> r' = r" for r' cs'
    using hub_invD(2) [OF iv, of ch r'] c by auto
  let ?h = "(hub s)\<lparr>closed := insert ch (closed (hub s)), rooms := (if cs - {ch} = {} then (rooms (hub s))(r := None)
      else (rooms (hub s))(r \<mapsto> cs - {ch}))\<rparr>"
  have "Unsubscribe (hub s) r ch = Inr ?h" using cs cl by (simp add: Unsubscribe_def Let_def)
  moreover have "hub_inv (s\<lparr>hub := ?h, conns := (conns s)(ch := None)\<rparr>)" (is "hub_inv ?t")
  proof (rule hub_invI)
    fix x r'
    show "conns ?t x = Some r' \<longleftrightarrow> (\<exists>cs. rooms (hub ?t) r' = Some cs \<and> x \<in> cs)"
    proof (cases "r' = r")
      case True
      have "conns s x = Some r \<longleftrightarrow> x \<in> cs" using hub_invD(2) [OF iv, of x r] cs(1) by simp
      with True show ?thesis by auto
    next
      case False
      then have "\<not> (rooms (hub s) r' = Some cs' \<and> ch \<in> cs')" for cs' using other by blast
      with False show ?thesis using hub_invD(2) [OF iv, of x r'] by (cases "x = ch") simp_all
    qed
    show "conns ?t x = Some r' \<Longrightarrow> queue (hub ?t) x \<noteq> None \<and> x \<notin> closed (hub ?t)"
      using hub_invD(4,5) [OF iv, of x r'] by (cases "x = ch") simp_all
    show "x \<in> closed (hub ?t) \<Longrightarrow> queue (hub ?t) x \<noteq> None" using hub_invD(6) [OF iv, of x] q by auto
  next
    fix r' cs' assume "rooms (hub ?t) r' = Some cs'"
    then show "cs' \<noteq> {}" using hub_invD(1) [OF iv, of r'] by (auto split: if_splits)
  next
    fix x q assume "queue (hub ?t) x = Some q"
    then show "length q \<le> chan_capacity" using hub_invD(3) [OF iv, of x] by simp
  qed
  ultimately show ?thesis by blast
qed

lemma send_parts: "send p h ch = Inr h' \<Longrightarrow> rooms h' = rooms h \<and> closed h' = closed h"
  by (auto simp: send_def split: if_splits option.splits)

lemma send_queue:
  "send p h ch = Inr h' \<Longrightarrow> queue h' x = (if x = ch then map_option (\<lambda>q. if length q < chan_capacity then q @ [p] else q) (queue h ch)
     else queue h x)"
  by (auto simp: send_def split: if_splits option.splits)

lemma hub_inv_send:
  assumes iv: "hub_inv s" and run: "send p (hub s) ch = Inr h"
  shows "hub_inv (s\<lparr>hub := h\<rparr>)" (is "hub_inv ?t")
proof (rule hub_invI)
  note same = send_parts [OF run]
  have dom: "queue h x = None \<longleftrightarrow> queue (hub s) x = None" for x by (simp add: send_queue [OF run])
  fix x r
  show "conns ?t x = Some r \<longleftrightarrow> (\<exists>cs. rooms (hub ?t) r = Some cs \<and> x \<in> cs)"
    using hub_invD(2) [OF iv, of x r] same by simp
  show "conns ?t x = Some r \<Longrightarrow> queue (hub ?t) x \<noteq> None \<and> x \<notin> closed (hub ?t)"
    using hub_invD(4,5) [OF iv, of x r] same dom by simp
  show "x \<in> closed (hub ?t) \<Longrightarrow> queue (hub ?t) x \<noteq> None" using hub_invD(6) [OF iv, of x] same dom by simp
next
  fix r cs assume "rooms (hub ?t) r = Some cs"
  then show "cs \<noteq> {}" using hub_invD(1) [OF iv, of r] send_parts [OF run] by simp
next
  fix x q assume "queue (hub ?t) x = Some q"
  then show "length q \<le> chan_capacity"
    using hub_invD(3) [OF iv, of x] by (auto simp: send_queue [OF run] split: if_splits)
qed

lemma hub_inv_receive:
  assumes iv: "hub_inv s" and "queue (hub s) ch = Some (p # q)"
  shows "hub_inv (s\<lparr>hub := (hub s)\<lparr>queue := (queue (hub s))(ch \<mapsto> q)\<rparr>\<rparr>)" (is "hub_inv ?t")
proof (rule hub_invI)
  fix x r
  show "conns ?t x = Some r \<longleftrightarrow> (\<exists>cs. rooms (hub ?t) r = Some cs \<and> x \<in> cs)"
    using hub_invD(2) [OF iv, of x r] by simp
  show "conns ?t x = Some r \<Longrightarrow> queue (hub ?t) x \<noteq> None \<and> x \<notin> closed (hub ?t)"
    using hub_invD(4,5) [OF iv, of x r] by simp
  show "x \<in> closed (hub ?t) \<Longrightarrow> queue (hub ?t) x \<noteq> None" using hub_invD(6) [OF iv, of x] by simp
next
  fix r cs assume "rooms (hub ?t) r = Some cs"
  then show "cs \<noteq> {}" using hub_invD(1) [OF iv, of r] by simp
next
  fix x q' assume "queue (hub ?t) x = Some q'"
  then show "length q' \<le> chan_capacity"
    using hub_invD(3) [OF iv, of x] hub_invD(3) [OF iv assms(2)] by (auto split: if_splits)
qed

lemma hub_inv_flying [simp]: "hub_inv (s\<lparr>flying := f\<rparr>) = hub_inv s"
  by (simp add: hub_inv_def)

lemma hub_inv_step: "hub_step s t \<Longrightarrow> hub_inv s \<Longrightarrow> hub_inv t"
proof (induction rule: hub_step.induct)
  case (connect s ch r)
  then show ?case by (simp add: hub_inv_connect)
next
  case (leave s ch r h)
  then show ?case using hub_inv_leave [OF leave.prems leave.hyps(1)] by auto
next
  case (deliver s a ch ts p b h)
  then show ?case using hub_inv_flying [of "a @ (ts, p) # b" "s\<lparr>hub := h\<rparr>"] hub_inv_send [of s p ch h] by simp
next
  case (receive s ch r p q)
  then show ?case by (simp add: hub_inv_receive)
qed simp_all

lemma hub_inv_reachable: "hub_reachable s \<Longrightarrow> hub_inv s"
proof (induction rule: hub_reachable.induct)
  case hub_init
  then show ?case by (simp add: hub_inv_def hub_start_def NewHub_def)
next
  case (hub_next s t)
  then show ?case by (blast intro: hub_inv_step)
qed

section \<open>Properties\<close>


text \<open>One connection in the room \<open>c\<close>.\<close>

definition demo_hub :: HubState where
  "demo_hub = hub_start\<lparr>hub := Subscribe NewHub ''c'' 0, conns := [0 \<mapsto> ''c'']\<rparr>"

lemma demo_hub_reachable: "hub_reachable demo_hub"
proof -
  have "hub_step hub_start (hub_start\<lparr>hub := Subscribe (hub hub_start) ''c'' 0, conns := (conns hub_start)(0 \<mapsto> ''c'')\<rparr>)"
    by (rule connect) (simp add: hub_start_def NewHub_def)
  then show ?thesis
    using hub_next [OF hub_init] by (simp add: demo_hub_def hub_start_def)
qed


lemma send_open: "ch \<notin> closed h \<Longrightarrow> \<exists>h'. send p h ch = Inr h'"
  by (cases "queue h ch") (simp_all add: send_def)

lemma send_all_runs:
  assumes "\<forall>ch \<in> set ts. ch \<notin> closed h"
  shows "distinct ts \<Longrightarrow> \<exists>h'. send_all p h ts = Inr h' \<and> rooms h' = rooms h \<and> closed h' = closed h \<and>
    (\<forall>x. queue h' x = (if x \<in> set ts then map_option (\<lambda>q. if length q < chan_capacity then q @ [p] else q) (queue h x)
      else queue h x))"
  using assms
proof (induction ts arbitrary: h)
  case (Cons ch ts)
  then obtain h1 where h1: "send p h ch = Inr h1" using send_open by (metis list.set_intros(1))
  obtain h' where h': "send_all p h1 ts = Inr h'" "rooms h' = rooms h1" "closed h' = closed h1"
    "\<forall>x. queue h' x = (if x \<in> set ts then map_option (\<lambda>q. if length q < chan_capacity then q @ [p] else q) (queue h1 x)
      else queue h1 x)"
    using Cons.IH [of h1] Cons.prems send_parts [OF h1] by auto
  show ?case
    using h1 h' send_parts [OF h1] send_queue [OF h1] Cons.prems(1) by auto
qed simp

text \<open>
  (C35) A broadcast that runs without interruption never panics: every subscriber of the room gets
  the payload at the end of its queue, unless the queue is full, and nobody else gets anything.
\<close>

theorem broadcast_delivers:
  assumes "hub_reachable s" and "targets_of (hub s) r ts"
  shows "\<exists>h. send_all p (hub s) ts = Inr h \<and>
    (\<forall>ch. queue h ch = (if conns s ch = Some r
       then map_option (\<lambda>q. if length q < 16 then q @ [p] else q) (queue (hub s) ch) else queue (hub s) ch))"
proof -
  have iv: "hub_inv s" by (rule hub_inv_reachable [OF assms(1)])
  have mem: "ch \<in> set ts \<longleftrightarrow> conns s ch = Some r" for ch
    using assms(2) hub_invD(2) [OF iv, of ch r] by (auto simp: targets_of_def split: option.splits)
  then have "\<forall>ch \<in> set ts. ch \<notin> closed (hub s)" using hub_invD(5) [OF iv] by blast
  moreover have "distinct ts" using assms(2) by (simp add: targets_of_def)
  ultimately show ?thesis using send_all_runs [of ts "hub s" p] by (auto simp: mem chan_capacity_def)
qed

theorem broadcast_delivers_witness:
  "\<exists>h. send_all ''hi'' (hub demo_hub) [0] = Inr h \<and> queue h 0 = Some [''hi'']"
proof -
  have "targets_of (hub demo_hub) ''c'' [0]" by (simp add: targets_of_def demo_hub_def Subscribe_def NewHub_def)
  then show ?thesis
    using broadcast_delivers [OF demo_hub_reachable, of "''c''" "[0]" "''hi''"]
    by (auto simp: demo_hub_def Subscribe_def NewHub_def)
qed

text \<open>
  The race: a connection that ends between the moment a broadcast has copied the subscribers
  and its send leads to a send on a closed channel, a panic that takes the server down. It is
  reachable.
\<close>

theorem broadcast_race:
  "\<exists>s. hub_reachable s \<and> panics s"
proof -
  define s1 where "s1 = demo_hub\<lparr>flying := [([0], ''hi'')]\<rparr>"
  have "targets_of (hub demo_hub) ''c'' [0]" by (simp add: targets_of_def demo_hub_def Subscribe_def NewHub_def)
  then have "hub_step demo_hub (demo_hub\<lparr>flying := flying demo_hub @ [([0], ''hi'')]\<rparr>)" by (rule start)
  moreover have "flying demo_hub = []" by (simp add: demo_hub_def hub_start_def)
  ultimately have r1: "hub_reachable s1" using hub_next [OF demo_hub_reachable] by (simp add: s1_def)
  have c: "conns s1 0 = Some ''c''" by (simp add: s1_def demo_hub_def)
  obtain h where h: "Unsubscribe (hub s1) ''c'' 0 = Inr h" using hub_inv_leave [OF hub_inv_reachable [OF r1] c] by blast
  then have "0 \<in> closed h" by (auto simp: Unsubscribe_def s1_def demo_hub_def Subscribe_def NewHub_def Let_def)
  then have "panics (s1\<lparr>hub := h, conns := (conns s1)(0 := None)\<rparr>)"
    unfolding panics_def by (intro exI [of _ 0] exI [of _ "[]"] exI [of _ "''hi''"]) (simp add: send_def s1_def)
  then show ?thesis using hub_next [OF r1 leave [OF c h]] by blast
qed

end
