(* ===== verification/Json.thy ===== *)
theory Json
  imports GoStrings
begin

text \<open>
  What the handlers use of \<open>encoding/json\<close> and \<open>strconv\<close>: JSON values, decoding an object into the
  fields of a struct, and decimal numbers. A body that is not JSON at all is \<open>None\<close>; numbers keep
  their literal. A field is matched without regard to case, a missing one keeps its zero value, \<open>null\<close>
  leaves the field as it is, and a value of the wrong type is an error of the whole body.
\<close>

section \<open>Decimal numbers\<close>

definition is_digit :: "char \<Rightarrow> bool" where
  "is_digit c \<longleftrightarrow> 48 \<le> byte c \<and> byte c \<le> 57"

definition digits_value :: "string \<Rightarrow> int" where
  "digits_value s = foldl (\<lambda>n c. 10 * n + int (byte c) - 48) 0 s"

definition parse_digits :: "string \<Rightarrow> int option" where
  "parse_digits s = (if s \<noteq> [] \<and> list_all is_digit s then Some (digits_value s) else None)"

text \<open>\<open>strconv.Atoi\<close>: an optional sign, then digits; the value must fit the 64 bits of an \<open>int\<close>.\<close>

definition fits_int :: "int \<Rightarrow> bool" where
  "fits_int n \<longleftrightarrow> - (2 ^ 63) \<le> n \<and> n < 2 ^ 63"

definition Atoi :: "string \<Rightarrow> int option" where
  "Atoi s =
     (let sign = (s \<noteq> [] \<and> (hd s = CHR ''-'' \<or> hd s = CHR ''+''));
          negative = (s \<noteq> [] \<and> hd s = CHR ''-'')
      in case parse_digits (if sign then tl s else s) of
           None \<Rightarrow> None
         | Some n \<Rightarrow> (let v = (if negative then - n else n) in if fits_int v then Some v else None))"

text \<open>Printing, as a client does it.\<close>

fun itoa :: "nat \<Rightarrow> string" where
  "itoa n = (if n < 10 then [char_of (48 + n)] else itoa (n div 10) @ [char_of (48 + n mod 10)])"

declare itoa.simps [simp del]

lemma byte_digit: "d < 10 \<Longrightarrow> byte (char_of (48 + d)) = 48 + d"
  by (simp add: byte_def)

lemma itoa_digits: "itoa n \<noteq> [] \<and> list_all is_digit (itoa n) \<and> digits_value (itoa n) = int n"
proof (induction n rule: itoa.induct)
  case (1 n)
  show ?case
  proof (cases "n < 10")
    case True
    then show ?thesis by (simp add: itoa.simps [of n] is_digit_def digits_value_def byte_digit)
  next
    case False
    have "int n = 10 * int (n div 10) + int (n mod 10)" by (metis mult_div_mod_eq of_nat_add of_nat_mult of_nat_numeral)
    then show ?thesis
      using 1 [OF False] False by (simp add: itoa.simps [of n] is_digit_def digits_value_def byte_digit)
  qed
qed

lemma Atoi_itoa:
  assumes "int n < 2 ^ 63"
  shows "Atoi (itoa n) = Some (int n)"
proof -
  obtain c cs where s: "itoa n = c # cs" using itoa_digits [of n] by (cases "itoa n") auto
  then have "is_digit c" using itoa_digits [of n] by simp
  then have "c \<noteq> CHR ''-''" "c \<noteq> CHR ''+''" by (auto simp: is_digit_def byte_def)
  then show ?thesis
    using itoa_digits [of n] assms s by (simp add: Atoi_def parse_digits_def fits_int_def)
qed

lemma itoa_no_slash: "CHR ''/'' \<notin> set (itoa n)"
  using itoa_digits [of n] by (auto simp: list_all_iff is_digit_def byte_def)

section \<open>Values\<close>

datatype json = JNull | JBool bool | JNum string | JStr string | JArr "json list" | JObj "(string \<times> json) list"

text \<open>
  The keys of an object are compared after folding: letters to upper case, and the two characters
  outside ASCII that fold to a letter, the long s and the Kelvin sign, to that letter.
\<close>

fun fold_key :: "string \<Rightarrow> string" where
  "fold_key [] = []"
| "fold_key (c # cs) =
     (case cs of
        d # ds \<Rightarrow>
          (if byte c = 197 \<and> byte d = 191 then CHR ''S'' # fold_key ds
           else case ds of
                  e # es \<Rightarrow>
                    (if byte c = 226 \<and> byte d = 132 \<and> byte e = 170 then CHR ''K'' # fold_key es
                     else (if 97 \<le> byte c \<and> byte c \<le> 122 then char_of (byte c - 32) else c) # fold_key cs)
                | [] \<Rightarrow> (if 97 \<le> byte c \<and> byte c \<le> 122 then char_of (byte c - 32) else c) # fold_key cs)
      | [] \<Rightarrow> [if 97 \<le> byte c \<and> byte c \<le> 122 then char_of (byte c - 32) else c])"

text \<open>
  Decoding a value into a Go variable that holds \<open>v\<close>: the new value, and whether the types agreed.
\<close>

fun to_string :: "string \<Rightarrow> json \<Rightarrow> string \<times> bool" where
  "to_string v (JStr s) = (s, True)"
| "to_string v JNull = (v, True)"
| "to_string v _ = (v, False)"

fun to_int :: "int \<Rightarrow> json \<Rightarrow> int \<times> bool" where
  "to_int v (JNum n) = (case Atoi n of None \<Rightarrow> (v, False) | Some i \<Rightarrow> (i, True))"
| "to_int v JNull = (v, True)"
| "to_int v _ = (v, False)"

text \<open>A pointer: \<open>null\<close> makes it nil, anything else allocates it when it is nil.\<close>

definition to_pointer :: "'a \<Rightarrow> ('a \<Rightarrow> json \<Rightarrow> 'a \<times> bool) \<Rightarrow> 'a option \<Rightarrow> json \<Rightarrow> 'a option \<times> bool" where
  "to_pointer zero dec v j =
     (if j = JNull then (None, True)
      else case dec (case v of None \<Rightarrow> zero | Some x \<Rightarrow> x) j of (x, ok) \<Rightarrow> (Some x, ok))"

text \<open>A slice of strings; an element that is \<open>null\<close> is the string that was there, or empty.\<close>

fun to_elements :: "string list \<Rightarrow> json list \<Rightarrow> string list \<times> bool" where
  "to_elements old [] = ([], True)"
| "to_elements old (j # js) =
     (case to_string (case old of [] \<Rightarrow> [] | v # _ \<Rightarrow> v) j of
        (x, ok) \<Rightarrow> (case to_elements (tl old) js of (xs, oks) \<Rightarrow> (x # xs, ok \<and> oks)))"

fun to_strings :: "string list \<Rightarrow> json \<Rightarrow> string list \<times> bool" where
  "to_strings v (JArr js) = to_elements v js"
| "to_strings v JNull = ([], True)"
| "to_strings v _ = (v, False)"

section \<open>The fields of a struct\<close>

text \<open>All members of the object that match the name, in their order.\<close>

fun set_field :: "string \<Rightarrow> ('a \<Rightarrow> json \<Rightarrow> 'a \<times> bool) \<Rightarrow> 'a \<Rightarrow> (string \<times> json) list \<Rightarrow> 'a \<times> bool" where
  "set_field name dec v [] = (v, True)"
| "set_field name dec v ((k, j) # kvs) =
     (if fold_key k = fold_key name
      then (case dec v j of (v1, ok1) \<Rightarrow> (case set_field name dec v1 kvs of (v2, ok2) \<Rightarrow> (v2, ok1 \<and> ok2)))
      else set_field name dec v kvs)"

text \<open>
  The value a field has after decoding the body, and whether decoding it made no error. \<open>null\<close> in
  place of the object sets nothing and is no error.
\<close>

fun field :: "string \<Rightarrow> ('a \<Rightarrow> json \<Rightarrow> 'a \<times> bool) \<Rightarrow> 'a \<Rightarrow> json option \<Rightarrow> 'a \<times> bool" where
  "field name dec zero None = (zero, False)"
| "field name dec zero (Some (JObj kvs)) = set_field name dec zero kvs"
| "field name dec zero (Some JNull) = (zero, True)"
| "field name dec zero (Some _) = (zero, False)"

definition str_field :: "string \<Rightarrow> json option \<Rightarrow> string \<times> bool" where
  "str_field name = field name to_string []"

definition int_field :: "string \<Rightarrow> json option \<Rightarrow> int \<times> bool" where
  "int_field name = field name to_int 0"

definition str_pointer :: "string \<Rightarrow> json option \<Rightarrow> string option \<times> bool" where
  "str_pointer name = field name (to_pointer [] to_string) None"

definition int_pointer :: "string \<Rightarrow> json option \<Rightarrow> int option \<times> bool" where
  "int_pointer name = field name (to_pointer 0 to_int) None"

definition strs_field :: "string \<Rightarrow> json option \<Rightarrow> string list \<times> bool" where
  "strs_field name = field name to_strings []"

lemmas field_defs = str_field_def int_field_def str_pointer_def int_pointer_def strs_field_def

end
