(* ===== verification/Segments.thy ===== *)
theory Segments
  imports GoStrings
begin

text \<open>
  More of the \<open>strings\<close> package (\<open>TrimPrefix\<close>, \<open>TrimSuffix\<close>, \<open>Cut\<close>), and its behaviour on paths made of
  segments: the tests that the server makes on a path become tests on its list of segments.
\<close>

definition TrimPrefix :: "string \<Rightarrow> string \<Rightarrow> string" where
  "TrimPrefix s p = (if HasPrefix s p then drop (length p) s else s)"

definition TrimSuffix :: "string \<Rightarrow> string \<Rightarrow> string" where
  "TrimSuffix s p = (if HasSuffix s p then take (length s - length p) s else s)"

fun Cut :: "string \<Rightarrow> string \<Rightarrow> string \<times> string \<times> bool" where
  "Cut [] sep = ([], [], sep = [])"
| "Cut (c # cs) sep =
     (if HasPrefix (c # cs) sep then ([], drop (length sep) (c # cs), True)
      else case Cut cs sep of (before, after, found) \<Rightarrow> (c # before, after, found))"

section \<open>Paths of segments\<close>

definition slash_free :: "string \<Rightarrow> bool" where
  "slash_free s \<longleftrightarrow> CHR ''/'' \<notin> set s"

definition path :: "string list \<Rightarrow> string" where
  "path xs = concat (map (\<lambda>x. CHR ''/'' # x) xs)"

definition dir :: "string list \<Rightarrow> string" where
  "dir xs = path xs @ ''/''"

definition mid :: "string \<Rightarrow> string" where
  "mid w = ''/'' @ w @ ''/''"

abbreviation rel :: "string list \<Rightarrow> string" where
  "rel xs \<equiv> join_with CHR ''/'' xs"

lemma path_simps [simp]: "path [] = []" "path (x # xs) = CHR ''/'' # x @ path xs"
  by (simp_all add: path_def)

lemma path_append: "path (xs @ ys) = path xs @ path ys"
  by (simp add: path_def)

lemma path_rel: "xs \<noteq> [] \<Longrightarrow> path xs = CHR ''/'' # rel xs"
  by (induction "CHR ''/''" xs rule: join_with.induct) auto

declare path_simps [simp del]

lemma split_on_sep: "split_on c (s @ c # t) = split_on c s @ split_on c t"
  by (induction s) (auto split: list.split)

lemma split_on_free: "c \<notin> set s \<Longrightarrow> split_on c s = [s]"
  by (induction s) auto

lemma split_path: "list_all slash_free xs \<Longrightarrow> split_on CHR ''/'' (path xs) = [] # xs"
proof (induction xs rule: rev_induct)
  case (snoc x xs)
  then show ?case
    using split_on_sep [of "CHR ''/''" "path xs" x] by (simp add: path_append path_simps split_on_free slash_free_def)
qed (simp add: path_simps)

lemma split_rel: "xs \<noteq> [] \<Longrightarrow> list_all slash_free xs \<Longrightarrow> split_on CHR ''/'' (rel xs) = xs"
  using split_path [of xs] by (simp add: path_rel)

lemma path_inject: "list_all slash_free xs \<Longrightarrow> list_all slash_free ys \<Longrightarrow> path xs = path ys \<longleftrightarrow> xs = ys"
  by (metis list.inject split_path)

section \<open>Prefixes\<close>

fun under :: "string list \<Rightarrow> string list \<Rightarrow> bool" where
  "under xs [] \<longleftrightarrow> xs \<noteq> []"
| "under [] (y # ys) \<longleftrightarrow> False"
| "under (x # xs) (y # ys) \<longleftrightarrow> x = y \<and> under xs ys"

lemma under_iff: "under xs ys \<longleftrightarrow> (\<exists>zs. zs \<noteq> [] \<and> xs = ys @ zs)"
  by (induction xs ys rule: under.induct) auto

lemma prefix_path:
  assumes "list_all slash_free xs" and "list_all slash_free ys"
  shows "HasPrefix (path xs) (dir ys) \<longleftrightarrow> under xs ys"
proof
  assume "HasPrefix (path xs) (dir ys)"
  then obtain t where "path xs = path ys @ CHR ''/'' # t" by (auto simp: HasPrefix_iff dir_def)
  then have "[] # xs = ([] # ys) @ split_on CHR ''/'' t"
    using split_on_sep [of "CHR ''/''" "path ys" t] split_path [OF assms(1)] split_path [OF assms(2)] by simp
  then show "under xs ys" by (auto simp: under_iff)
next
  assume "under xs ys"
  then obtain zs where "zs \<noteq> []" "xs = ys @ zs" by (auto simp: under_iff)
  then show "HasPrefix (path xs) (dir ys)" by (simp add: HasPrefix_iff dir_def path_append path_rel)
qed

lemma trim_prefix_path: "under xs ys \<Longrightarrow> TrimPrefix (path xs) (dir ys) = rel (drop (length ys) xs)"
  by (auto simp: under_iff TrimPrefix_def HasPrefix_iff dir_def path_append path_rel)

section \<open>Suffixes\<close>

fun begins :: "string list \<Rightarrow> string list \<Rightarrow> bool" where
  "begins xs [] \<longleftrightarrow> True"
| "begins [] (y # ys) \<longleftrightarrow> False"
| "begins (x # xs) (y # ys) \<longleftrightarrow> x = y \<and> begins xs ys"

lemma begins_iff: "begins xs ys \<longleftrightarrow> (\<exists>zs. xs = ys @ zs)"
  by (induction xs ys rule: begins.induct) auto

lemma ends_iff: "begins (rev xs) (rev ys) \<longleftrightarrow> (\<exists>zs. xs = zs @ ys)"
  by (auto simp: begins_iff) (metis rev_append rev_rev_ident)

lemma path_tail:
  assumes "list_all slash_free ys" and "ys \<noteq> []"
  shows "split_on CHR ''/'' (t @ path ys) = split_on CHR ''/'' t @ ys"
  using assms split_on_sep [of "CHR ''/''" t "rel ys"] by (simp add: path_rel split_rel)

lemma suffix_path:
  assumes "list_all slash_free xs" and "list_all slash_free ys" and "ys \<noteq> []"
  shows "HasSuffix (path xs) (path ys) \<longleftrightarrow> begins (rev xs) (rev ys)"
proof
  assume "HasSuffix (path xs) (path ys)"
  then obtain t where "path xs = t @ path ys" by (auto simp: HasSuffix_iff)
  then have "[] # xs = split_on CHR ''/'' t @ ys"
    using split_path [OF assms(1)] path_tail [OF assms(2,3), of t] by simp
  then show "begins (rev xs) (rev ys)"
    unfolding ends_iff by (cases "split_on CHR ''/'' t") auto
qed (auto simp: ends_iff HasSuffix_iff path_append)

lemma trim_suffix_rel: "TrimSuffix (rel [x, y]) (path [y]) = x" "TrimSuffix (rel [x, y, z]) (path [y, z]) = x"
  "TrimSuffix (rel [x, y, z, t]) (path [t]) = rel [x, y, z]"
  by (auto simp: TrimSuffix_def HasSuffix_iff path_simps)

section \<open>Segments within\<close>

lemma one_segment:
  "slash_free x \<Longrightarrow> Contains x ''/'' = False" "slash_free x \<Longrightarrow> Contains x (mid w) = False"
  "slash_free x \<Longrightarrow> split_on CHR ''/'' x = [x]"
  by (auto simp: Contains_iff slash_free_def mid_def split_on_free)

lemma contains_rel:
  assumes "list_all slash_free xs" and "xs \<noteq> []" and "slash_free w"
  shows "Contains (rel xs) (mid w) \<longleftrightarrow> w \<in> set (butlast (tl xs))"
proof
  assume "Contains (rel xs) (mid w)"
  then obtain a b where ab: "rel xs = a @ CHR ''/'' # (w @ CHR ''/'' # b)" by (auto simp: Contains_iff mid_def)
  have "split_on CHR ''/'' (w @ CHR ''/'' # b) = w # split_on CHR ''/'' b"
    using assms(3) split_on_sep [of "CHR ''/''" w b] by (simp add: slash_free_def split_on_free)
  then have "xs = split_on CHR ''/'' a @ w # split_on CHR ''/'' b"
    using split_rel [OF assms(2,1)] split_on_sep [of "CHR ''/''" a "w @ CHR ''/'' # b"] ab by simp
  then show "w \<in> set (butlast (tl xs))"
    by (cases "split_on CHR ''/'' a") (auto simp: butlast_append)
next
  assume w: "w \<in> set (butlast (tl xs))"
  obtain x ys where x: "xs = x # ys" using assms(2) by (cases xs) auto
  then have "ys \<noteq> []" using w by auto
  then have ys: "ys = butlast ys @ [last ys]" by simp
  obtain as bs where "butlast ys = as @ w # bs" using w x by (auto simp: in_set_conv_decomp)
  then obtain z where "ys = as @ w # bs @ [z]" using ys by (metis append.assoc append_Cons)
  moreover have "rel xs = x @ path ys"
    using path_rel [of xs] x by (simp add: path_simps)
  moreover obtain t where "path (bs @ [z]) = CHR ''/'' # t" by (cases bs) (auto simp: path_simps path_append)
  ultimately have "rel xs = (x @ path as) @ mid w @ t" by (simp add: path_append path_simps mid_def)
  then show "Contains (rel xs) (mid w)" unfolding Contains_iff by blast
qed

lemma contains_path:
  assumes "list_all slash_free xs" and "slash_free w"
  shows "Contains (path xs) (mid w) \<longleftrightarrow> w \<in> set (butlast xs)"
proof (cases xs)
  case (Cons x ys)
  then have "path xs = rel ([] # xs)" using path_rel [of xs] by simp
  then show ?thesis using contains_rel [of "[] # xs" w] assms by (simp add: slash_free_def)
qed (simp add: path_simps mid_def)

lemma Cut_skip: "c \<notin> set a \<Longrightarrow> Cut (a @ c # t) (c # sep) = (case Cut (c # t) (c # sep) of (x, y, f) \<Rightarrow> (a @ x, y, f))"
  by (induction a) (auto split: prod.split)

lemma cut_rel:
  assumes "slash_free a"
  shows "Cut (rel [a, w, b]) (mid w) = (a, b, True)"
proof -
  have "HasPrefix (CHR ''/'' # w @ CHR ''/'' # b) (CHR ''/'' # w @ ''/'')" by (auto simp: HasPrefix_iff)
  then have "Cut (CHR ''/'' # w @ CHR ''/'' # b) (CHR ''/'' # w @ ''/'') = ([], b, True)" by simp
  then show ?thesis using assms Cut_skip [of "CHR ''/''" a] by (simp add: mid_def slash_free_def)
qed

lemmas segment_simps = prefix_path trim_prefix_path suffix_path trim_suffix_rel one_segment contains_rel contains_path
  cut_rel split_rel path_inject

end
