(* ===== verification/Auth.thy ===== *)
theory Auth
  imports Json Segments
begin

text \<open>
  \<open>auth/claims.go\<close> and \<open>auth/auth.go\<close>: who a request is from. The identity provider and the library that
  checks tokens are not part of the repository: they are the fields of \<open>Provider\<close>, and \<open>'k\<close> is the type
  of its key sets. \<open>lo\<close> is the table of \<open>unicode.ToLower\<close>, \<open>num\<close> prints a number of a JSON text the way
  \<open>json.Marshal\<close> prints the \<open>float64\<close> it was read into. The clock is read once for a request.
\<close>

section \<open>Claims\<close>

type_synonym claims = "string \<rightharpoonup> json"

record ClaimNames =
  cn_OrgID :: string
  cn_Organizations :: string

definition DefaultClaimNames :: ClaimNames where
  "DefaultClaimNames = \<lparr>cn_OrgID = ''org_id'', cn_Organizations = ''organizations''\<rparr>"

definition ParseClaimNames :: "string \<Rightarrow> string \<Rightarrow> ClaimNames" where
  "ParseClaimNames orgClaim orgsClaim =
     (let c0 = DefaultClaimNames;
          c1 = (if TrimSpace orgClaim \<noteq> [] then c0\<lparr>cn_OrgID := TrimSpace orgClaim\<rparr> else c0)
      in if TrimSpace orgsClaim \<noteq> [] then c1\<lparr>cn_Organizations := TrimSpace orgsClaim\<rparr> else c1)"

text \<open>A claim as a string, if it has a type that can be one.\<close>

fun claim_text :: "(string \<Rightarrow> string) \<Rightarrow> json \<Rightarrow> string option" where
  "claim_text num (JStr t) = Some (TrimSpace t)"
| "claim_text num (JNum n) = Some (TrimSpace (TrimSuffix (TrimSpace (num n)) ''.0''))"
| "claim_text num _ = None"

text \<open>The loop over the alternatives in a key.\<close>

fun first_claim :: "(string \<Rightarrow> string) \<Rightarrow> claims \<Rightarrow> string list \<Rightarrow> string" where
  "first_claim num claims [] = []"
| "first_claim num claims (k0 # ks) =
     (let k = TrimSpace k0 in
      if k = [] then first_claim num claims ks
      else case claims k of
             None \<Rightarrow> first_claim num claims ks
           | Some v \<Rightarrow> (case claim_text num v of None \<Rightarrow> first_claim num claims ks | Some t \<Rightarrow> t))"

definition claimString :: "(string \<Rightarrow> string) \<Rightarrow> claims \<Rightarrow> string \<Rightarrow> string" where
  "claimString num claims key = (if key = [] then [] else first_claim num claims (split_on CHR '','' key))"

fun firstString :: "(string \<Rightarrow> string) \<Rightarrow> claims \<Rightarrow> string list \<Rightarrow> string" where
  "firstString num m [] = []"
| "firstString num m (k # ks) =
     (let s = claimString num m k in if s \<noteq> [] then s else firstString num m ks)"

record orgMembership =
  om_OrgID :: string
  om_OrgName :: string
  om_Role :: string

text \<open>An object that was decoded into a Go map: of equal keys the last one stays.\<close>

definition object_map :: "(string \<times> json) list \<Rightarrow> claims" where
  "object_map kvs = map_of (rev kvs)"

fun org_memberships :: "(string \<Rightarrow> string) \<Rightarrow> json list \<Rightarrow> orgMembership list" where
  "org_memberships num [] = []"
| "org_memberships num (JStr t # js) =
     (let id = TrimSpace t in
      if id \<noteq> [] then \<lparr>om_OrgID = id, om_OrgName = id, om_Role = ''member''\<rparr> # org_memberships num js
      else org_memberships num js)"
| "org_memberships num (JObj kvs # js) =
     (let m = object_map kvs; id = firstString num m [''org_id'', ''orgId'', ''id''] in
      if id = [] then org_memberships num js
      else \<lparr>om_OrgID = id,
            om_OrgName = firstString num m [''org_name'', ''orgName'', ''name'', ''org_id'', ''orgId''],
            om_Role = firstString num m [''role'', ''roles'']\<rparr> # org_memberships num js)"
| "org_memberships num (_ # js) = org_memberships num js"

fun first_present :: "claims \<Rightarrow> string list \<Rightarrow> json" where
  "first_present claims [] = JNull"
| "first_present claims (k # ks) =
     (if k = [] then first_present claims ks
      else case claims k of Some v \<Rightarrow> v | None \<Rightarrow> first_present claims ks)"

definition organizationsFromClaims :: "(string \<Rightarrow> string) \<Rightarrow> claims \<Rightarrow> ClaimNames \<Rightarrow> orgMembership list" where
  "organizationsFromClaims num claims names =
     (case first_present claims [cn_Organizations names, ''organizations'', ''orgs''] of
        JArr js \<Rightarrow> org_memberships num js
      | _ \<Rightarrow> [])"

definition orgIDFromClaims :: "(string \<Rightarrow> string) \<Rightarrow> claims \<Rightarrow> ClaimNames \<Rightarrow> string" where
  "orgIDFromClaims num claims names =
     (let id = claimString num claims (cn_OrgID names) in
      if id \<noteq> [] then id
      else let id2 = firstString num claims [''org_id'', ''orgId'', ''organization_id'', ''tid''] in
      if id2 \<noteq> [] then id2
      else case organizationsFromClaims num claims names of [] \<Rightarrow> [] | m # _ \<Rightarrow> om_OrgID m)"

section \<open>The middleware and the provider\<close>

record User =
  us_Sub :: string
  us_Email :: string
  us_EmailVerified :: bool
  us_OrgID :: string

record Options =
  op_DevAuth :: bool
  op_Issuer :: string
  op_InternalBase :: string
  op_Audience :: string
  op_Claims :: ClaimNames
  op_SkipIssuerCheck :: bool

definition NewWithOptions :: "Options \<Rightarrow> Options" where
  "NewWithOptions opts0 =
     (let opts1 = (if op_InternalBase opts0 = [] then opts0\<lparr>op_InternalBase := op_Issuer opts0\<rparr> else opts0)
      in if cn_OrgID (op_Claims opts1) = [] then opts1\<lparr>op_Claims := DefaultClaimNames\<rparr> else opts1)"

text \<open>What the middleware keeps between requests; \<open>None\<close> is the nil key set.\<close>

record 'k Middleware =
  mw_jwks :: "'k option"
  mw_jwksLoaded :: time
  mw_jwksURI :: string
  mw_userinfoURL :: string
  mw_discoveredAt :: time

record Token =
  tk_Subject :: string
  tk_Private :: claims
  tk_Get :: claims

text \<open>Answers of the provider: to a request for its configuration, and for the claims of a token.\<close>

datatype discovery = D_badURL | D_unreachable | D_refused int | D_garbled | D_document string string

datatype userinfo = U_failed | U_status int | U_garbled | U_claims "(string \<times> json) list"

record 'k Provider =
  pv_discovery :: "string \<Rightarrow> discovery"
  pv_keys :: "string \<Rightarrow> 'k option"
  pv_parse :: "'k \<Rightarrow> string option \<Rightarrow> string option \<Rightarrow> string \<Rightarrow> Token option"
  pv_userinfo :: "string \<Rightarrow> string \<Rightarrow> userinfo"

section \<open>Discovery and keys\<close>

definition trim_slashes :: "string \<Rightarrow> string" where
  "trim_slashes s = rev (dropWhile (\<lambda>c. c = CHR ''/'') (rev s))"

text \<open>Whether it worked, and the new state.\<close>

definition ensureDiscovery :: "'k Provider \<Rightarrow> Options \<Rightarrow> time \<Rightarrow> 'k Middleware \<Rightarrow> bool \<times> 'k Middleware" where
  "ensureDiscovery pv opts now mw =
     (if mw_jwksURI mw \<noteq> [] \<and> mw_userinfoURL mw \<noteq> [] \<and> now - mw_discoveredAt mw < 10 * Minute then (True, mw)
      else let base = trim_slashes (op_InternalBase opts);
               jwksURI = base @ ''/.well-known/jwks.json'';
               userinfoURL = base @ ''/userinfo'';
               fallback = mw\<lparr>mw_jwksURI := jwksURI, mw_userinfoURL := userinfoURL, mw_discoveredAt := now\<rparr>
      in case pv_discovery pv (base @ ''/.well-known/openid-configuration'') of
           D_badURL \<Rightarrow> (False, mw)
         | D_unreachable \<Rightarrow> (True, fallback)
         | D_refused _ \<Rightarrow> (True, fallback)
         | D_garbled \<Rightarrow> (False, mw)
         | D_document j u \<Rightarrow>
             (True, mw\<lparr>mw_jwksURI := (if j \<noteq> [] then j else jwksURI),
                       mw_userinfoURL := (if u \<noteq> [] then u else userinfoURL), mw_discoveredAt := now\<rparr>))"

definition userinfoEndpoint :: "'k Provider \<Rightarrow> Options \<Rightarrow> time \<Rightarrow> 'k Middleware \<Rightarrow> string option \<times> 'k Middleware" where
  "userinfoEndpoint pv opts now mw =
     (case ensureDiscovery pv opts now mw of (ok, mw1) \<Rightarrow> (if ok then Some (mw_userinfoURL mw1) else None, mw1))"

definition keys_fresh :: "time \<Rightarrow> 'k Middleware \<Rightarrow> bool" where
  "keys_fresh now mw \<longleftrightarrow> mw_jwks mw \<noteq> None \<and> now - mw_jwksLoaded mw < 5 * Minute"

definition jwksSet :: "'k Provider \<Rightarrow> Options \<Rightarrow> time \<Rightarrow> 'k Middleware \<Rightarrow> 'k option \<times> 'k Middleware" where
  "jwksSet pv opts now mw =
     (if keys_fresh now mw then (mw_jwks mw, mw)
      else case ensureDiscovery pv opts now mw of (ok, mw1) \<Rightarrow>
             (if \<not> ok then (None, mw1)
              else case pv_keys pv (mw_jwksURI mw1) of
                     None \<Rightarrow> (None, mw1)
                   | Some keys \<Rightarrow> (Some keys, mw1\<lparr>mw_jwks := Some keys, mw_jwksLoaded := now\<rparr>)))"

section \<open>Two ways to check a token\<close>

text \<open>Every error becomes the same answer, so only whether there was one is kept.\<close>

definition user_of_claims :: "(nat \<Rightarrow> nat) \<Rightarrow> (string \<Rightarrow> string) \<Rightarrow> Options \<Rightarrow> string \<Rightarrow> claims \<Rightarrow> User" where
  "user_of_claims lo num opts sub claims =
     \<lparr>us_Sub = sub,
      us_Email = (case claims ''email'' of Some (JStr v) \<Rightarrow> ToLower lo (TrimSpace v) | _ \<Rightarrow> []),
      us_EmailVerified = (case claims ''email_verified'' of Some (JBool b) \<Rightarrow> b | _ \<Rightarrow> False),
      us_OrgID = orgIDFromClaims num claims (op_Claims opts)\<rparr>"

definition token_claims :: "Token \<Rightarrow> claims" where
  "token_claims tok =
     (let c1 = (case tk_Get tok ''email'' of Some v \<Rightarrow> (tk_Private tok)(''email'' \<mapsto> v) | None \<Rightarrow> tk_Private tok)
      in case tk_Get tok ''email_verified'' of Some v \<Rightarrow> c1(''email_verified'' \<mapsto> v) | None \<Rightarrow> c1)"

definition authenticateJWT ::
  "(nat \<Rightarrow> nat) \<Rightarrow> (string \<Rightarrow> string) \<Rightarrow> 'k Provider \<Rightarrow> Options \<Rightarrow> time \<Rightarrow> string \<Rightarrow> 'k Middleware \<Rightarrow> User option \<times> 'k Middleware" where
  "authenticateJWT lo num pv opts now token mw =
     (case jwksSet pv opts now mw of
        (None, mw1) \<Rightarrow> (None, mw1)
      | (Some keys, mw1) \<Rightarrow>
          (case pv_parse pv keys (if op_SkipIssuerCheck opts then None else Some (op_Issuer opts))
                  (if op_Audience opts \<noteq> [] then Some (op_Audience opts) else None) token of
             None \<Rightarrow> (None, mw1)
           | Some tok \<Rightarrow>
               (if tk_Subject tok = [] then (None, mw1)
                else (Some (user_of_claims lo num opts (tk_Subject tok) (token_claims tok)), mw1))))"

definition claim_sub :: "claims \<Rightarrow> string" where
  "claim_sub claims = (case claims ''sub'' of Some (JStr s) \<Rightarrow> s | _ \<Rightarrow> [])"

definition authenticateUserInfo ::
  "(nat \<Rightarrow> nat) \<Rightarrow> (string \<Rightarrow> string) \<Rightarrow> 'k Provider \<Rightarrow> Options \<Rightarrow> time \<Rightarrow> string \<Rightarrow> 'k Middleware \<Rightarrow> User option \<times> 'k Middleware" where
  "authenticateUserInfo lo num pv opts now token mw =
     (case userinfoEndpoint pv opts now mw of
        (None, mw1) \<Rightarrow> (None, mw1)
      | (Some url, mw1) \<Rightarrow>
          (case pv_userinfo pv url token of
             U_claims kvs \<Rightarrow>
               (let claims = object_map kvs in
                if TrimSpace (claim_sub claims) = [] then (None, mw1)
                else (Some (user_of_claims lo num opts (claim_sub claims) claims), mw1))
           | _ \<Rightarrow> (None, mw1)))"

section \<open>Who sent the request\<close>

definition bearer_token :: "string \<Rightarrow> string option" where
  "bearer_token header =
     (let authz = TrimSpace header in
      if \<not> HasPrefix authz ''Bearer '' then None
      else let token = TrimSpace (TrimPrefix authz ''Bearer '') in if token = [] then None else Some token)"

definition choose_org :: "string \<Rightarrow> User \<Rightarrow> User" where
  "choose_org header u = (if TrimSpace header \<noteq> [] then u\<lparr>us_OrgID := TrimSpace header\<rparr> else u)"

definition authenticate ::
  "(nat \<Rightarrow> nat) \<Rightarrow> (string \<Rightarrow> string) \<Rightarrow> 'k Provider \<Rightarrow> Options \<Rightarrow> time \<Rightarrow> (string \<Rightarrow> string) \<Rightarrow> 'k Middleware \<Rightarrow> User option \<times> 'k Middleware" where
  "authenticate lo num pv opts now header mw =
     (let h = TrimSpace (header ''X-Dev-User-Sub'') in
      if h \<noteq> [] \<and> op_DevAuth opts then
        (let email = TrimSpace (header ''X-Dev-User-Email'') in
         (Some \<lparr>us_Sub = h, us_Email = email, us_EmailVerified = (email \<noteq> []),
                us_OrgID = TrimSpace (header ''X-Dev-User-Org'')\<rparr>, mw))
      else case bearer_token (header ''Authorization'') of
             None \<Rightarrow> (None, mw)
           | Some token \<Rightarrow>
               (if op_Issuer opts = [] then (None, mw)
                else case authenticateJWT lo num pv opts now token mw of
                       (Some u, mw1) \<Rightarrow> (Some (choose_org (header ''X-Workspace-Org'') u), mw1)
                     | (None, mw1) \<Rightarrow>
                         (case authenticateUserInfo lo num pv opts now token mw1 of
                            (None, mw2) \<Rightarrow> (None, mw2)
                          | (Some u, mw2) \<Rightarrow> (Some (choose_org (header ''X-Workspace-Org'') u), mw2))))"

end
