(* ===== verification/Rfc3339.thy ===== *)
theory Rfc3339
  imports Json Domain
begin

text \<open>
  \<open>parseTimeRFC3339\<close> of \<open>web/sprints.go\<close>, with what it uses of \<open>time.Parse\<close>: the date, the time of day,
  an optional fraction of any length of which nine digits count, and the zone. Times are nanoseconds
  since the start of 1970, UTC. The second try of the code, with the layout that names a fraction, reads
  the same strings as the first, so the model tries once.
\<close>

section \<open>Calendar\<close>

definition leap :: "int \<Rightarrow> bool" where
  "leap y \<longleftrightarrow> y mod 4 = 0 \<and> (y mod 100 \<noteq> 0 \<or> y mod 400 = 0)"

definition days_in :: "int \<Rightarrow> int \<Rightarrow> int" where
  "days_in y m = (if m = 2 then (if leap y then 29 else 28) else if m \<in> {4, 6, 9, 11} then 30 else 31)"

text \<open>Days since 1 January 1970; the year is counted from March, so that the leap day comes last.\<close>

definition civil_days :: "int \<Rightarrow> int \<Rightarrow> int \<Rightarrow> int" where
  "civil_days y m d =
     (let y1 = (if m \<le> 2 then y - 1 else y);
          era = y1 div 400;
          yoe = y1 - era * 400;
          doy = (153 * (if m > 2 then m - 3 else m + 9) + 2) div 5 + d - 1
      in era * 146097 + (yoe * 365 + yoe div 4 - yoe div 100 + doy) - 719468)"

section \<open>Reading\<close>

text \<open>\<open>getnum\<close>: two digits, or one when that is not fixed.\<close>

fun getnum :: "bool \<Rightarrow> string \<Rightarrow> (int \<times> string) option" where
  "getnum fixed [] = None"
| "getnum fixed (a # s) =
     (if \<not> is_digit a then None
      else case s of
             b # r \<Rightarrow>
               (if is_digit b then Some (digits_value [a, b], r) else if fixed then None else Some (digits_value [a], s))
           | [] \<Rightarrow> (if fixed then None else Some (digits_value [a], s)))"

fun expect :: "char \<Rightarrow> string \<Rightarrow> string option" where
  "expect c [] = None"
| "expect c (a # s) = (if a = c then Some s else None)"

definition in_range :: "int \<Rightarrow> int \<Rightarrow> int \<times> string \<Rightarrow> (int \<times> string) option" where
  "in_range lo hi p = (if lo \<le> fst p \<and> fst p \<le> hi then Some p else None)"

text \<open>The fraction of a second in nanoseconds, when there is one.\<close>

definition fraction :: "string \<Rightarrow> int \<times> string" where
  "fraction s =
     (if 2 \<le> length s \<and> (hd s = CHR ''.'' \<or> hd s = CHR '','') \<and> is_digit (s ! 1)
      then (let ds = takeWhile is_digit (tl s); used = take 9 ds
            in (digits_value used * 10 ^ (9 - length used), dropWhile is_digit (tl s)))
      else (0, s))"

text \<open>The offset of the zone in seconds.\<close>

definition zone :: "string \<Rightarrow> (int \<times> string) option" where
  "zone s =
     (if s \<noteq> [] \<and> hd s = CHR ''Z'' then Some (0, tl s)
      else if length s < 6 \<or> s ! 3 \<noteq> CHR '':'' then None
      else case (getnum True [s ! 1, s ! 2], getnum True [s ! 4, s ! 5]) of
             (Some (hr, _), Some (mm, _)) \<Rightarrow>
               (if hr > 24 \<or> mm > 60 then None
                else if s ! 0 = CHR ''+'' then Some ((hr * 60 + mm) * 60, drop 6 s)
                else if s ! 0 = CHR ''-'' then Some (- ((hr * 60 + mm) * 60), drop 6 s)
                else None)
           | _ \<Rightarrow> None)"

definition Parse_RFC3339 :: "string \<Rightarrow> time option" where
  "Parse_RFC3339 s0 =
     (if length s0 < 4 \<or> \<not> list_all is_digit (take 4 s0) then None
      else let year = digits_value (take 4 s0) in
      Option.bind (expect CHR ''-'' (drop 4 s0)) (\<lambda>s.
      Option.bind (Option.bind (getnum True s) (in_range 1 12)) (\<lambda>(month, s).
      Option.bind (expect CHR ''-'' s) (\<lambda>s.
      Option.bind (Option.bind (getnum True s) (in_range 1 (days_in year month))) (\<lambda>(day, s).
      Option.bind (expect CHR ''T'' s) (\<lambda>s.
      Option.bind (Option.bind (getnum False s) (in_range 0 23)) (\<lambda>(hour, s).
      Option.bind (expect CHR '':'' s) (\<lambda>s.
      Option.bind (Option.bind (getnum True s) (in_range 0 59)) (\<lambda>(minute, s).
      Option.bind (expect CHR '':'' s) (\<lambda>s.
      Option.bind (Option.bind (getnum True s) (in_range 0 59)) (\<lambda>(sec, s).
      case fraction s of (nanos, s) \<Rightarrow>
      Option.bind (zone s) (\<lambda>(offset, rest).
        if rest \<noteq> [] then None
        else Some (civil_days year month day * Day + hour * Hour + minute * Minute +
                   (sec - offset) * 1000000000 + nanos)))))))))))))"

definition parseTimeRFC3339 :: "string \<Rightarrow> time result" where
  "parseTimeRFC3339 raw0 =
     (let raw = TrimSpace raw0 in
      if raw = [] then Inl ErrInvalid
      else case Parse_RFC3339 raw of None \<Rightarrow> Inl ErrInvalid | Some t \<Rightarrow> Inr t)"

text \<open>Some dates.\<close>

lemma parse_examples:
  "parseTimeRFC3339 '' 1970-01-01T00:00:00Z '' = Inr 0"
  "parseTimeRFC3339 ''2024-02-29T12:30:00.5+02:00'' = Inr ((19782 * 24 + 10) * Hour + 30 * Minute + 500000000)"
  "parseTimeRFC3339 ''2023-02-29T00:00:00Z'' = Inl ErrInvalid"
  by code_simp+

end
