(* ===== verification/WebBase.thy ===== *)
theory WebBase
  imports SvcInvitations SvcDocs SvcSearch Files Auth Rfc3339
begin

text \<open>
  What the handlers of \<open>web/\<close> share: requests, responses, the answers to errors, and what the runtime and
  the outside world give to a request. The body of a response is the Go value that is encoded.
\<close>

section \<open>Responses\<close>

record OrgMember =
  ov_Sub :: string
  ov_Role :: string
  ov_Email :: string
  ov_DisplayName :: string

datatype Body =
    B_none
  | B_text string
  | B_error string string
  | B_conflict_card Card
  | B_conflict_page Page
  | B_ok
  | B_workspace Workspace
  | B_workspaces "Workspace list"
  | B_member Member
  | B_members "Member list"
  | B_org_members "OrgMember list"
  | B_invitation Invitation
  | B_invitations "Invitation list"
  | B_invitation_token Invitation string
  | B_preview Workspace Invitation
  | B_joined Member Workspace
  | B_events "AuditEvent list"

datatype Body2 =
    B_board Board
  | B_boards "Board list" "Board list"
  | B_board_detail BoardDetail
  | B_column Column
  | B_card Card
  | B_sprint Sprint
  | B_sprints "Sprint list"
  | B_burndown Burndown
  | B_page Page
  | B_page_tree "PageNode list" "Page list"
  | B_versions "PageVersionInfo list"
  | B_version PageVersion
  | B_diff PageDiff

datatype Body3 =
    B_document Document
  | B_documents "Document list" "Document list"
  | B_collab_ticket IssuedTicket
  | B_collab_auth CollabAuth
  | B_plaintext string
  | B_channel Channel
  | B_channel_view ChannelView
  | B_channels "ChannelView list"
  | B_message ChatMessage
  | B_messages "ChatMessage list"
  | B_chat_ticket IssuedChatTicket
  | B_upgraded ChatTicket
  | B_upload_config UploadConfig
  | B_file FileView
  | B_files "FileView list"
  | B_content string string
  | B_hits "SearchHit list"

text \<open>Three types, for the speed of the datatype package; a response has one of them.\<close>

datatype Answer = A1 Body | A2 Body2 | A3 Body3

record Response =
  rs_Status :: int
  rs_Body :: Answer

definition reply :: "int \<Rightarrow> Answer \<Rightarrow> Response" where
  "reply code b = \<lparr>rs_Status = code, rs_Body = b\<rparr>"

lemma reply_status [simp]: "rs_Status (reply code b) = code"
  by (simp add: reply_def)

definition writeErr :: "error \<Rightarrow> Response" where
  "writeErr e =
     (case e of
        ErrTooLarge \<Rightarrow> reply 413 (A1 (B_error ''too_large'' ''file too large''))
      | ErrInvalid \<Rightarrow> reply 400 (A1 (B_error ''invalid_request'' ''invalid''))
      | ErrUnauthorized \<Rightarrow> reply 401 (A1 (B_error ''unauthorized'' ''unauthorized''))
      | ErrNotFound \<Rightarrow> reply 404 (A1 (B_error ''not_found'' ''not found''))
      | ErrForbidden \<Rightarrow> reply 403 (A1 (B_error ''forbidden'' ''forbidden''))
      | ErrConflict \<Rightarrow> reply 409 (A1 (B_error ''conflict'' ''version conflict''))
      | ErrInternal \<Rightarrow> reply 500 (A1 (B_text ''internal error'')))"

lemma writeErr_status: "400 \<le> rs_Status (writeErr e)"
  by (cases e) (simp_all add: writeErr_def)

definition bad_json :: Response where
  "bad_json = reply 400 (A1 (B_error ''invalid_request'' ''invalid json''))"

definition not_found :: Response where
  "not_found = reply 404 (A1 (B_text ''404 page not found''))"

lemma bad_status [simp]: "rs_Status bad_json = 400" "rs_Status not_found = 404"
  by (simp_all add: bad_json_def not_found_def)

section \<open>Answering with the result of an operation\<close>

definition respond :: "int \<Rightarrow> ('a \<Rightarrow> Answer) \<Rightarrow> 'a result \<times> Store \<Rightarrow> Response \<times> Store" where
  "respond code f p = ((case fst p of Inl e \<Rightarrow> writeErr e | Inr x \<Rightarrow> reply code (f x)), snd p)"

text \<open>The operations with an optimistic lock answer a conflict with the current value.\<close>

definition respond_locked ::
  "('a \<Rightarrow> Answer) \<Rightarrow> ('a \<Rightarrow> Answer) \<Rightarrow> 'a locked_result \<times> Store \<Rightarrow> Response \<times> Store" where
  "respond_locked current f p =
     ((case fst p of
         Inl (e, x) \<Rightarrow> (if e = ErrConflict then reply 409 (current x) else writeErr e)
       | Inr x \<Rightarrow> reply 200 (f x)), snd p)"

text \<open>An operation that only reads.\<close>

definition answer :: "('a \<Rightarrow> Answer) \<Rightarrow> 'a result \<Rightarrow> Store \<Rightarrow> Response \<times> Store" where
  "answer f r s = ((case r of Inl e \<Rightarrow> writeErr e | Inr x \<Rightarrow> reply 200 (f x)), s)"

definition no_content :: "unit result \<times> Store \<Rightarrow> Response \<times> Store" where
  "no_content p = respond 204 (\<lambda>_. A1 B_none) p"

section \<open>Requests and their surroundings\<close>

text \<open>
  The multipart form of an upload: whether it is too large or cannot be read, else its values and the
  file with its name, content type, declared size and contents.
\<close>

datatype form = F_tooLarge | F_invalid | F_form "string \<Rightarrow> string" "(string \<times> string \<times> int \<times> string) option"

text \<open>
  A request: the first value of each query parameter and of each header (empty when there is none), the
  JSON body (\<open>None\<close> when it is not JSON), and the form.
\<close>

record Request =
  rq_Query :: "string \<Rightarrow> string"
  rq_Header :: "string \<Rightarrow> string"
  rq_Body :: "json option"
  rq_Form :: form

text \<open>
  What the runtime gives to one request: new identifiers, random bytes, the clock, the orders in which
  it ranges over maps, the order in which the unstable sort leaves events of one time, and whether the
  file system obeys.
\<close>

record Runtime =
  rt_id :: id
  rt_id2 :: id
  rt_id3 :: id
  rt_ids :: "id list"
  rt_rand :: "nat list option"
  rt_now :: time
  rt_now2 :: time
  rt_workspaces :: "id list"
  rt_members :: "id \<Rightarrow> string list"
  rt_invitations :: "id list"
  rt_sprints :: "id list"
  rt_ranges :: Ranges
  rt_shuffle :: "AuditEvent list \<Rightarrow> AuditEvent list"
  rt_os :: OS

abbreviation rt_pages :: "Runtime \<Rightarrow> id list" where "rt_pages rt \<equiv> rg_pages (rt_ranges rt)"
abbreviation rt_documents :: "Runtime \<Rightarrow> id list" where "rt_documents rt \<equiv> rg_documents (rt_ranges rt)"
abbreviation rt_boards :: "Runtime \<Rightarrow> id list" where "rt_boards rt \<equiv> rg_boards (rt_ranges rt)"
abbreviation rt_cards :: "Runtime \<Rightarrow> id list" where "rt_cards rt \<equiv> rg_cards (rt_ranges rt)"
abbreviation rt_channels :: "Runtime \<Rightarrow> id list" where "rt_channels rt \<equiv> rg_channels (rt_ranges rt)"

end
