(* ===== verification/WebWorkspaces.thy ===== *)
theory WebWorkspaces
  imports WebBase
begin

text \<open>
  The handlers of \<open>web/server.go\<close> for workspaces, members, invitations and audit events, and
  \<open>web/org_members.go\<close>. The store they work on is the one scoped to the organisation of the user.
\<close>

section \<open>Workspaces and members\<close>

definition web_createWorkspace :: "Runtime \<Rightarrow> Store \<Rightarrow> json option \<Rightarrow> User \<Rightarrow> Response \<times> Store" where
  "web_createWorkspace rt s body u =
     (case str_field ''name'' body of (name, ok) \<Rightarrow>
        if \<not> ok then (bad_json, s)
        else respond 201 (\<lambda>ws. A1 (B_workspace ws))
          (svc_CreateWorkspace s (rt_id rt) (rt_id2 rt) (us_Sub u) (TrimSpace name) (us_OrgID u) (rt_now rt) (rt_now2 rt)))"

definition web_listWorkspaces :: "Runtime \<Rightarrow> Store \<Rightarrow> string \<Rightarrow> Response \<times> Store" where
  "web_listWorkspaces rt s sub = (reply 200 (A1 (B_workspaces (svc_ListWorkspaces (rt_workspaces rt) s sub))), s)"

definition web_getWorkspace :: "Store \<Rightarrow> string \<Rightarrow> id \<Rightarrow> Response \<times> Store" where
  "web_getWorkspace s sub wsID = answer (\<lambda>ws. A1 (B_workspace ws)) (svc_GetWorkspace s sub wsID) s"

definition web_listMembers :: "Runtime \<Rightarrow> Store \<Rightarrow> string \<Rightarrow> id \<Rightarrow> Response \<times> Store" where
  "web_listMembers rt s sub wsID = answer (\<lambda>ms. A1 (B_members ms)) (svc_ListMembers (rt_members rt wsID) s sub wsID) s"

definition web_getMember :: "Store \<Rightarrow> string \<Rightarrow> id \<Rightarrow> string \<Rightarrow> Response \<times> Store" where
  "web_getMember s sub wsID memberSub = answer (\<lambda>m. A1 (B_member m)) (svc_GetMember s sub wsID memberSub) s"

definition web_syncMemberDisplayName :: "Store \<Rightarrow> json option \<Rightarrow> string \<Rightarrow> id \<Rightarrow> Response \<times> Store" where
  "web_syncMemberDisplayName s body sub wsID =
     (case str_field ''displayName'' body of (name, ok) \<Rightarrow>
        if \<not> ok then (bad_json, s)
        else respond 200 (\<lambda>m. A1 (B_member m)) (svc_SyncMemberDisplayName s sub wsID name))"

definition web_addMember :: "Runtime \<Rightarrow> Store \<Rightarrow> json option \<Rightarrow> string \<Rightarrow> id \<Rightarrow> Response \<times> Store" where
  "web_addMember rt s body actorSub wsID =
     (case (str_field ''sub'' body, str_field ''role'' body) of ((sub, ok1), (role, ok2)) \<Rightarrow>
        if \<not> (ok1 \<and> ok2) then (bad_json, s)
        else respond 201 (\<lambda>m. A1 (B_member m)) (svc_AddMember s actorSub wsID (TrimSpace sub) role (rt_now rt)))"

definition web_updateMemberRole :: "Runtime \<Rightarrow> Store \<Rightarrow> json option \<Rightarrow> string \<Rightarrow> id \<Rightarrow> string \<Rightarrow> Response \<times> Store" where
  "web_updateMemberRole rt s body actorSub wsID targetSub =
     (case str_field ''role'' body of (role, ok) \<Rightarrow>
        if \<not> ok then (bad_json, s)
        else respond 200 (\<lambda>m. A1 (B_member m))
          (svc_UpdateMemberRole s (rt_id rt) (rt_members rt wsID) actorSub wsID targetSub role (rt_now rt)))"

definition web_removeMember :: "Runtime \<Rightarrow> Store \<Rightarrow> string \<Rightarrow> id \<Rightarrow> string \<Rightarrow> Response \<times> Store" where
  "web_removeMember rt s actorSub wsID targetSub =
     no_content (svc_RemoveMember s (rt_id rt) (rt_members rt wsID) actorSub wsID targetSub (rt_now rt))"

definition web_leaveWorkspace :: "Runtime \<Rightarrow> Store \<Rightarrow> string \<Rightarrow> id \<Rightarrow> Response \<times> Store" where
  "web_leaveWorkspace rt s sub wsID =
     no_content (svc_LeaveWorkspace s (rt_id rt) (rt_members rt wsID) sub wsID (rt_now rt))"

definition web_listAuditEvents :: "Runtime \<Rightarrow> Store \<Rightarrow> string \<Rightarrow> id \<Rightarrow> Response \<times> Store" where
  "web_listAuditEvents rt s actorSub wsID =
     answer (\<lambda>es. A1 (B_events es)) (svc_ListAuditEvents (rt_shuffle rt) s actorSub wsID) s"

section \<open>Invitations\<close>

definition web_createInvitation :: "Env \<Rightarrow> Runtime \<Rightarrow> Store \<Rightarrow> json option \<Rightarrow> User \<Rightarrow> id \<Rightarrow> Response \<times> Store" where
  "web_createInvitation env rt s body u wsID =
     (case (str_field ''role'' body, int_field ''maxUses'' body, int_field ''ttlHours'' body, str_field ''invitedEmail'' body) of
        ((role, ok1), (maxUses, ok2), (ttl, ok3), (email, ok4)) \<Rightarrow>
          if \<not> (ok1 \<and> ok2 \<and> ok3 \<and> ok4) then (bad_json, s)
          else respond 201 (\<lambda>(iv, token). A1 (B_invitation_token iv token))
            (svc_CreateInvitation (env_lo env) (env_sha env) s (rt_id rt) (rt_id2 rt) (rt_rand rt) (us_Sub u) wsID role email
               maxUses ttl (rt_now rt)))"

definition web_listInvitations :: "Runtime \<Rightarrow> Store \<Rightarrow> string \<Rightarrow> id \<Rightarrow> Response \<times> Store" where
  "web_listInvitations rt s actorSub wsID =
     answer (\<lambda>ivs. A1 (B_invitations ivs)) (svc_ListInvitations (rt_invitations rt) s actorSub wsID) s"

definition web_revokeInvitation :: "Runtime \<Rightarrow> Store \<Rightarrow> string \<Rightarrow> id \<Rightarrow> id \<Rightarrow> Response \<times> Store" where
  "web_revokeInvitation rt s actorSub wsID inviteID =
     respond 200 (\<lambda>iv. A1 (B_invitation iv)) (svc_RevokeInvitation s (rt_id rt) actorSub wsID inviteID (rt_now rt))"

definition web_resendInvitation :: "Env \<Rightarrow> Runtime \<Rightarrow> Store \<Rightarrow> string \<Rightarrow> id \<Rightarrow> id \<Rightarrow> Response \<times> Store" where
  "web_resendInvitation env rt s actorSub wsID inviteID =
     respond 200 (\<lambda>(iv, token). A1 (B_invitation_token iv token))
       (svc_ResendInvitation (env_lo env) (env_sha env) s (rt_id rt) (rt_id2 rt) (rt_id3 rt) (rt_rand rt) (rt_invitations rt)
          actorSub wsID inviteID (rt_now rt) (rt_now2 rt))"

definition web_updateInvitationPolicy :: "Env \<Rightarrow> Runtime \<Rightarrow> Store \<Rightarrow> json option \<Rightarrow> string \<Rightarrow> id \<Rightarrow> id \<Rightarrow> Response \<times> Store" where
  "web_updateInvitationPolicy env rt s body actorSub wsID inviteID =
     (case (str_pointer ''role'' body, int_pointer ''maxUses'' body, int_pointer ''ttlHours'' body, str_pointer ''invitedEmail'' body) of
        ((role, ok1), (maxUses, ok2), (ttl, ok3), (email, ok4)) \<Rightarrow>
          if \<not> (ok1 \<and> ok2 \<and> ok3 \<and> ok4) then (bad_json, s)
          else respond 200 (\<lambda>iv. A1 (B_invitation iv))
            (svc_UpdateInvitationPolicy (env_lo env) s (rt_id rt) (rt_invitations rt) actorSub wsID inviteID role email maxUses ttl
               (rt_now rt)))"

definition web_previewInvitation :: "Env \<Rightarrow> Runtime \<Rightarrow> Store \<Rightarrow> string \<Rightarrow> string \<Rightarrow> Response \<times> Store" where
  "web_previewInvitation env rt s sub token =
     answer (\<lambda>(iv, ws). A1 (B_preview ws iv))
       (svc_PreviewInvitation (env_sha env) (env_tenant env) (rt_invitations rt) s sub (TrimSpace token) (rt_now rt)) s"

definition web_acceptInvitation :: "Env \<Rightarrow> Runtime \<Rightarrow> Store \<Rightarrow> User \<Rightarrow> string \<Rightarrow> Response \<times> Store" where
  "web_acceptInvitation env rt s u token =
     respond 200 (\<lambda>(m, ws). A1 (B_joined m ws))
       (svc_AcceptInvitation (env_lo env) (env_sha env) (env_tenant env) (rt_invitations rt) s (rt_id rt) (us_Sub u) (us_Email u)
          (TrimSpace token) (rt_now rt))"

section \<open>Members of the organisation\<close>

text \<open>\<open>url.PathEscape\<close>.\<close>

definition hex_digit :: "nat \<Rightarrow> char" where
  "hex_digit d = (if d < 10 then char_of (48 + d) else char_of (55 + d))"

definition path_safe :: "char \<Rightarrow> bool" where
  "path_safe c \<longleftrightarrow> is_digit c \<or> 65 \<le> byte c \<and> byte c \<le> 90 \<or> 97 \<le> byte c \<and> byte c \<le> 122 \<or> c \<in> set ''-_.~$&+=:@''"

definition PathEscape :: "string \<Rightarrow> string" where
  "PathEscape s = concat (map (\<lambda>c. if path_safe c then [c] else [CHR ''%'', hex_digit (byte c div 16), hex_digit (byte c mod 16)]) s)"

text \<open>
  The answer of the identity provider: none, or its status and its body. The elements of \<open>members\<close> are
  decoded like the fields of a struct.
\<close>

type_synonym upstream = "string \<Rightarrow> string \<Rightarrow> (int \<times> json option) option"

definition upstream_member :: "(nat \<Rightarrow> nat) \<Rightarrow> json \<Rightarrow> OrgMember \<times> bool" where
  "upstream_member lo j =
     (case (str_field ''userId'' (Some j), str_field ''role'' (Some j), str_field ''email'' (Some j), str_field ''name'' (Some j)) of
        ((sub, ok1), (role, ok2), (email, ok3), (name, ok4)) \<Rightarrow>
          (\<lparr>ov_Sub = TrimSpace sub, ov_Role = TrimSpace role, ov_Email = ToLower lo (TrimSpace email),
            ov_DisplayName = TrimSpace name\<rparr>, ok1 \<and> ok2 \<and> ok3 \<and> ok4))"

fun to_org_members :: "(nat \<Rightarrow> nat) \<Rightarrow> OrgMember list \<Rightarrow> json \<Rightarrow> OrgMember list \<times> bool" where
  "to_org_members lo v (JArr js) = (map (\<lambda>j. fst (upstream_member lo j)) js, list_all (\<lambda>j. snd (upstream_member lo j)) js)"
| "to_org_members lo v JNull = ([], True)"
| "to_org_members lo v _ = (v, False)"

definition web_fetchOrgMembers :: "(nat \<Rightarrow> nat) \<Rightarrow> upstream \<Rightarrow> string \<Rightarrow> string \<Rightarrow> string \<Rightarrow> OrgMember list option" where
  "web_fetchOrgMembers lo get base orgID authz =
     (case get (trim_slashes base @ ''/v1/organizations/'' @ PathEscape orgID @ ''/members'') authz of
        None \<Rightarrow> None
      | Some (status, body) \<Rightarrow>
          (if status \<noteq> 200 then None
           else case field ''members'' (to_org_members lo) [] body of (ms, ok) \<Rightarrow>
             if \<not> ok then None else Some (filter (\<lambda>m. ov_Sub m \<noteq> []) ms)))"

definition web_filterOrgMembers :: "(nat \<Rightarrow> nat) \<Rightarrow> OrgMember list \<Rightarrow> string \<Rightarrow> OrgMember list" where
  "web_filterOrgMembers lo ms q =
     (if q = [] then ms
      else filter (\<lambda>m. Contains (ToLower lo (ov_Sub m)) q \<or> Contains (ToLower lo (ov_Email m)) q \<or>
                       Contains (ToLower lo (ov_DisplayName m)) q) ms)"

text \<open>The members of the workspaces that the user sees, each subject as it is found first.\<close>

fun add_seen :: "OrgMember list \<Rightarrow> Member list \<Rightarrow> OrgMember list" where
  "add_seen seen [] = seen"
| "add_seen seen (m # ms) =
     (if mb_Sub m \<in> ov_Sub ` set seen then add_seen seen ms
      else add_seen (seen @ [\<lparr>ov_Sub = mb_Sub m, ov_Role = mb_Role m, ov_Email = [], ov_DisplayName = TrimSpace (mb_DisplayName m)\<rparr>]) ms)"

fun seen_members :: "Runtime \<Rightarrow> Store \<Rightarrow> string \<Rightarrow> Workspace list \<Rightarrow> OrgMember list \<Rightarrow> OrgMember list" where
  "seen_members rt s sub [] seen = seen"
| "seen_members rt s sub (ws # rest) seen =
     (case svc_ListMembers (rt_members rt (ws_ID ws)) s sub (ws_ID ws) of
        Inl _ \<Rightarrow> seen_members rt s sub rest seen
      | Inr ms \<Rightarrow> seen_members rt s sub rest (add_seen seen ms))"

definition web_orgMembers :: "Env \<Rightarrow> upstream \<Rightarrow> string \<Rightarrow> Runtime \<Rightarrow> Store \<Rightarrow> Request \<Rightarrow> User \<Rightarrow> Response \<times> Store" where
  "web_orgMembers env get oidcBase rt s rq u =
     (let orgID = TrimSpace (us_OrgID u) in
      if orgID = [] then (reply 400 (A1 (B_error ''invalid_request'' ''org required'')), s)
      else let q = ToLower (env_lo env) (TrimSpace (rq_Query rq ''q''));
               authz = TrimSpace (rq_Header rq ''Authorization'');
               base = TrimSpace oidcBase;
               fetched = (if HasPrefix authz ''Bearer '' \<and> base \<noteq> []
                          then web_fetchOrgMembers (env_lo env) get base orgID authz else None)
      in case fetched of
           Some ms \<Rightarrow> (reply 200 (A1 (B_org_members (web_filterOrgMembers (env_lo env) ms q))), s)
         | None \<Rightarrow>
             (let seen = seen_members rt s (us_Sub u) (svc_ListWorkspaces (rt_workspaces rt) s (us_Sub u)) [];
                  out = sort_slice (\<lambda>a b. ov_Sub a < ov_Sub b) seen
              in (reply 200 (A1 (B_org_members (web_filterOrgMembers (env_lo env) out q))), s)))"

end
