(* ===== verification/WebBoards.thy ===== *)
theory WebBoards
  imports WebBase
begin

text \<open>The handlers of \<open>web/server.go\<close> for boards, columns and cards, and those of \<open>web/sprints.go\<close> for sprints.\<close>

section \<open>Boards\<close>

text \<open>The body of this request may be anything; a name that cannot be read is empty.\<close>

definition web_createBoard :: "Runtime \<Rightarrow> Store \<Rightarrow> json option \<Rightarrow> string \<Rightarrow> id \<Rightarrow> Response \<times> Store" where
  "web_createBoard rt s body sub wsID =
     respond 201 (\<lambda>b. A2 (B_board_detail b))
       (svc_CreateBoard s (rt_id rt) (rt_ids rt) sub wsID (TrimSpace (fst (str_field ''name'' body))) (rt_now rt))"

definition web_listBoards :: "Runtime \<Rightarrow> Store \<Rightarrow> string \<Rightarrow> id \<Rightarrow> Response \<times> Store" where
  "web_listBoards rt s sub wsID =
     answer (\<lambda>bs. A2 (B_boards (filter (\<lambda>b. bd_ArchivedAt b = None) bs) (filter (\<lambda>b. bd_ArchivedAt b \<noteq> None) bs)))
       (svc_ListBoards (rt_boards rt) s sub wsID) s"

definition web_getBoard :: "Store \<Rightarrow> string \<Rightarrow> id \<Rightarrow> Response \<times> Store" where
  "web_getBoard s sub boardID = answer (\<lambda>b. A2 (B_board_detail b)) (svc_GetBoard s sub boardID) s"

definition web_archiveBoard :: "Runtime \<Rightarrow> Store \<Rightarrow> string \<Rightarrow> id \<Rightarrow> Response \<times> Store" where
  "web_archiveBoard rt s sub boardID = no_content (svc_ArchiveBoard s sub boardID (rt_now rt))"

definition web_unarchiveBoard :: "Store \<Rightarrow> string \<Rightarrow> id \<Rightarrow> Response \<times> Store" where
  "web_unarchiveBoard s sub boardID = no_content (svc_UnarchiveBoard s sub boardID)"

section \<open>Columns\<close>

definition web_createColumn :: "Runtime \<Rightarrow> Store \<Rightarrow> json option \<Rightarrow> string \<Rightarrow> id \<Rightarrow> Response \<times> Store" where
  "web_createColumn rt s body sub boardID =
     (case str_field ''name'' body of (name, ok) \<Rightarrow>
        if \<not> ok then (bad_json, s)
        else respond 201 (\<lambda>c. A2 (B_column c)) (svc_CreateColumn s (rt_id rt) sub boardID name (rt_now rt)))"

definition web_renameColumn :: "Store \<Rightarrow> json option \<Rightarrow> string \<Rightarrow> id \<Rightarrow> Response \<times> Store" where
  "web_renameColumn s body sub columnID =
     (case str_field ''name'' body of (name, ok) \<Rightarrow>
        if \<not> ok then (bad_json, s)
        else respond 200 (\<lambda>c. A2 (B_column c)) (svc_RenameColumn s sub columnID name))"

definition web_deleteColumn :: "Store \<Rightarrow> string \<Rightarrow> id \<Rightarrow> Response \<times> Store" where
  "web_deleteColumn s sub columnID = no_content (svc_DeleteColumn s sub columnID)"

definition web_reorderColumns :: "Store \<Rightarrow> json option \<Rightarrow> string \<Rightarrow> id \<Rightarrow> Response \<times> Store" where
  "web_reorderColumns s body sub boardID =
     (case strs_field ''columnIds'' body of (ids, ok) \<Rightarrow>
        if \<not> ok then (bad_json, s) else no_content (svc_ReorderColumns s sub boardID ids))"

section \<open>Cards\<close>

definition web_createCard :: "Runtime \<Rightarrow> Store \<Rightarrow> json option \<Rightarrow> string \<Rightarrow> id \<Rightarrow> Response \<times> Store" where
  "web_createCard rt s body sub columnID =
     (case (str_field ''title'' body, str_field ''description'' body) of ((title, ok1), (description, ok2)) \<Rightarrow>
        if \<not> (ok1 \<and> ok2) then (bad_json, s)
        else respond 201 (\<lambda>c. A2 (B_card c))
          (svc_CreateCard s (rt_id rt) sub columnID (TrimSpace title) description (rt_now rt)))"

definition web_getCard :: "Store \<Rightarrow> string \<Rightarrow> id \<Rightarrow> Response \<times> Store" where
  "web_getCard s sub cardID = answer (\<lambda>c. A2 (B_card c)) (svc_GetCard s sub cardID) s"

definition web_updateCard :: "Runtime \<Rightarrow> Store \<Rightarrow> json option \<Rightarrow> string \<Rightarrow> id \<Rightarrow> Response \<times> Store" where
  "web_updateCard rt s body sub cardID =
     (case (str_field ''title'' body, str_field ''description'' body, int_field ''version'' body, str_pointer ''sprintId'' body) of
        ((title, ok1), (description, ok2), (version, ok3), (sprint, ok4)) \<Rightarrow>
          if \<not> (ok1 \<and> ok2 \<and> ok3 \<and> ok4) then (bad_json, s)
          else respond_locked (\<lambda>c. A1 (B_conflict_card c)) (\<lambda>c. A2 (B_card c))
            (svc_UpdateCard s sub cardID (TrimSpace title) description (map_option TrimSpace sprint) version (rt_now rt)))"

definition web_moveCard :: "Runtime \<Rightarrow> Store \<Rightarrow> json option \<Rightarrow> string \<Rightarrow> id \<Rightarrow> Response \<times> Store" where
  "web_moveCard rt s body sub cardID =
     (case (str_field ''columnId'' body, int_field ''position'' body, int_field ''version'' body) of
        ((columnID, ok1), (position, ok2), (version, ok3)) \<Rightarrow>
          if \<not> (ok1 \<and> ok2 \<and> ok3) then (bad_json, s)
          else respond_locked (\<lambda>c. A1 (B_conflict_card c)) (\<lambda>c. A2 (B_card c))
            (svc_MoveCard s sub cardID columnID position version (rt_now rt)))"

section \<open>Sprints\<close>

definition web_createSprint :: "Runtime \<Rightarrow> Store \<Rightarrow> json option \<Rightarrow> string \<Rightarrow> id \<Rightarrow> Response \<times> Store" where
  "web_createSprint rt s body sub boardID =
     (case (str_field ''name'' body, str_field ''startAt'' body, str_field ''endAt'' body) of
        ((name, ok1), (startAt, ok2), (endAt, ok3)) \<Rightarrow>
          if \<not> (ok1 \<and> ok2 \<and> ok3) then (bad_json, s)
          else (case (parseTimeRFC3339 startAt, parseTimeRFC3339 endAt) of
                  (Inr t, Inr t') \<Rightarrow>
                    respond 201 (\<lambda>sp. A2 (B_sprint sp)) (svc_CreateSprint s (rt_id rt) sub boardID name t t' (rt_now rt))
                | _ \<Rightarrow> (writeErr ErrInvalid, s)))"

definition web_listSprints :: "Runtime \<Rightarrow> Store \<Rightarrow> string \<Rightarrow> id \<Rightarrow> Response \<times> Store" where
  "web_listSprints rt s sub boardID =
     answer (\<lambda>sps. A2 (B_sprints sps)) (svc_ListSprints (rt_sprints rt) s sub boardID) s"

definition web_getSprint :: "Store \<Rightarrow> string \<Rightarrow> id \<Rightarrow> Response \<times> Store" where
  "web_getSprint s sub sprintID = answer (\<lambda>sp. A2 (B_sprint sp)) (svc_GetSprint s sub sprintID) s"

text \<open>A time that may be missing: missing is no error, unreadable is.\<close>

definition optional_time :: "string option \<Rightarrow> time option result" where
  "optional_time raw =
     (case raw of None \<Rightarrow> Inr None | Some r \<Rightarrow> read_ok (parseTimeRFC3339 r) (\<lambda>t. Inr (Some t)))"

definition web_updateSprint :: "Runtime \<Rightarrow> Store \<Rightarrow> json option \<Rightarrow> string \<Rightarrow> id \<Rightarrow> Response \<times> Store" where
  "web_updateSprint rt s body sub sprintID =
     (case (str_field ''name'' body, str_pointer ''startAt'' body, str_pointer ''endAt'' body) of
        ((name, ok1), (startAt, ok2), (endAt, ok3)) \<Rightarrow>
          if \<not> (ok1 \<and> ok2 \<and> ok3) then (bad_json, s)
          else (case (optional_time startAt, optional_time endAt) of
                  (Inr t, Inr t') \<Rightarrow>
                    respond 200 (\<lambda>sp. A2 (B_sprint sp)) (svc_UpdateSprint s sub sprintID name t t' (rt_now rt))
                | _ \<Rightarrow> (writeErr ErrInvalid, s)))"

definition web_deleteSprint :: "Store \<Rightarrow> string \<Rightarrow> id \<Rightarrow> Response \<times> Store" where
  "web_deleteSprint s sub sprintID = no_content (svc_DeleteSprint s sub sprintID)"

definition web_sprintBurndown :: "Runtime \<Rightarrow> Store \<Rightarrow> string \<Rightarrow> id \<Rightarrow> Response \<times> Store" where
  "web_sprintBurndown rt s sub sprintID =
     answer (\<lambda>bd. A2 (B_burndown bd)) (svc_SprintBurndown (rt_cards rt) s sub sprintID) s"

end
