(* ===== verification/WebPages.thy ===== *)
theory WebPages
  imports WebBase
begin

text \<open>The handlers for pages and their versions, for documents, and for tickets to collaboration rooms.\<close>

section \<open>Pages\<close>

definition web_createPage :: "Runtime \<Rightarrow> Store \<Rightarrow> json option \<Rightarrow> string \<Rightarrow> id \<Rightarrow> Response \<times> Store" where
  "web_createPage rt s body sub wsID =
     (case (str_field ''title'' body, str_field ''body'' body, str_field ''parentId'' body, str_field ''status'' body) of
        ((title, ok1), (content, ok2), (parentID, ok3), (status, ok4)) \<Rightarrow>
          if \<not> (ok1 \<and> ok2 \<and> ok3 \<and> ok4) then (bad_json, s)
          else respond 201 (\<lambda>p. A2 (B_page p))
            (svc_CreatePage s (rt_id rt) (rt_id2 rt) (rt_pages rt) sub wsID (TrimSpace parentID) (TrimSpace title) content status
               (rt_now rt) (rt_now2 rt)))"

definition web_pageTree :: "Runtime \<Rightarrow> Store \<Rightarrow> string \<Rightarrow> id \<Rightarrow> Response \<times> Store" where
  "web_pageTree rt s sub wsID =
     answer (\<lambda>(tree, archived). A2 (B_page_tree tree archived))
       (read_ok (svc_PageTree (rt_pages rt) s sub wsID) (\<lambda>tree.
        read_ok (svc_ArchivedPages (rt_pages rt) s sub wsID) (\<lambda>archived. Inr (tree, archived)))) s"

definition web_getPage :: "Runtime \<Rightarrow> Store \<Rightarrow> string \<Rightarrow> id \<Rightarrow> Response \<times> Store" where
  "web_getPage rt s sub pageID = answer (\<lambda>p. A2 (B_page p)) (svc_GetPage (rt_pages rt) s sub pageID) s"

definition web_updatePage :: "Runtime \<Rightarrow> Store \<Rightarrow> json option \<Rightarrow> string \<Rightarrow> id \<Rightarrow> Response \<times> Store" where
  "web_updatePage rt s body sub pageID =
     (case (str_pointer ''title'' body, str_pointer ''body'' body, str_pointer ''status'' body, str_pointer ''parentId'' body,
            int_field ''version'' body) of
        ((title, ok1), (content, ok2), (status, ok3), (parentID, ok4), (version, ok5)) \<Rightarrow>
          if \<not> (ok1 \<and> ok2 \<and> ok3 \<and> ok4 \<and> ok5) then (bad_json, s)
          else respond_locked (\<lambda>p. A1 (B_conflict_page p)) (\<lambda>p. A2 (B_page p))
            (svc_UpdatePage s sub pageID title content status parentID version (rt_now rt) (rt_now2 rt)))"

definition web_archivePage :: "Runtime \<Rightarrow> Store \<Rightarrow> string \<Rightarrow> id \<Rightarrow> Response \<times> Store" where
  "web_archivePage rt s sub pageID = no_content (svc_ArchivePage s (rt_pages rt) sub pageID (rt_now rt))"

definition web_unarchivePage :: "Runtime \<Rightarrow> Store \<Rightarrow> string \<Rightarrow> id \<Rightarrow> Response \<times> Store" where
  "web_unarchivePage rt s sub pageID = no_content (svc_UnarchivePage s (rt_pages rt) sub pageID)"

section \<open>Versions\<close>

definition web_listPageVersions :: "Runtime \<Rightarrow> Store \<Rightarrow> string \<Rightarrow> id \<Rightarrow> Response \<times> Store" where
  "web_listPageVersions rt s sub pageID =
     answer (\<lambda>vs. A2 (B_versions vs)) (svc_ListPageVersions (rt_pages rt) s sub pageID) s"

definition web_getPageVersion :: "Runtime \<Rightarrow> Store \<Rightarrow> string \<Rightarrow> id \<Rightarrow> int \<Rightarrow> Response \<times> Store" where
  "web_getPageVersion rt s sub pageID number =
     answer (\<lambda>v. A2 (B_version v)) (svc_GetPageVersion (rt_pages rt) s sub pageID number) s"

definition web_diffPageVersions :: "Runtime \<Rightarrow> Store \<Rightarrow> Request \<Rightarrow> string \<Rightarrow> id \<Rightarrow> Response \<times> Store" where
  "web_diffPageVersions rt s rq sub pageID =
     (case (Atoi (TrimSpace (rq_Query rq ''from'')), Atoi (TrimSpace (rq_Query rq ''to''))) of
        (Some n, Some n') \<Rightarrow> answer (\<lambda>d. A2 (B_diff d)) (svc_DiffPageVersions (rt_pages rt) s sub pageID n n') s
      | _ \<Rightarrow> (reply 400 (A1 (B_error ''invalid_request'' ''from and to required'')), s))"

text \<open>
  A restore that meets another version of the page is an error like the others here: the answer does not
  hold the current page.
\<close>

definition web_restorePageVersion :: "Runtime \<Rightarrow> Store \<Rightarrow> json option \<Rightarrow> string \<Rightarrow> id \<Rightarrow> Response \<times> Store" where
  "web_restorePageVersion rt s body sub pageID =
     (case (int_field ''number'' body, int_field ''version'' body) of ((number, ok1), (version, ok2)) \<Rightarrow>
        if \<not> (ok1 \<and> ok2) then (bad_json, s)
        else respond 200 (\<lambda>p. A2 (B_page p))
          (unlock (svc_RestorePageVersion s sub pageID number version (rt_now rt) (rt_now2 rt))))"

section \<open>Documents\<close>

definition web_createDocument :: "Runtime \<Rightarrow> Store \<Rightarrow> json option \<Rightarrow> string \<Rightarrow> id \<Rightarrow> Response \<times> Store" where
  "web_createDocument rt s body sub wsID =
     (case (str_field ''title'' body, str_field ''body'' body) of ((title, ok1), (content, ok2)) \<Rightarrow>
        if \<not> (ok1 \<and> ok2) then (bad_json, s)
        else respond 201 (\<lambda>d. A3 (B_document d))
          (svc_CreateDocument s (rt_id rt) (rt_id2 rt) sub wsID (TrimSpace title) content (rt_now rt)))"

definition web_listDocuments :: "Runtime \<Rightarrow> Store \<Rightarrow> string \<Rightarrow> id \<Rightarrow> Response \<times> Store" where
  "web_listDocuments rt s sub wsID =
     answer (\<lambda>(docs, trashed). A3 (B_documents docs trashed))
       (read_ok (svc_ListDocuments (rt_documents rt) s sub wsID) (\<lambda>docs.
        read_ok (svc_ListTrashedDocuments (rt_documents rt) s sub wsID) (\<lambda>trashed. Inr (docs, trashed)))) s"

definition web_getDocument :: "Store \<Rightarrow> string \<Rightarrow> id \<Rightarrow> Response \<times> Store" where
  "web_getDocument s sub docID = answer (\<lambda>d. A3 (B_document d)) (svc_GetDocument s sub docID) s"

definition web_updateDocument :: "Runtime \<Rightarrow> Store \<Rightarrow> json option \<Rightarrow> string \<Rightarrow> id \<Rightarrow> Response \<times> Store" where
  "web_updateDocument rt s body sub docID =
     (case str_field ''title'' body of (title, ok) \<Rightarrow>
        if \<not> ok then (bad_json, s)
        else respond 200 (\<lambda>d. A3 (B_document d)) (svc_UpdateDocumentTitle s sub docID title (rt_now rt)))"

definition web_trashDocument :: "Runtime \<Rightarrow> Store \<Rightarrow> string \<Rightarrow> id \<Rightarrow> Response \<times> Store" where
  "web_trashDocument rt s sub docID = no_content (svc_TrashDocument s sub docID (rt_now rt))"

definition web_untrashDocument :: "Store \<Rightarrow> string \<Rightarrow> id \<Rightarrow> Response \<times> Store" where
  "web_untrashDocument s sub docID = no_content (svc_RestoreDocument s sub docID)"

definition web_issueCollabTicket :: "Env \<Rightarrow> Runtime \<Rightarrow> Store \<Rightarrow> json option \<Rightarrow> string \<Rightarrow> Response \<times> Store" where
  "web_issueCollabTicket env rt s body sub =
     (case str_field ''collabDocumentId'' body of (cid, ok) \<Rightarrow>
        if \<not> ok then (bad_json, s)
        else respond 201 (\<lambda>t. A3 (B_collab_ticket t))
          (svc_IssueCollabTicket (env_ulid env) (rt_pages rt) s (rt_id rt) sub (TrimSpace cid) (rt_now rt)))"

end
