(* ===== verification/WebRest.thy ===== *)
theory WebRest
  imports WebBase
begin

text \<open>
  The handlers for channels, messages and chat tickets, for files (\<open>web/files.go\<close>) and the search
  (\<open>web/search.go\<close>), and the entry of the chat socket (\<open>web/chat.go\<close>).
\<close>

section \<open>Chat\<close>

definition web_issueChatTicket :: "Runtime \<Rightarrow> Store \<Rightarrow> json option \<Rightarrow> string \<Rightarrow> Response \<times> Store" where
  "web_issueChatTicket rt s body sub =
     (case str_field ''channelId'' body of (channelID, ok) \<Rightarrow>
        if \<not> ok then (bad_json, s)
        else respond 201 (\<lambda>t. A3 (B_chat_ticket t)) (svc_IssueChatTicket s (rt_id rt) sub (TrimSpace channelID) (rt_now rt)))"

definition web_createChannel :: "Runtime \<Rightarrow> Store \<Rightarrow> json option \<Rightarrow> string \<Rightarrow> id \<Rightarrow> Response \<times> Store" where
  "web_createChannel rt s body sub wsID =
     (case str_field ''name'' body of (name, ok) \<Rightarrow>
        if \<not> ok then (bad_json, s)
        else respond 201 (\<lambda>c. A3 (B_channel c)) (svc_CreateChannel s (rt_id rt) sub wsID (TrimSpace name) (rt_now rt)))"

definition web_listChannels :: "Runtime \<Rightarrow> Store \<Rightarrow> string \<Rightarrow> id \<Rightarrow> Response \<times> Store" where
  "web_listChannels rt s sub wsID = answer (\<lambda>cs. A3 (B_channels cs)) (svc_ListChannels (rt_channels rt) s sub wsID) s"

definition web_markChannelRead :: "Store \<Rightarrow> json option \<Rightarrow> string \<Rightarrow> id \<Rightarrow> Response \<times> Store" where
  "web_markChannelRead s body sub channelID =
     (case int_field ''lastSeq'' body of (lastSeq, ok) \<Rightarrow>
        if \<not> ok then (bad_json, s)
        else respond 200 (\<lambda>v. A3 (B_channel_view v)) (svc_MarkChannelRead s sub channelID lastSeq))"

text \<open>The members that a message may mention are listed in the order for the workspace of the channel.\<close>

definition channel_members :: "Runtime \<Rightarrow> Store \<Rightarrow> id \<Rightarrow> string list" where
  "channel_members rt s k = (case channels s k of None \<Rightarrow> [] | Some ch \<Rightarrow> rt_members rt (ch_WorkspaceID ch))"

definition web_postMessage :: "Runtime \<Rightarrow> Store \<Rightarrow> json option \<Rightarrow> string \<Rightarrow> id \<Rightarrow> Response \<times> Store" where
  "web_postMessage rt s body sub channelID =
     (case (str_field ''body'' body, str_field ''attachmentFileId'' body) of ((content, ok1), (attachment, ok2)) \<Rightarrow>
        if \<not> (ok1 \<and> ok2) then (bad_json, s)
        else respond 201 (\<lambda>m. A3 (B_message m))
          (svc_PostMessage s (channel_members rt s channelID) (rt_id rt) sub channelID content (TrimSpace attachment) (rt_now rt)))"

definition web_listMessages :: "Store \<Rightarrow> Request \<Rightarrow> string \<Rightarrow> id \<Rightarrow> Response \<times> Store" where
  "web_listMessages s rq sub channelID =
     (let q = TrimSpace (rq_Query rq ''afterSeq'') in
      case (if q = [] then Some 0 else Atoi q) of
        None \<Rightarrow> (reply 400 (A1 (B_error ''invalid_request'' ''invalid afterSeq'')), s)
      | Some after \<Rightarrow> answer (\<lambda>ms. A3 (B_messages ms)) (svc_ListMessages s sub channelID after) s)"

text \<open>
  \<open>chatWS\<close> up to the upgrade of the connection: the ticket, then the origin of the page, which must be
  the configured one when there is one. What follows is the life of a connection in \<open>Hub\<close>.
\<close>

definition web_chatWS :: "string \<Rightarrow> Runtime \<Rightarrow> Store \<Rightarrow> Request \<Rightarrow> Response" where
  "web_chatWS corsOrigin rt s rq =
     (case svc_AuthorizeChat s (rq_Query rq ''ticket'') (rq_Query rq ''channelId'') (rt_now rt) of
        Inl e \<Rightarrow> writeErr e
      | Inr t \<Rightarrow>
          (if corsOrigin \<noteq> [] \<and> rq_Header rq ''Origin'' \<noteq> corsOrigin then reply 403 (A1 (B_text ''Forbidden''))
           else reply 101 (A3 (B_upgraded t))))"

section \<open>Files\<close>

definition web_uploadConfig :: "Env \<Rightarrow> Store \<Rightarrow> Response \<times> Store" where
  "web_uploadConfig env s = (reply 200 (A3 (B_upload_config (svc_UploadConfig env))), s)"

text \<open>Here the disk is part of the state; \<open>rt_id2\<close> is the view token.\<close>

definition web_uploadLocal ::
  "Env \<Rightarrow> Runtime \<Rightarrow> Store \<times> disk \<Rightarrow> form \<Rightarrow> string \<Rightarrow> Response \<times> Store \<times> disk" where
  "web_uploadLocal env rt st fm sub =
     (case fm of
        F_tooLarge \<Rightarrow> (writeErr ErrTooLarge, st)
      | F_invalid \<Rightarrow> (writeErr ErrInvalid, st)
      | F_form values file \<Rightarrow>
          (case file of
             None \<Rightarrow> (writeErr ErrInvalid, st)
           | Some (name, contentType, declared, data) \<Rightarrow>
               (case svc_SaveLocalFile env (rt_os rt) (fst st) (snd st) (rt_id rt) (rt_id2 rt) sub (TrimSpace (values ''workspaceId''))
                       (TrimSpace (values ''purpose'')) name contentType declared data (rt_now rt) of
                  (Inl e, st1) \<Rightarrow> (writeErr e, st1)
                | (Inr view, st1) \<Rightarrow> (reply 201 (A3 (B_file view)), st1))))"

definition web_linkRemote :: "Env \<Rightarrow> Runtime \<Rightarrow> Store \<Rightarrow> json option \<Rightarrow> string \<Rightarrow> Response \<times> Store" where
  "web_linkRemote env rt s body sub =
     (case (str_field ''workspaceId'' body, str_field ''purpose'' body, str_field ''fileId'' body, str_field ''name'' body,
            str_field ''contentType'' body, int_field ''size'' body) of
        ((wsID, ok1), (purpose, ok2), (fileID, ok3), (name, ok4), (contentType, ok5), (size', ok6)) \<Rightarrow>
          if \<not> (ok1 \<and> ok2 \<and> ok3 \<and> ok4 \<and> ok5 \<and> ok6) then (bad_json, s)
          else respond 201 (\<lambda>v. A3 (B_file v))
            (svc_LinkRemoteFile env s (rt_id rt) sub (TrimSpace wsID) (TrimSpace purpose) (TrimSpace fileID) name contentType size'
               (rt_now rt)))"

definition web_attachPage :: "Env \<Rightarrow> Runtime \<Rightarrow> Store \<Rightarrow> json option \<Rightarrow> string \<Rightarrow> id \<Rightarrow> Response \<times> Store" where
  "web_attachPage env rt s body sub pageID =
     (case str_field ''fileId'' body of (fileID, ok) \<Rightarrow>
        if \<not> ok then (bad_json, s)
        else respond 201 (\<lambda>v. A3 (B_file v)) (svc_AttachPageFile env (rt_pages rt) s sub pageID (TrimSpace fileID)))"

definition web_listPageAttachments :: "Env \<Rightarrow> Runtime \<Rightarrow> Store \<Rightarrow> string \<Rightarrow> id \<Rightarrow> Response \<times> Store" where
  "web_listPageAttachments env rt s sub pageID =
     answer (\<lambda>fs. A3 (B_files fs)) (svc_ListPageFiles env (rt_pages rt) s sub pageID) s"

definition web_getFileMeta :: "Env \<Rightarrow> Store \<Rightarrow> string \<Rightarrow> id \<Rightarrow> Response \<times> Store" where
  "web_getFileMeta env s sub fileID = answer (\<lambda>v. A3 (B_file v)) (svc_GetFileForMember env s sub fileID) s"

definition web_serveFileContent :: "Env \<Rightarrow> Store \<times> disk \<Rightarrow> Request \<Rightarrow> id \<Rightarrow> Response" where
  "web_serveFileContent env st rq fileID =
     (case serveFileContent (env_tenant env) (fst st) (snd st) fileID (rq_Query rq ''t'') of
        Inl e \<Rightarrow> writeErr e
      | Inr (contentType, data) \<Rightarrow> reply 200 (A3 (B_content contentType data)))"

section \<open>Search\<close>

definition web_search :: "Env \<Rightarrow> Runtime \<Rightarrow> Store \<Rightarrow> Request \<Rightarrow> string \<Rightarrow> id \<Rightarrow> Response \<times> Store" where
  "web_search env rt s rq sub wsID =
     answer (\<lambda>hits. A3 (B_hits hits))
       (svc_Search env (rt_ranges rt) s sub wsID (TrimSpace (rq_Query rq ''q'')) (TrimSpace (rq_Query rq ''types''))) s"

end
