(* ===== verification/Routes.thy ===== *)
theory Routes
  imports Json Segments
begin

text \<open>
  The routing of \<open>web/server.go\<close>: the patterns given to the mux, and the switch of \<open>handleAPI\<close>, whose
  first case that fits the method and the path names the handler and cuts its arguments out of the path.
  A route is the name of the handler with these arguments.
\<close>

datatype Method = GET | POST | PATCH | PUT | DELETE | OPTIONS | OTHER string

section \<open>The switch of handleAPI\<close>

text \<open>\<open>R_nothing\<close>: the one case that returns without writing a response.\<close>

datatype WorkspaceRoute =
    R_createWorkspace | R_listWorkspaces | R_getWorkspace id | R_orgMembers | R_listMembers id
    | R_getMember id string | R_syncMemberDisplayName id | R_addMember id | R_updateMemberRole id string
    | R_removeMember id string | R_leaveWorkspace id | R_listAuditEvents id | R_createInvitation id
    | R_listInvitations id | R_revokeInvitation id id | R_resendInvitation id id
    | R_updateInvitationPolicy id id | R_previewInvitation id | R_acceptInvitation id

datatype BoardRoute =
    R_createBoard id | R_listBoards id | R_getBoard id | R_archiveBoard id | R_unarchiveBoard id
    | R_createColumn id | R_renameColumn id | R_deleteColumn id | R_reorderColumns id | R_createCard id
    | R_getCard id | R_updateCard id | R_moveCard id | R_createSprint id | R_listSprints id | R_getSprint id
    | R_updateSprint id | R_deleteSprint id | R_sprintBurndown id

datatype PageRoute =
    R_createPage id | R_pageTree id | R_getPage id | R_updatePage id | R_archivePage id | R_unarchivePage id
    | R_listPageVersions id | R_getPageVersion id int | R_diffPageVersions id | R_restorePageVersion id

datatype DocRoute =
    R_createDocument id | R_listDocuments id | R_getDocument id | R_updateDocument id | R_trashDocument id
    | R_untrashDocument id | R_issueCollabTicket

datatype ChatRoute =
    R_createChannel id | R_listChannels id | R_postMessage id | R_listMessages id | R_markChannelRead id
    | R_issueChatTicket

datatype FileRoute =
    R_uploadConfig | R_uploadLocal | R_linkRemote | R_attachPage id | R_listPageAttachments id
    | R_getFileMeta id | R_search id

datatype Route =
    W WorkspaceRoute | B BoardRoute | P PageRoute | D DocRoute | C ChatRoute | F FileRoute
  | R_badVersion | R_notFound | R_nothing

definition goes :: "Method \<Rightarrow> string \<Rightarrow> Method \<Rightarrow> string \<Rightarrow> string \<Rightarrow> bool" where
  "goes m p method prefix suffix \<longleftrightarrow> m = method \<and> HasPrefix p prefix \<and> HasSuffix p suffix"

definition route_rest :: "Method \<Rightarrow> string \<Rightarrow> Route" where
  "route_rest m p =
    (if goes m p PUT ''/v1/workspaces/'' ''/members/me'' then
       W (R_syncMemberDisplayName (TrimSuffix (TrimPrefix p ''/v1/workspaces/'') ''/members/me''))
     else if goes m p POST ''/v1/workspaces/'' ''/leave'' then
       W (R_leaveWorkspace (TrimSuffix (TrimPrefix p ''/v1/workspaces/'') ''/leave''))
     else if m = PATCH \<and> HasPrefix p ''/v1/workspaces/'' \<and> Contains (TrimPrefix p ''/v1/workspaces/'') ''/members/'' then
       (let parts = split_on CHR ''/'' (TrimPrefix p ''/v1/workspaces/'') in
          if length parts = 3 \<and> parts ! 1 = ''members'' \<and> parts ! 2 \<noteq> [] \<and> parts ! 2 \<noteq> ''me'' then W (R_updateMemberRole (parts ! 0) (parts ! 2)) else R_notFound)
     else if m = DELETE \<and> HasPrefix p ''/v1/workspaces/'' \<and> Contains (TrimPrefix p ''/v1/workspaces/'') ''/members/'' then
       (let parts = split_on CHR ''/'' (TrimPrefix p ''/v1/workspaces/'') in
          if length parts = 3 \<and> parts ! 1 = ''members'' \<and> parts ! 2 \<noteq> [] \<and> parts ! 2 \<noteq> ''me'' then W (R_removeMember (parts ! 0) (parts ! 2)) else R_notFound)
     else if m = GET \<and> HasPrefix p ''/v1/workspaces/'' \<and> Contains (TrimPrefix p ''/v1/workspaces/'') ''/members/'' then
       (let parts = split_on CHR ''/'' (TrimPrefix p ''/v1/workspaces/'') in
          if length parts = 3 \<and> parts ! 1 = ''members'' \<and> parts ! 2 \<noteq> [] then W (R_getMember (parts ! 0) (parts ! 2)) else R_nothing)
     else if goes m p GET ''/v1/workspaces/'' ''/members'' then
       W (R_listMembers (TrimSuffix (TrimPrefix p ''/v1/workspaces/'') ''/members''))
     else if goes m p GET ''/v1/workspaces/'' ''/audit-events'' then
       W (R_listAuditEvents (TrimSuffix (TrimPrefix p ''/v1/workspaces/'') ''/audit-events''))
     else if m = POST \<and> HasPrefix p ''/v1/workspaces/'' \<and> Contains p ''/invitations/'' \<and> HasSuffix p ''/revoke'' then
       (case Cut (TrimSuffix (TrimPrefix p ''/v1/workspaces/'') ''/revoke'') ''/invitations/'' of (wsID, inviteID, ok) \<Rightarrow>
          if \<not> ok \<or> wsID = [] \<or> inviteID = [] then R_notFound else W (R_revokeInvitation wsID inviteID))
     else if m = POST \<and> HasPrefix p ''/v1/workspaces/'' \<and> Contains p ''/invitations/'' \<and> HasSuffix p ''/resend'' then
       (case Cut (TrimSuffix (TrimPrefix p ''/v1/workspaces/'') ''/resend'') ''/invitations/'' of (wsID, inviteID, ok) \<Rightarrow>
          if \<not> ok \<or> wsID = [] \<or> inviteID = [] then R_notFound else W (R_resendInvitation wsID inviteID))
     else if m = PATCH \<and> HasPrefix p ''/v1/workspaces/'' \<and> Contains p ''/invitations/'' then
       (case Cut (TrimPrefix p ''/v1/workspaces/'') ''/invitations/'' of (wsID, inviteID, ok) \<Rightarrow>
          if \<not> ok \<or> wsID = [] \<or> inviteID = [] \<or> Contains inviteID ''/'' then R_notFound else W (R_updateInvitationPolicy wsID inviteID))
     else if goes m p GET ''/v1/workspaces/'' ''/invitations'' then
       W (R_listInvitations (TrimSuffix (TrimPrefix p ''/v1/workspaces/'') ''/invitations''))
     else if goes m p POST ''/v1/workspaces/'' ''/invitations'' then
       W (R_createInvitation (TrimSuffix (TrimPrefix p ''/v1/workspaces/'') ''/invitations''))
     else if m = GET \<and> HasPrefix p ''/v1/invitations/'' then
       W (R_previewInvitation (TrimPrefix p ''/v1/invitations/''))
     else if goes m p POST ''/v1/invitations/'' ''/accept'' then
       W (R_acceptInvitation (TrimSuffix (TrimPrefix p ''/v1/invitations/'') ''/accept''))
     else if goes m p POST ''/v1/workspaces/'' ''/members'' then
       W (R_addMember (TrimSuffix (TrimPrefix p ''/v1/workspaces/'') ''/members''))
     else if goes m p POST ''/v1/workspaces/'' ''/boards'' then
       B (R_createBoard (TrimSuffix (TrimPrefix p ''/v1/workspaces/'') ''/boards''))
     else if goes m p GET ''/v1/workspaces/'' ''/boards'' then
       B (R_listBoards (TrimSuffix (TrimPrefix p ''/v1/workspaces/'') ''/boards''))
     else if m = GET \<and> HasPrefix p ''/v1/workspaces/'' then
       (let parts = split_on CHR ''/'' (TrimPrefix p ''/v1/workspaces/'') in
          if length parts = 1 \<and> parts ! 0 \<noteq> [] then W (R_getWorkspace (parts ! 0)) else R_notFound)
     else if m = GET \<and> HasPrefix p ''/v1/files/'' then
       (let x = TrimPrefix p ''/v1/files/'' in if x = [] \<or> Contains x ''/'' then R_notFound else F (R_getFileMeta x))
     else if m = GET \<and> HasPrefix p ''/v1/pages/'' then P (R_getPage (TrimPrefix p ''/v1/pages/''))
     else if m = PATCH \<and> HasPrefix p ''/v1/pages/'' then P (R_updatePage (TrimPrefix p ''/v1/pages/''))
     else if m = PATCH \<and> HasPrefix p ''/v1/documents/'' then
       D (R_updateDocument (TrimPrefix p ''/v1/documents/''))
     else if m = GET \<and> HasPrefix p ''/v1/documents/'' then D (R_getDocument (TrimPrefix p ''/v1/documents/''))
     else if m = GET \<and> HasPrefix p ''/v1/boards/'' then B (R_getBoard (TrimPrefix p ''/v1/boards/''))
     else if goes m p POST ''/v1/columns/'' ''/cards'' then
       B (R_createCard (TrimSuffix (TrimPrefix p ''/v1/columns/'') ''/cards''))
     else if m = GET \<and> HasPrefix p ''/v1/cards/'' then B (R_getCard (TrimPrefix p ''/v1/cards/''))
     else if goes m p PATCH ''/v1/cards/'' ''/move'' then
       B (R_moveCard (TrimSuffix (TrimPrefix p ''/v1/cards/'') ''/move''))
     else if m = PATCH \<and> HasPrefix p ''/v1/cards/'' then B (R_updateCard (TrimPrefix p ''/v1/cards/''))
     else R_notFound)"

definition route_middle :: "Method \<Rightarrow> string \<Rightarrow> Route" where
  "route_middle m p =
    (if m = GET \<and> p = ''/v1/uploads/config'' then F R_uploadConfig
     else if m = POST \<and> p = ''/v1/uploads'' then F R_uploadLocal
     else if m = POST \<and> p = ''/v1/uploads/link'' then F R_linkRemote
     else if goes m p POST ''/v1/pages/'' ''/attachments'' then
       F (R_attachPage (TrimSuffix (TrimPrefix p ''/v1/pages/'') ''/attachments''))
     else if goes m p GET ''/v1/pages/'' ''/attachments'' then
       F (R_listPageAttachments (TrimSuffix (TrimPrefix p ''/v1/pages/'') ''/attachments''))
     else if m = POST \<and> p = ''/v1/workspaces'' then W R_createWorkspace
     else if m = GET \<and> p = ''/v1/workspaces'' then W R_listWorkspaces
     else if m = GET \<and> p = ''/v1/org-members'' then W R_orgMembers
     else if m = POST \<and> p = ''/v1/chat-tickets'' then C R_issueChatTicket
     else if goes m p POST ''/v1/workspaces/'' ''/channels'' then
       C (R_createChannel (TrimSuffix (TrimPrefix p ''/v1/workspaces/'') ''/channels''))
     else if goes m p GET ''/v1/workspaces/'' ''/channels'' then
       C (R_listChannels (TrimSuffix (TrimPrefix p ''/v1/workspaces/'') ''/channels''))
     else if goes m p POST ''/v1/channels/'' ''/messages'' then
       C (R_postMessage (TrimSuffix (TrimPrefix p ''/v1/channels/'') ''/messages''))
     else if goes m p GET ''/v1/channels/'' ''/messages'' then
       C (R_listMessages (TrimSuffix (TrimPrefix p ''/v1/channels/'') ''/messages''))
     else if goes m p POST ''/v1/channels/'' ''/read'' then
       C (R_markChannelRead (TrimSuffix (TrimPrefix p ''/v1/channels/'') ''/read''))
     else if m = POST \<and> p = ''/v1/collab-tickets'' then D R_issueCollabTicket
     else if goes m p GET ''/v1/workspaces/'' ''/pages/tree'' then
       P (R_pageTree (TrimSuffix (TrimPrefix p ''/v1/workspaces/'') ''/pages/tree''))
     else if goes m p POST ''/v1/workspaces/'' ''/pages'' then
       P (R_createPage (TrimSuffix (TrimPrefix p ''/v1/workspaces/'') ''/pages''))
     else if goes m p POST ''/v1/workspaces/'' ''/documents'' then
       D (R_createDocument (TrimSuffix (TrimPrefix p ''/v1/workspaces/'') ''/documents''))
     else if goes m p GET ''/v1/workspaces/'' ''/documents'' then
       D (R_listDocuments (TrimSuffix (TrimPrefix p ''/v1/workspaces/'') ''/documents''))
     else route_rest m p)"

definition route :: "Method \<Rightarrow> string \<Rightarrow> Route" where
  "route m p =
    (if goes m p GET ''/v1/workspaces/'' ''/search'' then
       F (R_search (TrimSuffix (TrimPrefix p ''/v1/workspaces/'') ''/search''))
     else if goes m p GET ''/v1/boards/'' ''/sprints'' then
       B (R_listSprints (TrimSuffix (TrimPrefix p ''/v1/boards/'') ''/sprints''))
     else if goes m p POST ''/v1/boards/'' ''/sprints'' then
       B (R_createSprint (TrimSuffix (TrimPrefix p ''/v1/boards/'') ''/sprints''))
     else if goes m p GET ''/v1/sprints/'' ''/burndown'' then
       B (R_sprintBurndown (TrimSuffix (TrimPrefix p ''/v1/sprints/'') ''/burndown''))
     else if m = GET \<and> HasPrefix p ''/v1/sprints/'' then
       (let x = TrimPrefix p ''/v1/sprints/'' in if x = [] \<or> Contains x ''/'' then R_notFound else B (R_getSprint x))
     else if m = PATCH \<and> HasPrefix p ''/v1/sprints/'' then B (R_updateSprint (TrimPrefix p ''/v1/sprints/''))
     else if m = DELETE \<and> HasPrefix p ''/v1/sprints/'' then B (R_deleteSprint (TrimPrefix p ''/v1/sprints/''))
     else if goes m p POST ''/v1/boards/'' ''/archive'' then
       B (R_archiveBoard (TrimSuffix (TrimPrefix p ''/v1/boards/'') ''/archive''))
     else if goes m p POST ''/v1/boards/'' ''/unarchive'' then
       B (R_unarchiveBoard (TrimSuffix (TrimPrefix p ''/v1/boards/'') ''/unarchive''))
     else if goes m p PATCH ''/v1/boards/'' ''/columns/reorder'' then
       B (R_reorderColumns (TrimSuffix (TrimPrefix p ''/v1/boards/'') ''/columns/reorder''))
     else if goes m p POST ''/v1/boards/'' ''/columns'' then
       B (R_createColumn (TrimSuffix (TrimPrefix p ''/v1/boards/'') ''/columns''))
     else if m = PATCH \<and> HasPrefix p ''/v1/columns/'' \<and> \<not> Contains (TrimPrefix p ''/v1/columns/'') ''/'' then
       B (R_renameColumn (TrimPrefix p ''/v1/columns/''))
     else if m = DELETE \<and> HasPrefix p ''/v1/columns/'' \<and> \<not> Contains (TrimPrefix p ''/v1/columns/'') ''/'' then
       B (R_deleteColumn (TrimPrefix p ''/v1/columns/''))
     else if goes m p POST ''/v1/pages/'' ''/archive'' then
       P (R_archivePage (TrimSuffix (TrimPrefix p ''/v1/pages/'') ''/archive''))
     else if goes m p POST ''/v1/pages/'' ''/unarchive'' then
       P (R_unarchivePage (TrimSuffix (TrimPrefix p ''/v1/pages/'') ''/unarchive''))
     else if goes m p POST ''/v1/documents/'' ''/trash'' then
       D (R_trashDocument (TrimSuffix (TrimPrefix p ''/v1/documents/'') ''/trash''))
     else if goes m p POST ''/v1/documents/'' ''/untrash'' then
       D (R_untrashDocument (TrimSuffix (TrimPrefix p ''/v1/documents/'') ''/untrash''))
     else if m = GET \<and> HasPrefix p ''/v1/pages/'' \<and> Contains p ''/versions/'' then
       (case Cut (TrimPrefix p ''/v1/pages/'') ''/versions/'' of (pageID, num, ok) \<Rightarrow>
          if \<not> ok \<or> pageID = [] \<or> num = [] then R_notFound
          else case Atoi num of None \<Rightarrow> R_badVersion | Some n \<Rightarrow> P (R_getPageVersion pageID n))
     else if goes m p GET ''/v1/pages/'' ''/versions'' then
       P (R_listPageVersions (TrimSuffix (TrimPrefix p ''/v1/pages/'') ''/versions''))
     else if goes m p GET ''/v1/pages/'' ''/diff'' then
       P (R_diffPageVersions (TrimSuffix (TrimPrefix p ''/v1/pages/'') ''/diff''))
     else if goes m p POST ''/v1/pages/'' ''/restore'' then
       P (R_restorePageVersion (TrimSuffix (TrimPrefix p ''/v1/pages/'') ''/restore''))
     else route_middle m p)"

section \<open>The mux\<close>

text \<open>
  The patterns of \<open>Routes\<close>, on a path that the mux has already cleaned (it redirects others). A pattern
  with a method answers 405 to another method; \<open>GET\<close> patterns also take \<open>HEAD\<close>.
\<close>

datatype Endpoint = E_options | E_health | E_ready | E_content id | E_chatWS | E_authorize | E_plaintext | E_snapshot
  | E_api Route | E_notAllowed | E_notFound

definition reads :: "Method \<Rightarrow> bool" where
  "reads m \<longleftrightarrow> m = GET \<or> m = OTHER ''HEAD''"

definition for_method :: "bool \<Rightarrow> Endpoint \<Rightarrow> Endpoint" where
  "for_method ok e = (if ok then e else E_notAllowed)"

definition mux :: "Method \<Rightarrow> string \<Rightarrow> Endpoint" where
  "mux m p =
    (if p = ''/health'' then for_method (reads m) E_health
     else if p = ''/ready'' then for_method (reads m) E_ready
     else if HasPrefix p ''/v1/'' then
       (case split_on CHR ''/'' (TrimPrefix p ''/v1/'') of
          [files, fileID, content] \<Rightarrow>
            (if reads m \<and> files = ''files'' \<and> fileID \<noteq> [] \<and> content = ''content'' then E_content fileID else E_api (route m p))
        | _ \<Rightarrow> E_api (route m p))
     else if p = ''/chat/ws'' then for_method (reads m) E_chatWS
     else if p = ''/internal/v1/collab/authorize'' then for_method (m = POST) E_authorize
     else if p = ''/internal/v1/collab/plaintext'' then for_method (m = POST) E_plaintext
     else if p = ''/internal/v1/collab/snapshot'' then for_method (m = POST) E_snapshot
     else E_notFound)"

text \<open>\<open>withCORS\<close> answers every \<open>OPTIONS\<close> request itself.\<close>

definition endpoint :: "Method \<Rightarrow> string \<Rightarrow> Endpoint" where
  "endpoint m p = (if m = OPTIONS then E_options else mux m p)"

end
