(* ===== verification/Config.thy ===== *)
theory Config
  imports Auth
begin

text \<open>
  \<open>config/config.go\<close> and the wiring of \<open>cmd/server/main.go\<close>: the settings of the server from the
  environment, a function from names of variables to values (empty when a variable is not set), and
  what the parts of the server are built with.
\<close>

definition EnvDevelopment :: string where "EnvDevelopment = ''development''"
definition EnvStaging :: string where "EnvStaging = ''staging''"
definition EnvProduction :: string where "EnvProduction = ''production''"

record Config =
  cfg_Env :: string
  cfg_HTTPAddr :: string
  cfg_DatabaseURL :: string
  cfg_DevAuth :: bool
  cfg_RequireOrg :: bool
  cfg_OIDCIssuer :: string
  cfg_OIDCInternalBase :: string
  cfg_OIDCAudience :: string
  cfg_OIDCOrgClaim :: string
  cfg_OIDCOrgsClaim :: string
  cfg_CORSOrigin :: string
  cfg_InternalToken :: string
  cfg_MediaAPIURL :: string
  cfg_PublicURL :: string
  cfg_UploadDir :: string

definition normalizeEnv :: "(nat \<Rightarrow> nat) \<Rightarrow> string \<Rightarrow> string" where
  "normalizeEnv lo v =
     (let e = ToLower lo (TrimSpace v) in
      if e = [] \<or> e = ''dev'' \<or> e = ''development'' \<or> e = ''local'' \<or> e = ''demo'' then EnvDevelopment
      else if e = ''staging'' \<or> e = ''stage'' then EnvStaging
      else if e = ''production'' \<or> e = ''prod'' then EnvProduction
      else e)"

datatype config_error = NoIssuer | DevAuthForbidden string | IssuerRequired string | UnsupportedEnv string

text \<open>The switches for development sign-in and for tenants.\<close>

definition dev_auth :: "(string \<Rightarrow> string) \<Rightarrow> bool" where
  "dev_auth getenv \<longleftrightarrow> EqualFold (getenv ''WORKSPACE_DEV_AUTH'') ''true'' \<or> getenv ''WORKSPACE_DEV_AUTH'' = ''1''"

definition require_org :: "(string \<Rightarrow> string) \<Rightarrow> string \<Rightarrow> bool" where
  "require_org getenv env =
     (let v = TrimSpace (getenv ''WORKSPACE_REQUIRE_ORG'');
          r = (if v \<noteq> [] then EqualFold v ''true'' \<or> v = ''1'' else \<not> dev_auth getenv)
      in if env = EnvStaging \<or> env = EnvProduction then True else r)"

text \<open>The settings as they are read, then the checks.\<close>

definition read_settings :: "(nat \<Rightarrow> nat) \<Rightarrow> (string \<Rightarrow> string) \<Rightarrow> Config" where
  "read_settings lo getenv =
     (let get = (\<lambda>name. TrimSpace (getenv name));
          port = (if get ''WORKSPACE_HTTP_PORT'' = [] then ''8096'' else get ''WORKSPACE_HTTP_PORT'');
          env = normalizeEnv lo (getenv ''WORKSPACE_ENV'');
          cors = get ''WORKSPACE_CORS_ORIGIN''
      in \<lparr>cfg_Env = env, cfg_HTTPAddr = '':'' @ port, cfg_DatabaseURL = get ''WORKSPACE_DATABASE_URL'',
          cfg_DevAuth = dev_auth getenv, cfg_RequireOrg = require_org getenv env,
          cfg_OIDCIssuer = get ''OIDC_ISSUER'', cfg_OIDCInternalBase = get ''OIDC_INTERNAL_BASE'',
          cfg_OIDCAudience = get ''OIDC_AUDIENCE'', cfg_OIDCOrgClaim = get ''OIDC_ORG_CLAIM'',
          cfg_OIDCOrgsClaim = get ''OIDC_ORGS_CLAIM'',
          cfg_CORSOrigin = (if cors = [] then ''http://localhost:3006'' else cors),
          cfg_InternalToken = get ''WORKSPACE_INTERNAL_TOKEN'', cfg_MediaAPIURL = get ''MEDIA_API_URL'',
          cfg_PublicURL = get ''WORKSPACE_PUBLIC_URL'', cfg_UploadDir = get ''WORKSPACE_UPLOAD_DIR''\<rparr>)"

definition is_live :: "Config \<Rightarrow> bool" where
  "is_live cfg \<longleftrightarrow> cfg_Env cfg = EnvStaging \<or> cfg_Env cfg = EnvProduction"

definition check_settings :: "Config \<Rightarrow> config_error + Config" where
  "check_settings cfg =
     (if cfg_OIDCIssuer cfg = [] \<and> \<not> cfg_DevAuth cfg then Inl NoIssuer
      else if is_live cfg \<and> cfg_DevAuth cfg then Inl (DevAuthForbidden (cfg_Env cfg))
      else if is_live cfg \<and> cfg_OIDCIssuer cfg = [] then Inl (IssuerRequired (cfg_Env cfg))
      else if cfg_Env cfg \<noteq> EnvDevelopment \<and> \<not> is_live cfg then Inl (UnsupportedEnv (cfg_Env cfg))
      else Inr cfg)"

definition FromEnv :: "(nat \<Rightarrow> nat) \<Rightarrow> (string \<Rightarrow> string) \<Rightarrow> config_error + Config" where
  "FromEnv lo getenv = check_settings (read_settings lo getenv)"

section \<open>Wiring\<close>

text \<open>The options of the authentication, from the settings.\<close>

definition auth_options :: "Config \<Rightarrow> Options" where
  "auth_options cfg = NewWithOptions \<lparr>op_DevAuth = cfg_DevAuth cfg, op_Issuer = cfg_OIDCIssuer cfg,
     op_InternalBase = cfg_OIDCInternalBase cfg, op_Audience = cfg_OIDCAudience cfg,
     op_Claims = ParseClaimNames (cfg_OIDCOrgClaim cfg) (cfg_OIDCOrgsClaim cfg), op_SkipIssuerCheck = False\<rparr>"

lemma auth_options_simps [simp]:
  "op_DevAuth (auth_options cfg) = cfg_DevAuth cfg" "op_Issuer (auth_options cfg) = cfg_OIDCIssuer cfg"
  "op_SkipIssuerCheck (auth_options cfg) = False" "op_Audience (auth_options cfg) = cfg_OIDCAudience cfg"
  by (simp_all add: auth_options_def NewWithOptions_def Let_def)

text \<open>A server that starts for staging or production has development sign-in off and tenants on.\<close>

lemma check_settings_Inr:
  "check_settings cfg0 = Inr cfg \<longleftrightarrow> cfg = cfg0 \<and> (cfg_DevAuth cfg \<or> cfg_OIDCIssuer cfg \<noteq> []) \<and>
     (is_live cfg \<longrightarrow> \<not> cfg_DevAuth cfg \<and> cfg_OIDCIssuer cfg \<noteq> []) \<and> (is_live cfg \<or> cfg_Env cfg = EnvDevelopment)"
  by (auto simp: check_settings_def)

lemma settings_org: "is_live (read_settings lo getenv) \<Longrightarrow> cfg_RequireOrg (read_settings lo getenv)"
  by (simp add: read_settings_def is_live_def require_org_def Let_def)

lemma FromEnv_live:
  assumes "FromEnv lo getenv = Inr cfg" and "is_live cfg"
  shows "\<not> cfg_DevAuth cfg" and "cfg_RequireOrg cfg" and "cfg_OIDCIssuer cfg \<noteq> []"
  using assms settings_org by (auto simp: FromEnv_def check_settings_Inr)

end
