(* ===== verification/Server.thy ===== *)
theory Server
  imports WebWorkspaces WebBoards WebPages WebRest Routes Config
begin

text \<open>
  The server as one function from requests to responses: \<open>handleAPI\<close> with its dispatch, the internal
  endpoints of the collaboration server, and the handler of \<open>Routes\<close> behind \<open>withCORS\<close> and the
  authentication. Its state is the store, the disk and what the middleware has cached.
\<close>

section \<open>Settings\<close>

record Site =
  si_options :: Options
  si_corsOrigin :: string
  si_internalToken :: string
  si_requireOrg :: bool
  si_num :: "string \<Rightarrow> string"
  si_oidcBase :: string
  si_upstream :: upstream

text \<open>\<open>main\<close>: the site and the file options of the service from the settings.\<close>

definition site_of :: "Config \<Rightarrow> (string \<Rightarrow> string) \<Rightarrow> string \<Rightarrow> upstream \<Rightarrow> Site" where
  "site_of cfg num oidcBase get =
     \<lparr>si_options = auth_options cfg, si_corsOrigin = cfg_CORSOrigin cfg, si_internalToken = cfg_InternalToken cfg,
      si_requireOrg = cfg_RequireOrg cfg, si_num = num, si_oidcBase = oidcBase, si_upstream = get\<rparr>"

definition SetFileOpts :: "string \<Rightarrow> Env \<Rightarrow> string \<Rightarrow> string \<Rightarrow> string \<Rightarrow> Env" where
  "SetFileOpts tempDir env publicURL mediaURL uploadDir =
     (let public' = (if TrimSpace publicURL = [] then ''http://localhost:8096'' else publicURL);
          upload' = (if TrimSpace uploadDir = [] then Join tempDir ''pf-workspace-uploads'' else uploadDir)
      in env\<lparr>env_publicURL := trim_slashes public', env_mediaURL := trim_slashes (TrimSpace mediaURL), env_uploadDir := upload'\<rparr>)"

section \<open>Dispatch\<close>

fun handle_workspace :: "Site \<Rightarrow> Env \<Rightarrow> Runtime \<Rightarrow> Request \<Rightarrow> User \<Rightarrow> WorkspaceRoute \<Rightarrow> Store \<Rightarrow> Response \<times> Store" where
  "handle_workspace si env rt rq u R_createWorkspace s = web_createWorkspace rt s (rq_Body rq) u"
| "handle_workspace si env rt rq u R_listWorkspaces s = web_listWorkspaces rt s (us_Sub u)"
| "handle_workspace si env rt rq u (R_getWorkspace w) s = web_getWorkspace s (us_Sub u) w"
| "handle_workspace si env rt rq u R_orgMembers s = web_orgMembers env (si_upstream si) (si_oidcBase si) rt s rq u"
| "handle_workspace si env rt rq u (R_listMembers w) s = web_listMembers rt s (us_Sub u) w"
| "handle_workspace si env rt rq u (R_getMember w m) s = web_getMember s (us_Sub u) w m"
| "handle_workspace si env rt rq u (R_syncMemberDisplayName w) s = web_syncMemberDisplayName s (rq_Body rq) (us_Sub u) w"
| "handle_workspace si env rt rq u (R_addMember w) s = web_addMember rt s (rq_Body rq) (us_Sub u) w"
| "handle_workspace si env rt rq u (R_updateMemberRole w m) s = web_updateMemberRole rt s (rq_Body rq) (us_Sub u) w m"
| "handle_workspace si env rt rq u (R_removeMember w m) s = web_removeMember rt s (us_Sub u) w m"
| "handle_workspace si env rt rq u (R_leaveWorkspace w) s = web_leaveWorkspace rt s (us_Sub u) w"
| "handle_workspace si env rt rq u (R_listAuditEvents w) s = web_listAuditEvents rt s (us_Sub u) w"
| "handle_workspace si env rt rq u (R_createInvitation w) s = web_createInvitation env rt s (rq_Body rq) u w"
| "handle_workspace si env rt rq u (R_listInvitations w) s = web_listInvitations rt s (us_Sub u) w"
| "handle_workspace si env rt rq u (R_revokeInvitation w i) s = web_revokeInvitation rt s (us_Sub u) w i"
| "handle_workspace si env rt rq u (R_resendInvitation w i) s = web_resendInvitation env rt s (us_Sub u) w i"
| "handle_workspace si env rt rq u (R_updateInvitationPolicy w i) s = web_updateInvitationPolicy env rt s (rq_Body rq) (us_Sub u) w i"
| "handle_workspace si env rt rq u (R_previewInvitation t) s = web_previewInvitation env rt s (us_Sub u) t"
| "handle_workspace si env rt rq u (R_acceptInvitation t) s = web_acceptInvitation env rt s u t"

fun handle_board :: "Runtime \<Rightarrow> Request \<Rightarrow> string \<Rightarrow> BoardRoute \<Rightarrow> Store \<Rightarrow> Response \<times> Store" where
  "handle_board rt rq sub (R_createBoard w) s = web_createBoard rt s (rq_Body rq) sub w"
| "handle_board rt rq sub (R_listBoards w) s = web_listBoards rt s sub w"
| "handle_board rt rq sub (R_getBoard b) s = web_getBoard s sub b"
| "handle_board rt rq sub (R_archiveBoard b) s = web_archiveBoard rt s sub b"
| "handle_board rt rq sub (R_unarchiveBoard b) s = web_unarchiveBoard s sub b"
| "handle_board rt rq sub (R_createColumn b) s = web_createColumn rt s (rq_Body rq) sub b"
| "handle_board rt rq sub (R_renameColumn c) s = web_renameColumn s (rq_Body rq) sub c"
| "handle_board rt rq sub (R_deleteColumn c) s = web_deleteColumn s sub c"
| "handle_board rt rq sub (R_reorderColumns b) s = web_reorderColumns s (rq_Body rq) sub b"
| "handle_board rt rq sub (R_createCard c) s = web_createCard rt s (rq_Body rq) sub c"
| "handle_board rt rq sub (R_getCard k) s = web_getCard s sub k"
| "handle_board rt rq sub (R_updateCard k) s = web_updateCard rt s (rq_Body rq) sub k"
| "handle_board rt rq sub (R_moveCard k) s = web_moveCard rt s (rq_Body rq) sub k"
| "handle_board rt rq sub (R_createSprint b) s = web_createSprint rt s (rq_Body rq) sub b"
| "handle_board rt rq sub (R_listSprints b) s = web_listSprints rt s sub b"
| "handle_board rt rq sub (R_getSprint k) s = web_getSprint s sub k"
| "handle_board rt rq sub (R_updateSprint k) s = web_updateSprint rt s (rq_Body rq) sub k"
| "handle_board rt rq sub (R_deleteSprint k) s = web_deleteSprint s sub k"
| "handle_board rt rq sub (R_sprintBurndown k) s = web_sprintBurndown rt s sub k"

fun handle_page :: "Runtime \<Rightarrow> Request \<Rightarrow> string \<Rightarrow> PageRoute \<Rightarrow> Store \<Rightarrow> Response \<times> Store" where
  "handle_page rt rq sub (R_createPage w) s = web_createPage rt s (rq_Body rq) sub w"
| "handle_page rt rq sub (R_pageTree w) s = web_pageTree rt s sub w"
| "handle_page rt rq sub (R_getPage k) s = web_getPage rt s sub k"
| "handle_page rt rq sub (R_updatePage k) s = web_updatePage rt s (rq_Body rq) sub k"
| "handle_page rt rq sub (R_archivePage k) s = web_archivePage rt s sub k"
| "handle_page rt rq sub (R_unarchivePage k) s = web_unarchivePage rt s sub k"
| "handle_page rt rq sub (R_listPageVersions k) s = web_listPageVersions rt s sub k"
| "handle_page rt rq sub (R_getPageVersion k n) s = web_getPageVersion rt s sub k n"
| "handle_page rt rq sub (R_diffPageVersions k) s = web_diffPageVersions rt s rq sub k"
| "handle_page rt rq sub (R_restorePageVersion k) s = web_restorePageVersion rt s (rq_Body rq) sub k"

fun handle_doc :: "Env \<Rightarrow> Runtime \<Rightarrow> Request \<Rightarrow> string \<Rightarrow> DocRoute \<Rightarrow> Store \<Rightarrow> Response \<times> Store" where
  "handle_doc env rt rq sub (R_createDocument w) s = web_createDocument rt s (rq_Body rq) sub w"
| "handle_doc env rt rq sub (R_listDocuments w) s = web_listDocuments rt s sub w"
| "handle_doc env rt rq sub (R_getDocument k) s = web_getDocument s sub k"
| "handle_doc env rt rq sub (R_updateDocument k) s = web_updateDocument rt s (rq_Body rq) sub k"
| "handle_doc env rt rq sub (R_trashDocument k) s = web_trashDocument rt s sub k"
| "handle_doc env rt rq sub (R_untrashDocument k) s = web_untrashDocument s sub k"
| "handle_doc env rt rq sub R_issueCollabTicket s = web_issueCollabTicket env rt s (rq_Body rq) sub"

fun handle_chat :: "Runtime \<Rightarrow> Request \<Rightarrow> string \<Rightarrow> ChatRoute \<Rightarrow> Store \<Rightarrow> Response \<times> Store" where
  "handle_chat rt rq sub (R_createChannel w) s = web_createChannel rt s (rq_Body rq) sub w"
| "handle_chat rt rq sub (R_listChannels w) s = web_listChannels rt s sub w"
| "handle_chat rt rq sub (R_postMessage c) s = web_postMessage rt s (rq_Body rq) sub c"
| "handle_chat rt rq sub (R_listMessages c) s = web_listMessages s rq sub c"
| "handle_chat rt rq sub (R_markChannelRead c) s = web_markChannelRead s (rq_Body rq) sub c"
| "handle_chat rt rq sub R_issueChatTicket s = web_issueChatTicket rt s (rq_Body rq) sub"

definition on_store :: "disk \<Rightarrow> Response \<times> Store \<Rightarrow> Response \<times> Store \<times> disk" where
  "on_store fs p = (fst p, snd p, fs)"

fun handle_file :: "Env \<Rightarrow> Runtime \<Rightarrow> Request \<Rightarrow> string \<Rightarrow> FileRoute \<Rightarrow> Store \<times> disk \<Rightarrow> Response \<times> Store \<times> disk" where
  "handle_file env rt rq sub R_uploadConfig (s, fs) = on_store fs (web_uploadConfig env s)"
| "handle_file env rt rq sub R_uploadLocal (s, fs) = web_uploadLocal env rt (s, fs) (rq_Form rq) sub"
| "handle_file env rt rq sub R_linkRemote (s, fs) = on_store fs (web_linkRemote env rt s (rq_Body rq) sub)"
| "handle_file env rt rq sub (R_attachPage k) (s, fs) = on_store fs (web_attachPage env rt s (rq_Body rq) sub k)"
| "handle_file env rt rq sub (R_listPageAttachments k) (s, fs) = on_store fs (web_listPageAttachments env rt s sub k)"
| "handle_file env rt rq sub (R_getFileMeta k) (s, fs) = on_store fs (web_getFileMeta env s sub k)"
| "handle_file env rt rq sub (R_search w) (s, fs) = on_store fs (web_search env rt s rq sub w)"

text \<open>One request of a user, on the store scoped to the organisation of the user.\<close>

fun handle_route :: "Site \<Rightarrow> Env \<Rightarrow> Runtime \<Rightarrow> Request \<Rightarrow> User \<Rightarrow> Route \<Rightarrow> Store \<times> disk \<Rightarrow> Response \<times> Store \<times> disk" where
  "handle_route si env rt rq u (W r) (s, fs) = on_store fs (handle_workspace si env rt rq u r s)"
| "handle_route si env rt rq u (B r) (s, fs) = on_store fs (handle_board rt rq (us_Sub u) r s)"
| "handle_route si env rt rq u (P r) (s, fs) = on_store fs (handle_page rt rq (us_Sub u) r s)"
| "handle_route si env rt rq u (D r) (s, fs) = on_store fs (handle_doc env rt rq (us_Sub u) r s)"
| "handle_route si env rt rq u (C r) (s, fs) = on_store fs (handle_chat rt rq (us_Sub u) r s)"
| "handle_route si env rt rq u (F r) (s, fs) = handle_file env rt rq (us_Sub u) r (s, fs)"
| "handle_route si env rt rq u R_badVersion (s, fs) = (reply 400 (A1 (B_error ''invalid_request'' ''invalid version'')), s, fs)"
| "handle_route si env rt rq u R_notFound (s, fs) = (not_found, s, fs)"
| "handle_route si env rt rq u R_nothing (s, fs) = (reply 200 (A1 B_none), s, fs)"

definition org_required :: Response where
  "org_required = reply 403 (A1 (B_error ''org_required'' ''org_id claim or tenant required''))"

definition unauthorized :: Response where
  "unauthorized = reply 401 (A1 (B_text ''unauthorized''))"

definition web_handleAPI ::
  "Site \<Rightarrow> Env \<Rightarrow> Runtime \<Rightarrow> Request \<Rightarrow> User option \<Rightarrow> Route \<Rightarrow> Store \<times> disk \<Rightarrow> Response \<times> Store \<times> disk" where
  "web_handleAPI si env rt rq user r st =
     (case user of
        None \<Rightarrow> (unauthorized, st)
      | Some u \<Rightarrow>
          (if si_requireOrg si \<and> TrimSpace (us_OrgID u) = [] then (org_required, st)
           else case handle_route si env rt rq u r (svc_ForOrg (env_tenant env) (us_OrgID u) (fst st), snd st) of
                  (resp, s', fs') \<Rightarrow> (resp, rejoin (fst st) s', fs')))"

section \<open>The collaboration server\<close>

definition web_requireInternal :: "Site \<Rightarrow> Request \<Rightarrow> bool" where
  "web_requireInternal si rq =
     (if si_internalToken si = [] then False
      else let h = rq_Header rq ''Authorization'';
               got0 = (if HasPrefix h ''Bearer '' then TrimSpace (TrimPrefix h ''Bearer '') else []);
               got = (if got0 = [] then TrimSpace (rq_Header rq ''X-Internal-Token'') else got0)
      in got = si_internalToken si)"

definition internal_unauthorized :: Response where
  "internal_unauthorized = reply 401 (A1 (B_error ''unauthorized'' ''unauthorized''))"

definition web_internalAuthorize :: "Site \<Rightarrow> Env \<Rightarrow> Runtime \<Rightarrow> Request \<Rightarrow> Store \<Rightarrow> Response" where
  "web_internalAuthorize si env rt rq s =
     (if \<not> web_requireInternal si rq then internal_unauthorized
      else case (str_field ''ticket'' (rq_Body rq), str_field ''documentName'' (rq_Body rq)) of ((ticket, ok1), (name, ok2)) \<Rightarrow>
        if \<not> (ok1 \<and> ok2) then bad_json
        else fst (answer (\<lambda>a. A3 (B_collab_auth a))
          (svc_AuthorizeCollab (env_ulid env) (svc_Unscoped (env_tenant env) s) (TrimSpace ticket) (TrimSpace name) (rt_now rt)) s))"

definition web_internalPlaintext :: "Site \<Rightarrow> Env \<Rightarrow> Request \<Rightarrow> Store \<Rightarrow> Response" where
  "web_internalPlaintext si env rq s =
     (if \<not> web_requireInternal si rq then internal_unauthorized
      else case str_field ''collabDocumentId'' (rq_Body rq) of (cid, ok) \<Rightarrow>
        if \<not> ok then bad_json
        else fst (answer (\<lambda>t. A3 (B_plaintext t))
          (svc_CollabPlaintext (env_ulid env) (env_tenant env) (svc_Unscoped (env_tenant env) s) (TrimSpace cid)) s))"

definition web_internalSnapshot :: "Site \<Rightarrow> Env \<Rightarrow> Runtime \<Rightarrow> Request \<Rightarrow> Store \<Rightarrow> Response \<times> Store" where
  "web_internalSnapshot si env rt rq s =
     (if \<not> web_requireInternal si rq then (internal_unauthorized, s)
      else case (str_field ''collabDocumentId'' (rq_Body rq), str_field ''plaintext'' (rq_Body rq), str_field ''editorSub'' (rq_Body rq)) of
        ((cid, ok1), (plain, ok2), (editor, ok3)) \<Rightarrow>
          if \<not> (ok1 \<and> ok2 \<and> ok3) then (bad_json, s)
          else case respond 200 (\<lambda>_. A1 B_ok)
                 (svc_ApplyCollabSnapshot (env_ulid env) (env_tenant env) (svc_Unscoped (env_tenant env) s) (TrimSpace cid) plain
                    (TrimSpace editor) (rt_now rt) (rt_now2 rt)) of
                 (resp, s') \<Rightarrow> (resp, rejoin s s'))"

section \<open>All requests\<close>

text \<open>The memory store is always ready (\<open>Ping\<close> answers nil).\<close>

definition serve ::
  "Site \<Rightarrow> Env \<Rightarrow> 'k Provider \<Rightarrow> Runtime \<Rightarrow> Method \<Rightarrow> string \<Rightarrow> Request \<Rightarrow> Store \<times> disk \<Rightarrow> 'k Middleware
   \<Rightarrow> Response \<times> (Store \<times> disk) \<times> 'k Middleware" where
  "serve si env pv rt m p rq st mw =
     (case endpoint m p of
        E_options \<Rightarrow> (reply 204 (A1 B_none), st, mw)
      | E_health \<Rightarrow> (reply 200 (A1 B_ok), st, mw)
      | E_ready \<Rightarrow> (reply 200 (A1 B_ok), st, mw)
      | E_content fileID \<Rightarrow> (web_serveFileContent env st rq fileID, st, mw)
      | E_chatWS \<Rightarrow> (web_chatWS (si_corsOrigin si) rt (fst st) rq, st, mw)
      | E_authorize \<Rightarrow> (web_internalAuthorize si env rt rq (fst st), st, mw)
      | E_plaintext \<Rightarrow> (web_internalPlaintext si env rq (fst st), st, mw)
      | E_snapshot \<Rightarrow> (case web_internalSnapshot si env rt rq (fst st) of (resp, s') \<Rightarrow> (resp, (s', snd st), mw))
      | E_api r \<Rightarrow>
          (case authenticate (env_lo env) (si_num si) pv (si_options si) (rt_now rt) (rq_Header rq) mw of (user, mw') \<Rightarrow>
             case web_handleAPI si env rt rq user r st of (resp, st') \<Rightarrow> (resp, st', mw'))
      | E_notAllowed \<Rightarrow> (reply 405 (A1 (B_text ''Method Not Allowed'')), st, mw)
      | E_notFound \<Rightarrow> (not_found, st, mw))"

end
