(* ===== verification/Frames.thy ===== *)
theory Frames
  imports Boards Collab Chat Files Membership
begin

text \<open>
  Which maps of the store a component writes: for each component the store with its own maps erased,
  which no request of the component changes. So the invariants of the other components are kept.
\<close>

section \<open>Boards\<close>

definition beyond_boards :: "Store \<Rightarrow> Store" where
  "beyond_boards s = s\<lparr>boards := Map.empty, columns := Map.empty, cards := Map.empty, boardCols := Map.empty,
     columnCards := Map.empty, sprints := Map.empty\<rparr>"

lemma reindex_beyond: "beyond_boards (reindexColumnLocked k s) = beyond_boards s"
  by (simp add: reindexColumnLocked_def beyond_boards_def)

lemma add_columns_beyond: "beyond_boards (fold add_column cols s) = beyond_boards s"
proof (induction cols arbitrary: s)
  case (Cons c cols)
  have "beyond_boards (add_column c s) = beyond_boards s" by (simp add: add_column_def beyond_boards_def)
  with Cons show ?case by simp
qed simp

lemma beyond_boards_upd:
  "beyond_boards (s\<lparr>boards := x\<rparr>) = beyond_boards s" "beyond_boards (s\<lparr>columns := y\<rparr>) = beyond_boards s"
  "beyond_boards (s\<lparr>cards := z\<rparr>) = beyond_boards s" "beyond_boards (s\<lparr>boardCols := u\<rparr>) = beyond_boards s"
  "beyond_boards (s\<lparr>columnCards := u'\<rparr>) = beyond_boards s" "beyond_boards (s\<lparr>sprints := v\<rparr>) = beyond_boards s"
  by (simp_all add: beyond_boards_def)

lemma mem_board_frame:
  "beyond_boards (snd (mem_CreateBoard s bid cids wsID name now)) = beyond_boards s"
  "beyond_boards (snd (mem_ArchiveBoard s b now)) = beyond_boards s"
  "beyond_boards (snd (mem_UnarchiveBoard s b)) = beyond_boards s"
  "beyond_boards (snd (mem_CreateColumn s nid b name now)) = beyond_boards s"
  "beyond_boards (snd (mem_RenameColumn s c name)) = beyond_boards s"
  "beyond_boards (snd (mem_DeleteColumn s c)) = beyond_boards s"
  "beyond_boards (snd (mem_ReorderColumns s b ids)) = beyond_boards s"
  "beyond_boards (snd (mem_CreateCard s nid c title d now)) = beyond_boards s"
  "beyond_boards (snd (mem_UpdateCard s k title d sp v now)) = beyond_boards s"
  "beyond_boards (snd (mem_MoveCard s k c p v now)) = beyond_boards s"
  "beyond_boards (snd (mem_CreateSprint s nid b name t u now)) = beyond_boards s"
  "beyond_boards (snd (mem_UpdateSprint s k name t' u' now)) = beyond_boards s"
  "beyond_boards (snd (mem_DeleteSprint s k)) = beyond_boards s"
  by (auto simp: op_defs mem_CreateBoard_def mem_DeleteColumn_def mem_ReorderColumns_def mem_CreateCard_def mem_UpdateCard_def
      mem_MoveCard_def Let_def beyond_boards_upd reindex_beyond add_columns_beyond split: option.splits)

lemmas boards_ok_frame = ok_inv [where P = "\<lambda>u. beyond_boards u = beyond_boards s" for s]
  guard_zero_inv [where P = "\<lambda>u. beyond_boards u = beyond_boards s" for s]

lemma exec_board_frame: "beyond_boards (snd (exec_board r s)) = beyond_boards s"
  by (cases r) (auto simp: svc_board_defs Let_def mem_board_frame intro!: boards_ok_frame split: prod.splits)

lemma exec_board_keeps:
  "membership_part (snd (exec_board r s)) = membership_part s" "page_part (snd (exec_board r s)) = page_part s"
  "collab_part (snd (exec_board r s)) = collab_part s" "chat_part (snd (exec_board r s)) = chat_part s"
  "file_part (snd (exec_board r s)) = file_part s" "invitations (snd (exec_board r s)) = invitations s"
  "audits (snd (exec_board r s)) = audits s"
proof -
  have part: "f (snd (exec_board r s)) = f s" if "\<And>u. f (beyond_boards u) = f u" for f :: "Store \<Rightarrow> 'x"
    using that exec_board_frame [of r s] by metis
  show "membership_part (snd (exec_board r s)) = membership_part s" "page_part (snd (exec_board r s)) = page_part s"
    "collab_part (snd (exec_board r s)) = collab_part s" "chat_part (snd (exec_board r s)) = chat_part s"
    "file_part (snd (exec_board r s)) = file_part s" "invitations (snd (exec_board r s)) = invitations s"
    "audits (snd (exec_board r s)) = audits s"
    by (rule part; simp add: parts beyond_boards_def)+
qed

section \<open>Pages\<close>

definition beyond_pages :: "Store \<Rightarrow> Store" where
  "beyond_pages s = s\<lparr>pages := Map.empty, pageVersions := Map.empty, collabIndex := Map.empty\<rparr>"

lemma mem_page_frame:
  "beyond_pages (snd (mem_CreatePage s nid cid ks wsID par title body st now)) = beyond_pages s"
  "beyond_pages (snd (mem_UpdatePage s k title' body' st' par' v now)) = beyond_pages s"
  "beyond_pages (snd (mem_ArchivePage s ks k now)) = beyond_pages s"
  "beyond_pages (snd (mem_UnarchivePage s ks k)) = beyond_pages s"
  "beyond_pages (snd (mem_AppendPageVersionIfChanged s k title body st ed now)) = beyond_pages s"
  by (auto simp: mem_CreatePage_def mem_UpdatePage_def mem_ArchivePage_def mem_UnarchivePage_def
      mem_AppendPageVersionIfChanged_def Let_def beyond_pages_def guard_ok_def guard_zero_def split: option.splits sum.splits)


lemma svc_UpdatePage_frame: "beyond_pages (snd (svc_UpdatePage s sub k title body st par v now now2)) = beyond_pages s"
  by (auto simp: svc_UpdatePage_def mem_page_frame Let_def intro!: guard_zero_inv [where P = "\<lambda>u. beyond_pages u = beyond_pages s"]
      split: sum.split)

lemma exec_page_frame: "beyond_pages (snd (exec_page r s)) = beyond_pages s"
proof (cases r)
  case (CreatePage nid cid ks sub wsID par title body st now now2)
  then show ?thesis
    by (auto simp: svc_CreatePage_def mem_page_frame Let_def intro!: ok_inv [where P = "\<lambda>u. beyond_pages u = beyond_pages s"])
next
  case (RestorePageVersion sub k n v now now2)
  then show ?thesis
    by (auto simp: svc_RestorePageVersion_def svc_UpdatePage_frame Let_def
        intro!: ok_inv [where P = "\<lambda>u. beyond_pages u = beyond_pages s"])
qed (auto simp: svc_UpdatePage_frame svc_ArchivePage_def svc_UnarchivePage_def mem_page_frame
    intro!: ok_inv [where P = "\<lambda>u. beyond_pages u = beyond_pages s"])

lemma exec_page_keeps:
  "membership_part (snd (exec_page r s)) = membership_part s" "board_part (snd (exec_page r s)) = board_part s"
  "chat_part (snd (exec_page r s)) = chat_part s" "file_part (snd (exec_page r s)) = file_part s"
  "invitations (snd (exec_page r s)) = invitations s"
proof -
  have part: "f (snd (exec_page r s)) = f s" if "\<And>u. f (beyond_pages u) = f u" for f :: "Store \<Rightarrow> 'x"
    using that exec_page_frame [of r s] by metis
  show "membership_part (snd (exec_page r s)) = membership_part s" "board_part (snd (exec_page r s)) = board_part s"
    "chat_part (snd (exec_page r s)) = chat_part s" "file_part (snd (exec_page r s)) = file_part s"
    "invitations (snd (exec_page r s)) = invitations s"
    by (rule part; simp add: parts beyond_pages_def)+
qed

section \<open>Documents and rooms\<close>

definition beyond_collab :: "Store \<Rightarrow> Store" where
  "beyond_collab s = s\<lparr>pages := Map.empty, pageVersions := Map.empty, documents := Map.empty, collabIndex := Map.empty,
     tickets := Map.empty\<rparr>"

lemma mem_collab_frame:
  "beyond_collab (snd (mem_CreateDocument s nid cid wsID title body now)) = beyond_collab s"
  "beyond_collab (snd (mem_UpdateDocumentTitle s k title now)) = beyond_collab s"
  "beyond_collab (snd (mem_TrashDocument s k now)) = beyond_collab s"
  "beyond_collab (snd (mem_RestoreDocument s k)) = beyond_collab s"
  "beyond_collab (snd (mem_CreateTicket s nid sub cid ro now)) = beyond_collab s"
  "beyond_collab (snd (mem_ApplyCollabSnapshot s cid plain ed now)) = beyond_collab s"
  "beyond_collab (snd (mem_AppendPageVersionIfChanged s k title body st ed now)) = beyond_collab s"
  by (auto simp: mem_docs_defs mem_AppendPageVersionIfChanged_def Let_def beyond_collab_def split: option.splits)

lemma beyond_collab_scope: "beyond_collab (rejoin s u) = beyond_collab s" if "beyond_collab u = beyond_collab (svc_Unscoped c s)"
proof -
  have "beyond_collab (rejoin s u) = rejoin s (beyond_collab u)" by (simp add: beyond_collab_def rejoin_def)
  also have "\<dots> = rejoin s (beyond_collab (svc_Unscoped c s))" by (simp only: that)
  also have "\<dots> = beyond_collab s" by (simp add: beyond_collab_def scope_defs)
  finally show ?thesis .
qed

lemma svc_ApplyCollabSnapshot_frame:
  "beyond_collab (snd (svc_ApplyCollabSnapshot ulid tenant s cid plain ed now now2)) = beyond_collab s"
  by (auto simp: svc_ApplyCollabSnapshot_def Let_def mem_collab_frame split_beta
      intro!: beyond_collab_scope [where c = tenant]
        ok_inv [where P = "\<lambda>u. beyond_collab u = beyond_collab (svc_Unscoped tenant s)"])

lemma exec_collab_frame: "beyond_collab (snd (exec_collab env r s)) = beyond_collab s"
  by (cases r)
    (auto simp: svc_CreateDocument_def svc_UpdateDocumentTitle_def svc_TrashDocument_def svc_RestoreDocument_def
      svc_IssueCollabTicket_def svc_ApplyCollabSnapshot_frame mem_collab_frame Let_def split_beta
      intro!: ok_inv [where P = "\<lambda>u. beyond_collab u = beyond_collab s"])

lemma exec_collab_keeps:
  "membership_part (snd (exec_collab env r s)) = membership_part s" "board_part (snd (exec_collab env r s)) = board_part s"
  "chat_part (snd (exec_collab env r s)) = chat_part s" "file_part (snd (exec_collab env r s)) = file_part s"
  "invitations (snd (exec_collab env r s)) = invitations s"
proof -
  have part: "f (snd (exec_collab env r s)) = f s" if "\<And>u. f (beyond_collab u) = f u" for f :: "Store \<Rightarrow> 'x"
    using that exec_collab_frame [of env r s] by metis
  show "membership_part (snd (exec_collab env r s)) = membership_part s" "board_part (snd (exec_collab env r s)) = board_part s"
    "chat_part (snd (exec_collab env r s)) = chat_part s" "file_part (snd (exec_collab env r s)) = file_part s"
    "invitations (snd (exec_collab env r s)) = invitations s"
    by (rule part; simp add: parts beyond_collab_def)+
qed

section \<open>Chat\<close>

definition beyond_chat :: "Store \<Rightarrow> Store" where
  "beyond_chat s = s\<lparr>channels := Map.empty, messages := Map.empty, chatReads := Map.empty, chatTickets := Map.empty\<rparr>"

lemma mem_chat_frame:
  "beyond_chat (snd (mem_CreateChannel s nid wsID name now)) = beyond_chat s"
  "beyond_chat (snd (mem_AppendMessage s nid k sub body ms att now)) = beyond_chat s"
  "beyond_chat (snd (mem_UpsertChannelRead s k sub n)) = beyond_chat s"
  "beyond_chat (snd (mem_CreateChatTicket s nid sub k ro now)) = beyond_chat s"
  by (auto simp: mem_chat_defs Let_def beyond_chat_def split: option.splits)

lemma exec_chat_frame: "beyond_chat (snd (exec_chat r s)) = beyond_chat s"
  by (cases r)
    (auto simp: svc_CreateChannel_def svc_MarkChannelRead_def svc_PostMessage_def svc_IssueChatTicket_def Let_def mem_chat_frame
      split_beta intro!: ok_inv [where P = "\<lambda>u. beyond_chat u = beyond_chat s"])

lemma exec_chat_keeps:
  "membership_part (snd (exec_chat r s)) = membership_part s" "board_part (snd (exec_chat r s)) = board_part s"
  "page_part (snd (exec_chat r s)) = page_part s" "collab_part (snd (exec_chat r s)) = collab_part s"
  "file_part (snd (exec_chat r s)) = file_part s" "invitations (snd (exec_chat r s)) = invitations s"
proof -
  have part: "f (snd (exec_chat r s)) = f s" if "\<And>u. f (beyond_chat u) = f u" for f :: "Store \<Rightarrow> 'x"
    using that exec_chat_frame [of r s] by metis
  show "membership_part (snd (exec_chat r s)) = membership_part s" "board_part (snd (exec_chat r s)) = board_part s"
    "page_part (snd (exec_chat r s)) = page_part s" "collab_part (snd (exec_chat r s)) = collab_part s"
    "file_part (snd (exec_chat r s)) = file_part s" "invitations (snd (exec_chat r s)) = invitations s"
    by (rule part; simp add: parts beyond_chat_def)+
qed

section \<open>Files\<close>

definition beyond_files :: "Store \<Rightarrow> Store" where
  "beyond_files s = s\<lparr>files := Map.empty, pageFiles := Map.empty\<rparr>"

lemma mem_files_frame:
  "beyond_files (snd (mem_SaveFile s f)) = beyond_files s" "beyond_files (snd (mem_AttachPageFile s p k)) = beyond_files s"
  by (auto simp: mem_SaveFile_def mem_AttachPageFile_def beyond_files_def)

lemma exec_file_frame: "beyond_files (fst (snd (exec_file env r (s, fs)))) = beyond_files s"
proof (cases r)
  case (SaveLocalFile os nid token sub wsID purpose name ctype declared data now)
  then show ?thesis
    using SaveLocalFile_cases [of env os s fs nid sub wsID purpose declared data token name ctype now]
    by (auto simp: beyond_files_def split: if_splits)
next
  case (LinkRemoteFile token sub wsID purpose fileID name ctype declared now)
  then show ?thesis
    by (auto simp: split_beta svc_LinkRemoteFile_def Let_def mem_files_frame
        intro!: ok_inv [where P = "\<lambda>u. beyond_files u = beyond_files s"])
next
  case (AttachPageFile ks sub pageID fileID)
  then show ?thesis
    by (auto simp: split_beta svc_AttachPageFile_def mem_files_frame intro!: ok_inv [where P = "\<lambda>u. beyond_files u = beyond_files s"])
qed

lemma exec_file_keeps:
  "membership_part (fst (snd (exec_file env r (s, fs)))) = membership_part s"
  "board_part (fst (snd (exec_file env r (s, fs)))) = board_part s"
  "page_part (fst (snd (exec_file env r (s, fs)))) = page_part s"
  "collab_part (fst (snd (exec_file env r (s, fs)))) = collab_part s"
  "chat_part (fst (snd (exec_file env r (s, fs)))) = chat_part s"
  "invitations (fst (snd (exec_file env r (s, fs)))) = invitations s"
proof -
  have part: "f (fst (snd (exec_file env r (s, fs)))) = f s" if "\<And>u. f (beyond_files u) = f u" for f :: "Store \<Rightarrow> 'x"
    using that exec_file_frame [of env r s fs] by metis
  show "membership_part (fst (snd (exec_file env r (s, fs)))) = membership_part s"
    "board_part (fst (snd (exec_file env r (s, fs)))) = board_part s"
    "page_part (fst (snd (exec_file env r (s, fs)))) = page_part s"
    "collab_part (fst (snd (exec_file env r (s, fs)))) = collab_part s"
    "chat_part (fst (snd (exec_file env r (s, fs)))) = chat_part s"
    "invitations (fst (snd (exec_file env r (s, fs)))) = invitations s"
    by (rule part; simp add: parts beyond_files_def)+
qed

section \<open>Membership\<close>

text \<open>
  Erased besides the maps: the scope of the handle, which \<open>AcceptInvitation\<close> changes on the way. Creating a
  workspace is the one request that also writes the chat: it opens the default channel.
\<close>

definition beyond_members :: "Store \<Rightarrow> Store" where
  "beyond_members s = s\<lparr>orgFilter := [], skipTenant := False, workspaces := Map.empty, members := Map.empty,
     invitations := Map.empty, audits := Map.empty\<rparr>"

lemma beyond_members_scope [simp]:
  "beyond_members (svc_ForOrg c k s) = beyond_members s" "beyond_members (svc_Unscoped c s) = beyond_members s"
  "beyond_members (rejoin s' s) = beyond_members s"
  by (simp_all add: beyond_members_def scope_defs)

lemma mem_members_frame:
  "beyond_members (snd (mem_CreateWorkspace s nid name sub orgID now)) = beyond_members s"
  "beyond_members (snd (mem_AddMember s wsID sub role now)) = beyond_members s"
  "beyond_members (snd (mem_UpdateMemberRole s wsID sub role)) = beyond_members s"
  "beyond_members (snd (mem_RemoveMember s wsID sub)) = beyond_members s"
  "beyond_members (snd (mem_UpdateMemberDisplayName s wsID sub name)) = beyond_members s"
  "beyond_members (snd (mem_CreateInvitation s nid wsID h role em mx ex actor now)) = beyond_members s"
  "beyond_members (snd (mem_UpdateInvitationPolicy s wsID k role em mx ex)) = beyond_members s"
  "beyond_members (snd (mem_RevokeInvitation s wsID k now)) = beyond_members s"
  "beyond_members (snd (mem_AcceptInvitation s k sub now)) = beyond_members s"
  "beyond_members (mem_AddAuditEvent s e) = beyond_members s"
  by (auto simp: op_defs Let_def beyond_members_def split: option.splits)

lemmas members_ok_frame = ok_inv [where P = "\<lambda>u. beyond_members u = beyond_members s" for s]

lemma svc_CreateInvitation_frame:
  "beyond_members (snd (svc_CreateInvitation lo sha s nid aid rand actor wsID role em mx ttl now)) = beyond_members s"
  by (auto simp: svc_CreateInvitation_def mem_members_frame Let_def intro!: members_ok_frame)

lemma svc_accept_scoped_frame: "beyond_members (snd (svc_accept_scoped s aid k sub now)) = beyond_members s"
  by (auto simp: svc_accept_scoped_def Let_def mem_members_frame intro!: members_ok_frame split: sum.splits prod.splits)

definition creates_workspace :: "member_req \<Rightarrow> bool" where
  "creates_workspace r \<longleftrightarrow> (case r of CreateWorkspace nid chid sub name orgID now now2 \<Rightarrow> True | _ \<Rightarrow> False)"

lemma exec_member_frame: "\<not> creates_workspace r \<Longrightarrow> beyond_members (snd (exec_member env r s)) = beyond_members s"
  by (cases r)
    (auto simp: creates_workspace_def svc_SyncMemberDisplayName_def svc_AddMember_def svc_UpdateMemberRole_def
      svc_RemoveMember_def svc_LeaveWorkspace_def svc_RevokeInvitation_def svc_UpdateInvitationPolicy_def svc_ResendInvitation_def
      svc_AcceptInvitation_def svc_CreateInvitation_frame svc_accept_scoped_frame mem_members_frame Let_def
      intro!: members_ok_frame split: sum.split prod.splits)

lemma exec_member_keeps:
  "board_part (snd (exec_member env r s)) = board_part s" "page_part (snd (exec_member env r s)) = page_part s"
  "collab_part (snd (exec_member env r s)) = collab_part s" "file_part (snd (exec_member env r s)) = file_part s"
  "\<not> creates_workspace r \<Longrightarrow> chat_part (snd (exec_member env r s)) = chat_part s"
proof -
  have part: "f (snd (exec_member env r s)) = f s"
    if "\<not> creates_workspace r" "\<And>u. f (beyond_members u) = f u" for f :: "Store \<Rightarrow> 'x"
    using that exec_member_frame [of r env s] by metis
  have new: "board_part (snd (exec_member env r s)) = board_part s \<and> page_part (snd (exec_member env r s)) = page_part s \<and>
      collab_part (snd (exec_member env r s)) = collab_part s \<and> file_part (snd (exec_member env r s)) = file_part s"
    if "creates_workspace r"
    using that by (cases r) (auto simp: creates_workspace_def svc_CreateWorkspace_def mem_CreateWorkspace_def
        mem_CreateChannel_def Let_def parts)
  have old: "board_part (snd (exec_member env r s)) = board_part s \<and> page_part (snd (exec_member env r s)) = page_part s \<and>
      collab_part (snd (exec_member env r s)) = collab_part s \<and> file_part (snd (exec_member env r s)) = file_part s"
    if "\<not> creates_workspace r"
    by (intro conjI; rule part [OF that]; simp add: parts beyond_members_def)
  show "board_part (snd (exec_member env r s)) = board_part s" "page_part (snd (exec_member env r s)) = page_part s"
    "collab_part (snd (exec_member env r s)) = collab_part s" "file_part (snd (exec_member env r s)) = file_part s"
    using new old by blast+
  show "\<not> creates_workspace r \<Longrightarrow> chat_part (snd (exec_member env r s)) = chat_part s"
    by (rule part) (simp_all add: parts beyond_members_def)
qed

text \<open>No request removes a workspace, and none removes a page or changes its workspace.\<close>

lemma exec_member_workspaces:
  assumes "membership_inv s" "invitation_inv s" "runtime_member s r"
  shows "dom (workspaces s) \<subseteq> dom (workspaces (snd (exec_member env r s)))"
proof -
  have "membership_inv (snd (exec_member env r s))" "dom (members s) \<subseteq> dom (members (snd (exec_member env r s)))"
    using exec_member_sound [OF assms, of env] unfolding sound_change_def by blast+
  then show ?thesis using assms(1) by (simp add: membership_inv_def)
qed

lemma exec_member_chat_inv:
  assumes iv: "chat_inv s" and mem: "membership_inv s" "invitation_inv s" and rt: "runtime_member s r"
  shows "chat_inv (snd (exec_member env r s))"
proof (cases "creates_workspace r")
  case True
  then obtain nid chid sub name orgID now now2 where r: "r = CreateWorkspace nid chid sub name orgID now now2"
    by (cases r) (auto simp: creates_workspace_def)
  then have new: "channels s chid = None" using rt by (simp add: fresh_def)
  define s1 where "s1 = snd (mem_CreateWorkspace s nid name sub (TrimSpace orgID) now)"
  have "chat_part s1 = chat_part s" "dom (workspaces s) \<subseteq> dom (workspaces s1)"
    by (auto simp: s1_def mem_CreateWorkspace_def Let_def parts)
  then have iv1: "chat_inv s1" by (rule chat_inv_cong [OF _ _ iv])
  have "channels s1 chid = None" using new by (simp add: s1_def mem_CreateWorkspace_def Let_def)
  then show ?thesis
    using iv iv1 chi_CreateChannel [OF iv1 \<open>channels s1 chid = None\<close>]
    by (simp add: r svc_CreateWorkspace_def ok_snd flip: s1_def split: sum.split)
next
  case False
  show ?thesis
    by (rule chat_inv_cong [OF exec_member_keeps(5) [OF False] exec_member_workspaces [OF mem rt] iv])
qed

definition pages_kept :: "Store \<Rightarrow> Store \<Rightarrow> bool" where
  "pages_kept s t \<longleftrightarrow> dom (pages s) \<subseteq> dom (pages t)"

lemma pages_kept_refl [simp]: "pages_kept s s"
  by (simp add: pages_kept_def)

lemma pages_kept_trans: "pages_kept s t \<Longrightarrow> pages_kept t u \<Longrightarrow> pages_kept s u"
  by (auto simp: pages_kept_def)

lemma mem_pages_kept:
  "pages_kept s (snd (mem_CreatePage s nid cid ks wsID par title body st now))"
  "pages_kept s (snd (mem_UpdatePage s k title' body' st' par' v now))"
  "pages_kept s (snd (mem_ArchivePage s ks k now))"
  "pages_kept s (snd (mem_UnarchivePage s ks k))"
  "pages_kept s (snd (mem_AppendPageVersionIfChanged s k title body st ed now))"
  "pages_kept s (snd (mem_ApplyCollabSnapshot s cid plain ed now))"
  by (auto simp: mem_CreatePage_def mem_UpdatePage_def mem_ArchivePage_def mem_UnarchivePage_def set_archived_eq
      mem_AppendPageVersionIfChanged_def mem_ApplyCollabSnapshot_def Let_def pages_kept_def guard_ok_def guard_zero_def
      split: option.splits sum.splits if_splits)

lemma svc_UpdatePage_pages: "pages_kept s (snd (svc_UpdatePage s sub k title body st par v now now2))"
  by (auto simp: svc_UpdatePage_def Let_def mem_pages_kept intro!: guard_zero_inv [where P = "pages_kept s"]
      intro: pages_kept_trans [OF mem_pages_kept(2) mem_pages_kept(5)] split: sum.split)

lemma exec_page_pages: "pages_kept s (snd (exec_page r s))"
proof (cases r)
  case (CreatePage nid cid ks sub wsID par title body st now now2)
  then show ?thesis
    by (auto simp: svc_CreatePage_def mem_pages_kept Let_def intro!: ok_inv [where P = "pages_kept s"]
        intro: pages_kept_trans [OF mem_pages_kept(1) mem_pages_kept(5)])
next
  case (RestorePageVersion sub k n v now now2)
  then show ?thesis
    by (auto simp: svc_RestorePageVersion_def svc_UpdatePage_pages Let_def intro!: ok_inv [where P = "pages_kept s"])
qed (auto simp: svc_UpdatePage_pages svc_ArchivePage_def svc_UnarchivePage_def mem_pages_kept
    intro!: ok_inv [where P = "pages_kept s"])

lemma exec_collab_pages: "pages_kept s (snd (exec_collab env r s))"
proof (cases r)
  case (ApplyCollabSnapshot cid plain ed now now2)
  have scope: "pages_kept s (rejoin s u) = pages_kept (svc_Unscoped (env_tenant env) s) u" for u
    by (simp add: pages_kept_def rejoin_def)
  have twice: "pages_kept st (snd (mem_AppendPageVersionIfChanged (snd (mem_ApplyCollabSnapshot st cid plain ed now)) k t b x e n))"
    for st k t b x e n by (rule pages_kept_trans [OF mem_pages_kept(6) mem_pages_kept(5)])
  show ?thesis
    by (auto simp: ApplyCollabSnapshot svc_ApplyCollabSnapshot_def Let_def mem_pages_kept twice scope split_beta
        intro!: ok_inv [where P = "pages_kept (svc_Unscoped (env_tenant env) s)"])
next
  case (IssueCollabTicket ks nid sub cid now)
  then show ?thesis
    by (auto simp: svc_IssueCollabTicket_def mem_CreateTicket_def Let_def pages_kept_def guard_ok_def split: sum.splits)
qed (auto simp: svc_CreateDocument_def svc_UpdateDocumentTitle_def svc_TrashDocument_def svc_RestoreDocument_def
    mem_docs_defs Let_def pages_kept_def guard_ok_def split: sum.splits option.splits)

end
