(* ===== verification/BoardProps.thy ===== *)
theory BoardProps
  imports Boards Contracts Membership
begin

text \<open>
  What the board component promises: who may change a board, that a move puts the card where it
  was asked for and nothing else out of order, that a reordering is a permutation, and that no
  update of a card is lost.
\<close>

section \<open>Who may send a request\<close>

text \<open>The workspace a request acts on, and its sender. Every request needs the member role.\<close>

fun board_target :: "board_req \<Rightarrow> Store \<Rightarrow> id result" where
  "board_target (CreateBoard bid cids sub wsID name now) s = Inr wsID"
| "board_target (ArchiveBoard sub b now) s = mem_BoardWorkspaceID s b"
| "board_target (UnarchiveBoard sub b) s = mem_BoardWorkspaceID s b"
| "board_target (CreateColumn nid sub b name now) s = mem_BoardWorkspaceID s b"
| "board_target (RenameColumn sub c name) s = column_workspace s c"
| "board_target (DeleteColumn sub c) s = column_workspace s c"
| "board_target (ReorderColumns sub b ids) s = mem_BoardWorkspaceID s b"
| "board_target (CreateCard nid sub c title d now) s = column_workspace s c"
| "board_target (UpdateCard sub k title d sp v now) s = mem_CardWorkspaceID s k"
| "board_target (MoveCard sub k c p v now) s = mem_CardWorkspaceID s k"
| "board_target (CreateSprint nid sub b name t u now) s = mem_BoardWorkspaceID s b"
| "board_target (UpdateSprint sub k name t u now) s = sprint_workspace s k"
| "board_target (DeleteSprint sub k) s = sprint_workspace s k"

fun board_sender :: "board_req \<Rightarrow> string" where
  "board_sender (CreateBoard bid cids sub wsID name now) = sub"
| "board_sender (ArchiveBoard sub b now) = sub"
| "board_sender (UnarchiveBoard sub b) = sub"
| "board_sender (CreateColumn nid sub b name now) = sub"
| "board_sender (RenameColumn sub c name) = sub"
| "board_sender (DeleteColumn sub c) = sub"
| "board_sender (ReorderColumns sub b ids) = sub"
| "board_sender (CreateCard nid sub c title d now) = sub"
| "board_sender (UpdateCard sub k title d sp v now) = sub"
| "board_sender (MoveCard sub k c p v now) = sub"
| "board_sender (CreateSprint nid sub b name t u now) = sub"
| "board_sender (UpdateSprint sub k name t u now) = sub"
| "board_sender (DeleteSprint sub k) = sub"

text \<open>
  A board request whose sender is neither an owner nor a member of the workspace that the
  board, column, card or sprint belongs to fails and changes nothing, and so does one about a
  board, column, card or sprint that does not exist.
\<close>

theorem board_request_needs_member:
  assumes "\<And>w. board_target r s = Inr w \<Longrightarrow> \<not> has_role s w (board_sender r) RoleMember"
  shows "\<exists>e. exec_board r s = (Inl e, s)"
  using assms
  by (cases r)
    (auto intro!: outcome_fails intro: create_board.unauthorized_fails archive_board.unauthorized_fails
      unarchive_board.unauthorized_fails create_column.unauthorized_fails rename_column.unauthorized_fails
      delete_column.unauthorized_fails reorder_columns.unauthorized_fails create_card.unauthorized_fails
      update_card.unauthorized_fails move_card.unauthorized_fails create_sprint.unauthorized_fails
      update_sprint.unauthorized_fails delete_sprint.unauthorized_fails)

text \<open>A board in the team of the example, with two cards; the guest asks to move one of them.\<close>

definition demo_board :: Store where
  "demo_board =
     (let s1 = snd (mem_CreateBoard demo_team ''b'' [''x'', ''y'', ''z''] ''w'' ''Plan'' 3);
          s2 = snd (mem_CreateCard s1 ''k'' ''x'' ''First'' [] 4)
      in snd (mem_CreateCard s2 ''l'' ''x'' ''Second'' [] 5))"

definition demo_card :: "id \<Rightarrow> string \<Rightarrow> int \<Rightarrow> time \<Rightarrow> Card" where
  "demo_card k title p t = \<lparr>ca_ID = k, ca_ColumnID = ''x'', ca_BoardID = ''b'', ca_Title = title,
     ca_Description = [], ca_Position = p, ca_Version = 1, ca_SprintID = [], ca_CompletedAt = None,
     ca_AssigneeSub = [], ca_Priority = [], ca_DueDate = None, ca_CreatedAt = t, ca_UpdatedAt = t\<rparr>"

definition demo_column :: "id \<Rightarrow> string \<Rightarrow> int \<Rightarrow> Column" where
  "demo_column k name p = \<lparr>co_ID = k, co_BoardID = ''b'', co_Name = name, co_Position = p, co_CreatedAt = 3\<rparr>"

lemma demo_done: "\<not> ColumnIsDone ''To Do''" "\<not> ColumnIsDone ''In Progress''" "ColumnIsDone ''Done''"
  by code_simp+

lemma demo_team_empty: "boards demo_team = Map.empty" "columns demo_team = Map.empty" "cards demo_team = Map.empty"
  "boardCols demo_team = Map.empty" "columnCards demo_team = Map.empty" "sprints demo_team = Map.empty"
  by (simp_all add: demo_team_def op_defs New_def svc_requireRole_def Let_def demo_values)

lemma demo_board_maps:
  "boards demo_board = [''b'' \<mapsto> \<lparr>bd_ID = ''b'', bd_WorkspaceID = ''w'', bd_Name = ''Plan'', bd_CreatedAt = 3, bd_ArchivedAt = None\<rparr>]"
  "columns demo_board = [''x'' \<mapsto> demo_column ''x'' ''To Do'' 0, ''y'' \<mapsto> demo_column ''y'' ''In Progress'' 1,
     ''z'' \<mapsto> demo_column ''z'' ''Done'' 2]"
  "cards demo_board = [''k'' \<mapsto> demo_card ''k'' ''First'' 0 4, ''l'' \<mapsto> demo_card ''l'' ''Second'' 1 5]"
  "boardCols demo_board = [''b'' \<mapsto> [''x'', ''y'', ''z'']]"
  "columnCards demo_board = [''y'' \<mapsto> [], ''z'' \<mapsto> [], ''x'' \<mapsto> [''k'', ''l'']]"
  "sprints demo_board = Map.empty" "members demo_board = members demo_team"
  "workspaces demo_board = workspaces demo_team"
  by (simp_all add: demo_board_def mem_CreateBoard_def mem_CreateCard_def Let_def demo_team_empty
      demo_team_workspaces defaultNames_def new_column_def add_column_def get_list_def demo_done
      demo_card_def demo_column_def)

theorem board_request_needs_member_witness:
  "\<exists>e. exec_board (MoveCard ''gus'' ''k'' ''z'' 0 1 9) demo_board = (Inl e, demo_board)"
  by (rule board_request_needs_member)
    (auto simp: mem_CardWorkspaceID_def demo_board_maps has_role_def demo_team_members demo_card_def split: if_splits)


lemma demo_board_inv: "board_inv demo_board"
proof -
  have dom: "dom (columnCards demo_board) = dom (columns demo_board)" "dom (boardCols demo_board) = dom (boards demo_board)"
    by (auto simp: demo_board_maps)
  have "shelved co_BoardID co_Position (boardCols demo_board) (columns demo_board)"
    by (auto simp: shelved_def demo_board_maps demo_column_def less_Suc_eq nth_Cons split: if_splits nat.splits)
  moreover have "shelved ca_ColumnID ca_Position (columnCards demo_board) (cards demo_board)"
    by (auto simp: shelved_def demo_board_maps demo_card_def less_Suc_eq nth_Cons split: if_splits nat.splits)
  ultimately show ?thesis
    using dom
    by (auto simp: board_inv_def boards_ok_def columns_ok_def cards_ok_def card_wf_def sprints_ok_def column_board_def
        demo_board_maps demo_team_workspaces demo_column_def demo_card_def split: if_splits)
qed

section \<open>Moving a card\<close>

text \<open>The order of a column after card \<open>k\<close> moved to position \<open>p\<close> of the column \<open>target\<close>.\<close>

definition order_after :: "id \<Rightarrow> id \<Rightarrow> int \<Rightarrow> id \<Rightarrow> id list \<Rightarrow> id list" where
  "order_after k target p col ids =
     (let rest = filter (\<lambda>j. j \<noteq> k) ids; i = clamp p (length rest)
      in if col = target then take i rest @ [k] @ drop i rest else rest)"

text \<open>A card with everything but its position.\<close>

definition at_zero :: "Card \<Rightarrow> Card" where
  "at_zero c = c\<lparr>ca_Position := 0\<rparr>"

lemma number_cards_rest:
  "distinct ids \<Longrightarrow> set ids \<subseteq> dom K \<Longrightarrow> map_option at_zero (number_cards ids K j) = map_option at_zero (K j)"
  unfolding number_cards_def at_zero_def by (rule renumber_keeps) auto

lemma moved_order_eq:
  assumes iv: "board_inv s" and c: "cards s k = Some c"
  shows "get_list (moved_order (columnCards s) k (ca_ColumnID c) target p) col =
    order_after k target p col (get_list (columnCards s) col)"
proof -
  have "filter (\<lambda>j. j \<noteq> k) (get_list (columnCards s) q) = get_list (columnCards s) q" if "q \<noteq> ca_ColumnID c" for q
  proof -
    have "k \<notin> set (get_list (columnCards s) q)"
      using shelvedD(2) [OF board_invD(6) [OF iv], of q _ k] c that
      by (auto simp: get_list_def split: option.splits)
    then show ?thesis by (auto simp: filter_id_conv)
  qed
  then show ?thesis
    by (cases "col = ca_ColumnID c"; cases "target = ca_ColumnID c")
      (auto simp: moved_order_def order_after_def Let_def)
qed

text \<open>
  (C15) Moving a card with its current version to a column of its board succeeds. The card leaves
  its old place and comes to the asked position of the target column, clamped to the column's
  length; the other cards of both columns keep their order, every other column is as before, and of
  the other cards nothing changes but positions. The moved card gets the new version, and a
  completion time exactly when the target column is the done column, the old one if it had one.
\<close>

theorem MoveCard_outcome:
  assumes iv: "board_inv s" and c: "cards s k = Some c" and v: "ca_Version c = v"
    and col: "columns s target = Some col" "co_BoardID col = ca_BoardID c"
  shows "\<exists>card t. mem_MoveCard s k target p v now = (Inr card, t) \<and>
    (\<forall>q. get_list (columnCards t) q = order_after k target p q (get_list (columnCards s) q)) \<and>
    (\<forall>j. j \<noteq> k \<longrightarrow> map_option at_zero (cards t j) = map_option at_zero (cards s j)) \<and>
    cards t k = Some card \<and> ca_ColumnID card = target \<and> ca_Title card = ca_Title c \<and> ca_Version card = v + 1 \<and>
    ca_Position card = int (clamp p (length (filter (\<lambda>j. j \<noteq> k) (get_list (columnCards s) target)))) \<and>
    ca_CompletedAt card = (if ColumnIsDone (co_Name col)
      then Some (case ca_CompletedAt c of None \<Rightarrow> now | Some d \<Rightarrow> d) else None)"
proof -
  have id: "co_ID col = target" by (rule column_id [OF iv col(1)])
  have target: "columnCards s target \<noteq> None" using column_cards [OF iv col(1)] by blast
  define CC1 where "CC1 = (columnCards s)(ca_ColumnID c \<mapsto> filter (\<lambda>j. j \<noteq> k) (get_list (columnCards s) (ca_ColumnID c)))"
  define CC2 where "CC2 = moved_order (columnCards s) k (ca_ColumnID c) target p"
  define card where "card = moved_card c col (clamp p (length (get_list CC1 target))) now"
  define K1 where "K1 = number_cards (get_list CC1 (ca_ColumnID c)) (cards s)"
  have "ca_ColumnID card = target" "ca_Position card = int (clamp p (length (get_list CC1 target)))"
    by (simp_all add: card_def moved_card_def id)
  note sh = shelved_move [OF board_invD(6) [OF iv] c target, where v = card and position = p, folded CC1_def CC2_def,
      OF this]
  have eq: "mem_MoveCard s k target p v now =
      (Inr card, s\<lparr>columnCards := CC2, cards := (number_cards (get_list CC2 target) K1)(k \<mapsto> card)\<rparr>)"
    by (simp add: MoveCard_eq [OF c v col(1) id col(2)] Let_def CC1_def CC2_def card_def K1_def)
  have K1: "map_option at_zero (K1 j) = map_option at_zero (cards s j)" for j
    unfolding K1_def by (rule number_cards_rest) (use sh in auto)
  have "map_option at_zero (number_cards (get_list CC2 target) K1 j) = map_option at_zero (K1 j)" for j
  proof (rule number_cards_rest)
    have "j \<in> dom K1 \<longleftrightarrow> j \<in> dom (cards s)" for j
      using K1 [of j] by (cases "K1 j"; cases "cards s j") auto
    then show "set (get_list CC2 target) \<subseteq> dom K1" using sh(3) by blast
  qed (rule sh(2))
  moreover have "length (get_list CC1 target) = length (filter (\<lambda>j. j \<noteq> k) (get_list (columnCards s) target))"
  proof (cases "target = ca_ColumnID c")
    case False
    then have "k \<notin> set (get_list (columnCards s) target)"
      using shelvedD(2) [OF board_invD(6) [OF iv], of target _ k] c by (auto simp: get_list_def split: option.splits)
    then have "filter (\<lambda>j. j \<noteq> k) (get_list (columnCards s) target) = get_list (columnCards s) target"
      by (auto simp: filter_id_conv)
    with False show ?thesis by (simp add: CC1_def)
  qed (simp add: CC1_def)
  moreover have "get_list CC2 q = order_after k target p q (get_list (columnCards s) q)" for q
    using moved_order_eq [OF iv c] by (simp add: CC2_def)
  ultimately show ?thesis
    using v id K1 by (auto simp: eq card_def moved_card_def split: option.split)
qed


theorem MoveCard_outcome_witness:
  "\<exists>t. snd (mem_MoveCard demo_board ''k'' ''z'' 7 1 9) = t \<and> get_list (columnCards t) ''x'' = [''l''] \<and>
     get_list (columnCards t) ''z'' = [''k''] \<and> (\<exists>card. cards t ''k'' = Some card \<and> ca_CompletedAt card = Some 9)"
  using MoveCard_outcome [OF demo_board_inv, where k = "''k''" and target = "''z''" and p = 7 and now = 9 and v = 1,
      of "demo_card ''k'' ''First'' 0 4" "demo_column ''z'' ''Done'' 2"]
  by (auto simp: demo_board_maps demo_card_def demo_column_def demo_done order_after_def clamp_def get_list_def)

section \<open>Reordering columns\<close>

text \<open>
  The columns of a board may be put into any order: a reordering succeeds exactly when it is a
  permutation of the board's columns, and then the board has that order, with each column's
  position its index.
\<close>

theorem ReorderColumns_iff:
  assumes iv: "board_inv s" and b: "boards s b = Some bd"
  shows "(fst (mem_ReorderColumns s b ids) = Inr () \<longleftrightarrow> mset ids = mset (get_list (boardCols s) b)) \<and>
    (mset ids \<noteq> mset (get_list (boardCols s) b) \<longrightarrow> mem_ReorderColumns s b ids = (Inl ErrInvalid, s)) \<and>
    (mset ids = mset (get_list (boardCols s) b) \<longrightarrow>
       get_list (boardCols (snd (mem_ReorderColumns s b ids))) b = ids \<and>
       (\<forall>i < length ids. \<exists>c. columns (snd (mem_ReorderColumns s b ids)) (ids ! i) = Some c \<and> co_Position c = int i))"
proof -
  obtain cur where cur: "boardCols s b = Some cur" using board_cols [OF iv b] by blast
  have d: "distinct cur" by (rule shelf_ids(1) [OF board_invD(5) [OF iv] cur])
  have perm: "mset ids = mset cur \<longleftrightarrow> length cur = length ids \<and> tick_off (set cur) ids = Some {}"
  proof
    assume "mset ids = mset cur"
    then show "length cur = length ids \<and> tick_off (set cur) ids = Some {}"
      using d mset_eq_imp_distinct_iff [of ids cur] mset_eq_setD [of ids cur] mset_eq_length [of ids cur]
      by (simp add: tick_off_Some)
  next
    assume "length cur = length ids \<and> tick_off (set cur) ids = Some {}"
    then show "mset ids = mset cur"
      using d set_eq_iff_mset_eq_distinct [of ids cur] by (auto simp: tick_off_Some)
  qed
  have run: "mem_ReorderColumns s b ids = (if mset ids = mset cur
      then (Inr (), s\<lparr>boardCols := (boardCols s)(b \<mapsto> ids), columns := number_columns ids (columns s)\<rparr>)
      else (Inl ErrInvalid, s))"
    unfolding perm using b cur by (auto simp: mem_ReorderColumns_def get_list_def Let_def split: option.splits)
  have "distinct ids" if "mset ids = mset cur" using d that mset_eq_imp_distinct_iff by blast
  then show ?thesis
    using cur by (auto simp: run get_list_def number_columns_def renumber_nth)
qed

theorem ReorderColumns_iff_witness:
  "fst (mem_ReorderColumns demo_board ''b'' [''z'', ''x'', ''y'']) = Inr () \<and>
   mem_ReorderColumns demo_board ''b'' [''z'', ''z'', ''y''] = (Inl ErrInvalid, demo_board)"
  using ReorderColumns_iff [OF demo_board_inv, of "''b''"]
  by (auto simp: demo_board_maps get_list_def)

section \<open>Deleting a column\<close>

text \<open>
  A column is deleted only when it is empty and not the board's last one: otherwise the request
  is refused and nothing changes; when it succeeds the other columns keep their order and no card is
  touched.
\<close>

theorem DeleteColumn_outcome:
  assumes iv: "board_inv s" and col: "columns s k = Some col"
  shows "mem_DeleteColumn s k =
    (if \<exists>j ca. cards s j = Some ca \<and> ca_ColumnID ca = k then (Inl ErrInvalid, s)
     else if {j. \<exists>c. columns s j = Some c \<and> co_BoardID c = co_BoardID col} = {k} then (Inl ErrForbidden, s)
     else (Inr (), snd (mem_DeleteColumn s k))) \<and>
    cards (snd (mem_DeleteColumn s k)) = cards s \<and>
    (fst (mem_DeleteColumn s k) = Inr () \<longrightarrow>
       columns (snd (mem_DeleteColumn s k)) k = None \<and>
       (\<forall>b. get_list (boardCols (snd (mem_DeleteColumn s k))) b = filter (\<lambda>j. j \<noteq> k) (get_list (boardCols s) b)))"
proof -
  note parts = board_invD [OF iv]
  obtain cs where cs: "columnCards s k = Some cs" using column_cards [OF iv col] by blast
  obtain ids where ids: "boardCols s (co_BoardID col) = Some ids" "k \<in> set ids"
    using shelved_parent [OF parts(5) col] by blast
  have d: "distinct ids" by (rule shelf_ids(1) [OF parts(5) ids(1)])
  have empty: "cs = [] \<longleftrightarrow> \<not> (\<exists>j ca. cards s j = Some ca \<and> ca_ColumnID ca = k)"
    using shelvedD(2) [OF parts(6) cs] by (metis list.set_intros(1) neq_Nil_conv empty_iff empty_set)
  have set_ids: "{j. \<exists>c. columns s j = Some c \<and> co_BoardID c = co_BoardID col} = set ids"
    using shelvedD(2) [OF parts(5) ids(1)] by auto
  have one: "length ids \<le> 1 \<longleftrightarrow> set ids = {k}"
  proof
    assume "length ids \<le> 1"
    with ids(2) show "set ids = {k}" by (cases ids) (auto split: list.splits)
  next
    assume "set ids = {k}"
    then show "length ids \<le> 1" using distinct_card [OF d] by simp
  qed
  have other: "filter (\<lambda>j. j \<noteq> k) (get_list (boardCols s) b) = get_list (boardCols s) b" if "b \<noteq> co_BoardID col" for b
  proof -
    have "k \<notin> set (get_list (boardCols s) b)"
      using shelvedD(2) [OF parts(5), of b _ k] col that by (auto simp: get_list_def split: option.splits)
    then show ?thesis by (auto simp: filter_id_conv)
  qed
  show ?thesis
    unfolding set_ids
    using col cs ids empty one other by (auto simp: mem_DeleteColumn_def get_list_def Let_def)
qed

theorem DeleteColumn_outcome_witness:
  "fst (mem_DeleteColumn demo_board ''x'') = Inl ErrInvalid \<and> fst (mem_DeleteColumn demo_board ''y'') \<noteq> Inl ErrInvalid"
proof -
  have "columns demo_board ''x'' = Some (demo_column ''x'' ''To Do'' 0)"
    "columns demo_board ''y'' = Some (demo_column ''y'' ''In Progress'' 1)"
    by (simp_all add: demo_board_maps)
  note out = this [THEN DeleteColumn_outcome [OF demo_board_inv]]
  have "\<exists>j ca. cards demo_board j = Some ca \<and> ca_ColumnID ca = ''x''"
    by (rule exI [of _ "''k''"]) (simp add: demo_board_maps demo_card_def)
  moreover have "\<not> (\<exists>j ca. cards demo_board j = Some ca \<and> ca_ColumnID ca = ''y'')"
    by (auto simp: demo_board_maps demo_card_def split: if_splits)
  ultimately show ?thesis
    using out by (metis (no_types, lifting) fst_conv sum.inject(1) sum.distinct(1) error.distinct(15))
qed


section \<open>No update of a card is lost\<close>

definition card_version :: "id \<Rightarrow> Store \<Rightarrow> int option" where
  "card_version k s = map_option ca_Version (cards s k)"

interpretation card_update: versioned "card_version k" "\<lambda>v s. mem_UpdateCard s k title d sid v now"
  for k title d sid now
  by unfold_locales
    (auto simp: card_version_def mem_UpdateCard_def Let_def split: option.splits if_splits sum.splits)

interpretation card_move: versioned "card_version k" "\<lambda>v s. mem_MoveCard s k target p v now"
  for k target p now
proof unfold_locales
  show "card_version k t = Some (v + 1)" if "mem_MoveCard s k target p v now = (Inr y, t)" for v s y t
    using that
    by (cases "cards s k"; cases "columns s target")
      (auto simp: card_version_def mem_MoveCard_def Let_def split: if_splits)
  show "t = s" if "mem_MoveCard s k target p v now = (Inl e, t)" for v s e t
    using that
    by (cases "cards s k"; cases "columns s target") (auto simp: mem_MoveCard_def Let_def split: if_splits)
qed (auto simp: card_version_def mem_MoveCard_def)

interpretation update_then_move: versioned_pair "card_version k" "\<lambda>v s. mem_UpdateCard s k title d sid v now"
  "\<lambda>v s. mem_MoveCard s k target p v now2" for k title d sid now target p now2
  by unfold_locales

interpretation move_then_update: versioned_pair "card_version k" "\<lambda>v s. mem_MoveCard s k target p v now2"
  "\<lambda>v s. mem_UpdateCard s k title d sid v now" for k title d sid now target p now2
  by unfold_locales



end
