(* ===== verification/System.thy ===== *)
theory System
  imports Frames BoardProps PageProps
begin

text \<open>
  The service as a whole: the requests of all components, the handler that scopes the store to the
  organisation of the caller and runs one of them, the states that can be reached, and what holds in
  all of them. A request is one step: the Go store takes its lock inside each of its methods, so two
  requests of the service may interleave between two store calls of one of them; that is not modelled
  here (the interleavings of the chat hub are, in \<open>Hub\<close>).
\<close>

section \<open>Requests\<close>

datatype sys_req =
    OnMembers member_req
  | OnBoards board_req
  | OnPages page_req
  | OnDocs collab_req
  | OnChat chat_req
  | OnFiles file_req

fun exec_sys :: "Env \<Rightarrow> sys_req \<Rightarrow> Store \<times> disk \<Rightarrow> unit result \<times> Store \<times> disk" where
  "exec_sys env (OnMembers r) (s, fs) = (case exec_member env r s of (x, s') \<Rightarrow> (x, s', fs))"
| "exec_sys env (OnBoards r) (s, fs) = (case exec_board r s of (x, s') \<Rightarrow> (x, s', fs))"
| "exec_sys env (OnPages r) (s, fs) = (case exec_page r s of (x, s') \<Rightarrow> (x, s', fs))"
| "exec_sys env (OnDocs r) (s, fs) = (case exec_collab env r s of (x, s') \<Rightarrow> (x, s', fs))"
| "exec_sys env (OnChat r) (s, fs) = (case exec_chat r s of (x, s') \<Rightarrow> (x, s', fs))"
| "exec_sys env (OnFiles r) (s, fs) = exec_file env r (s, fs)"

text \<open>The handlers of the server run every request on \<open>svc.ForOrg(org)\<close>.\<close>

definition handle :: "Env \<Rightarrow> string \<Rightarrow> sys_req \<Rightarrow> Store \<times> disk \<Rightarrow> unit result \<times> Store \<times> disk" where
  "handle env org r st =
     (case exec_sys env r (svc_ForOrg (env_tenant env) org (fst st), snd st) of
        (x, s', fs') \<Rightarrow> (x, rejoin (fst st) s', fs'))"

fun runtime_sys :: "Store \<Rightarrow> sys_req \<Rightarrow> bool" where
  "runtime_sys s (OnMembers r) = runtime_member s r"
| "runtime_sys s (OnBoards r) = runtime_board s r"
| "runtime_sys s (OnPages r) = runtime_page s r"
| "runtime_sys s (OnDocs r) = runtime_collab s r"
| "runtime_sys s (OnChat r) = runtime_chat s r"
| "runtime_sys s (OnFiles r) = runtime_file s r"

inductive sys_step :: "Env \<Rightarrow> Store \<times> disk \<Rightarrow> Store \<times> disk \<Rightarrow> bool" for env where
  request: "runtime_sys (fst st) r \<Longrightarrow> sys_step env st (snd (handle env org r st))"

text \<open>The server starts with an empty store, on whatever the upload directory holds.\<close>

inductive reachable :: "Env \<Rightarrow> Store \<times> disk \<Rightarrow> bool" for env where
  start: "reachable env (New, fs)"
| step: "reachable env st \<Longrightarrow> sys_step env st st' \<Longrightarrow> reachable env st'"

inductive_cases sys_stepE: "sys_step env st st'"

section \<open>The scope of a handle is not part of the data\<close>

lemma fresh_scope [simp]: "fresh (svc_ForOrg c k s) j = fresh s j"
  by (simp add: fresh_def scope_defs)

lemma more_scope_maps [simp]: "pages (svc_ForOrg c k s) = pages s" "channels (svc_ForOrg c k s) = channels s"
  by (simp_all add: scope_defs)

lemma runtime_scope [simp]: "runtime_sys (svc_ForOrg c k s) r = runtime_sys s r"
proof (cases r)
  case (OnMembers q) then show ?thesis by (cases q) (simp_all add: orders_members_def)
next
  case (OnBoards q) then show ?thesis by (cases q) simp_all
next
  case (OnPages q) then show ?thesis by (cases q) simp_all
next
  case (OnDocs q) then show ?thesis by (cases q) simp_all
next
  case (OnChat q) then show ?thesis by (cases q) simp_all
next
  case (OnFiles q) then show ?thesis by (cases q) simp_all
qed

section \<open>All invariants together\<close>

definition sys_inv :: "Store \<Rightarrow> disk \<Rightarrow> bool" where
  "sys_inv s fs \<longleftrightarrow> membership_inv s \<and> invitation_inv s \<and> board_inv s \<and> page_inv s \<and> collab_inv s \<and> chat_inv s \<and> file_inv s fs"

definition same_maps :: "Store \<Rightarrow> Store \<Rightarrow> bool" where
  "same_maps s t \<longleftrightarrow> membership_part t = membership_part s \<and> invitations t = invitations s \<and> board_part t = board_part s \<and>
     page_part t = page_part s \<and> collab_part t = collab_part s \<and> chat_part t = chat_part s \<and> file_part t = file_part s"

lemma sys_inv_same:
  assumes same: "same_maps s t" and iv: "sys_inv s fs"
  shows "sys_inv t fs"
proof -
  have eq: "workspaces t = workspaces s" "pages t = pages s" using same by (simp_all add: same_maps_def parts)
  have "membership_inv t" using membership_inv_cong [of s t] same iv by (simp add: same_maps_def sys_inv_def)
  moreover have "invitation_inv t" using same iv by (simp add: same_maps_def sys_inv_def invitation_inv_def parts)
  moreover have "board_inv t" using board_inv_cong [of t s] same iv eq by (simp add: same_maps_def sys_inv_def)
  moreover have "page_inv t" using page_inv_cong [of t s] same iv eq by (simp add: same_maps_def sys_inv_def)
  moreover have "collab_inv t" using collab_inv_cong [of t s] same iv eq by (simp add: same_maps_def sys_inv_def)
  moreover have "chat_inv t" using chat_inv_cong [of t s] same iv eq by (simp add: same_maps_def sys_inv_def)
  moreover have "file_inv t fs" using file_inv_cong [of t s fs] same iv eq by (simp add: same_maps_def sys_inv_def)
  ultimately show ?thesis by (simp add: sys_inv_def)
qed

lemma sys_inv_scope [simp]: "sys_inv (svc_ForOrg c k s) fs = sys_inv s fs" "sys_inv (rejoin s' s) fs = sys_inv s fs"
proof -
  have "same_maps s (svc_ForOrg c k s)" "same_maps (svc_ForOrg c k s) s" "same_maps s (rejoin s' s)" "same_maps (rejoin s' s) s"
    by (simp_all add: same_maps_def parts scope_defs)
  then show "sys_inv (svc_ForOrg c k s) fs = sys_inv s fs" "sys_inv (rejoin s' s) fs = sys_inv s fs"
    using sys_inv_same by blast+
qed

lemma sys_inv_New: "sys_inv New fs"
  by (simp add: sys_inv_def membership_inv_New invitation_inv_New board_inv_New page_inv_New collab_inv_New chat_inv_New file_inv_New)

text \<open>A request of a component keeps its own invariant; those of the others by their congruence rules.\<close>

lemma exec_sys_inv:
  assumes iv: "sys_inv s fs" and rt: "runtime_sys s r"
  shows "case snd (exec_sys env r (s, fs)) of (s', fs') \<Rightarrow> sys_inv s' fs'"
proof -
  have ivs: "membership_inv s" "invitation_inv s" "board_inv s" "page_inv s" "collab_inv s" "chat_inv s" "file_inv s fs"
    using iv by (simp_all add: sys_inv_def)
  have same_ws: "workspaces t = workspaces s" if "membership_part t = membership_part s" for t
    using that by (simp add: parts)
  have same_pages: "pages t = pages s" if "page_part t = page_part s" for t using that by (simp add: parts)
  show ?thesis
  proof (cases r)
    case (OnMembers q)
    define t where "t = snd (exec_member env q s)"
    have rt': "runtime_member s q" using rt OnMembers by simp
    note keeps = exec_member_keeps(1-4) [of env q s, folded t_def]
    have ws: "dom (workspaces s) \<subseteq> dom (workspaces t)"
      using exec_member_workspaces [OF ivs(1,2) rt'] by (simp add: t_def)
    have "sys_inv t fs"
      unfolding sys_inv_def
    proof (intro conjI)
      show "membership_inv t" using exec_member_sound [OF ivs(1,2) rt', of env] by (simp add: t_def sound_change_def)
      show "invitation_inv t" using exec_member_invitation_inv [OF ivs(2) rt'] by (simp add: t_def)
      show "board_inv t" by (rule board_inv_cong [OF keeps(1) ws ivs(3)])
      show "page_inv t" by (rule page_inv_cong [OF keeps(2) ws ivs(4)])
      show "collab_inv t" by (rule collab_inv_cong [OF keeps(3) _ ws ivs(5)]) (simp add: same_pages [OF keeps(2)])
      show "chat_inv t" using exec_member_chat_inv [OF ivs(6,1,2) rt'] by (simp add: t_def)
      show "file_inv t fs" by (rule file_inv_cong [OF keeps(4) ws _ ivs(7)]) (simp add: same_pages [OF keeps(2)])
    qed
    then show ?thesis by (simp add: OnMembers split_beta t_def)
  next
    case (OnBoards q)
    define t where "t = snd (exec_board q s)"
    have rt': "runtime_board s q" using rt OnBoards by simp
    note keeps = exec_board_keeps [of q s, folded t_def]
    note ws = same_ws [OF keeps(1)] and pg = same_pages [OF keeps(2)]
    have "sys_inv t fs"
      unfolding sys_inv_def
    proof (intro conjI)
      show "board_inv t" using exec_board_inv [OF ivs(3) rt'] by (simp add: t_def)
      show "membership_inv t" using membership_inv_cong [OF keeps(1)] ivs(1) by simp
      show "invitation_inv t" using ivs(2) by (simp add: invitation_inv_def keeps(6) ws)
      show "page_inv t" by (rule page_inv_cong [OF keeps(2) _ ivs(4)]) (simp add: ws)
      show "collab_inv t" by (rule collab_inv_cong [OF keeps(3) _ _ ivs(5)]) (simp_all add: ws pg)
      show "chat_inv t" by (rule chat_inv_cong [OF keeps(4) _ ivs(6)]) (simp add: ws)
      show "file_inv t fs" by (rule file_inv_cong [OF keeps(5) _ _ ivs(7)]) (simp_all add: ws pg)
    qed
    then show ?thesis by (simp add: OnBoards split_beta t_def)
  next
    case (OnPages q)
    define t where "t = snd (exec_page q s)"
    have rt': "runtime_page s q" using rt OnPages by simp
    note keeps = exec_page_keeps [of q s, folded t_def]
    note ws = same_ws [OF keeps(1)]
    have "sys_inv t fs"
      unfolding sys_inv_def
    proof (intro conjI)
      show "page_inv t" using exec_page_inv [OF ivs(4) rt'] by (simp add: t_def)
      show "collab_inv t" using exec_page_collab_inv [OF ivs(5,4) rt'] by (simp add: t_def)
      show "membership_inv t" using membership_inv_cong [OF keeps(1)] ivs(1) by simp
      show "invitation_inv t" using ivs(2) by (simp add: invitation_inv_def keeps(5) ws)
      show "board_inv t" by (rule board_inv_cong [OF keeps(2) _ ivs(3)]) (simp add: ws)
      show "chat_inv t" by (rule chat_inv_cong [OF keeps(3) _ ivs(6)]) (simp add: ws)
      show "file_inv t fs"
        by (rule file_inv_cong [OF keeps(4) _ _ ivs(7)]) (use exec_page_pages [of s q, folded t_def] in \<open>simp_all add: ws pages_kept_def\<close>)
    qed
    then show ?thesis by (simp add: OnPages split_beta t_def)
  next
    case (OnDocs q)
    define t where "t = snd (exec_collab env q s)"
    have rt': "runtime_collab s q" using rt OnDocs by simp
    note keeps = exec_collab_keeps [of env q s, folded t_def]
    note ws = same_ws [OF keeps(1)]
    have "sys_inv t fs"
      unfolding sys_inv_def
    proof (intro conjI)
      show "collab_inv t" using exec_collab_inv [OF ivs(5) rt'] by (simp add: t_def)
      show "page_inv t" using exec_collab_page_inv [OF ivs(4,5)] by (simp add: t_def)
      show "membership_inv t" using membership_inv_cong [OF keeps(1)] ivs(1) by simp
      show "invitation_inv t" using ivs(2) by (simp add: invitation_inv_def keeps(5) ws)
      show "board_inv t" by (rule board_inv_cong [OF keeps(2) _ ivs(3)]) (simp add: ws)
      show "chat_inv t" by (rule chat_inv_cong [OF keeps(3) _ ivs(6)]) (simp add: ws)
      show "file_inv t fs"
        by (rule file_inv_cong [OF keeps(4) _ _ ivs(7)]) (use exec_collab_pages [of s env q, folded t_def] in \<open>simp_all add: ws pages_kept_def\<close>)
    qed
    then show ?thesis by (simp add: OnDocs split_beta t_def)
  next
    case (OnChat q)
    define t where "t = snd (exec_chat q s)"
    have rt': "runtime_chat s q" using rt OnChat by simp
    note keeps = exec_chat_keeps [of q s, folded t_def]
    note ws = same_ws [OF keeps(1)] and pg = same_pages [OF keeps(3)]
    have "sys_inv t fs"
      unfolding sys_inv_def
    proof (intro conjI)
      show "chat_inv t" using exec_chat_inv [OF ivs(6) rt'] by (simp add: t_def)
      show "membership_inv t" using membership_inv_cong [OF keeps(1)] ivs(1) by simp
      show "invitation_inv t" using ivs(2) by (simp add: invitation_inv_def keeps(6) ws)
      show "board_inv t" by (rule board_inv_cong [OF keeps(2) _ ivs(3)]) (simp add: ws)
      show "page_inv t" by (rule page_inv_cong [OF keeps(3) _ ivs(4)]) (simp add: ws)
      show "collab_inv t" by (rule collab_inv_cong [OF keeps(4) _ _ ivs(5)]) (simp_all add: ws pg)
      show "file_inv t fs" by (rule file_inv_cong [OF keeps(5) _ _ ivs(7)]) (simp_all add: ws pg)
    qed
    then show ?thesis by (simp add: OnChat split_beta t_def)
  next
    case (OnFiles q)
    define t fs' where "t = fst (snd (exec_file env q (s, fs)))" and "fs' = snd (snd (exec_file env q (s, fs)))"
    note keeps = exec_file_keeps [of env q s fs, folded t_def]
    note ws = same_ws [OF keeps(1)] and pg = same_pages [OF keeps(3)]
    have "sys_inv t fs'"
      unfolding sys_inv_def
    proof (intro conjI)
      show "file_inv t fs'" using exec_file_inv [OF ivs(7), of env q] by (simp add: t_def fs'_def split_beta)
      show "membership_inv t" using membership_inv_cong [OF keeps(1)] ivs(1) by simp
      show "invitation_inv t" using ivs(2) by (simp add: invitation_inv_def keeps(6) ws)
      show "board_inv t" by (rule board_inv_cong [OF keeps(2) _ ivs(3)]) (simp add: ws)
      show "page_inv t" by (rule page_inv_cong [OF keeps(3) _ ivs(4)]) (simp add: ws)
      show "collab_inv t" by (rule collab_inv_cong [OF keeps(4) _ _ ivs(5)]) (simp_all add: ws pg)
      show "chat_inv t" by (rule chat_inv_cong [OF keeps(5) _ ivs(6)]) (simp add: ws)
    qed
    then show ?thesis by (simp add: OnFiles split_beta t_def fs'_def)
  qed
qed

lemma handle_inv:
  assumes "sys_inv (fst st) (snd st)" and "runtime_sys (fst st) r"
  shows "sys_inv (fst (snd (handle env org r st))) (snd (snd (handle env org r st)))"
  using exec_sys_inv [of "svc_ForOrg (env_tenant env) org (fst st)" "snd st" r env] assms
  by (simp add: handle_def split_beta)

lemma reachable_inv: "reachable env st \<Longrightarrow> sys_inv (fst st) (snd st)"
proof (induction rule: reachable.induct)
  case (step st st')
  then show ?case by (auto elim!: sys_stepE intro: handle_inv)
qed (simp add: sys_inv_New)

end
