(* ===== verification/Atomic.thy ===== *)
theory Atomic
  imports System
begin

text \<open>
  Requests are all or nothing: one that answers with an error has changed neither the store nor the
  disk. The operations check first and write last, so the proof only has to look at what runs after the
  first write of a request.
\<close>

section \<open>Operations that fail without a trace\<close>

definition untouched :: "Store \<Rightarrow> 'a result \<times> Store \<Rightarrow> bool" where
  "untouched s p \<longleftrightarrow> (\<forall>e. fst p = Inl e \<longrightarrow> snd p = s)"

lemma untouched_simps [simp]: "untouched s (Inl e, t) \<longleftrightarrow> t = s" "untouched s (Inr x, t)"
  by (simp_all add: untouched_def)

lemma untouchedD: "untouched s p \<Longrightarrow> p = (Inl e, t) \<Longrightarrow> t = s"
  by (simp add: untouched_def)

lemma untouched_outcome [simp]: "untouched s (outcome r) \<longleftrightarrow> untouched s r"
  by (simp add: untouched_def)

lemma untouched_guard: "(\<And>x. r = Inr x \<Longrightarrow> untouched s (f x)) \<Longrightarrow> untouched s (guard_ok r s f)"
  by (cases r) auto

lemma untouched_call:
  "untouched s p \<Longrightarrow> (\<And>x. fst p = Inr x \<Longrightarrow> untouched s (f x (snd p))) \<Longrightarrow> untouched s (call_ok p f)"
  by (cases p; cases "fst p") auto

lemmas untouched_ok = untouched_guard untouched_call

text \<open>The operations of the store.\<close>

lemma untouched_mem_members:
  "untouched s (mem_CreateWorkspace s nid name sub orgID now)" "untouched s (mem_AddMember s wsID sub role now)"
  "untouched s (mem_UpdateMemberRole s wsID sub role)" "untouched s (mem_RemoveMember s wsID sub)"
  "untouched s (mem_UpdateMemberDisplayName s wsID sub name)"
  "untouched s (mem_CreateInvitation s nid wsID h role em mx ex actor now)"
  "untouched s (mem_UpdateInvitationPolicy s wsID k role em mx ex)" "untouched s (mem_RevokeInvitation s wsID k now)"
  "untouched s (mem_AcceptInvitation s k sub now)"
  by (auto simp: op_defs Let_def split: option.splits)

lemma untouched_mem_boards:
  "untouched s (mem_CreateBoard s bid cids wsID name now)" "untouched s (mem_ArchiveBoard s b now)"
  "untouched s (mem_UnarchiveBoard s b)" "untouched s (mem_CreateColumn s nid b name now)" "untouched s (mem_RenameColumn s c name)"
  "untouched s (mem_DeleteColumn s c)" "untouched s (mem_ReorderColumns s b ids)" "untouched s (mem_CreateCard s nid c title d now)"
  "untouched s (unlock (mem_UpdateCard s k title d sp v now))" "untouched s (unlock (mem_MoveCard s k c p v now))"
  "untouched s (mem_CreateSprint s nid b name t u now)" "untouched s (mem_UpdateSprint s k name t' u' now)"
  "untouched s (mem_DeleteSprint s k)"
  by (auto simp: op_defs mem_CreateBoard_def mem_DeleteColumn_def mem_ReorderColumns_def mem_CreateCard_def mem_UpdateCard_def
      mem_MoveCard_def Let_def split: option.splits)

lemma untouched_mem_pages:
  "untouched s (mem_CreatePage s nid cid ks wsID par title body st now)"
  "untouched s (unlock (mem_UpdatePage s k title' body' st' par' v now))"
  "untouched s (mem_ArchivePage s ks k now)" "untouched s (mem_UnarchivePage s ks k)"
  by (auto simp: mem_CreatePage_def mem_UpdatePage_def mem_ArchivePage_def mem_UnarchivePage_def Let_def
      intro!: untouched_ok split: option.splits)

lemma untouched_mem_docs:
  "untouched s (mem_CreateDocument s nid cid wsID title body now)" "untouched s (mem_UpdateDocumentTitle s k title now)"
  "untouched s (mem_TrashDocument s k now)" "untouched s (mem_RestoreDocument s k)"
  "untouched s (mem_ApplyCollabSnapshot s cid plain ed now)"
  by (auto simp: mem_docs_defs Let_def split: option.splits)

lemma untouched_mem_chat:
  "untouched s (mem_CreateChannel s nid wsID name now)" "untouched s (mem_AppendMessage s nid k sub body ms att now)"
  "untouched s (mem_UpsertChannelRead s k sub n)"
  by (auto simp: mem_chat_defs Let_def split: option.splits)

lemma untouched_mem_files: "untouched s (mem_SaveFile s f)" "untouched s (mem_AttachPageFile s p k)"
  by (auto simp: mem_SaveFile_def mem_AttachPageFile_def)

lemmas untouched_mem = untouched_mem_members untouched_mem_boards untouched_mem_pages untouched_mem_docs untouched_mem_chat
  untouched_mem_files

section \<open>The requests\<close>

lemma untouched_board: "untouched s (exec_board r s)"
  by (cases r) (auto simp: svc_board_defs Let_def untouched_mem intro!: untouched_ok split: prod.splits)

lemma untouched_bookkeeping:
  "untouched s (unlock p) \<Longrightarrow> untouched s (unlock (case fst p of Inl e \<Rightarrow> (Inl e, snd p) | Inr page \<Rightarrow> (Inr page, f page)))"
  by (cases p; cases "fst p") (auto simp: unlock_def)

lemma untouched_UpdatePage: "untouched s (unlock (svc_UpdatePage s sub k title body st par v now now2))"
  by (auto simp: svc_UpdatePage_def Let_def untouched_mem intro!: untouched_ok untouched_bookkeeping)

lemma untouched_page: "untouched s (exec_page r s)"
proof (cases r)
  case (UpdatePage sub k title body st par v now now2)
  then show ?thesis by (simp add: untouched_UpdatePage)
next
  case (RestorePageVersion sub k n v now now2)
  then show ?thesis by (auto simp: svc_RestorePageVersion_def untouched_UpdatePage Let_def intro!: untouched_ok)
qed (auto simp: svc_CreatePage_def svc_ArchivePage_def svc_UnarchivePage_def Let_def untouched_mem intro!: untouched_ok)

lemma untouched_chat: "untouched s (exec_chat r s)"
proof (cases r)
  case (MarkChannelRead sub k n)
  have "untouched s (guard_ok (mem_GetChannelRead t k sub) t (\<lambda>l. guard_ok (mem_CountMessagesAfter t k l) t (\<lambda>u. (Inr (f l u), t))))"
    if "channels t k \<noteq> None" for t and f :: "int \<Rightarrow> int \<Rightarrow> ChannelView"
    using that by (auto simp: mem_GetChannelRead_def mem_CountMessagesAfter_def split: option.split)
  moreover have "channels (snd (mem_UpsertChannelRead s k sub n)) k \<noteq> None" if "fst (mem_UpsertChannelRead s k sub n) = Inr x" for x
    using that by (auto simp: mem_UpsertChannelRead_def Let_def split: if_splits)
  ultimately show ?thesis
    by (auto simp: MarkChannelRead svc_MarkChannelRead_def untouched_mem intro!: untouched_ok)
qed (auto simp: svc_CreateChannel_def svc_PostMessage_def svc_IssueChatTicket_def Let_def untouched_mem split_beta intro!: untouched_ok)

lemma untouched_snapshot: "untouched s (svc_ApplyCollabSnapshot ulid tenant s cid plain ed now now2)"
proof -
  let ?st = "svc_Unscoped tenant s"
  define p where "p = guard_ok (mem_LookupCollab ?st cid) ?st (\<lambda>(kind, target).
      call_ok (mem_ApplyCollabSnapshot ?st cid plain ed now) (\<lambda>_ st1.
        if kind = ''page'' then guard_ok (mem_GetPage st1 target) st1 (\<lambda>page. (Inr (), snd (mem_AppendPageVersionIfChanged st1
          (pg_ID page) (pg_Title page) (pg_Body page) (pg_Status page) ed now2)))
        else (Inr (), st1)))"
  have found: "pages (snd (mem_ApplyCollabSnapshot ?st cid plain ed now)) target \<noteq> None"
    if "mem_LookupCollab ?st cid = Inr (''page'', target)" "fst (mem_ApplyCollabSnapshot ?st cid plain ed now) = Inr ()" for target
    using that by (auto simp: mem_LookupCollab_def mem_ApplyCollabSnapshot_def split: option.splits)
  have "untouched ?st p"
    unfolding p_def using found
    by (auto simp: untouched_mem mem_GetPage_def intro!: untouched_ok split: option.split)
  then show ?thesis
    unfolding svc_ApplyCollabSnapshot_def Let_def p_def [symmetric] by (auto simp: untouched_def)
qed

lemma untouched_collab: "untouched s (exec_collab env r s)"
  by (cases r)
    (auto simp: svc_CreateDocument_def svc_UpdateDocumentTitle_def svc_TrashDocument_def svc_RestoreDocument_def
      svc_IssueCollabTicket_def untouched_snapshot Let_def untouched_mem split_beta intro!: untouched_ok)

lemma untouched_CreateInvitation:
  "untouched s (svc_CreateInvitation lo sha s nid aid rand actor wsID role em mx ttl now)"
  by (auto simp: svc_CreateInvitation_def Let_def untouched_mem intro!: untouched_ok)

text \<open>An invitation that admits someone leads to a workspace, so what follows the admission cannot fail.\<close>

lemma untouched_accept_scoped:
  assumes iv: "invitation_inv s" and ws: "\<And>i. invitations s k = Some i \<Longrightarrow> \<exists>w. mem_GetWorkspace s (inv_WorkspaceID i) = Inr w"
  shows "untouched s (svc_accept_scoped s aid k sub now)"
proof -
  have get: "mem_GetWorkspace (mem_AddAuditEvent t e) w = mem_GetWorkspace t w" for t e w
    by (simp add: mem_GetWorkspace_def mem_AddAuditEvent_def allowOrg_def cong: option.case_cong if_cong)
  have kept: "mem_GetWorkspace (snd (mem_AcceptInvitation s k sub now)) w = mem_GetWorkspace s w" for w
    by (auto simp: mem_AcceptInvitation_def mem_GetWorkspace_def allowOrg_def Let_def split: option.split)
  have same: "\<exists>i. invitations s k = Some i \<and> inv_WorkspaceID j = inv_WorkspaceID i"
    if "fst (mem_AcceptInvitation s k sub now) = Inr (j, m, b)" for j m b
    using that by (auto simp: mem_AcceptInvitation_def Let_def split: option.splits if_splits)
  have fails: "untouched s (mem_AcceptInvitation s k sub now)" by (rule untouched_mem)
  show ?thesis
  proof (cases "fst (mem_AcceptInvitation s k sub now)")
    case (Inl e)
    then show ?thesis using fails by (auto simp: svc_accept_scoped_def untouched_def Let_def)
  next
    case (Inr x)
    then obtain j m b where x: "fst (mem_AcceptInvitation s k sub now) = Inr (j, m, b)" by (cases x) auto
    then obtain w where "mem_GetWorkspace s (inv_WorkspaceID j) = Inr w" using same ws by metis
    then show ?thesis using x by (auto simp: svc_accept_scoped_def Let_def get kept)
  qed
qed

lemma untouched_AcceptInvitation:
  assumes iv: "invitation_inv s"
  shows "untouched s (svc_AcceptInvitation lo sha tenant ks s aid sub em tok now)"
proof -
  have look: "invitations s (inv_ID i) = Some i"
    if "mem_GetInvitationByTokenHash ks (svc_Unscoped tenant s) h = Inr i" for i h
  proof -
    have "\<exists>j. invitations s j = Some i"
      using that by (auto simp: mem_GetInvitationByTokenHash_def find_Some_iff set_range_values in_set_conv_nth
          dest!: nth_mem split: option.splits)
    then show ?thesis using invitation_invD(1) [OF iv] by (auto simp: invitation_wf_def)
  qed
  have scoped: "untouched (svc_ForOrg tenant (ws_OrgID ws) s) (svc_accept_scoped (svc_ForOrg tenant (ws_OrgID ws) s) aid (inv_ID i) sub now)"
    if i: "mem_GetInvitationByTokenHash ks (svc_Unscoped tenant s) h = Inr i"
      and ws: "mem_GetWorkspace (svc_Unscoped tenant s) (inv_WorkspaceID i) = Inr ws" for ws i h
  proof (rule untouched_accept_scoped)
    show "invitation_inv (svc_ForOrg tenant (ws_OrgID ws) s)" using iv by simp
    show "\<exists>w. mem_GetWorkspace (svc_ForOrg tenant (ws_OrgID ws) s) (inv_WorkspaceID j) = Inr w"
      if "invitations (svc_ForOrg tenant (ws_OrgID ws) s) (inv_ID i) = Some j" for j
      using that look [OF i] ws by (auto simp: mem_GetWorkspace_def allowOrg_def scope_defs split: option.splits if_splits)
  qed
  show ?thesis
    using scoped by (auto simp: svc_AcceptInvitation_def Let_def untouched_def split: sum.split)
qed

lemma untouched_member:
  assumes "invitation_inv s"
  shows "untouched s (exec_member env r s)"
proof (cases r)
  case (AcceptInvitation ks aid sub em tok now)
  then show ?thesis using untouched_AcceptInvitation [OF assms] by simp
qed (auto simp: svc_CreateWorkspace_def svc_SyncMemberDisplayName_def svc_AddMember_def svc_UpdateMemberRole_def svc_RemoveMember_def
    svc_LeaveWorkspace_def svc_RevokeInvitation_def svc_UpdateInvitationPolicy_def svc_ResendInvitation_def
    untouched_CreateInvitation Let_def untouched_mem split_beta intro!: untouched_ok)

lemma untouched_file:
  assumes "fst (exec_file env r (s, fs)) = Inl e"
  shows "snd (exec_file env r (s, fs)) = (s, fs)"
proof (cases r)
  case (SaveLocalFile os nid token sub wsID purpose name ctype declared data now)
  then show ?thesis
    using assms SaveLocalFile_cases [of env os s fs nid sub wsID purpose declared data token name ctype now]
    by (auto split: if_splits)
next
  case (LinkRemoteFile token sub wsID purpose fileID name ctype declared now)
  have "untouched s (svc_LinkRemoteFile env s token sub wsID purpose fileID name ctype declared now)"
    by (auto simp: svc_LinkRemoteFile_def Let_def untouched_mem intro!: untouched_ok)
  then show ?thesis using assms LinkRemoteFile by (auto simp: untouched_def outcome_def split: prod.splits sum.splits)
next
  case (AttachPageFile ks sub pageID fileID)
  have "untouched s (svc_AttachPageFile env ks s sub pageID fileID)"
    by (auto simp: svc_AttachPageFile_def Let_def untouched_mem intro!: untouched_ok)
  then show ?thesis using assms AttachPageFile by (auto simp: untouched_def outcome_def split: prod.splits sum.splits)
qed

lemma exec_sys_untouched:
  assumes iv: "invitation_inv s" and err: "fst (exec_sys env r (s, fs)) = Inl e"
  shows "snd (exec_sys env r (s, fs)) = (s, fs)"
proof (cases r)
  case (OnFiles q)
  then show ?thesis using untouched_file [of env q s fs] err by simp
qed (use err in \<open>auto split: prod.splits dest: untouchedD [OF untouched_member [OF iv]] untouchedD [OF untouched_board]
    untouchedD [OF untouched_page] untouchedD [OF untouched_collab] untouchedD [OF untouched_chat]\<close>)

lemma handle_untouched:
  assumes iv: "invitation_inv (fst st)" and err: "fst (handle env org r st) = Inl e"
  shows "snd (handle env org r st) = st"
proof -
  have "rejoin (fst st) (svc_ForOrg (env_tenant env) org (fst st)) = fst st" by (simp add: scope_defs)
  then show ?thesis
    using exec_sys_untouched [of "svc_ForOrg (env_tenant env) org (fst st)" env r "snd st" e] iv err
    by (simp add: handle_def split_beta)
qed

end
