(* ===== verification/ServerEffects.thy ===== *)
theory ServerEffects
  imports Server Atomic BoardProps PageProps
begin

text \<open>
  What a request of a user can do to the state: nothing, or one successful operation of the service in
  the name of that user. One lemma for the operations, one for each group of routes.
\<close>

section \<open>Who acts\<close>

fun member_actor :: "member_req \<Rightarrow> string" where
  "member_actor (CreateWorkspace nid chid sub name orgID now now2) = sub"
| "member_actor (SyncMemberDisplayName sub wsID name) = sub"
| "member_actor (AddMember actor wsID sub role now) = actor"
| "member_actor (UpdateMemberRole aid ks actor wsID target role now) = actor"
| "member_actor (RemoveMember aid ks actor wsID target now) = actor"
| "member_actor (LeaveWorkspace aid ks sub wsID now) = sub"
| "member_actor (CreateInvitation nid aid rand actor wsID role email mx ttl now) = actor"
| "member_actor (RevokeInvitation aid actor wsID inviteID now) = actor"
| "member_actor (UpdateInvitationPolicy aid ks actor wsID inviteID role email mx ttl now) = actor"
| "member_actor (ResendInvitation nid aid aid2 rand ks actor wsID inviteID now now2) = actor"
| "member_actor (AcceptInvitation ks aid sub email tok now) = sub"

fun doc_actor :: "collab_req \<Rightarrow> string option" where
  "doc_actor (CreateDocument nid cid sub wsID title body now) = Some sub"
| "doc_actor (UpdateDocumentTitle sub k title now) = Some sub"
| "doc_actor (TrashDocument sub k now) = Some sub"
| "doc_actor (RestoreDocument sub k) = Some sub"
| "doc_actor (IssueCollabTicket ks nid sub cid now) = Some sub"
| "doc_actor (ApplyCollabSnapshot cid plain editor now now2) = None"

fun chat_actor :: "chat_req \<Rightarrow> string" where
  "chat_actor (CreateChannel nid sub wsID name now) = sub"
| "chat_actor (MarkChannelRead sub k n) = sub"
| "chat_actor (PostMessage ks nid sub k body att now) = sub"
| "chat_actor (IssueChatTicket nid sub k now) = sub"

fun file_actor :: "file_req \<Rightarrow> string" where
  "file_actor (SaveLocalFile os nid token sub wsID purpose name ctype declared data now) = sub"
| "file_actor (LinkRemoteFile token sub wsID purpose fileID name ctype declared now) = sub"
| "file_actor (AttachPageFile ks sub pageID fileID) = sub"

text \<open>A snapshot is the one request that no user makes.\<close>

fun sys_actor :: "sys_req \<Rightarrow> string option" where
  "sys_actor (OnMembers r) = Some (member_actor r)"
| "sys_actor (OnBoards r) = Some (board_sender r)"
| "sys_actor (OnPages r) = Some (page_sender r)"
| "sys_actor (OnDocs r) = doc_actor r"
| "sys_actor (OnChat r) = Some (chat_actor r)"
| "sys_actor (OnFiles r) = Some (file_actor r)"

section \<open>Effects\<close>

definition effect :: "Env \<Rightarrow> string \<Rightarrow> Store \<times> disk \<Rightarrow> Response \<times> Store \<times> disk \<Rightarrow> bool" where
  "effect env sub st p \<longleftrightarrow> snd p = st \<or>
     rs_Status (fst p) < 300 \<and> (\<exists>r. runtime_sys (fst st) r \<and> sys_actor r = Some sub \<and> exec_sys env r st = (Inr (), snd p))"

lemma effect_same [simp]: "effect env sub (s, fs) (on_store fs (resp, s))" "effect env sub st (resp, st)"
  by (simp_all add: effect_def on_store_def)

lemma effect_answer [simp]: "effect env sub (s, fs) (on_store fs (answer f r s))"
  by (simp add: answer_def)

text \<open>The operation \<open>q\<close> is what the request \<open>r\<close> does.\<close>

definition runs :: "Env \<Rightarrow> Store \<Rightarrow> sys_req \<Rightarrow> 'a result \<times> Store \<Rightarrow> bool" where
  "runs env s r q \<longleftrightarrow> (\<forall>fs. exec_sys env r (s, fs) = (fst (outcome q), snd q, fs))"

lemma runs_ok:
  assumes "runs env s r q" and "invitation_inv s"
  shows "fst q = Inl e \<Longrightarrow> snd q = s" and "fst q = Inr x \<Longrightarrow> exec_sys env r (s, fs) = (Inr (), snd q, fs)"
  using assms exec_sys_untouched [of s env r fs] by (auto simp: runs_def outcome_def)

lemma effect_respond:
  assumes "runs env s r q" and "invitation_inv s" and "runtime_sys s r" and "sys_actor r = Some sub" and "code < 300"
  shows "effect env sub (s, fs) (on_store fs (respond code f q))"
proof (cases "fst q")
  case (Inl e)
  then show ?thesis using runs_ok(1) [OF assms(1,2)] by (simp add: respond_def on_store_def effect_def)
next
  case (Inr x)
  then show ?thesis
    using runs_ok(2) [OF assms(1,2) Inr, of fs] assms(3-5) by (auto simp: respond_def on_store_def effect_def)
qed

lemma effect_locked:
  assumes "runs env s r (unlock q)" and "invitation_inv s" and "runtime_sys s r" and "sys_actor r = Some sub"
  shows "effect env sub (s, fs) (on_store fs (respond_locked current f q))"
proof (cases "fst q")
  case (Inl p)
  then have "snd q = s" using runs_ok(1) [OF assms(1,2), of "fst p"] by (simp add: unlock_def split: prod.split)
  then show ?thesis by (simp add: respond_locked_def on_store_def effect_def)
next
  case (Inr x)
  then have "fst (unlock q) = Inr x" by (simp add: unlock_def)
  then show ?thesis
    using runs_ok(2) [OF assms(1,2), of x fs] Inr assms(3,4) by (auto simp: respond_locked_def on_store_def effect_def)
qed

lemma runs_members:
  "runs env s (OnMembers (CreateWorkspace a b c d e t t')) (svc_CreateWorkspace s a b c d e t t')"
  "runs env s (OnMembers (SyncMemberDisplayName a b c)) (svc_SyncMemberDisplayName s a b c)"
  "runs env s (OnMembers (AddMember a b c d t)) (svc_AddMember s a b c d t)"
  "runs env s (OnMembers (UpdateMemberRole a ks c d e f t)) (svc_UpdateMemberRole s a ks c d e f t)"
  "runs env s (OnMembers (RemoveMember a ks c d e t)) (svc_RemoveMember s a ks c d e t)"
  "runs env s (OnMembers (LeaveWorkspace a ks c d t)) (svc_LeaveWorkspace s a ks c d t)"
  "runs env s (OnMembers (CreateInvitation a b rd c d e f n n' t)) (svc_CreateInvitation (env_lo env) (env_sha env) s a b rd c d e f n n' t)"
  "runs env s (OnMembers (RevokeInvitation a b c d t)) (svc_RevokeInvitation s a b c d t)"
  "runs env s (OnMembers (UpdateInvitationPolicy a ks c d e role' em' mx' ttl' t)) (svc_UpdateInvitationPolicy (env_lo env) s a ks c d e role' em' mx' ttl' t)"
  "runs env s (OnMembers (ResendInvitation a b c rd ks d e f t t')) (svc_ResendInvitation (env_lo env) (env_sha env) s a b c rd ks d e f t t')"
  "runs env s (OnMembers (AcceptInvitation ks a b c d t)) (svc_AcceptInvitation (env_lo env) (env_sha env) (env_tenant env) ks s a b c d t)"
  by (simp_all add: runs_def split_beta)

lemma runs_boards:
  "runs env s (OnBoards (CreateBoard a ids b c d t)) (svc_CreateBoard s a ids b c d t)"
  "runs env s (OnBoards (ArchiveBoard a b t)) (svc_ArchiveBoard s a b t)"
  "runs env s (OnBoards (UnarchiveBoard a b)) (svc_UnarchiveBoard s a b)"
  "runs env s (OnBoards (CreateColumn a b c d t)) (svc_CreateColumn s a b c d t)"
  "runs env s (OnBoards (RenameColumn a b c)) (svc_RenameColumn s a b c)"
  "runs env s (OnBoards (DeleteColumn a b)) (svc_DeleteColumn s a b)"
  "runs env s (OnBoards (ReorderColumns a b ids)) (svc_ReorderColumns s a b ids)"
  "runs env s (OnBoards (CreateCard a b c d e t)) (svc_CreateCard s a b c d e t)"
  "runs env s (OnBoards (CreateSprint a b c d t t' t'')) (svc_CreateSprint s a b c d t t' t'')"
  "runs env s (OnBoards (UpdateSprint a b c t1 t2 t)) (svc_UpdateSprint s a b c t1 t2 t)"
  "runs env s (OnBoards (DeleteSprint a b)) (svc_DeleteSprint s a b)"
  by (simp_all add: runs_def split_beta)

lemma runs_cards:
  "runs env s (OnBoards (UpdateCard a b c d sp v t)) (unlock (svc_UpdateCard s a b c d sp v t))"
  "runs env s (OnBoards (MoveCard a b c n v t)) (unlock (svc_MoveCard s a b c n v t))"
  "runs env s (OnPages (UpdatePage a b c' d' e' f' v t t')) (unlock (svc_UpdatePage s a b c' d' e' f' v t t'))"
  by (simp_all add: runs_def split_beta)

lemma runs_pages:
  "runs env s (OnPages (CreatePage a b ks c d e f g h t t')) (svc_CreatePage s a b ks c d e f g h t t')"
  "runs env s (OnPages (ArchivePage ks a b t)) (svc_ArchivePage s ks a b t)"
  "runs env s (OnPages (UnarchivePage ks a b)) (svc_UnarchivePage s ks a b)"
  "runs env s (OnPages (RestorePageVersion a b n v t t')) (unlock (svc_RestorePageVersion s a b n v t t'))"
  by (simp_all add: runs_def split_beta)

lemma runs_docs:
  "runs env s (OnDocs (CreateDocument a b c d e f t)) (svc_CreateDocument s a b c d e f t)"
  "runs env s (OnDocs (UpdateDocumentTitle a b c t)) (svc_UpdateDocumentTitle s a b c t)"
  "runs env s (OnDocs (TrashDocument a b t)) (svc_TrashDocument s a b t)"
  "runs env s (OnDocs (RestoreDocument a b)) (svc_RestoreDocument s a b)"
  "runs env s (OnDocs (IssueCollabTicket ks a b c t)) (svc_IssueCollabTicket (env_ulid env) ks s a b c t)"
  by (simp_all add: runs_def split_beta)

lemma runs_chat:
  "runs env s (OnChat (CreateChannel a b c d t)) (svc_CreateChannel s a b c d t)"
  "runs env s (OnChat (MarkChannelRead a b n)) (svc_MarkChannelRead s a b n)"
  "runs env s (OnChat (PostMessage ks a b c d e t)) (svc_PostMessage s ks a b c d e t)"
  "runs env s (OnChat (IssueChatTicket a b c t)) (svc_IssueChatTicket s a b c t)"
  by (simp_all add: runs_def split_beta)

lemma runs_files:
  "runs env s (OnFiles (LinkRemoteFile a b c d e f g n t)) (svc_LinkRemoteFile env s a b c d e f g n t)"
  "runs env s (OnFiles (AttachPageFile ks a b c)) (svc_AttachPageFile env ks s a b c)"
  by (simp_all add: runs_def split_beta)

lemmas effect_ops = runs_members [THEN effect_respond] runs_boards [THEN effect_respond] runs_pages [THEN effect_respond]
  runs_docs [THEN effect_respond] runs_chat [THEN effect_respond] runs_files [THEN effect_respond] runs_cards [THEN effect_locked]

section \<open>The runtime\<close>

text \<open>What the runtime guarantees in a state: identifiers are new, orders name every key once.\<close>

definition runtime_ok :: "Store \<Rightarrow> Runtime \<Rightarrow> bool" where
  "runtime_ok s rt \<longleftrightarrow>
     fresh s (rt_id rt) \<and> fresh s (rt_id2 rt) \<and> rt_id rt \<noteq> rt_id2 rt \<and>
     length (rt_ids rt) = length defaultNames \<and> distinct (rt_id rt # rt_ids rt) \<and> (\<forall>k \<in> set (rt_ids rt). fresh s k) \<and>
     (\<forall>w. orders_members s w (rt_members rt w)) \<and>
     range_order (invitations s) (rt_invitations rt) \<and> range_order (pages s) (rt_pages rt)"

lemma runtime_okD:
  assumes "runtime_ok s rt"
  shows "fresh s (rt_id rt)" "fresh s (rt_id2 rt)" "rt_id rt \<noteq> rt_id2 rt" "rt_id2 rt \<noteq> rt_id rt"
    "length (rt_ids rt) = length defaultNames" "distinct (rt_ids rt)" "rt_id rt \<notin> set (rt_ids rt)"
    "k \<in> set (rt_ids rt) \<Longrightarrow> fresh s k" "orders_members s w (rt_members rt w)"
    "range_order (invitations s) (rt_invitations rt)" "range_order (pages s) (rt_pages rt)"
  using assms by (auto simp: runtime_ok_def)

section \<open>The routes\<close>

lemma effect_workspace:
  assumes iv: "invitation_inv s" and rt: "runtime_ok s rt"
  shows "effect env (us_Sub u) (s, fs) (on_store fs (handle_workspace si env rt rq u r s))"
  using iv runtime_okD [OF rt]
  by (cases r)
    (auto simp: web_createWorkspace_def web_listWorkspaces_def web_getWorkspace_def web_listMembers_def web_getMember_def
      web_syncMemberDisplayName_def web_addMember_def web_updateMemberRole_def web_removeMember_def web_leaveWorkspace_def
      web_listAuditEvents_def web_createInvitation_def web_listInvitations_def web_revokeInvitation_def web_resendInvitation_def
      web_updateInvitationPolicy_def web_previewInvitation_def web_acceptInvitation_def web_orgMembers_def no_content_def Let_def
      split: prod.split option.split intro!: effect_ops)

lemma effect_board:
  assumes iv: "invitation_inv s" and rt: "runtime_ok s rt"
  shows "effect env sub (s, fs) (on_store fs (handle_board rt rq sub r s))"
  using iv runtime_okD [OF rt]
  by (cases r)
    (auto simp: web_createBoard_def web_listBoards_def web_getBoard_def web_archiveBoard_def web_unarchiveBoard_def
      web_createColumn_def web_renameColumn_def web_deleteColumn_def web_reorderColumns_def web_createCard_def web_getCard_def
      web_updateCard_def web_moveCard_def web_createSprint_def web_listSprints_def web_getSprint_def web_updateSprint_def
      web_deleteSprint_def web_sprintBurndown_def no_content_def split: prod.split sum.split intro!: effect_ops)

lemma effect_page:
  assumes iv: "invitation_inv s" and rt: "runtime_ok s rt"
  shows "effect env sub (s, fs) (on_store fs (handle_page rt rq sub r s))"
  using iv runtime_okD [OF rt]
  by (cases r)
    (auto simp: web_createPage_def web_pageTree_def web_getPage_def web_updatePage_def web_archivePage_def web_unarchivePage_def
      web_listPageVersions_def web_getPageVersion_def web_diffPageVersions_def web_restorePageVersion_def no_content_def
      split: prod.split option.split intro!: effect_ops)

lemma effect_doc:
  assumes iv: "invitation_inv s" and rt: "runtime_ok s rt"
  shows "effect env sub (s, fs) (on_store fs (handle_doc env rt rq sub r s))"
  using iv runtime_okD [OF rt]
  by (cases r)
    (auto simp: web_createDocument_def web_listDocuments_def web_getDocument_def web_updateDocument_def web_trashDocument_def
      web_untrashDocument_def web_issueCollabTicket_def no_content_def split: prod.split intro!: effect_ops)

lemma effect_chat:
  assumes iv: "invitation_inv s" and rt: "runtime_ok s rt"
  shows "effect env sub (s, fs) (on_store fs (handle_chat rt rq sub r s))"
  using iv runtime_okD [OF rt]
  by (cases r)
    (auto simp: web_createChannel_def web_listChannels_def web_postMessage_def web_listMessages_def web_markChannelRead_def
      web_issueChatTicket_def channel_members_def orders_members_def Let_def split: prod.split option.split intro!: effect_ops)

lemma effect_upload: "invitation_inv s \<Longrightarrow> fresh s (rt_id rt) \<Longrightarrow> effect env sub (s, fs) (web_uploadLocal env rt (s, fs) fm sub)"
proof (cases fm)
  case (F_form vals upl)
  assume iv: "invitation_inv s" and new: "fresh s (rt_id rt)"
  show ?thesis
  proof (cases upl)
    case (Some x)
    obtain name ctype declared data where x: "x = (name, ctype, declared, data)" by (cases x) auto
    let ?r = "OnFiles (SaveLocalFile (rt_os rt) (rt_id rt) (rt_id2 rt) sub (TrimSpace (vals ''workspaceId''))
        (TrimSpace (vals ''purpose'')) name ctype declared data (rt_now rt))"
    let ?q = "svc_SaveLocalFile env (rt_os rt) s fs (rt_id rt) (rt_id2 rt) sub (TrimSpace (vals ''workspaceId''))
        (TrimSpace (vals ''purpose'')) name ctype declared data (rt_now rt)"
    have r: "runtime_sys s ?r" "sys_actor ?r = Some sub" using new by simp_all
    have exec: "exec_sys env ?r (s, fs) = (fst (outcome (fst ?q, s)), snd ?q)" by (simp add: split_beta outcome_def)
    show ?thesis
    proof (cases "fst ?q")
      case (Inl e)
      then have "snd ?q = (s, fs)" using exec_sys_untouched [OF iv, of env ?r fs] exec by (simp add: outcome_def)
      with Inl show ?thesis by (cases ?q) (simp add: F_form Some x web_uploadLocal_def effect_def)
    next
      case (Inr v)
      then have "exec_sys env ?r (s, fs) = (Inr (), snd ?q)" using exec by (simp add: outcome_def)
      with Inr r show ?thesis by (cases ?q) (auto simp: F_form Some x web_uploadLocal_def effect_def simp del: exec_sys.simps)
    qed
  qed (simp add: F_form web_uploadLocal_def)
qed (simp_all add: web_uploadLocal_def)

lemma effect_file:
  assumes iv: "invitation_inv s" and rt: "runtime_ok s rt"
  shows "effect env sub (s, fs) (handle_file env rt rq sub r (s, fs))"
  using iv runtime_okD [OF rt]
  by (cases r)
    (auto simp: web_uploadConfig_def web_linkRemote_def web_attachPage_def web_listPageAttachments_def web_getFileMeta_def web_search_def
      split: prod.split intro!: effect_ops effect_upload)

lemma effect_route:
  assumes "invitation_inv s" and "runtime_ok s rt"
  shows "effect env (us_Sub u) (s, fs) (handle_route si env rt rq u r (s, fs))"
  using effect_workspace effect_board effect_page effect_doc effect_chat effect_file assms by (cases r) simp_all

end
