(* ===== verification/SystemProps.thy ===== *)
theory SystemProps
  imports Atomic
begin

text \<open>
  What holds of the server as a whole, whatever requests it has served: the invariants of all parts in
  plain words, that a workspace keeps its one owner for life, and that no request gets past the role it
  needs.
\<close>

section \<open>Every reachable state\<close>

lemma card_place:
  assumes iv: "board_inv s" and c: "cards s k = Some c"
  shows "{col. k \<in> set (get_list (columnCards s) col)} = {ca_ColumnID c}"
    and "0 \<le> ca_Position c \<and> ca_Position c < int (length (get_list (columnCards s) (ca_ColumnID c))) \<and>
      get_list (columnCards s) (ca_ColumnID c) ! nat (ca_Position c) = k"
proof -
  note sh = board_invD(6) [OF iv]
  obtain ids where ids: "columnCards s (ca_ColumnID c) = Some ids" "k \<in> set ids" using shelved_parent [OF sh c] by blast
  have "col = ca_ColumnID c" if "k \<in> set (get_list (columnCards s) col)" for col
  proof (cases "columnCards s col")
    case (Some js)
    then show ?thesis using that shelvedD(2) [OF sh Some, of k] c by (auto simp: get_list_def)
  qed (use that in \<open>simp add: get_list_def\<close>)
  then show "{col. k \<in> set (get_list (columnCards s) col)} = {ca_ColumnID c}" using ids by (auto simp: get_list_def)
  obtain i where i: "i < length ids" "ids ! i = k" using ids(2) by (auto simp: in_set_conv_nth)
  then have "ca_Position c = int i" using shelvedD(3) [OF sh ids(1), of i c] c by simp
  then show "0 \<le> ca_Position c \<and> ca_Position c < int (length (get_list (columnCards s) (ca_ColumnID c))) \<and>
      get_list (columnCards s) (ca_ColumnID c) ! nat (ca_Position c) = k"
    using i ids(1) by (simp add: get_list_def)
qed

text \<open>
  (C1) In every state the server can reach, whatever requests it has served in whatever order: a
  workspace has exactly one owner; an invitation gives the role of a member or a guest and has not been
  used more often than it may; a card is in exactly one column, at the place its position says; a page
  hangs from the root by a finite chain of parents, and the newest of its at most a hundred versions is its
  content; the messages of a channel are numbered 1, 2, 3 and so on; and a local file is on the disk
  with the size of its record.
\<close>

theorem reachable_sound:
  assumes "reachable env (s, fs)"
  shows "(\<forall>w. workspaces s w \<noteq> None \<longrightarrow> (\<exists>ms own. members s w = Some ms \<and> owners ms = {own})) \<and>
    (\<forall>k iv. invitations s k = Some iv \<longrightarrow> inv_Role iv \<in> {RoleMember, RoleGuest} \<and> 0 \<le> inv_UseCount iv \<and>
       inv_UseCount iv \<le> inv_MaxUses iv \<and> inv_MaxUses iv \<le> MaxInviteUses) \<and>
    (\<forall>k c. cards s k = Some c \<longrightarrow> {col. k \<in> set (get_list (columnCards s) col)} = {ca_ColumnID c} \<and>
       get_list (columnCards s) (ca_ColumnID c) ! nat (ca_Position c) = k) \<and>
    (\<forall>k p. pages s k = Some p \<longrightarrow> (\<exists>n. depth (links (pages s)) [] k n) \<and>
       (\<exists>vers. pageVersions s k = Some vers \<and> vers \<noteq> [] \<and> length vers \<le> MaxPageVersions \<and>
          pv_Title (last vers) = pg_Title p \<and> pv_Body (last vers) = pg_Body p \<and> pv_Status (last vers) = pg_Status p)) \<and>
    (\<forall>k ch. channels s k = Some ch \<longrightarrow>
       (\<exists>msgs. messages s k = Some msgs \<and> map cm_Seq msgs = map int [1..<1 + length msgs])) \<and>
    (\<forall>k f. files s k = Some f \<longrightarrow> sf_Provider f = FileProviderLocal \<longrightarrow>
       (\<exists>data. fs (sf_Path f) = Some data \<and> int (length data) = sf_Size f))"
proof -
  have "sys_inv s fs" using reachable_inv [OF assms] by simp
  then have iv: "membership_inv s" "invitation_inv s" "board_inv s" "page_inv s" "chat_inv s" "file_inv s fs"
    by (simp_all add: sys_inv_def)
  have "\<exists>ms own. members s w = Some ms \<and> owners ms = {own}" if "workspaces s w \<noteq> None" for w
  proof -
    have "w \<in> dom (members s)" using that iv(1) by (auto simp: membership_inv_def)
    then obtain ms where "members s w = Some ms" by blast
    then show ?thesis using membership_invD(2) [OF iv(1)] by blast
  qed
  moreover have "inv_Role j \<in> {RoleMember, RoleGuest} \<and> 0 \<le> inv_UseCount j \<and> inv_UseCount j \<le> inv_MaxUses j \<and>
      inv_MaxUses j \<le> MaxInviteUses" if "invitations s k = Some j" for k j
    using invitation_invD(1) [OF iv(2) that] by (auto simp: invitation_wf_def)
  moreover have "{col. k \<in> set (get_list (columnCards s) col)} = {ca_ColumnID c} \<and>
      get_list (columnCards s) (ca_ColumnID c) ! nat (ca_Position c) = k" if "cards s k = Some c" for k c
    using card_place [OF iv(3) that] by blast
  moreover have "(\<exists>n. depth (links (pages s)) [] k n) \<and> (\<exists>vers. pageVersions s k = Some vers \<and> vers \<noteq> [] \<and>
      length vers \<le> MaxPageVersions \<and> pv_Title (last vers) = pg_Title p \<and> pv_Body (last vers) = pg_Body p \<and>
      pv_Status (last vers) = pg_Status p)" if "pages s k = Some p" for k p
    using page_depth [OF page_invD(1) [OF iv(4)], of k] page_invD(3) [OF iv(4) that] that
    by (auto simp: history_ok_def same_content_def)
  moreover have "\<exists>msgs. messages s k = Some msgs \<and> map cm_Seq msgs = map int [1..<1 + length msgs]"
    if "channels s k = Some ch" for k ch
    using chat_invD(2) [OF iv(5) that] by (simp add: numbered_from_def)
  moreover have "\<exists>data. fs (sf_Path f) = Some data \<and> int (length data) = sf_Size f"
    if "files s k = Some f" "sf_Provider f = FileProviderLocal" for k f
    using file_invD(1) [OF iv(6) that(1)] that(2) by (simp add: record_ok_def)
  ultimately show ?thesis by blast
qed

text \<open>The example again: a server without tenants, whose first two requests make the team.\<close>

definition demo_single :: Env where
  "demo_single = demo_env\<lparr>env_tenant := False\<rparr>"

definition demo_first :: Store where
  "demo_first = snd (svc_CreateWorkspace New ''w'' ''c'' ''ann'' ''Team'' ''org'' 0 0)"

lemma handle_single: "snd (handle demo_single org (OnMembers r) (s, fs)) = (rejoin s (snd (exec_member demo_single r s)), fs)"
  by (simp add: handle_def demo_single_def svc_ForOrg_def split_beta)

lemma demo_first_step: "sys_step demo_single (New, Map.empty) (demo_first, Map.empty)"
proof -
  let ?r = "CreateWorkspace ''w'' ''c'' ''ann'' ''Team'' ''org'' 0 0"
  have "runtime_sys (fst (New, Map.empty :: disk)) (OnMembers ?r)" by (simp add: fresh_New)
  from sys_step.request [OF this, of demo_single "[]"] show ?thesis
    by (simp add: handle_single demo_first_def rejoin_def svc_CreateWorkspace_def mem_CreateWorkspace_def
        mem_CreateChannel_def Let_def New_def demo_values)
qed

lemma demo_second_step: "sys_step demo_single (demo_first, Map.empty) (demo_team, Map.empty)"
proof -
  let ?r = "AddMember ''ann'' ''w'' ''gus'' RoleGuest 1"
  have team: "demo_team = snd (svc_AddMember demo_first ''ann'' ''w'' ''gus'' RoleGuest 1)"
    by (simp add: demo_team_def demo_first_def)
  have "rejoin demo_first demo_team = demo_team"
    by (simp add: rejoin_def team demo_first_def op_defs New_def svc_requireRole_def Let_def demo_values)
  moreover have "runtime_sys (fst (demo_first, Map.empty :: disk)) (OnMembers ?r)" by simp
  ultimately show ?thesis
    using sys_step.request [of "(demo_first, Map.empty)" "OnMembers ?r" demo_single "[]"]
    by (simp add: handle_single flip: team)
qed

lemma demo_team_reachable: "reachable demo_single (demo_team, Map.empty)"
  by (rule reachable.step [OF reachable.step [OF reachable.start demo_first_step] demo_second_step])

theorem reachable_sound_witness:
  "\<exists>ms own. members demo_team ''w'' = Some ms \<and> owners ms = {own}"
  using reachable_sound [OF demo_team_reachable] demo_team_workspaces by simp

section \<open>One owner for life\<close>

lemma step_owner:
  assumes iv: "sys_inv s fs" and st: "sys_step env (s, fs) (s', fs')" and own: "members s w = Some ms"
  shows "\<exists>ms'. members s' w = Some ms' \<and> owners ms' = owners ms"
proof -
  obtain r org where r: "runtime_sys s r" "(s', fs') = snd (handle env org r (s, fs))"
    using st by (auto elim!: sys_stepE)
  let ?s = "svc_ForOrg (env_tenant env) org s"
  have same: ?thesis if "membership_part (fst (snd (exec_sys env r (?s, fs)))) = membership_part ?s"
    using that r(2) own by (simp add: handle_def split_beta parts)
  show ?thesis
  proof (cases r)
    case (OnMembers q)
    have "membership_inv ?s" "invitation_inv ?s" using iv by (simp_all add: sys_inv_def)
    moreover have "runtime_member ?s q" using r(1) OnMembers runtime_scope [of _ _ s "OnMembers q"] by simp
    ultimately have "sound_change ?s (snd (exec_member env q ?s))" by (rule exec_member_sound)
    then show ?thesis using r(2) own by (simp add: OnMembers handle_def split_beta sound_change_def)
  next
    case (OnBoards q) then show ?thesis using same exec_board_keeps(1) [of q ?s] by (simp add: split_beta)
  next
    case (OnPages q) then show ?thesis using same exec_page_keeps(1) [of q ?s] by (simp add: split_beta)
  next
    case (OnDocs q) then show ?thesis using same exec_collab_keeps(1) [of env q ?s] by (simp add: split_beta)
  next
    case (OnChat q) then show ?thesis using same exec_chat_keeps(1) [of q ?s] by (simp add: split_beta)
  next
    case (OnFiles q) then show ?thesis using same exec_file_keeps(1) [of env q ?s fs] by (simp add: split_beta)
  qed
qed

text \<open>
  (C2) Once a workspace exists it keeps the same single owner for ever: no sequence of requests by
  anyone adds an owner, demotes or removes the one there is, or removes the workspace.
\<close>

theorem one_owner_for_life:
  assumes "reachable env st" and "(sys_step env)\<^sup>*\<^sup>* st st'" and "members (fst st) w = Some ms"
  shows "\<exists>ms' own. members (fst st') w = Some ms' \<and> owners ms = {own} \<and> owners ms' = {own}"
proof -
  have "\<exists>own. owners ms = {own}"
    using reachable_inv [OF assms(1)] membership_invD(2) [OF _ assms(3)] by (simp add: sys_inv_def)
  moreover have "reachable env st' \<and> (\<exists>ms'. members (fst st') w = Some ms' \<and> owners ms' = owners ms)"
    using assms(2)
  proof (induction rule: rtranclp_induct)
    case base
    then show ?case using assms(1,3) by simp
  next
    case (step y z)
    then obtain ms1 where "members (fst y) w = Some ms1" "owners ms1 = owners ms" by blast
    moreover have "sys_inv (fst y) (snd y)" using step.IH reachable_inv by blast
    ultimately show ?case
      using step_owner [of "fst y" "snd y" env "fst z" "snd z" w ms1] step by (auto intro: reachable.step)
  qed
  ultimately show ?thesis by auto
qed

theorem one_owner_for_life_witness:
  "\<exists>ms own. members demo_team ''w'' = Some ms \<and> owners ms = {own}"
proof -
  have "members demo_first ''w'' = Some [''ann'' \<mapsto> \<lparr>mb_WorkspaceID = ''w'', mb_Sub = ''ann'', mb_DisplayName = [],
      mb_Role = RoleOwner, mb_JoinedAt = 0\<rparr>]"
    by (simp add: demo_first_def svc_CreateWorkspace_def mem_CreateWorkspace_def mem_CreateChannel_def Let_def New_def demo_values)
  with one_owner_for_life [OF reachable.step [OF reachable.start demo_first_step] r_into_rtranclp [of "sys_step demo_single", OF demo_second_step]]
  show ?thesis by fastforce
qed

section \<open>Nobody gets past the role a request needs\<close>

text \<open>
  The workspace a request acts on, its sender, and the role it is checked against. Not in the list are
  the requests that have another key: creating a workspace needs none, an invitation is accepted with
  its token, a ticket for a room is given with the rights of the role
  (\<open>CollabProps.collab_ticket_rights\<close>), and a snapshot comes from the collaboration server.
\<close>

fun doc_gate :: "collab_req \<Rightarrow> Store \<Rightarrow> (id result \<times> string \<times> role) option" where
  "doc_gate (CreateDocument nid cid sub wsID title body now) s = Some (Inr wsID, sub, RoleMember)"
| "doc_gate (UpdateDocumentTitle sub k title now) s = Some (document_workspace s k, sub, RoleMember)"
| "doc_gate (TrashDocument sub k now) s = Some (document_workspace s k, sub, RoleMember)"
| "doc_gate (RestoreDocument sub k) s = Some (document_workspace s k, sub, RoleMember)"
| "doc_gate _ s = None"

fun chat_gate :: "chat_req \<Rightarrow> Store \<Rightarrow> (id result \<times> string \<times> role) option" where
  "chat_gate (CreateChannel nid sub wsID name now) s = Some (Inr wsID, sub, RoleMember)"
| "chat_gate (MarkChannelRead sub k n) s = Some (channel_workspace s k, sub, RoleGuest)"
| "chat_gate (PostMessage ks nid sub k body att now) s = Some (channel_workspace s k, sub, RoleMember)"
| "chat_gate (IssueChatTicket nid sub k now) s = Some (channel_workspace s k, sub, RoleGuest)"

fun file_gate :: "file_req \<Rightarrow> Store \<Rightarrow> (id result \<times> string \<times> role) option" where
  "file_gate (SaveLocalFile os nid token sub wsID purpose name ctype declared data now) s = Some (Inr wsID, sub, RoleMember)"
| "file_gate (LinkRemoteFile token sub wsID purpose fileID name ctype declared now) s = Some (Inr wsID, sub, RoleMember)"
| "file_gate (AttachPageFile ks sub pageID fileID) s = Some (mem_PageWorkspaceID s pageID, sub, RoleMember)"

fun sys_gate :: "sys_req \<Rightarrow> Store \<Rightarrow> (id result \<times> string \<times> role) option" where
  "sys_gate (OnMembers r) s = map_option (\<lambda>(w, sub, need). (Inr w, sub, need)) (member_need r)"
| "sys_gate (OnBoards r) s = Some (board_target r s, board_sender r, RoleMember)"
| "sys_gate (OnPages r) s = Some (page_target r s, page_sender r, RoleMember)"
| "sys_gate (OnDocs r) s = doc_gate r s"
| "sys_gate (OnChat r) s = chat_gate r s"
| "sys_gate (OnFiles r) s = file_gate r s"

lemma exec_needs_role:
  assumes gate: "sys_gate r s = Some (target, sub, need)" and no: "\<And>w. target = Inr w \<Longrightarrow> \<not> has_role s w sub need"
  shows "\<exists>e. exec_sys env r (s, fs) = (Inl e, s, fs)"
proof (cases r)
  case (OnMembers q)
  then obtain w where w: "member_need q = Some (w, sub, need)" "target = Inr w" using gate by auto
  obtain e where "exec_member env q s = (Inl e, s)" using member_request_needs_role [OF w(1) no [OF w(2)], of env] by auto
  then show ?thesis by (simp add: OnMembers)
next
  case (OnBoards q)
  then obtain e where "exec_board q s = (Inl e, s)" using board_request_needs_member [of q s] gate no by auto
  then show ?thesis by (simp add: OnBoards)
next
  case (OnPages q)
  then obtain e where "exec_page q s = (Inl e, s)" using page_request_needs_member [of q s] gate no by auto
  then show ?thesis by (simp add: OnPages)
next
  case (OnDocs q)
  then have "\<exists>e. exec_collab env q s = (Inl e, s)"
    using gate no
    by (cases q) (auto intro!: outcome_fails intro: create_document.unauthorized_fails update_document.unauthorized_fails
        trash_document.unauthorized_fails restore_document.unauthorized_fails)
  then show ?thesis by (auto simp: OnDocs)
next
  case (OnChat q)
  then have "\<exists>e. exec_chat q s = (Inl e, s)"
    using gate no
    by (cases q) (auto intro!: outcome_fails intro: create_channel.unauthorized_fails mark_read.unauthorized_fails
        post_message.unauthorized_fails issue_chat.unauthorized_fails)
  then show ?thesis by (auto simp: OnChat)
next
  case (OnFiles q)
  show ?thesis
  proof (cases q)
    case (SaveLocalFile os nid token sub' wsID purpose name ctype declared data now)
    then have "\<not> accepts_upload env os s fs nid sub' wsID purpose declared data"
      using gate no OnFiles by (simp add: accepts_upload_def)
    then show ?thesis
      using SaveLocalFile_cases [of env os s fs nid sub' wsID purpose declared data token name ctype now]
      by (auto simp: OnFiles SaveLocalFile outcome_def)
  next
    case (LinkRemoteFile token sub' wsID purpose fileID name ctype declared now)
    then have "\<exists>e. svc_LinkRemoteFile env s token sub' wsID purpose fileID name ctype declared now = (Inl e, s)"
      using gate no OnFiles by (auto intro: link_file.unauthorized_fails)
    then show ?thesis by (auto simp: OnFiles LinkRemoteFile outcome_def)
  next
    case (AttachPageFile ks sub' pageID fileID)
    then have "\<exists>e. svc_AttachPageFile env ks s sub' pageID fileID = (Inl e, s)"
      using gate no OnFiles by (auto intro: attach_file.unauthorized_fails)
    then show ?thesis by (auto simp: OnFiles AttachPageFile outcome_def)
  qed
qed

lemma gate_scope: "sys_gate r (svc_ForOrg c k s) = sys_gate r s"
proof -
  have maps: "boards (svc_ForOrg c k s) = boards s" "columns (svc_ForOrg c k s) = columns s" "cards (svc_ForOrg c k s) = cards s"
    "sprints (svc_ForOrg c k s) = sprints s" "documents (svc_ForOrg c k s) = documents s"
    by (simp_all add: scope_defs)
  note defs = mem_BoardWorkspaceID_def mem_ColumnBoardID_def mem_CardWorkspaceID_def mem_PageWorkspaceID_def mem_GetSprint_def
    mem_GetDocument_def mem_GetChannel_def column_workspace_def sprint_workspace_def document_workspace_def channel_workspace_def
  show ?thesis
  proof (cases r)
    case (OnBoards q)
    have "mem_BoardWorkspaceID (svc_ForOrg c k s) = mem_BoardWorkspaceID s" by (rule ext) (simp add: mem_BoardWorkspaceID_def maps)
    moreover have "mem_CardWorkspaceID (svc_ForOrg c k s) = mem_CardWorkspaceID s"
      by (rule ext) (simp add: mem_CardWorkspaceID_def maps split: option.split)
    ultimately show ?thesis
      by (cases q) (simp_all add: OnBoards column_workspace_def sprint_workspace_def mem_ColumnBoardID_def mem_GetSprint_def maps)
  next
    case (OnPages q) then show ?thesis by (cases q) (simp_all add: defs maps)
  next
    case (OnDocs q) then show ?thesis by (cases q) (simp_all add: defs maps)
  next
    case (OnChat q) then show ?thesis by (cases q) (simp_all add: defs maps)
  next
    case (OnFiles q) then show ?thesis by (cases q) (simp_all add: defs maps)
  qed simp
qed

lemma role_scope: "has_role (svc_ForOrg c k s) w sub need = has_role s w sub need"
  by (simp add: has_role_def)



section \<open>A request that fails has done nothing\<close>

text \<open>
  (C4) A request that answers with an error has changed neither the store nor the disk, however far it
  got: nothing is half done. This holds in every state the server can reach, for every kind of request.
\<close>

theorem failed_request_changes_nothing:
  assumes "reachable env st" and "fst (handle env org r st) = Inl e"
  shows "snd (handle env org r st) = st"
  by (rule handle_untouched) (use reachable_inv [OF assms(1)] assms(2) in \<open>simp_all add: sys_inv_def\<close>)

theorem failed_request_changes_nothing_witness:
  "snd (handle demo_single ''org'' (OnMembers (RemoveMember ''a'' [] ''ann'' ''w'' ''bea'' 2)) (demo_team, Map.empty)) = (demo_team, Map.empty)"
proof (rule failed_request_changes_nothing [OF demo_team_reachable])
  show "fst (handle demo_single ''org'' (OnMembers (RemoveMember ''a'' [] ''ann'' ''w'' ''bea'' 2)) (demo_team, Map.empty)) = Inl ErrNotFound"
    by (simp add: handle_def svc_RemoveMember_def guard_ok_def svc_requireRole_def mem_MemberRole_def mem_GetMember_def
        demo_team_members demo_values outcome_def)
qed

end
