(* ===== verification/AuthProps.thy ===== *)
theory AuthProps
  imports Config
begin

text \<open>
  Where the user of a request comes from, whatever the provider answers and whatever the middleware has
  cached.
\<close>

section \<open>Keys and tokens\<close>

text \<open>
  The keys are those fetched less than five minutes ago, or fetched now from the address that the
  middleware holds afterwards.
\<close>

definition trusted_keys :: "'k Provider \<Rightarrow> time \<Rightarrow> 'k Middleware \<Rightarrow> 'k Middleware \<Rightarrow> 'k \<Rightarrow> bool" where
  "trusted_keys pv now mw mw' keys \<longleftrightarrow> mw_jwks mw' = Some keys \<and>
     (if keys_fresh now mw then mw_jwks mw = Some keys else pv_keys pv (mw_jwksURI mw') = Some keys)"

lemma ensureDiscovery_keys:
  "mw_jwks (snd (ensureDiscovery pv opts now mw)) = mw_jwks mw" "mw_jwksLoaded (snd (ensureDiscovery pv opts now mw)) = mw_jwksLoaded mw"
  by (auto simp: ensureDiscovery_def Let_def split: discovery.split)

lemma jwksSet_trusted: "fst (jwksSet pv opts now mw) = Some keys \<Longrightarrow> trusted_keys pv now mw (snd (jwksSet pv opts now mw)) keys"
  by (auto simp: jwksSet_def trusted_keys_def keys_fresh_def split: prod.splits if_splits option.splits)

text \<open>
  The provider vouches for a subject with these claims: it signed the token with a key it published, for
  this issuer and audience, or its userinfo endpoint answered for the token.
\<close>

definition vouched :: "'k Provider \<Rightarrow> Options \<Rightarrow> time \<Rightarrow> 'k Middleware \<Rightarrow> 'k Middleware \<Rightarrow> string \<Rightarrow> string \<Rightarrow> claims \<Rightarrow> bool" where
  "vouched pv opts now mw mw' token sub claims \<longleftrightarrow>
     (\<exists>keys tok. trusted_keys pv now mw mw' keys \<and>
        pv_parse pv keys (if op_SkipIssuerCheck opts then None else Some (op_Issuer opts))
          (if op_Audience opts \<noteq> [] then Some (op_Audience opts) else None) token = Some tok \<and>
        sub = tk_Subject tok \<and> claims = token_claims tok) \<or>
     (\<exists>kvs. pv_userinfo pv (mw_userinfoURL mw') token = U_claims kvs \<and>
        sub = claim_sub (object_map kvs) \<and> claims = object_map kvs)"

lemma user_of_claims_simps: "us_Sub (user_of_claims lo num opts sub claims) = sub"
  "us_OrgID (user_of_claims lo num opts sub claims) = orgIDFromClaims num claims (op_Claims opts)"
  by (simp_all add: user_of_claims_def)

lemma authenticateJWT_vouched:
  assumes "authenticateJWT lo num pv opts now token mw = (Some u, mw1)"
  shows "\<exists>claims. vouched pv opts now mw mw1 token (us_Sub u) claims \<and> us_Sub u \<noteq> [] \<and>
    us_OrgID u = orgIDFromClaims num claims (op_Claims opts)"
proof -
  obtain keys where keys: "jwksSet pv opts now mw = (Some keys, mw1)"
    using assms by (auto simp: authenticateJWT_def split: prod.splits option.splits if_splits)
  then have "trusted_keys pv now mw mw1 keys" using jwksSet_trusted [of pv opts now mw keys] by simp
  then show ?thesis
    using assms keys unfolding vouched_def
    by (fastforce simp: authenticateJWT_def user_of_claims_simps split: option.splits if_splits)
qed

lemma authenticateUserInfo_vouched:
  assumes "authenticateUserInfo lo num pv opts now token mw1 = (Some u, mw2)"
  shows "\<exists>claims. vouched pv opts now mw mw2 token (us_Sub u) claims \<and> us_Sub u \<noteq> [] \<and>
    us_OrgID u = orgIDFromClaims num claims (op_Claims opts)"
  using assms unfolding vouched_def
  by (fastforce simp: authenticateUserInfo_def userinfoEndpoint_def Let_def user_of_claims_simps
      split: prod.splits option.splits userinfo.splits if_splits)

section \<open>The user of a request\<close>

lemma authenticate_user:
  assumes "authenticate lo num pv opts now header mw = (Some u, mw')"
  shows "if op_DevAuth opts \<and> TrimSpace (header ''X-Dev-User-Sub'') \<noteq> []
    then us_Sub u = TrimSpace (header ''X-Dev-User-Sub'') \<and> us_OrgID u = TrimSpace (header ''X-Dev-User-Org'') \<and> mw' = mw
    else \<exists>token claims. bearer_token (header ''Authorization'') = Some token \<and> op_Issuer opts \<noteq> [] \<and> us_Sub u \<noteq> [] \<and>
      vouched pv opts now mw mw' token (us_Sub u) claims \<and>
      us_OrgID u = (if TrimSpace (header ''X-Workspace-Org'') \<noteq> [] then TrimSpace (header ''X-Workspace-Org'')
                    else orgIDFromClaims num claims (op_Claims opts))"
proof (cases "op_DevAuth opts \<and> TrimSpace (header ''X-Dev-User-Sub'') \<noteq> []")
  case True
  then show ?thesis using assms by (auto simp: authenticate_def Let_def)
next
  case False
  obtain token v mw1 where t: "bearer_token (header ''Authorization'') = Some token" "op_Issuer opts \<noteq> []"
    and u: "u = choose_org (header ''X-Workspace-Org'') v"
    and v: "authenticateJWT lo num pv opts now token mw = (Some v, mw') \<or>
       authenticateUserInfo lo num pv opts now token mw1 = (Some v, mw')"
    using assms False by (auto simp: authenticate_def Let_def split: option.splits prod.splits if_splits)
  obtain claims where c: "vouched pv opts now mw mw' token (us_Sub v) claims" "us_Sub v \<noteq> []"
      "us_OrgID v = orgIDFromClaims num claims (op_Claims opts)"
    using v authenticateJWT_vouched [of lo num pv opts now token mw v mw']
      authenticateUserInfo_vouched [of lo num pv opts now token mw1 v mw' mw] by blast
  have "us_Sub u = us_Sub v" by (simp add: u choose_org_def)
  moreover have "us_OrgID u = (if TrimSpace (header ''X-Workspace-Org'') \<noteq> [] then TrimSpace (header ''X-Workspace-Org'')
      else orgIDFromClaims num claims (op_Claims opts))"
    by (simp add: u choose_org_def c(3))
  ultimately show ?thesis using False t c by auto
qed

text \<open>
  (C12) Who a request is from. With development sign-in the header names the user; without it, or without
  that header, the request carries a bearer token, an issuer is configured, and the provider vouches for
  the subject of the user, which is not empty. The organisation is that of the claims, unless the request
  asks for another one in X-Workspace-Org: that header is taken as it is.
\<close>

theorem authenticate_source:
  assumes "authenticate lo num pv opts now header mw = (Some u, mw')"
  shows "if op_DevAuth opts \<and> TrimSpace (header ''X-Dev-User-Sub'') \<noteq> []
    then us_Sub u = TrimSpace (header ''X-Dev-User-Sub'') \<and> us_OrgID u = TrimSpace (header ''X-Dev-User-Org'') \<and> mw' = mw
    else \<exists>token claims. bearer_token (header ''Authorization'') = Some token \<and> op_Issuer opts \<noteq> [] \<and> us_Sub u \<noteq> [] \<and>
      vouched pv opts now mw mw' token (us_Sub u) claims \<and>
      us_OrgID u = (if TrimSpace (header ''X-Workspace-Org'') \<noteq> [] then TrimSpace (header ''X-Workspace-Org'')
                    else orgIDFromClaims num claims (op_Claims opts))"
  by (rule authenticate_user [OF assms])

text \<open>An example: a provider whose only key set is \<open>()\<close> and which signed one token.\<close>

definition demo_provider :: "unit Provider" where
  "demo_provider = \<lparr>pv_discovery = (\<lambda>_. D_unreachable), pv_keys = (\<lambda>_. Some ()),
     pv_parse = (\<lambda>_ issuer _ token. if issuer = Some ''https://id'' \<and> token = ''jwt''
       then Some \<lparr>tk_Subject = ''ann'', tk_Private = [''org_id'' \<mapsto> JStr ''org''], tk_Get = Map.empty\<rparr> else None),
     pv_userinfo = (\<lambda>_ _. U_status 401)\<rparr>"

definition demo_options :: Options where
  "demo_options = \<lparr>op_DevAuth = False, op_Issuer = ''https://id'', op_InternalBase = ''https://id'', op_Audience = [],
     op_Claims = DefaultClaimNames, op_SkipIssuerCheck = False\<rparr>"

definition demo_cold :: "unit Middleware" where
  "demo_cold = \<lparr>mw_jwks = None, mw_jwksLoaded = 0, mw_jwksURI = [], mw_userinfoURL = [], mw_discoveredAt = 0\<rparr>"

definition demo_headers :: "string \<Rightarrow> string" where
  "demo_headers name = (if name = ''Authorization'' then ''Bearer jwt'' else if name = ''X-Dev-User-Sub'' then ''eve'' else [])"

lemma demo_signed_in:
  "\<exists>mw'. authenticate id id demo_provider demo_options 7 demo_headers demo_cold =
     (Some \<lparr>us_Sub = ''ann'', us_Email = [], us_EmailVerified = False, us_OrgID = ''org''\<rparr>, mw')"
proof -
  have header: "bearer_token ''Bearer jwt'' = Some ''jwt''" by code_simp
  have org: "orgIDFromClaims id [''org_id'' \<mapsto> JStr ''org''] DefaultClaimNames = ''org''" by code_simp
  show ?thesis
    by (simp add: authenticate_def demo_headers_def header demo_options_def authenticateJWT_def jwksSet_def keys_fresh_def demo_cold_def
        ensureDiscovery_def demo_provider_def Let_def user_of_claims_def token_claims_def choose_org_def org)
qed

theorem authenticate_source_witness:
  "\<exists>claims mw'. vouched demo_provider demo_options 7 demo_cold mw' ''jwt'' ''ann'' claims"
proof -
  have "bearer_token ''Bearer jwt'' = Some ''jwt''" by code_simp
  then show ?thesis
    using demo_signed_in authenticate_source [of id id demo_provider demo_options 7 demo_headers demo_cold]
    by (auto simp: demo_options_def demo_headers_def split: if_splits) (metis User.select_convs(1))
qed

end
