(* ===== verification/RouteProps.thy ===== *)
theory RouteProps
  imports Routes
begin

text \<open>
  The paths that a client builds and the routes they take: \<open>link\<close> is the address of a route, and the
  switch reads every address back.
\<close>

section \<open>Addresses\<close>

fun link_workspace :: "WorkspaceRoute \<Rightarrow> Method \<times> string list" where
  "link_workspace R_createWorkspace = (POST, [''workspaces''])"
| "link_workspace R_listWorkspaces = (GET, [''workspaces''])"
| "link_workspace (R_getWorkspace w) = (GET, [''workspaces'', w])"
| "link_workspace R_orgMembers = (GET, [''org-members''])"
| "link_workspace (R_listMembers w) = (GET, [''workspaces'', w, ''members''])"
| "link_workspace (R_getMember w m) = (GET, [''workspaces'', w, ''members'', m])"
| "link_workspace (R_syncMemberDisplayName w) = (PUT, [''workspaces'', w, ''members'', ''me''])"
| "link_workspace (R_addMember w) = (POST, [''workspaces'', w, ''members''])"
| "link_workspace (R_updateMemberRole w m) = (PATCH, [''workspaces'', w, ''members'', m])"
| "link_workspace (R_removeMember w m) = (DELETE, [''workspaces'', w, ''members'', m])"
| "link_workspace (R_leaveWorkspace w) = (POST, [''workspaces'', w, ''leave''])"
| "link_workspace (R_listAuditEvents w) = (GET, [''workspaces'', w, ''audit-events''])"
| "link_workspace (R_createInvitation w) = (POST, [''workspaces'', w, ''invitations''])"
| "link_workspace (R_listInvitations w) = (GET, [''workspaces'', w, ''invitations''])"
| "link_workspace (R_revokeInvitation w i) = (POST, [''workspaces'', w, ''invitations'', i, ''revoke''])"
| "link_workspace (R_resendInvitation w i) = (POST, [''workspaces'', w, ''invitations'', i, ''resend''])"
| "link_workspace (R_updateInvitationPolicy w i) = (PATCH, [''workspaces'', w, ''invitations'', i])"
| "link_workspace (R_previewInvitation t) = (GET, [''invitations'', t])"
| "link_workspace (R_acceptInvitation t) = (POST, [''invitations'', t, ''accept''])"

fun link_board :: "BoardRoute \<Rightarrow> Method \<times> string list" where
  "link_board (R_createBoard w) = (POST, [''workspaces'', w, ''boards''])"
| "link_board (R_listBoards w) = (GET, [''workspaces'', w, ''boards''])"
| "link_board (R_getBoard b) = (GET, [''boards'', b])"
| "link_board (R_archiveBoard b) = (POST, [''boards'', b, ''archive''])"
| "link_board (R_unarchiveBoard b) = (POST, [''boards'', b, ''unarchive''])"
| "link_board (R_createColumn b) = (POST, [''boards'', b, ''columns''])"
| "link_board (R_renameColumn c) = (PATCH, [''columns'', c])"
| "link_board (R_deleteColumn c) = (DELETE, [''columns'', c])"
| "link_board (R_reorderColumns b) = (PATCH, [''boards'', b, ''columns'', ''reorder''])"
| "link_board (R_createCard c) = (POST, [''columns'', c, ''cards''])"
| "link_board (R_getCard k) = (GET, [''cards'', k])"
| "link_board (R_updateCard k) = (PATCH, [''cards'', k])"
| "link_board (R_moveCard k) = (PATCH, [''cards'', k, ''move''])"
| "link_board (R_createSprint b) = (POST, [''boards'', b, ''sprints''])"
| "link_board (R_listSprints b) = (GET, [''boards'', b, ''sprints''])"
| "link_board (R_getSprint k) = (GET, [''sprints'', k])"
| "link_board (R_updateSprint k) = (PATCH, [''sprints'', k])"
| "link_board (R_deleteSprint k) = (DELETE, [''sprints'', k])"
| "link_board (R_sprintBurndown k) = (GET, [''sprints'', k, ''burndown''])"

fun link_page :: "PageRoute \<Rightarrow> Method \<times> string list" where
  "link_page (R_createPage w) = (POST, [''workspaces'', w, ''pages''])"
| "link_page (R_pageTree w) = (GET, [''workspaces'', w, ''pages'', ''tree''])"
| "link_page (R_getPage k) = (GET, [''pages'', k])"
| "link_page (R_updatePage k) = (PATCH, [''pages'', k])"
| "link_page (R_archivePage k) = (POST, [''pages'', k, ''archive''])"
| "link_page (R_unarchivePage k) = (POST, [''pages'', k, ''unarchive''])"
| "link_page (R_listPageVersions k) = (GET, [''pages'', k, ''versions''])"
| "link_page (R_getPageVersion k n) = (GET, [''pages'', k, ''versions'', itoa (nat n)])"
| "link_page (R_diffPageVersions k) = (GET, [''pages'', k, ''diff''])"
| "link_page (R_restorePageVersion k) = (POST, [''pages'', k, ''restore''])"

fun link_doc :: "DocRoute \<Rightarrow> Method \<times> string list" where
  "link_doc (R_createDocument w) = (POST, [''workspaces'', w, ''documents''])"
| "link_doc (R_listDocuments w) = (GET, [''workspaces'', w, ''documents''])"
| "link_doc (R_getDocument k) = (GET, [''documents'', k])"
| "link_doc (R_updateDocument k) = (PATCH, [''documents'', k])"
| "link_doc (R_trashDocument k) = (POST, [''documents'', k, ''trash''])"
| "link_doc (R_untrashDocument k) = (POST, [''documents'', k, ''untrash''])"
| "link_doc R_issueCollabTicket = (POST, [''collab-tickets''])"

fun link_chat :: "ChatRoute \<Rightarrow> Method \<times> string list" where
  "link_chat (R_createChannel w) = (POST, [''workspaces'', w, ''channels''])"
| "link_chat (R_listChannels w) = (GET, [''workspaces'', w, ''channels''])"
| "link_chat (R_postMessage c) = (POST, [''channels'', c, ''messages''])"
| "link_chat (R_listMessages c) = (GET, [''channels'', c, ''messages''])"
| "link_chat (R_markChannelRead c) = (POST, [''channels'', c, ''read''])"
| "link_chat R_issueChatTicket = (POST, [''chat-tickets''])"

fun link_file :: "FileRoute \<Rightarrow> Method \<times> string list" where
  "link_file R_uploadConfig = (GET, [''uploads'', ''config''])"
| "link_file R_uploadLocal = (POST, [''uploads''])"
| "link_file R_linkRemote = (POST, [''uploads'', ''link''])"
| "link_file (R_attachPage k) = (POST, [''pages'', k, ''attachments''])"
| "link_file (R_listPageAttachments k) = (GET, [''pages'', k, ''attachments''])"
| "link_file (R_getFileMeta k) = (GET, [''files'', k])"
| "link_file (R_search w) = (GET, [''workspaces'', w, ''search''])"

fun link :: "Route \<Rightarrow> Method \<times> string list" where
  "link (W r) = link_workspace r"
| "link (B r) = link_board r"
| "link (P r) = link_page r"
| "link (D r) = link_doc r"
| "link (C r) = link_chat r"
| "link (F r) = link_file r"
| "link _ = (GET, [])"

definition address :: "Route \<Rightarrow> string" where
  "address r = path (''v1'' # snd (link r))"

text \<open>
  The routes whose address is read back: the arguments are not empty and have no slash, and do not
  collide with a word that an earlier case of the switch looks for at their place.
\<close>

definition segment :: "string \<Rightarrow> bool" where
  "segment x \<longleftrightarrow> x \<noteq> [] \<and> slash_free x"

fun routable :: "Route \<Rightarrow> bool" where
  "routable (W (R_getWorkspace w)) \<longleftrightarrow> w \<notin> {''search'', ''channels'', ''documents'', ''members'', ''audit-events'', ''invitations'', ''boards''}"
| "routable (W (R_getMember w m)) \<longleftrightarrow> m \<notin> {''search'', ''channels'', ''documents''}"
| "routable (W (R_updateMemberRole w m)) \<longleftrightarrow> m \<noteq> ''me''"
| "routable (W (R_removeMember w m)) \<longleftrightarrow> m \<noteq> ''me''"
| "routable (B (R_getBoard b)) \<longleftrightarrow> b \<noteq> ''sprints''"
| "routable (B (R_getSprint k)) \<longleftrightarrow> k \<noteq> ''burndown''"
| "routable (B (R_updateCard k)) \<longleftrightarrow> k \<noteq> ''move''"
| "routable (P (R_getPage k)) \<longleftrightarrow> k \<notin> {''versions'', ''diff'', ''attachments''}"
| "routable (P (R_listPageVersions k)) \<longleftrightarrow> k \<noteq> ''versions''"
| "routable (P (R_diffPageVersions k)) \<longleftrightarrow> k \<noteq> ''versions''"
| "routable (F (R_listPageAttachments k)) \<longleftrightarrow> k \<noteq> ''versions''"
| "routable (P (R_getPageVersion k n)) \<longleftrightarrow> 0 \<le> n \<and> fits_int n"
| "routable R_badVersion \<longleftrightarrow> False"
| "routable R_notFound \<longleftrightarrow> False"
| "routable R_nothing \<longleftrightarrow> False"
| "routable _ \<longleftrightarrow> True"

section \<open>Reading an address back\<close>

text \<open>The words of the switch as paths of segments.\<close>

lemma route_words:
  "''/accept'' = path [''accept'']" "''/archive'' = path [''archive'']" "''/attachments'' = path [''attachments'']"
  "''/audit-events'' = path [''audit-events'']" "''/boards'' = path [''boards'']" "''/burndown'' = path [''burndown'']"
  "''/cards'' = path [''cards'']" "''/channels'' = path [''channels'']" "''/columns'' = path [''columns'']"
  "''/columns/reorder'' = path [''columns'', ''reorder'']" "''/diff'' = path [''diff'']"
  "''/documents'' = path [''documents'']" "''/invitations'' = path [''invitations'']"
  "''/invitations/'' = mid ''invitations''" "''/leave'' = path [''leave'']" "''/members'' = path [''members'']"
  "''/members/'' = mid ''members''" "''/members/me'' = path [''members'', ''me'']" "''/messages'' = path [''messages'']"
  "''/move'' = path [''move'']" "''/pages'' = path [''pages'']" "''/pages/tree'' = path [''pages'', ''tree'']"
  "''/read'' = path [''read'']" "''/resend'' = path [''resend'']" "''/restore'' = path [''restore'']"
  "''/revoke'' = path [''revoke'']" "''/search'' = path [''search'']" "''/sprints'' = path [''sprints'']"
  "''/trash'' = path [''trash'']" "''/unarchive'' = path [''unarchive'']" "''/untrash'' = path [''untrash'']"
  "''/v1/boards/'' = dir [''v1'', ''boards'']" "''/v1/cards/'' = dir [''v1'', ''cards'']"
  "''/v1/channels/'' = dir [''v1'', ''channels'']" "''/v1/chat-tickets'' = path [''v1'', ''chat-tickets'']"
  "''/v1/collab-tickets'' = path [''v1'', ''collab-tickets'']" "''/v1/columns/'' = dir [''v1'', ''columns'']"
  "''/v1/documents/'' = dir [''v1'', ''documents'']" "''/v1/files/'' = dir [''v1'', ''files'']"
  "CHR ''/'' # CHR ''v'' # CHR ''1'' # mid ''invitations'' = dir [''v1'', ''invitations'']"
  "''/v1/org-members'' = path [''v1'', ''org-members'']" "''/v1/pages/'' = dir [''v1'', ''pages'']"
  "''/v1/sprints/'' = dir [''v1'', ''sprints'']" "''/v1/uploads'' = path [''v1'', ''uploads'']"
  "''/v1/uploads/config'' = path [''v1'', ''uploads'', ''config'']"
  "''/v1/uploads/link'' = path [''v1'', ''uploads'', ''link'']" "''/v1/workspaces'' = path [''v1'', ''workspaces'']"
  "''/v1/workspaces/'' = dir [''v1'', ''workspaces'']" "''/versions'' = path [''versions'']"
  "''/versions/'' = mid ''versions''"
  by (simp_all add: path_def dir_def mid_def)

lemma rel_one: "rel [x] = x"
  by simp

lemma segment_rules:
  "segment x \<Longrightarrow> slash_free x" "segment x \<Longrightarrow> x \<noteq> []" "slash_free []" "slash_free (c # s) \<longleftrightarrow> c \<noteq> CHR ''/'' \<and> slash_free s"
  by (auto simp: segment_def slash_free_def)

lemma itoa_simps: "slash_free (itoa k)" "itoa k \<noteq> []" "0 \<le> n \<Longrightarrow> fits_int n \<Longrightarrow> Atoi (itoa (nat n)) = Some n"
  using itoa_digits [of k] by (auto simp: slash_free_def itoa_no_slash fits_int_def Atoi_itoa)

declare join_with.simps [simp del]

lemma segment_parts: "segment (itoa k)" "segment (c # s) \<longleftrightarrow> c \<noteq> CHR ''/'' \<and> slash_free s"
  using itoa_simps(1,2) [of k] by (auto simp: segment_def slash_free_def)

lemmas reading = route_words goes_def segment_simps segment_rules itoa_simps rel_one
lemmas switch = route_def route_middle_def route_rest_def

lemma read_workspace: "list_all segment (snd (link (W r))) \<Longrightarrow> routable (W r) \<Longrightarrow> route (fst (link (W r))) (address (W r)) = W r"
  by (cases r) (simp_all add: address_def reading switch)

lemma read_board: "list_all segment (snd (link (B r))) \<Longrightarrow> routable (B r) \<Longrightarrow> route (fst (link (B r))) (address (B r)) = B r"
  by (cases r) (simp_all add: address_def reading switch)

lemma read_page: "list_all segment (snd (link (P r))) \<Longrightarrow> routable (P r) \<Longrightarrow> route (fst (link (P r))) (address (P r)) = P r"
  by (cases r) (simp_all add: address_def reading switch)

lemma read_doc: "list_all segment (snd (link (D r))) \<Longrightarrow> routable (D r) \<Longrightarrow> route (fst (link (D r))) (address (D r)) = D r"
  by (cases r) (simp_all add: address_def reading switch)

lemma read_chat: "list_all segment (snd (link (C r))) \<Longrightarrow> routable (C r) \<Longrightarrow> route (fst (link (C r))) (address (C r)) = C r"
  by (cases r) (simp_all add: address_def reading switch)

lemma read_file: "list_all segment (snd (link (F r))) \<Longrightarrow> routable (F r) \<Longrightarrow> route (fst (link (F r))) (address (F r)) = F r"
  by (cases r) (simp_all add: address_def reading switch)

text \<open>
  (C14) The switch reads back every address: a client that builds the path of an operation from its
  arguments reaches the handler of that operation with exactly these arguments. The arguments must not
  be empty nor contain a slash, and a few words are taken: a page called diff cannot be opened, a member
  whose subject is search cannot be looked up.
\<close>

theorem route_address:
  assumes "list_all segment (snd (link r))" and "routable r"
  shows "route (fst (link r)) (address r) = r"
  using assms by (cases r) (simp_all only: read_workspace read_board read_page read_doc read_chat read_file routable.simps)

theorem route_address_witness:
  "route PATCH (address (B (R_moveCard ''k''))) = B (R_moveCard ''k'') \<and>
   route GET (address (P (R_getPageVersion ''p'' 12))) = P (R_getPageVersion ''p'' 12)"
  using route_address [of "B (R_moveCard ''k'')"] route_address [of "P (R_getPageVersion ''p'' 12)"]
  by (simp add: segment_parts segment_rules fits_int_def)

end
