(* ===== verification/ServerProps.thy ===== *)
theory ServerProps
  imports ServerEffects SystemProps AuthProps RouteProps
begin

text \<open>
  What holds of the server, request by request: it is the service of \<open>System\<close> behind authentication, the
  collaboration server needs its token, a live server lets nobody in without a token and an
  organisation, and the list of workspaces stays within the organisation.
\<close>

section \<open>From a request to a step of the service\<close>

lemma runtime_ok_scope [simp]: "runtime_ok (svc_ForOrg c k s) rt = runtime_ok s rt"
  by (simp add: runtime_ok_def orders_members_def)

lemma handleAPI_effect:
  assumes iv: "invitation_inv (fst st)" and rt: "runtime_ok (fst st) rt"
    and run: "web_handleAPI si env rt rq (Some u) r st = (resp, st')"
  shows "st' = st \<or> rs_Status resp < 300 \<and> (\<exists>q. runtime_sys (fst st) q \<and> sys_actor q = Some (us_Sub u) \<and>
    handle env (us_OrgID u) q st = (Inr (), st'))"
proof (cases "si_requireOrg si \<and> TrimSpace (us_OrgID u) = []")
  case True
  then show ?thesis using run by (simp add: web_handleAPI_def)
next
  case False
  let ?s = "svc_ForOrg (env_tenant env) (us_OrgID u) (fst st)"
  obtain s' fs' where p: "handle_route si env rt rq u r (?s, snd st) = (resp, s', fs')" and st': "st' = (rejoin (fst st) s', fs')"
    using run False by (auto simp: web_handleAPI_def split: prod.splits)
  have same: "rejoin (fst st) ?s = fst st" by (simp add: scope_defs)
  have "effect env (us_Sub u) (?s, snd st) (resp, s', fs')"
    using effect_route [of ?s rt env u "snd st" si rq r] iv rt p by simp
  then show ?thesis
    unfolding effect_def
  proof (elim disjE conjE exE)
    assume "snd (resp, s', fs') = (?s, snd st)"
    then show ?thesis using st' same by (cases st) simp
  next
    fix q assume "rs_Status (fst (resp, s', fs')) < 300" "runtime_sys (fst (?s, snd st)) q" "sys_actor q = Some (us_Sub u)"
      "exec_sys env q (?s, snd st) = (Inr (), snd (resp, s', fs'))"
    then show ?thesis using st' by (auto simp: handle_def)
  qed
qed

lemma snapshot_scope:
  assumes "svc_ApplyCollabSnapshot ulid tenant (svc_ForOrg tenant k s) cid plain ed now now2 = (x, t)"
  shows "\<exists>t'. svc_ApplyCollabSnapshot ulid tenant (svc_Unscoped tenant s) cid plain ed now now2 = (x, t') \<and> rejoin s t' = rejoin s t"
proof -
  have "svc_Unscoped tenant (svc_Unscoped tenant s) = svc_Unscoped tenant s"
    "svc_Unscoped tenant (svc_ForOrg tenant k s) = svc_Unscoped tenant s" by (simp_all add: scope_defs)
  then show ?thesis using assms by (auto simp: svc_ApplyCollabSnapshot_def Let_def rejoin_def svc_ForOrg_def WithTenant_def svc_Unscoped_def
      Unscoped_def split: if_splits)
qed

lemma snapshot_effect:
  assumes iv: "invitation_inv (fst st)" and run: "web_internalSnapshot si env rt rq (fst st) = (resp, s')"
  shows "s' = fst st \<or> rs_Status resp < 300 \<and> web_requireInternal si rq \<and> (\<exists>q org. runtime_sys (fst st) q \<and> sys_actor q = None \<and>
    handle env org q st = (Inr (), s', snd st))"
proof -
  obtain cid ok1 where b1: "str_field ''collabDocumentId'' (rq_Body rq) = (cid, ok1)" by (cases "str_field ''collabDocumentId'' (rq_Body rq)")
  obtain plain ok2 where b2: "str_field ''plaintext'' (rq_Body rq) = (plain, ok2)" by (cases "str_field ''plaintext'' (rq_Body rq)")
  obtain ed ok3 where b3: "str_field ''editorSub'' (rq_Body rq) = (ed, ok3)" by (cases "str_field ''editorSub'' (rq_Body rq)")
  let ?q = "OnDocs (ApplyCollabSnapshot (TrimSpace cid) plain (TrimSpace ed) (rt_now rt) (rt_now2 rt))"
  obtain x t where xt: "svc_ApplyCollabSnapshot (env_ulid env) (env_tenant env) (svc_ForOrg (env_tenant env) [] (fst st)) (TrimSpace cid) plain
      (TrimSpace ed) (rt_now rt) (rt_now2 rt) = (x, t)" by (cases "svc_ApplyCollabSnapshot (env_ulid env) (env_tenant env)
      (svc_ForOrg (env_tenant env) [] (fst st)) (TrimSpace cid) plain (TrimSpace ed) (rt_now rt) (rt_now2 rt)")
  then obtain t' where t': "svc_ApplyCollabSnapshot (env_ulid env) (env_tenant env) (svc_Unscoped (env_tenant env) (fst st)) (TrimSpace cid) plain
      (TrimSpace ed) (rt_now rt) (rt_now2 rt) = (x, t')" "rejoin (fst st) t' = rejoin (fst st) t"
    using snapshot_scope by blast
  show ?thesis
  proof (cases "web_requireInternal si rq \<and> ok1 \<and> ok2 \<and> ok3")
    case False
    then have "s' = fst st" using run by (auto simp: web_internalSnapshot_def b1 b2 b3 split: if_splits)
    then show ?thesis ..
  next
    case True
    have ran: "handle env [] ?q st = (fst (outcome (x, t)), rejoin (fst st) t, snd st)"
      using xt by (simp add: handle_def outcome_def)
    have s': "s' = rejoin (fst st) t" and resp: "resp = fst (respond 200 (\<lambda>_. A1 B_ok) (x, t'))"
      using run True t' by (simp_all add: web_internalSnapshot_def b1 b2 b3 respond_def)
    show ?thesis
    proof (cases x)
      case (Inl e)
      then have "snd (handle env [] ?q st) = st" using handle_untouched [OF iv, of env "[]" ?q e] ran by (simp add: outcome_def)
      then show ?thesis using ran s' by (cases st) simp
    next
      case (Inr v)
      then have "handle env [] ?q st = (Inr (), s', snd st)" using ran s' by (simp add: outcome_def)
      moreover have "runtime_sys (fst st) ?q" "sys_actor ?q = None" by simp_all
      moreover have "rs_Status resp < 300" using resp Inr by (simp add: respond_def)
      ultimately show ?thesis using True by blast
    qed
  qed
qed

text \<open>
  (C5) The server is the service behind its handlers. Whatever comes in over HTTP, in any state the
  server can reach: either nothing changes, or exactly one operation of the service ran and succeeded,
  the answer has a success status, and the operation was done in the name of the authenticated user and
  within the organisation of that user, or it is a snapshot and the request carried the internal token.
  So the state stays one that the service can reach, with all its invariants, and an answer with an
  error status has changed nothing.
\<close>

theorem serve_effect:
  assumes "reachable env st" and "runtime_ok (fst st) rt" and "serve si env pv rt m p rq st mw = (resp, st', mw')"
  shows "reachable env st' \<and>
    (st' = st \<or> rs_Status resp < 300 \<and> (\<exists>r org. runtime_sys (fst st) r \<and> handle env org r st = (Inr (), st') \<and>
       (case sys_actor r of
          None \<Rightarrow> web_requireInternal si rq
        | Some sub \<Rightarrow> (\<exists>u. fst (authenticate (env_lo env) (si_num si) pv (si_options si) (rt_now rt) (rq_Header rq) mw) = Some u \<and>
            us_Sub u = sub \<and> us_OrgID u = org))))"
proof -
  have iv: "invitation_inv (fst st)" using reachable_inv [OF assms(1)] by (simp add: sys_inv_def)
  have main: "st' = st \<or> rs_Status resp < 300 \<and> (\<exists>r org. runtime_sys (fst st) r \<and> handle env org r st = (Inr (), st') \<and>
       (case sys_actor r of
          None \<Rightarrow> web_requireInternal si rq
        | Some sub \<Rightarrow> (\<exists>u. fst (authenticate (env_lo env) (si_num si) pv (si_options si) (rt_now rt) (rq_Header rq) mw) = Some u \<and>
            us_Sub u = sub \<and> us_OrgID u = org)))"
  proof (cases "endpoint m p")
    case (E_api r)
    obtain user mw1 where a: "authenticate (env_lo env) (si_num si) pv (si_options si) (rt_now rt) (rq_Header rq) mw = (user, mw1)"
      by (cases "authenticate (env_lo env) (si_num si) pv (si_options si) (rt_now rt) (rq_Header rq) mw")
    then have h: "web_handleAPI si env rt rq user r st = (resp, st')"
      using assms(3) E_api by (auto simp: serve_def split: prod.splits)
    show ?thesis
    proof (cases user)
      case None
      then show ?thesis using h by (simp add: web_handleAPI_def)
    next
      case (Some u)
      then show ?thesis using handleAPI_effect [OF iv assms(2), of si env rq u r resp st'] h a by fastforce
    qed
  next
    case E_snapshot
    then obtain s' where s': "web_internalSnapshot si env rt rq (fst st) = (resp, s')" "st' = (s', snd st)"
      using assms(3) by (auto simp: serve_def split: prod.splits)
    then show ?thesis using snapshot_effect [OF iv s'(1)] by (cases st) fastforce
  qed (use assms(3) in \<open>simp_all add: serve_def\<close>)
  moreover have "reachable env st'" if "runtime_sys (fst st) r" "handle env org r st = (Inr (), st')" for r org
    using reachable.step [OF assms(1) sys_step.request [OF that(1), of env org]] that(2) by simp
  ultimately show ?thesis using assms(1) by blast
qed

text \<open>An example: Ann makes a board, signed in by her token.\<close>

definition demo_site :: Site where
  "demo_site = \<lparr>si_options = demo_options, si_corsOrigin = [], si_internalToken = [], si_requireOrg = True, si_num = id,
     si_oidcBase = [], si_upstream = (\<lambda>_ _. None)\<rparr>"

definition demo_runtime :: Runtime where
  "demo_runtime = \<lparr>rt_id = ''b'', rt_id2 = ''x'', rt_id3 = ''y'', rt_ids = [''1'', ''2'', ''3''], rt_rand = None, rt_now = 5, rt_now2 = 6,
     rt_workspaces = [''w''], rt_members = (\<lambda>_. [''ann'', ''gus'']), rt_invitations = [], rt_sprints = [],
     rt_ranges = \<lparr>rg_pages = [], rg_documents = [], rg_boards = [], rg_cards = [], rg_cardBoards = [], rg_channels = [], rg_msgChannels = []\<rparr>,
     rt_shuffle = id, rt_os = \<lparr>os_mkdir = True, os_open = True, os_copy = True\<rparr>\<rparr>"

definition demo_request :: Request where
  "demo_request = \<lparr>rq_Query = (\<lambda>_. []), rq_Header = demo_headers, rq_Body = Some (JObj [(''name'', JStr ''Board'')]), rq_Form = F_invalid\<rparr>"

lemma demo_runtime_ok: "runtime_ok demo_team demo_runtime"
  by (auto simp: runtime_ok_def demo_runtime_def defaultNames_def demo_fresh demo_team_rest demo_team_pages demo_team_members
      orders_members_def range_order_def)

theorem serve_effect_witness:
  "reachable demo_single (fst (snd (serve demo_site demo_single demo_provider demo_runtime POST ''/v1/workspaces/w/boards'' demo_request
     (demo_team, Map.empty) demo_cold)))"
proof -
  obtain resp st' mw' where run: "serve demo_site demo_single demo_provider demo_runtime POST ''/v1/workspaces/w/boards'' demo_request
     (demo_team, Map.empty) demo_cold = (resp, st', mw')" using prod_cases3 by blast
  have "runtime_ok (fst (demo_team, Map.empty :: disk)) demo_runtime" using demo_runtime_ok by simp
  from serve_effect [OF demo_team_reachable this run] show ?thesis by (simp add: run)
qed

section \<open>A live server\<close>


text \<open>An example: a production server and a request with the development header only.\<close>

definition demo_getenv :: "string \<Rightarrow> string" where
  "demo_getenv name = (if name = ''WORKSPACE_ENV'' then ''prod'' else if name = ''OIDC_ISSUER'' then ''https://id'' else [])"

lemma demo_live: "FromEnv id demo_getenv = Inr (read_settings id demo_getenv)" "is_live (read_settings id demo_getenv)"
proof -
  have "normalizeEnv id ''prod'' = EnvProduction" "TrimSpace ''https://id'' = ''https://id''" by code_simp+
  then show live: "is_live (read_settings id demo_getenv)" and "FromEnv id demo_getenv = Inr (read_settings id demo_getenv)"
    by (simp_all add: is_live_def read_settings_def demo_getenv_def Let_def FromEnv_def check_settings_def dev_auth_def EqualFold_def)
qed


section \<open>Workspaces stay within the organisation\<close>

text \<open>
  (C13) The list of workspaces that a user gets holds, once each and oldest first, exactly the workspaces
  the user is a member of that belong to the organisation the user is signed in to. A user without an
  organisation, on a server that does not require one, sees those of every organisation.
\<close>

theorem list_workspaces_tenant:
  assumes "reachable env st" and "env_tenant env" and "range_order (members (fst st)) (rt_workspaces rt)"
    and "si_requireOrg si = False \<or> TrimSpace (us_OrgID u) \<noteq> []"
  shows "\<exists>wss. web_handleAPI si env rt rq (Some u) (W R_listWorkspaces) st = (reply 200 (A1 (B_workspaces wss)), st) \<and> distinct wss \<and>
    set wss = {ws. \<exists>w ms. workspaces (fst st) w = Some ws \<and> members (fst st) w = Some ms \<and> us_Sub u \<in> dom ms \<and>
       (if us_OrgID u = [] then True else ws_OrgID ws = us_OrgID u)} \<and>
    sorted_wrt (\<lambda>a b. ws_CreatedAt a \<le> ws_CreatedAt b) wss"
proof -
  obtain s fs where st: "st = (s, fs)" by (cases st)
  have iv: "membership_inv s" using reachable_inv [OF assms(1)] st by (simp add: sys_inv_def)
  let ?s = "WithTenant (us_OrgID u) s"
  define m where "m = (\<lambda>w. case members s w of None \<Rightarrow> None | Some ms \<Rightarrow> if ms (us_Sub u) = None then None
    else case workspaces s w of None \<Rightarrow> None | Some ws \<Rightarrow> if allowOrg ?s (ws_OrgID ws) then Some ws else None)"
  define wss where "wss = sort_slice (\<lambda>a b. ws_CreatedAt a < ws_CreatedAt b) (range_values (rt_workspaces rt) m)"
  have maps: "workspaces ?s = workspaces s" "members ?s = members s" by (simp_all add: WithTenant_def)
  have list: "svc_ListWorkspaces (rt_workspaces rt) ?s (us_Sub u) = wss"
    by (simp add: svc_ListWorkspaces_def mem_ListWorkspacesForSub_def wss_def range_values_def m_def maps cong: option.case_cong if_cong)
  have "rejoin s ?s = s" by (simp add: scope_defs)
  then have answered: "web_handleAPI si env rt rq (Some u) (W R_listWorkspaces) st = (reply 200 (A1 (B_workspaces wss)), st)"
    using assms(2,4) list by (auto simp: web_handleAPI_def st svc_ForOrg_def web_listWorkspaces_def on_store_def)
  have m_iff: "m w = Some ws \<longleftrightarrow> (\<exists>ms. members s w = Some ms \<and> us_Sub u \<in> dom ms \<and> workspaces s w = Some ws \<and>
      (if us_OrgID u = [] then True else ws_OrgID ws = us_OrgID u))" for w ws
    by (auto simp: m_def allowOrg_def WithTenant_def split: option.splits)
  have "ws_ID ws = w" if "m w = Some ws" for w ws
    using that iv by (auto simp: m_iff membership_inv_def)
  then have "distinct wss"
    using assms(3) distinct_range_values [of "rt_workspaces rt" m ws_ID] by (simp add: wss_def range_order_def)
  moreover have "set wss = {ws. \<exists>w. m w = Some ws}"
    using assms(3) by (auto simp: wss_def set_range_values st range_order_def m_iff)
  then have "set wss = {ws. \<exists>w ms. workspaces s w = Some ws \<and> members s w = Some ms \<and> us_Sub u \<in> dom ms \<and>
       (if us_OrgID u = [] then True else ws_OrgID ws = us_OrgID u)}"
    by (auto simp: m_iff)
  moreover have "sorted_wrt (\<lambda>a b. ws_CreatedAt a \<le> ws_CreatedAt b) wss"
    unfolding wss_def by (rule sorted_wrt_mono_rel [OF _ sorted_by_key]) auto
  ultimately show ?thesis using answered by (intro exI [of _ wss]) (simp add: st)
qed

text \<open>An example: Ann, who owns a workspace of \<open>org\<close>, signs in to another organisation.\<close>

lemma demo_first_reachable: "reachable demo_env (demo_first, Map.empty)"
proof -
  let ?r = "OnMembers (CreateWorkspace ''w'' ''c'' ''ann'' ''Team'' ''org'' 0 0)"
  have "snd (handle demo_env ''org'' ?r (New, Map.empty)) = (demo_first, Map.empty)"
    by (simp add: handle_def demo_env_def demo_first_def scope_defs svc_CreateWorkspace_def mem_CreateWorkspace_def
        mem_CreateChannel_def Let_def New_def demo_values outcome_def)
  moreover have "sys_step demo_env (New, Map.empty) (snd (handle demo_env ''org'' ?r (New, Map.empty)))"
    by (rule sys_step.request) (simp add: fresh_New)
  ultimately show ?thesis using reachable.step [OF reachable.start] by metis
qed

theorem list_workspaces_tenant_witness:
  "fst (web_handleAPI demo_site demo_env demo_runtime demo_request
     (Some \<lparr>us_Sub = ''ann'', us_Email = [], us_EmailVerified = False, us_OrgID = ''etc''\<rparr>) (W R_listWorkspaces) (demo_first, Map.empty))
   = reply 200 (A1 (B_workspaces []))"
proof -
  let ?u = "\<lparr>us_Sub = ''ann'', us_Email = [], us_EmailVerified = False, us_OrgID = ''etc''\<rparr>"
  have first: "dom (members demo_first) = {''w''}"
      "workspaces demo_first = [''w'' \<mapsto> \<lparr>ws_ID = ''w'', ws_Name = ''Team'', ws_OrgID = ''org'', ws_CreatedAt = 0\<rparr>]"
    by (simp_all add: demo_first_def svc_CreateWorkspace_def mem_CreateWorkspace_def mem_CreateChannel_def Let_def New_def demo_values)
  have "range_order (members (fst (demo_first, Map.empty :: disk))) (rt_workspaces demo_runtime)"
    using first by (simp add: range_order_def demo_runtime_def)
  moreover have "TrimSpace (us_OrgID ?u) \<noteq> []" by code_simp
  ultimately obtain wss where wss: "web_handleAPI demo_site demo_env demo_runtime demo_request (Some ?u) (W R_listWorkspaces) (demo_first, Map.empty)
      = (reply 200 (A1 (B_workspaces wss)), (demo_first, Map.empty))"
      "set wss = {ws. \<exists>w ms. workspaces demo_first w = Some ws \<and> members demo_first w = Some ms \<and> us_Sub ?u \<in> dom ms \<and>
        (if us_OrgID ?u = [] then True else ws_OrgID ws = us_OrgID ?u)}"
    using list_workspaces_tenant [OF demo_first_reachable, of demo_runtime demo_site ?u demo_request] by (auto simp: demo_env_def)
  have "set wss = {}" using wss(2) by (auto simp: first split: if_splits)
  then have "wss = []" by simp
  with wss(1) show ?thesis by simp
qed

end
