(* ===== verification/PgTables.thy ===== *)
theory PgTables
  imports Store
begin

text \<open>
  The store over PostgreSQL: the tables of \<open>schema.sql\<close> as maps from primary keys to rows, the handle of
  \<open>store.go\<close> and \<open>rls.go\<close> with its tenant, the row level security policies, and the few forms of SQL that
  the methods use. A row is the record of \<open>Domain\<close> that the method scans it into.

  The database answers every statement; a timestamp has the microseconds of \<open>TIMESTAMPTZ\<close>, so a time
  comes back as it was written. What the database chooses is an argument: the order in which it scans a
  table (\<open>Scan\<close>).
\<close>

section \<open>Tables\<close>

record ReadRow =
  rd_ChannelID :: id
  rd_Sub :: string
  rd_LastReadSeq :: int
  rd_UpdatedAt :: time

record Tables =
  t_workspaces :: "id \<rightharpoonup> Workspace"
  t_members :: "id \<times> string \<rightharpoonup> Member"
  t_invitations :: "id \<rightharpoonup> Invitation"
  t_audits :: "id \<rightharpoonup> AuditEvent"
  t_boards :: "id \<rightharpoonup> Board"
  t_columns :: "id \<rightharpoonup> Column"
  t_sprints :: "id \<rightharpoonup> Sprint"
  t_cards :: "id \<rightharpoonup> Card"
  t_pages :: "id \<rightharpoonup> Page"
  t_documents :: "id \<rightharpoonup> Document"
  t_collabTickets :: "id \<rightharpoonup> CollabTicket"
  t_channels :: "id \<rightharpoonup> Channel"
  t_messages :: "id \<rightharpoonup> ChatMessage"
  t_reads :: "id \<times> string \<rightharpoonup> ReadRow"
  t_chatTickets :: "id \<rightharpoonup> ChatTicket"
  t_files :: "id \<rightharpoonup> StoredFile"
  t_pageFiles :: "id \<times> id \<rightharpoonup> id \<times> id"
  t_versions :: "id \<times> int \<rightharpoonup> PageVersion"

definition empty_tables :: Tables where
  "empty_tables = \<lparr>t_workspaces = Map.empty, t_members = Map.empty, t_invitations = Map.empty, t_audits = Map.empty,
     t_boards = Map.empty, t_columns = Map.empty, t_sprints = Map.empty, t_cards = Map.empty, t_pages = Map.empty,
     t_documents = Map.empty, t_collabTickets = Map.empty, t_channels = Map.empty, t_messages = Map.empty,
     t_reads = Map.empty, t_chatTickets = Map.empty, t_files = Map.empty, t_pageFiles = Map.empty, t_versions = Map.empty\<rparr>"

text \<open>The orders in which the database scans the tables.\<close>

record Scan =
  sc_members :: "(id \<times> string) list"
  sc_invitations :: "id list"
  sc_audits :: "id list"
  sc_boards :: "id list"
  sc_columns :: "id list"
  sc_sprints :: "id list"
  sc_cards :: "id list"
  sc_pages :: "id list"
  sc_documents :: "id list"
  sc_channels :: "id list"
  sc_messages :: "id list"
  sc_pageFiles :: "(id \<times> id) list"
  sc_versions :: "(id \<times> int) list"

definition scans :: "Tables \<Rightarrow> Scan \<Rightarrow> bool" where
  "scans t sc \<longleftrightarrow> range_order (t_members t) (sc_members sc) \<and> range_order (t_invitations t) (sc_invitations sc) \<and>
     range_order (t_audits t) (sc_audits sc) \<and> range_order (t_boards t) (sc_boards sc) \<and>
     range_order (t_columns t) (sc_columns sc) \<and> range_order (t_sprints t) (sc_sprints sc) \<and>
     range_order (t_cards t) (sc_cards sc) \<and> range_order (t_pages t) (sc_pages sc) \<and>
     range_order (t_documents t) (sc_documents sc) \<and> range_order (t_channels t) (sc_channels sc) \<and>
     range_order (t_messages t) (sc_messages sc) \<and> range_order (t_pageFiles t) (sc_pageFiles sc) \<and>
     range_order (t_versions t) (sc_versions sc)"

section \<open>The handle\<close>

text \<open>
  The pool, as far as it matters for row level security: whether the role it connects as is subject to
  the policies (the owner of a table is not, unless the table says \<open>FORCE\<close>), and what
  \<open>current_setting('app.tenant_id', true)\<close> is when the transaction has not set it: NULL, or the empty
  string on a connection where an earlier transaction had set it.
\<close>

record Pool =
  po_subject :: bool
  po_setting :: "string option"

record PgStore =
  pg_pool :: Pool
  pg_tenant :: string
  pg_skipTenant :: bool

definition pg_WithTenant :: "PgStore \<Rightarrow> string \<Rightarrow> PgStore" where
  "pg_WithTenant h tenantID = h\<lparr>pg_tenant := tenantID, pg_skipTenant := False\<rparr>"

definition pg_Unscoped :: "PgStore \<Rightarrow> PgStore" where
  "pg_Unscoped h = h\<lparr>pg_skipTenant := True\<rparr>"

text \<open>\<open>begin\<close> with \<open>setTenantLocal\<close>: the setting that the policies see in a transaction.\<close>

definition setTenantLocal :: "PgStore \<Rightarrow> string option" where
  "setTenantLocal h = (if pg_skipTenant h then po_setting (pg_pool h) else Some (pg_tenant h))"

definition row_tenant :: "PgStore \<Rightarrow> string option" where
  "row_tenant h = (if po_subject (pg_pool h) then setTenantLocal h else None)"

section \<open>Policies\<close>

definition app_tenant_matches :: "PgStore \<Rightarrow> string \<Rightarrow> bool" where
  "app_tenant_matches h orgID = (case row_tenant h of None \<Rightarrow> True | Some tenant \<Rightarrow> orgID = tenant)"

definition app_workspace_tenant_matches :: "PgStore \<Rightarrow> Tables \<Rightarrow> id \<Rightarrow> bool" where
  "app_workspace_tenant_matches h t wsID =
     (case row_tenant h of
        None \<Rightarrow> True
      | Some _ \<Rightarrow> (case t_workspaces t wsID of None \<Rightarrow> False | Some w \<Rightarrow> app_tenant_matches h (ws_OrgID w)))"

text \<open>The policies with a join: rows below a board, a channel or a page.\<close>

definition below_board :: "PgStore \<Rightarrow> Tables \<Rightarrow> id \<Rightarrow> bool" where
  "below_board h t boardID =
     (case row_tenant h of
        None \<Rightarrow> True
      | Some _ \<Rightarrow> (case t_boards t boardID of None \<Rightarrow> False | Some b \<Rightarrow> app_workspace_tenant_matches h t (bd_WorkspaceID b)))"

definition below_channel :: "PgStore \<Rightarrow> Tables \<Rightarrow> id \<Rightarrow> bool" where
  "below_channel h t channelID =
     (case row_tenant h of
        None \<Rightarrow> True
      | Some _ \<Rightarrow> (case t_channels t channelID of None \<Rightarrow> False | Some c \<Rightarrow> app_workspace_tenant_matches h t (ch_WorkspaceID c)))"

definition below_page :: "PgStore \<Rightarrow> Tables \<Rightarrow> id \<Rightarrow> bool" where
  "below_page h t pageID =
     (case row_tenant h of
        None \<Rightarrow> True
      | Some _ \<Rightarrow> (case t_pages t pageID of None \<Rightarrow> False | Some p \<Rightarrow> app_workspace_tenant_matches h t (pg_WorkspaceID p)))"

text \<open>
  What a statement sees of the tables. The tickets have no policy. The policy is the same for reading and
  for writing, and no statement changes what it looks at, so an \<open>UPDATE\<close> or \<open>DELETE\<close> of rows that are seen
  passes the check.
\<close>

definition keep :: "('v \<Rightarrow> bool) \<Rightarrow> ('k \<rightharpoonup> 'v) \<Rightarrow> ('k \<rightharpoonup> 'v)" where
  "keep P m = (\<lambda>k. case m k of None \<Rightarrow> None | Some v \<Rightarrow> if P v then Some v else None)"

definition view :: "PgStore \<Rightarrow> Tables \<Rightarrow> Tables" where
  "view h t =
     t\<lparr>t_workspaces := keep (\<lambda>w. app_tenant_matches h (ws_OrgID w)) (t_workspaces t),
       t_members := keep (\<lambda>m. app_workspace_tenant_matches h t (mb_WorkspaceID m)) (t_members t),
       t_invitations := keep (\<lambda>iv. app_workspace_tenant_matches h t (inv_WorkspaceID iv)) (t_invitations t),
       t_audits := keep (\<lambda>e. app_workspace_tenant_matches h t (ae_WorkspaceID e)) (t_audits t),
       t_boards := keep (\<lambda>b. app_workspace_tenant_matches h t (bd_WorkspaceID b)) (t_boards t),
       t_columns := keep (\<lambda>c. below_board h t (co_BoardID c)) (t_columns t),
       t_sprints := keep (\<lambda>sp. app_workspace_tenant_matches h t (sp_WorkspaceID sp)) (t_sprints t),
       t_cards := keep (\<lambda>c. below_board h t (ca_BoardID c)) (t_cards t),
       t_pages := keep (\<lambda>p. app_workspace_tenant_matches h t (pg_WorkspaceID p)) (t_pages t),
       t_documents := keep (\<lambda>d. app_workspace_tenant_matches h t (doc_WorkspaceID d)) (t_documents t),
       t_channels := keep (\<lambda>c. app_workspace_tenant_matches h t (ch_WorkspaceID c)) (t_channels t),
       t_messages := keep (\<lambda>m. below_channel h t (cm_ChannelID m)) (t_messages t),
       t_reads := keep (\<lambda>r. below_channel h t (rd_ChannelID r)) (t_reads t),
       t_files := keep (\<lambda>f. app_workspace_tenant_matches h t (sf_WorkspaceID f)) (t_files t),
       t_pageFiles := keep (\<lambda>(p, _). below_page h t p) (t_pageFiles t),
       t_versions := keep (\<lambda>v. below_page h t (pv_PageID v)) (t_versions t)\<rparr>"

section \<open>SQL\<close>

text \<open>
  \<open>INSERT\<close> of one row: the check of the policy and of foreign keys, then the primary key. \<open>isUnique\<close>
  tells the second failure from every other one.
\<close>

datatype sql_error = UniqueViolation | Rejected

definition insert_row :: "bool \<Rightarrow> 'k \<Rightarrow> 'v \<Rightarrow> ('k \<rightharpoonup> 'v) \<Rightarrow> sql_error + ('k \<rightharpoonup> 'v)" where
  "insert_row check k v m = (if \<not> check then Inl Rejected else if m k \<noteq> None then Inl UniqueViolation else Inr (m(k \<mapsto> v)))"

definition isUnique :: "sql_error \<Rightarrow> bool" where
  "isUnique e \<longleftrightarrow> e = UniqueViolation"

text \<open>\<open>SELECT ... WHERE\<close>, in the order of the scan.\<close>

definition select_rows :: "'k list \<Rightarrow> ('k \<rightharpoonup> 'v) \<Rightarrow> ('v \<Rightarrow> bool) \<Rightarrow> 'v list" where
  "select_rows ks m P = filter P (range_values ks m)"

text \<open>\<open>COALESCE(MAX(x) + 1, d)\<close> over the values of a query.\<close>

definition next_after :: "int \<Rightarrow> int list \<Rightarrow> int" where
  "next_after d xs = (if xs = [] then d else fold max xs (hd xs) + 1)"

text \<open>\<open>UPDATE ... SET ... WHERE id = $1\<close> on a row that may have gone.\<close>

definition update_row :: "'k \<Rightarrow> ('v \<Rightarrow> 'v) \<Rightarrow> ('k \<rightharpoonup> 'v) \<Rightarrow> ('k \<rightharpoonup> 'v)" where
  "update_row k f m = (case m k of None \<Rightarrow> m | Some v \<Rightarrow> m(k \<mapsto> f v))"

text \<open>The foreign key to \<open>workspaces\<close>, which no policy hides.\<close>

definition has_workspace :: "Tables \<Rightarrow> id \<Rightarrow> bool" where
  "has_workspace t wsID = (t_workspaces t wsID \<noteq> None)"

definition pg_workspaceExists :: "PgStore \<Rightarrow> Tables \<Rightarrow> id \<Rightarrow> unit result" where
  "pg_workspaceExists h t wsID = (if t_workspaces (view h t) wsID = None then Inl ErrNotFound else Inr ())"

end
