(* ===== verification/PgWorkspaces.thy ===== *)
theory PgWorkspaces
  imports PgTables MemWorkspaces
begin

text \<open>
  \<open>store/postgres/store.go\<close>: workspaces, members, invitations and audit events.
\<close>

section \<open>Workspaces\<close>

definition pg_CreateWorkspace ::
  "PgStore \<Rightarrow> Tables \<Rightarrow> id \<Rightarrow> string \<Rightarrow> string \<Rightarrow> string \<Rightarrow> time \<Rightarrow> Workspace result \<times> Tables" where
  "pg_CreateWorkspace h t nid name ownerSub orgID now =
     (let ws = \<lparr>ws_ID = nid, ws_Name = name, ws_OrgID = orgID, ws_CreatedAt = now\<rparr>;
          owner = \<lparr>mb_WorkspaceID = nid, mb_Sub = ownerSub, mb_DisplayName = DevDisplayName ownerSub,
                   mb_Role = RoleOwner, mb_JoinedAt = now\<rparr>
      in case insert_row (app_tenant_matches h orgID) nid ws (t_workspaces t) of
           Inl _ \<Rightarrow> (Inl ErrInternal, t)
         | Inr rows \<Rightarrow>
             (let t1 = t\<lparr>t_workspaces := rows\<rparr>
              in case insert_row (app_workspace_tenant_matches h t1 nid) (nid, ownerSub) owner (t_members t1) of
                   Inl _ \<Rightarrow> (Inl ErrInternal, t)
                 | Inr mrows \<Rightarrow> (Inr ws, t1\<lparr>t_members := mrows\<rparr>)))"

definition pg_ListWorkspacesForSub :: "PgStore \<Rightarrow> Tables \<Rightarrow> Scan \<Rightarrow> string \<Rightarrow> Workspace list" where
  "pg_ListWorkspacesForSub h t sc sub =
     (let v = view h t in
      sort_slice (\<lambda>a b. ws_CreatedAt a < ws_CreatedAt b)
        (List.map_filter (\<lambda>m. t_workspaces v (mb_WorkspaceID m))
           (select_rows (sc_members sc) (t_members v) (\<lambda>m. mb_Sub m = sub))))"

definition pg_GetWorkspace :: "PgStore \<Rightarrow> Tables \<Rightarrow> id \<Rightarrow> Workspace result" where
  "pg_GetWorkspace h t wsID = (case t_workspaces (view h t) wsID of None \<Rightarrow> Inl ErrNotFound | Some w \<Rightarrow> Inr w)"

section \<open>Members\<close>

definition pg_MemberRole :: "PgStore \<Rightarrow> Tables \<Rightarrow> id \<Rightarrow> string \<Rightarrow> role result" where
  "pg_MemberRole h t wsID sub =
     read_ok (pg_workspaceExists h t wsID) (\<lambda>_.
       case t_members (view h t) (wsID, sub) of None \<Rightarrow> Inl ErrForbidden | Some m \<Rightarrow> Inr (mb_Role m))"

definition pg_ListMembers :: "PgStore \<Rightarrow> Tables \<Rightarrow> Scan \<Rightarrow> id \<Rightarrow> Member list result" where
  "pg_ListMembers h t sc wsID =
     read_ok (pg_workspaceExists h t wsID) (\<lambda>_.
       Inr (sort_slice (\<lambda>a b. mb_JoinedAt a < mb_JoinedAt b)
              (select_rows (sc_members sc) (t_members (view h t)) (\<lambda>m. mb_WorkspaceID m = wsID))))"

definition pg_GetMember :: "PgStore \<Rightarrow> Tables \<Rightarrow> id \<Rightarrow> string \<Rightarrow> Member result" where
  "pg_GetMember h t wsID sub =
     read_ok (pg_workspaceExists h t wsID) (\<lambda>_.
       case t_members (view h t) (wsID, sub) of None \<Rightarrow> Inl ErrNotFound | Some m \<Rightarrow> Inr m)"

definition pg_AddMember ::
  "PgStore \<Rightarrow> Tables \<Rightarrow> id \<Rightarrow> string \<Rightarrow> role \<Rightarrow> time \<Rightarrow> Member result \<times> Tables" where
  "pg_AddMember h t wsID sub role now =
     guard_ok (pg_workspaceExists h t wsID) t (\<lambda>_.
       let m = \<lparr>mb_WorkspaceID = wsID, mb_Sub = sub, mb_DisplayName = DevDisplayName sub, mb_Role = role, mb_JoinedAt = now\<rparr>
       in case insert_row (app_workspace_tenant_matches h t wsID) (wsID, sub) m (t_members t) of
            Inl e \<Rightarrow> (Inl (if isUnique e then ErrConflict else ErrInternal), t)
          | Inr rows \<Rightarrow> (Inr m, t\<lparr>t_members := rows\<rparr>))"

definition pg_UpdateMemberDisplayName ::
  "PgStore \<Rightarrow> Tables \<Rightarrow> id \<Rightarrow> string \<Rightarrow> string \<Rightarrow> Member result \<times> Tables" where
  "pg_UpdateMemberDisplayName h t wsID sub displayName0 =
     (let displayName = TrimSpace displayName0 in
      if displayName = [] then (Inl ErrInvalid, t)
      else if t_members (view h t) (wsID, sub) = None then (Inl ErrNotFound, t)
      else (let t1 = t\<lparr>t_members := update_row (wsID, sub) (\<lambda>m. m\<lparr>mb_DisplayName := displayName\<rparr>) (t_members t)\<rparr>
            in (pg_GetMember h t1 wsID sub, t1)))"

definition pg_UpdateMemberRole ::
  "PgStore \<Rightarrow> Tables \<Rightarrow> id \<Rightarrow> string \<Rightarrow> role \<Rightarrow> Member result \<times> Tables" where
  "pg_UpdateMemberRole h t wsID sub role =
     (if t_members (view h t) (wsID, sub) = None then (Inl ErrNotFound, t)
      else (let t1 = t\<lparr>t_members := update_row (wsID, sub) (\<lambda>m. m\<lparr>mb_Role := role\<rparr>) (t_members t)\<rparr>
            in (pg_GetMember h t1 wsID sub, t1)))"

definition pg_RemoveMember :: "PgStore \<Rightarrow> Tables \<Rightarrow> id \<Rightarrow> string \<Rightarrow> unit result \<times> Tables" where
  "pg_RemoveMember h t wsID sub =
     (if t_members (view h t) (wsID, sub) = None then (Inl ErrNotFound, t)
      else (Inr (), t\<lparr>t_members := (t_members t)((wsID, sub) := None)\<rparr>))"

section \<open>Invitations\<close>

text \<open>The unique index on \<open>token_hash\<close> covers the rows that no policy shows.\<close>

definition hash_taken :: "Scan \<Rightarrow> Tables \<Rightarrow> string \<Rightarrow> bool" where
  "hash_taken sc t tokenHash = (select_rows (sc_invitations sc) (t_invitations t) (\<lambda>iv. inv_TokenHash iv = tokenHash) \<noteq> [])"

definition pg_CreateInvitation ::
  "PgStore \<Rightarrow> Tables \<Rightarrow> Scan \<Rightarrow> id \<Rightarrow> id \<Rightarrow> string \<Rightarrow> role \<Rightarrow> string \<Rightarrow> int \<Rightarrow> time \<Rightarrow> string \<Rightarrow> time
   \<Rightarrow> Invitation result \<times> Tables" where
  "pg_CreateInvitation h t sc nid wsID tokenHash role invitedEmail maxUses expiresAt invitedBy now =
     guard_ok (pg_workspaceExists h t wsID) t (\<lambda>_.
       let iv = \<lparr>inv_ID = nid, inv_WorkspaceID = wsID, inv_TokenHash = tokenHash, inv_Role = role,
                 inv_InvitedEmail = invitedEmail, inv_MaxUses = maxUses, inv_UseCount = 0, inv_ExpiresAt = expiresAt,
                 inv_InvitedBy = invitedBy, inv_CreatedAt = now, inv_RevokedAt = None\<rparr>
       in if hash_taken sc t tokenHash then (Inl ErrConflict, t)
          else case insert_row (app_workspace_tenant_matches h t wsID) nid iv (t_invitations t) of
                 Inl e \<Rightarrow> (Inl (if isUnique e then ErrConflict else ErrInternal), t)
               | Inr rows \<Rightarrow> (Inr iv, t\<lparr>t_invitations := rows\<rparr>))"

definition pg_ListInvitations :: "PgStore \<Rightarrow> Tables \<Rightarrow> Scan \<Rightarrow> id \<Rightarrow> Invitation list result" where
  "pg_ListInvitations h t sc wsID =
     read_ok (pg_workspaceExists h t wsID) (\<lambda>_.
       Inr (sort_slice (\<lambda>a b. inv_CreatedAt a > inv_CreatedAt b)
              (select_rows (sc_invitations sc) (t_invitations (view h t)) (\<lambda>iv. inv_WorkspaceID iv = wsID))))"

definition pg_GetInvitationByTokenHash :: "PgStore \<Rightarrow> Tables \<Rightarrow> Scan \<Rightarrow> string \<Rightarrow> Invitation result" where
  "pg_GetInvitationByTokenHash h t sc tokenHash =
     (case select_rows (sc_invitations sc) (t_invitations (view h t)) (\<lambda>iv. inv_TokenHash iv = tokenHash) of
        [] \<Rightarrow> Inl ErrNotFound
      | iv # _ \<Rightarrow> Inr iv)"

text \<open>A row of \<open>invitations\<close> with this identifier in this workspace.\<close>

definition workspace_invitation :: "PgStore \<Rightarrow> Tables \<Rightarrow> id \<Rightarrow> id \<Rightarrow> Invitation option" where
  "workspace_invitation h t wsID inviteID =
     (case t_invitations (view h t) inviteID of
        None \<Rightarrow> None
      | Some iv \<Rightarrow> if inv_WorkspaceID iv = wsID then Some iv else None)"

definition pg_UpdateInvitationPolicy ::
  "PgStore \<Rightarrow> Tables \<Rightarrow> id \<Rightarrow> id \<Rightarrow> role \<Rightarrow> string \<Rightarrow> int \<Rightarrow> time \<Rightarrow> Invitation result \<times> Tables" where
  "pg_UpdateInvitationPolicy h t wsID inviteID role invitedEmail maxUses expiresAt =
     guard_ok (pg_workspaceExists h t wsID) t (\<lambda>_.
       case workspace_invitation h t wsID inviteID of
         None \<Rightarrow> (Inl ErrNotFound, t)
       | Some iv0 \<Rightarrow>
           (if inv_RevokedAt iv0 \<noteq> None then (Inl ErrForbidden, t)
            else (let iv = iv0\<lparr>inv_Role := role, inv_InvitedEmail := invitedEmail, inv_MaxUses := maxUses,
                                inv_ExpiresAt := expiresAt\<rparr>
                  in (Inr iv, t\<lparr>t_invitations := (t_invitations t)(inviteID \<mapsto> iv)\<rparr>))))"

definition pg_RevokeInvitation ::
  "PgStore \<Rightarrow> Tables \<Rightarrow> id \<Rightarrow> id \<Rightarrow> time \<Rightarrow> (Invitation \<times> bool) result \<times> Tables" where
  "pg_RevokeInvitation h t wsID inviteID now =
     guard_ok (pg_workspaceExists h t wsID) t (\<lambda>_.
       case workspace_invitation h t wsID inviteID of
         None \<Rightarrow> (Inl ErrNotFound, t)
       | Some iv0 \<Rightarrow>
           (if inv_RevokedAt iv0 \<noteq> None then (Inr (iv0, False), t)
            else (let iv = iv0\<lparr>inv_RevokedAt := Some now\<rparr>
                  in (Inr (iv, True), t\<lparr>t_invitations := (t_invitations t)(inviteID \<mapsto> iv)\<rparr>))))"

text \<open>
  One transaction that locks the invitation. \<open>INSERT ... ON CONFLICT DO NOTHING\<close> tells a new member from
  an old one; the old one is then read.
\<close>

definition pg_AcceptInvitation ::
  "PgStore \<Rightarrow> Tables \<Rightarrow> id \<Rightarrow> string \<Rightarrow> time \<Rightarrow> (Invitation \<times> Member \<times> bool) result \<times> Tables" where
  "pg_AcceptInvitation h t inviteID sub now =
     (case t_invitations (view h t) inviteID of
        None \<Rightarrow> (Inl ErrNotFound, t)
      | Some iv \<Rightarrow>
          (if inv_RevokedAt iv \<noteq> None \<or> \<not> now < inv_ExpiresAt iv \<or> inv_UseCount iv \<ge> inv_MaxUses iv
           then (Inl ErrForbidden, t)
           else (let member = \<lparr>mb_WorkspaceID = inv_WorkspaceID iv, mb_Sub = sub, mb_DisplayName = DevDisplayName sub,
                               mb_Role = inv_Role iv, mb_JoinedAt = now\<rparr>
                 in case insert_row (app_workspace_tenant_matches h t (inv_WorkspaceID iv) \<and> has_workspace t (inv_WorkspaceID iv))
                           (inv_WorkspaceID iv, sub) member (t_members t) of
                      Inl Rejected \<Rightarrow> (Inl ErrInternal, t)
                    | Inl UniqueViolation \<Rightarrow>
                        (case t_members (view h t) (inv_WorkspaceID iv, sub) of
                           None \<Rightarrow> (Inl ErrNotFound, t)
                         | Some existing \<Rightarrow> (Inr (iv, existing, False), t))
                    | Inr rows \<Rightarrow>
                        (let iv' = iv\<lparr>inv_UseCount := inv_UseCount iv + 1\<rparr>
                         in (Inr (iv', member, True),
                             t\<lparr>t_members := rows, t_invitations := (t_invitations t)(inviteID \<mapsto> iv')\<rparr>)))))"

section \<open>Audit events\<close>

definition pg_AddAuditEvent :: "PgStore \<Rightarrow> Tables \<Rightarrow> AuditEvent \<Rightarrow> unit result \<times> Tables" where
  "pg_AddAuditEvent h t event =
     (case insert_row (app_workspace_tenant_matches h t (ae_WorkspaceID event) \<and> has_workspace t (ae_WorkspaceID event))
             (ae_ID event) event (t_audits t) of
        Inl _ \<Rightarrow> (Inl ErrInternal, t)
      | Inr rows \<Rightarrow> (Inr (), t\<lparr>t_audits := rows\<rparr>))"

definition pg_ListAuditEvents :: "PgStore \<Rightarrow> Tables \<Rightarrow> Scan \<Rightarrow> id \<Rightarrow> AuditEvent list result" where
  "pg_ListAuditEvents h t sc wsID =
     Inr (sort_slice (\<lambda>a b. ae_CreatedAt a > ae_CreatedAt b)
            (select_rows (sc_audits sc) (t_audits (view h t)) (\<lambda>e. ae_WorkspaceID e = wsID)))"

end
