(* ===== verification/PgBoards.thy ===== *)
theory PgBoards
  imports PgTables MemBoards
begin

text \<open>
  \<open>store/postgres/store.go\<close> and \<open>wiki.go\<close>: boards, columns, cards and sprints. Here the order of columns
  and cards is in their \<open>position\<close> alone. A method that writes in several statements does so in one
  transaction, but for \<open>DeleteSprint\<close>, whose two statements are two transactions.
\<close>

definition pg_boardExists :: "PgStore \<Rightarrow> Tables \<Rightarrow> id \<Rightarrow> unit result" where
  "pg_boardExists h t boardID = (if t_boards (view h t) boardID = None then Inl ErrNotFound else Inr ())"

section \<open>Boards\<close>

text \<open>The loop that inserts the default columns.\<close>

fun insert_columns :: "bool \<Rightarrow> Column list \<Rightarrow> (id \<rightharpoonup> Column) \<Rightarrow> sql_error + (id \<rightharpoonup> Column)" where
  "insert_columns check [] rows = Inr rows"
| "insert_columns check (c # cs) rows =
     (case insert_row check (co_ID c) c rows of Inl e \<Rightarrow> Inl e | Inr rows1 \<Rightarrow> insert_columns check cs rows1)"

definition pg_CreateBoard ::
  "PgStore \<Rightarrow> Tables \<Rightarrow> id \<Rightarrow> id list \<Rightarrow> id \<Rightarrow> string \<Rightarrow> time \<Rightarrow> (Board \<times> Column list) result \<times> Tables" where
  "pg_CreateBoard h t bid cids wsID name now =
     guard_ok (pg_workspaceExists h t wsID) t (\<lambda>_.
       let board = \<lparr>bd_ID = bid, bd_WorkspaceID = wsID, bd_Name = name, bd_CreatedAt = now, bd_ArchivedAt = None\<rparr>;
           cols = map (new_column bid now) (List.enumerate 0 (zip cids defaultNames))
       in case insert_row (app_workspace_tenant_matches h t wsID) bid board (t_boards t) of
            Inl _ \<Rightarrow> (Inl ErrInternal, t)
          | Inr rows \<Rightarrow>
              (let t1 = t\<lparr>t_boards := rows\<rparr>
               in case insert_columns (below_board h t1 bid) cols (t_columns t1) of
                    Inl _ \<Rightarrow> (Inl ErrInternal, t)
                  | Inr crows \<Rightarrow> (Inr (board, cols), t1\<lparr>t_columns := crows\<rparr>)))"

definition pg_ArchiveBoard :: "PgStore \<Rightarrow> Tables \<Rightarrow> id \<Rightarrow> time \<Rightarrow> unit result \<times> Tables" where
  "pg_ArchiveBoard h t boardID now =
     (case t_boards (view h t) boardID of
        None \<Rightarrow> (Inl ErrNotFound, t)
      | Some b \<Rightarrow>
          (if bd_ArchivedAt b \<noteq> None then (Inl ErrNotFound, t)
           else (Inr (), t\<lparr>t_boards := update_row boardID (\<lambda>b. b\<lparr>bd_ArchivedAt := Some now\<rparr>) (t_boards t)\<rparr>)))"

definition pg_UnarchiveBoard :: "PgStore \<Rightarrow> Tables \<Rightarrow> id \<Rightarrow> unit result \<times> Tables" where
  "pg_UnarchiveBoard h t boardID =
     (case t_boards (view h t) boardID of
        None \<Rightarrow> (Inl ErrNotFound, t)
      | Some b \<Rightarrow> (Inr (), t\<lparr>t_boards := update_row boardID (\<lambda>b. b\<lparr>bd_ArchivedAt := None\<rparr>) (t_boards t)\<rparr>))"

definition pg_ListBoards :: "PgStore \<Rightarrow> Tables \<Rightarrow> Scan \<Rightarrow> id \<Rightarrow> Board list result" where
  "pg_ListBoards h t sc wsID =
     read_ok (pg_workspaceExists h t wsID) (\<lambda>_.
       Inr (sort_slice (\<lambda>a b. bd_CreatedAt a < bd_CreatedAt b)
              (select_rows (sc_boards sc) (t_boards (view h t)) (\<lambda>b. bd_WorkspaceID b = wsID))))"

text \<open>\<open>ORDER BY column_id, position\<close>.\<close>

definition card_row_before :: "Card \<Rightarrow> Card \<Rightarrow> bool" where
  "card_row_before a b =
     (if ca_ColumnID a = ca_ColumnID b then ca_Position a < ca_Position b else ca_ColumnID a < ca_ColumnID b)"

definition pg_GetBoardDetail :: "PgStore \<Rightarrow> Tables \<Rightarrow> Scan \<Rightarrow> id \<Rightarrow> BoardDetail result" where
  "pg_GetBoardDetail h t sc boardID =
     (let v = view h t in
      case t_boards v boardID of
        None \<Rightarrow> Inl ErrNotFound
      | Some board \<Rightarrow>
          (let cols = sort_slice (\<lambda>a b. co_Position a < co_Position b)
                        (select_rows (sc_columns sc) (t_columns v) (\<lambda>c. co_BoardID c = boardID));
               rows = sort_slice card_row_before
                        (select_rows (sc_cards sc) (t_cards v) (\<lambda>c. ca_BoardID c = boardID));
               byCol = (\<lambda>columnID. filter (\<lambda>c. ca_ColumnID c = columnID) rows)
           in Inr \<lparr>bdd_Board = board,
                   bdd_Columns = map (\<lambda>col. \<lparr>cwc_Column = col, cwc_Cards = byCol (co_ID col)\<rparr>) cols\<rparr>))"

definition pg_BoardWorkspaceID :: "PgStore \<Rightarrow> Tables \<Rightarrow> id \<Rightarrow> id result" where
  "pg_BoardWorkspaceID h t boardID =
     (case t_boards (view h t) boardID of None \<Rightarrow> Inl ErrNotFound | Some b \<Rightarrow> Inr (bd_WorkspaceID b))"

definition pg_ColumnBoardID :: "PgStore \<Rightarrow> Tables \<Rightarrow> id \<Rightarrow> id result" where
  "pg_ColumnBoardID h t columnID =
     (case t_columns (view h t) columnID of None \<Rightarrow> Inl ErrNotFound | Some c \<Rightarrow> Inr (co_BoardID c))"

section \<open>Columns\<close>

definition pg_CreateColumn ::
  "PgStore \<Rightarrow> Tables \<Rightarrow> Scan \<Rightarrow> id \<Rightarrow> id \<Rightarrow> string \<Rightarrow> time \<Rightarrow> Column result \<times> Tables" where
  "pg_CreateColumn h t sc nid boardID name now =
     guard_ok (pg_boardExists h t boardID) t (\<lambda>_.
       let pos = next_after 0 (map co_Position
                   (select_rows (sc_columns sc) (t_columns (view h t)) (\<lambda>c. co_BoardID c = boardID)));
           col = \<lparr>co_ID = nid, co_BoardID = boardID, co_Name = name, co_Position = pos, co_CreatedAt = now\<rparr>
       in case insert_row (below_board h t boardID) nid col (t_columns t) of
            Inl _ \<Rightarrow> (Inl ErrInternal, t)
          | Inr rows \<Rightarrow> (Inr col, t\<lparr>t_columns := rows\<rparr>))"

definition pg_RenameColumn :: "PgStore \<Rightarrow> Tables \<Rightarrow> id \<Rightarrow> string \<Rightarrow> Column result \<times> Tables" where
  "pg_RenameColumn h t columnID name =
     (if t_columns (view h t) columnID = None then (Inl ErrNotFound, t)
      else (let t1 = t\<lparr>t_columns := update_row columnID (\<lambda>c. c\<lparr>co_Name := name\<rparr>) (t_columns t)\<rparr>
            in (case t_columns (view h t1) columnID of None \<Rightarrow> Inl ErrNotFound | Some col \<Rightarrow> Inr col, t1)))"

text \<open>The loop of \<open>UPDATE ... SET position = i WHERE id = ids[i]\<close>; \<open>applyPositions\<close> for cards.\<close>

definition column_to :: "nat \<Rightarrow> id \<Rightarrow> (id \<rightharpoonup> Column) \<Rightarrow> (id \<rightharpoonup> Column)" where
  "column_to i k = update_row k (\<lambda>c. c\<lparr>co_Position := int i\<rparr>)"

definition card_to :: "nat \<Rightarrow> id \<Rightarrow> (id \<rightharpoonup> Card) \<Rightarrow> (id \<rightharpoonup> Card)" where
  "card_to i k = update_row k (\<lambda>c. c\<lparr>ca_Position := int i\<rparr>)"

definition applyPositions :: "id list \<Rightarrow> (id \<rightharpoonup> Card) \<Rightarrow> (id \<rightharpoonup> Card)" where
  "applyPositions ids rows = fold_index card_to 0 ids rows"

text \<open>\<open>SELECT id FROM columns WHERE board_id = $1 ORDER BY position, id\<close>.\<close>

definition column_row_before :: "Column \<Rightarrow> Column \<Rightarrow> bool" where
  "column_row_before a b =
     (if co_Position a = co_Position b then co_ID a < co_ID b else co_Position a < co_Position b)"

definition board_column_ids :: "PgStore \<Rightarrow> Tables \<Rightarrow> Scan \<Rightarrow> id \<Rightarrow> id list" where
  "board_column_ids h t sc boardID =
     map co_ID (sort_slice column_row_before
       (select_rows (sc_columns sc) (t_columns (view h t)) (\<lambda>c. co_BoardID c = boardID)))"

definition pg_DeleteColumn :: "PgStore \<Rightarrow> Tables \<Rightarrow> Scan \<Rightarrow> id \<Rightarrow> unit result \<times> Tables" where
  "pg_DeleteColumn h t sc columnID =
     (let v = view h t in
      case t_columns v columnID of
        None \<Rightarrow> (Inl ErrNotFound, t)
      | Some col \<Rightarrow>
          (if length (select_rows (sc_cards sc) (t_cards v) (\<lambda>c. ca_ColumnID c = columnID)) > 0 then (Inl ErrInvalid, t)
           else if length (select_rows (sc_columns sc) (t_columns v) (\<lambda>c. co_BoardID c = co_BoardID col)) \<le> 1
           then (Inl ErrForbidden, t)
           else (let t1 = t\<lparr>t_columns := (t_columns t)(columnID := None)\<rparr>;
                     ids = board_column_ids h t1 sc (co_BoardID col)
                 in (Inr (), t1\<lparr>t_columns := fold_index column_to 0 ids (t_columns t1)\<rparr>))))"

definition pg_ReorderColumns :: "PgStore \<Rightarrow> Tables \<Rightarrow> Scan \<Rightarrow> id \<Rightarrow> id list \<Rightarrow> unit result \<times> Tables" where
  "pg_ReorderColumns h t sc boardID columnIDs =
     guard_ok (pg_boardExists h t boardID) t (\<lambda>_.
       let current = map co_ID (select_rows (sc_columns sc) (t_columns (view h t)) (\<lambda>c. co_BoardID c = boardID))
       in if length (remdups current) \<noteq> length columnIDs then (Inl ErrInvalid, t)
          else (case tick_off (set current) columnIDs of
                  None \<Rightarrow> (Inl ErrInvalid, t)
                | Some rest \<Rightarrow>
                    (if rest \<noteq> {} then (Inl ErrInvalid, t)
                     else (Inr (), t\<lparr>t_columns := fold_index column_to 0 columnIDs (t_columns t)\<rparr>))))"

section \<open>Cards\<close>

definition pg_CreateCard ::
  "PgStore \<Rightarrow> Tables \<Rightarrow> Scan \<Rightarrow> id \<Rightarrow> id \<Rightarrow> string \<Rightarrow> string \<Rightarrow> time \<Rightarrow> Card result \<times> Tables" where
  "pg_CreateCard h t sc nid columnID title description now =
     (let v = view h t in
      case t_columns v columnID of
        None \<Rightarrow> (Inl ErrNotFound, t)
      | Some col \<Rightarrow>
          (let pos = int (length (select_rows (sc_cards sc) (t_cards v) (\<lambda>c. ca_ColumnID c = columnID)));
               card = \<lparr>ca_ID = nid, ca_ColumnID = columnID, ca_BoardID = co_BoardID col, ca_Title = title,
                       ca_Description = description, ca_Position = pos, ca_Version = 1, ca_SprintID = [],
                       ca_CompletedAt = (if ColumnIsDone (co_Name col) then Some now else None), ca_AssigneeSub = [],
                       ca_Priority = [], ca_DueDate = None, ca_CreatedAt = now, ca_UpdatedAt = now\<rparr>
           in case insert_row (below_board h t (co_BoardID col)) nid card (t_cards t) of
                Inl _ \<Rightarrow> (Inl ErrInternal, t)
              | Inr rows \<Rightarrow> (Inr card, t\<lparr>t_cards := rows\<rparr>)))"

definition pg_GetCard :: "PgStore \<Rightarrow> Tables \<Rightarrow> id \<Rightarrow> Card result" where
  "pg_GetCard h t cardID = (case t_cards (view h t) cardID of None \<Rightarrow> Inl ErrNotFound | Some c \<Rightarrow> Inr c)"

definition pg_CardWorkspaceID :: "PgStore \<Rightarrow> Tables \<Rightarrow> id \<Rightarrow> id result" where
  "pg_CardWorkspaceID h t cardID =
     (case t_cards (view h t) cardID of
        None \<Rightarrow> Inl ErrNotFound
      | Some c \<Rightarrow> (case t_boards (view h t) (ca_BoardID c) of None \<Rightarrow> Inl ErrNotFound | Some b \<Rightarrow> Inr (bd_WorkspaceID b)))"

definition pg_UpdateCard ::
  "PgStore \<Rightarrow> Tables \<Rightarrow> id \<Rightarrow> string \<Rightarrow> string \<Rightarrow> id option \<Rightarrow> int \<Rightarrow> time \<Rightarrow> Card locked_result \<times> Tables" where
  "pg_UpdateCard h t cardID title description sprintID version now =
     (let v = view h t in
      case t_cards v cardID of
        None \<Rightarrow> (Inl (ErrNotFound, zero_Card), t)
      | Some c0 \<Rightarrow>
          (if ca_Version c0 \<noteq> version then (Inl (ErrConflict, c0), t)
           else let c1 = (if title \<noteq> [] then c0\<lparr>ca_Title := title\<rparr> else c0)\<lparr>ca_Description := description\<rparr>;
                    r = (case sprintID of
                           None \<Rightarrow> Inr c1
                         | Some sid \<Rightarrow>
                             (if sid = [] then Inr (c1\<lparr>ca_SprintID := []\<rparr>)
                              else (case t_sprints v sid of
                                      None \<Rightarrow> Inl ErrNotFound
                                    | Some sp \<Rightarrow>
                                        (if sp_BoardID sp \<noteq> ca_BoardID c1 then Inl ErrInvalid
                                         else Inr (c1\<lparr>ca_SprintID := sid\<rparr>)))))
                in (case r of
                      Inl e \<Rightarrow> (Inl (e, zero_Card), t)
                    | Inr c2 \<Rightarrow>
                        (let c = c2\<lparr>ca_Version := ca_Version c2 + 1, ca_UpdatedAt := now\<rparr>
                         in (Inr c, t\<lparr>t_cards := update_row cardID
                               (\<lambda>row. row\<lparr>ca_Title := ca_Title c, ca_Description := ca_Description c,
                                      ca_SprintID := ca_SprintID c, ca_Version := ca_Version c,
                                      ca_UpdatedAt := ca_UpdatedAt c\<rparr>) (t_cards t)\<rparr>)))))"

text \<open>\<open>SELECT id FROM cards WHERE column_id = $1 ORDER BY position, id\<close>.\<close>

definition card_position_before :: "Card \<Rightarrow> Card \<Rightarrow> bool" where
  "card_position_before a b =
     (if ca_Position a = ca_Position b then ca_ID a < ca_ID b else ca_Position a < ca_Position b)"

definition columnCardIDs :: "PgStore \<Rightarrow> Tables \<Rightarrow> Scan \<Rightarrow> id \<Rightarrow> id list" where
  "columnCardIDs h t sc columnID =
     map ca_ID (sort_slice card_position_before
       (select_rows (sc_cards sc) (t_cards (view h t)) (\<lambda>c. ca_ColumnID c = columnID)))"

definition reindexWithout :: "PgStore \<Rightarrow> Tables \<Rightarrow> Scan \<Rightarrow> id \<Rightarrow> id \<Rightarrow> Tables" where
  "reindexWithout h t sc columnID skipID =
     t\<lparr>t_cards := applyPositions (filter (\<lambda>k. k \<noteq> skipID) (columnCardIDs h t sc columnID)) (t_cards t)\<rparr>"

text \<open>
  The moved card is still in its old column while the identifiers of the target are read: when both are
  the same column, it is among them, and \<open>newIDs\<close> has it twice (\<open>PgStoreProps\<close>).
\<close>

definition pg_MoveCard ::
  "PgStore \<Rightarrow> Tables \<Rightarrow> Scan \<Rightarrow> id \<Rightarrow> id \<Rightarrow> int \<Rightarrow> int \<Rightarrow> time \<Rightarrow> Card locked_result \<times> Tables" where
  "pg_MoveCard h t sc cardID targetColumnID position0 version now =
     (let v = view h t in
      case t_cards v cardID of
        None \<Rightarrow> (Inl (ErrNotFound, zero_Card), t)
      | Some c0 \<Rightarrow>
     (if ca_Version c0 \<noteq> version then (Inl (ErrConflict, c0), t)
      else (case t_columns v targetColumnID of
        None \<Rightarrow> (Inl (ErrNotFound, zero_Card), t)
      | Some targetCol \<Rightarrow>
     (if co_BoardID targetCol \<noteq> ca_BoardID c0 then (Inl (ErrForbidden, zero_Card), t)
      else
        let t1 = reindexWithout h t sc (ca_ColumnID c0) cardID;
            ids = columnCardIDs h t1 sc targetColumnID;
            position1 = (if position0 < 0 then 0 else position0);
            position = (if position1 > int (length ids) then int (length ids) else position1);
            newIDs = take (nat position) ids @ [cardID] @ drop (nat position) ids;
            t2 = t1\<lparr>t_cards := applyPositions newIDs (t_cards t1)\<rparr>;
            completed = (if ColumnIsDone (co_Name targetCol)
                         then (if ca_CompletedAt c0 = None then Some now else ca_CompletedAt c0)
                         else None);
            c = c0\<lparr>ca_ColumnID := targetColumnID, ca_Position := position, ca_CompletedAt := completed,
                    ca_Version := ca_Version c0 + 1, ca_UpdatedAt := now\<rparr>
        in (Inr c, t2\<lparr>t_cards := update_row cardID
              (\<lambda>row. row\<lparr>ca_ColumnID := ca_ColumnID c, ca_Position := ca_Position c, ca_CompletedAt := ca_CompletedAt c,
                     ca_Version := ca_Version c, ca_UpdatedAt := ca_UpdatedAt c\<rparr>) (t_cards t2)\<rparr>)))))"

definition pg_ListCardsInWorkspace :: "PgStore \<Rightarrow> Tables \<Rightarrow> Scan \<Rightarrow> id \<Rightarrow> Card list result" where
  "pg_ListCardsInWorkspace h t sc wsID =
     read_ok (pg_workspaceExists h t wsID) (\<lambda>_.
       Inr (select_rows (sc_cards sc) (t_cards (view h t))
              (\<lambda>c. case t_boards (view h t) (ca_BoardID c) of None \<Rightarrow> False | Some b \<Rightarrow> bd_WorkspaceID b = wsID)))"

definition pg_ListCardsOnBoard :: "PgStore \<Rightarrow> Tables \<Rightarrow> Scan \<Rightarrow> id \<Rightarrow> Card list result" where
  "pg_ListCardsOnBoard h t sc boardID =
     read_ok (pg_boardExists h t boardID) (\<lambda>_.
       Inr (select_rows (sc_cards sc) (t_cards (view h t)) (\<lambda>c. ca_BoardID c = boardID)))"

section \<open>Sprints\<close>

definition pg_CreateSprint ::
  "PgStore \<Rightarrow> Tables \<Rightarrow> id \<Rightarrow> id \<Rightarrow> string \<Rightarrow> time \<Rightarrow> time \<Rightarrow> time \<Rightarrow> Sprint result \<times> Tables" where
  "pg_CreateSprint h t nid boardID name startAt endAt now =
     (case t_boards (view h t) boardID of
        None \<Rightarrow> (Inl ErrNotFound, t)
      | Some b \<Rightarrow>
          (let sp = \<lparr>sp_ID = nid, sp_BoardID = boardID, sp_WorkspaceID = bd_WorkspaceID b, sp_Name = name,
                     sp_StartAt = startAt, sp_EndAt = endAt, sp_CreatedAt = now\<rparr>
           in case insert_row (app_workspace_tenant_matches h t (bd_WorkspaceID b)) nid sp (t_sprints t) of
                Inl _ \<Rightarrow> (Inl ErrInternal, t)
              | Inr rows \<Rightarrow> (Inr sp, t\<lparr>t_sprints := rows\<rparr>)))"

text \<open>\<open>ORDER BY start_at, id\<close>, the order of the memory store.\<close>

definition pg_ListSprints :: "PgStore \<Rightarrow> Tables \<Rightarrow> Scan \<Rightarrow> id \<Rightarrow> Sprint list result" where
  "pg_ListSprints h t sc boardID =
     read_ok (pg_boardExists h t boardID) (\<lambda>_.
       Inr (sort_slice sprint_before
              (select_rows (sc_sprints sc) (t_sprints (view h t)) (\<lambda>sp. sp_BoardID sp = boardID))))"

definition pg_GetSprint :: "PgStore \<Rightarrow> Tables \<Rightarrow> id \<Rightarrow> Sprint result" where
  "pg_GetSprint h t sprintID = (case t_sprints (view h t) sprintID of None \<Rightarrow> Inl ErrNotFound | Some sp \<Rightarrow> Inr sp)"

definition pg_UpdateSprint ::
  "PgStore \<Rightarrow> Tables \<Rightarrow> id \<Rightarrow> string \<Rightarrow> time option \<Rightarrow> time option \<Rightarrow> time \<Rightarrow> Sprint result \<times> Tables" where
  "pg_UpdateSprint h t sprintID name startAt endAt now =
     guard_ok (pg_GetSprint h t sprintID) t (\<lambda>sp0.
       let sp1 = (if name \<noteq> [] then sp0\<lparr>sp_Name := name\<rparr> else sp0);
           sp2 = (case startAt of None \<Rightarrow> sp1 | Some x \<Rightarrow> sp1\<lparr>sp_StartAt := x\<rparr>);
           sp = (case endAt of None \<Rightarrow> sp2 | Some x \<Rightarrow> sp2\<lparr>sp_EndAt := x\<rparr>)
       in (Inr sp, t\<lparr>t_sprints := update_row sprintID
             (\<lambda>row. row\<lparr>sp_Name := sp_Name sp, sp_StartAt := sp_StartAt sp, sp_EndAt := sp_EndAt sp\<rparr>) (t_sprints t)\<rparr>))"

text \<open>\<open>UPDATE cards SET sprint_id = '' WHERE sprint_id = $1\<close>, on the cards that are seen.\<close>

definition pg_DeleteSprint :: "PgStore \<Rightarrow> Tables \<Rightarrow> id \<Rightarrow> unit result \<times> Tables" where
  "pg_DeleteSprint h t sprintID =
     (if t_sprints (view h t) sprintID = None then (Inl ErrNotFound, t)
      else (Inr (), t\<lparr>t_sprints := (t_sprints t)(sprintID := None),
                     t_cards := (\<lambda>k. map_option
                        (\<lambda>c. if below_board h t (ca_BoardID c) \<and> ca_SprintID c = sprintID then c\<lparr>ca_SprintID := []\<rparr> else c)
                        (t_cards t k))\<rparr>))"

end
