(* ===== verification/PgPages.thy ===== *)
theory PgPages
  imports PgTables MemPages MemDocs
begin

text \<open>
  \<open>store/postgres/wiki.go\<close>: pages and their versions, documents, the rooms
  of the collaboration server, its tickets and snapshots. The recursive query that archives a subtree has
  fuel for one round more than there are pages; it is enough on a forest (\<open>PgSimPages\<close>). A query out of
  fuel is one that does not end; it stands for the internal error.
\<close>

definition pg_pageExists :: "PgStore \<Rightarrow> Tables \<Rightarrow> id \<Rightarrow> unit result" where
  "pg_pageExists h t pageID = (if t_pages (view h t) pageID = None then Inl ErrNotFound else Inr ())"

section \<open>Parents\<close>

text \<open>
  The loop is that of the memory store, over the rows that the connection sees: in \<open>UpdatePage\<close> those of
  the transaction, in \<open>CreatePage\<close> those of a connection of the pool, on which nobody sets the tenant.
\<close>

definition validateParentTx :: "(id \<rightharpoonup> Page) \<Rightarrow> id \<Rightarrow> id \<Rightarrow> id \<Rightarrow> unit result" where
  "validateParentTx rows pageID wsID parentID =
     (if parentID = [] then Inr ()
      else if parentID = pageID then Inl ErrInvalid
      else (case rows parentID of
              None \<Rightarrow> Inl ErrNotFound
            | Some par \<Rightarrow>
                (if pg_WorkspaceID par \<noteq> wsID then Inl ErrInvalid
                 else parent_walk (page_count rows + 2) rows pageID {parentID} (pg_ParentID par))))"

definition validateParent :: "PgStore \<Rightarrow> Tables \<Rightarrow> id \<Rightarrow> id \<Rightarrow> id \<Rightarrow> unit result" where
  "validateParent h t pageID wsID parentID = validateParentTx (t_pages (view (pg_Unscoped h) t)) pageID wsID parentID"

section \<open>Creating and reading\<close>

text \<open>The unique index on \<open>collab_document_id\<close>.\<close>

definition page_room_taken :: "Scan \<Rightarrow> Tables \<Rightarrow> id \<Rightarrow> bool" where
  "page_room_taken sc t cid = (select_rows (sc_pages sc) (t_pages t) (\<lambda>p. pg_CollabDocumentID p = cid) \<noteq> [])"

definition pg_CreatePage ::
  "PgStore \<Rightarrow> Tables \<Rightarrow> Scan \<Rightarrow> id \<Rightarrow> id \<Rightarrow> id \<Rightarrow> id \<Rightarrow> string \<Rightarrow> string \<Rightarrow> string \<Rightarrow> time \<Rightarrow> Page result \<times> Tables" where
  "pg_CreatePage h t sc nid cid wsID parentID title body status now =
     guard_ok (pg_workspaceExists h t wsID) t (\<lambda>_.
     guard_ok (validateParent h t [] wsID parentID) t (\<lambda>_.
       let pos = next_after 0 (map pg_Position (select_rows (sc_pages sc) (t_pages (view h t))
                   (\<lambda>p. pg_WorkspaceID p = wsID \<and> pg_ParentID p = parentID)));
           page = \<lparr>pg_ID = nid, pg_WorkspaceID = wsID, pg_ParentID = parentID, pg_Title = title, pg_Body = body,
                   pg_Status = status, pg_Position = pos, pg_Version = 1, pg_CollabDocumentID = cid,
                   pg_CreatedAt = now, pg_UpdatedAt = now, pg_ArchivedAt = None\<rparr>
       in case insert_row (app_workspace_tenant_matches h t wsID \<and> \<not> page_room_taken sc t cid) nid page (t_pages t) of
            Inl _ \<Rightarrow> (Inl ErrInternal, t)
          | Inr rows \<Rightarrow> (Inr page, t\<lparr>t_pages := rows\<rparr>)))"

definition pg_GetPage :: "PgStore \<Rightarrow> Tables \<Rightarrow> id \<Rightarrow> Page result" where
  "pg_GetPage h t pageID = (case t_pages (view h t) pageID of None \<Rightarrow> Inl ErrNotFound | Some p \<Rightarrow> Inr p)"

definition pg_ListPages :: "PgStore \<Rightarrow> Tables \<Rightarrow> Scan \<Rightarrow> id \<Rightarrow> Page list result" where
  "pg_ListPages h t sc wsID =
     read_ok (pg_workspaceExists h t wsID) (\<lambda>_.
       Inr (select_rows (sc_pages sc) (t_pages (view h t)) (\<lambda>p. pg_WorkspaceID p = wsID)))"

definition pg_PageWorkspaceID :: "PgStore \<Rightarrow> Tables \<Rightarrow> id \<Rightarrow> id result" where
  "pg_PageWorkspaceID h t pageID =
     (case t_pages (view h t) pageID of None \<Rightarrow> Inl ErrNotFound | Some p \<Rightarrow> Inr (pg_WorkspaceID p))"

section \<open>Updating\<close>

definition pg_UpdatePage ::
  "PgStore \<Rightarrow> Tables \<Rightarrow> id \<Rightarrow> string option \<Rightarrow> string option \<Rightarrow> string option \<Rightarrow> id option \<Rightarrow> int \<Rightarrow> time
   \<Rightarrow> Page locked_result \<times> Tables" where
  "pg_UpdatePage h t pageID title body status parentID version now =
     (let v = view h t in
      case t_pages v pageID of
        None \<Rightarrow> (Inl (ErrNotFound, zero_Page), t)
      | Some p0 \<Rightarrow>
          (if pg_Version p0 \<noteq> version then (Inl (ErrConflict, p0), t)
           else guard_zero zero_Page
             (case parentID of None \<Rightarrow> Inr () | Some par \<Rightarrow> validateParentTx (t_pages v) pageID (pg_WorkspaceID p0) par) t
             (\<lambda>_. let p1 = (case parentID of None \<Rightarrow> p0 | Some par \<Rightarrow> p0\<lparr>pg_ParentID := par\<rparr>);
                      p2 = (case title of None \<Rightarrow> p1 | Some x \<Rightarrow> p1\<lparr>pg_Title := x\<rparr>);
                      p3 = (case body of None \<Rightarrow> p2 | Some b \<Rightarrow> p2\<lparr>pg_Body := b\<rparr>);
                      p4 = (case status of None \<Rightarrow> p3 | Some st \<Rightarrow> p3\<lparr>pg_Status := st\<rparr>);
                      p = p4\<lparr>pg_Version := pg_Version p4 + 1, pg_UpdatedAt := now\<rparr>
                  in (Inr p, t\<lparr>t_pages := update_row pageID
                        (\<lambda>row. row\<lparr>pg_ParentID := pg_ParentID p, pg_Title := pg_Title p, pg_Body := pg_Body p,
                               pg_Status := pg_Status p, pg_Version := pg_Version p, pg_UpdatedAt := pg_UpdatedAt p\<rparr>)
                        (t_pages t)\<rparr>))))"

section \<open>Archiving a page with everything below it\<close>

text \<open>
  \<open>WITH RECURSIVE tree\<close>: the rows found in the last round, joined with the pages on their parent, are the
  rows of the next round, until a round finds none (\<open>UNION ALL\<close> keeps duplicates).
\<close>

fun tree_rows :: "nat \<Rightarrow> id list \<Rightarrow> (id \<rightharpoonup> Page) \<Rightarrow> id list \<Rightarrow> id list option" where
  "tree_rows 0 ks rows front = (if front = [] then Some [] else None)"
| "tree_rows (Suc fuel) ks rows front =
     (if front = [] then Some []
      else map_option ((@) front)
        (tree_rows fuel ks rows
           (concat (map (\<lambda>parentID. map pg_ID (select_rows ks rows (\<lambda>p. pg_ParentID p = parentID))) front))))"

definition pg_set_archived :: "PgStore \<Rightarrow> Tables \<Rightarrow> Scan \<Rightarrow> id \<Rightarrow> time option \<Rightarrow> unit result \<times> Tables" where
  "pg_set_archived h t sc pageID at =
     (let v = view h t;
          roots = (case t_pages v pageID of None \<Rightarrow> [] | Some p \<Rightarrow> [pg_ID p])
      in case tree_rows (page_count (t_pages v) + 1) (sc_pages sc) (t_pages v) roots of
           None \<Rightarrow> (Inl ErrInternal, t)
         | Some ids \<Rightarrow>
             (if ids = [] then (Inl ErrNotFound, t)
              else (Inr (), t\<lparr>t_pages := fold (\<lambda>k. update_row k (\<lambda>p. p\<lparr>pg_ArchivedAt := at\<rparr>)) ids (t_pages t)\<rparr>)))"

definition pg_ArchivePage :: "PgStore \<Rightarrow> Tables \<Rightarrow> Scan \<Rightarrow> id \<Rightarrow> time \<Rightarrow> unit result \<times> Tables" where
  "pg_ArchivePage h t sc pageID now = pg_set_archived h t sc pageID (Some now)"

definition pg_UnarchivePage :: "PgStore \<Rightarrow> Tables \<Rightarrow> Scan \<Rightarrow> id \<Rightarrow> unit result \<times> Tables" where
  "pg_UnarchivePage h t sc pageID = pg_set_archived h t sc pageID None"

section \<open>Versions\<close>

text \<open>The rows of a page in the order of their numbers.\<close>

definition version_rows :: "PgStore \<Rightarrow> Tables \<Rightarrow> Scan \<Rightarrow> id \<Rightarrow> PageVersion list" where
  "version_rows h t sc pageID =
     sort_slice (\<lambda>a b. pv_Number a < pv_Number b)
       (select_rows (sc_versions sc) (t_versions (view h t)) (\<lambda>v. pv_PageID v = pageID))"

text \<open>The new row, and the end of the rows that are more than \<open>MaxPageVersions\<close> behind it.\<close>

definition pg_insert_version ::
  "PgStore \<Rightarrow> Tables \<Rightarrow> id \<Rightarrow> int \<Rightarrow> string \<Rightarrow> string \<Rightarrow> string \<Rightarrow> string \<Rightarrow> time \<Rightarrow> (PageVersion \<times> bool) result \<times> Tables" where
  "pg_insert_version h t pageID num title body status sub now =
     (let v = \<lparr>pv_PageID = pageID, pv_Number = num, pv_Title = title, pv_Status = status, pv_Body = body,
               pv_Sub = sub, pv_CreatedAt = now\<rparr>
      in case insert_row (below_page h t pageID) (pageID, num) v (t_versions t) of
           Inl _ \<Rightarrow> (Inl ErrInternal, t)
         | Inr rows \<Rightarrow>
             (let cutoff = num - int MaxPageVersions;
                  kept = (if num > int MaxPageVersions
                          then (\<lambda>(p, n). if p = pageID \<and> n \<le> cutoff then None else rows (p, n)) else rows)
              in (Inr (v, True), t\<lparr>t_versions := kept\<rparr>)))"

text \<open>\<open>ORDER BY number DESC LIMIT 1\<close> is the last of them.\<close>

definition pg_AppendPageVersionIfChanged ::
  "PgStore \<Rightarrow> Tables \<Rightarrow> Scan \<Rightarrow> id \<Rightarrow> string \<Rightarrow> string \<Rightarrow> string \<Rightarrow> string \<Rightarrow> time \<Rightarrow> (PageVersion \<times> bool) result \<times> Tables" where
  "pg_AppendPageVersionIfChanged h t sc pageID title body status sub now =
     guard_ok (pg_pageExists h t pageID) t (\<lambda>_.
       let rows = version_rows h t sc pageID;
           newest = (if rows = [] then None else Some (last rows))
       in case newest of
            Some l \<Rightarrow>
              (if pv_Title l = title \<and> pv_Body l = body \<and> pv_Status l = status then (Inr (l, False), t)
               else pg_insert_version h t pageID (pv_Number l + 1) title body status sub now)
          | None \<Rightarrow> pg_insert_version h t pageID 1 title body status sub now)"

definition pg_ListPageVersions :: "PgStore \<Rightarrow> Tables \<Rightarrow> Scan \<Rightarrow> id \<Rightarrow> PageVersion list result" where
  "pg_ListPageVersions h t sc pageID = read_ok (pg_pageExists h t pageID) (\<lambda>_. Inr (version_rows h t sc pageID))"

definition pg_GetPageVersion :: "PgStore \<Rightarrow> Tables \<Rightarrow> id \<Rightarrow> int \<Rightarrow> PageVersion result" where
  "pg_GetPageVersion h t pageID number =
     read_ok (pg_pageExists h t pageID) (\<lambda>_.
       case t_versions (view h t) (pageID, number) of None \<Rightarrow> Inl ErrNotFound | Some v \<Rightarrow> Inr v)"

section \<open>Documents\<close>

text \<open>There is no index of rooms: a room is looked up among the pages, then among the documents.\<close>

definition document_room_taken :: "Scan \<Rightarrow> Tables \<Rightarrow> id \<Rightarrow> bool" where
  "document_room_taken sc t cid = (select_rows (sc_documents sc) (t_documents t) (\<lambda>d. doc_CollabDocumentID d = cid) \<noteq> [])"

definition pg_CreateDocument ::
  "PgStore \<Rightarrow> Tables \<Rightarrow> Scan \<Rightarrow> id \<Rightarrow> id \<Rightarrow> id \<Rightarrow> string \<Rightarrow> string \<Rightarrow> time \<Rightarrow> Document result \<times> Tables" where
  "pg_CreateDocument h t sc nid cid wsID title body now =
     guard_ok (pg_workspaceExists h t wsID) t (\<lambda>_.
       let d = \<lparr>doc_ID = nid, doc_WorkspaceID = wsID, doc_Title = title, doc_Body = body, doc_CollabDocumentID = cid,
                doc_LastEditorSub = [], doc_CreatedAt = now, doc_UpdatedAt = now, doc_DeletedAt = None\<rparr>
       in case insert_row (app_workspace_tenant_matches h t wsID \<and> \<not> document_room_taken sc t cid) nid d (t_documents t) of
            Inl _ \<Rightarrow> (Inl ErrInternal, t)
          | Inr rows \<Rightarrow> (Inr d, t\<lparr>t_documents := rows\<rparr>))"

text \<open>\<open>ORDER BY created_at, id\<close>, the order of the memory store.\<close>

definition pg_ListDocuments :: "PgStore \<Rightarrow> Tables \<Rightarrow> Scan \<Rightarrow> id \<Rightarrow> Document list result" where
  "pg_ListDocuments h t sc wsID =
     read_ok (pg_workspaceExists h t wsID) (\<lambda>_.
       Inr (sort_slice document_before
              (select_rows (sc_documents sc) (t_documents (view h t)) (\<lambda>d. doc_WorkspaceID d = wsID))))"

definition pg_GetDocument :: "PgStore \<Rightarrow> Tables \<Rightarrow> id \<Rightarrow> Document result" where
  "pg_GetDocument h t docID = (case t_documents (view h t) docID of None \<Rightarrow> Inl ErrNotFound | Some d \<Rightarrow> Inr d)"

definition pg_UpdateDocumentTitle :: "PgStore \<Rightarrow> Tables \<Rightarrow> id \<Rightarrow> string \<Rightarrow> time \<Rightarrow> Document result \<times> Tables" where
  "pg_UpdateDocumentTitle h t docID title now =
     (case t_documents (view h t) docID of
        None \<Rightarrow> (Inl ErrNotFound, t)
      | Some d0 \<Rightarrow>
          (let d = d0\<lparr>doc_Title := title, doc_UpdatedAt := now\<rparr>
           in (Inr d, t\<lparr>t_documents := (t_documents t)(docID \<mapsto> d)\<rparr>)))"

definition pg_TrashDocument :: "PgStore \<Rightarrow> Tables \<Rightarrow> id \<Rightarrow> time \<Rightarrow> unit result \<times> Tables" where
  "pg_TrashDocument h t docID now =
     (case t_documents (view h t) docID of
        None \<Rightarrow> (Inl ErrNotFound, t)
      | Some d \<Rightarrow>
          (if doc_DeletedAt d \<noteq> None then (Inl ErrNotFound, t)
           else (Inr (), t\<lparr>t_documents := update_row docID (\<lambda>d. d\<lparr>doc_DeletedAt := Some now\<rparr>) (t_documents t)\<rparr>)))"

definition pg_RestoreDocument :: "PgStore \<Rightarrow> Tables \<Rightarrow> id \<Rightarrow> unit result \<times> Tables" where
  "pg_RestoreDocument h t docID =
     (case t_documents (view h t) docID of
        None \<Rightarrow> (Inl ErrNotFound, t)
      | Some d \<Rightarrow> (Inr (), t\<lparr>t_documents := update_row docID (\<lambda>d. d\<lparr>doc_DeletedAt := None\<rparr>) (t_documents t)\<rparr>))"

section \<open>Collaboration\<close>

definition pages_of_room :: "PgStore \<Rightarrow> Tables \<Rightarrow> Scan \<Rightarrow> id \<Rightarrow> Page list" where
  "pages_of_room h t sc cid = select_rows (sc_pages sc) (t_pages (view h t)) (\<lambda>p. pg_CollabDocumentID p = cid)"

definition documents_of_room :: "PgStore \<Rightarrow> Tables \<Rightarrow> Scan \<Rightarrow> id \<Rightarrow> Document list" where
  "documents_of_room h t sc cid =
     select_rows (sc_documents sc) (t_documents (view h t)) (\<lambda>d. doc_CollabDocumentID d = cid)"

definition pg_LookupCollab :: "PgStore \<Rightarrow> Tables \<Rightarrow> Scan \<Rightarrow> id \<Rightarrow> (string \<times> id) result" where
  "pg_LookupCollab h t sc cid =
     (case pages_of_room h t sc cid of
        p # _ \<Rightarrow> Inr (''page'', pg_ID p)
      | [] \<Rightarrow> (case documents_of_room h t sc cid of
                d # _ \<Rightarrow> Inr (''document'', doc_ID d)
              | [] \<Rightarrow> Inl ErrNotFound))"

text \<open>The error of the insertion is dropped: the ticket is answered whether or not it was stored.\<close>

definition pg_CreateTicket :: "PgStore \<Rightarrow> Tables \<Rightarrow> id \<Rightarrow> string \<Rightarrow> id \<Rightarrow> bool \<Rightarrow> time \<Rightarrow> CollabTicket \<times> Tables" where
  "pg_CreateTicket h t nid sub cid readOnly now =
     (let ticket = \<lparr>ct_ID = nid, ct_Sub = sub, ct_CollabDocumentID = cid, ct_ReadOnly = readOnly,
                    ct_ExpiresAt = now + CollabTicketTTL\<rparr>
      in (ticket, case insert_row True nid ticket (t_collabTickets t) of
                    Inl _ \<Rightarrow> t | Inr rows \<Rightarrow> t\<lparr>t_collabTickets := rows\<rparr>))"

definition pg_GetTicket :: "PgStore \<Rightarrow> Tables \<Rightarrow> id \<Rightarrow> CollabTicket result" where
  "pg_GetTicket h t ticketID = (case t_collabTickets (view h t) ticketID of None \<Rightarrow> Inl ErrNotFound | Some x \<Rightarrow> Inr x)"

definition pg_ApplyCollabSnapshot ::
  "PgStore \<Rightarrow> Tables \<Rightarrow> Scan \<Rightarrow> id \<Rightarrow> string \<Rightarrow> string \<Rightarrow> time \<Rightarrow> unit result \<times> Tables" where
  "pg_ApplyCollabSnapshot h t sc cid plaintext editorSub now =
     (let ps = pages_of_room h t sc cid;
          t1 = t\<lparr>t_pages := fold (\<lambda>p. update_row (pg_ID p) (\<lambda>row. row\<lparr>pg_Body := plaintext, pg_UpdatedAt := now\<rparr>)) ps
                   (t_pages t)\<rparr>
      in if length ps = 1 then (Inr (), t1)
         else let ds = documents_of_room h t1 sc cid;
                  t2 = t1\<lparr>t_documents := fold (\<lambda>d. update_row (doc_ID d)
                         (\<lambda>row. row\<lparr>doc_Body := plaintext, doc_UpdatedAt := now, doc_LastEditorSub := editorSub\<rparr>)) ds
                         (t_documents t1)\<rparr>
              in (if length ds \<noteq> 1 then (Inl ErrNotFound, t2) else (Inr (), t2)))"

end
