(* ===== verification/PgChat.thy ===== *)
theory PgChat
  imports PgPages MemChat
begin

text \<open>
  \<open>store/postgres/wiki.go\<close>: channels, messages, read cursors and chat tickets; then files.
\<close>

section \<open>Channels\<close>

definition pg_channelExists :: "PgStore \<Rightarrow> Tables \<Rightarrow> id \<Rightarrow> unit result" where
  "pg_channelExists h t channelID = (if t_channels (view h t) channelID = None then Inl ErrNotFound else Inr ())"

definition pg_CreateChannel :: "PgStore \<Rightarrow> Tables \<Rightarrow> id \<Rightarrow> id \<Rightarrow> string \<Rightarrow> time \<Rightarrow> Channel result \<times> Tables" where
  "pg_CreateChannel h t nid wsID name now =
     guard_ok (pg_workspaceExists h t wsID) t (\<lambda>_.
       let ch = \<lparr>ch_ID = nid, ch_WorkspaceID = wsID, ch_Name = name, ch_CreatedAt = now\<rparr>
       in case insert_row (app_workspace_tenant_matches h t wsID) nid ch (t_channels t) of
            Inl _ \<Rightarrow> (Inl ErrInternal, t)
          | Inr rows \<Rightarrow> (Inr ch, t\<lparr>t_channels := rows\<rparr>))"

definition pg_ListChannels :: "PgStore \<Rightarrow> Tables \<Rightarrow> Scan \<Rightarrow> id \<Rightarrow> Channel list result" where
  "pg_ListChannels h t sc wsID =
     read_ok (pg_workspaceExists h t wsID) (\<lambda>_.
       Inr (sort_slice
              (\<lambda>a b. if ch_CreatedAt a = ch_CreatedAt b then ch_ID a < ch_ID b else ch_CreatedAt a < ch_CreatedAt b)
              (select_rows (sc_channels sc) (t_channels (view h t)) (\<lambda>ch. ch_WorkspaceID ch = wsID))))"

definition pg_GetChannel :: "PgStore \<Rightarrow> Tables \<Rightarrow> id \<Rightarrow> Channel result" where
  "pg_GetChannel h t channelID = (case t_channels (view h t) channelID of None \<Rightarrow> Inl ErrNotFound | Some ch \<Rightarrow> Inr ch)"

section \<open>Messages\<close>

text \<open>The rows of a channel.\<close>

definition channel_rows :: "PgStore \<Rightarrow> Tables \<Rightarrow> Scan \<Rightarrow> id \<Rightarrow> ChatMessage list" where
  "channel_rows h t sc channelID = select_rows (sc_messages sc) (t_messages (view h t)) (\<lambda>m. cm_ChannelID m = channelID)"

text \<open>
  One transaction that locks the channel, so the number it takes is still the next one when the row is
  inserted; the unique index on channel and number is \<open>seq_taken\<close>.
\<close>

definition seq_taken :: "Scan \<Rightarrow> Tables \<Rightarrow> id \<Rightarrow> int \<Rightarrow> bool" where
  "seq_taken sc t channelID n =
     (select_rows (sc_messages sc) (t_messages t) (\<lambda>m. cm_ChannelID m = channelID \<and> cm_Seq m = n) \<noteq> [])"

definition pg_AppendMessage ::
  "PgStore \<Rightarrow> Tables \<Rightarrow> Scan \<Rightarrow> id \<Rightarrow> id \<Rightarrow> string \<Rightarrow> string \<Rightarrow> string list \<Rightarrow> id \<Rightarrow> time
   \<Rightarrow> ChatMessage result \<times> Tables" where
  "pg_AppendMessage h t sc nid channelID sub body mentions attachmentFileID now =
     guard_ok (pg_channelExists h t channelID) t (\<lambda>_.
       let seq = next_after 1 (map cm_Seq (channel_rows h t sc channelID));
           msg = \<lparr>cm_ID = nid, cm_ChannelID = channelID, cm_Sub = sub, cm_Body = body, cm_Mentions = mentions,
                  cm_AttachmentFileID = attachmentFileID, cm_Seq = seq, cm_CreatedAt = now\<rparr>
       in case insert_row (below_channel h t channelID \<and> \<not> seq_taken sc t channelID seq) nid msg (t_messages t) of
            Inl _ \<Rightarrow> (Inl ErrInternal, t)
          | Inr rows \<Rightarrow> (Inr msg, t\<lparr>t_messages := rows\<rparr>))"

definition pg_ListMessages :: "PgStore \<Rightarrow> Tables \<Rightarrow> Scan \<Rightarrow> id \<Rightarrow> int \<Rightarrow> ChatMessage list result" where
  "pg_ListMessages h t sc channelID afterSeq =
     read_ok (pg_channelExists h t channelID) (\<lambda>_.
       Inr (sort_slice (\<lambda>a b. cm_Seq a < cm_Seq b) (filter (\<lambda>m. cm_Seq m > afterSeq) (channel_rows h t sc channelID))))"

definition pg_CountMessagesAfter :: "PgStore \<Rightarrow> Tables \<Rightarrow> Scan \<Rightarrow> id \<Rightarrow> int \<Rightarrow> int result" where
  "pg_CountMessagesAfter h t sc channelID afterSeq =
     read_ok (pg_channelExists h t channelID) (\<lambda>_.
       Inr (int (length (filter (\<lambda>m. cm_Seq m > afterSeq) (channel_rows h t sc channelID)))))"

section \<open>Read cursors\<close>

definition pg_GetChannelRead :: "PgStore \<Rightarrow> Tables \<Rightarrow> id \<Rightarrow> string \<Rightarrow> int result" where
  "pg_GetChannelRead h t channelID sub =
     read_ok (pg_channelExists h t channelID) (\<lambda>_.
       case t_reads (view h t) (channelID, sub) of None \<Rightarrow> Inr 0 | Some r \<Rightarrow> Inr (rd_LastReadSeq r))"

text \<open>\<open>INSERT ... ON CONFLICT DO UPDATE\<close> with the greater of the two marks.\<close>

definition pg_UpsertChannelRead ::
  "PgStore \<Rightarrow> Tables \<Rightarrow> id \<Rightarrow> string \<Rightarrow> int \<Rightarrow> time \<Rightarrow> unit result \<times> Tables" where
  "pg_UpsertChannelRead h t channelID sub lastReadSeq now =
     (if lastReadSeq < 0 then (Inl ErrInvalid, t)
      else guard_ok (pg_channelExists h t channelID) t (\<lambda>_.
        let row = (case t_reads t (channelID, sub) of
                     None \<Rightarrow> \<lparr>rd_ChannelID = channelID, rd_Sub = sub, rd_LastReadSeq = lastReadSeq, rd_UpdatedAt = now\<rparr>
                   | Some r \<Rightarrow> r\<lparr>rd_LastReadSeq := max (rd_LastReadSeq r) lastReadSeq, rd_UpdatedAt := now\<rparr>)
        in (Inr (), t\<lparr>t_reads := (t_reads t)((channelID, sub) \<mapsto> row)\<rparr>)))"

section \<open>Chat tickets\<close>

definition pg_CreateChatTicket :: "PgStore \<Rightarrow> Tables \<Rightarrow> id \<Rightarrow> string \<Rightarrow> id \<Rightarrow> bool \<Rightarrow> time \<Rightarrow> ChatTicket \<times> Tables" where
  "pg_CreateChatTicket h t nid sub channelID readOnly now =
     (let ticket = \<lparr>cht_ID = nid, cht_Sub = sub, cht_ChannelID = channelID, cht_ReadOnly = readOnly,
                    cht_ExpiresAt = now + CollabTicketTTL\<rparr>
      in (ticket, case insert_row True nid ticket (t_chatTickets t) of
                    Inl _ \<Rightarrow> t | Inr rows \<Rightarrow> t\<lparr>t_chatTickets := rows\<rparr>))"

definition pg_GetChatTicket :: "PgStore \<Rightarrow> Tables \<Rightarrow> id \<Rightarrow> ChatTicket result" where
  "pg_GetChatTicket h t ticketID = (case t_chatTickets (view h t) ticketID of None \<Rightarrow> Inl ErrNotFound | Some x \<Rightarrow> Inr x)"

section \<open>Files\<close>

text \<open>
  \<open>store/postgres/wiki.go\<close>: the records of uploaded files and the attachments of pages. A record with an
  identifier that is taken is refused, where the memory store replaces the old one.
\<close>

definition pg_SaveFile :: "PgStore \<Rightarrow> Tables \<Rightarrow> StoredFile \<Rightarrow> unit result \<times> Tables" where
  "pg_SaveFile h t f =
     guard_ok (pg_workspaceExists h t (sf_WorkspaceID f)) t (\<lambda>_.
       case insert_row (app_workspace_tenant_matches h t (sf_WorkspaceID f)) (sf_ID f) f (t_files t) of
         Inl _ \<Rightarrow> (Inl ErrInternal, t)
       | Inr rows \<Rightarrow> (Inr (), t\<lparr>t_files := rows\<rparr>))"

definition pg_GetFile :: "PgStore \<Rightarrow> Tables \<Rightarrow> id \<Rightarrow> StoredFile result" where
  "pg_GetFile h t fileID = (case t_files (view h t) fileID of None \<Rightarrow> Inl ErrNotFound | Some f \<Rightarrow> Inr f)"

text \<open>\<open>INSERT ... ON CONFLICT DO NOTHING\<close>.\<close>

definition pg_AttachPageFile :: "PgStore \<Rightarrow> Tables \<Rightarrow> id \<Rightarrow> id \<Rightarrow> unit result \<times> Tables" where
  "pg_AttachPageFile h t pageID fileID =
     guard_ok (pg_pageExists h t pageID) t (\<lambda>_.
     guard_ok (pg_GetFile h t fileID) t (\<lambda>_.
       case insert_row (below_page h t pageID) (pageID, fileID) (pageID, fileID) (t_pageFiles t) of
         Inl Rejected \<Rightarrow> (Inl ErrInternal, t)
       | Inl UniqueViolation \<Rightarrow> (Inr (), t)
       | Inr rows \<Rightarrow> (Inr (), t\<lparr>t_pageFiles := rows\<rparr>)))"

text \<open>The join has no order: the attachments come as the scan finds them.\<close>

definition pg_ListPageFiles :: "PgStore \<Rightarrow> Tables \<Rightarrow> Scan \<Rightarrow> id \<Rightarrow> StoredFile list result" where
  "pg_ListPageFiles h t sc pageID =
     read_ok (pg_pageExists h t pageID) (\<lambda>_.
       Inr (List.map_filter (\<lambda>row. t_files (view h t) (snd row))
              (select_rows (sc_pageFiles sc) (t_pageFiles (view h t)) (\<lambda>row. fst row = pageID))))"

end
