(* ===== verification/StoreOps.thy ===== *)
theory StoreOps
  imports PgWorkspaces PgBoards PgPages PgChat
begin

text \<open>
  The interface \<open>store.Store\<close> of \<open>store/store.go\<close>: its methods as a datatype, what they answer, and the two
  implementations as functions that run an operation, \<open>mem_run\<close> on the memory store and \<open>pg_run\<close> on the
  tables. New identifiers are arguments of an operation. What a range over a map or the scan of a table
  leaves open is the argument \<open>Orders\<close> of the one and \<open>Scan\<close> of the other.
\<close>

section \<open>Operations and answers\<close>

datatype MemberOp =
    O_CreateWorkspace id string string string time
  | O_ListWorkspacesForSub string
  | O_GetWorkspace id
  | O_MemberRole id string
  | O_ListMembers id
  | O_GetMember id string
  | O_AddMember id string role time
  | O_UpdateMemberDisplayName id string string
  | O_UpdateMemberRole id string role
  | O_RemoveMember id string
  | O_CreateInvitation id id string role string int time string time
  | O_ListInvitations id
  | O_GetInvitationByTokenHash string
  | O_UpdateInvitationPolicy id id role string int time
  | O_RevokeInvitation id id time
  | O_AcceptInvitation id string time
  | O_AddAuditEvent AuditEvent
  | O_ListAuditEvents id

datatype BoardOp =
    O_CreateBoard id "id list" id string time
  | O_ArchiveBoard id time
  | O_UnarchiveBoard id
  | O_ListBoards id
  | O_GetBoardDetail id
  | O_BoardWorkspaceID id
  | O_ColumnBoardID id
  | O_CreateColumn id id string time
  | O_RenameColumn id string
  | O_DeleteColumn id
  | O_ReorderColumns id "id list"
  | O_CreateCard id id string string time
  | O_GetCard id
  | O_CardWorkspaceID id
  | O_UpdateCard id string string "id option" int time
  | O_MoveCard id id int int time
  | O_ListCardsInWorkspace id
  | O_ListCardsOnBoard id

datatype PageOp =
    O_CreatePage id id id id string string string time
  | O_GetPage id
  | O_ListPages id
  | O_PageWorkspaceID id
  | O_UpdatePage id "string option" "string option" "string option" "id option" int time
  | O_ArchivePage id time
  | O_UnarchivePage id

datatype DocOp =
    O_CreateDocument id id id string string time
  | O_ListDocuments id
  | O_GetDocument id
  | O_UpdateDocumentTitle id string time
  | O_TrashDocument id time
  | O_RestoreDocument id
  | O_LookupCollab id
  | O_CreateTicket id string id bool time
  | O_GetTicket id
  | O_ApplyCollabSnapshot id string string time

datatype ChatOp =
    O_CreateChannel id id string time
  | O_ListChannels id
  | O_GetChannel id
  | O_AppendMessage id id string string "string list" id time
  | O_ListMessages id int
  | O_CountMessagesAfter id int
  | O_GetChannelRead id string
  | O_UpsertChannelRead id string int time
  | O_CreateChatTicket id string id bool time
  | O_GetChatTicket id

datatype FileOp =
    O_SaveFile StoredFile
  | O_GetFile id
  | O_AttachPageFile id id
  | O_ListPageFiles id

datatype SprintOp =
    O_CreateSprint id id string time time time
  | O_ListSprints id
  | O_GetSprint id
  | O_UpdateSprint id string "time option" "time option" time
  | O_DeleteSprint id

datatype VersionOp =
    O_AppendPageVersionIfChanged id string string string string time
  | O_ListPageVersions id
  | O_GetPageVersion id int

datatype store_op =
    O_M MemberOp | O_B BoardOp | O_P PageOp | O_D DocOp | O_C ChatOp | O_F FileOp | O_S SprintOp | O_V VersionOp

text \<open>The values the methods return; a stale write also returns the thing as it is.\<close>

datatype answer =
    A_error error | A_unit unit | A_id id | A_number int | A_role role
  | A_workspace Workspace | A_workspaces "Workspace list" | A_member Member | A_members "Member list"
  | A_invitation Invitation | A_invitations "Invitation list" | A_revoked "Invitation \<times> bool"
  | A_accepted "Invitation \<times> Member \<times> bool" | A_events "AuditEvent list"
  | A_board "Board \<times> Column list" | A_boards "Board list" | A_detail BoardDetail | A_column Column
  | A_card Card | A_cards "Card list" | A_stale_card "error \<times> Card" | A_sprint Sprint | A_sprints "Sprint list"
  | A_page Page | A_pages "Page list" | A_stale_page "error \<times> Page" | A_version PageVersion
  | A_versions "PageVersion list" | A_version_added "PageVersion \<times> bool" | A_document Document
  | A_documents "Document list" | A_room "string \<times> id" | A_ticket CollabTicket | A_channel Channel
  | A_channels "Channel list" | A_message ChatMessage | A_messages "ChatMessage list" | A_chat_ticket ChatTicket
  | A_file StoredFile | A_files "StoredFile list"

definition answer_read :: "('a \<Rightarrow> answer) \<Rightarrow> 'a result \<Rightarrow> 's \<Rightarrow> answer \<times> 's" where
  "answer_read f r s = (case r of Inl e \<Rightarrow> A_error e | Inr x \<Rightarrow> f x, s)"

definition answer_write :: "('a \<Rightarrow> answer) \<Rightarrow> 'a result \<times> 's \<Rightarrow> answer \<times> 's" where
  "answer_write f p = answer_read f (fst p) (snd p)"

definition answer_locked :: "(error \<times> 'a \<Rightarrow> answer) \<Rightarrow> ('a \<Rightarrow> answer) \<Rightarrow> 'a locked_result \<times> 's \<Rightarrow> answer \<times> 's" where
  "answer_locked g f p = (case fst p of Inl e \<Rightarrow> g e | Inr x \<Rightarrow> f x, snd p)"

lemmas answer_defs = answer_read_def answer_write_def answer_locked_def

section \<open>The memory store\<close>

record Orders =
  od_workspaces :: "id list"
  od_members :: "id \<Rightarrow> string list"
  od_invitations :: "id list"
  od_shuffle :: "AuditEvent list \<Rightarrow> AuditEvent list"
  od_boards :: "id list"
  od_cards :: "id list"
  od_sprints :: "id list"
  od_pages :: "id list"
  od_documents :: "id list"
  od_channels :: "id list"

definition orders_ok :: "Store \<Rightarrow> Orders \<Rightarrow> bool" where
  "orders_ok s od \<longleftrightarrow> range_order (members s) (od_workspaces od) \<and>
     (\<forall>w ms. members s w = Some ms \<longrightarrow> range_order ms (od_members od w)) \<and>
     range_order (invitations s) (od_invitations od) \<and> (\<forall>xs. mset (od_shuffle od xs) = mset xs) \<and>
     range_order (boards s) (od_boards od) \<and> range_order (cards s) (od_cards od) \<and>
     range_order (sprints s) (od_sprints od) \<and> range_order (pages s) (od_pages od) \<and>
     range_order (documents s) (od_documents od) \<and> range_order (channels s) (od_channels od)"

fun mem_run_M :: "Orders \<Rightarrow> MemberOp \<Rightarrow> Store \<Rightarrow> answer \<times> Store" where
  "mem_run_M od (O_CreateWorkspace nid name owner org now) s =
     answer_write A_workspace (mem_CreateWorkspace s nid name owner org now)"
| "mem_run_M od (O_ListWorkspacesForSub sub) s = (A_workspaces (mem_ListWorkspacesForSub (od_workspaces od) s sub), s)"
| "mem_run_M od (O_GetWorkspace ws) s = answer_read A_workspace (mem_GetWorkspace s ws) s"
| "mem_run_M od (O_MemberRole ws sub) s = answer_read A_role (mem_MemberRole s ws sub) s"
| "mem_run_M od (O_ListMembers ws) s = answer_read A_members (mem_ListMembers (od_members od ws) s ws) s"
| "mem_run_M od (O_GetMember ws sub) s = answer_read A_member (mem_GetMember s ws sub) s"
| "mem_run_M od (O_AddMember ws sub role now) s = answer_write A_member (mem_AddMember s ws sub role now)"
| "mem_run_M od (O_UpdateMemberDisplayName ws sub name) s =
     answer_write A_member (mem_UpdateMemberDisplayName s ws sub name)"
| "mem_run_M od (O_UpdateMemberRole ws sub role) s = answer_write A_member (mem_UpdateMemberRole s ws sub role)"
| "mem_run_M od (O_RemoveMember ws sub) s = answer_write A_unit (mem_RemoveMember s ws sub)"
| "mem_run_M od (O_CreateInvitation nid ws hash role email uses expires who now) s =
     answer_write A_invitation (mem_CreateInvitation s nid ws hash role email uses expires who now)"
| "mem_run_M od (O_ListInvitations ws) s = answer_read A_invitations (mem_ListInvitations (od_invitations od) s ws) s"
| "mem_run_M od (O_GetInvitationByTokenHash hash) s =
     answer_read A_invitation (mem_GetInvitationByTokenHash (od_invitations od) s hash) s"
| "mem_run_M od (O_UpdateInvitationPolicy ws iv role email uses expires) s =
     answer_write A_invitation (mem_UpdateInvitationPolicy s ws iv role email uses expires)"
| "mem_run_M od (O_RevokeInvitation ws iv now) s = answer_write A_revoked (mem_RevokeInvitation s ws iv now)"
| "mem_run_M od (O_AcceptInvitation iv sub now) s = answer_write A_accepted (mem_AcceptInvitation s iv sub now)"
| "mem_run_M od (O_AddAuditEvent event) s = answer_write A_unit ((Inr (), mem_AddAuditEvent s event))"
| "mem_run_M od (O_ListAuditEvents ws) s = answer_read A_events (mem_ListAuditEvents (od_shuffle od) s ws) s"

fun mem_run_B :: "Orders \<Rightarrow> BoardOp \<Rightarrow> Store \<Rightarrow> answer \<times> Store" where
  "mem_run_B od (O_CreateBoard bid cids ws name now) s = answer_write A_board (mem_CreateBoard s bid cids ws name now)"
| "mem_run_B od (O_ArchiveBoard b now) s = answer_write A_unit (mem_ArchiveBoard s b now)"
| "mem_run_B od (O_UnarchiveBoard b) s = answer_write A_unit (mem_UnarchiveBoard s b)"
| "mem_run_B od (O_ListBoards ws) s = answer_read A_boards (mem_ListBoards (od_boards od) s ws) s"
| "mem_run_B od (O_GetBoardDetail b) s = answer_read A_detail (mem_GetBoardDetail s b) s"
| "mem_run_B od (O_BoardWorkspaceID b) s = answer_read A_id (mem_BoardWorkspaceID s b) s"
| "mem_run_B od (O_ColumnBoardID c) s = answer_read A_id (mem_ColumnBoardID s c) s"
| "mem_run_B od (O_CreateColumn nid b name now) s = answer_write A_column (mem_CreateColumn s nid b name now)"
| "mem_run_B od (O_RenameColumn c name) s = answer_write A_column (mem_RenameColumn s c name)"
| "mem_run_B od (O_DeleteColumn c) s = answer_write A_unit (mem_DeleteColumn s c)"
| "mem_run_B od (O_ReorderColumns b cs) s = answer_write A_unit (mem_ReorderColumns s b cs)"
| "mem_run_B od (O_CreateCard nid c title desc now) s = answer_write A_card (mem_CreateCard s nid c title desc now)"
| "mem_run_B od (O_GetCard k) s = answer_read A_card (mem_GetCard s k) s"
| "mem_run_B od (O_CardWorkspaceID k) s = answer_read A_id (mem_CardWorkspaceID s k) s"
| "mem_run_B od (O_UpdateCard k title desc sprint version now) s =
     answer_locked A_stale_card A_card (mem_UpdateCard s k title desc sprint version now)"
| "mem_run_B od (O_MoveCard k c pos version now) s = answer_locked A_stale_card A_card (mem_MoveCard s k c pos version now)"
| "mem_run_B od (O_ListCardsInWorkspace ws) s = answer_read A_cards (mem_ListCardsInWorkspace (od_cards od) s ws) s"
| "mem_run_B od (O_ListCardsOnBoard b) s = answer_read A_cards (mem_ListCardsOnBoard (od_cards od) s b) s"

fun mem_run_P :: "Orders \<Rightarrow> PageOp \<Rightarrow> Store \<Rightarrow> answer \<times> Store" where
  "mem_run_P od (O_CreatePage nid cid ws parent title body status now) s =
     answer_write A_page (mem_CreatePage s nid cid (od_pages od) ws parent title body status now)"
| "mem_run_P od (O_GetPage p) s = answer_read A_page (mem_GetPage s p) s"
| "mem_run_P od (O_ListPages ws) s = answer_read A_pages (mem_ListPages (od_pages od) s ws) s"
| "mem_run_P od (O_PageWorkspaceID p) s = answer_read A_id (mem_PageWorkspaceID s p) s"
| "mem_run_P od (O_UpdatePage p title body status parent version now) s =
     answer_locked A_stale_page A_page (mem_UpdatePage s p title body status parent version now)"
| "mem_run_P od (O_ArchivePage p now) s = answer_write A_unit (mem_ArchivePage s (od_pages od) p now)"
| "mem_run_P od (O_UnarchivePage p) s = answer_write A_unit (mem_UnarchivePage s (od_pages od) p)"

fun mem_run_D :: "Orders \<Rightarrow> DocOp \<Rightarrow> Store \<Rightarrow> answer \<times> Store" where
  "mem_run_D od (O_CreateDocument nid cid ws title body now) s =
     answer_write A_document (mem_CreateDocument s nid cid ws title body now)"
| "mem_run_D od (O_ListDocuments ws) s = answer_read A_documents (mem_ListDocuments (od_documents od) s ws) s"
| "mem_run_D od (O_GetDocument d) s = answer_read A_document (mem_GetDocument s d) s"
| "mem_run_D od (O_UpdateDocumentTitle d title now) s = answer_write A_document (mem_UpdateDocumentTitle s d title now)"
| "mem_run_D od (O_TrashDocument d now) s = answer_write A_unit (mem_TrashDocument s d now)"
| "mem_run_D od (O_RestoreDocument d) s = answer_write A_unit (mem_RestoreDocument s d)"
| "mem_run_D od (O_LookupCollab cid) s = answer_read A_room (mem_LookupCollab s cid) s"
| "mem_run_D od (O_CreateTicket nid sub cid ro now) s =
     (case mem_CreateTicket s nid sub cid ro now of (x, s1) \<Rightarrow> (A_ticket x, s1))"
| "mem_run_D od (O_GetTicket k) s = answer_read A_ticket (mem_GetTicket s k) s"
| "mem_run_D od (O_ApplyCollabSnapshot cid plain editor now) s =
     answer_write A_unit (mem_ApplyCollabSnapshot s cid plain editor now)"

fun mem_run_C :: "Orders \<Rightarrow> ChatOp \<Rightarrow> Store \<Rightarrow> answer \<times> Store" where
  "mem_run_C od (O_CreateChannel nid ws name now) s = answer_write A_channel (mem_CreateChannel s nid ws name now)"
| "mem_run_C od (O_ListChannels ws) s = answer_read A_channels (mem_ListChannels (od_channels od) s ws) s"
| "mem_run_C od (O_GetChannel c) s = answer_read A_channel (mem_GetChannel s c) s"
| "mem_run_C od (O_AppendMessage nid c sub body mentions att now) s =
     answer_write A_message (mem_AppendMessage s nid c sub body mentions att now)"
| "mem_run_C od (O_ListMessages c n) s = answer_read A_messages (mem_ListMessages s c n) s"
| "mem_run_C od (O_CountMessagesAfter c n) s = answer_read A_number (mem_CountMessagesAfter s c n) s"
| "mem_run_C od (O_GetChannelRead c sub) s = answer_read A_number (mem_GetChannelRead s c sub) s"
| "mem_run_C od (O_UpsertChannelRead c sub n now) s = answer_write A_unit (mem_UpsertChannelRead s c sub n)"
| "mem_run_C od (O_CreateChatTicket nid sub c ro now) s =
     (case mem_CreateChatTicket s nid sub c ro now of (x, s1) \<Rightarrow> (A_chat_ticket x, s1))"
| "mem_run_C od (O_GetChatTicket k) s = answer_read A_chat_ticket (mem_GetChatTicket s k) s"

fun mem_run_F :: "Orders \<Rightarrow> FileOp \<Rightarrow> Store \<Rightarrow> answer \<times> Store" where
  "mem_run_F od (O_SaveFile f) s = answer_write A_unit (mem_SaveFile s f)"
| "mem_run_F od (O_GetFile f) s = answer_read A_file (mem_GetFile s f) s"
| "mem_run_F od (O_AttachPageFile p f) s = answer_write A_unit (mem_AttachPageFile s p f)"
| "mem_run_F od (O_ListPageFiles p) s = answer_read A_files (mem_ListPageFiles s p) s"

fun mem_run_S :: "Orders \<Rightarrow> SprintOp \<Rightarrow> Store \<Rightarrow> answer \<times> Store" where
  "mem_run_S od (O_CreateSprint nid b name start stop now) s =
     answer_write A_sprint (mem_CreateSprint s nid b name start stop now)"
| "mem_run_S od (O_ListSprints b) s = answer_read A_sprints (mem_ListSprints (od_sprints od) s b) s"
| "mem_run_S od (O_GetSprint k) s = answer_read A_sprint (mem_GetSprint s k) s"
| "mem_run_S od (O_UpdateSprint k name start stop now) s = answer_write A_sprint (mem_UpdateSprint s k name start stop now)"
| "mem_run_S od (O_DeleteSprint k) s = answer_write A_unit (mem_DeleteSprint s k)"

fun mem_run_V :: "Orders \<Rightarrow> VersionOp \<Rightarrow> Store \<Rightarrow> answer \<times> Store" where
  "mem_run_V od (O_AppendPageVersionIfChanged p title body status sub now) s =
     answer_write A_version_added (mem_AppendPageVersionIfChanged s p title body status sub now)"
| "mem_run_V od (O_ListPageVersions p) s = answer_read A_versions (mem_ListPageVersions s p) s"
| "mem_run_V od (O_GetPageVersion p n) s = answer_read A_version (mem_GetPageVersion s p n) s"

fun mem_run :: "Orders \<Rightarrow> store_op \<Rightarrow> Store \<Rightarrow> answer \<times> Store" where
  "mem_run od (O_M op) s = mem_run_M od op s"
| "mem_run od (O_B op) s = mem_run_B od op s"
| "mem_run od (O_P op) s = mem_run_P od op s"
| "mem_run od (O_D op) s = mem_run_D od op s"
| "mem_run od (O_C op) s = mem_run_C od op s"
| "mem_run od (O_F op) s = mem_run_F od op s"
| "mem_run od (O_S op) s = mem_run_S od op s"
| "mem_run od (O_V op) s = mem_run_V od op s"

section \<open>The store over PostgreSQL\<close>

fun pg_run_M :: "PgStore \<Rightarrow> Scan \<Rightarrow> MemberOp \<Rightarrow> Tables \<Rightarrow> answer \<times> Tables" where
  "pg_run_M h sc (O_CreateWorkspace nid name owner org now) t =
     answer_write A_workspace (pg_CreateWorkspace h t nid name owner org now)"
| "pg_run_M h sc (O_ListWorkspacesForSub sub) t = (A_workspaces (pg_ListWorkspacesForSub h t sc sub), t)"
| "pg_run_M h sc (O_GetWorkspace ws) t = answer_read A_workspace (pg_GetWorkspace h t ws) t"
| "pg_run_M h sc (O_MemberRole ws sub) t = answer_read A_role (pg_MemberRole h t ws sub) t"
| "pg_run_M h sc (O_ListMembers ws) t = answer_read A_members (pg_ListMembers h t sc ws) t"
| "pg_run_M h sc (O_GetMember ws sub) t = answer_read A_member (pg_GetMember h t ws sub) t"
| "pg_run_M h sc (O_AddMember ws sub role now) t = answer_write A_member (pg_AddMember h t ws sub role now)"
| "pg_run_M h sc (O_UpdateMemberDisplayName ws sub name) t =
     answer_write A_member (pg_UpdateMemberDisplayName h t ws sub name)"
| "pg_run_M h sc (O_UpdateMemberRole ws sub role) t = answer_write A_member (pg_UpdateMemberRole h t ws sub role)"
| "pg_run_M h sc (O_RemoveMember ws sub) t = answer_write A_unit (pg_RemoveMember h t ws sub)"
| "pg_run_M h sc (O_CreateInvitation nid ws hash role email uses expires who now) t =
     answer_write A_invitation (pg_CreateInvitation h t sc nid ws hash role email uses expires who now)"
| "pg_run_M h sc (O_ListInvitations ws) t = answer_read A_invitations (pg_ListInvitations h t sc ws) t"
| "pg_run_M h sc (O_GetInvitationByTokenHash hash) t = answer_read A_invitation (pg_GetInvitationByTokenHash h t sc hash) t"
| "pg_run_M h sc (O_UpdateInvitationPolicy ws iv role email uses expires) t =
     answer_write A_invitation (pg_UpdateInvitationPolicy h t ws iv role email uses expires)"
| "pg_run_M h sc (O_RevokeInvitation ws iv now) t = answer_write A_revoked (pg_RevokeInvitation h t ws iv now)"
| "pg_run_M h sc (O_AcceptInvitation iv sub now) t = answer_write A_accepted (pg_AcceptInvitation h t iv sub now)"
| "pg_run_M h sc (O_AddAuditEvent event) t = answer_write A_unit (pg_AddAuditEvent h t event)"
| "pg_run_M h sc (O_ListAuditEvents ws) t = answer_read A_events (pg_ListAuditEvents h t sc ws) t"

fun pg_run_B :: "PgStore \<Rightarrow> Scan \<Rightarrow> BoardOp \<Rightarrow> Tables \<Rightarrow> answer \<times> Tables" where
  "pg_run_B h sc (O_CreateBoard bid cids ws name now) t = answer_write A_board (pg_CreateBoard h t bid cids ws name now)"
| "pg_run_B h sc (O_ArchiveBoard b now) t = answer_write A_unit (pg_ArchiveBoard h t b now)"
| "pg_run_B h sc (O_UnarchiveBoard b) t = answer_write A_unit (pg_UnarchiveBoard h t b)"
| "pg_run_B h sc (O_ListBoards ws) t = answer_read A_boards (pg_ListBoards h t sc ws) t"
| "pg_run_B h sc (O_GetBoardDetail b) t = answer_read A_detail (pg_GetBoardDetail h t sc b) t"
| "pg_run_B h sc (O_BoardWorkspaceID b) t = answer_read A_id (pg_BoardWorkspaceID h t b) t"
| "pg_run_B h sc (O_ColumnBoardID c) t = answer_read A_id (pg_ColumnBoardID h t c) t"
| "pg_run_B h sc (O_CreateColumn nid b name now) t = answer_write A_column (pg_CreateColumn h t sc nid b name now)"
| "pg_run_B h sc (O_RenameColumn c name) t = answer_write A_column (pg_RenameColumn h t c name)"
| "pg_run_B h sc (O_DeleteColumn c) t = answer_write A_unit (pg_DeleteColumn h t sc c)"
| "pg_run_B h sc (O_ReorderColumns b cs) t = answer_write A_unit (pg_ReorderColumns h t sc b cs)"
| "pg_run_B h sc (O_CreateCard nid c title desc now) t = answer_write A_card (pg_CreateCard h t sc nid c title desc now)"
| "pg_run_B h sc (O_GetCard k) t = answer_read A_card (pg_GetCard h t k) t"
| "pg_run_B h sc (O_CardWorkspaceID k) t = answer_read A_id (pg_CardWorkspaceID h t k) t"
| "pg_run_B h sc (O_UpdateCard k title desc sprint version now) t =
     answer_locked A_stale_card A_card (pg_UpdateCard h t k title desc sprint version now)"
| "pg_run_B h sc (O_MoveCard k c pos version now) t =
     answer_locked A_stale_card A_card (pg_MoveCard h t sc k c pos version now)"
| "pg_run_B h sc (O_ListCardsInWorkspace ws) t = answer_read A_cards (pg_ListCardsInWorkspace h t sc ws) t"
| "pg_run_B h sc (O_ListCardsOnBoard b) t = answer_read A_cards (pg_ListCardsOnBoard h t sc b) t"

fun pg_run_P :: "PgStore \<Rightarrow> Scan \<Rightarrow> PageOp \<Rightarrow> Tables \<Rightarrow> answer \<times> Tables" where
  "pg_run_P h sc (O_CreatePage nid cid ws parent title body status now) t =
     answer_write A_page (pg_CreatePage h t sc nid cid ws parent title body status now)"
| "pg_run_P h sc (O_GetPage p) t = answer_read A_page (pg_GetPage h t p) t"
| "pg_run_P h sc (O_ListPages ws) t = answer_read A_pages (pg_ListPages h t sc ws) t"
| "pg_run_P h sc (O_PageWorkspaceID p) t = answer_read A_id (pg_PageWorkspaceID h t p) t"
| "pg_run_P h sc (O_UpdatePage p title body status parent version now) t =
     answer_locked A_stale_page A_page (pg_UpdatePage h t p title body status parent version now)"
| "pg_run_P h sc (O_ArchivePage p now) t = answer_write A_unit (pg_ArchivePage h t sc p now)"
| "pg_run_P h sc (O_UnarchivePage p) t = answer_write A_unit (pg_UnarchivePage h t sc p)"

fun pg_run_D :: "PgStore \<Rightarrow> Scan \<Rightarrow> DocOp \<Rightarrow> Tables \<Rightarrow> answer \<times> Tables" where
  "pg_run_D h sc (O_CreateDocument nid cid ws title body now) t =
     answer_write A_document (pg_CreateDocument h t sc nid cid ws title body now)"
| "pg_run_D h sc (O_ListDocuments ws) t = answer_read A_documents (pg_ListDocuments h t sc ws) t"
| "pg_run_D h sc (O_GetDocument d) t = answer_read A_document (pg_GetDocument h t d) t"
| "pg_run_D h sc (O_UpdateDocumentTitle d title now) t = answer_write A_document (pg_UpdateDocumentTitle h t d title now)"
| "pg_run_D h sc (O_TrashDocument d now) t = answer_write A_unit (pg_TrashDocument h t d now)"
| "pg_run_D h sc (O_RestoreDocument d) t = answer_write A_unit (pg_RestoreDocument h t d)"
| "pg_run_D h sc (O_LookupCollab cid) t = answer_read A_room (pg_LookupCollab h t sc cid) t"
| "pg_run_D h sc (O_CreateTicket nid sub cid ro now) t =
     (case pg_CreateTicket h t nid sub cid ro now of (x, t1) \<Rightarrow> (A_ticket x, t1))"
| "pg_run_D h sc (O_GetTicket k) t = answer_read A_ticket (pg_GetTicket h t k) t"
| "pg_run_D h sc (O_ApplyCollabSnapshot cid plain editor now) t =
     answer_write A_unit (pg_ApplyCollabSnapshot h t sc cid plain editor now)"

fun pg_run_C :: "PgStore \<Rightarrow> Scan \<Rightarrow> ChatOp \<Rightarrow> Tables \<Rightarrow> answer \<times> Tables" where
  "pg_run_C h sc (O_CreateChannel nid ws name now) t = answer_write A_channel (pg_CreateChannel h t nid ws name now)"
| "pg_run_C h sc (O_ListChannels ws) t = answer_read A_channels (pg_ListChannels h t sc ws) t"
| "pg_run_C h sc (O_GetChannel c) t = answer_read A_channel (pg_GetChannel h t c) t"
| "pg_run_C h sc (O_AppendMessage nid c sub body mentions att now) t =
     answer_write A_message (pg_AppendMessage h t sc nid c sub body mentions att now)"
| "pg_run_C h sc (O_ListMessages c n) t = answer_read A_messages (pg_ListMessages h t sc c n) t"
| "pg_run_C h sc (O_CountMessagesAfter c n) t = answer_read A_number (pg_CountMessagesAfter h t sc c n) t"
| "pg_run_C h sc (O_GetChannelRead c sub) t = answer_read A_number (pg_GetChannelRead h t c sub) t"
| "pg_run_C h sc (O_UpsertChannelRead c sub n now) t = answer_write A_unit (pg_UpsertChannelRead h t c sub n now)"
| "pg_run_C h sc (O_CreateChatTicket nid sub c ro now) t =
     (case pg_CreateChatTicket h t nid sub c ro now of (x, t1) \<Rightarrow> (A_chat_ticket x, t1))"
| "pg_run_C h sc (O_GetChatTicket k) t = answer_read A_chat_ticket (pg_GetChatTicket h t k) t"

fun pg_run_F :: "PgStore \<Rightarrow> Scan \<Rightarrow> FileOp \<Rightarrow> Tables \<Rightarrow> answer \<times> Tables" where
  "pg_run_F h sc (O_SaveFile f) t = answer_write A_unit (pg_SaveFile h t f)"
| "pg_run_F h sc (O_GetFile f) t = answer_read A_file (pg_GetFile h t f) t"
| "pg_run_F h sc (O_AttachPageFile p f) t = answer_write A_unit (pg_AttachPageFile h t p f)"
| "pg_run_F h sc (O_ListPageFiles p) t = answer_read A_files (pg_ListPageFiles h t sc p) t"

fun pg_run_S :: "PgStore \<Rightarrow> Scan \<Rightarrow> SprintOp \<Rightarrow> Tables \<Rightarrow> answer \<times> Tables" where
  "pg_run_S h sc (O_CreateSprint nid b name start stop now) t =
     answer_write A_sprint (pg_CreateSprint h t nid b name start stop now)"
| "pg_run_S h sc (O_ListSprints b) t = answer_read A_sprints (pg_ListSprints h t sc b) t"
| "pg_run_S h sc (O_GetSprint k) t = answer_read A_sprint (pg_GetSprint h t k) t"
| "pg_run_S h sc (O_UpdateSprint k name start stop now) t =
     answer_write A_sprint (pg_UpdateSprint h t k name start stop now)"
| "pg_run_S h sc (O_DeleteSprint k) t = answer_write A_unit (pg_DeleteSprint h t k)"

fun pg_run_V :: "PgStore \<Rightarrow> Scan \<Rightarrow> VersionOp \<Rightarrow> Tables \<Rightarrow> answer \<times> Tables" where
  "pg_run_V h sc (O_AppendPageVersionIfChanged p title body status sub now) t =
     answer_write A_version_added (pg_AppendPageVersionIfChanged h t sc p title body status sub now)"
| "pg_run_V h sc (O_ListPageVersions p) t = answer_read A_versions (pg_ListPageVersions h t sc p) t"
| "pg_run_V h sc (O_GetPageVersion p n) t = answer_read A_version (pg_GetPageVersion h t p n) t"

fun pg_run :: "PgStore \<Rightarrow> Scan \<Rightarrow> store_op \<Rightarrow> Tables \<Rightarrow> answer \<times> Tables" where
  "pg_run h sc (O_M op) t = pg_run_M h sc op t"
| "pg_run h sc (O_B op) t = pg_run_B h sc op t"
| "pg_run h sc (O_P op) t = pg_run_P h sc op t"
| "pg_run h sc (O_D op) t = pg_run_D h sc op t"
| "pg_run h sc (O_C op) t = pg_run_C h sc op t"
| "pg_run h sc (O_F op) t = pg_run_F h sc op t"
| "pg_run h sc (O_S op) t = pg_run_S h sc op t"
| "pg_run h sc (O_V op) t = pg_run_V h sc op t"

end
