(* ===== verification/PgRep.thy ===== *)
theory PgRep
  imports StoreOps Chat Collab Boards
begin

text \<open>
  When the tables hold the same as the memory store. Most tables are the same maps; what the memory store
  keeps in lists and indexes besides is determined by the rows. The relation is a conjunction of parts
  over the maps of one component, so that an operation of another one keeps it.
\<close>

section \<open>Rows and orders\<close>

lemma set_select_rows: "range_order m ks \<Longrightarrow> set (select_rows ks m P) = {v. (\<exists>k. m k = Some v) \<and> P v}"
  by (auto simp: select_rows_def set_range_values_order ran_def)

lemma select_rows_cong:
  assumes "\<And>k. Option.bind (m k) (\<lambda>v. if P v then Some v else None) = Option.bind (m' k) (\<lambda>v. if P v then Some v else None)"
  shows "select_rows ks m P = select_rows ks m' P"
proof (induction ks)
  case (Cons k ks)
  then show ?case
    using assms [of k] by (cases "m k"; cases "m' k") (auto simp: select_rows_def split: if_splits)
qed (simp add: select_rows_def)

lemma distinct_select_rows:
  "range_order m ks \<Longrightarrow> (\<And>k v. m k = Some v \<Longrightarrow> key v = k) \<Longrightarrow> distinct (select_rows ks m P)"
  using distinct_range_values [of ks m key] by (simp add: select_rows_def range_order_def)

text \<open>A list in the order of a numbering is determined by its elements.\<close>

lemma listing_unique:
  fixes num :: "'v \<Rightarrow> int"
  assumes xs: "sorted_wrt (\<lambda>a b. num a \<le> num b) xs" "distinct xs"
    and ys: "sorted_wrt (\<lambda>a b. num a < num b) ys" and same: "set xs = set ys"
  shows "xs = ys"
proof -
  have "sorted_wrt (<) (map num ys)" using ys by (simp add: sorted_wrt_map)
  then have y: "sorted (map num ys)" "distinct (map num ys)" by (simp_all add: strict_sorted_iff)
  then have inj: "inj_on num (set ys)" by (simp add: distinct_map)
  have x: "sorted (map num xs)" "distinct (map num xs)"
    using xs inj same by (simp_all add: sorted_wrt_map distinct_map)
  show ?thesis by (rule map_sorted_distinct_set_unique [OF _ x y same]) (use inj same in simp)
qed

lemma sort_slice_listing:
  fixes num :: "'v \<Rightarrow> int"
  assumes "slice_order lt" and "\<And>a b. num a < num b \<Longrightarrow> lt a b"
    and "distinct xs" and "sorted_wrt (\<lambda>a b. num a < num b) ys" and "set xs = set ys"
  shows "sort_slice lt xs = ys"
proof (rule listing_unique)
  have "sorted_wrt (\<lambda>a b. \<not> lt b a) (sort_slice lt xs)" by (rule slice_order.sorted_sort_slice [OF assms(1)])
  then show "sorted_wrt (\<lambda>a b. num a \<le> num b) (sort_slice lt xs)"
    by (rule sorted_wrt_mono_rel [rotated]) (use assms(2) in force)
qed (use assms in simp_all)

text \<open>The things of a shelf, read from their positions.\<close>

lemma shelved_sorted:
  assumes "shelved par pos idx m" and "idx p = Some ids"
  shows "sorted_wrt (\<lambda>a b. pos a < pos b) (List.map_filter m ids)"
    and "set (List.map_filter m ids) = {v. (\<exists>k. m k = Some v) \<and> par v = p}"
    and "List.map_filter m ids = map (get_zero z m) ids"
proof -
  have some: "\<exists>v. m k = Some v" if "k \<in> set ids" for k using that shelvedD(2) [OF assms] by blast
  then have "List.map_filter m ks = map (get_zero z m) ks" if "set ks \<subseteq> set ids" for ks
    using that
  proof (induction ks)
    case (Cons k ks)
    then obtain v where "m k = Some v" using some [of k] by auto
    with Cons show ?case by (simp add: List.map_filter_simps)
  qed (simp add: List.map_filter_simps)
  then show eq: "List.map_filter m ids = map (get_zero z m) ids" by simp
  show "set (List.map_filter m ids) = {v. (\<exists>k. m k = Some v) \<and> par v = p}"
    unfolding eq using shelvedD(2) [OF assms] by (force simp: get_zero_def image_iff)
  have "pos (get_zero z m (ids ! i)) = int i" if i: "i < length ids" for i
  proof -
    obtain v where v: "m (ids ! i) = Some v" using some i nth_mem by blast
    then show ?thesis using shelvedD(3) [OF assms i v] by simp
  qed
  then show "sorted_wrt (\<lambda>a b. pos a < pos b) (List.map_filter m ids)"
    unfolding eq by (simp add: sorted_wrt_iff_nth_less)
qed

section \<open>The parts of the relation\<close>

definition rep_spaces where
  "rep_spaces tw tm W M \<longleftrightarrow> tw = W \<and> finite (dom W) \<and> dom M = dom W \<and>
     (\<forall>w u. tm (w, u) = (case M w of None \<Rightarrow> None | Some ms \<Rightarrow> ms u)) \<and>
     (\<forall>w u m. tm (w, u) = Some m \<longrightarrow> mb_WorkspaceID m = w \<and> mb_Sub m = u)"

definition rep_invitations where
  "rep_invitations ti W IV \<longleftrightarrow> ti = IV \<and>
     (\<forall>k iv. IV k = Some iv \<longrightarrow> inv_ID iv = k \<and> W (inv_WorkspaceID iv) \<noteq> None) \<and>
     (\<forall>k k' iv iv'. IV k = Some iv \<longrightarrow> IV k' = Some iv' \<longrightarrow> inv_TokenHash iv = inv_TokenHash iv' \<longrightarrow> k = k')"

text \<open>Events, messages, versions: rows on one side, a list for each parent on the other.\<close>

definition rep_lists :: "('v \<Rightarrow> 'p) \<Rightarrow> ('v \<Rightarrow> 'k) \<Rightarrow> ('k \<rightharpoonup> 'v) \<Rightarrow> ('p \<rightharpoonup> 'v list) \<Rightarrow> bool" where
  "rep_lists par key m L \<longleftrightarrow>
     (\<forall>k v. m k = Some v \<longleftrightarrow> key v = k \<and> v \<in> set (get_list L (par v))) \<and>
     (\<forall>p. distinct (get_list L p) \<and> (\<forall>v \<in> set (get_list L p). par v = p))"

lemma rep_listsD:
  assumes "rep_lists par key m L"
  shows "m k = Some v \<longleftrightarrow> key v = k \<and> v \<in> set (get_list L (par v))"
    and "distinct (get_list L p)" and "v \<in> set (get_list L p) \<Longrightarrow> par v = p"
  using assms unfolding rep_lists_def by blast+

lemma rep_lists_rows:
  assumes "rep_lists par key m L" and "range_order m ks"
  shows "distinct (select_rows ks m (\<lambda>v. par v = p))" and "set (select_rows ks m (\<lambda>v. par v = p)) = set (get_list L p)"
    and "mset (select_rows ks m (\<lambda>v. par v = p)) = mset (get_list L p)"
proof -
  show d: "distinct (select_rows ks m (\<lambda>v. par v = p))"
    by (rule distinct_select_rows [OF assms(2), where key = key]) (simp add: rep_listsD(1) [OF assms(1)])
  show s: "set (select_rows ks m (\<lambda>v. par v = p)) = set (get_list L p)"
    unfolding set_select_rows [OF assms(2)] rep_listsD(1) [OF assms(1)] using rep_listsD(3) [OF assms(1)] by auto
  show "mset (select_rows ks m (\<lambda>v. par v = p)) = mset (get_list L p)"
    using d s rep_listsD(2) [OF assms(1)] by (simp add: set_eq_iff_mset_eq_distinct)
qed

lemma rep_lists_add:
  assumes r: "rep_lists par key m L" and new: "m (key v) = None"
  shows "rep_lists par key (m(key v \<mapsto> v)) (L(par v \<mapsto> get_list L (par v) @ [v]))"
proof -
  have fresh: "v \<notin> set (get_list L (par v))" "key x \<noteq> key v" if "x \<in> set (get_list L (par x))" for x
    using new that rep_listsD(1) [OF r, of "key v"] by auto
  show ?thesis
    unfolding rep_lists_def
  proof (intro conjI allI ballI)
    show "(m(key v \<mapsto> v)) k = Some x \<longleftrightarrow> key x = k \<and> x \<in> set (get_list (L(par v \<mapsto> get_list L (par v) @ [v])) (par x))" for k x
      using rep_listsD(1) [OF r, of k x] fresh(2) [of x] by auto
    show "distinct (get_list (L(par v \<mapsto> get_list L (par v) @ [v])) p)" for p
      using rep_listsD(1) [OF r, of "key v" v] rep_listsD(2) [OF r] new by auto
    show "par x = p" if "x \<in> set (get_list (L(par v \<mapsto> get_list L (par v) @ [v])) p)" for x p
      using that rep_listsD(3) [OF r] by (auto split: if_splits)
  qed
qed

lemma rep_lists_shrink:
  assumes r: "rep_lists par key m L" and ys: "distinct ys" "set ys = {x \<in> set (get_list L p). Q x}"
    and m': "\<And>k v. m' k = Some v \<longleftrightarrow> m k = Some v \<and> (par v = p \<longrightarrow> Q v)"
  shows "rep_lists par key m' (L(p \<mapsto> ys))"
proof -
  have "v \<in> set (get_list (L(p \<mapsto> ys)) (par v)) \<longleftrightarrow> v \<in> set (get_list L (par v)) \<and> (par v = p \<longrightarrow> Q v)" for v
    using ys(2) by auto
  moreover have "par v = q" if "v \<in> set (get_list (L(p \<mapsto> ys)) q)" for v q
    using that ys(2) rep_listsD(3) [OF r] by (auto split: if_splits)
  ultimately show ?thesis
    using ys(1) rep_listsD(2) [OF r] unfolding rep_lists_def m' rep_listsD(1) [OF r] by auto
qed

definition rep_pages where
  "rep_pages tp P \<longleftrightarrow> tp = P \<and> page_forest P \<and> (\<forall>k p. P k = Some p \<longrightarrow> pg_ID p = k \<and> 0 \<le> pg_Position p)"

definition rep_rooms where
  "rep_rooms td P D X \<longleftrightarrow> td = D \<and> (\<forall>k d. D k = Some d \<longrightarrow> doc_ID d = k) \<and>
     indexed pg_CollabDocumentID ''page'' P X \<and> indexed doc_CollabDocumentID ''document'' D X \<and>
     (\<forall>cid ref. X cid = Some ref \<longrightarrow> cr_kind ref = ''page'' \<or> cr_kind ref = ''document'')"

text \<open>Consecutive numbers, at most \<open>MaxPageVersions\<close> of them.\<close>

definition consecutive :: "('v \<Rightarrow> int) \<Rightarrow> 'v list \<Rightarrow> bool" where
  "consecutive num xs \<longleftrightarrow> (\<exists>a. map num xs = map (\<lambda>i. a + int i) [0..<length xs])"

definition rep_versions where
  "rep_versions tv V \<longleftrightarrow> rep_lists pv_PageID (\<lambda>v. (pv_PageID v, pv_Number v)) tv V \<and>
     (\<forall>p. consecutive pv_Number (get_list V p) \<and> length (get_list V p) \<le> MaxPageVersions \<and>
        (\<forall>v \<in> set (get_list V p). 1 \<le> pv_Number v))"

definition rep_chat where
  "rep_chat tc tm tr Ch M R \<longleftrightarrow> tc = Ch \<and> rep_lists cm_ChannelID cm_ID tm M \<and>
     (\<forall>c. numbered_from 1 (get_list M c)) \<and> (\<forall>c. Ch c = None \<longrightarrow> get_list M c = []) \<and>
     (\<forall>c u. (case tr (c, u) of None \<Rightarrow> 0 | Some r \<Rightarrow> rd_LastReadSeq r) =
        (case R c of None \<Rightarrow> 0 | Some bySub \<Rightarrow> (case bySub u of None \<Rightarrow> 0 | Some n \<Rightarrow> n)) \<and>
        (\<forall>r. tr (c, u) = Some r \<longrightarrow> 0 \<le> rd_LastReadSeq r))"

definition rep_files where
  "rep_files tf tpf F PF \<longleftrightarrow> tf = F \<and>
     (\<forall>k row. tpf k = Some row \<longleftrightarrow> row = k \<and> snd row \<in> set (get_list PF (fst row))) \<and> (\<forall>p. distinct (get_list PF p))"

definition rep :: "Tables \<Rightarrow> Store \<Rightarrow> bool" where
  "rep t s \<longleftrightarrow>
     rep_spaces (t_workspaces t) (t_members t) (workspaces s) (members s) \<and>
     rep_invitations (t_invitations t) (workspaces s) (invitations s) \<and>
     rep_lists ae_WorkspaceID ae_ID (t_audits t) (audits s) \<and>
     t_boards t = boards s \<and> t_columns t = columns s \<and> t_cards t = cards s \<and> t_sprints t = sprints s \<and> board_inv s \<and>
     rep_pages (t_pages t) (pages s) \<and>
     rep_rooms (t_documents t) (pages s) (documents s) (collabIndex s) \<and>
     rep_versions (t_versions t) (pageVersions s) \<and> t_collabTickets t = tickets s \<and>
     rep_chat (t_channels t) (t_messages t) (t_reads t) (channels s) (messages s) (chatReads s) \<and>
     t_chatTickets t = chatTickets s \<and> rep_files (t_files t) (t_pageFiles t) (files s) (pageFiles s)"

lemma repD:
  assumes "rep t s"
  shows "rep_spaces (t_workspaces t) (t_members t) (workspaces s) (members s)"
    "rep_invitations (t_invitations t) (workspaces s) (invitations s)"
    "rep_lists ae_WorkspaceID ae_ID (t_audits t) (audits s)"
    "board_inv s" "t_boards t = boards s" "rep_pages (t_pages t) (pages s)"
    "rep_rooms (t_documents t) (pages s) (documents s) (collabIndex s)" "rep_versions (t_versions t) (pageVersions s)"
    "t_collabTickets t = tickets s"
    "rep_chat (t_channels t) (t_messages t) (t_reads t) (channels s) (messages s) (chatReads s)"
    "t_chatTickets t = chatTickets s" "rep_files (t_files t) (t_pageFiles t) (files s) (pageFiles s)"
  using assms unfolding rep_def by blast+

lemma rep_maps:
  assumes "rep t s"
  shows "t_workspaces t = workspaces s" "t_invitations t = invitations s" "t_boards t = boards s"
    "t_columns t = columns s" "t_cards t = cards s" "t_pages t = pages s" "t_documents t = documents s"
    "t_channels t = channels s" "t_files t = files s" "t_sprints t = sprints s" "t_collabTickets t = tickets s"
    "t_chatTickets t = chatTickets s"
  using assms
  by (simp_all add: rep_def rep_spaces_def rep_invitations_def rep_pages_def rep_rooms_def rep_chat_def rep_files_def)

lemma rep_empty: "rep empty_tables New"
  using board_inv_New
  by (simp add: rep_def empty_tables_def New_def rep_spaces_def rep_invitations_def rep_lists_def rep_pages_def
      rep_rooms_def rep_versions_def rep_chat_def rep_files_def page_forest_def forest_def links_def indexed_def
      consecutive_def)

text \<open>The boards look at no map of another part but the workspaces there are.\<close>

lemma board_inv_frame [simp]:
  "board_inv (s\<lparr>members := a\<rparr>) = board_inv s" "board_inv (s\<lparr>invitations := b\<rparr>) = board_inv s"
  "board_inv (s\<lparr>audits := c\<rparr>) = board_inv s" "board_inv (s\<lparr>pages := d\<rparr>) = board_inv s"
  "board_inv (s\<lparr>documents := e\<rparr>) = board_inv s" "board_inv (s\<lparr>tickets := f\<rparr>) = board_inv s"
  "board_inv (s\<lparr>collabIndex := g\<rparr>) = board_inv s" "board_inv (s\<lparr>channels := h\<rparr>) = board_inv s"
  "board_inv (s\<lparr>messages := i\<rparr>) = board_inv s" "board_inv (s\<lparr>chatReads := j\<rparr>) = board_inv s"
  "board_inv (s\<lparr>chatTickets := k\<rparr>) = board_inv s" "board_inv (s\<lparr>files := l\<rparr>) = board_inv s"
  "board_inv (s\<lparr>pageFiles := m\<rparr>) = board_inv s" "board_inv (s\<lparr>pageVersions := n\<rparr>) = board_inv s"
  by (simp_all add: board_inv_def)

lemma board_inv_workspace: "board_inv s \<Longrightarrow> board_inv (s\<lparr>workspaces := (workspaces s)(w \<mapsto> ws)\<rparr>)"
  by (rule board_inv_cong [of _ s]) (auto simp: parts)

section \<open>Without tenants\<close>

text \<open>
  A handle that sees every row: nothing is set and no earlier transaction left a tenant behind, or the
  role is not subject to the policies at all.
\<close>

definition sees_all :: "PgStore \<Rightarrow> bool" where
  "sees_all h \<longleftrightarrow> row_tenant h = None"

definition whole :: "Store \<Rightarrow> bool" where
  "whole s \<longleftrightarrow> skipTenant s \<or> orgFilter s = []"

lemma whole_allows [simp]: "whole s \<Longrightarrow> allowOrg s k"
  by (auto simp: whole_def allowOrg_def)

lemma keep_True [simp]: "keep (\<lambda>_. True) m = m"
  by (auto simp: keep_def split: option.split)

lemma keep_True2 [simp]: "keep (\<lambda>(_, _). True) m = m"
  by (auto simp: keep_def split: option.split)

lemma sees_all_policies:
  assumes "sees_all h"
  shows "app_tenant_matches h k" "app_workspace_tenant_matches h t w" "below_board h t b" "below_channel h t c" "below_page h t p"
  using assms by (simp_all add: sees_all_def app_tenant_matches_def app_workspace_tenant_matches_def below_board_def
      below_channel_def below_page_def)

lemma sees_all_view: "sees_all h \<Longrightarrow> view h t = t"
  by (simp add: view_def sees_all_policies)

lemmas all_rows = sees_all_policies sees_all_view

text \<open>The pool's own connection sees every row too.\<close>

lemma sees_all_pool: "sees_all (pg_Unscoped h) \<longleftrightarrow> \<not> po_subject (pg_pool h) \<or> po_setting (pg_pool h) = None"
  by (auto simp: sees_all_def row_tenant_def setTenantLocal_def pg_Unscoped_def)

section \<open>Orders\<close>

definition member_order :: "(id \<times> string) list \<Rightarrow> id \<Rightarrow> string list" where
  "member_order rs w = map snd (filter (\<lambda>k. fst k = w) rs)"

lemma member_order_ok:
  assumes "rep t s" and "scans t sc" and "members s w = Some ms"
  shows "range_order ms (member_order (sc_members sc) w)"
proof -
  have rows: "t_members t (w, u) = ms u" for u using repD(1) [OF assms(1)] assms(3) by (simp add: rep_spaces_def)
  have sc: "distinct (sc_members sc)" "set (sc_members sc) = dom (t_members t)"
    using assms(2) by (simp_all add: scans_def range_order_def)
  then have "inj_on snd (set (filter (\<lambda>k. fst k = w) (sc_members sc)))" by (auto intro!: inj_onI prod_eqI)
  moreover have "snd ` {k \<in> dom (t_members t). fst k = w} = {u. t_members t (w, u) \<noteq> None}" by force
  then have "snd ` {k \<in> dom (t_members t). fst k = w} = dom ms" by (simp add: rows dom_def)
  ultimately show ?thesis using sc by (simp add: range_order_def member_order_def distinct_map)
qed

definition base_orders :: "Scan \<Rightarrow> id list \<Rightarrow> (AuditEvent list \<Rightarrow> AuditEvent list) \<Rightarrow> Orders" where
  "base_orders sc ks sh = \<lparr>od_workspaces = ks, od_members = member_order (sc_members sc), od_invitations = sc_invitations sc,
     od_shuffle = sh, od_boards = sc_boards sc, od_cards = sc_cards sc, od_sprints = sc_sprints sc, od_pages = sc_pages sc,
     od_documents = sc_documents sc, od_channels = sc_channels sc\<rparr>"

lemma base_orders_ok:
  assumes "rep t s" and "scans t sc" and "range_order (members s) ks" and "\<And>xs. mset (sh xs) = mset xs"
  shows "orders_ok s (base_orders sc ks sh)"
  using assms(2-4) member_order_ok [OF assms(1,2)] rep_maps [OF assms(1)]
  by (simp add: orders_ok_def base_orders_def scans_def)

lemma workspace_order: "rep t s \<Longrightarrow> \<exists>ks. range_order (members s) ks"
  using finite_distinct_list [of "dom (members s)"] repD(1) [of t s] by (auto simp: range_order_def rep_spaces_def)

end
