(* ===== verification/PgSimMembers.thy ===== *)
theory PgSimMembers
  imports PgRep
begin

text \<open>
  The two stores agree on workspaces, members, invitations and audit events: on states in the relation
  \<open>rep\<close> an operation answers the same and leaves states in the relation.
\<close>

section \<open>Agreement\<close>

definition agree :: "'a \<times> Tables \<Rightarrow> 'a \<times> Store \<Rightarrow> bool" where
  "agree p q \<longleftrightarrow> fst p = fst q \<and> rep (snd p) (snd q)"

named_theorems agreeing

lemma agreeI [intro]: "rep t s \<Longrightarrow> agree (x, t) (x, s)"
  by (simp add: agree_def)

lemma agree_pair [simp]: "agree (x, t) (y, s) \<longleftrightarrow> x = y \<and> rep t s"
  by (simp add: agree_def)

text \<open>Replacing the maps of one part.\<close>

lemma rep_members_upd:
  "rep t s \<Longrightarrow> rep_spaces (workspaces s) tm (workspaces s) M \<Longrightarrow> rep (t\<lparr>t_members := tm\<rparr>) (s\<lparr>members := M\<rparr>)"
  by (simp add: rep_def rep_spaces_def)

lemma rep_invitations_upd:
  "rep t s \<Longrightarrow> rep_invitations I (workspaces s) I \<Longrightarrow> rep (t\<lparr>t_invitations := I\<rparr>) (s\<lparr>invitations := I\<rparr>)"
  by (simp add: rep_def)

lemma rep_audits_upd:
  "rep t s \<Longrightarrow> rep_lists ae_WorkspaceID ae_ID tm L \<Longrightarrow> rep (t\<lparr>t_audits := tm\<rparr>) (s\<lparr>audits := L\<rparr>)"
  by (simp add: rep_def)

section \<open>Workspaces and members\<close>

lemma rep_spacesD:
  assumes "rep t s"
  shows "t_members t (w, u) = (case members s w of None \<Rightarrow> None | Some ms \<Rightarrow> ms u)"
    and "t_members t (w, u) = Some m \<Longrightarrow> mb_WorkspaceID m = w \<and> mb_Sub m = u"
    and "workspaces s w = None \<longleftrightarrow> members s w = None"
proof -
  have r: "rep_spaces (t_workspaces t) (t_members t) (workspaces s) (members s)" by (rule repD(1) [OF assms])
  show "t_members t (w, u) = (case members s w of None \<Rightarrow> None | Some ms \<Rightarrow> ms u)" using r by (simp add: rep_spaces_def)
  show "t_members t (w, u) = Some m \<Longrightarrow> mb_WorkspaceID m = w \<and> mb_Sub m = u" using r unfolding rep_spaces_def by blast
  have "dom (members s) = dom (workspaces s)" using r by (simp add: rep_spaces_def)
  then show "workspaces s w = None \<longleftrightarrow> members s w = None" by blast
qed

lemma workspaceExists_eq:
  "rep t s \<Longrightarrow> sees_all h \<Longrightarrow> pg_workspaceExists h t w = (if workspaces s w = None then Inl ErrNotFound else Inr ())"
  by (simp add: pg_workspaceExists_def all_rows rep_maps)

lemma spaces_put:
  assumes "rep t s" and "members s w = Some ms" and "mb_WorkspaceID m = w" "mb_Sub m = u"
  shows "rep_spaces (workspaces s) ((t_members t)((w, u) \<mapsto> m)) (workspaces s) ((members s)(w \<mapsto> ms(u \<mapsto> m)))"
  using repD(1) [OF assms(1)] assms(2-) by (auto simp: rep_spaces_def split: if_splits option.splits)

lemma spaces_drop:
  assumes "rep t s" and "members s w = Some ms"
  shows "rep_spaces (workspaces s) ((t_members t)((w, u) := None)) (workspaces s) ((members s)(w \<mapsto> ms(u := None)))"
  using repD(1) [OF assms(1)] assms(2-) by (auto simp: rep_spaces_def split: if_splits option.splits)

lemma agree_CreateWorkspace [agreeing]:
  assumes r: "rep t s" and h: "sees_all h" and new: "workspaces s nid = None"
  shows "agree (pg_CreateWorkspace h t nid name owner org now) (mem_CreateWorkspace s nid name owner org now)"
proof -
  have no: "members s nid = None" "t_members t (nid, owner) = None" using new rep_spacesD [OF r] by auto
  have mono: "W' w \<noteq> None" if "W w \<noteq> None" "W' = W(nid \<mapsto> ws)" for W W' :: "id \<rightharpoonup> Workspace" and ws w
    using that by auto
  have sp: "rep_spaces (workspaces s) (t_members t) (workspaces s) (members s)"
    using repD(1) [OF r] by (simp add: rep_spaces_def)
  define ws where "ws = \<lparr>ws_ID = nid, ws_Name = name, ws_OrgID = org, ws_CreatedAt = now\<rparr>"
  define m where "m = \<lparr>mb_WorkspaceID = nid, mb_Sub = owner, mb_DisplayName = DevDisplayName owner, mb_Role = RoleOwner, mb_JoinedAt = now\<rparr>"
  have "rep_spaces ((workspaces s)(nid \<mapsto> ws)) ((t_members t)((nid, owner) \<mapsto> m)) ((workspaces s)(nid \<mapsto> ws))
      ((members s)(nid \<mapsto> [owner \<mapsto> m]))"
    using sp no by (auto simp: rep_spaces_def m_def split: option.splits)
  moreover have "rep_invitations (t_invitations t) ((workspaces s)(nid \<mapsto> ws)) (invitations s)"
    using repD(2) [OF r] by (auto simp: rep_invitations_def)
  ultimately have "rep (t\<lparr>t_workspaces := (workspaces s)(nid \<mapsto> ws), t_members := (t_members t)((nid, owner) \<mapsto> m)\<rparr>)
      (s\<lparr>workspaces := (workspaces s)(nid \<mapsto> ws), members := (members s)(nid \<mapsto> [owner \<mapsto> m])\<rparr>)"
    using r by (simp add: rep_def board_inv_workspace)
  then show ?thesis
    using no new h by (simp add: pg_CreateWorkspace_def mem_CreateWorkspace_def all_rows insert_row_def rep_maps [OF r]
        Let_def ws_def m_def)
qed

lemma agree_GetWorkspace [agreeing]:
  "rep t s \<Longrightarrow> sees_all h \<Longrightarrow> whole s \<Longrightarrow> pg_GetWorkspace h t w = mem_GetWorkspace s w"
  by (simp add: pg_GetWorkspace_def mem_GetWorkspace_def all_rows rep_maps split: option.split)

lemma agree_MemberRole [agreeing]: "rep t s \<Longrightarrow> sees_all h \<Longrightarrow> pg_MemberRole h t w u = mem_MemberRole s w u"
  by (auto simp: pg_MemberRole_def mem_MemberRole_def all_rows workspaceExists_eq rep_spacesD split: option.split)

lemma agree_GetMember [agreeing]: "rep t s \<Longrightarrow> sees_all h \<Longrightarrow> pg_GetMember h t w u = mem_GetMember s w u"
  by (auto simp: pg_GetMember_def mem_GetMember_def all_rows workspaceExists_eq rep_spacesD split: option.split)

text \<open>The rows of one workspace in the order of the scan.\<close>

lemma member_rows:
  assumes r: "rep t s" and ms: "members s w = Some ms"
  shows "select_rows rs (t_members t) (\<lambda>m. mb_WorkspaceID m = w) = range_values (member_order rs w) ms"
proof (induction rs)
  case (Cons k rs)
  obtain w' u where k: "k = (w', u)" by (cases k)
  have "mb_WorkspaceID m = w'" if "t_members t (w', u) = Some m" for m using rep_spacesD(2) [OF r that] by simp
  moreover have "t_members t (w, u) = ms u" using rep_spacesD(1) [OF r, of w u] ms by simp
  ultimately show ?case
    using Cons.IH by (auto simp: select_rows_def member_order_def k split: option.splits)
qed (simp add: select_rows_def member_order_def)

lemma agree_ListMembers [agreeing]:
  assumes r: "rep t s" and h: "sees_all h"
  shows "pg_ListMembers h t sc w = mem_ListMembers (member_order (sc_members sc) w) s w"
proof (cases "members s w")
  case None
  then show ?thesis using rep_spacesD(3) [OF r] by (simp add: pg_ListMembers_def mem_ListMembers_def workspaceExists_eq [OF r h])
next
  case (Some ms)
  then have "workspaces s w \<noteq> None" using rep_spacesD(3) [OF r] by simp
  then show ?thesis
    using Some h by (simp add: pg_ListMembers_def mem_ListMembers_def workspaceExists_eq [OF r h] all_rows member_rows [OF r Some])
qed

text \<open>The workspaces of a member, in the order in which the scan meets the rows of the member.\<close>

definition spaces_order :: "(id \<times> string) list \<Rightarrow> string \<Rightarrow> id list" where
  "spaces_order rs u = map fst (filter (\<lambda>k. snd k = u) rs)"

lemma agree_ListWorkspacesForSub:
  assumes r: "rep t s" and h: "sees_all h" and w: "whole s" and sc: "scans t sc"
  shows "\<exists>ks. range_order (members s) ks \<and> pg_ListWorkspacesForSub h t sc u = mem_ListWorkspacesForSub ks s u"
proof -
  let ?rs = "sc_members sc"
  have rs: "distinct ?rs" "set ?rs = dom (t_members t)" using sc by (simp_all add: scans_def range_order_def)
  then have "inj_on fst (set (filter (\<lambda>k. snd k = u) ?rs))" by (auto intro!: inj_onI prod_eqI)
  then have d1: "distinct (spaces_order ?rs u)" using rs(1) by (simp add: spaces_order_def distinct_map)
  have s1: "set (spaces_order ?rs u) = {w. t_members t (w, u) \<noteq> None}" using rs(2) by (force simp: spaces_order_def)
  then have sub: "set (spaces_order ?rs u) \<subseteq> dom (members s)" using rep_spacesD(1) [OF r] by (auto split: option.splits)
  have "finite (dom (members s))" using repD(1) [OF r] by (simp add: rep_spaces_def)
  then obtain more where more: "set more = dom (members s) - set (spaces_order ?rs u)" "distinct more"
    using finite_distinct_list [of "dom (members s) - set (spaces_order ?rs u)"] by auto
  define f where "f = (\<lambda>w. case members s w of None \<Rightarrow> None | Some ms \<Rightarrow> if ms u = None then None else workspaces s w)"
  have mem: "mem_ListWorkspacesForSub ks s u = sort_slice (\<lambda>a b. ws_CreatedAt a < ws_CreatedAt b) (List.map_filter f ks)" for ks
    using w by (auto simp: mem_ListWorkspacesForSub_def f_def intro!: arg_cong2 [where f = sort_slice] arg_cong2 [where f = List.map_filter]
        split: option.splits)
  have none: "f w = None" if "t_members t (w, u) = None" for w
    using that rep_spacesD(1) [OF r, of w u] by (auto simp: f_def split: option.splits)
  have rest: "List.map_filter f xs = []" if "set xs \<subseteq> {w. t_members t (w, u) = None}" for xs
    using that none by (induction xs) (auto simp: List.map_filter_simps)
  have rows: "List.map_filter (\<lambda>m. workspaces s (mb_WorkspaceID m)) (select_rows xs (t_members t) (\<lambda>m. mb_Sub m = u))
      = List.map_filter f (spaces_order xs u)" for xs
  proof (induction xs)
    case (Cons k xs)
    obtain w v where k: "k = (w, v)" by (cases k)
    show ?case
    proof (cases "t_members t (w, v)")
      case None
      then show ?thesis using Cons.IH none by (auto simp: select_rows_def spaces_order_def k List.map_filter_simps)
    next
      case (Some m)
      then have "mb_WorkspaceID m = w" "mb_Sub m = v" using rep_spacesD(2) [OF r] by auto
      moreover have "f w = workspaces s w" if "v = u"
        using Some that rep_spacesD(1) [OF r, of w u] by (auto simp: f_def split: option.splits)
      ultimately show ?thesis
        using Cons.IH Some by (auto simp: select_rows_def spaces_order_def k List.map_filter_simps split: option.split)
    qed
  qed (simp add: select_rows_def spaces_order_def List.map_filter_simps)
  have "List.map_filter f (spaces_order ?rs u @ more) = List.map_filter f (spaces_order ?rs u) @ List.map_filter f more"
    by (simp add: List.map_filter_def)
  also have "List.map_filter f more = []" by (rule rest) (use more s1 in auto)
  finally have "pg_ListWorkspacesForSub h t sc u = mem_ListWorkspacesForSub (spaces_order ?rs u @ more) s u"
    using h by (simp add: pg_ListWorkspacesForSub_def all_rows rep_maps [OF r] rows mem)
  moreover have "range_order (members s) (spaces_order ?rs u @ more)"
    using d1 more sub by (auto simp: range_order_def)
  ultimately show ?thesis by blast
qed

lemma agree_AddMember [agreeing]:
  assumes r: "rep t s" and h: "sees_all h"
  shows "agree (pg_AddMember h t w u role now) (mem_AddMember s w u role now)"
  using r rep_spacesD [OF r, of w] h
  by (auto simp: pg_AddMember_def mem_AddMember_def workspaceExists_eq [OF r h] all_rows insert_row_def isUnique_def Let_def
      intro!: rep_members_upd spaces_put split: option.split)

lemma agree_UpdateMember:
  assumes r: "rep t s" and h: "sees_all h" and ms: "members s w = Some ms" "ms u = Some m0"
    and f: "mb_WorkspaceID (f m0) = mb_WorkspaceID m0" "mb_Sub (f m0) = mb_Sub m0"
  shows "agree (let t1 = t\<lparr>t_members := update_row (w, u) f (t_members t)\<rparr> in (pg_GetMember h t1 w u, t1))
    (Inr (f m0), s\<lparr>members := (members s)(w \<mapsto> ms(u \<mapsto> f m0))\<rparr>)"
proof -
  have row: "t_members t (w, u) = Some m0" using rep_spacesD(1) [OF r] ms by simp
  then have "mb_WorkspaceID (f m0) = w" "mb_Sub (f m0) = u" using rep_spacesD(2) [OF r] f by auto
  then have r': "rep (t\<lparr>t_members := (t_members t)((w, u) \<mapsto> f m0)\<rparr>) (s\<lparr>members := (members s)(w \<mapsto> ms(u \<mapsto> f m0))\<rparr>)"
    by (intro rep_members_upd r spaces_put ms)
  then have "pg_GetMember h (t\<lparr>t_members := (t_members t)((w, u) \<mapsto> f m0)\<rparr>) w u = Inr (f m0)"
    using agree_GetMember [OF r' h, of w u] by (simp add: mem_GetMember_def)
  then show ?thesis using r' row by (simp add: update_row_def Let_def)
qed

lemma agree_UpdateMemberRole [agreeing]:
  assumes r: "rep t s" and h: "sees_all h"
  shows "agree (pg_UpdateMemberRole h t w u role) (mem_UpdateMemberRole s w u role)"
  using r h rep_spacesD(1) [OF r, of w u] agree_UpdateMember [OF r h, of w _ u _ "\<lambda>m. m\<lparr>mb_Role := role\<rparr>"]
  by (auto simp: pg_UpdateMemberRole_def mem_UpdateMemberRole_def all_rows Let_def split: option.split)

lemma agree_UpdateMemberDisplayName [agreeing]:
  assumes r: "rep t s" and h: "sees_all h"
  shows "agree (pg_UpdateMemberDisplayName h t w u name) (mem_UpdateMemberDisplayName s w u name)"
  using r h rep_spacesD(1) [OF r, of w u] agree_UpdateMember [OF r h, of w _ u _ "\<lambda>m. m\<lparr>mb_DisplayName := TrimSpace name\<rparr>"]
  by (auto simp: pg_UpdateMemberDisplayName_def mem_UpdateMemberDisplayName_def all_rows Let_def split: option.split)

lemma agree_RemoveMember [agreeing]:
  assumes r: "rep t s" and h: "sees_all h"
  shows "agree (pg_RemoveMember h t w u) (mem_RemoveMember s w u)"
  using r h rep_spacesD(1) [OF r, of w u]
  by (auto simp: pg_RemoveMember_def mem_RemoveMember_def all_rows intro!: rep_members_upd spaces_drop split: option.split)

section \<open>Invitations\<close>

lemma rep_invitationsD:
  assumes "rep t s"
  shows "invitations s k = Some iv \<Longrightarrow> inv_ID iv = k \<and> workspaces s (inv_WorkspaceID iv) \<noteq> None"
    and "invitations s k = Some iv \<Longrightarrow> invitations s k' = Some iv' \<Longrightarrow> inv_TokenHash iv = inv_TokenHash iv' \<Longrightarrow> k = k'"
  using repD(2) [OF assms] unfolding rep_invitations_def by blast+

lemma invitation_put:
  assumes r: "rep t s" and iv: "invitations s k = Some iv"
    and same: "inv_ID iv' = inv_ID iv" "inv_WorkspaceID iv' = inv_WorkspaceID iv" "inv_TokenHash iv' = inv_TokenHash iv"
  shows "rep_invitations ((invitations s)(k \<mapsto> iv')) (workspaces s) ((invitations s)(k \<mapsto> iv'))"
proof -
  have w: "inv_ID iv' = k" "workspaces s (inv_WorkspaceID iv') \<noteq> None" using rep_invitationsD(1) [OF r iv] same by auto
  have u: "j = k" if "invitations s j = Some x" "inv_TokenHash x = inv_TokenHash iv'" for j x
    using rep_invitationsD(2) [OF r that(1) iv] that(2) same by simp
  show ?thesis
    unfolding rep_invitations_def
  proof (intro conjI allI impI)
    show "inv_ID x = j" "workspaces s (inv_WorkspaceID x) \<noteq> None" if "((invitations s)(k \<mapsto> iv')) j = Some x" for j x
      using that w rep_invitationsD(1) [OF r] by (auto split: if_splits)
    show "j = j'" if "((invitations s)(k \<mapsto> iv')) j = Some x" "((invitations s)(k \<mapsto> iv')) j' = Some x'" "inv_TokenHash x = inv_TokenHash x'" for j j' x x'
    proof (cases "j = k \<or> j' = k")
      case True
      then show ?thesis using that u [of j x] u [of j' x'] by (auto split: if_splits)
    next
      case False
      then show ?thesis using that rep_invitationsD(2) [OF r, of j x j' x'] by simp
    qed
  qed simp
qed

lemma agree_CreateInvitation [agreeing]:
  assumes r: "rep t s" and h: "sees_all h" and sc: "scans t sc"
    and new: "invitations s nid = None" "\<forall>k iv. invitations s k = Some iv \<longrightarrow> inv_TokenHash iv \<noteq> hash"
  shows "agree (pg_CreateInvitation h t sc nid w hash role email uses expires who now)
    (mem_CreateInvitation s nid w hash role email uses expires who now)"
proof -
  have "range_order (invitations s) (sc_invitations sc)" using sc rep_maps [OF r] by (simp add: scans_def)
  then have free: "\<not> hash_taken sc t hash"
    using new(2) by (auto simp: hash_taken_def rep_maps [OF r] set_select_rows filter_empty_conv set_empty [symmetric] simp del: set_empty)
  define iv where "iv = \<lparr>inv_ID = nid, inv_WorkspaceID = w, inv_TokenHash = hash, inv_Role = role, inv_InvitedEmail = email,
    inv_MaxUses = uses, inv_UseCount = 0, inv_ExpiresAt = expires, inv_InvitedBy = who, inv_CreatedAt = now, inv_RevokedAt = None\<rparr>"
  have "rep_invitations ((invitations s)(nid \<mapsto> iv)) (workspaces s) ((invitations s)(nid \<mapsto> iv))" if "workspaces s w \<noteq> None"
    using repD(2) [OF r] that new(2) unfolding rep_invitations_def by (auto simp: iv_def)
  then have "rep (t\<lparr>t_invitations := (invitations s)(nid \<mapsto> iv)\<rparr>) (s\<lparr>invitations := (invitations s)(nid \<mapsto> iv)\<rparr>)"
    if "workspaces s w \<noteq> None"
    using that by (intro rep_invitations_upd r)
  then show ?thesis
    using r free new(1) h
    by (auto simp: pg_CreateInvitation_def mem_CreateInvitation_def workspaceExists_eq [OF r h] all_rows insert_row_def
        rep_maps [OF r] Let_def iv_def)
qed

lemma agree_ListInvitations [agreeing]:
  "rep t s \<Longrightarrow> sees_all h \<Longrightarrow> pg_ListInvitations h t sc w = mem_ListInvitations (sc_invitations sc) s w"
  by (simp add: pg_ListInvitations_def mem_ListInvitations_def workspaceExists_eq all_rows rep_maps select_rows_def)

lemma find_filter: "List.find P xs = (case filter P xs of [] \<Rightarrow> None | x # _ \<Rightarrow> Some x)"
  by (induction xs) auto

lemma agree_GetInvitationByTokenHash [agreeing]:
  "rep t s \<Longrightarrow> sees_all h \<Longrightarrow> pg_GetInvitationByTokenHash h t sc hash = mem_GetInvitationByTokenHash (sc_invitations sc) s hash"
  by (simp add: pg_GetInvitationByTokenHash_def mem_GetInvitationByTokenHash_def all_rows rep_maps select_rows_def find_filter
      split: list.split)

lemma workspace_invitation_eq:
  "rep t s \<Longrightarrow> sees_all h \<Longrightarrow> workspace_invitation h t w k =
    (case invitations s k of None \<Rightarrow> None | Some iv \<Rightarrow> if inv_WorkspaceID iv = w then Some iv else None)"
  by (simp add: workspace_invitation_def all_rows rep_maps)

lemma agree_UpdateInvitationPolicy [agreeing]:
  assumes r: "rep t s" and h: "sees_all h"
  shows "agree (pg_UpdateInvitationPolicy h t w k role email uses expires) (mem_UpdateInvitationPolicy s w k role email uses expires)"
  using r rep_invitationsD(1) [OF r]
  by (auto simp: pg_UpdateInvitationPolicy_def mem_UpdateInvitationPolicy_def workspaceExists_eq [OF r h] workspace_invitation_eq [OF r h]
      rep_maps [OF r] Let_def intro!: rep_invitations_upd invitation_put split: option.split)

lemma agree_RevokeInvitation [agreeing]:
  assumes r: "rep t s" and h: "sees_all h"
  shows "agree (pg_RevokeInvitation h t w k now) (mem_RevokeInvitation s w k now)"
  using r rep_invitationsD(1) [OF r]
  by (auto simp: pg_RevokeInvitation_def mem_RevokeInvitation_def workspaceExists_eq [OF r h] workspace_invitation_eq [OF r h]
      rep_maps [OF r] Let_def intro!: rep_invitations_upd invitation_put split: option.split)

lemma agree_AcceptInvitation [agreeing]:
  assumes r: "rep t s" and h: "sees_all h"
  shows "agree (pg_AcceptInvitation h t k u now) (mem_AcceptInvitation s k u now)"
proof (cases "invitations s k")
  case None
  then show ?thesis using r h by (simp add: pg_AcceptInvitation_def mem_AcceptInvitation_def all_rows rep_maps)
next
  case (Some iv)
  let ?w = "inv_WorkspaceID iv"
  have iv: "inv_ID iv = k" "workspaces s ?w \<noteq> None" using rep_invitationsD(1) [OF r Some] by auto
  then obtain ms where ms: "members s ?w = Some ms" using rep_spacesD(3) [OF r, of ?w] by auto
  have row: "t_members t (?w, u) = ms u" using rep_spacesD(1) [OF r] ms by simp
  define m where "m = \<lparr>mb_WorkspaceID = ?w, mb_Sub = u, mb_DisplayName = DevDisplayName u, mb_Role = inv_Role iv, mb_JoinedAt = now\<rparr>"
  define iv' where "iv' = iv\<lparr>inv_UseCount := inv_UseCount iv + 1\<rparr>"
  have "rep (t\<lparr>t_members := (t_members t)((?w, u) \<mapsto> m)\<rparr>) (s\<lparr>members := (members s)(?w \<mapsto> ms(u \<mapsto> m))\<rparr>)"
    by (intro rep_members_upd r spaces_put ms) (simp_all add: m_def)
  moreover have "rep_invitations ((invitations s)(k \<mapsto> iv')) (workspaces s) ((invitations s)(k \<mapsto> iv'))"
    by (rule invitation_put [OF r Some]) (simp_all add: iv'_def)
  ultimately have r': "rep (t\<lparr>t_members := (t_members t)((?w, u) \<mapsto> m), t_invitations := (invitations s)(k \<mapsto> iv')\<rparr>)
      (s\<lparr>members := (members s)(?w \<mapsto> ms(u \<mapsto> m)), invitations := (invitations s)(k \<mapsto> iv')\<rparr>)"
    using rep_invitations_upd by fastforce
  show ?thesis
    using r r' h ms row iv Some
    by (auto simp: pg_AcceptInvitation_def mem_AcceptInvitation_def inv_dead_def all_rows rep_maps [OF r] insert_row_def has_workspace_def
        Let_def m_def iv'_def split: option.split)
qed

section \<open>Audit events\<close>

lemma agree_AddAuditEvent [agreeing]:
  assumes r: "rep t s" and h: "sees_all h" and ws: "workspaces s (ae_WorkspaceID e) \<noteq> None"
    and new: "\<forall>w. \<forall>x \<in> set (get_list (audits s) w). ae_ID x \<noteq> ae_ID e"
  shows "agree (pg_AddAuditEvent h t e) (Inr (), mem_AddAuditEvent s e)"
proof -
  have L: "rep_lists ae_WorkspaceID ae_ID (t_audits t) (audits s)" by (rule repD(3) [OF r])
  have free: "t_audits t (ae_ID e) = None"
  proof (cases "t_audits t (ae_ID e)")
    case (Some x)
    then show ?thesis using rep_listsD(1) [OF L, of "ae_ID e" x] new by auto
  qed
  show ?thesis
    using rep_audits_upd [OF r rep_lists_add [OF L free]] free ws h
    by (simp add: pg_AddAuditEvent_def mem_AddAuditEvent_def insert_row_def all_rows has_workspace_def rep_maps [OF r])
qed

lemma agree_ListAuditEvents:
  assumes r: "rep t s" and h: "sees_all h" and sc: "scans t sc"
  shows "\<exists>sh. (\<forall>xs. mset (sh xs) = mset xs) \<and> pg_ListAuditEvents h t sc w = mem_ListAuditEvents sh s w"
proof -
  let ?rows = "select_rows (sc_audits sc) (t_audits t) (\<lambda>e. ae_WorkspaceID e = w)"
  have "mset ?rows = mset (get_list (audits s) w)"
    using rep_lists_rows(3) [OF repD(3) [OF r]] sc by (simp add: scans_def)
  then show ?thesis
    using h by (intro exI [of _ "\<lambda>xs. if xs = get_list (audits s) w then ?rows else xs"])
      (simp add: pg_ListAuditEvents_def mem_ListAuditEvents_def all_rows)
qed

end
