(* ===== verification/PgSimBoards.thy ===== *)
theory PgSimBoards
  imports PgSimMembers
begin

text \<open>
  The two stores agree on boards, columns, cards and sprints. The tables have no lists of columns and
  cards; on a shelf (\<open>Shelf\<close>) the rows in the order of their positions are the list. One operation does
  not agree: a card moved within its column (\<open>PgProps\<close>).
\<close>

section \<open>Reading a shelf from its rows\<close>

lemma shelf_rows:
  assumes sh: "shelved par pos idx m" and ids: "idx p = Some ids" and ks: "range_order m ks"
    and key: "\<forall>k v. m k = Some v \<longrightarrow> key v = k"
  shows "set (select_rows ks m (\<lambda>v. par v = p)) = set (List.map_filter m ids)"
    and "distinct (select_rows ks m (\<lambda>v. par v = p))"
    and "length (select_rows ks m (\<lambda>v. par v = p)) = length ids"
    and "map key (List.map_filter m ids) = ids"
    and "map pos (List.map_filter m ids) = map int [0..<length ids]"
proof -
  note listing = shelved_sorted [OF sh ids]
  have some: "\<exists>v. m k = Some v" if "k \<in> set ids" for k using that shelvedD(2) [OF sh ids] by blast
  show s: "set (select_rows ks m (\<lambda>v. par v = p)) = set (List.map_filter m ids)"
    using listing(2) by (simp add: set_select_rows [OF ks])
  show d: "distinct (select_rows ks m (\<lambda>v. par v = p))" by (rule distinct_select_rows [OF ks, of key]) (simp add: key)
  have keys: "map key (List.map_filter m js) = js" if "set js \<subseteq> set ids" for js
    using that
  proof (induction js)
    case (Cons j js)
    then obtain v where "m j = Some v" using some [of j] by auto
    with Cons key show ?case by (simp add: List.map_filter_simps)
  qed (simp add: List.map_filter_simps)
  then show map: "map key (List.map_filter m ids) = ids" by simp
  then have "distinct (List.map_filter m ids)" using shelvedD(1) [OF sh ids] by (metis distinct_map)
  then have "length (select_rows ks m (\<lambda>v. par v = p)) = length (List.map_filter m ids)"
    using s d by (metis distinct_card)
  also have "\<dots> = length ids" using map by (metis length_map)
  finally show "length (select_rows ks m (\<lambda>v. par v = p)) = length ids" .
  show "map pos (List.map_filter m ids) = map int [0..<length ids]"
  proof (rule nth_equalityI)
    show "length (map pos (List.map_filter m ids)) = length (map int [0..<length ids])" using map by (metis length_map length_upt minus_nat.diff_0)
    fix i assume "i < length (map pos (List.map_filter m ids))"
    then have i: "i < length ids" using map by (metis length_map)
    then obtain v where v: "m (ids ! i) = Some v" using some nth_mem by blast
    have "List.map_filter m ids ! i = v"
      using listing(3) [of v] i v by (simp add: get_zero_def)
    then show "map pos (List.map_filter m ids) ! i = map int [0..<length ids] ! i"
      using shelvedD(3) [OF sh ids i v] i map by (metis (no_types, lifting) add_0 diff_zero length_map length_upt nth_map nth_upt)
  qed
qed

lemma shelf_listing:
  assumes "shelved par pos idx m" and "idx p = Some ids" and "range_order m ks"
    and "\<forall>k v. m k = Some v \<longrightarrow> key v = k" and "slice_order lt" and "\<And>a b. pos a < pos b \<Longrightarrow> lt a b"
  shows "sort_slice lt (select_rows ks m (\<lambda>v. par v = p)) = List.map_filter m ids"
    and "map key (sort_slice lt (select_rows ks m (\<lambda>v. par v = p))) = ids"
proof -
  note rows = shelf_rows [OF assms(1-4)]
  show "sort_slice lt (select_rows ks m (\<lambda>v. par v = p)) = List.map_filter m ids"
    by (rule sort_slice_listing [OF assms(5,6) rows(2) shelved_sorted(1) [OF assms(1,2)] rows(1)])
  then show "map key (sort_slice lt (select_rows ks m (\<lambda>v. par v = p))) = ids" using rows(4) by simp
qed

text \<open>The position after the last one.\<close>

lemma fold_max: "fold max xs (a :: int) = Max (insert a (set xs))"
proof (induction xs arbitrary: a)
  case (Cons x xs)
  then show ?case by (cases "xs = []") (simp_all add: max.left_commute max.assoc)
qed simp

lemma next_after_set: "xs \<noteq> [] \<Longrightarrow> next_after d xs = Max (set xs) + 1"
  by (cases xs) (simp_all add: next_after_def fold_max)

lemma next_after_upt: "set xs = int ` {j..<j + n} \<Longrightarrow> next_after (int j) xs = int (j + n)"
proof (cases n)
  case (Suc m)
  moreover assume "set xs = int ` {j..<j + n}"
  moreover from this have "Max (set xs) = int (j + m)" using Suc by (intro Max_eqI) (auto simp: image_iff intro: bexI [of _ "j + m"])
  ultimately show ?thesis by (cases "xs = []") (auto simp: next_after_set)
qed (simp add: next_after_def)

text \<open>Updating rows that are there is renumbering.\<close>

lemma update_positions:
  "set ids \<subseteq> dom m \<Longrightarrow> fold_index (\<lambda>i k. update_row k (setpos (int i))) j ids m = fold_index (put_at setpos z) j ids m"
proof (induction ids arbitrary: j m)
  case (Cons k ids)
  then obtain v where v: "m k = Some v" by auto
  then have "update_row k (setpos (int j)) m = put_at setpos z j k m" by (simp add: update_row_def put_at_def)
  moreover have "set ids \<subseteq> dom (put_at setpos z j k m)" using Cons.prems by (auto simp: put_at_def)
  ultimately show ?case using Cons.IH by simp
qed simp

lemma column_positions: "set ids \<subseteq> dom C \<Longrightarrow> fold_index column_to 0 ids C = number_columns ids C"
  using update_positions [of ids C "\<lambda>i c. c\<lparr>co_Position := i\<rparr>" 0 zero_Column]
  by (simp add: number_columns_def renumber_def column_to_def [abs_def])

lemma card_positions: "set ids \<subseteq> dom K \<Longrightarrow> applyPositions ids K = number_cards ids K"
  using update_positions [of ids K "\<lambda>i c. c\<lparr>ca_Position := i\<rparr>" 0 zero_Card]
  by (simp add: applyPositions_def number_cards_def renumber_def card_to_def [abs_def])

section \<open>Agreement\<close>

text \<open>An operation on boards agrees when it answers the same and leaves the same four maps.\<close>

lemma agree_boards:
  assumes "rep t s" and "board_inv (snd q)" and "fst p = fst q"
    and "snd q = s\<lparr>boards := boards (snd q), columns := columns (snd q), cards := cards (snd q),
      boardCols := boardCols (snd q), columnCards := columnCards (snd q), sprints := sprints (snd q)\<rparr>"
    and "snd p = t\<lparr>t_boards := boards (snd q), t_columns := columns (snd q), t_cards := cards (snd q), t_sprints := sprints (snd q)\<rparr>"
  shows "agree p q"
proof -
  define B C K BC CC P where "B = boards (snd q)" and "C = columns (snd q)" and "K = cards (snd q)"
    and "BC = boardCols (snd q)" and "CC = columnCards (snd q)" and "P = sprints (snd q)"
  have "snd q = s\<lparr>boards := B, columns := C, cards := K, boardCols := BC, columnCards := CC, sprints := P\<rparr>"
    "snd p = t\<lparr>t_boards := B, t_columns := C, t_cards := K, t_sprints := P\<rparr>"
    using assms(4,5) by (simp_all only: B_def C_def K_def BC_def CC_def P_def)
  then show ?thesis using assms(1-3) unfolding agree_def by (simp add: rep_def)
qed

lemma boardExists_eq:
  "rep t s \<Longrightarrow> sees_all h \<Longrightarrow> pg_boardExists h t b = (if boards s b = None then Inl ErrNotFound else Inr ())"
  by (simp add: pg_boardExists_def all_rows rep_maps)

lemma board_facts:
  assumes r: "rep t s"
  shows "boards s b = Some bd \<Longrightarrow> bd_ID bd = b" and "columns s k = Some c \<Longrightarrow> co_ID c = k"
    and "cards s j = Some ca \<Longrightarrow> ca_ID ca = j" and "cards s j = Some ca \<Longrightarrow> column_board (columns s) (ca_ColumnID ca) = Some (ca_BoardID ca)"
    and "columns s k = Some c \<Longrightarrow> boards s (co_BoardID c) \<noteq> None"
    and "boards s b \<noteq> None \<longleftrightarrow> boardCols s b \<noteq> None" and "columns s k \<noteq> None \<longleftrightarrow> columnCards s k \<noteq> None"
proof -
  note p = board_invD [OF repD(4) [OF r]]
  show "boards s b = Some bd \<Longrightarrow> bd_ID bd = b" by (rule boards_ok_id [OF p(1)])
  show "columns s k = Some c \<Longrightarrow> co_ID c = k" by (rule columns_ok_id [OF p(2)])
  show "cards s j = Some ca \<Longrightarrow> ca_ID ca = j" "cards s j = Some ca \<Longrightarrow> column_board (columns s) (ca_ColumnID ca) = Some (ca_BoardID ca)"
    using p(3) unfolding cards_ok_def card_wf_def by blast+
  have doms: "dom (boardCols s) = dom (boards s)" "dom (columnCards s) = dom (columns s)"
    using p(1,2) by (simp_all add: boards_ok_def columns_ok_def)
  show bb: "boards s b \<noteq> None \<longleftrightarrow> boardCols s b \<noteq> None" for b using doms(1) by blast
  show "columns s k \<noteq> None \<longleftrightarrow> columnCards s k \<noteq> None" using doms(2) by blast
  show "columns s k = Some c \<Longrightarrow> boards s (co_BoardID c) \<noteq> None" using shelved_idx [OF p(5)] bb by blast
qed

lemma agree_CreateBoard [agreeing]:
  assumes r: "rep t s" and h: "sees_all h" and new: "fresh s bid" "length cids = length defaultNames" "distinct (bid # cids)"
    "\<And>k. k \<in> set cids \<Longrightarrow> fresh s k"
  shows "agree (pg_CreateBoard h t bid cids w name now) (mem_CreateBoard s bid cids w name now)"
proof (cases "workspaces s w")
  case None
  then show ?thesis using r by (simp add: pg_CreateBoard_def mem_CreateBoard_def workspaceExists_eq [OF r h])
next
  case (Some ws)
  have iv: "board_inv (snd (mem_CreateBoard s bid cids w name now))" by (rule bi_CreateBoard [OF repD(4) [OF r] new])
  obtain a b c where cids: "cids = [a, b, c]" using three [of cids] new(2) by (auto simp: defaultNames_def)
  have none: "boards s bid = None" "columns s a = None" "columns s b = None" "columns s c = None"
    using new(1,4) cids by (simp_all add: fresh_def)
  show ?thesis
    by (rule agree_boards [OF r iv])
      (use Some none new(3) [THEN distinct_rev [THEN iffD2]] cids h in \<open>simp_all add: pg_CreateBoard_def mem_CreateBoard_def workspaceExists_eq [OF r h] Let_def
        insert_row_def all_rows rep_maps [OF r] defaultNames_def add_column_def new_column_def\<close>)
qed

lemma agree_ArchiveBoard [agreeing]:
  assumes r: "rep t s" and h: "sees_all h" and live: "\<And>bd. boards s b = Some bd \<Longrightarrow> bd_ArchivedAt bd = None"
  shows "agree (pg_ArchiveBoard h t b now) (mem_ArchiveBoard s b now)"
proof (cases "boards s b")
  case None
  then show ?thesis using r h by (simp add: pg_ArchiveBoard_def mem_ArchiveBoard_def all_rows rep_maps)
next
  case (Some bd)
  show ?thesis
    by (rule agree_boards [OF r bi_ArchiveBoard [OF repD(4) [OF r]]])
      (use Some live h in \<open>simp_all add: pg_ArchiveBoard_def mem_ArchiveBoard_def all_rows rep_maps [OF r] update_row_def\<close>)
qed

lemma agree_UnarchiveBoard [agreeing]:
  assumes r: "rep t s" and h: "sees_all h"
  shows "agree (pg_UnarchiveBoard h t b) (mem_UnarchiveBoard s b)"
proof (cases "boards s b")
  case None
  then show ?thesis using r h by (simp add: pg_UnarchiveBoard_def mem_UnarchiveBoard_def all_rows rep_maps)
next
  case (Some bd)
  show ?thesis
    by (rule agree_boards [OF r bi_UnarchiveBoard [OF repD(4) [OF r]]])
      (use Some h in \<open>simp_all add: pg_UnarchiveBoard_def mem_UnarchiveBoard_def all_rows rep_maps [OF r] update_row_def\<close>)
qed

lemma agree_board_reads [agreeing]:
  assumes "rep t s" and "sees_all h"
  shows "pg_ListBoards h t sc w = mem_ListBoards (sc_boards sc) s w"
    and "pg_BoardWorkspaceID h t b = mem_BoardWorkspaceID s b" and "pg_ColumnBoardID h t k = mem_ColumnBoardID s k"
    and "pg_GetCard h t j = mem_GetCard s j" and "pg_CardWorkspaceID h t j = mem_CardWorkspaceID s j"
    and "pg_ListCardsInWorkspace h t sc w = mem_ListCardsInWorkspace (sc_cards sc) s w"
    and "pg_ListCardsOnBoard h t sc b = mem_ListCardsOnBoard (sc_cards sc) s b"
    and "pg_ListSprints h t sc b = mem_ListSprints (sc_sprints sc) s b" and "pg_GetSprint h t sid = mem_GetSprint s sid"
  using assms
  by (simp_all add: pg_ListBoards_def mem_ListBoards_def pg_BoardWorkspaceID_def mem_BoardWorkspaceID_def pg_ColumnBoardID_def
      mem_ColumnBoardID_def pg_GetCard_def mem_GetCard_def pg_CardWorkspaceID_def mem_CardWorkspaceID_def
      pg_ListCardsInWorkspace_def mem_ListCardsInWorkspace_def pg_ListCardsOnBoard_def mem_ListCardsOnBoard_def
      pg_ListSprints_def mem_ListSprints_def pg_GetSprint_def mem_GetSprint_def workspaceExists_eq boardExists_eq all_rows
      rep_maps select_rows_def split: option.split)

section \<open>Columns\<close>

lemma column_scan: "rep t s \<Longrightarrow> scans t sc \<Longrightarrow> range_order (columns s) (sc_columns sc)"
  and card_scan: "rep t s \<Longrightarrow> scans t sc \<Longrightarrow> range_order (cards s) (sc_cards sc)"
  by (simp_all add: scans_def rep_maps)

lemma column_keys: "rep t s \<Longrightarrow> \<forall>k c. columns s k = Some c \<longrightarrow> co_ID c = k"
  and card_keys: "rep t s \<Longrightarrow> \<forall>k c. cards s k = Some c \<longrightarrow> ca_ID c = k"
  using board_facts(2,3) by blast+

lemma column_shelf_rows:
  assumes r: "rep t s" and sc: "scans t sc" and ids: "boardCols s b = Some ids"
  shows "set (map co_Position (select_rows (sc_columns sc) (columns s) (\<lambda>c. co_BoardID c = b))) = int ` {0..<length ids}"
    and "length (select_rows (sc_columns sc) (columns s) (\<lambda>c. co_BoardID c = b)) = length ids"
    and "set (map co_ID (select_rows (sc_columns sc) (columns s) (\<lambda>c. co_BoardID c = b))) = set ids"
    and "distinct (map co_ID (select_rows (sc_columns sc) (columns s) (\<lambda>c. co_BoardID c = b)))"
proof -
  note rows = shelf_rows [OF board_invD(5) [OF repD(4) [OF r]] ids column_scan [OF r sc] column_keys [OF r]]
  have "set (map co_Position (select_rows (sc_columns sc) (columns s) (\<lambda>c. co_BoardID c = b))) = set (map int [0..<length ids])"
    using rows(1) by (simp only: set_map rows(5) [symmetric])
  then show "set (map co_Position (select_rows (sc_columns sc) (columns s) (\<lambda>c. co_BoardID c = b))) = int ` {0..<length ids}" by simp
  show l: "length (select_rows (sc_columns sc) (columns s) (\<lambda>c. co_BoardID c = b)) = length ids" by (rule rows(3))
  show s: "set (map co_ID (select_rows (sc_columns sc) (columns s) (\<lambda>c. co_BoardID c = b))) = set ids"
    using arg_cong [OF rows(1), of "(`) co_ID"] rows(4) by (metis set_map)
  have "card (set ids) = length ids" using shelvedD(1) [OF board_invD(5) [OF repD(4) [OF r]] ids] by (simp add: distinct_card)
  then show "distinct (map co_ID (select_rows (sc_columns sc) (columns s) (\<lambda>c. co_BoardID c = b)))"
    using s l by (intro card_distinct) simp
qed

lemma agree_CreateColumn [agreeing]:
  assumes r: "rep t s" and h: "sees_all h" and sc: "scans t sc" and new: "fresh s nid"
  shows "agree (pg_CreateColumn h t sc nid b name now) (mem_CreateColumn s nid b name now)"
proof (cases "boards s b")
  case None
  then show ?thesis using r by (simp add: pg_CreateColumn_def mem_CreateColumn_def boardExists_eq [OF r h])
next
  case (Some bd)
  then obtain ids where ids: "boardCols s b = Some ids" using board_facts(6) [OF r, of b] by auto
  have pos: "next_after 0 (map co_Position (select_rows (sc_columns sc) (columns s) (\<lambda>c. co_BoardID c = b))) = int (length ids)"
    using next_after_upt [of _ 0 "length ids"] column_shelf_rows(1) [OF r sc ids] by simp
  have "columns s nid = None" using new by (simp add: fresh_def)
  then show ?thesis
    by (intro agree_boards [OF r bi_CreateColumn [OF repD(4) [OF r] new]])
      (use Some pos ids h in \<open>simp_all add: pg_CreateColumn_def mem_CreateColumn_def boardExists_eq [OF r h] all_rows rep_maps [OF r]
        insert_row_def new_column_def get_list_def Let_def\<close>)
qed

lemma agree_RenameColumn [agreeing]:
  assumes r: "rep t s" and h: "sees_all h"
  shows "agree (pg_RenameColumn h t k name) (mem_RenameColumn s k name)"
proof (cases "columns s k")
  case None
  then show ?thesis using r h by (simp add: pg_RenameColumn_def mem_RenameColumn_def all_rows rep_maps)
next
  case (Some col)
  show ?thesis
    by (rule agree_boards [OF r bi_RenameColumn [OF repD(4) [OF r]]])
      (use Some h in \<open>simp_all add: pg_RenameColumn_def mem_RenameColumn_def all_rows rep_maps [OF r] update_row_def Let_def\<close>)
qed

lemma slice_order_column: "slice_order column_row_before"
  by unfold_locales (auto simp: column_row_before_def split: if_splits)

lemma slice_order_card: "slice_order card_position_before"
  by unfold_locales (auto simp: card_position_before_def split: if_splits)

lemma agree_DeleteColumn [agreeing]:
  assumes r: "rep t s" and h: "sees_all h" and sc: "scans t sc"
  shows "agree (pg_DeleteColumn h t sc k) (mem_DeleteColumn s k)"
proof (cases "columns s k")
  case None
  then show ?thesis using r h by (simp add: pg_DeleteColumn_def mem_DeleteColumn_def all_rows rep_maps)
next
  case (Some col)
  note parts = board_invD [OF repD(4) [OF r]]
  let ?b = "co_BoardID col"
  obtain cids where cids: "columnCards s k = Some cids" using board_facts(7) [OF r, of k] Some by auto
  obtain ids where ids: "boardCols s ?b = Some ids" "k \<in> set ids" using shelved_parent [OF parts(5) Some] by blast
  have cards: "length (select_rows (sc_cards sc) (cards s) (\<lambda>c. ca_ColumnID c = k)) = length cids"
    by (rule shelf_rows(3) [OF parts(6) cids card_scan [OF r sc] card_keys [OF r]])
  note cols = column_shelf_rows(2) [OF r sc ids(1)]
  let ?ids = "filter (\<lambda>j. j \<noteq> k) ids" and ?C = "(columns s)(k := None)"
  have left: "map co_ID (sort_slice column_row_before (select_rows (sc_columns sc) ?C (\<lambda>c. co_BoardID c = ?b))) = ?ids"
  proof -
    have key: "co_ID c = j" if "columns s j = Some c" for j c using that board_facts(2) [OF r] by blast
    have same: "select_rows ks ?C (\<lambda>c. co_BoardID c = ?b) = filter (\<lambda>c. co_ID c \<noteq> k) (select_rows ks (columns s) (\<lambda>c. co_BoardID c = ?b))" for ks
      using key by (induction ks) (auto simp: select_rows_def split: option.splits)
    have listing: "List.map_filter (columns s) js = map (get_zero zero_Column (columns s)) js" if "set js \<subseteq> dom (columns s)" for js
      using that by (induction js) (auto simp: List.map_filter_simps)
    have sub: "set ids \<subseteq> dom (columns s)" using shelf_ids(2) [OF parts(5) ids(1)] by blast
    note rows = shelf_rows [OF parts(5) ids(1) column_scan [OF r sc] column_keys [OF r]]
    have "sort_slice column_row_before (select_rows (sc_columns sc) ?C (\<lambda>c. co_BoardID c = ?b)) =
        filter (\<lambda>c. co_ID c \<noteq> k) (List.map_filter (columns s) ids)"
    proof (rule sort_slice_listing [OF slice_order_column])
      show "sorted_wrt (\<lambda>a b. co_Position a < co_Position b) (filter (\<lambda>c. co_ID c \<noteq> k) (List.map_filter (columns s) ids))"
        by (rule sorted_wrt_filter [OF shelved_sorted(1) [OF parts(5) ids(1)]])
    qed (use rows(1,2) in \<open>simp_all add: same column_row_before_def\<close>)
    moreover have "map co_ID (filter (\<lambda>c. co_ID c \<noteq> k) L) = filter (\<lambda>j. j \<noteq> k) (map co_ID L)" for L :: "Column list"
      by (simp add: filter_map comp_def)
    ultimately show ?thesis using rows(4) by simp
  qed
  have sub: "set ?ids \<subseteq> dom ?C" using shelf_ids(2) [OF parts(5) ids(1)] by auto
  have "fold_index column_to 0 ?ids ?C = (number_columns ?ids (columns s))(k := None)"
  proof -
    have "number_columns ?ids ?C j = ((number_columns ?ids (columns s))(k := None)) j" for j
    proof (cases "j = k")
      case True
      then show ?thesis by (simp add: number_columns_def renumber_other)
    next
      case False
      then show ?thesis
        using renumber_override [of ?ids "\<lambda>i c. c\<lparr>co_Position := i\<rparr>" zero_Column "columns s" k None undefined]
          shelf_ids(1) [OF parts(5) ids(1)] by (auto simp: number_columns_def dest: fun_cong [of _ _ j])
    qed
    then show ?thesis using column_positions [OF sub] by auto
  qed
  then show ?thesis
    by (intro agree_boards [OF r bi_DeleteColumn [OF repD(4) [OF r]]])
      (use Some h cids ids cards cols left in \<open>simp_all add: pg_DeleteColumn_def mem_DeleteColumn_def all_rows rep_maps [OF r]
        board_column_ids_def get_list_def Let_def\<close>)
qed

lemma agree_ReorderColumns [agreeing]:
  assumes r: "rep t s" and h: "sees_all h" and sc: "scans t sc"
  shows "agree (pg_ReorderColumns h t sc b cs) (mem_ReorderColumns s b cs)"
proof (cases "boards s b")
  case None
  then show ?thesis using r by (simp add: pg_ReorderColumns_def mem_ReorderColumns_def boardExists_eq [OF r h])
next
  case (Some bd)
  then obtain ids where ids: "boardCols s b = Some ids" using board_facts(6) [OF r, of b] by auto
  let ?current = "map co_ID (select_rows (sc_columns sc) (columns s) (\<lambda>c. co_BoardID c = b))"
  have "length (remdups ?current) = length ?current" using column_shelf_rows(4) [OF r sc ids] by (simp only: length_remdups_eq remdups_id_iff_distinct)
  then have current: "length (remdups ?current) = length ids" "co_ID ` set (select_rows (sc_columns sc) (columns s) (\<lambda>c. co_BoardID c = b)) = set ids"
    using column_shelf_rows(2,3) [OF r sc ids] by simp_all
  have sub: "set ids \<subseteq> dom (columns s)" using shelf_ids(2) [OF board_invD(5) [OF repD(4) [OF r]] ids] by blast
  have "fold_index column_to 0 cs (columns s) = number_columns cs (columns s)" if "tick_off (set ids) cs = Some {}"
    by (rule column_positions) (use that sub in \<open>auto simp: tick_off_Some\<close>)
  then show ?thesis
    by (intro agree_boards [OF r bi_ReorderColumns [OF repD(4) [OF r]]])
      (use Some h ids current in \<open>auto simp: pg_ReorderColumns_def mem_ReorderColumns_def boardExists_eq [OF r h] all_rows rep_maps [OF r]
        get_list_def Let_def split: option.split\<close>)
qed

section \<open>Cards\<close>

text \<open>The cards of a column, and the detail of a board.\<close>

lemma column_card_ids:
  assumes r: "rep t s" and sc: "scans t sc" and cids: "columnCards s k = Some cids"
  shows "map ca_ID (sort_slice card_position_before (select_rows (sc_cards sc) (cards s) (\<lambda>c. ca_ColumnID c = k))) = cids"
  by (rule shelf_listing(2) [OF board_invD(6) [OF repD(4) [OF r]] cids card_scan [OF r sc] card_keys [OF r] slice_order_card])
    (simp add: card_position_before_def)

lemma slice_order_card_row: "slice_order card_row_before"
  by unfold_locales (auto simp: card_row_before_def split: if_splits)

lemma agree_GetBoardDetail [agreeing]:
  assumes r: "rep t s" and h: "sees_all h" and sc: "scans t sc"
  shows "pg_GetBoardDetail h t sc b = mem_GetBoardDetail s b"
proof (cases "boards s b")
  case None
  then show ?thesis using r h by (simp add: pg_GetBoardDetail_def mem_GetBoardDetail_def all_rows rep_maps Let_def)
next
  case (Some bd)
  note parts = board_invD [OF repD(4) [OF r]]
  obtain ids where ids: "boardCols s b = Some ids" using board_facts(6) [OF r, of b] Some by auto
  have cols: "sort_slice (\<lambda>a b. co_Position a < co_Position b) (select_rows (sc_columns sc) (columns s) (\<lambda>c. co_BoardID c = b))
      = map (get_zero zero_Column (columns s)) ids"
    using shelf_listing(1) [OF parts(5) ids column_scan [OF r sc] column_keys [OF r] slice_order_key [of co_Position]]
      shelved_sorted(3) [OF parts(5) ids] by simp
  let ?rows = "sort_slice card_row_before (select_rows (sc_cards sc) (cards s) (\<lambda>c. ca_BoardID c = b))"
  have "filter (\<lambda>c. ca_ColumnID c = k) ?rows = map (get_zero zero_Card (cards s)) (get_list (columnCards s) k)"
    if k: "columns s k = Some col" and col: "co_BoardID col = b" for k col
  proof -
    obtain cids where cids: "columnCards s k = Some cids" using board_facts(7) [OF r, of k] k by auto
    note listing = shelved_sorted [OF parts(6) cids]
    have "ca_BoardID c = b" if "cards s j = Some c" "ca_ColumnID c = k" for j c
      using board_facts(4) [OF r that(1)] that(2) k col by (simp add: column_board_def)
    then have same: "set (filter (\<lambda>c. ca_ColumnID c = k) ?rows) = set (List.map_filter (cards s) cids)"
      using listing(2) by (auto simp: set_select_rows [OF card_scan [OF r sc]])
    have rows: "sorted_wrt (\<lambda>a b. \<not> card_row_before b a) (filter (\<lambda>c. ca_ColumnID c = k) ?rows)"
      by (rule sorted_wrt_filter) (rule slice_order.sorted_sort_slice [OF slice_order_card_row])
    have "sorted_wrt (\<lambda>a b. ca_Position a \<le> ca_Position b) (filter (\<lambda>c. ca_ColumnID c = k) ?rows)"
      by (rule sorted_wrt_mono_rel [OF _ rows]) (auto simp: card_row_before_def)
    moreover have "distinct (filter (\<lambda>c. ca_ColumnID c = k) ?rows)"
      using distinct_select_rows [OF card_scan [OF r sc], of ca_ID] card_keys [OF r] by simp
    ultimately have "filter (\<lambda>c. ca_ColumnID c = k) ?rows = List.map_filter (cards s) cids"
      by (rule listing_unique [OF _ _ listing(1) same])
    then show ?thesis using listing(3) cids by (simp add: get_list_def)
  qed
  then have "\<lparr>cwc_Column = get_zero zero_Column (columns s) k, cwc_Cards = filter (\<lambda>c. ca_ColumnID c = co_ID (get_zero zero_Column (columns s) k)) ?rows\<rparr>
      = column_with_cards s k" if "k \<in> set ids" for k
    using that shelvedD(2) [OF parts(5) ids, of k] column_keys [OF r] by (auto simp: column_with_cards_def)
  then have "map (\<lambda>col. \<lparr>cwc_Column = col, cwc_Cards = filter (\<lambda>c. ca_ColumnID c = co_ID col) ?rows\<rparr>) (map (get_zero zero_Column (columns s)) ids)
      = map (column_with_cards s) ids" by simp
  then show ?thesis
    using Some h ids cols by (simp add: pg_GetBoardDetail_def mem_GetBoardDetail_def all_rows rep_maps [OF r] Let_def get_list_def)
qed

lemma agree_CreateCard [agreeing]:
  assumes r: "rep t s" and h: "sees_all h" and sc: "scans t sc" and new: "fresh s nid"
  shows "agree (pg_CreateCard h t sc nid k title d now) (mem_CreateCard s nid k title d now)"
proof (cases "columns s k")
  case None
  then show ?thesis using r h by (simp add: pg_CreateCard_def mem_CreateCard_def all_rows rep_maps Let_def)
next
  case (Some col)
  obtain cids where cids: "columnCards s k = Some cids" using board_facts(7) [OF r, of k] Some by auto
  have n: "length (select_rows (sc_cards sc) (cards s) (\<lambda>c. ca_ColumnID c = k)) = length cids"
    by (rule shelf_rows(3) [OF board_invD(6) [OF repD(4) [OF r]] cids card_scan [OF r sc] card_keys [OF r]])
  obtain bd where bd: "boards s (co_BoardID col) = Some bd" using board_facts(5) [OF r Some] by blast
  then have "bd_ID bd = co_BoardID col" using board_facts(1) [OF r] by blast
  moreover have "cards s nid = None" using new by (simp add: fresh_def)
  ultimately show ?thesis
    by (intro agree_boards [OF r bi_CreateCard [OF repD(4) [OF r] new]])
      (use Some h bd n cids in \<open>simp_all add: pg_CreateCard_def mem_CreateCard_def all_rows rep_maps [OF r] insert_row_def get_list_def
        Let_def\<close>)
qed

lemma agree_UpdateCard [agreeing]:
  assumes r: "rep t s" and h: "sees_all h"
  shows "agree (pg_UpdateCard h t k title d sprint v now) (mem_UpdateCard s k title d sprint v now)"
proof (cases "\<exists>c. cards s k = Some c \<and> ca_Version c = v")
  case False
  then show ?thesis using r h by (auto simp: pg_UpdateCard_def mem_UpdateCard_def all_rows rep_maps Let_def split: option.split)
next
  case True
  then obtain c where c: "cards s k = Some c" "ca_Version c = v" by blast
  have put: "rep (t\<lparr>t_cards := (cards s)(k \<mapsto> c')\<rparr>) (s\<lparr>cards := (cards s)(k \<mapsto> c')\<rparr>)"
    if "board_inv (s\<lparr>cards := (cards s)(k \<mapsto> c')\<rparr>)" for c'
    using r that by (simp add: rep_def)
  note iv = bi_UpdateCard [OF repD(4) [OF r], of k title d sprint v now]
  show ?thesis
    using r h c iv
    by (auto simp: pg_UpdateCard_def mem_UpdateCard_def all_rows rep_maps [OF r] Let_def update_row_def intro!: put split: option.splits)
qed

text \<open>A card that goes to another column.\<close>

lemma pg_MoveCard_eq:
  assumes "t_cards (view h t) k = Some c" and "ca_Version c = v" and "t_columns (view h t) target = Some col"
    and "co_ID col = target" and "co_BoardID col = ca_BoardID c"
  shows "pg_MoveCard h t sc k target position v now =
    (let t1 = reindexWithout h t sc (ca_ColumnID c) k; ids = columnCardIDs h t1 sc target; i = clamp position (length ids);
         card = moved_card c col i now
     in (Inr card, t1\<lparr>t_cards := update_row k
           (\<lambda>row. row\<lparr>ca_ColumnID := ca_ColumnID card, ca_Position := ca_Position card, ca_CompletedAt := ca_CompletedAt card,
              ca_Version := ca_Version card, ca_UpdatedAt := ca_UpdatedAt card\<rparr>)
           (applyPositions (take i ids @ [k] @ drop i ids) (t_cards t1))\<rparr>))"
  using assms by (simp add: pg_MoveCard_def moved_card_def clamp_def Let_def)

lemma agree_MoveCard [agreeing]:
  assumes r: "rep t s" and h: "sees_all h" and sc: "scans t sc"
    and other: "\<And>c. cards s k = Some c \<Longrightarrow> ca_ColumnID c \<noteq> target"
  shows "agree (pg_MoveCard h t sc k target position v now) (mem_MoveCard s k target position v now)"
proof (cases "\<exists>c col. cards s k = Some c \<and> ca_Version c = v \<and> columns s target = Some col \<and> co_BoardID col = ca_BoardID c")
  case False
  then show ?thesis using r h by (auto simp: pg_MoveCard_def mem_MoveCard_def all_rows rep_maps Let_def split: option.split)
next
  case True
  then obtain c col where c: "cards s k = Some c" "ca_Version c = v"
    and col: "columns s target = Some col" "co_BoardID col = ca_BoardID c" by blast
  note parts = board_invD [OF repD(4) [OF r]]
  have id: "co_ID col = target" and cid: "ca_ID c = k" using board_facts(2,3) [OF r] col(1) c(1) by blast+
  have src: "ca_ColumnID c \<noteq> target" by (rule other [OF c(1)])
  obtain tids where tids: "columnCards s target = Some tids" using board_facts(7) [OF r, of target] col(1) by auto
  obtain ids where ids: "columnCards s (ca_ColumnID c) = Some ids" using shelved_idx [OF parts(6) c(1)] by blast
  let ?old = "filter (\<lambda>j. j \<noteq> k) ids"
  let ?i = "clamp position (length tids)"
  let ?new = "take ?i tids @ [k] @ drop ?i tids"
  have old: "set ?old \<subseteq> dom (cards s)" "set tids \<subseteq> dom (cards s)"
    using shelf_ids(2) [OF parts(6) ids] shelf_ids(2) [OF parts(6) tids] by auto
  let ?K1 = "number_cards ?old (cards s)"
  have same: "?K1 j = cards s j \<or> (\<exists>c1 c2. ?K1 j = Some c1 \<and> cards s j = Some c2 \<and> ca_ColumnID c1 \<noteq> target \<and> ca_ColumnID c2 \<noteq> target)" for j
  proof (cases "j \<in> set ?old")
    case True
    then obtain c2 where c2: "cards s j = Some c2" "ca_ColumnID c2 = ca_ColumnID c" using shelvedD(2) [OF parts(6) ids, of j] by auto
    obtain n where "?K1 j = Some (c2\<lparr>ca_Position := n\<rparr>)"
      using renumber_mem [OF _ True, of "\<lambda>i c. c\<lparr>ca_Position := i\<rparr>" zero_Card "cards s"] shelf_ids(1) [OF parts(6) ids] c2(1)
      by (auto simp: number_cards_def get_zero_def)
    then show ?thesis using c2 src by auto
  next
    case False
    then show ?thesis by (simp add: number_cards_def renumber_other)
  qed
  have "select_rows ks ?K1 (\<lambda>c. ca_ColumnID c = target) = select_rows ks (cards s) (\<lambda>c. ca_ColumnID c = target)" for ks
  proof (rule select_rows_cong)
    show "Option.bind (?K1 j) (\<lambda>x. if ca_ColumnID x = target then Some x else None) =
        Option.bind (cards s j) (\<lambda>x. if ca_ColumnID x = target then Some x else None)" for j
      using same [of j] by auto
  qed
  then have target_ids: "map ca_ID (sort_slice card_position_before (select_rows (sc_cards sc) ?K1 (\<lambda>c. ca_ColumnID c = target))) = tids"
    using column_card_ids [OF r sc tids] by simp
  have source_ids: "map ca_ID (sort_slice card_position_before (select_rows (sc_cards sc) (cards s) (\<lambda>x. ca_ColumnID x = ca_ColumnID c))) = ids"
    by (rule column_card_ids [OF r sc ids])
  have "set ?new \<subseteq> dom ?K1" using old c(1) shelf_ids(1) [OF parts(6) ids]
    by (auto simp: number_cards_def renumber_dom dom_def dest!: in_set_takeD in_set_dropD)
  note K2 = card_positions [OF this]
  have mem: "mem_MoveCard s k target position v now = (Inr (moved_card c col ?i now),
      s\<lparr>columnCards := (columnCards s)(ca_ColumnID c \<mapsto> ?old, target \<mapsto> ?new),
        cards := (number_cards ?new ?K1)(k \<mapsto> moved_card c col ?i now)\<rparr>)"
    using MoveCard_eq [OF c col(1) id col(2), of position now] src tids ids by (simp add: moved_order_def get_list_def Let_def)
  have notin: "k \<notin> set tids" using shelvedD(2) [OF parts(6) tids, of k] c(1) src by auto
  have "distinct ?new" using notin shelf_ids(1) [OF parts(6) tids]
    by (simp add: set_take_disj_set_drop_if_distinct) (meson in_set_takeD in_set_dropD)
  moreover have "?K1 k = Some c" using c(1) by (simp add: number_cards_def renumber_other)
  ultimately obtain n where n: "number_cards ?new ?K1 k = Some (c\<lparr>ca_Position := n\<rparr>)"
    using renumber_mem [of ?new k "\<lambda>i c. c\<lparr>ca_Position := i\<rparr>" zero_Card ?K1] by (auto simp: number_cards_def get_zero_def)
  have t1: "reindexWithout h t sc (ca_ColumnID c) k = t\<lparr>t_cards := ?K1\<rparr>"
    using source_ids h card_positions [OF old(1)] by (simp add: reindexWithout_def columnCardIDs_def all_rows rep_maps [OF r])
  moreover have "columnCardIDs h (t\<lparr>t_cards := ?K1\<rparr>) sc target = tids"
    using target_ids h by (simp add: columnCardIDs_def all_rows)
  moreover have "update_row k (\<lambda>row. row\<lparr>ca_ColumnID := ca_ColumnID (moved_card c col ?i now), ca_Position := ca_Position (moved_card c col ?i now),
        ca_CompletedAt := ca_CompletedAt (moved_card c col ?i now), ca_Version := ca_Version (moved_card c col ?i now),
        ca_UpdatedAt := ca_UpdatedAt (moved_card c col ?i now)\<rparr>) (number_cards ?new ?K1)
      = (number_cards ?new ?K1)(k \<mapsto> moved_card c col ?i now)"
    by (simp only: update_row_def n option.case) (simp add: moved_card_def)
  moreover have K: "t_cards (view h t) k = Some c" "t_columns (view h t) target = Some col"
    using c(1) col(1) by (simp_all add: all_rows(6) [OF h] rep_maps [OF r])
  ultimately have pg: "pg_MoveCard h t sc k target position v now = (Inr (moved_card c col ?i now),
      t\<lparr>t_cards := (number_cards ?new ?K1)(k \<mapsto> moved_card c col ?i now)\<rparr>)"
    using pg_MoveCard_eq [OF K(1) c(2) K(2) id col(2), of sc position now] K2 by (simp add: Let_def)
  show ?thesis
    by (rule agree_boards [OF r bi_MoveCard [OF repD(4) [OF r]]]) (use rep_maps [OF r] in \<open>simp_all add: pg mem\<close>)
qed

section \<open>Sprints\<close>

lemma agree_CreateSprint [agreeing]:
  assumes r: "rep t s" and h: "sees_all h" and new: "fresh s nid" and window: "ValidSprintWindow a b"
  shows "agree (pg_CreateSprint h t nid bid name a b now) (mem_CreateSprint s nid bid name a b now)"
proof (cases "boards s bid")
  case None
  then show ?thesis using r h by (simp add: pg_CreateSprint_def mem_CreateSprint_def all_rows rep_maps)
next
  case (Some bd)
  have "sprints s nid = None" using new by (simp add: fresh_def)
  then show ?thesis
    by (intro agree_boards [OF r bi_CreateSprint [OF repD(4) [OF r] new window]])
      (use Some h in \<open>simp_all add: pg_CreateSprint_def mem_CreateSprint_def all_rows rep_maps [OF r] insert_row_def Let_def\<close>)
qed

lemma agree_UpdateSprint [agreeing]:
  assumes r: "rep t s" and h: "sees_all h"
    and window: "\<And>sp. sprints s k = Some sp \<Longrightarrow>
      ValidSprintWindow (case a of None \<Rightarrow> sp_StartAt sp | Some x \<Rightarrow> x) (case b of None \<Rightarrow> sp_EndAt sp | Some x \<Rightarrow> x)"
  shows "agree (pg_UpdateSprint h t k name a b now) (mem_UpdateSprint s k name a b now)"
proof (cases "sprints s k")
  case None
  then show ?thesis using r h by (simp add: pg_UpdateSprint_def pg_GetSprint_def mem_UpdateSprint_def all_rows rep_maps)
next
  case (Some sp)
  show ?thesis
    by (rule agree_boards [OF r bi_UpdateSprint [OF repD(4) [OF r] window]])
      (use Some h in \<open>auto simp: pg_UpdateSprint_def pg_GetSprint_def mem_UpdateSprint_def all_rows rep_maps [OF r] update_row_def Let_def
        split: option.split\<close>)
qed

lemma agree_DeleteSprint [agreeing]:
  assumes r: "rep t s" and h: "sees_all h"
  shows "agree (pg_DeleteSprint h t k) (mem_DeleteSprint s k)"
proof (cases "sprints s k")
  case None
  then show ?thesis using r h by (simp add: pg_DeleteSprint_def mem_DeleteSprint_def all_rows rep_maps)
next
  case (Some sp)
  show ?thesis
    by (rule agree_boards [OF r bi_DeleteSprint [OF repD(4) [OF r]]])
      (use Some h in \<open>simp_all add: pg_DeleteSprint_def mem_DeleteSprint_def all_rows rep_maps [OF r] clear_sprint_def [abs_def]\<close>)
qed

end
