(* ===== verification/PgSimPages.thy ===== *)
theory PgSimPages
  imports PgSimBoards
begin

text \<open>
  The two stores agree on pages and their versions: the recursive query ends on a forest and finds what
  the recursion of the memory store finds, and deleting the rows behind the newest hundred numbers is
  keeping the last hundred of the list.
\<close>

section \<open>Replacing the pages\<close>

lemma rep_pages_upd:
  assumes "rep t s" and "page_forest P" and "\<forall>k p. P k = Some p \<longrightarrow> pg_ID p = k \<and> 0 \<le> pg_Position p"
    and "rep_rooms (documents s) P (documents s) X"
  shows "rep (t\<lparr>t_pages := P\<rparr>) (s\<lparr>pages := P, collabIndex := X\<rparr>)"
  using assms by (simp add: rep_def rep_pages_def rep_rooms_def)

lemma page_facts:
  assumes "rep t s"
  shows "page_forest (pages s)" and "pages s k = Some p \<Longrightarrow> pg_ID p = k" and "pages s k = Some p \<Longrightarrow> 0 \<le> pg_Position p"
  using repD(6) [OF assms] by (simp_all add: rep_pages_def)

lemma rooms_facts:
  assumes "rep t s"
  shows "rep_rooms (documents s) (pages s) (documents s) (collabIndex s)"
  using repD(7) [OF assms] by (simp add: rep_rooms_def)

text \<open>Changing pages in place.\<close>

lemma rep_pages_same:
  assumes r: "rep t s" and f: "page_forest P"
    and same: "\<And>k. map_option (\<lambda>p. (pg_ID p, pg_Position p, pg_CollabDocumentID p)) (P k) =
      map_option (\<lambda>p. (pg_ID p, pg_Position p, pg_CollabDocumentID p)) (pages s k)"
  shows "rep (t\<lparr>t_pages := P\<rparr>) (s\<lparr>pages := P\<rparr>)"
proof -
  have old: "\<exists>q. pages s k = Some q \<and> pg_ID q = pg_ID p \<and> pg_Position q = pg_Position p" if "P k = Some p" for k p
    using same [of k] that by (cases "pages s k") auto
  have "map_option pg_CollabDocumentID (P k) = map_option pg_CollabDocumentID (pages s k)" for k
    using arg_cong [OF same [of k], of "map_option (\<lambda>(a, b, c). c)"] by (simp add: option.map_comp comp_def)
  then have "rep_rooms (documents s) P (documents s) (collabIndex s)"
    using rooms_facts [OF r] indexed_same [of pg_CollabDocumentID P "pages s"] by (simp add: rep_rooms_def)
  moreover have "\<forall>k p. P k = Some p \<longrightarrow> pg_ID p = k \<and> 0 \<le> pg_Position p"
    using old page_facts(2,3) [OF r] by metis
  ultimately have "rep (t\<lparr>t_pages := P\<rparr>) (s\<lparr>pages := P, collabIndex := collabIndex s\<rparr>)" by (intro rep_pages_upd [OF r f])
  then show ?thesis by simp
qed

section \<open>Creating pages\<close>

lemma validateParentTx_eq: "validateParentTx (pages s) k w par = validateParentLocked s k w par"
  by (simp add: validateParentTx_def validateParentLocked_def)

lemma sees_all_Unscoped: "sees_all h \<Longrightarrow> sees_all (pg_Unscoped h)"
  by (auto simp: sees_all_def row_tenant_def setTenantLocal_def pg_Unscoped_def split: if_splits)

lemma validateParent_eq: "rep t s \<Longrightarrow> sees_all h \<Longrightarrow> validateParent h t k w par = validateParentLocked s k w par"
  by (simp add: validateParent_def sees_all_view [OF sees_all_Unscoped] rep_maps validateParentTx_eq)

lemma next_position_fold:
  "next_position ks P w par a =
    fold max (map (\<lambda>p. pg_Position p + 1) (select_rows ks P (\<lambda>p. pg_WorkspaceID p = w \<and> pg_ParentID p = par))) a"
proof (induction ks arbitrary: a)
  case (Cons k ks)
  then show ?case by (cases "P k") (auto simp: select_rows_def max_def)
qed (simp add: select_rows_def)

lemma next_after_fold:
  assumes "\<forall>x \<in> set xs. 0 \<le> (x :: int)"
  shows "fold max (map (\<lambda>x. x + 1) xs) 0 = next_after 0 xs"
proof -
  have shift: "fold max (map (\<lambda>x. x + 1) ys) (a + 1) = fold max ys a + 1" for ys and a :: int
  proof (induction ys arbitrary: a)
    case (Cons y ys)
    have "max (y + 1) (a + 1) = max y a + 1" by simp
    with Cons show ?case by (simp del: max_add_distrib_left)
  qed simp
  show ?thesis
  proof (cases xs)
    case (Cons y ys)
    then have "max (y + 1) 0 = y + 1" using assms by simp
    then show ?thesis using Cons shift [of ys y] by (simp add: next_after_def)
  qed (simp add: next_after_def)
qed

lemma page_scan: "rep t s \<Longrightarrow> scans t sc \<Longrightarrow> range_order (pages s) (sc_pages sc)"
  by (simp add: scans_def rep_maps)

lemma page_position:
  assumes r: "rep t s" and sc: "scans t sc"
  shows "next_position (sc_pages sc) (pages s) w par 0 =
    next_after 0 (map pg_Position (select_rows (sc_pages sc) (pages s) (\<lambda>p. pg_WorkspaceID p = w \<and> pg_ParentID p = par)))"
proof -
  let ?rows = "select_rows (sc_pages sc) (pages s) (\<lambda>p. pg_WorkspaceID p = w \<and> pg_ParentID p = par)"
  have "\<forall>x \<in> set (map pg_Position ?rows). 0 \<le> x"
    using page_facts(3) [OF r] by (auto simp: set_select_rows [OF page_scan [OF r sc]])
  from next_after_fold [OF this] show ?thesis by (simp add: next_position_fold comp_def)
qed

lemma next_after_ge: "\<forall>x \<in> set xs. 0 \<le> x \<Longrightarrow> 0 \<le> next_after 0 xs"
  by (simp add: next_after_fold [symmetric] fold_max)

lemma agree_CreatePage [agreeing]:
  assumes r: "rep t s" and h: "sees_all h" and sc: "scans t sc" and new: "fresh s nid" "fresh s cid"
  shows "agree (pg_CreatePage h t sc nid cid w par title body st now) (mem_CreatePage s nid cid (sc_pages sc) w par title body st now)"
proof (cases "workspaces s w = None \<or> validateParentLocked s [] w par \<noteq> Inr ()")
  case True
  then show ?thesis
    using r workspaceExists_eq [OF r h] validateParent_eq [OF r h]
    by (cases "validateParentLocked s [] w par") (auto simp: pg_CreatePage_def mem_CreatePage_def)
next
  case False
  let ?rows = "select_rows (sc_pages sc) (pages s) (\<lambda>p. pg_WorkspaceID p = w \<and> pg_ParentID p = par)"
  define p where "p = \<lparr>pg_ID = nid, pg_WorkspaceID = w, pg_ParentID = par, pg_Title = title, pg_Body = body,
    pg_Status = st, pg_Position = next_after 0 (map pg_Position ?rows), pg_Version = 1, pg_CollabDocumentID = cid,
    pg_CreatedAt = now, pg_UpdatedAt = now, pg_ArchivedAt = None\<rparr>"
  note f = page_facts(1) [OF r]
  have n: "nid \<noteq> []" "pages s nid = None" "collabIndex s cid = None" using new by (simp_all add: fresh_def)
  have parent: "par = [] \<or> pages s par \<noteq> None"
    using False by (auto simp: validate_iff [OF f] split: if_splits option.splits)
  then have "\<not> leads (links (pages s)) par nid" using links_leads_dom [OF f n(2,1)] by blast
  then have forest: "page_forest ((pages s)(nid \<mapsto> p))"
    by (intro page_forest_put [OF f n(1)]) (use parent in \<open>simp_all add: p_def\<close>)
  have "0 \<le> pg_Position p"
    unfolding p_def using page_facts(3) [OF r]
    by (auto simp: set_select_rows [OF page_scan [OF r sc]] intro!: next_after_ge)
  then have ids: "\<forall>k q. ((pages s)(nid \<mapsto> p)) k = Some q \<longrightarrow> pg_ID q = k \<and> 0 \<le> pg_Position q"
    using page_facts(2,3) [OF r] by (simp add: p_def)
  have cid: "pg_CollabDocumentID p = cid" by (simp add: p_def)
  have "rep_rooms (documents s) ((pages s)(nid \<mapsto> p)) (documents s) ((collabIndex s)(cid \<mapsto> \<lparr>cr_kind = ''page'', cr_id = nid\<rparr>))"
    using rooms_facts [OF r] indexed_add [of pg_CollabDocumentID "''page''" "pages s" "collabIndex s" nid p]
      indexed_other [of doc_CollabDocumentID "''document''" "documents s" "collabIndex s" cid "''page''" nid] n cid
    by (auto simp: rep_rooms_def)
  from rep_pages_upd [OF r forest ids this]
  have rep: "rep (t\<lparr>t_pages := (pages s)(nid \<mapsto> p)\<rparr>)
      (s\<lparr>pages := (pages s)(nid \<mapsto> p), collabIndex := (collabIndex s)(cid \<mapsto> \<lparr>cr_kind = ''page'', cr_id = nid\<rparr>)\<rparr>)" .
  have "pg_CollabDocumentID q \<noteq> cid" if "pages s k = Some q" for k q
    using rooms_facts [OF r] that n(3) indexedD(1) [of pg_CollabDocumentID "''page''" "pages s" "collabIndex s" k q]
    by (auto simp: rep_rooms_def)
  then have "set (select_rows (sc_pages sc) (pages s) (\<lambda>p. pg_CollabDocumentID p = cid)) = {}"
    unfolding set_select_rows [OF page_scan [OF r sc]] by auto
  then have "\<not> page_room_taken sc t cid" by (simp add: page_room_taken_def rep_maps [OF r])
  then show ?thesis
    using r rep False n workspaceExists_eq [OF r h] validateParent_eq [OF r h] h
    by (simp add: pg_CreatePage_def mem_CreatePage_def Let_def all_rows rep_maps [OF r] insert_row_def
        page_position [OF r sc] p_def)
qed

lemma agree_page_reads [agreeing]:
  assumes "rep t s" and "sees_all h"
  shows "pg_GetPage h t k = mem_GetPage s k" and "pg_ListPages h t sc w = mem_ListPages (sc_pages sc) s w"
    and "pg_PageWorkspaceID h t k = mem_PageWorkspaceID s k"
  using assms
  by (simp_all add: pg_GetPage_def mem_GetPage_def pg_ListPages_def mem_ListPages_def pg_PageWorkspaceID_def
      mem_PageWorkspaceID_def workspaceExists_eq all_rows rep_maps select_rows_def)

section \<open>Updating pages\<close>

lemma pg_UpdatePage_eq:
  assumes r: "rep t s" and h: "sees_all h"
  shows "pg_UpdatePage h t k title body st par v now =
    (let q = mem_UpdatePage s k title body st par v now in (fst q, t\<lparr>t_pages := pages (snd q)\<rparr>))"
proof (cases "\<exists>p. pages s k = Some p \<and> pg_Version p = v")
  case False
  then show ?thesis
    using r h rep_maps(6) [OF r, symmetric] by (auto simp: pg_UpdatePage_def mem_UpdatePage_def all_rows Let_def split: option.split)
next
  case True
  then obtain p where p: "pages s k = Some p" "pg_Version p = v" by blast
  have put: "update_row k (\<lambda>row. row\<lparr>pg_ParentID := pg_ParentID p', pg_Title := pg_Title p', pg_Body := pg_Body p',
      pg_Status := pg_Status p', pg_Version := pg_Version p', pg_UpdatedAt := pg_UpdatedAt p'\<rparr>) (pages s) = (pages s)(k \<mapsto> p')"
    if "p' = updated_page p title body st par now" for p'
    using p that by (simp add: update_row_def updated_page_def)
  let ?ok = "case par of None \<Rightarrow> Inr () | Some q \<Rightarrow> validateParentLocked s k (pg_WorkspaceID p) q"
  have "pg_UpdatePage h t k title body st par v now = guard_zero zero_Page ?ok t
      (\<lambda>_. (Inr (updated_page p title body st par now), t\<lparr>t_pages := (pages s)(k \<mapsto> updated_page p title body st par now)\<rparr>))"
    using p put [OF refl]
    by (cases par; cases title; cases body; cases st)
      (simp_all add: pg_UpdatePage_def updated_page_def Let_def all_rows [OF h] rep_maps [OF r] validateParentTx_eq)
  then show ?thesis
    using rep_maps(6) [OF r] by (cases ?ok) (simp_all add: UpdatePage_eq [OF p] Let_def)
qed

lemma agree_UpdatePage [agreeing]:
  assumes r: "rep t s" and h: "sees_all h"
  shows "agree (pg_UpdatePage h t k title body st par v now) (mem_UpdatePage s k title body st par v now)"
proof (cases "mem_UpdatePage s k title body st par v now")
  case (Pair x u)
  note f = page_facts(1) [OF r]
  from Pair have "rep (t\<lparr>t_pages := pages u\<rparr>) u"
  proof (cases rule: UpdatePage_cases)
    case fail
    then show ?thesis using r rep_maps(6) [OF r, symmetric] by simp
  next
    case (ok p)
    let ?p = "updated_page p title body st par now"
    have k: "k \<noteq> []" using page_forest_root [OF f] ok(1) by auto
    have link: "links (pages s) k = Some (pg_ParentID p)" by (simp add: links_def ok(1))
    have "(given par (pg_ParentID p) = [] \<or> pages s (given par (pg_ParentID p)) \<noteq> None) \<and>
        \<not> leads (links (pages s)) (given par (pg_ParentID p)) k"
    proof (cases par)
      case None
      obtain n where "depth (links (pages s)) [] k n" using page_depth [OF f] ok(1) by blast
      then have "\<not> leads (links (pages s)) (pg_ParentID p) k"
        using no_cycle [of "links (pages s)" "[]" k n "pg_ParentID p"] link page_forest_root [OF f] by simp
      then show ?thesis using forest_parent [of "links (pages s)" "[]" k "pg_ParentID p"] link f None by (simp add: page_forest_def)
    next
      case (Some q)
      then show ?thesis using ok(5) [of q] k unfolding validate_iff [OF f]
        by (cases "q = []") (auto simp: leads_end page_forest_root [OF f] split: if_splits option.splits)
    qed
    then have "page_forest ((pages s)(k \<mapsto> ?p))" by (intro page_forest_put [OF f k]) simp_all
    then show ?thesis unfolding ok(4)
      using rep_pages_same [OF r, of "(pages s)(k \<mapsto> ?p)"] ok(1) by (simp add: updated_page_def)
  qed
  then show ?thesis by (simp add: pg_UpdatePage_eq [OF r h] Pair Let_def)
qed

section \<open>Archiving\<close>

text \<open>One round of the recursive query after the other, each of them one level deeper.\<close>

lemma tree_rows_ok:
  assumes f: "page_forest P" and ks: "range_order P ks" and key: "\<forall>k p. P k = Some p \<longrightarrow> pg_ID p = k"
  shows "\<forall>i \<in> set front. P i \<noteq> None \<and> depth (links P) [] i m \<Longrightarrow> page_count P < m + fuel \<Longrightarrow>
    \<exists>ids. tree_rows fuel ks P front = Some ids \<and> set ids = set front \<union> {j. \<exists>n. \<exists>i \<in> set front. down P n i j}"
proof (induction fuel arbitrary: front m)
  case 0
  have "front = []"
  proof (rule ccontr)
    assume "front \<noteq> []"
    then have i: "P (hd front) \<noteq> None" "depth (links P) [] (hd front) m" using "0.prems"(1) by simp_all
    obtain n where "n \<le> page_count P" "depth (links P) [] (hd front) n" using page_depth [OF f i(1)] by blast
    then show False using depth_unique [OF i(2)] "0.prems"(2) by fastforce
  qed
  then show ?case by simp
next
  case (Suc fuel)
  let ?next = "concat (map (\<lambda>parentID. map pg_ID (select_rows ks P (\<lambda>p. pg_ParentID p = parentID))) front)"
  have children: "set ?next = {j. \<exists>p. P j = Some p \<and> pg_ParentID p \<in> set front}"
    using key by (auto simp: set_select_rows [OF ks] image_iff)
  have "depth (links P) [] j (Suc m)" if "P j = Some p" "pg_ParentID p \<in> set front" for j p
    using that Suc.prems(1) page_forest_root [OF f] by (intro depth_step) (auto simp: links_def)
  then have "\<forall>i \<in> set ?next. P i \<noteq> None \<and> depth (links P) [] i (Suc m)" unfolding children by auto
  from Suc.IH [OF this] Suc.prems(2) obtain ids where ids: "tree_rows fuel ks P ?next = Some ids"
    "set ids = set ?next \<union> {j. \<exists>n. \<exists>i \<in> set ?next. down P n i j}" by auto
  have "{j. \<exists>n. \<exists>i \<in> set front. down P n i j} = set ?next \<union> {j. \<exists>n. \<exists>i \<in> set ?next. down P n i j}" (is "?l = ?r")
  proof
    have "j \<in> ?r" if "i \<in> set front" "down P n i j" for n i j
      using that(2) by (rule downE) (use that(1) in \<open>auto simp: children simp del: set_concat\<close>)
    then show "?l \<subseteq> ?r" by blast
    have "j \<in> ?l" if "j \<in> set ?next" for j using that down.intros(1) unfolding children by blast
    moreover have "j \<in> ?l" if "down P n i j" "i \<in> set ?next" for n i j using that down.intros(2) unfolding children by blast
    ultimately show "?r \<subseteq> ?l" by blast
  qed
  then show ?case using ids by (cases "front = []") auto
qed

lemma fold_archived:
  "fold (\<lambda>k. update_row k (\<lambda>p. p\<lparr>pg_ArchivedAt := at\<rparr>)) ids P j =
   (if j \<in> set ids then map_option (\<lambda>p. p\<lparr>pg_ArchivedAt := at\<rparr>) (P j) else P j)"
proof (induction ids arbitrary: P)
  case (Cons k ids)
  then show ?case by (cases "P j") (auto simp: update_row_def split: option.split)
qed simp

lemma archived_maps:
  assumes r: "rep t s" and h: "sees_all h" and sc: "scans t sc" and k: "pages s k \<noteq> None"
  shows "pg_set_archived h t sc k at =
    (Inr (), t\<lparr>t_pages := set_archived at (descendantPageIDsLocked (sc_pages sc) s k @ [k]) (pages s)\<rparr>)"
    and "rep (t\<lparr>t_pages := set_archived at (descendantPageIDsLocked (sc_pages sc) s k @ [k]) (pages s)\<rparr>)
      (s\<lparr>pages := set_archived at (descendantPageIDsLocked (sc_pages sc) s k @ [k]) (pages s)\<rparr>)"
proof -
  note f = page_facts(1) [OF r]
  let ?mem = "descendantPageIDsLocked (sc_pages sc) s k @ [k]"
  have below: "set ?mem = insert k (below (pages s) k)" using descendants_below [OF f page_scan [OF r sc] k] by simp
  then have sub: "set ?mem \<subseteq> dom (pages s)" using k by (auto simp: below_def)
  obtain n where "depth (links (pages s)) [] k n" using page_depth [OF f k] by blast
  moreover have "n \<noteq> 0" using calculation k page_forest_root [OF f] by (auto elim: depth.cases)
  ultimately obtain ids where ids: "tree_rows (page_count (pages s) + 1) (sc_pages sc) (pages s) [k] = Some ids"
    "set ids = insert k {j. \<exists>n. down (pages s) n k j}"
    using tree_rows_ok [OF f page_scan [OF r sc], of "[k]" n "page_count (pages s) + 1"] page_facts(2) [OF r] k by auto
  have "set ids = set ?mem"
    unfolding ids(2) below below_def using leads_down down_leads by blast
  then have "fold (\<lambda>k. update_row k (\<lambda>p. p\<lparr>pg_ArchivedAt := at\<rparr>)) ids (pages s) = set_archived at ?mem (pages s)"
    by (intro ext) (simp add: fold_archived set_archived_dom [OF sub])
  moreover have "(case pages s k of None \<Rightarrow> [] | Some p \<Rightarrow> [pg_ID p]) = [k]" using k page_facts(2) [OF r] by auto
  moreover have "ids \<noteq> []" using ids(2) by auto
  ultimately show "pg_set_archived h t sc k at = (Inr (), t\<lparr>t_pages := set_archived at ?mem (pages s)\<rparr>)"
    using ids(1) by (simp add: pg_set_archived_def all_rows [OF h] rep_maps [OF r] Let_def del: tree_rows.simps)
  have "page_forest (set_archived at ?mem (pages s))"
  proof -
    have "links (set_archived at ?mem (pages s)) = links (pages s)"
      by (rule ext) (auto simp: links_def set_archived_dom [OF sub] option.map_comp comp_def)
    then show ?thesis using f links_simps(1) unfolding page_forest_def by metis
  qed
  then show "rep (t\<lparr>t_pages := set_archived at ?mem (pages s)\<rparr>) (s\<lparr>pages := set_archived at ?mem (pages s)\<rparr>)"
    by (rule rep_pages_same [OF r]) (auto simp: set_archived_dom [OF sub] option.map_comp comp_def)
qed

lemma agree_ArchivePage [agreeing]:
  assumes r: "rep t s" and h: "sees_all h" and sc: "scans t sc"
  shows "agree (pg_ArchivePage h t sc k now) (mem_ArchivePage s (sc_pages sc) k now)"
    and "agree (pg_UnarchivePage h t sc k) (mem_UnarchivePage s (sc_pages sc) k)"
proof -
  have none: "agree (pg_set_archived h t sc k at) (Inl ErrNotFound, s)" if "pages s k = None" for at
    using that r by (simp add: pg_set_archived_def all_rows [OF h] rep_maps [OF r] Let_def)
  show "agree (pg_ArchivePage h t sc k now) (mem_ArchivePage s (sc_pages sc) k now)"
    using none archived_maps [OF assms] by (simp add: pg_ArchivePage_def mem_ArchivePage_def Let_def)
  show "agree (pg_UnarchivePage h t sc k) (mem_UnarchivePage s (sc_pages sc) k)"
    using none archived_maps [OF assms] by (simp add: pg_UnarchivePage_def mem_UnarchivePage_def Let_def)
qed

section \<open>Versions\<close>

lemma consecutive_nth: "consecutive num xs \<longleftrightarrow> (\<exists>a. \<forall>i < length xs. num (xs ! i) = a + int i)"
proof -
  have "map num xs = map (\<lambda>i. a + int i) [0..<length xs] \<longleftrightarrow> (\<forall>i < length xs. num (xs ! i) = a + int i)" for a
    unfolding list_eq_iff_nth_eq by simp
  then show ?thesis by (simp add: consecutive_def)
qed

lemma consecutive_sorted: "consecutive num xs \<Longrightarrow> sorted_wrt (\<lambda>a b. num a < num b) xs"
  by (auto simp: consecutive_nth sorted_wrt_iff_nth_less)

lemma consecutive_add:
  assumes "consecutive num xs" and "xs \<noteq> [] \<Longrightarrow> num x = num (last xs) + 1"
  shows "consecutive num (xs @ [x])"
proof (cases "xs = []")
  case True
  then show ?thesis by (simp add: consecutive_nth)
next
  case False
  obtain a where a: "\<And>i. i < length xs \<Longrightarrow> num (xs ! i) = a + int i" using assms(1) unfolding consecutive_nth by blast
  have "num x = a + int (length xs)" using assms(2) [OF False] a [of "length xs - 1"] False by (simp add: last_conv_nth of_nat_diff Suc_le_eq)
  then have "\<forall>i < length (xs @ [x]). num ((xs @ [x]) ! i) = a + int i" using a by (simp add: nth_append less_Suc_eq)
  then show ?thesis unfolding consecutive_nth by blast
qed

lemma consecutive_drop:
  assumes "consecutive num xs"
  shows "consecutive num (drop n xs)"
proof -
  obtain a where a: "\<And>i. i < length xs \<Longrightarrow> num (xs ! i) = a + int i" using assms unfolding consecutive_nth by blast
  have "\<forall>i < length (drop n xs). num (drop n xs ! i) = (a + int n) + int i" using a by simp
  then show ?thesis unfolding consecutive_nth by blast
qed

text \<open>The last \<open>k\<close> of them are those with a number behind the one that is \<open>k\<close> before the last.\<close>

lemma consecutive_take_last:
  assumes "consecutive num xs" and "xs \<noteq> []"
  shows "set (take_last k xs) = {x \<in> set xs. num (last xs) - int k < num x}"
proof -
  obtain a where a: "\<And>i. i < length xs \<Longrightarrow> num (xs ! i) = a + int i" using assms(1) unfolding consecutive_nth by blast
  have l: "num (last xs) = a + int (length xs - 1)" using a [of "length xs - 1"] assms(2) by (simp add: last_conv_nth)
  have "x \<in> set (take_last k xs) \<longleftrightarrow> (\<exists>i < length xs. xs ! i = x \<and> length xs - k \<le> i)" for x
  proof
    assume "x \<in> set (take_last k xs)"
    then obtain j where "j < length (drop (length xs - k) xs)" "drop (length xs - k) xs ! j = x"
      by (auto simp: take_last_def in_set_conv_nth)
    then show "\<exists>i < length xs. xs ! i = x \<and> length xs - k \<le> i"
      by (intro exI [of _ "length xs - k + j"]) simp
  next
    assume "\<exists>i < length xs. xs ! i = x \<and> length xs - k \<le> i"
    then obtain i where i: "i < length xs" "xs ! i = x" "length xs - k \<le> i" by blast
    then have "drop (length xs - k) xs ! (i - (length xs - k)) = x" "i - (length xs - k) < length (drop (length xs - k) xs)" by simp_all
    then show "x \<in> set (take_last k xs)" unfolding take_last_def in_set_conv_nth by blast
  qed
  moreover have "num (last xs) - int k < num (xs ! i) \<longleftrightarrow> length xs - k \<le> i" if "i < length xs" for i
    using a [OF that] l that by auto
  ultimately show ?thesis by (auto simp: in_set_conv_nth)
qed

lemma version_facts:
  assumes r: "rep t s"
  shows "rep_lists pv_PageID (\<lambda>v. (pv_PageID v, pv_Number v)) (t_versions t) (pageVersions s)"
    and "consecutive pv_Number (get_list (pageVersions s) k)" and "length (get_list (pageVersions s) k) \<le> MaxPageVersions"
    and "v \<in> set (get_list (pageVersions s) k) \<Longrightarrow> 1 \<le> pv_Number v"
  using repD(8) [OF r] by (simp_all add: rep_versions_def)

lemma version_list:
  assumes r: "rep t s" and h: "sees_all h" and sc: "scans t sc"
  shows "version_rows h t sc k = get_list (pageVersions s) k"
proof -
  have "range_order (t_versions t) (sc_versions sc)" using sc by (simp add: scans_def)
  note rows = rep_lists_rows [OF version_facts(1) [OF r] this]
  show ?thesis unfolding version_rows_def all_rows [OF h]
    by (rule sort_slice_listing [OF slice_order_key [of pv_Number] _ rows(1) consecutive_sorted [OF version_facts(2) [OF r]] rows(2)])
qed

lemma pageExists_eq: "rep t s \<Longrightarrow> sees_all h \<Longrightarrow> pg_pageExists h t k = (if pages s k = None then Inl ErrNotFound else Inr ())"
  by (simp add: pg_pageExists_def all_rows rep_maps)

lemma agree_version_reads [agreeing]:
  assumes r: "rep t s" and h: "sees_all h" and sc: "scans t sc"
  shows "pg_ListPageVersions h t sc k = mem_ListPageVersions s k" and "pg_GetPageVersion h t k n = mem_GetPageVersion s k n"
proof -
  show "pg_ListPageVersions h t sc k = mem_ListPageVersions s k"
    using version_list [OF assms] by (simp add: pg_ListPageVersions_def mem_ListPageVersions_def pageExists_eq [OF r h])
  note rows = rep_listsD [OF version_facts(1) [OF r]]
  have "t_versions t (k, n) = List.find (\<lambda>v. pv_Number v = n) (get_list (pageVersions s) k)"
  proof (cases "List.find (\<lambda>v. pv_Number v = n) (get_list (pageVersions s) k)")
    case None
    have "t_versions t (k, n) \<noteq> Some v" for v
      using None unfolding rows(1) by (auto simp: find_None_iff)
    then show ?thesis using None by (cases "t_versions t (k, n)") auto
  next
    case (Some v)
    then have "v \<in> set (get_list (pageVersions s) k)" "pv_Number v = n" by (auto simp: find_Some_iff)
    then have "t_versions t (k, n) = Some v" using rows(1,3) by auto
    then show ?thesis using Some by simp
  qed
  then show "pg_GetPageVersion h t k n = mem_GetPageVersion s k n"
    by (simp add: pg_GetPageVersion_def mem_GetPageVersion_def pageExists_eq [OF r h] all_rows [OF h] split: option.split)
qed

lemma rep_versions_upd:
  "rep t s \<Longrightarrow> rep_versions tv V \<Longrightarrow> rep (t\<lparr>t_versions := tv\<rparr>) (s\<lparr>pageVersions := V\<rparr>)"
  by (simp add: rep_def)

lemma rep_versions_put:
  assumes "rep_versions tv V" and "rep_lists pv_PageID (\<lambda>v. (pv_PageID v, pv_Number v)) tv' (V(k \<mapsto> ys))"
    and "consecutive pv_Number ys" and "length ys \<le> MaxPageVersions" and "\<And>v. v \<in> set ys \<Longrightarrow> 1 \<le> pv_Number v"
  shows "rep_versions tv' (V(k \<mapsto> ys))"
  using assms by (simp add: rep_versions_def)

lemma agree_insert_version:
  assumes r: "rep t s" and h: "sees_all h"
    and L: "L = get_list (pageVersions s) k" and v: "v = new_version L k title body st sub now"
  shows "agree (pg_insert_version h t k (pv_Number v) title body st sub now)
    (Inr (v, True), s\<lparr>pageVersions := (pageVersions s)(k \<mapsto>
      if length (L @ [v]) > MaxPageVersions then take_last MaxPageVersions (L @ [v]) else L @ [v])\<rparr>)"
proof -
  have facts: "rep_lists pv_PageID (\<lambda>v. (pv_PageID v, pv_Number v)) (t_versions t) (pageVersions s)"
    "consecutive pv_Number L" "length L \<le> MaxPageVersions" "\<And>v. v \<in> set L \<Longrightarrow> 1 \<le> pv_Number v"
    unfolding L by (rule version_facts [OF r], assumption?)+
  note rows = rep_listsD [OF facts(1)]
  let ?L = "L @ [v]" and ?rows = "(t_versions t)((k, pv_Number v) \<mapsto> v)"
  let ?Q = "\<lambda>x. pv_Number v - int MaxPageVersions < pv_Number x"
  have new: "v = \<lparr>pv_PageID = k, pv_Number = pv_Number v, pv_Title = title, pv_Status = st, pv_Body = body, pv_Sub = sub, pv_CreatedAt = now\<rparr>"
    by (simp add: v new_version_def Let_def)
  then have key: "pv_PageID v = k" by (metis PageVersion.select_convs(1))
  have num: "pv_Number v = (if L = [] then 1 else pv_Number (last L) + 1)" by (simp add: v new_version_def Let_def)
  have le: "pv_Number x \<le> pv_Number (last L)" if "x \<in> set L" for x
  proof -
    have "sorted (map pv_Number L)" using consecutive_sorted [OF facts(2)] by (simp add: sorted_wrt_map sorted_wrt_mono_rel [of L "\<lambda>a b. pv_Number a < pv_Number b"])
    then show ?thesis using that by (cases L rule: rev_cases) (auto simp: sorted_append)
  qed
  have none: "t_versions t (k, pv_Number v) = None"
  proof (rule ccontr)
    assume "t_versions t (k, pv_Number v) \<noteq> None"
    then obtain x where "t_versions t (k, pv_Number v) = Some x" by blast
    then have x: "pv_PageID x = k" "pv_Number x = pv_Number v" "x \<in> set L" using rows(1) [of "(k, pv_Number v)" x] by (auto simp: L)
    then show False using le [OF x(3)] num by (auto split: if_splits)
  qed
  have cons: "consecutive pv_Number ?L" by (rule consecutive_add [OF facts(2)]) (simp add: num)
  have one: "1 \<le> pv_Number x" if "x \<in> set ?L" for x
    using that facts(4) num by (auto split: if_splits) (metis add_le_cancel_right le_add_same_cancel2 last_in_set order_trans zero_le_one)
  have added: "rep_lists pv_PageID (\<lambda>v. (pv_PageID v, pv_Number v)) ?rows ((pageVersions s)(k \<mapsto> ?L))"
    using rep_lists_add [OF facts(1), of v] none key by (simp add: L)
  have "take_last MaxPageVersions ?L = ?L" if "\<not> length ?L > MaxPageVersions" using that by (simp add: take_last_def)
  then have kept: "(if length ?L > MaxPageVersions then take_last MaxPageVersions ?L else ?L) = take_last MaxPageVersions ?L" by simp
  let ?kept = "if pv_Number v > int MaxPageVersions
    then (\<lambda>(p, n). if p = k \<and> n \<le> pv_Number v - int MaxPageVersions then None else ?rows (p, n)) else ?rows"
  have "rep_lists pv_PageID (\<lambda>v. (pv_PageID v, pv_Number v)) ?kept (((pageVersions s)(k \<mapsto> ?L))(k \<mapsto> take_last MaxPageVersions ?L))"
  proof (rule rep_lists_shrink [OF added, where Q = ?Q])
    show "distinct (take_last MaxPageVersions ?L)" 
      unfolding take_last_def by (rule distinct_drop) (use rep_listsD(2) [OF added, of k] in simp)
    show "set (take_last MaxPageVersions ?L) = {x \<in> set (get_list ((pageVersions s)(k \<mapsto> ?L)) k). ?Q x}"
      using consecutive_take_last [OF cons] by simp
    show "?kept i = Some x \<longleftrightarrow> ?rows i = Some x \<and> (pv_PageID x = k \<longrightarrow> ?Q x)" for i x
    proof -
      have row: "i = (pv_PageID x, pv_Number x) \<and> (pv_PageID x = k \<longrightarrow> x \<in> set ?L)" if "?rows i = Some x"
        using that rep_listsD(1) [OF added, of i x] by auto
      show ?thesis
      proof (cases "pv_Number v > int MaxPageVersions")
        case True
        then show ?thesis using row by (cases i) auto
      next
        case False
        then have "?Q x" if "?rows i = Some x" "pv_PageID x = k" using row [OF that(1)] one [of x] that(2) by simp
        then show ?thesis using False by auto
      qed
    qed
  qed
  then have kept_rows: "rep_lists pv_PageID (\<lambda>v. (pv_PageID v, pv_Number v)) ?kept ((pageVersions s)(k \<mapsto> take_last MaxPageVersions ?L))"
    by (simp only: fun_upd_upd)
  have "rep_versions ?kept ((pageVersions s)(k \<mapsto> take_last MaxPageVersions ?L))"
  proof (rule rep_versions_put [OF repD(8) [OF r] kept_rows])
    show "consecutive pv_Number (take_last MaxPageVersions ?L)" unfolding take_last_def by (rule consecutive_drop [OF cons])
    show "1 \<le> pv_Number x" if "x \<in> set (take_last MaxPageVersions ?L)" for x
      using that one [of x] unfolding take_last_def by (blast dest: in_set_dropD)
  qed simp
  from rep_versions_upd [OF r this] show ?thesis
    unfolding kept using none h new by (simp add: pg_insert_version_def insert_row_def all_rows Let_def)
qed

lemma agree_AppendPageVersionIfChanged [agreeing]:
  assumes r: "rep t s" and h: "sees_all h" and sc: "scans t sc"
  shows "agree (pg_AppendPageVersionIfChanged h t sc k title body st sub now) (mem_AppendPageVersionIfChanged s k title body st sub now)"
proof -
  define L where "L = get_list (pageVersions s) k"
  define v where "v = new_version L k title body st sub now"
  define vers where "vers = (if length (L @ [v]) > MaxPageVersions then take_last MaxPageVersions (L @ [v]) else L @ [v])"
  have put: "agree (pg_insert_version h t k (pv_Number v) title body st sub now)
      (Inr (v, True), s\<lparr>pageVersions := (pageVersions s)(k \<mapsto> vers)\<rparr>)"
    unfolding vers_def by (rule agree_insert_version [OF r h L_def v_def])
  have num: "pv_Number v = (if L = [] then 1 else pv_Number (last L) + 1)" by (simp add: v_def new_version_def Let_def)
  have mem: "mem_AppendPageVersionIfChanged s k title body st sub now =
      (if pages s k = None then (Inl ErrNotFound, s)
       else if L \<noteq> [] \<and> pv_Title (last L) = title \<and> pv_Body (last L) = body \<and> pv_Status (last L) = st
       then (Inr (last L, False), s) else (Inr (v, True), s\<lparr>pageVersions := (pageVersions s)(k \<mapsto> vers)\<rparr>))"
    by (simp add: mem_AppendPageVersionIfChanged_def Let_def L_def v_def vers_def)
  show ?thesis
    using put r num
    by (cases "L = []") (simp_all add: mem pg_AppendPageVersionIfChanged_def pageExists_eq [OF r h]
        version_list [OF assms] L_def [symmetric])
qed

end
