(* ===== verification/PgSimDocs.thy ===== *)
theory PgSimDocs
  imports PgSimPages
begin

text \<open>
  The two stores agree on documents and on the collaboration rooms: what the memory store keeps in its
  index of rooms, the tables have in the pages and the documents themselves. A document that is in the
  trash is the exception: the second time, the tables answer that there is none.
\<close>

section \<open>Rooms\<close>

lemma distinct_single: "distinct xs \<Longrightarrow> set xs = {x} \<Longrightarrow> xs = [x]"
  by (metis distinct.simps(1) distinct_singleton empty_set list.simps(15) set_eq_iff_mset_eq_distinct mset_single_iff
      mset.simps)

text \<open>At most one row has a room, and the index says which.\<close>

lemma room_rows:
  assumes ix: "indexed room kind m X" and ks: "range_order m ks" and key: "\<And>k v. m k = Some v \<Longrightarrow> key v = k"
  shows "select_rows ks m (\<lambda>v. room v = cid) =
    (case X cid of None \<Rightarrow> [] | Some ref \<Rightarrow> if cr_kind ref = kind then [the (m (cr_id ref))] else [])"
proof (cases "\<exists>ref. X cid = Some ref \<and> cr_kind ref = kind")
  case True
  then obtain ref where ref: "X cid = Some ref" "cr_kind ref = kind" by blast
  then obtain v where v: "m (cr_id ref) = Some v" "room v = cid" using indexedD(2) [OF ix] by blast
  have "w = v" if "m k = Some w" "room w = cid" for k w using indexedD(1) [OF ix that(1)] that(2) ref v(1) that(1) by simp
  then have "set (select_rows ks m (\<lambda>v. room v = cid)) = {v}" unfolding set_select_rows [OF ks] using v by blast
  moreover have "distinct (select_rows ks m (\<lambda>v. room v = cid))" by (rule distinct_select_rows [OF ks, of key]) (rule key)
  ultimately have "select_rows ks m (\<lambda>v. room v = cid) = [v]" by (intro distinct_single)
  then show ?thesis using ref v by simp
next
  case False
  then have "set (select_rows ks m (\<lambda>v. room v = cid)) = {}"
    unfolding set_select_rows [OF ks] using indexedD(1) [OF ix] by fastforce
  then show ?thesis using False by (auto split: option.split)
qed

lemma document_facts:
  assumes "rep t s"
  shows "documents s k = Some d \<Longrightarrow> doc_ID d = k"
    and "indexed pg_CollabDocumentID ''page'' (pages s) (collabIndex s)"
    and "indexed doc_CollabDocumentID ''document'' (documents s) (collabIndex s)"
    and "collabIndex s cid = Some ref \<Longrightarrow> cr_kind ref = ''page'' \<or> cr_kind ref = ''document''"
  using rooms_facts [OF assms] by (simp_all add: rep_rooms_def)

lemma document_scan: "rep t s \<Longrightarrow> scans t sc \<Longrightarrow> range_order (documents s) (sc_documents sc)"
  by (simp add: scans_def rep_maps)

lemma rooms_of:
  assumes r: "rep t s" and h: "sees_all h" and sc: "scans t sc"
  shows "pages_of_room h t sc cid =
      (case collabIndex s cid of None \<Rightarrow> [] | Some ref \<Rightarrow> if cr_kind ref = ''page'' then [the (pages s (cr_id ref))] else [])"
    and "documents_of_room h t sc cid =
      (case collabIndex s cid of None \<Rightarrow> [] | Some ref \<Rightarrow> if cr_kind ref = ''document'' then [the (documents s (cr_id ref))] else [])"
  using room_rows [OF document_facts(2) [OF r] page_scan [OF r sc] page_facts(2) [OF r], where cid = cid]
    room_rows [OF document_facts(3) [OF r] document_scan [OF r sc] document_facts(1) [OF r], where cid = cid]
  by (simp_all add: pages_of_room_def documents_of_room_def all_rows [OF h] rep_maps [OF r])

section \<open>Documents\<close>

lemma rep_documents_upd:
  "rep t s \<Longrightarrow> rep_rooms D (pages s) D X \<Longrightarrow> rep (t\<lparr>t_documents := D\<rparr>) (s\<lparr>documents := D, collabIndex := X\<rparr>)"
  by (simp add: rep_def)

lemma rep_document_put:
  assumes r: "rep t s" and d0: "documents s k = Some d0" and d: "doc_ID d = doc_ID d0" "doc_CollabDocumentID d = doc_CollabDocumentID d0"
  shows "rep (t\<lparr>t_documents := (documents s)(k \<mapsto> d)\<rparr>) (s\<lparr>documents := (documents s)(k \<mapsto> d)\<rparr>)"
proof -
  have "rep_rooms ((documents s)(k \<mapsto> d)) (pages s) ((documents s)(k \<mapsto> d)) (collabIndex s)"
    using rooms_facts [OF r] indexed_upd [of "documents s" k d0 doc_CollabDocumentID d, OF d0 d(2)] d(1) d0 by (simp add: rep_rooms_def)
  then have "rep (t\<lparr>t_documents := (documents s)(k \<mapsto> d)\<rparr>) (s\<lparr>documents := (documents s)(k \<mapsto> d), collabIndex := collabIndex s\<rparr>)"
    by (rule rep_documents_upd [OF r])
  then show ?thesis by simp
qed

lemma agree_CreateDocument [agreeing]:
  assumes r: "rep t s" and h: "sees_all h" and sc: "scans t sc" and new: "fresh s nid" "fresh s cid"
  shows "agree (pg_CreateDocument h t sc nid cid w title body now) (mem_CreateDocument s nid cid w title body now)"
proof (cases "workspaces s w")
  case None
  then show ?thesis using r by (simp add: pg_CreateDocument_def mem_CreateDocument_def workspaceExists_eq [OF r h])
next
  case (Some ws)
  define d where "d = \<lparr>doc_ID = nid, doc_WorkspaceID = w, doc_Title = title, doc_Body = body, doc_CollabDocumentID = cid,
    doc_LastEditorSub = [], doc_CreatedAt = now, doc_UpdatedAt = now, doc_DeletedAt = None\<rparr>"
  have n: "documents s nid = None" "collabIndex s cid = None" using new by (simp_all add: fresh_def)
  have cid: "doc_CollabDocumentID d = cid" "doc_ID d = nid" by (simp_all add: d_def)
  let ?D = "(documents s)(nid \<mapsto> d)" and ?X = "(collabIndex s)(cid \<mapsto> \<lparr>cr_kind = ''document'', cr_id = nid\<rparr>)"
  have "rep_rooms ?D (pages s) ?D ?X"
    using rooms_facts [OF r] indexed_add [of doc_CollabDocumentID "''document''" "documents s" "collabIndex s" nid d]
      indexed_other [of pg_CollabDocumentID "''page''" "pages s" "collabIndex s" cid "''document''" nid] n cid
    by (auto simp: rep_rooms_def)
  from rep_documents_upd [OF r this] have rep: "rep (t\<lparr>t_documents := ?D\<rparr>) (s\<lparr>documents := ?D, collabIndex := ?X\<rparr>)" .
  have "select_rows (sc_documents sc) (documents s) (\<lambda>d. doc_CollabDocumentID d = cid) = []"
    using room_rows [OF document_facts(3) [OF r] document_scan [OF r sc] document_facts(1) [OF r], where cid = cid] n by simp
  then have "\<not> document_room_taken sc t cid" by (simp add: document_room_taken_def rep_maps [OF r])
  then show ?thesis
    using rep Some n by (simp add: pg_CreateDocument_def mem_CreateDocument_def workspaceExists_eq [OF r h] Let_def
        all_rows [OF h] rep_maps [OF r] insert_row_def d_def)
qed

lemma agree_document_reads [agreeing]:
  assumes "rep t s" and "sees_all h"
  shows "pg_ListDocuments h t sc w = mem_ListDocuments (sc_documents sc) s w" and "pg_GetDocument h t k = mem_GetDocument s k"
    and "pg_GetTicket h t k = mem_GetTicket s k"
  using assms
  by (simp_all add: pg_ListDocuments_def mem_ListDocuments_def pg_GetDocument_def mem_GetDocument_def pg_GetTicket_def
      mem_GetTicket_def workspaceExists_eq all_rows rep_maps select_rows_def)

lemma agree_document_writes [agreeing]:
  assumes r: "rep t s" and h: "sees_all h"
  shows "agree (pg_UpdateDocumentTitle h t k title now) (mem_UpdateDocumentTitle s k title now)"
    and "(\<And>d. documents s k = Some d \<Longrightarrow> doc_DeletedAt d = None) \<Longrightarrow> agree (pg_TrashDocument h t k now) (mem_TrashDocument s k now)"
    and "agree (pg_RestoreDocument h t k) (mem_RestoreDocument s k)"
  using r rep_document_put [OF r, of k]
  by (cases "documents s k"; simp add: pg_UpdateDocumentTitle_def mem_UpdateDocumentTitle_def pg_TrashDocument_def
      mem_TrashDocument_def pg_RestoreDocument_def mem_RestoreDocument_def all_rows [OF h] rep_maps [OF r] update_row_def Let_def)+

section \<open>Collaboration\<close>

lemma agree_LookupCollab [agreeing]:
  assumes r: "rep t s" and h: "sees_all h" and sc: "scans t sc"
  shows "pg_LookupCollab h t sc cid = mem_LookupCollab s cid"
proof (cases "collabIndex s cid")
  case (Some ref)
  then show ?thesis
    using document_facts(4) [OF r Some] indexedD(2) [OF document_facts(2) [OF r] Some] indexedD(2) [OF document_facts(3) [OF r] Some]
      page_facts(2) [OF r] document_facts(1) [OF r]
    by (auto simp: pg_LookupCollab_def mem_LookupCollab_def rooms_of [OF assms])
qed (simp add: pg_LookupCollab_def mem_LookupCollab_def rooms_of [OF assms])

lemma agree_CreateTicket [agreeing]:
  assumes r: "rep t s" and new: "fresh s nid"
  shows "agree (pg_CreateTicket h t nid sub cid ro now) (mem_CreateTicket s nid sub cid ro now)"
proof -
  have "tickets s nid = None" using new by (simp add: fresh_def)
  then show ?thesis using r by (simp add: pg_CreateTicket_def mem_CreateTicket_def rep_maps [OF r] insert_row_def Let_def rep_def)
qed

lemma agree_ApplyCollabSnapshot [agreeing]:
  assumes r: "rep t s" and h: "sees_all h" and sc: "scans t sc"
  shows "agree (pg_ApplyCollabSnapshot h t sc cid plain editor now) (mem_ApplyCollabSnapshot s cid plain editor now)"
proof (cases "collabIndex s cid")
  case None
  then show ?thesis
    using r rooms_of [OF r h sc, of cid]
    by (simp add: pg_ApplyCollabSnapshot_def mem_ApplyCollabSnapshot_def Let_def)
next
  case (Some ref)
  show ?thesis
  proof (cases "cr_kind ref = ''page''")
    case True
    then obtain p where p: "pages s (cr_id ref) = Some p" using indexedD(2) [OF document_facts(2) [OF r] Some] by blast
    let ?p = "p\<lparr>pg_Body := plain, pg_UpdatedAt := now\<rparr>"
    have "links ((pages s)(cr_id ref \<mapsto> ?p)) = links (pages s)" using p by (auto simp: links_def)
    then have "page_forest ((pages s)(cr_id ref \<mapsto> ?p))"
      using page_facts(1) [OF r] links_simps(1) unfolding page_forest_def by metis
    from rep_pages_same [OF r this] have "rep (t\<lparr>t_pages := (pages s)(cr_id ref \<mapsto> ?p)\<rparr>) (s\<lparr>pages := (pages s)(cr_id ref \<mapsto> ?p)\<rparr>)"
      using p by simp
    then show ?thesis
      using Some True p page_facts(2) [OF r p] rooms_of(1) [OF r h sc, of cid]
      by (simp add: pg_ApplyCollabSnapshot_def mem_ApplyCollabSnapshot_def Let_def rep_maps [OF r] update_row_def)
  next
    case False
    then have kind: "cr_kind ref = ''document''" using document_facts(4) [OF r Some] by blast
    then obtain d where d: "documents s (cr_id ref) = Some d" using indexedD(2) [OF document_facts(3) [OF r] Some] by blast
    then show ?thesis
      using Some kind document_facts(1) [OF r d] rooms_of [OF r h sc, of cid] rep_document_put [OF r d] rep_maps(7) [OF r]
      by (simp add: pg_ApplyCollabSnapshot_def mem_ApplyCollabSnapshot_def Let_def update_row_def)
  qed
qed

end
