(* ===== verification/PgSimChat.thy ===== *)
theory PgSimChat
  imports PgSimDocs
begin

text \<open>
  The two stores agree on channels, messages, read cursors, chat tickets and files. The attachments of a
  page come in another order (\<open>agree_ListPageFiles\<close>).
\<close>

section \<open>Channels\<close>

lemma chat_facts:
  assumes "rep t s"
  shows "rep_lists cm_ChannelID cm_ID (t_messages t) (messages s)" and "numbered_from 1 (get_list (messages s) c)"
    and "channels s c = None \<Longrightarrow> get_list (messages s) c = []"
    and "(case t_reads t (c, u) of None \<Rightarrow> 0 | Some r \<Rightarrow> rd_LastReadSeq r) =
      (case chatReads s c of None \<Rightarrow> 0 | Some bySub \<Rightarrow> (case bySub u of None \<Rightarrow> 0 | Some n \<Rightarrow> n))"
    and "t_reads t (c, u) = Some r \<Longrightarrow> 0 \<le> rd_LastReadSeq r"
  using repD(10) [OF assms] by (simp_all add: rep_chat_def)

lemma channelExists_eq:
  "rep t s \<Longrightarrow> sees_all h \<Longrightarrow> pg_channelExists h t c = (if channels s c = None then Inl ErrNotFound else Inr ())"
  by (simp add: pg_channelExists_def all_rows rep_maps)

lemma agree_CreateChannel [agreeing]:
  assumes r: "rep t s" and h: "sees_all h" and new: "fresh s nid"
  shows "agree (pg_CreateChannel h t nid w name now) (mem_CreateChannel s nid w name now)"
proof -
  have n: "channels s nid = None" using new by (simp add: fresh_def)
  have none: "get_list (messages s) nid = []" using chat_facts(3) [OF r n] .
  have "rep_chat ((channels s)(nid \<mapsto> ch)) (t_messages t) (t_reads t) ((channels s)(nid \<mapsto> ch)) ((messages s)(nid \<mapsto> [])) (chatReads s)" for ch
    using repD(10) [OF r] by (auto simp: rep_chat_def rep_lists_def none)
  then have "rep (t\<lparr>t_channels := (channels s)(nid \<mapsto> ch)\<rparr>) (s\<lparr>channels := (channels s)(nid \<mapsto> ch), messages := (messages s)(nid \<mapsto> [])\<rparr>)" for ch
    using r by (simp add: rep_def)
  then show ?thesis
    using r n by (simp add: pg_CreateChannel_def mem_CreateChannel_def workspaceExists_eq [OF r h] all_rows [OF h] rep_maps [OF r]
        insert_row_def Let_def)
qed

lemma agree_channel_reads [agreeing]:
  assumes "rep t s" and "sees_all h"
  shows "pg_ListChannels h t sc w = mem_ListChannels (sc_channels sc) s w" and "pg_GetChannel h t k = mem_GetChannel s k"
    and "pg_GetChatTicket h t k = mem_GetChatTicket s k"
  using assms
  by (simp_all add: pg_ListChannels_def mem_ListChannels_def pg_GetChannel_def mem_GetChannel_def pg_GetChatTicket_def
      mem_GetChatTicket_def workspaceExists_eq all_rows rep_maps select_rows_def)

section \<open>Messages\<close>

lemma numbered_sorted: "numbered_from j msgs \<Longrightarrow> sorted_wrt (\<lambda>a b. cm_Seq a < cm_Seq b) msgs"
proof -
  assume "numbered_from j msgs"
  then have "sorted_wrt (<) (map cm_Seq msgs)" by (simp add: numbered_from_def sorted_wrt_map)
  then show ?thesis by (simp add: sorted_wrt_map)
qed

lemma numbered_ge: "numbered_from j msgs \<Longrightarrow> m \<in> set msgs \<Longrightarrow> int j \<le> cm_Seq m"
proof -
  assume "numbered_from j msgs" and "m \<in> set msgs"
  then have "cm_Seq m \<in> set (map int [j..<j + length msgs])" unfolding numbered_from_def by (metis image_eqI list.set_map)
  then show ?thesis by auto
qed

lemma message_rows:
  assumes r: "rep t s" and h: "sees_all h" and sc: "scans t sc"
  shows "set (channel_rows h t sc c) = set (get_list (messages s) c)" and "distinct (channel_rows h t sc c)"
    and "mset (channel_rows h t sc c) = mset (get_list (messages s) c)"
proof -
  have "range_order (t_messages t) (sc_messages sc)" using sc by (simp add: scans_def)
  note rows = rep_lists_rows [OF chat_facts(1) [OF r] this, of c]
  show "set (channel_rows h t sc c) = set (get_list (messages s) c)" "distinct (channel_rows h t sc c)"
    "mset (channel_rows h t sc c) = mset (get_list (messages s) c)"
    using rows by (simp_all add: channel_rows_def all_rows [OF h])
qed

lemma agree_AppendMessage [agreeing]:
  assumes r: "rep t s" and h: "sees_all h" and sc: "scans t sc"
    and new: "\<And>c m. m \<in> set (get_list (messages s) c) \<Longrightarrow> cm_ID m \<noteq> nid"
  shows "agree (pg_AppendMessage h t sc nid c sub body ms att now) (mem_AppendMessage s nid c sub body ms att now)"
proof (cases "channels s c")
  case None
  then show ?thesis using r by (simp add: pg_AppendMessage_def mem_AppendMessage_def channelExists_eq [OF r h])
next
  case (Some ch)
  let ?L = "get_list (messages s) c"
  define m where "m = \<lparr>cm_ID = nid, cm_ChannelID = c, cm_Sub = sub, cm_Body = body, cm_Mentions = ms,
    cm_AttachmentFileID = att, cm_Seq = int (length ?L) + 1, cm_CreatedAt = now\<rparr>"
  note num = chat_facts(2) [OF r, of c]
  have "set (map cm_Seq ?L) = set (map int [1..<1 + length ?L])" using num unfolding numbered_from_def by (rule arg_cong)
  then have seqs: "cm_Seq ` set ?L = int ` {1..<1 + length ?L}" by (simp only: set_map set_upt)
  then have "set (map cm_Seq (channel_rows h t sc c)) = int ` {1..<1 + length ?L}" using message_rows(1) [OF r h sc, of c] by simp
  from next_after_upt [OF this] have seq: "next_after 1 (map cm_Seq (channel_rows h t sc c)) = int (length ?L) + 1" by simp
  have none: "t_messages t nid = None"
    using new rep_listsD(1) [OF chat_facts(1) [OF r], of nid] by (cases "t_messages t nid") auto
  have "int (length ?L) + 1 \<notin> cm_Seq ` set ?L" unfolding seqs by auto
  then have "cm_Seq x \<noteq> int (length ?L) + 1" if "x \<in> set (channel_rows h t sc c)" for x
    using that message_rows(1) [OF r h sc, of c] by (metis imageI)
  then have "set (select_rows (sc_messages sc) (t_messages t) (\<lambda>x. cm_ChannelID x = c \<and> cm_Seq x = int (length ?L) + 1)) = {}"
    by (auto simp: channel_rows_def all_rows [OF h] select_rows_def)
  then have free: "\<not> seq_taken sc t c (int (length ?L) + 1)" by (simp add: seq_taken_def)
  have "rep_lists cm_ChannelID cm_ID ((t_messages t)(nid \<mapsto> m)) ((messages s)(c \<mapsto> ?L @ [m]))"
    using rep_lists_add [OF chat_facts(1) [OF r], of m] none by (simp add: m_def)
  then have "rep_chat (channels s) ((t_messages t)(nid \<mapsto> m)) (t_reads t) (channels s) ((messages s)(c \<mapsto> ?L @ [m])) (chatReads s)"
    using repD(10) [OF r] num Some by (simp add: rep_chat_def m_def)
  then have "rep (t\<lparr>t_messages := (t_messages t)(nid \<mapsto> m)\<rparr>) (s\<lparr>messages := (messages s)(c \<mapsto> ?L @ [m])\<rparr>)"
    using r rep_maps(8) [OF r] by (simp add: rep_def)
  then show ?thesis
    using Some none free seq by (simp add: pg_AppendMessage_def mem_AppendMessage_def channelExists_eq [OF r h] all_rows [OF h]
        insert_row_def m_def Let_def)
qed

lemma agree_message_reads [agreeing]:
  assumes r: "rep t s" and h: "sees_all h" and sc: "scans t sc"
  shows "pg_ListMessages h t sc c a = mem_ListMessages s c a" and "pg_CountMessagesAfter h t sc c a = mem_CountMessagesAfter s c a"
    and "pg_GetChannelRead h t c u = mem_GetChannelRead s c u"
proof -
  note rows = message_rows [OF assms]
  have "sort_slice (\<lambda>x y. cm_Seq x < cm_Seq y) (filter (\<lambda>m. cm_Seq m > a) (channel_rows h t sc c)) =
      filter (\<lambda>m. cm_Seq m > a) (get_list (messages s) c)"
    by (rule sort_slice_listing [where num = cm_Seq, OF slice_order_key [of cm_Seq]])
      (use rows numbered_sorted [OF chat_facts(2) [OF r, of c]] in \<open>simp_all add: sorted_wrt_filter\<close>)
  moreover have "filter (\<lambda>m. cm_Seq m > a) (get_list (messages s) c) = get_list (messages s) c" if "a \<le> 0"
    using that numbered_ge [OF chat_facts(2) [OF r, of c]] by (force simp: filter_id_conv)
  ultimately show "pg_ListMessages h t sc c a = mem_ListMessages s c a"
    by (simp add: pg_ListMessages_def mem_ListMessages_def channelExists_eq [OF r h] Let_def)
  have "mset (filter (\<lambda>m. cm_Seq m > a) (channel_rows h t sc c)) = mset (filter (\<lambda>m. cm_Seq m > a) (get_list (messages s) c))"
    using rows(3) by simp
  then have "length (filter (\<lambda>m. cm_Seq m > a) (channel_rows h t sc c)) = length (filter (\<lambda>m. cm_Seq m > a) (get_list (messages s) c))"
    by (rule mset_eq_length)
  then show "pg_CountMessagesAfter h t sc c a = mem_CountMessagesAfter s c a"
    by (simp add: pg_CountMessagesAfter_def mem_CountMessagesAfter_def channelExists_eq [OF r h])
  show "pg_GetChannelRead h t c u = mem_GetChannelRead s c u"
    using chat_facts(4) [OF r, of c u]
    by (auto simp: pg_GetChannelRead_def mem_GetChannelRead_def channelExists_eq [OF r h] all_rows [OF h] split: option.splits)
qed

section \<open>Read cursors and tickets\<close>

lemma agree_UpsertChannelRead [agreeing]:
  assumes r: "rep t s" and h: "sees_all h" and n: "0 \<le> n"
  shows "agree (pg_UpsertChannelRead h t c u n now) (mem_UpsertChannelRead s c u n)"
proof (cases "channels s c")
  case None
  then show ?thesis using r n by (simp add: pg_UpsertChannelRead_def mem_UpsertChannelRead_def channelExists_eq [OF r h])
next
  case (Some ch)
  define row where "row = (case t_reads t (c, u) of
      None \<Rightarrow> \<lparr>rd_ChannelID = c, rd_Sub = u, rd_LastReadSeq = n, rd_UpdatedAt = now\<rparr>
    | Some r \<Rightarrow> r\<lparr>rd_LastReadSeq := max (rd_LastReadSeq r) n, rd_UpdatedAt := now\<rparr>)"
  define bySub where "bySub = (case chatReads s c of None \<Rightarrow> Map.empty | Some m \<Rightarrow> m)"
  define cur where "cur = (case bySub u of None \<Rightarrow> 0 | Some n \<Rightarrow> n)"
  define bySub' where "bySub' = (if n > cur then bySub(u \<mapsto> n) else bySub)"
  have cur: "cur = (case t_reads t (c, u) of None \<Rightarrow> 0 | Some r \<Rightarrow> rd_LastReadSeq r)"
    using chat_facts(4) [OF r, of c u] by (simp add: cur_def bySub_def split: option.splits)
  have "0 \<le> cur" using cur chat_facts(5) [OF r, of c u] by (auto split: option.split)
  then have seq: "rd_LastReadSeq row = max cur n" using n cur by (auto simp: row_def split: option.split)
  have new: "(case bySub' u of None \<Rightarrow> 0 | Some n \<Rightarrow> n) = max cur n" by (simp add: bySub'_def cur_def [symmetric])
  have other: "bySub' v = bySub v" if "v \<noteq> u" for v using that by (simp add: bySub'_def)
  have "(case ((t_reads t)((c, u) \<mapsto> row)) (d, v) of None \<Rightarrow> 0 | Some r \<Rightarrow> rd_LastReadSeq r) =
      (case ((chatReads s)(c \<mapsto> bySub')) d of None \<Rightarrow> 0 | Some m \<Rightarrow> (case m v of None \<Rightarrow> 0 | Some n \<Rightarrow> n))" for d v
    using chat_facts(4) [OF r, of d v] seq new other [of v] bySub_def
    by (cases "d = c"; cases "v = u") (auto split: option.splits)
  moreover have "0 \<le> rd_LastReadSeq x" if "((t_reads t)((c, u) \<mapsto> row)) (d, v) = Some x" for d v x
    using that chat_facts(5) [OF r] seq n by (auto split: if_splits)
  ultimately have "rep_chat (channels s) (t_messages t) ((t_reads t)((c, u) \<mapsto> row)) (channels s) (messages s) ((chatReads s)(c \<mapsto> bySub'))"
    using repD(10) [OF r] unfolding rep_chat_def by blast
  then have "rep (t\<lparr>t_reads := (t_reads t)((c, u) \<mapsto> row)\<rparr>) (s\<lparr>chatReads := (chatReads s)(c \<mapsto> bySub')\<rparr>)"
    using r rep_maps(8) [OF r] by (simp add: rep_def)
  then show ?thesis
    using Some n by (simp add: pg_UpsertChannelRead_def mem_UpsertChannelRead_def channelExists_eq [OF r h] Let_def
        row_def [symmetric] bySub_def [symmetric] cur_def [symmetric] bySub'_def [symmetric])
qed

lemma agree_CreateChatTicket [agreeing]:
  assumes r: "rep t s" and new: "fresh s nid"
  shows "agree (pg_CreateChatTicket h t nid sub c ro now) (mem_CreateChatTicket s nid sub c ro now)"
proof -
  have "chatTickets s nid = None" using new by (simp add: fresh_def)
  then show ?thesis using r by (simp add: pg_CreateChatTicket_def mem_CreateChatTicket_def rep_maps [OF r] insert_row_def Let_def rep_def)
qed

section \<open>Files\<close>

lemma rep_files_upd:
  "rep t s \<Longrightarrow> rep_files F tp F PF \<Longrightarrow> rep (t\<lparr>t_files := F, t_pageFiles := tp\<rparr>) (s\<lparr>files := F, pageFiles := PF\<rparr>)"
  by (simp add: rep_def)

lemma file_facts:
  assumes "rep t s"
  shows "t_pageFiles t k = Some row \<longleftrightarrow> row = k \<and> snd row \<in> set (get_list (pageFiles s) (fst row))"
    and "distinct (get_list (pageFiles s) p)" and "rep_files (files s) (t_pageFiles t) (files s) (pageFiles s)"
proof -
  have "rep_files (t_files t) (t_pageFiles t) (files s) (pageFiles s)" by (rule repD(12) [OF assms])
  then show "t_pageFiles t k = Some row \<longleftrightarrow> row = k \<and> snd row \<in> set (get_list (pageFiles s) (fst row))"
    "distinct (get_list (pageFiles s) p)" "rep_files (files s) (t_pageFiles t) (files s) (pageFiles s)"
    unfolding rep_files_def by blast+
qed

lemma agree_SaveFile [agreeing]:
  assumes r: "rep t s" and h: "sees_all h" and new: "files s (sf_ID f) = None"
  shows "agree (pg_SaveFile h t f) (mem_SaveFile s f)"
proof -
  have "rep_files ((files s)(sf_ID f \<mapsto> f)) (t_pageFiles t) ((files s)(sf_ID f \<mapsto> f)) (pageFiles s)"
    using file_facts(3) [OF r] by (simp add: rep_files_def)
  from rep_files_upd [OF r this]
  have "rep (t\<lparr>t_files := (files s)(sf_ID f \<mapsto> f)\<rparr>) (s\<lparr>files := (files s)(sf_ID f \<mapsto> f)\<rparr>)" by simp
  then show ?thesis
    using r new by (simp add: pg_SaveFile_def mem_SaveFile_def workspaceExists_eq [OF r h] all_rows [OF h] rep_maps [OF r] insert_row_def)
qed

lemma agree_GetFile [agreeing]: "rep t s \<Longrightarrow> sees_all h \<Longrightarrow> pg_GetFile h t k = mem_GetFile s k"
  by (simp add: pg_GetFile_def mem_GetFile_def all_rows rep_maps)

lemma agree_AttachPageFile [agreeing]:
  assumes r: "rep t s" and h: "sees_all h"
  shows "agree (pg_AttachPageFile h t p f) (mem_AttachPageFile s p f)"
proof -
  let ?L = "get_list (pageFiles s) p"
  note rows = file_facts(1) [OF r]
  have same: "t\<lparr>t_files := files s\<rparr> = t" using rep_maps(9) [OF r, symmetric] by simp
  have taken: "t_pageFiles t (p, f) \<noteq> None \<longleftrightarrow> f \<in> set ?L" using rows [of "(p, f)"] by auto
  have "rep_files (files s) ((t_pageFiles t)((p, f) \<mapsto> (p, f))) (files s) ((pageFiles s)(p \<mapsto> ?L @ [f]))" if "f \<notin> set ?L"
    using file_facts [OF r] that unfolding rep_files_def by auto
  from rep_files_upd [OF r this]
  have "rep (t\<lparr>t_pageFiles := (t_pageFiles t)((p, f) \<mapsto> (p, f))\<rparr>) (s\<lparr>pageFiles := (pageFiles s)(p \<mapsto> ?L @ [f])\<rparr>)" if "f \<notin> set ?L"
    using that same by simp
  then show ?thesis
    using r taken by (auto simp: pg_AttachPageFile_def mem_AttachPageFile_def pageExists_eq [OF r h] pg_GetFile_def all_rows [OF h]
        rep_maps [OF r] insert_row_def)
qed

lemma mset_map_filter: "mset xs = mset ys \<Longrightarrow> mset (List.map_filter g xs) = mset (List.map_filter g ys)"
  by (simp add: List.map_filter_def)

text \<open>The attachments of a page, in the order of the scan instead of the order of attaching.\<close>

lemma agree_ListPageFiles:
  assumes r: "rep t s" and h: "sees_all h" and sc: "scans t sc"
  shows "rel_sum (=) (\<lambda>xs ys. mset xs = mset ys) (pg_ListPageFiles h t sc p) (mem_ListPageFiles s p)"
proof -
  have ks: "range_order (t_pageFiles t) (sc_pageFiles sc)" using sc by (simp add: scans_def)
  let ?rows = "select_rows (sc_pageFiles sc) (t_pageFiles t) (\<lambda>row. fst row = p)"
  have "distinct ?rows" by (rule distinct_select_rows [OF ks, of id]) (simp add: file_facts(1) [OF r])
  moreover have s: "set ?rows = Pair p ` set (get_list (pageFiles s) p)"
    unfolding set_select_rows [OF ks] file_facts(1) [OF r] by auto
  ultimately have "distinct (map snd ?rows)" "set (map snd ?rows) = set (get_list (pageFiles s) p)"
    by (auto simp: distinct_map inj_on_def image_image)
  then have same: "mset (map snd ?rows) = mset (get_list (pageFiles s) p)" using file_facts(2) [OF r] set_eq_iff_mset_eq_distinct by blast
  have "List.map_filter (\<lambda>row. files s (snd row)) xs = List.map_filter (files s) (map snd xs)" for xs :: "(id \<times> id) list"
    by (induction xs) (auto simp: List.map_filter_simps split: option.split)
  then have "mset (List.map_filter (\<lambda>row. files s (snd row)) ?rows) = mset (List.map_filter (files s) (get_list (pageFiles s) p))"
    using mset_map_filter [OF same] by simp
  then show ?thesis
    by (simp add: pg_ListPageFiles_def mem_ListPageFiles_def pageExists_eq [OF r h] all_rows [OF h] rep_maps [OF r])
qed

end
