(* ===== verification/PgProps.thy ===== *)
theory PgProps
  imports PgSimChat Frames
begin

text \<open>
  The store over PostgreSQL implements the memory store: where row level security hides nothing, every
  operation answers the same from related states and leaves related states. The cases where the two
  differ are the conditions \<open>op_ok\<close>; the one of them that is an error of the program, a card moved within
  its column, has a theorem of its own.
\<close>

section \<open>Two implementations of one interface\<close>

text \<open>
  Two implementations of one interface, as step functions that answer an operation and leave a state. What
  a step leaves open (the order of a range over a map, of the scan of a table) is an argument, chosen at
  every step. When one simulates the other for one step, it does so for every sequence of operations.
\<close>

fun trace :: "('c \<Rightarrow> 'o \<Rightarrow> 's \<Rightarrow> 'a \<times> 's) \<Rightarrow> ('c \<times> 'o) list \<Rightarrow> 's \<Rightarrow> 'a list \<times> 's" where
  "trace run [] s = ([], s)"
| "trace run ((c, op) # xs) s =
     (let (a, s1) = run c op s; (as, s2) = trace run xs s1 in (a # as, s2))"

text \<open>The choices of a sequence are possible in the states they are made in.\<close>

fun choices_ok :: "('s \<Rightarrow> 'c \<Rightarrow> bool) \<Rightarrow> ('c \<Rightarrow> 'o \<Rightarrow> 's \<Rightarrow> 'a \<times> 's) \<Rightarrow> ('c \<times> 'o) list \<Rightarrow> 's \<Rightarrow> bool" where
  "choices_ok can run [] s \<longleftrightarrow> True"
| "choices_ok can run ((c, op) # xs) s \<longleftrightarrow> can s c \<and> choices_ok can run xs (snd (run c op s))"

lemma trace_Cons_eq [simp]:
  "fst (trace run ((c, op) # xs) s) = fst (run c op s) # fst (trace run xs (snd (run c op s)))"
  "snd (trace run ((c, op) # xs) s) = snd (trace run xs (snd (run c op s)))"
  by (simp_all add: case_prod_beta Let_def)

text \<open>
  A sequence is proper when each choice is possible and each operation fits at its turn, whichever way the
  second implementation went before.
\<close>

fun proper :: "('t \<Rightarrow> 'c \<Rightarrow> bool) \<Rightarrow> ('c \<Rightarrow> 'o \<Rightarrow> 't \<Rightarrow> 'a \<times> 't) \<Rightarrow> ('s \<Rightarrow> 'd \<Rightarrow> bool) \<Rightarrow> ('d \<Rightarrow> 'o \<Rightarrow> 's \<Rightarrow> 'a \<times> 's)
    \<Rightarrow> ('o \<Rightarrow> 's \<Rightarrow> bool) \<Rightarrow> ('c \<times> 'o) list \<Rightarrow> 't \<Rightarrow> 's \<Rightarrow> bool" where
  "proper can1 run1 can2 run2 ok [] t s \<longleftrightarrow> True"
| "proper can1 run1 can2 run2 ok ((c, op) # xs) t s \<longleftrightarrow> can1 t c \<and> ok op s \<and>
     (\<forall>d. can2 s d \<longrightarrow> proper can1 run1 can2 run2 ok xs (snd (run1 c op t)) (snd (run2 d op s)))"

locale simulation =
  fixes rel :: "'t \<Rightarrow> 's \<Rightarrow> bool"
    and run1 :: "'c \<Rightarrow> 'o \<Rightarrow> 't \<Rightarrow> 'a \<times> 't" and can1 :: "'t \<Rightarrow> 'c \<Rightarrow> bool"
    and run2 :: "'d \<Rightarrow> 'o \<Rightarrow> 's \<Rightarrow> 'a \<times> 's" and can2 :: "'s \<Rightarrow> 'd \<Rightarrow> bool"
    and same :: "'a \<Rightarrow> 'a \<Rightarrow> bool" and ok :: "'o \<Rightarrow> 's \<Rightarrow> bool"
  assumes step: "rel t s \<Longrightarrow> can1 t c \<Longrightarrow> ok op s \<Longrightarrow>
    \<exists>d. can2 s d \<and> same (fst (run1 c op t)) (fst (run2 d op s)) \<and> rel (snd (run1 c op t)) (snd (run2 d op s))"
begin

lemma sequence:
  "rel t s \<Longrightarrow> proper can1 run1 can2 run2 ok xs t s \<Longrightarrow>
   \<exists>ys. map snd ys = map snd xs \<and> choices_ok can2 run2 ys s \<and>
     list_all2 same (fst (trace run1 xs t)) (fst (trace run2 ys s)) \<and> rel (snd (trace run1 xs t)) (snd (trace run2 ys s))"
proof (induction xs arbitrary: t s)
  case (Cons x xs)
  obtain c op where x: "x = (c, op)" by (cases x)
  with Cons.prems obtain d where d: "can2 s d" "same (fst (run1 c op t)) (fst (run2 d op s))"
    "rel (snd (run1 c op t)) (snd (run2 d op s))" using step [of t s c op] by auto
  moreover have "proper can1 run1 can2 run2 ok xs (snd (run1 c op t)) (snd (run2 d op s))" using Cons.prems(2) d(1) x by simp
  ultimately obtain ys where ys: "map snd ys = map snd xs" "choices_ok can2 run2 ys (snd (run2 d op s))"
    "list_all2 same (fst (trace run1 xs (snd (run1 c op t)))) (fst (trace run2 ys (snd (run2 d op s))))"
    "rel (snd (trace run1 xs (snd (run1 c op t)))) (snd (trace run2 ys (snd (run2 d op s))))"
    using Cons.IH by blast
  show ?case
    by (rule exI [of _ "(d, op) # ys"]) (use ys d x in \<open>simp del: trace.simps\<close>)
qed simp

end

section \<open>Proper operations\<close>

fun op_ok_M :: "MemberOp \<Rightarrow> Store \<Rightarrow> bool" where
  "op_ok_M (O_CreateWorkspace nid name owner org now) s \<longleftrightarrow> fresh s nid"
| "op_ok_M (O_CreateInvitation nid ws hash role email uses expires who now) s \<longleftrightarrow>
     fresh s nid \<and> (\<forall>k iv. invitations s k = Some iv \<longrightarrow> inv_TokenHash iv \<noteq> hash)"
| "op_ok_M (O_AddAuditEvent e) s \<longleftrightarrow>
     workspaces s (ae_WorkspaceID e) \<noteq> None \<and> (\<forall>w. \<forall>x \<in> set (get_list (audits s) w). ae_ID x \<noteq> ae_ID e)"
| "op_ok_M _ s \<longleftrightarrow> True"

fun op_ok_B :: "BoardOp \<Rightarrow> Store \<Rightarrow> bool" where
  "op_ok_B (O_CreateBoard bid cids ws name now) s \<longleftrightarrow>
     fresh s bid \<and> length cids = length defaultNames \<and> distinct (bid # cids) \<and> list_all (fresh s) cids"
| "op_ok_B (O_ArchiveBoard b now) s \<longleftrightarrow> (\<forall>bd. boards s b = Some bd \<longrightarrow> bd_ArchivedAt bd = None)"
| "op_ok_B (O_CreateColumn nid b name now) s \<longleftrightarrow> fresh s nid"
| "op_ok_B (O_CreateCard nid c title desc now) s \<longleftrightarrow> fresh s nid"
| "op_ok_B (O_MoveCard k target pos version now) s \<longleftrightarrow> (\<forall>c. cards s k = Some c \<longrightarrow> ca_ColumnID c \<noteq> target)"
| "op_ok_B _ s \<longleftrightarrow> True"

fun op_ok_P :: "PageOp \<Rightarrow> Store \<Rightarrow> bool" where
  "op_ok_P (O_CreatePage nid cid ws parent title body status now) s \<longleftrightarrow> fresh s nid \<and> fresh s cid"
| "op_ok_P _ s \<longleftrightarrow> True"

fun op_ok_D :: "DocOp \<Rightarrow> Store \<Rightarrow> bool" where
  "op_ok_D (O_CreateDocument nid cid ws title body now) s \<longleftrightarrow> fresh s nid \<and> fresh s cid"
| "op_ok_D (O_TrashDocument d now) s \<longleftrightarrow> (\<forall>x. documents s d = Some x \<longrightarrow> doc_DeletedAt x = None)"
| "op_ok_D (O_CreateTicket nid sub cid ro now) s \<longleftrightarrow> fresh s nid"
| "op_ok_D _ s \<longleftrightarrow> True"

fun op_ok_C :: "ChatOp \<Rightarrow> Store \<Rightarrow> bool" where
  "op_ok_C (O_CreateChannel nid ws name now) s \<longleftrightarrow> fresh s nid"
| "op_ok_C (O_AppendMessage nid c sub body mentions att now) s \<longleftrightarrow>
     (\<forall>c. \<forall>m \<in> set (get_list (messages s) c). cm_ID m \<noteq> nid)"
| "op_ok_C (O_UpsertChannelRead c sub n now) s \<longleftrightarrow> 0 \<le> n"
| "op_ok_C (O_CreateChatTicket nid sub c ro now) s \<longleftrightarrow> fresh s nid"
| "op_ok_C _ s \<longleftrightarrow> True"

fun op_ok_F :: "FileOp \<Rightarrow> Store \<Rightarrow> bool" where
  "op_ok_F (O_SaveFile f) s \<longleftrightarrow> files s (sf_ID f) = None"
| "op_ok_F _ s \<longleftrightarrow> True"

fun op_ok_S :: "SprintOp \<Rightarrow> Store \<Rightarrow> bool" where
  "op_ok_S (O_CreateSprint nid b name start stop now) s \<longleftrightarrow> fresh s nid \<and> ValidSprintWindow start stop"
| "op_ok_S (O_UpdateSprint k name start stop now) s \<longleftrightarrow> (\<forall>sp. sprints s k = Some sp \<longrightarrow>
     ValidSprintWindow (case start of None \<Rightarrow> sp_StartAt sp | Some x \<Rightarrow> x) (case stop of None \<Rightarrow> sp_EndAt sp | Some x \<Rightarrow> x))"
| "op_ok_S _ s \<longleftrightarrow> True"

fun op_ok :: "store_op \<Rightarrow> Store \<Rightarrow> bool" where
  "op_ok (O_M op) s \<longleftrightarrow> op_ok_M op s"
| "op_ok (O_B op) s \<longleftrightarrow> op_ok_B op s"
| "op_ok (O_P op) s \<longleftrightarrow> op_ok_P op s"
| "op_ok (O_D op) s \<longleftrightarrow> op_ok_D op s"
| "op_ok (O_C op) s \<longleftrightarrow> op_ok_C op s"
| "op_ok (O_F op) s \<longleftrightarrow> op_ok_F op s"
| "op_ok (O_S op) s \<longleftrightarrow> op_ok_S op s"
| "op_ok (O_V op) s \<longleftrightarrow> True"

text \<open>The same answer, but for the order of the attachments of a page.\<close>

fun same_answer :: "answer \<Rightarrow> answer \<Rightarrow> bool" where
  "same_answer (A_files xs) (A_files ys) \<longleftrightarrow> mset xs = mset ys"
| "same_answer a b \<longleftrightarrow> a = b"

lemma same_answer_refl [simp]: "same_answer a a"
  by (cases a) simp_all

section \<open>One step\<close>

lemma agree_answers:
  "agree p q \<Longrightarrow> agree (answer_write f p) (answer_write f q)"
  "agree p' q' \<Longrightarrow> agree (answer_locked g f' p') (answer_locked g f' q')"
  "rep t s \<Longrightarrow> agree (answer_read f r t) (answer_read f r s)"
  by (simp_all add: agree_def answer_defs)

lemma agree_tickets: "agree p q \<Longrightarrow> agree (case p of (x, t1) \<Rightarrow> (f x, t1)) (case q of (x, s1) \<Rightarrow> (f x, s1))"
  by (simp add: agree_def case_prod_beta)

lemma base_orders_simps [simp]:
  "od_workspaces (base_orders sc ks sh) = ks" "od_members (base_orders sc ks sh) = member_order (sc_members sc)"
  "od_invitations (base_orders sc ks sh) = sc_invitations sc" "od_shuffle (base_orders sc ks sh) = sh"
  "od_boards (base_orders sc ks sh) = sc_boards sc" "od_cards (base_orders sc ks sh) = sc_cards sc"
  "od_sprints (base_orders sc ks sh) = sc_sprints sc" "od_pages (base_orders sc ks sh) = sc_pages sc"
  "od_documents (base_orders sc ks sh) = sc_documents sc" "od_channels (base_orders sc ks sh) = sc_channels sc"
  by (simp_all add: base_orders_def)

lemma agree_run_B:
  assumes "rep t s" and "sees_all h" and "scans t sc" and "op_ok_B op s"
  shows "agree (pg_run_B h sc op t) (mem_run_B (base_orders sc ks sh) op s)"
  using assms by (cases op) (auto simp: list_all_iff agreeing intro!: agree_answers intro: agreeing)

lemma agree_run_P:
  assumes "rep t s" and "sees_all h" and "scans t sc" and "op_ok_P op s"
  shows "agree (pg_run_P h sc op t) (mem_run_P (base_orders sc ks sh) op s)"
  using assms by (cases op) (auto simp: agreeing intro!: agree_answers)

lemma agree_run_D:
  assumes "rep t s" and "sees_all h" and "scans t sc" and "op_ok_D op s"
  shows "agree (pg_run_D h sc op t) (mem_run_D (base_orders sc ks sh) op s)"
  using assms by (cases op) (auto simp: agreeing intro!: agree_answers agree_tickets)

lemma agree_run_C:
  assumes "rep t s" and "sees_all h" and "scans t sc" and "op_ok_C op s"
  shows "agree (pg_run_C h sc op t) (mem_run_C (base_orders sc ks sh) op s)"
  using assms by (cases op) (auto simp: agreeing intro!: agree_answers agree_tickets)

lemma agree_run_S:
  assumes "rep t s" and "sees_all h" and "scans t sc" and "op_ok_S op s"
  shows "agree (pg_run_S h sc op t) (mem_run_S (base_orders sc ks sh) op s)"
  using assms by (cases op) (auto simp: agreeing intro!: agree_answers)

lemma agree_run_V:
  assumes "rep t s" and "sees_all h" and "scans t sc"
  shows "agree (pg_run_V h sc op t) (mem_run_V (base_orders sc ks sh) op s)"
  using assms by (cases op) (auto simp: agreeing intro!: agree_answers)

lemma agree_run_M:
  assumes "rep t s" and "sees_all h" and "whole s" and "scans t sc" and "op_ok_M op s"
    and "\<And>u. op \<noteq> O_ListWorkspacesForSub u" and "\<And>w. op \<noteq> O_ListAuditEvents w"
  shows "agree (pg_run_M h sc op t) (mem_run_M (base_orders sc ks sh) op s)"
  using assms by (cases op) (auto simp: agreeing fresh_def intro!: agree_answers)

lemma refines_M:
  assumes r: "rep t s" and h: "sees_all h" and w: "whole s" and sc: "scans t sc" and ok: "op_ok_M op s"
  shows "\<exists>od. orders_ok s od \<and> agree (pg_run_M h sc op t) (mem_run_M od op s)"
proof -
  note base = base_orders_ok [OF r sc]
  obtain ks where ks: "range_order (members s) ks" using workspace_order [OF r] by blast
  consider (spaces) u where "op = O_ListWorkspacesForSub u" | (events) v where "op = O_ListAuditEvents v"
    | (other) "\<And>u. op \<noteq> O_ListWorkspacesForSub u" "\<And>v. op \<noteq> O_ListAuditEvents v" by (cases op) auto
  then show ?thesis
  proof cases
    case spaces
    obtain js where "range_order (members s) js" "pg_ListWorkspacesForSub h t sc u = mem_ListWorkspacesForSub js s u"
      using agree_ListWorkspacesForSub [OF r h w sc] by blast
    then show ?thesis using spaces r by (intro exI [of _ "base_orders sc js (\<lambda>xs. xs)"]) (simp add: base)
  next
    case events
    obtain sh where "\<forall>xs. mset (sh xs) = mset xs" "pg_ListAuditEvents h t sc v = mem_ListAuditEvents sh s v"
      using agree_ListAuditEvents [OF r h sc] by blast
    then show ?thesis using events ks r by (intro exI [of _ "base_orders sc ks sh"]) (simp add: base agree_answers)
  next
    case other
    then show ?thesis
      using agree_run_M [OF r h w sc ok other] ks by (intro exI [of _ "base_orders sc ks (\<lambda>xs. xs)"]) (simp add: base)
  qed
qed

lemma refines_F:
  assumes r: "rep t s" and h: "sees_all h" and sc: "scans t sc" and ok: "op_ok_F op s"
  shows "same_answer (fst (pg_run_F h sc op t)) (fst (mem_run_F od op s)) \<and> rep (snd (pg_run_F h sc op t)) (snd (mem_run_F od op s))"
proof (cases op)
  case (O_ListPageFiles p)
  then show ?thesis
    using r agree_ListPageFiles [OF r h sc, of p]
    by (cases "pg_ListPageFiles h t sc p"; cases "mem_ListPageFiles s p") (simp_all add: answer_defs)
next
  case (O_SaveFile f)
  then show ?thesis using agree_answers(1) [OF agree_SaveFile [OF r h, of f], of A_unit] ok by (simp add: agree_def)
next
  case (O_AttachPageFile p f)
  then show ?thesis using agree_answers(1) [OF agree_AttachPageFile [OF r h, of p f], of A_unit] by (simp add: agree_def)
qed (use r h in \<open>simp_all add: agree_GetFile answer_defs\<close>)

lemma one_step:
  assumes r: "rep t s" and h: "sees_all h" and w: "whole s" and sc: "scans t sc" and ok: "op_ok op s"
  shows "\<exists>od. orders_ok s od \<and> same_answer (fst (pg_run h sc op t)) (fst (mem_run od op s)) \<and>
    rep (snd (pg_run h sc op t)) (snd (mem_run od op s))"
proof -
  obtain ks where ks: "range_order (members s) ks" using workspace_order [OF r] by blast
  let ?od = "base_orders sc ks (\<lambda>xs. xs)"
  have od: "orders_ok s ?od" by (rule base_orders_ok [OF r sc ks]) simp
  have base: ?thesis if "agree (pg_run h sc op t) (mem_run ?od op s)"
    using that od unfolding agree_def by (metis same_answer_refl)
  show ?thesis
  proof (cases op)
    case (O_M m)
    then show ?thesis using refines_M [OF r h w sc, of m] ok unfolding agree_def by (metis mem_run.simps(1) op_ok.simps(1) pg_run.simps(1) same_answer_refl)
  next
    case (O_F f)
    then show ?thesis using refines_F [OF r h sc, of f ?od] ok od by auto
  qed (rule base; use ok in \<open>simp add: agree_run_B agree_run_P agree_run_D agree_run_C agree_run_S agree_run_V r h sc\<close>)+
qed

text \<open>No operation of the memory store changes which tenant it is for.\<close>

definition mem_handle :: "Store \<Rightarrow> string \<times> bool" where
  "mem_handle s = (orgFilter s, skipTenant s)"

lemma whole_handle: "mem_handle s = mem_handle s' \<Longrightarrow> whole s = whole s'"
  by (simp add: mem_handle_def whole_def)

lemma handle_answers [simp]:
  "mem_handle (snd (answer_write f q)) = mem_handle (snd q)" "mem_handle (snd (answer_locked g f' q')) = mem_handle (snd q')"
  "mem_handle (snd (answer_read f r s)) = mem_handle s"
  by (simp_all add: answer_defs)

lemma handle_beyond: "beyond_boards u = beyond_boards s \<Longrightarrow> mem_handle u = mem_handle s"
proof -
  have "mem_handle (beyond_boards x) = mem_handle x" for x by (simp add: beyond_boards_def mem_handle_def)
  then show "beyond_boards u = beyond_boards s \<Longrightarrow> mem_handle u = mem_handle s" by metis
qed

lemmas handle_boards = mem_board_frame [THEN handle_beyond]

lemma handle_run_boards: "mem_handle (snd (mem_run_B od op s)) = mem_handle s" "mem_handle (snd (mem_run_S od op' s)) = mem_handle s"
  by (cases op; simp add: handle_boards) (cases op'; simp add: handle_boards)

lemma handle_run_pages: "mem_handle (snd (mem_run_P od op s)) = mem_handle s" "mem_handle (snd (mem_run_V od op' s)) = mem_handle s"
  by (cases op; simp; auto simp: mem_CreatePage_def mem_UpdatePage_def mem_ArchivePage_def mem_UnarchivePage_def guard_ok_def
      guard_zero_def mem_handle_def Let_def split: option.splits sum.splits)
    (cases op'; simp; auto simp: mem_AppendPageVersionIfChanged_def mem_handle_def Let_def split: option.splits)

lemma handle_run_rest: "mem_handle (snd (mem_run_M od op s)) = mem_handle s"
  by (cases op; simp; auto simp: op_defs mem_handle_def Let_def split: option.splits)

lemma handle_run_docs: "mem_handle (snd (mem_run_D od op s)) = mem_handle s"
  by (cases op; simp; auto simp: op_defs mem_handle_def Let_def split: option.splits)

lemma handle_run_chat: "mem_handle (snd (mem_run_C od op s)) = mem_handle s" "mem_handle (snd (mem_run_F od op' s)) = mem_handle s"
  by (cases op; simp; auto simp: op_defs mem_handle_def Let_def split: option.splits)
    (cases op'; simp; auto simp: op_defs mem_handle_def Let_def split: option.splits)

lemma whole_run [simp]: "whole (snd (mem_run od op s)) = whole s"
  by (rule whole_handle) (cases op; simp add: handle_run_boards handle_run_pages handle_run_rest
      handle_run_docs handle_run_chat)

section \<open>Sequences of operations\<close>

text \<open>
  The choice at a step of the store over PostgreSQL: the handle, which may differ from request to request
  as long as row level security hides nothing from it, and the order in which the tables are scanned.
\<close>

definition pg_step :: "PgStore \<times> Scan \<Rightarrow> store_op \<Rightarrow> Tables \<Rightarrow> answer \<times> Tables" where
  "pg_step c op t = pg_run (fst c) (snd c) op t"

definition pg_can :: "Tables \<Rightarrow> PgStore \<times> Scan \<Rightarrow> bool" where
  "pg_can t c \<longleftrightarrow> sees_all (fst c) \<and> scans t (snd c)"

definition related :: "Tables \<Rightarrow> Store \<Rightarrow> bool" where
  "related t s \<longleftrightarrow> rep t s \<and> whole s"

interpretation stores: simulation related pg_step pg_can mem_run orders_ok same_answer op_ok
  by unfold_locales (use one_step in \<open>auto simp: related_def pg_can_def pg_step_def\<close>)

end
