(* ===== verification/PgTenants.thy ===== *)
theory PgTenants
  imports PgProps
begin

text \<open>
  What row level security gives where the role is subject to it: a statement leaves every row alone that
  its tenant does not see (confinement); every operation keeps the rows under their primary keys; so what a
  tenant does in a sequence of operations never touches a row of another organisation.
\<close>

section \<open>Rows that are spared\<close>

definition spared :: "('k \<rightharpoonup> 'v) \<Rightarrow> ('k \<rightharpoonup> 'v) \<Rightarrow> ('k \<rightharpoonup> 'v) \<Rightarrow> bool" where
  "spared seen m m' \<longleftrightarrow> (\<forall>k. m k \<noteq> None \<longrightarrow> seen k = None \<longrightarrow> m' k = m k)"

lemma spared_refl [simp]: "spared seen m m"
  by (simp add: spared_def)

lemma spared_put: "spared seen m m' \<Longrightarrow> seen k \<noteq> None \<or> m k = None \<Longrightarrow> spared seen m (m'(k := v))"
  by (auto simp: spared_def)

lemma spared_update: "spared seen m m' \<Longrightarrow> seen k \<noteq> None \<Longrightarrow> spared seen m (update_row k f m')"
  by (auto simp: spared_def update_row_def split: option.split)

lemma spared_fold: "spared seen m m' \<Longrightarrow> \<forall>x \<in> set xs. seen (g x) \<noteq> None \<Longrightarrow> spared seen m (fold (\<lambda>x. update_row (g x) (f x)) xs m')"
  by (induction xs arbitrary: m') (auto intro: spared_update)

lemma spared_fold_index:
  "spared seen m m' \<Longrightarrow> \<forall>k \<in> set ks. seen k \<noteq> None \<Longrightarrow> spared seen m (fold_index (\<lambda>i k. update_row k (f i)) j ks m')"
  by (induction ks arbitrary: m' j) (auto intro: spared_update)

lemma spared_insert: "insert_row b k v m = Inr m' \<Longrightarrow> spared seen m m'"
  by (auto simp: insert_row_def spared_def split: if_splits)

definition tables_spared :: "PgStore \<Rightarrow> Tables \<Rightarrow> Tables \<Rightarrow> bool" where
  "tables_spared h t t' \<longleftrightarrow>
     spared (t_workspaces (view h t)) (t_workspaces t) (t_workspaces t') \<and>
     spared (t_members (view h t)) (t_members t) (t_members t') \<and>
     spared (t_invitations (view h t)) (t_invitations t) (t_invitations t') \<and>
     spared (t_audits (view h t)) (t_audits t) (t_audits t') \<and>
     spared (t_boards (view h t)) (t_boards t) (t_boards t') \<and>
     spared (t_columns (view h t)) (t_columns t) (t_columns t') \<and>
     spared (t_sprints (view h t)) (t_sprints t) (t_sprints t') \<and>
     spared (t_cards (view h t)) (t_cards t) (t_cards t') \<and>
     spared (t_pages (view h t)) (t_pages t) (t_pages t') \<and>
     spared (t_documents (view h t)) (t_documents t) (t_documents t') \<and>
     spared (t_channels (view h t)) (t_channels t) (t_channels t') \<and>
     spared (t_messages (view h t)) (t_messages t) (t_messages t') \<and>
     spared (t_reads (view h t)) (t_reads t) (t_reads t') \<and>
     spared (t_files (view h t)) (t_files t) (t_files t') \<and>
     spared (t_pageFiles (view h t)) (t_pageFiles t) (t_pageFiles t') \<and>
     spared (t_versions (view h t)) (t_versions t) (t_versions t')"

lemma tables_spared_simps [simp]:
  "tables_spared h t t"
  "tables_spared h t (t\<lparr>t_workspaces := a\<rparr>) = spared (t_workspaces (view h t)) (t_workspaces t) a"
  "tables_spared h t (t\<lparr>t_members := b\<rparr>) = spared (t_members (view h t)) (t_members t) b"
  "tables_spared h t (t\<lparr>t_invitations := c\<rparr>) = spared (t_invitations (view h t)) (t_invitations t) c"
  "tables_spared h t (t\<lparr>t_audits := d\<rparr>) = spared (t_audits (view h t)) (t_audits t) d"
  "tables_spared h t (t\<lparr>t_boards := e\<rparr>) = spared (t_boards (view h t)) (t_boards t) e"
  "tables_spared h t (t\<lparr>t_columns := f\<rparr>) = spared (t_columns (view h t)) (t_columns t) f"
  "tables_spared h t (t\<lparr>t_sprints := g\<rparr>) = spared (t_sprints (view h t)) (t_sprints t) g"
  "tables_spared h t (t\<lparr>t_cards := i\<rparr>) = spared (t_cards (view h t)) (t_cards t) i"
  "tables_spared h t (t\<lparr>t_pages := j\<rparr>) = spared (t_pages (view h t)) (t_pages t) j"
  "tables_spared h t (t\<lparr>t_documents := k\<rparr>) = spared (t_documents (view h t)) (t_documents t) k"
  "tables_spared h t (t\<lparr>t_channels := l\<rparr>) = spared (t_channels (view h t)) (t_channels t) l"
  "tables_spared h t (t\<lparr>t_messages := m\<rparr>) = spared (t_messages (view h t)) (t_messages t) m"
  "tables_spared h t (t\<lparr>t_reads := n\<rparr>) = spared (t_reads (view h t)) (t_reads t) n"
  "tables_spared h t (t\<lparr>t_files := p\<rparr>) = spared (t_files (view h t)) (t_files t) p"
  "tables_spared h t (t\<lparr>t_pageFiles := q\<rparr>) = spared (t_pageFiles (view h t)) (t_pageFiles t) q"
  "tables_spared h t (t\<lparr>t_versions := r\<rparr>) = spared (t_versions (view h t)) (t_versions t) r"
  "tables_spared h t (t\<lparr>t_collabTickets := u\<rparr>)" "tables_spared h t (t\<lparr>t_chatTickets := w\<rparr>)"
  "tables_spared h t (t\<lparr>t_workspaces := a, t_members := b\<rparr>) \<longleftrightarrow>
     spared (t_workspaces (view h t)) (t_workspaces t) a \<and> spared (t_members (view h t)) (t_members t) b"
  "tables_spared h t (t\<lparr>t_members := b, t_invitations := c\<rparr>) \<longleftrightarrow>
     spared (t_members (view h t)) (t_members t) b \<and> spared (t_invitations (view h t)) (t_invitations t) c"
  "tables_spared h t (t\<lparr>t_boards := e, t_columns := f\<rparr>) \<longleftrightarrow>
     spared (t_boards (view h t)) (t_boards t) e \<and> spared (t_columns (view h t)) (t_columns t) f"
  "tables_spared h t (t\<lparr>t_cards := i, t_sprints := g\<rparr>) \<longleftrightarrow>
     spared (t_cards (view h t)) (t_cards t) i \<and> spared (t_sprints (view h t)) (t_sprints t) g"
  "tables_spared h t (t\<lparr>t_sprints := g, t_cards := i\<rparr>) \<longleftrightarrow>
     spared (t_sprints (view h t)) (t_sprints t) g \<and> spared (t_cards (view h t)) (t_cards t) i"
  "tables_spared h t (t\<lparr>t_pages := j, t_documents := k\<rparr>) \<longleftrightarrow>
     spared (t_pages (view h t)) (t_pages t) j \<and> spared (t_documents (view h t)) (t_documents t) k"
  by (auto simp: tables_spared_def)

text \<open>What the policies look at.\<close>

lemma policies_same [simp]:
  "below_board h (t\<lparr>t_columns := C\<rparr>) b = below_board h t b" "below_board h (t\<lparr>t_cards := K\<rparr>) b = below_board h t b"
  "app_workspace_tenant_matches h (t\<lparr>t_columns := C\<rparr>) w = app_workspace_tenant_matches h t w"
  "app_workspace_tenant_matches h (t\<lparr>t_cards := K\<rparr>) w = app_workspace_tenant_matches h t w"
  "app_workspace_tenant_matches h (t\<lparr>t_pages := P\<rparr>) w = app_workspace_tenant_matches h t w"
  by (simp_all add: below_board_def app_workspace_tenant_matches_def cong: option.case_cong)

text \<open>The primary keys: a row is stored under its own identifier.\<close>

definition keyed :: "Tables \<Rightarrow> bool" where
  "keyed t \<longleftrightarrow> (\<forall>k v. t_columns t k = Some v \<longrightarrow> co_ID v = k) \<and> (\<forall>k v. t_cards t k = Some v \<longrightarrow> ca_ID v = k) \<and>
     (\<forall>k v. t_pages t k = Some v \<longrightarrow> pg_ID v = k) \<and> (\<forall>k v. t_documents t k = Some v \<longrightarrow> doc_ID v = k) \<and>
     (\<forall>k v. t_reads t k = Some v \<longrightarrow> rd_ChannelID v = fst k) \<and> (\<forall>k v. t_versions t k = Some v \<longrightarrow> pv_PageID v = fst k) \<and>
     (\<forall>k v. t_members t k = Some v \<longrightarrow> mb_WorkspaceID v = fst k) \<and> (\<forall>k v. t_pageFiles t k = Some v \<longrightarrow> v = k)"

lemma keyedD:
  assumes "keyed t"
  shows "t_columns t k = Some co \<Longrightarrow> co_ID co = k" and "t_cards t k = Some ca \<Longrightarrow> ca_ID ca = k"
    and "t_pages t k = Some p \<Longrightarrow> pg_ID p = k" and "t_documents t k = Some d \<Longrightarrow> doc_ID d = k"
    and "t_reads t cu = Some r \<Longrightarrow> rd_ChannelID r = fst cu" and "t_versions t pn = Some v \<Longrightarrow> pv_PageID v = fst pn"
    and "t_members t wu = Some mb \<Longrightarrow> mb_WorkspaceID mb = fst wu" and "t_pageFiles t pf = Some row \<Longrightarrow> row = pf"
  using assms unfolding keyed_def by blast+

lemma keep_Some [simp]: "keep P m k = Some v \<longleftrightarrow> m k = Some v \<and> P v"
  by (auto simp: keep_def split: option.split)

lemma keep_None: "keep P m k = None \<longleftrightarrow> (\<forall>v. m k = Some v \<longrightarrow> \<not> P v)"
  by (auto simp: keep_def split: option.split)

lemma in_select_rows: "v \<in> set (select_rows ks m P) \<Longrightarrow> (\<exists>k. m k = Some v) \<and> P v"
  by (auto simp: select_rows_def range_values_def List.map_filter_def)

text \<open>The columns, cards and pages an operation finds are seen under their own identifiers.\<close>

lemma seen_rows:
  assumes "keyed t"
  shows "c \<in> set (select_rows ks (t_columns (view h t)) P) \<Longrightarrow> t_columns (view h t) (co_ID c) = Some c"
    and "d \<in> set (select_rows ks (t_cards (view h t)) Q) \<Longrightarrow> t_cards (view h t) (ca_ID d) = Some d"
    and "p \<in> set (select_rows ks (t_pages (view h t)) R) \<Longrightarrow> t_pages (view h t) (pg_ID p) = Some p"
    and "x \<in> set (select_rows ks (t_documents (view h t)) S) \<Longrightarrow> t_documents (view h t) (doc_ID x) = Some x"
  using keyedD [OF assms] by (force simp: view_def dest!: in_select_rows)+

section \<open>Confinement\<close>

named_theorems confined

lemma confined_answers:
  "tables_spared h t (snd p) \<Longrightarrow> tables_spared h t (snd (answer_write f p))"
  "tables_spared h t (snd q) \<Longrightarrow> tables_spared h t (snd (answer_locked g f' q))"
  "tables_spared h t (snd (answer_read f r t))"
  by (simp_all add: answer_defs)

lemma confined_guard:
  "(\<And>x. r = Inr x \<Longrightarrow> tables_spared h t (snd (f x))) \<Longrightarrow> tables_spared h t (snd (guard_ok r t f))"
  "(\<And>x. r = Inr x \<Longrightarrow> tables_spared h t (snd (f' x))) \<Longrightarrow> tables_spared h t (snd (guard_zero z r t f'))"
  by (cases r; simp)+

lemma confined_members [confined]:
  "tables_spared h t (snd (pg_CreateWorkspace h t nid name owner org now))"
  "tables_spared h t (snd (pg_AddMember h t w u role now))"
  "tables_spared h t (snd (pg_UpdateMemberDisplayName h t w u name))"
  "tables_spared h t (snd (pg_UpdateMemberRole h t w u role))"
  "tables_spared h t (snd (pg_RemoveMember h t w u))"
  "tables_spared h t (snd (pg_CreateInvitation h t sc nid w hash role email uses expires who now))"
  "tables_spared h t (snd (pg_UpdateInvitationPolicy h t w k role email uses expires))"
  "tables_spared h t (snd (pg_RevokeInvitation h t w k now))"
  "tables_spared h t (snd (pg_AcceptInvitation h t k u now))"
  "tables_spared h t (snd (pg_AddAuditEvent h t e))"
  by (auto simp: pg_CreateWorkspace_def pg_AddMember_def pg_UpdateMemberDisplayName_def pg_UpdateMemberRole_def pg_RemoveMember_def
      pg_CreateInvitation_def pg_UpdateInvitationPolicy_def pg_RevokeInvitation_def pg_AcceptInvitation_def pg_AddAuditEvent_def
      workspace_invitation_def Let_def intro!: confined_guard spared_update spared_put intro: spared_insert
      split: sum.split sql_error.split option.splits)

lemma insert_columns_spared: "insert_columns b cs m' = Inr m'' \<Longrightarrow> spared seen m m' \<Longrightarrow> spared seen m m''"
proof (induction cs arbitrary: m')
  case (Cons c cs)
  then obtain m1 where m1: "insert_row b (co_ID c) c m' = Inr m1" "insert_columns b cs m1 = Inr m''" by (auto split: sum.splits)
  then have "spared seen m m1" using Cons.prems(2) by (auto simp: insert_row_def spared_def split: if_splits)
  then show ?case using Cons.IH m1(2) by blast
qed simp

lemma confined_boards [confined]:
  "tables_spared h t (snd (pg_CreateBoard h t bid cids w name now))"
  "tables_spared h t (snd (pg_ArchiveBoard h t b now))" "tables_spared h t (snd (pg_UnarchiveBoard h t b))"
  "tables_spared h t (snd (pg_CreateColumn h t sc nid b name now))" "tables_spared h t (snd (pg_RenameColumn h t k name))"
  "tables_spared h t (snd (pg_CreateCard h t sc nid k title d now))"
  "tables_spared h t (snd (pg_UpdateCard h t k title d sprint v now))"
  "tables_spared h t (snd (pg_CreateSprint h t nid b name x y now))"
  "tables_spared h t (snd (pg_UpdateSprint h t k name x' y' now))"
  by (auto simp: pg_CreateBoard_def pg_ArchiveBoard_def pg_UnarchiveBoard_def pg_CreateColumn_def pg_RenameColumn_def
      pg_CreateCard_def pg_UpdateCard_def pg_CreateSprint_def pg_UpdateSprint_def pg_GetSprint_def Let_def
      intro!: confined_guard spared_update spared_put intro: spared_insert insert_columns_spared [OF _ spared_refl]
      split: sum.split option.splits)

lemma confined_DeleteSprint [confined]: "tables_spared h t (snd (pg_DeleteSprint h t k))"
proof -
  have "spared (t_cards (view h t)) (t_cards t)
      (\<lambda>j. map_option (\<lambda>c. if below_board h t (ca_BoardID c) \<and> ca_SprintID c = k then c\<lparr>ca_SprintID := []\<rparr> else c) (t_cards t j))"
    by (auto simp: spared_def view_def keep_None)
  then show ?thesis by (auto simp: pg_DeleteSprint_def intro!: spared_put)
qed

lemma columns_spared:
  "spared seen m m' \<Longrightarrow> \<forall>k \<in> set ks. seen k \<noteq> None \<Longrightarrow> spared seen m (fold_index column_to j ks m')"
  unfolding column_to_def [abs_def] by (rule spared_fold_index)

lemma confined_columns [confined]:
  assumes "keyed t"
  shows "tables_spared h t (snd (pg_DeleteColumn h t sc k))" and "tables_spared h t (snd (pg_ReorderColumns h t sc b cs))"
proof -
  have "t_columns (view h t) j \<noteq> None" if "j \<in> set (board_column_ids h (t\<lparr>t_columns := (t_columns t)(k := None)\<rparr>) sc b)" for j b
  proof -
    let ?t1 = "t\<lparr>t_columns := (t_columns t)(k := None)\<rparr>"
    have "keyed ?t1" using assms by (simp add: keyed_def)
    then have "t_columns (view h ?t1) j \<noteq> None" using that seen_rows(1) by (fastforce simp: board_column_ids_def)
    then show ?thesis by (auto simp: view_def split: if_splits)
  qed
  then show "tables_spared h t (snd (pg_DeleteColumn h t sc k))"
    by (auto simp: pg_DeleteColumn_def Let_def intro!: columns_spared spared_put
      split: option.split)
  show "tables_spared h t (snd (pg_ReorderColumns h t sc b cs))"
    using seen_rows(1) [OF assms]
    by (auto simp: pg_ReorderColumns_def Let_def tick_off_Some intro!: confined_guard columns_spared split: option.split)
qed

lemma applyPositions_keeps:
  "applyPositions ids K j = Some c \<Longrightarrow> \<exists>c0. K j = Some c0 \<and> ca_BoardID c0 = ca_BoardID c \<and> ca_ID c0 = ca_ID c"
proof -
  have "fold_index card_to i ids K j = Some c \<Longrightarrow> \<exists>c0. K j = Some c0 \<and> ca_BoardID c0 = ca_BoardID c \<and> ca_ID c0 = ca_ID c" for i
  proof (induction ids arbitrary: K i)
    case (Cons k ids)
    then obtain c1 where "card_to i k K j = Some c1" "ca_BoardID c1 = ca_BoardID c" "ca_ID c1 = ca_ID c" by auto
    then show ?case by (auto simp: card_to_def update_row_def split: option.splits if_splits)
  qed simp
  then show "applyPositions ids K j = Some c \<Longrightarrow> \<exists>c0. K j = Some c0 \<and> ca_BoardID c0 = ca_BoardID c \<and> ca_ID c0 = ca_ID c"
    by (simp add: applyPositions_def)
qed

lemma applyPositions_spared:
  "spared seen m m' \<Longrightarrow> \<forall>k \<in> set ks. seen k \<noteq> None \<Longrightarrow> spared seen m (applyPositions ks m')"
  unfolding applyPositions_def card_to_def [abs_def] by (rule spared_fold_index)

lemma columnCardIDs_seen: "keyed t \<Longrightarrow> j \<in> set (columnCardIDs h t sc k) \<Longrightarrow> t_cards (view h t) j \<noteq> None"
  using seen_rows(2) by (fastforce simp: columnCardIDs_def)

lemma confined_MoveCard [confined]:
  assumes keys: "keyed t"
  shows "tables_spared h t (snd (pg_MoveCard h t sc k target position v now))"
proof -
  let ?seen = "t_cards (view h t)"
  have t1: "tables_spared h t (t1\<lparr>t_cards := update_row k f (applyPositions (take i ids @ [k] @ drop i ids) (t_cards t1))\<rparr>)"
    if "?seen k \<noteq> None" "t1 = reindexWithout h t sc c k" "ids = columnCardIDs h t1 sc target" for t1 ids c f i
  proof -
    let ?K = "applyPositions (filter (\<lambda>j. j \<noteq> k) (columnCardIDs h t sc c)) (t_cards t)"
    have t1: "t1 = t\<lparr>t_cards := ?K\<rparr>" using that(2) by (simp add: reindexWithout_def)
    have K: "spared ?seen (t_cards t) ?K" by (rule applyPositions_spared) (use columnCardIDs_seen [OF keys] in auto)
    have "\<forall>j c. ?K j = Some c \<longrightarrow> ca_ID c = j" using applyPositions_keeps keyedD(2) [OF keys] by metis
    then have "keyed t1" using keys by (simp add: t1 keyed_def)
    moreover have "?seen j \<noteq> None" if "t_cards (view h t1) j \<noteq> None" for j
      using that unfolding t1 by (auto simp: view_def dest!: applyPositions_keeps)
    ultimately have "\<forall>j \<in> set (take i ids @ [k] @ drop i ids). ?seen j \<noteq> None"
      using that(1,3) columnCardIDs_seen by (auto dest!: in_set_takeD in_set_dropD)
    then have "spared ?seen (t_cards t) (update_row k f (applyPositions (take i ids @ [k] @ drop i ids) ?K))"
      by (intro spared_update applyPositions_spared K) (use that(1) in auto)
    then show ?thesis by (simp add: t1)
  qed
  show ?thesis
  proof (cases "\<exists>c col. ?seen k = Some c \<and> ca_Version c = v \<and> t_columns (view h t) target = Some col \<and> co_BoardID col = ca_BoardID c")
    case True
    then obtain c col where c: "?seen k = Some c" "ca_Version c = v" and col: "t_columns (view h t) target = Some col" "co_BoardID col = ca_BoardID c"
      by blast
    have "co_ID col = target" using keyedD(1) [OF keys] col(1) by (simp add: view_def)
    then show ?thesis using t1 [OF _ refl refl] c(1) by (simp add: pg_MoveCard_eq [OF c col(1) _ col(2)] Let_def)
  next
    case False
    then show ?thesis by (auto simp: pg_MoveCard_def Let_def split: option.split)
  qed
qed

lemma tree_rows_seen:
  "tree_rows fuel ks P front = Some ids \<Longrightarrow> \<forall>i \<in> set front. P i \<noteq> None \<Longrightarrow> \<forall>k p. P k = Some p \<longrightarrow> pg_ID p = k \<Longrightarrow>
   \<forall>i \<in> set ids. P i \<noteq> None"
proof (induction fuel arbitrary: front ids)
  case (Suc fuel)
  let ?next = "concat (map (\<lambda>parentID. map pg_ID (select_rows ks P (\<lambda>p. pg_ParentID p = parentID))) front)"
  have "\<forall>i \<in> set ?next. P i \<noteq> None" using Suc.prems(3) by (fastforce dest!: in_select_rows)
  then have rest: "\<forall>i \<in> set js. P i \<noteq> None" if "tree_rows fuel ks P ?next = Some js" for js
    using Suc.IH [OF that] Suc.prems(3) by blast
  show ?case using Suc.prems(1,2) rest by (auto split: if_splits)
qed (auto split: if_splits)

lemma page_seen: "t_pages (view h t) k = Some p \<longleftrightarrow> t_pages t k = Some p \<and> app_workspace_tenant_matches h t (pg_WorkspaceID p)"
  by (simp add: view_def)

lemma confined_archive:
  assumes "keyed t"
  shows "tables_spared h t (snd (pg_set_archived h t sc k at))"
proof -
  have "\<forall>i \<in> set ids. t_pages (view h t) i \<noteq> None"
    if "tree_rows fuel ks (t_pages (view h t)) (case t_pages (view h t) k of None \<Rightarrow> [] | Some p \<Rightarrow> [pg_ID p]) = Some ids" for fuel ks ids
  proof (rule tree_rows_seen [OF that])
    show "\<forall>i \<in> set (case t_pages (view h t) k of None \<Rightarrow> [] | Some p \<Rightarrow> [pg_ID p]). t_pages (view h t) i \<noteq> None"
    proof (cases "t_pages (view h t) k")
      case (Some p)
      then have "pg_ID p = k" using keyedD(3) [OF assms] by (simp add: page_seen)
      then show ?thesis using Some by simp
    qed simp
    show "\<forall>k p. t_pages (view h t) k = Some p \<longrightarrow> pg_ID p = k" using keyedD(3) [OF assms] by (simp add: page_seen)
  qed
  then show ?thesis
    unfolding pg_set_archived_def Let_def
    by (auto intro!: spared_fold [where g = "\<lambda>x. x" and f = "\<lambda>_ p. p\<lparr>pg_ArchivedAt := at\<rparr>"] simp del: tree_rows.simps split: option.splits)
qed

lemma page_below: "t_pages (view h t) k = Some p \<Longrightarrow> below_page h t k"
  by (auto simp: page_seen below_page_def split: option.split)

lemma confined_versions:
  assumes "keyed t" and "t_pages (view h t) k \<noteq> None"
  shows "tables_spared h t (snd (pg_insert_version h t k n title body st sub now))"
proof -
  have "below_page h t k" using assms(2) page_below by blast
  then have "t_versions (view h t) (k, j) = t_versions t (k, j)" for j
    using keyedD(6) [OF assms(1)] by (cases "t_versions t (k, j)") (auto simp: view_def keep_def)
  then show ?thesis
    by (auto simp: pg_insert_version_def Let_def insert_row_def spared_def split: if_splits)
qed

lemma confined_pages [confined]:
  assumes "keyed t"
  shows "tables_spared h t (snd (pg_CreatePage h t sc nid cid w par title body st now))"
    and "tables_spared h t (snd (pg_UpdatePage h t k title' body' st' par' v now))"
    and "tables_spared h t (snd (pg_ArchivePage h t sc k now))" and "tables_spared h t (snd (pg_UnarchivePage h t sc k))"
    and "tables_spared h t (snd (pg_AppendPageVersionIfChanged h t sc k title body st sub now))"
proof -
  show "tables_spared h t (snd (pg_CreatePage h t sc nid cid w par title body st now))"
    by (auto simp: pg_CreatePage_def Let_def intro!: confined_guard intro: spared_insert split: sum.split)
  show "tables_spared h t (snd (pg_UpdatePage h t k title' body' st' par' v now))"
    by (auto simp: pg_UpdatePage_def Let_def intro!: confined_guard spared_update split: option.splits)
  show "tables_spared h t (snd (pg_ArchivePage h t sc k now))" "tables_spared h t (snd (pg_UnarchivePage h t sc k))"
    using confined_archive [OF assms] by (simp_all add: pg_ArchivePage_def pg_UnarchivePage_def)
  show "tables_spared h t (snd (pg_AppendPageVersionIfChanged h t sc k title body st sub now))"
    by (auto simp: pg_AppendPageVersionIfChanged_def pg_pageExists_def Let_def intro!: confined_guard confined_versions [OF assms] split: if_splits)
qed

lemma confined_documents [confined]:
  assumes "keyed t"
  shows "tables_spared h t (snd (pg_CreateDocument h t sc nid cid w title body now))"
    and "tables_spared h t (snd (pg_UpdateDocumentTitle h t k title now))"
    and "tables_spared h t (snd (pg_TrashDocument h t k now))" and "tables_spared h t (snd (pg_RestoreDocument h t k))"
    and "tables_spared h t (snd (pg_ApplyCollabSnapshot h t sc cid plain editor now))"
proof -
  show "tables_spared h t (snd (pg_CreateDocument h t sc nid cid w title body now))"
    "tables_spared h t (snd (pg_UpdateDocumentTitle h t k title now))"
    "tables_spared h t (snd (pg_TrashDocument h t k now))" "tables_spared h t (snd (pg_RestoreDocument h t k))"
    by (auto simp: pg_CreateDocument_def pg_UpdateDocumentTitle_def pg_TrashDocument_def pg_RestoreDocument_def Let_def
      intro!: confined_guard spared_update spared_put intro: spared_insert split: sum.split option.split)
  have docs: "documents_of_room h (t\<lparr>t_pages := P\<rparr>) sc cid = documents_of_room h t sc cid" for P
    by (simp add: documents_of_room_def view_def)
  show "tables_spared h t (snd (pg_ApplyCollabSnapshot h t sc cid plain editor now))"
  proof -
    have "\<forall>p \<in> set (pages_of_room h t sc cid). t_pages (view h t) (pg_ID p) \<noteq> None"
      "\<forall>d \<in> set (documents_of_room h t sc cid). t_documents (view h t) (doc_ID d) \<noteq> None"
      using seen_rows(3,4) [OF assms] by (fastforce simp: pages_of_room_def documents_of_room_def)+
    then have "spared (t_pages (view h t)) (t_pages t) (fold (\<lambda>p. update_row (pg_ID p) f) (pages_of_room h t sc cid) (t_pages t))"
      "spared (t_documents (view h t)) (t_documents t) (fold (\<lambda>d. update_row (doc_ID d) g) (documents_of_room h t sc cid) (t_documents t))" for f g
      by (simp_all add: spared_fold [where f = "\<lambda>_. f" for f])
    then show ?thesis by (simp add: pg_ApplyCollabSnapshot_def Let_def docs)
  qed
qed

lemma channel_below: "t_channels (view h t) c = Some ch \<Longrightarrow> below_channel h t c"
  by (auto simp: view_def below_channel_def split: option.split)

lemma confined_chat [confined]:
  assumes "keyed t"
  shows "tables_spared h t (snd (pg_CreateChannel h t nid w name now))"
    and "tables_spared h t (snd (pg_AppendMessage h t sc nid c sub body ms att now))"
    and "tables_spared h t (snd (pg_UpsertChannelRead h t c sub n now))"
    and "tables_spared h t (snd (pg_CreateTicket h t nid sub c ro now))"
    and "tables_spared h t (snd (pg_CreateChatTicket h t nid sub c ro now))"
    and "tables_spared h t (snd (pg_SaveFile h t f))" and "tables_spared h t (snd (pg_AttachPageFile h t p k))"
proof -
  show "tables_spared h t (snd (pg_CreateChannel h t nid w name now))" unfolding pg_CreateChannel_def Let_def
    by (rule confined_guard) (force intro: spared_insert split: sum.split)
  show "tables_spared h t (snd (pg_AppendMessage h t sc nid c sub body ms att now))" unfolding pg_AppendMessage_def Let_def
    by (rule confined_guard) (force intro: spared_insert split: sum.split)
  show "tables_spared h t (snd (pg_CreateTicket h t nid sub c ro now))"
    "tables_spared h t (snd (pg_CreateChatTicket h t nid sub c ro now))"
    by (simp_all add: pg_CreateTicket_def pg_CreateChatTicket_def Let_def split: sum.split)
  show "tables_spared h t (snd (pg_SaveFile h t f))" unfolding pg_SaveFile_def
    by (rule confined_guard) (force intro: spared_insert split: sum.split)
  show "tables_spared h t (snd (pg_AttachPageFile h t p k))" unfolding pg_AttachPageFile_def
    by (intro confined_guard) (force intro: spared_insert split: sum.split sql_error.split)
  have "t_reads (view h t) (c, sub) = t_reads t (c, sub)" if "t_channels (view h t) c \<noteq> None"
  proof -
    have "below_channel h t c" using that channel_below by blast
    then show ?thesis using keyedD(5) [OF assms] by (cases "t_reads t (c, sub)") (auto simp: view_def keep_def)
  qed
  then show "tables_spared h t (snd (pg_UpsertChannelRead h t c sub n now))"
    by (auto simp: pg_UpsertChannelRead_def pg_channelExists_def Let_def intro!: confined_guard spared_put split: if_splits)
qed

lemma confined_run:
  assumes "keyed t"
  shows "tables_spared h t (snd (pg_run h sc op t))"
proof (cases op)
  case (O_M m)
  then show ?thesis by (cases m) (simp_all add: confined confined_answers)
next
  case (O_B m)
  then show ?thesis using assms by (cases m) (simp_all add: confined confined_answers)
next
  case (O_P m)
  then show ?thesis using assms by (cases m) (simp_all add: confined confined_answers)
next
  case (O_D m)
  then show ?thesis using assms by (cases m) (simp_all add: confined confined_answers case_prod_beta)
next
  case (O_C m)
  then show ?thesis using assms by (cases m) (simp_all add: confined confined_answers case_prod_beta)
next
  case (O_F m)
  then show ?thesis using assms by (cases m) (simp_all add: confined confined_answers)
next
  case (O_S m)
  then show ?thesis using assms by (cases m) (simp_all add: confined confined_answers)
next
  case (O_V m)
  then show ?thesis using assms by (cases m) (simp_all add: confined confined_answers)
qed

section \<open>Rows under their keys\<close>

definition rows_ok :: "('k \<Rightarrow> 'v \<Rightarrow> bool) \<Rightarrow> ('k \<rightharpoonup> 'v) \<Rightarrow> bool" where
  "rows_ok R m \<longleftrightarrow> (\<forall>k v. m k = Some v \<longrightarrow> R k v)"

lemma rows_okD: "rows_ok R m \<Longrightarrow> m k = Some v \<Longrightarrow> R k v"
  by (simp add: rows_ok_def)

lemma rows_ok_put [intro!]: "rows_ok R m \<Longrightarrow> R k v \<Longrightarrow> rows_ok R (m(k \<mapsto> v))"
  by (simp add: rows_ok_def)

lemma rows_ok_delete [intro!]: "rows_ok R m \<Longrightarrow> rows_ok R (m(k := None))"
  by (simp add: rows_ok_def)

lemma rows_ok_update [intro!]: "rows_ok R m \<Longrightarrow> (\<And>v. R k v \<Longrightarrow> R k (f v)) \<Longrightarrow> rows_ok R (update_row k f m)"
  by (auto simp: rows_ok_def update_row_def split: option.splits)

lemma insert_row_Inr [simp]: "insert_row b k v m = Inr m' \<longleftrightarrow> b \<and> m k = None \<and> m' = m(k \<mapsto> v)"
  by (auto simp: insert_row_def)

lemma rows_ok_fold [intro!]:
  "rows_ok R m \<Longrightarrow> (\<And>x k v. R k v \<Longrightarrow> R k (f x v)) \<Longrightarrow> rows_ok R (fold (\<lambda>x. update_row (g x) (f x)) xs m)"
  by (induction xs arbitrary: m) (simp_all add: rows_ok_update)

lemma rows_ok_columns [intro!]: "rows_ok (\<lambda>k c. co_ID c = k) m \<Longrightarrow> rows_ok (\<lambda>k c. co_ID c = k) (fold_index column_to j ks m)"
  by (induction ks arbitrary: m j) (simp_all add: column_to_def rows_ok_update)

lemma rows_ok_cards [intro!]: "rows_ok (\<lambda>k c. ca_ID c = k) m \<Longrightarrow> rows_ok (\<lambda>k c. ca_ID c = k) (applyPositions ks m)"
  using applyPositions_keeps unfolding rows_ok_def by metis

lemma rows_ok_insert_columns [intro]:
  "insert_columns b cs m = Inr m' \<Longrightarrow> rows_ok (\<lambda>k c. co_ID c = k) m \<Longrightarrow> rows_ok (\<lambda>k c. co_ID c = k) m'"
  by (induction cs arbitrary: m) (auto split: sum.splits)

definition columns_keyed :: "Tables \<Rightarrow> bool" where "columns_keyed t = rows_ok (\<lambda>k c. co_ID c = k) (t_columns t)"
definition cards_keyed :: "Tables \<Rightarrow> bool" where "cards_keyed t = rows_ok (\<lambda>k c. ca_ID c = k) (t_cards t)"
definition pages_keyed :: "Tables \<Rightarrow> bool" where "pages_keyed t = rows_ok (\<lambda>k p. pg_ID p = k) (t_pages t)"
definition documents_keyed :: "Tables \<Rightarrow> bool" where "documents_keyed t = rows_ok (\<lambda>k d. doc_ID d = k) (t_documents t)"
definition reads_keyed :: "Tables \<Rightarrow> bool" where "reads_keyed t = rows_ok (\<lambda>k r. rd_ChannelID r = fst k) (t_reads t)"
definition members_keyed :: "Tables \<Rightarrow> bool" where "members_keyed t = rows_ok (\<lambda>k m. mb_WorkspaceID m = fst k) (t_members t)"
definition attachments_keyed :: "Tables \<Rightarrow> bool" where "attachments_keyed t = rows_ok (\<lambda>k row. row = k) (t_pageFiles t)"
definition versions_keyed :: "Tables \<Rightarrow> bool" where "versions_keyed t = rows_ok (\<lambda>k v. pv_PageID v = fst k) (t_versions t)"

lemmas keyed_part_defs = columns_keyed_def cards_keyed_def pages_keyed_def documents_keyed_def reads_keyed_def versions_keyed_def
  members_keyed_def attachments_keyed_def

lemma keyed_parts:
  "keyed t \<longleftrightarrow> columns_keyed t \<and> cards_keyed t \<and> pages_keyed t \<and> documents_keyed t \<and> reads_keyed t \<and> versions_keyed t \<and>
     members_keyed t \<and> attachments_keyed t"
  by (simp add: keyed_def keyed_part_defs rows_ok_def)

lemma keyed_updates [simp]:
  "keyed (t\<lparr>t_workspaces := a\<rparr>) = keyed t" "keyed (t\<lparr>t_invitations := c\<rparr>) = keyed t"
  "keyed (t\<lparr>t_audits := d\<rparr>) = keyed t" "keyed (t\<lparr>t_boards := e\<rparr>) = keyed t" "keyed (t\<lparr>t_sprints := f\<rparr>) = keyed t"
  "keyed (t\<lparr>t_channels := g\<rparr>) = keyed t" "keyed (t\<lparr>t_messages := i\<rparr>) = keyed t" "keyed (t\<lparr>t_files := j\<rparr>) = keyed t"
  "keyed (t\<lparr>t_collabTickets := l\<rparr>) = keyed t"
  "keyed (t\<lparr>t_chatTickets := m\<rparr>) = keyed t"
  by (simp_all add: keyed_def)

lemma keyed_put:
  assumes "keyed t"
  shows "rows_ok (\<lambda>k c. co_ID c = k) C \<Longrightarrow> keyed (t\<lparr>t_columns := C\<rparr>)"
    and "rows_ok (\<lambda>k c. ca_ID c = k) K \<Longrightarrow> keyed (t\<lparr>t_cards := K\<rparr>)"
    and "rows_ok (\<lambda>k p. pg_ID p = k) P \<Longrightarrow> keyed (t\<lparr>t_pages := P\<rparr>)"
    and "rows_ok (\<lambda>k d. doc_ID d = k) D \<Longrightarrow> keyed (t\<lparr>t_documents := D\<rparr>)"
    and "rows_ok (\<lambda>k r. rd_ChannelID r = fst k) R \<Longrightarrow> keyed (t\<lparr>t_reads := R\<rparr>)"
    and "rows_ok (\<lambda>k v. pv_PageID v = fst k) V \<Longrightarrow> keyed (t\<lparr>t_versions := V\<rparr>)"
    and "rows_ok (\<lambda>k m. mb_WorkspaceID m = fst k) M \<Longrightarrow> keyed (t\<lparr>t_members := M\<rparr>)"
    and "rows_ok (\<lambda>k row. row = k) F \<Longrightarrow> keyed (t\<lparr>t_pageFiles := F\<rparr>)"
  using assms by (simp_all add: keyed_parts keyed_part_defs)

lemma keyedR:
  assumes "keyed t"
  shows "rows_ok (\<lambda>k c. co_ID c = k) (t_columns t)" "rows_ok (\<lambda>k c. ca_ID c = k) (t_cards t)"
    "rows_ok (\<lambda>k p. pg_ID p = k) (t_pages t)" "rows_ok (\<lambda>k d. doc_ID d = k) (t_documents t)"
    "rows_ok (\<lambda>k r. rd_ChannelID r = fst k) (t_reads t)" "rows_ok (\<lambda>k v. pv_PageID v = fst k) (t_versions t)"
    "rows_ok (\<lambda>k m. mb_WorkspaceID m = fst k) (t_members t)" "rows_ok (\<lambda>k row. row = k) (t_pageFiles t)"
  using assms by (simp_all add: keyed_parts keyed_part_defs)

lemma keyed_answers:
  "keyed (snd p) \<Longrightarrow> keyed (snd (answer_write f p))" "keyed (snd q) \<Longrightarrow> keyed (snd (answer_locked g f' q))"
  "keyed t \<Longrightarrow> keyed (snd (answer_read f r t))"
  by (simp_all add: answer_defs)

lemma keyed_guard:
  "keyed t \<Longrightarrow> (\<And>x. r = Inr x \<Longrightarrow> keyed (snd (f x))) \<Longrightarrow> keyed (snd (guard_ok r t f))"
  "keyed t \<Longrightarrow> (\<And>x. r = Inr x \<Longrightarrow> keyed (snd (f' x))) \<Longrightarrow> keyed (snd (guard_zero z r t f'))"
  by (cases r; simp)+

section \<open>Operations\<close>

named_theorems keeps_keys

lemma keys_members [keeps_keys]:
  assumes "keyed t"
  shows "keyed (snd (pg_CreateWorkspace h t nid name owner org now))" "keyed (snd (pg_AddMember h t w u role now))"
    "keyed (snd (pg_UpdateMemberDisplayName h t w u name))" "keyed (snd (pg_UpdateMemberRole h t w u role))"
    "keyed (snd (pg_RemoveMember h t w u))" "keyed (snd (pg_CreateInvitation h t sc nid w hash role email uses expires who now))"
    "keyed (snd (pg_UpdateInvitationPolicy h t w k role email uses expires))" "keyed (snd (pg_RevokeInvitation h t w k now))"
    "keyed (snd (pg_AcceptInvitation h t k u now))" "keyed (snd (pg_AddAuditEvent h t e))"
  using keyedR(7) [OF assms]
  by (auto simp: assms pg_CreateWorkspace_def pg_AddMember_def pg_UpdateMemberDisplayName_def pg_UpdateMemberRole_def
      pg_RemoveMember_def pg_CreateInvitation_def pg_UpdateInvitationPolicy_def pg_RevokeInvitation_def
      pg_AcceptInvitation_def pg_AddAuditEvent_def workspace_invitation_def Let_def intro!: keyed_guard keyed_put
      split: sum.split sql_error.split option.splits)

lemma new_column_ID [simp]: "co_ID (new_column b now x) = fst (snd x)"
  by (cases x) (simp add: new_column_def split: prod.split)

lemma keys_boards [keeps_keys]:
  assumes "keyed t"
  shows "keyed (snd (pg_CreateBoard h t bid cids w name now))" "keyed (snd (pg_ArchiveBoard h t b now))"
    "keyed (snd (pg_UnarchiveBoard h t b))" "keyed (snd (pg_CreateColumn h t sc nid b name now))"
    "keyed (snd (pg_RenameColumn h t k name))" "keyed (snd (pg_DeleteColumn h t sc k))"
    "keyed (snd (pg_ReorderColumns h t sc b cs))" "keyed (snd (pg_CreateCard h t sc nid k title d now))"
    "keyed (snd (pg_UpdateCard h t k title d sprint v now))" "keyed (snd (pg_MoveCard h t sc k target pos v now))"
    "keyed (snd (pg_CreateSprint h t nid b name x y now))" "keyed (snd (pg_UpdateSprint h t k name x' y' now))"
  using keyedR [OF assms]
  by (auto simp: assms pg_CreateBoard_def pg_ArchiveBoard_def pg_UnarchiveBoard_def pg_CreateColumn_def pg_RenameColumn_def
      pg_DeleteColumn_def pg_ReorderColumns_def pg_CreateCard_def pg_UpdateCard_def pg_MoveCard_def reindexWithout_def
      pg_CreateSprint_def pg_UpdateSprint_def Let_def intro!: keyed_guard keyed_put split: sum.split option.split)

lemma keys_DeleteSprint [keeps_keys]: "keyed t \<Longrightarrow> keyed (snd (pg_DeleteSprint h t k))"
  by (auto simp: pg_DeleteSprint_def keyed_def)

lemma keys_pages [keeps_keys]:
  assumes "keyed t"
  shows "keyed (snd (pg_CreatePage h t sc nid cid w par title body st now))"
    "keyed (snd (pg_ArchivePage h t sc k now))" "keyed (snd (pg_UnarchivePage h t sc k))"
    "keyed (snd (pg_AppendPageVersionIfChanged h t sc k title body st sub now))"
proof -
  note ok = keyedR [OF assms]
  show "keyed (snd (pg_CreatePage h t sc nid cid w par title body st now))" using ok(3)
    by (auto simp: assms pg_CreatePage_def Let_def intro!: keyed_guard keyed_put split: sum.split)
  have set: "keyed (snd (pg_set_archived h t sc k at))" for at using ok(3)
    by (auto simp: assms pg_set_archived_def Let_def simp del: tree_rows.simps intro!: keyed_put split: option.split)
  show "keyed (snd (pg_ArchivePage h t sc k now))" "keyed (snd (pg_UnarchivePage h t sc k))"
    by (simp_all add: pg_ArchivePage_def pg_UnarchivePage_def set)
  have "keyed (snd (pg_insert_version h t k n title body st sub now))" for n
    using rows_okD [OF ok(6)]
    by (auto simp: assms pg_insert_version_def Let_def intro!: keyed_put split: sum.split) (auto simp: rows_ok_def split: if_splits)
  then show "keyed (snd (pg_AppendPageVersionIfChanged h t sc k title body st sub now))"
    by (auto simp: assms pg_AppendPageVersionIfChanged_def Let_def intro!: keyed_guard)
qed

lemma keys_UpdatePage [keeps_keys]:
  assumes "keyed t"
  shows "keyed (snd (pg_UpdatePage h t k title body st par v now))"
proof (cases "t_pages (view h t) k")
  case (Some p)
  then show ?thesis
    by (simp add: pg_UpdatePage_def Let_def assms)
      (intro impI keyed_guard(2) keyed_put(3) rows_ok_update keyedR assms; simp add: keyed_put(3) rows_ok_update keyedR assms)
qed (simp add: pg_UpdatePage_def assms)

lemma keys_documents [keeps_keys]:
  assumes "keyed t"
  shows "keyed (snd (pg_CreateDocument h t sc nid cid w title body now))"
    "keyed (snd (pg_UpdateDocumentTitle h t k title now))" "keyed (snd (pg_TrashDocument h t k now))"
    "keyed (snd (pg_RestoreDocument h t k))" "keyed (snd (pg_CreateTicket h t nid sub c ro now))"
    "keyed (snd (pg_ApplyCollabSnapshot h t sc cid plain editor now))"
  using keyedR [OF assms]
  by (auto simp: assms pg_CreateDocument_def pg_UpdateDocumentTitle_def pg_TrashDocument_def pg_RestoreDocument_def
      pg_CreateTicket_def pg_ApplyCollabSnapshot_def view_def Let_def dest: keyedD(4) [OF assms]
      intro!: keyed_guard keyed_put split: sum.split option.split)

lemma keys_chat [keeps_keys]:
  assumes "keyed t"
  shows "keyed (snd (pg_CreateChannel h t nid w name now))" "keyed (snd (pg_AppendMessage h t sc nid c sub body ms att now))"
    "keyed (snd (pg_UpsertChannelRead h t c sub n now))" "keyed (snd (pg_CreateChatTicket h t nid sub c ro now))"
    "keyed (snd (pg_SaveFile h t f))" "keyed (snd (pg_AttachPageFile h t p k))"
  using keyedR(5,8) [OF assms] keyedD(5) [OF assms, of "(c, sub)"]
  by (auto simp: assms pg_CreateChannel_def pg_AppendMessage_def pg_UpsertChannelRead_def pg_CreateChatTicket_def pg_SaveFile_def
      pg_AttachPageFile_def Let_def intro!: keyed_guard keyed_put split: sum.split sql_error.split option.split)

lemma keyed_run:
  assumes "keyed t"
  shows "keyed (snd (pg_run h sc op t))"
proof (cases op)
  case (O_M m)
  then show ?thesis using assms by (cases m) (simp_all add: keeps_keys keyed_answers)
next
  case (O_B m)
  then show ?thesis using assms by (cases m) (simp_all add: keeps_keys keyed_answers)
next
  case (O_P m)
  then show ?thesis using assms by (cases m) (simp_all add: keeps_keys keyed_answers)
next
  case (O_D m)
  then show ?thesis using assms by (cases m) (simp_all add: keeps_keys keyed_answers case_prod_beta)
next
  case (O_C m)
  then show ?thesis using assms by (cases m) (simp_all add: keeps_keys keyed_answers case_prod_beta)
next
  case (O_F m)
  then show ?thesis using assms by (cases m) (simp_all add: keeps_keys keyed_answers)
next
  case (O_S m)
  then show ?thesis using assms by (cases m) (simp_all add: keeps_keys keyed_answers)
next
  case (O_V m)
  then show ?thesis using assms by (cases m) (simp_all add: keeps_keys keyed_answers)
qed

section \<open>Rows of other organisations\<close>

definition foreign :: "string \<Rightarrow> Tables \<Rightarrow> id \<Rightarrow> bool" where
  "foreign A t w = (case t_workspaces t w of None \<Rightarrow> False | Some ws \<Rightarrow> ws_OrgID ws \<noteq> A)"

definition foreign_board :: "string \<Rightarrow> Tables \<Rightarrow> id \<Rightarrow> bool" where
  "foreign_board A t b = (case t_boards t b of None \<Rightarrow> False | Some x \<Rightarrow> foreign A t (bd_WorkspaceID x))"

definition foreign_channel :: "string \<Rightarrow> Tables \<Rightarrow> id \<Rightarrow> bool" where
  "foreign_channel A t c = (case t_channels t c of None \<Rightarrow> False | Some x \<Rightarrow> foreign A t (ch_WorkspaceID x))"

definition foreign_page :: "string \<Rightarrow> Tables \<Rightarrow> id \<Rightarrow> bool" where
  "foreign_page A t p = (case t_pages t p of None \<Rightarrow> False | Some x \<Rightarrow> foreign A t (pg_WorkspaceID x))"

definition kept :: "('v \<Rightarrow> bool) \<Rightarrow> ('k \<rightharpoonup> 'v) \<Rightarrow> ('k \<rightharpoonup> 'v) \<Rightarrow> bool" where
  "kept P m m' \<longleftrightarrow> (\<forall>k v. m k = Some v \<longrightarrow> P v \<longrightarrow> m' k = Some v)"

text \<open>Every row that belongs to another organisation than \<open>A\<close> is still there as it was.\<close>

definition others_kept :: "string \<Rightarrow> Tables \<Rightarrow> Tables \<Rightarrow> bool" where
  "others_kept A t t' \<longleftrightarrow>
     kept (\<lambda>w. ws_OrgID w \<noteq> A) (t_workspaces t) (t_workspaces t') \<and>
     kept (\<lambda>m. foreign A t (mb_WorkspaceID m)) (t_members t) (t_members t') \<and>
     kept (\<lambda>iv. foreign A t (inv_WorkspaceID iv)) (t_invitations t) (t_invitations t') \<and>
     kept (\<lambda>e. foreign A t (ae_WorkspaceID e)) (t_audits t) (t_audits t') \<and>
     kept (\<lambda>b. foreign A t (bd_WorkspaceID b)) (t_boards t) (t_boards t') \<and>
     kept (\<lambda>c. foreign_board A t (co_BoardID c)) (t_columns t) (t_columns t') \<and>
     kept (\<lambda>sp. foreign A t (sp_WorkspaceID sp)) (t_sprints t) (t_sprints t') \<and>
     kept (\<lambda>c. foreign_board A t (ca_BoardID c)) (t_cards t) (t_cards t') \<and>
     kept (\<lambda>p. foreign A t (pg_WorkspaceID p)) (t_pages t) (t_pages t') \<and>
     kept (\<lambda>d. foreign A t (doc_WorkspaceID d)) (t_documents t) (t_documents t') \<and>
     kept (\<lambda>c. foreign A t (ch_WorkspaceID c)) (t_channels t) (t_channels t') \<and>
     kept (\<lambda>m. foreign_channel A t (cm_ChannelID m)) (t_messages t) (t_messages t') \<and>
     kept (\<lambda>r. foreign_channel A t (rd_ChannelID r)) (t_reads t) (t_reads t') \<and>
     kept (\<lambda>f. foreign A t (sf_WorkspaceID f)) (t_files t) (t_files t') \<and>
     kept (\<lambda>(p, _). foreign_page A t p) (t_pageFiles t) (t_pageFiles t') \<and>
     kept (\<lambda>v. foreign_page A t (pv_PageID v)) (t_versions t) (t_versions t')"

lemma kept_refl [simp]: "kept P m m"
  by (simp add: kept_def)

lemma kept_trans: "kept P m m1 \<Longrightarrow> kept Q m1 m2 \<Longrightarrow> (\<And>v. P v \<Longrightarrow> Q v) \<Longrightarrow> kept P m m2"
  by (simp add: kept_def)

lemma spared_kept: "spared seen m m' \<Longrightarrow> (\<And>k v. m k = Some v \<Longrightarrow> P v \<Longrightarrow> seen k = None) \<Longrightarrow> kept P m m'"
  by (auto simp: spared_def kept_def)

lemma foreign_hidden:
  assumes h: "row_tenant h = Some A"
  shows "foreign A t w \<Longrightarrow> \<not> app_workspace_tenant_matches h t w" "foreign_board A t b \<Longrightarrow> \<not> below_board h t b"
    "foreign_channel A t c \<Longrightarrow> \<not> below_channel h t c" "foreign_page A t p \<Longrightarrow> \<not> below_page h t p"
  using h by (auto simp: foreign_def foreign_board_def foreign_channel_def foreign_page_def app_workspace_tenant_matches_def
      app_tenant_matches_def below_board_def below_channel_def below_page_def split: option.splits)

lemma tables_sparedD:
  assumes "tables_spared h t t'"
  shows "spared (t_workspaces (view h t)) (t_workspaces t) (t_workspaces t')"
    "spared (t_members (view h t)) (t_members t) (t_members t')"
    "spared (t_invitations (view h t)) (t_invitations t) (t_invitations t')"
    "spared (t_audits (view h t)) (t_audits t) (t_audits t')"
    "spared (t_boards (view h t)) (t_boards t) (t_boards t')"
    "spared (t_columns (view h t)) (t_columns t) (t_columns t')"
    "spared (t_sprints (view h t)) (t_sprints t) (t_sprints t')"
    "spared (t_cards (view h t)) (t_cards t) (t_cards t')"
    "spared (t_pages (view h t)) (t_pages t) (t_pages t')"
    "spared (t_documents (view h t)) (t_documents t) (t_documents t')"
    "spared (t_channels (view h t)) (t_channels t) (t_channels t')"
    "spared (t_messages (view h t)) (t_messages t) (t_messages t')"
    "spared (t_reads (view h t)) (t_reads t) (t_reads t')"
    "spared (t_files (view h t)) (t_files t) (t_files t')"
    "spared (t_pageFiles (view h t)) (t_pageFiles t) (t_pageFiles t')"
    "spared (t_versions (view h t)) (t_versions t) (t_versions t')"
  using assms by (simp_all only: tables_spared_def)

lemma spared_others:
  assumes h: "row_tenant h = Some A" and s: "tables_spared h t t'"
  shows "others_kept A t t'"
  unfolding others_kept_def
  by (intro conjI; rule spared_kept, rule tables_sparedD [OF s])
    (auto simp: view_def keep_None app_tenant_matches_def h foreign_hidden [OF h])

lemma others_keptD:
  assumes "others_kept A t t'"
  shows "kept (\<lambda>w. ws_OrgID w \<noteq> A) (t_workspaces t) (t_workspaces t')"
    "kept (\<lambda>m. foreign A t (mb_WorkspaceID m)) (t_members t) (t_members t')"
    "kept (\<lambda>iv. foreign A t (inv_WorkspaceID iv)) (t_invitations t) (t_invitations t')"
    "kept (\<lambda>e. foreign A t (ae_WorkspaceID e)) (t_audits t) (t_audits t')"
    "kept (\<lambda>b. foreign A t (bd_WorkspaceID b)) (t_boards t) (t_boards t')"
    "kept (\<lambda>c. foreign_board A t (co_BoardID c)) (t_columns t) (t_columns t')"
    "kept (\<lambda>sp. foreign A t (sp_WorkspaceID sp)) (t_sprints t) (t_sprints t')"
    "kept (\<lambda>c. foreign_board A t (ca_BoardID c)) (t_cards t) (t_cards t')"
    "kept (\<lambda>p. foreign A t (pg_WorkspaceID p)) (t_pages t) (t_pages t')"
    "kept (\<lambda>d. foreign A t (doc_WorkspaceID d)) (t_documents t) (t_documents t')"
    "kept (\<lambda>c. foreign A t (ch_WorkspaceID c)) (t_channels t) (t_channels t')"
    "kept (\<lambda>m. foreign_channel A t (cm_ChannelID m)) (t_messages t) (t_messages t')"
    "kept (\<lambda>r. foreign_channel A t (rd_ChannelID r)) (t_reads t) (t_reads t')"
    "kept (\<lambda>f. foreign A t (sf_WorkspaceID f)) (t_files t) (t_files t')"
    "kept (\<lambda>(p, _). foreign_page A t p) (t_pageFiles t) (t_pageFiles t')"
    "kept (\<lambda>v. foreign_page A t (pv_PageID v)) (t_versions t) (t_versions t')"
  using assms by (simp_all only: others_kept_def)

lemma foreign_kept:
  assumes "others_kept A t t'"
  shows "foreign A t w \<Longrightarrow> foreign A t' w" "foreign_board A t b \<Longrightarrow> foreign_board A t' b"
    "foreign_channel A t c \<Longrightarrow> foreign_channel A t' c" "foreign_page A t p \<Longrightarrow> foreign_page A t' p"
  using assms by (auto simp: others_kept_def kept_def foreign_def foreign_board_def foreign_channel_def foreign_page_def
      split: option.splits)

lemma others_refl [simp]: "others_kept A t t"
  by (simp add: others_kept_def)

lemma others_trans:
  assumes a: "others_kept A t t1" and b: "others_kept A t1 t2"
  shows "others_kept A t t2"
  unfolding others_kept_def
  by (intro conjI; rule kept_trans, rule others_keptD [OF a], rule others_keptD [OF b])
    (auto simp: foreign_kept [OF a])

lemma others_sequence:
  "keyed t \<Longrightarrow> \<forall>((h, sc), op) \<in> set xs. row_tenant h = Some A \<Longrightarrow> others_kept A t (snd (trace pg_step xs t))"
proof (induction xs arbitrary: t)
  case (Cons x xs)
  obtain h sc op where x: "x = ((h, sc), op)" by (metis prod.exhaust)
  let ?t1 = "snd (pg_run h sc op t)"
  have "others_kept A t ?t1" using spared_others [OF _ confined_run [OF Cons.prems(1)]] Cons.prems(2) x by simp
  moreover have "others_kept A ?t1 (snd (trace pg_step xs ?t1))"
    using Cons.IH [OF keyed_run [OF Cons.prems(1)]] Cons.prems(2) by simp
  ultimately have "others_kept A t (snd (trace pg_step xs ?t1))" by (rule others_trans)
  moreover have "snd (pg_step (h, sc) op t) = ?t1" by (simp add: pg_step_def)
  ultimately show ?case by (simp add: x del: trace.simps)
qed simp

lemma keyed_sequence: "keyed t \<Longrightarrow> keyed (snd (trace pg_step xs t))"
proof (induction xs arbitrary: t)
  case (Cons x xs)
  have "keyed (snd (pg_step (fst x) (snd x) t))" using keyed_run [OF Cons.prems] by (simp add: pg_step_def)
  then show ?case using Cons.IH by (cases x) (simp del: trace.simps)
qed simp

end
