(* ===== verification/PgSecrecy.thy ===== *)
theory PgSecrecy
  imports PgTenants
begin

text \<open>
  To a tenant the database is one that has only its rows: an operation run on the rows that are seen
  answers the same, and leaves what is seen of the tables that the operation on all rows leaves.
\<close>

section \<open>Seeing twice\<close>

lemma keep_keep [simp]: "keep P (keep Q m) = keep (\<lambda>v. Q v \<and> P v) m"
  by (auto simp: keep_def split: option.split)

lemma policies_view [simp]:
  "app_workspace_tenant_matches h (view h t) w = app_workspace_tenant_matches h t w"
  "below_board h (view h t) b = below_board h t b" "below_channel h (view h t) c = below_channel h t c"
  "below_page h (view h t) p = below_page h t p"
proof -
  show ws: "app_workspace_tenant_matches h (view h t) w = app_workspace_tenant_matches h t w" for w
    by (auto simp: app_workspace_tenant_matches_def view_def keep_def split: option.split)
  have rows: "t_boards (view h t) = keep (\<lambda>b. app_workspace_tenant_matches h t (bd_WorkspaceID b)) (t_boards t)"
    "t_channels (view h t) = keep (\<lambda>c. app_workspace_tenant_matches h t (ch_WorkspaceID c)) (t_channels t)"
    "t_pages (view h t) = keep (\<lambda>p. app_workspace_tenant_matches h t (pg_WorkspaceID p)) (t_pages t)"
    by (simp_all add: view_def)
  show "below_board h (view h t) b = below_board h t b" "below_channel h (view h t) c = below_channel h t c"
    "below_page h (view h t) p = below_page h t p"
    by (auto simp: below_board_def below_channel_def below_page_def ws rows keep_def split: option.splits)
qed

lemma view_view [simp]: "view h (view h t) = view h t"
proof -
  have "view h (view h t) = (view h t)\<lparr>t_workspaces := t_workspaces (view h t), t_members := t_members (view h t)\<rparr>"
    unfolding view_def [of h "view h t"] policies_view by (simp add: view_def)
  then show ?thesis by simp
qed

text \<open>What the policies look at.\<close>

lemma policies_unmoved [simp]:
  "app_workspace_tenant_matches h (t\<lparr>t_members := a\<rparr>) = app_workspace_tenant_matches h t"
  "app_workspace_tenant_matches h (t\<lparr>t_boards := b\<rparr>) = app_workspace_tenant_matches h t"
  "app_workspace_tenant_matches h (t\<lparr>t_sprints := c\<rparr>) = app_workspace_tenant_matches h t"
  "app_workspace_tenant_matches h (t\<lparr>t_columns := d\<rparr>) = app_workspace_tenant_matches h t"
  "app_workspace_tenant_matches h (t\<lparr>t_pages := e\<rparr>) = app_workspace_tenant_matches h t"
  "app_workspace_tenant_matches h (t\<lparr>t_channels := f\<rparr>) = app_workspace_tenant_matches h t"
  "app_workspace_tenant_matches h (t\<lparr>t_cards := g\<rparr>) = app_workspace_tenant_matches h t"
  "below_board h (t\<lparr>t_columns := d\<rparr>) = below_board h t" "below_board h (t\<lparr>t_cards := g\<rparr>) = below_board h t"
  "below_board h (t\<lparr>t_sprints := c\<rparr>) = below_board h t"
  by (simp_all add: fun_eq_iff app_workspace_tenant_matches_def below_board_def cong: option.case_cong)

text \<open>A change of one table, seen.\<close>

lemma view_update [simp]:
  "view h (t\<lparr>t_members := a\<rparr>) = (view h t)\<lparr>t_members := keep (\<lambda>m. app_workspace_tenant_matches h t (mb_WorkspaceID m)) a\<rparr>"
  "view h (t\<lparr>t_invitations := b\<rparr>) = (view h t)\<lparr>t_invitations := keep (\<lambda>iv. app_workspace_tenant_matches h t (inv_WorkspaceID iv)) b\<rparr>"
  "view h (t\<lparr>t_audits := c\<rparr>) = (view h t)\<lparr>t_audits := keep (\<lambda>e. app_workspace_tenant_matches h t (ae_WorkspaceID e)) c\<rparr>"
  "view h (t\<lparr>t_columns := d\<rparr>) = (view h t)\<lparr>t_columns := keep (\<lambda>c. below_board h t (co_BoardID c)) d\<rparr>"
  "view h (t\<lparr>t_sprints := e\<rparr>) = (view h t)\<lparr>t_sprints := keep (\<lambda>sp. app_workspace_tenant_matches h t (sp_WorkspaceID sp)) e\<rparr>"
  "view h (t\<lparr>t_cards := f\<rparr>) = (view h t)\<lparr>t_cards := keep (\<lambda>c. below_board h t (ca_BoardID c)) f\<rparr>"
  "view h (t\<lparr>t_documents := g\<rparr>) = (view h t)\<lparr>t_documents := keep (\<lambda>d. app_workspace_tenant_matches h t (doc_WorkspaceID d)) g\<rparr>"
  "view h (t\<lparr>t_messages := i\<rparr>) = (view h t)\<lparr>t_messages := keep (\<lambda>m. below_channel h t (cm_ChannelID m)) i\<rparr>"
  "view h (t\<lparr>t_reads := j\<rparr>) = (view h t)\<lparr>t_reads := keep (\<lambda>r. below_channel h t (rd_ChannelID r)) j\<rparr>"
  "view h (t\<lparr>t_files := k\<rparr>) = (view h t)\<lparr>t_files := keep (\<lambda>f. app_workspace_tenant_matches h t (sf_WorkspaceID f)) k\<rparr>"
  "view h (t\<lparr>t_pageFiles := l\<rparr>) = (view h t)\<lparr>t_pageFiles := keep (\<lambda>(p, _). below_page h t p) l\<rparr>"
  "view h (t\<lparr>t_versions := m\<rparr>) = (view h t)\<lparr>t_versions := keep (\<lambda>v. below_page h t (pv_PageID v)) m\<rparr>"
  "view h (t\<lparr>t_collabTickets := n\<rparr>) = (view h t)\<lparr>t_collabTickets := n\<rparr>"
  "view h (t\<lparr>t_chatTickets := p\<rparr>) = (view h t)\<lparr>t_chatTickets := p\<rparr>"
  by (simp_all add: view_def app_workspace_tenant_matches_def below_board_def below_channel_def below_page_def cong: option.case_cong)

text \<open>The rows that are seen, under their name.\<close>

lemma view_tables [simp]:
  "keep (\<lambda>m. app_workspace_tenant_matches h t (mb_WorkspaceID m)) (t_members t) = t_members (view h t)"
  "keep (\<lambda>iv. app_workspace_tenant_matches h t (inv_WorkspaceID iv)) (t_invitations t) = t_invitations (view h t)"
  "keep (\<lambda>e. app_workspace_tenant_matches h t (ae_WorkspaceID e)) (t_audits t) = t_audits (view h t)"
  "keep (\<lambda>c. below_board h t (co_BoardID c)) (t_columns t) = t_columns (view h t)"
  "keep (\<lambda>sp. app_workspace_tenant_matches h t (sp_WorkspaceID sp)) (t_sprints t) = t_sprints (view h t)"
  "keep (\<lambda>c. below_board h t (ca_BoardID c)) (t_cards t) = t_cards (view h t)"
  "keep (\<lambda>d. app_workspace_tenant_matches h t (doc_WorkspaceID d)) (t_documents t) = t_documents (view h t)"
  "keep (\<lambda>m. below_channel h t (cm_ChannelID m)) (t_messages t) = t_messages (view h t)"
  "keep (\<lambda>r. below_channel h t (rd_ChannelID r)) (t_reads t) = t_reads (view h t)"
  "keep (\<lambda>f. app_workspace_tenant_matches h t (sf_WorkspaceID f)) (t_files t) = t_files (view h t)"
  "keep (\<lambda>(p, _). below_page h t p) (t_pageFiles t) = t_pageFiles (view h t)"
  "keep (\<lambda>v. below_page h t (pv_PageID v)) (t_versions t) = t_versions (view h t)"
  "keep (\<lambda>b. app_workspace_tenant_matches h t (bd_WorkspaceID b)) (t_boards t) = t_boards (view h t)"
  "keep (\<lambda>p. app_workspace_tenant_matches h t (pg_WorkspaceID p)) (t_pages t) = t_pages (view h t)"
  "keep (\<lambda>c. app_workspace_tenant_matches h t (ch_WorkspaceID c)) (t_channels t) = t_channels (view h t)"
  "keep (\<lambda>w. app_tenant_matches h (ws_OrgID w)) (t_workspaces t) = t_workspaces (view h t)"
  "t_collabTickets (view h t) = t_collabTickets t" "t_chatTickets (view h t) = t_chatTickets t"
  by (simp_all add: view_def)

section \<open>Statements on the rows that are seen\<close>

lemma keep_update [simp]: "(\<And>v. P (f v) = P v) \<Longrightarrow> keep P (update_row k f m) = update_row k f (keep P m)"
  by (auto simp: keep_def update_row_def fun_eq_iff split: option.split)

lemma keep_delete [simp]: "keep P (m(k := None)) = (keep P m)(k := None)"
  by (auto simp: keep_def fun_eq_iff)

lemma keep_put: "keep P (m(k \<mapsto> v)) = (if P v then (keep P m)(k \<mapsto> v) else (keep P m)(k := None))"
  by (auto simp: keep_def fun_eq_iff)

lemma keep_fold [simp]: "(\<And>x v. P (f x v) = P v) \<Longrightarrow> keep P (fold (\<lambda>x. update_row (g x) (f x)) xs m) = fold (\<lambda>x. update_row (g x) (f x)) xs (keep P m)"
  by (induction xs arbitrary: m) simp_all

lemma keep_columns [simp]:
  "keep (\<lambda>c. Q (co_BoardID c)) (fold_index column_to j ks m) = fold_index column_to j ks (keep (\<lambda>c. Q (co_BoardID c)) m)"
  by (induction ks arbitrary: m j) (simp_all add: column_to_def)

lemma keep_cards [simp]:
  "keep (\<lambda>c. Q (ca_BoardID c)) (applyPositions ks m) = applyPositions ks (keep (\<lambda>c. Q (ca_BoardID c)) m)"
proof -
  have "keep (\<lambda>c. Q (ca_BoardID c)) (fold_index card_to j ks m) = fold_index card_to j ks (keep (\<lambda>c. Q (ca_BoardID c)) m)" for j
    by (induction ks arbitrary: m j) (simp_all add: card_to_def)
  then show ?thesis by (simp add: applyPositions_def)
qed

lemma free_seen:
  "t_workspaces t k = None \<Longrightarrow> t_workspaces (view h t) k = None" "t_invitations t k = None \<Longrightarrow> t_invitations (view h t) k = None"
  "t_audits t k = None \<Longrightarrow> t_audits (view h t) k = None" "t_boards t k = None \<Longrightarrow> t_boards (view h t) k = None"
  "t_columns t k = None \<Longrightarrow> t_columns (view h t) k = None" "t_sprints t k = None \<Longrightarrow> t_sprints (view h t) k = None"
  "t_cards t k = None \<Longrightarrow> t_cards (view h t) k = None" "t_pages t k = None \<Longrightarrow> t_pages (view h t) k = None"
  "t_documents t k = None \<Longrightarrow> t_documents (view h t) k = None" "t_channels t k = None \<Longrightarrow> t_channels (view h t) k = None"
  "t_messages t k = None \<Longrightarrow> t_messages (view h t) k = None" "t_files t k = None \<Longrightarrow> t_files (view h t) k = None"
  "t_members t x = None \<Longrightarrow> t_members (view h t) x = None"
  by (simp_all add: view_def keep_None del: view_tables)

lemmas view_tables_again [simp] = view_tables [of h "view h t" for h t, unfolded policies_view view_view]

text \<open>A row whose parent is seen is seen.\<close>

lemma workspace_seen: "t_workspaces (view h t) w \<noteq> None \<Longrightarrow> app_workspace_tenant_matches h t w"
  unfolding view_tables(16) [symmetric]
  by (auto simp: app_workspace_tenant_matches_def simp del: view_tables split: option.split)

lemma seen_below:
  assumes "keyed t"
  shows "t_workspaces (view h t) (fst wu) \<noteq> None \<Longrightarrow> t_members (view h t) wu = t_members t wu"
    and "t_channels (view h t) (fst cu) \<noteq> None \<Longrightarrow> t_reads (view h t) cu = t_reads t cu"
    and "t_pages (view h t) (fst pf) \<noteq> None \<Longrightarrow> t_pageFiles (view h t) pf = t_pageFiles t pf"
    and "t_pages (view h t) (fst pn) \<noteq> None \<Longrightarrow> t_versions (view h t) pn = t_versions t pn"
proof -
  have all: "keep P m k = m k" if "\<And>v. m k = Some v \<Longrightarrow> P v" for P and m :: "'k \<rightharpoonup> 'v" and k
    using that by (cases "m k") (simp_all add: keep_def)
  show "t_workspaces (view h t) (fst wu) \<noteq> None \<Longrightarrow> t_members (view h t) wu = t_members t wu"
    unfolding view_tables(1) [symmetric] using workspace_seen keyedD(7) [OF assms] by (intro all) metis
  show "t_channels (view h t) (fst cu) \<noteq> None \<Longrightarrow> t_reads (view h t) cu = t_reads t cu"
    unfolding view_tables(9) [symmetric] using channel_below keyedD(5) [OF assms] by (intro all) (metis not_Some_eq)
  show "t_pages (view h t) (fst pf) \<noteq> None \<Longrightarrow> t_pageFiles (view h t) pf = t_pageFiles t pf"
    unfolding view_tables(11) [symmetric] using page_below keyedD(8) [OF assms] by (intro all) (metis not_Some_eq case_prod_beta)
  show "t_pages (view h t) (fst pn) \<noteq> None \<Longrightarrow> t_versions (view h t) pn = t_versions t pn"
    unfolding view_tables(12) [symmetric] using page_below keyedD(6) [OF assms] by (intro all) (metis not_Some_eq)
qed

section \<open>Operations\<close>

definition as_seen :: "PgStore \<Rightarrow> 'a \<times> Tables \<Rightarrow> 'a \<times> Tables" where
  "as_seen h p = (fst p, view h (snd p))"

lemma as_seen_Pair [simp]: "as_seen h (a, t) = (a, view h t)"
  by (simp add: as_seen_def)

lemma as_seen_cases [simp]:
  "as_seen h (case r of Inl e \<Rightarrow> F e | Inr x \<Rightarrow> G x) = (case r of Inl e \<Rightarrow> as_seen h (F e) | Inr x \<Rightarrow> as_seen h (G x))"
  "as_seen h (case q of None \<Rightarrow> A | Some y \<Rightarrow> B y) = (case q of None \<Rightarrow> as_seen h A | Some y \<Rightarrow> as_seen h (B y))"
  "as_seen h (if c then A else A') = (if c then as_seen h A else as_seen h A')"
  "as_seen h (guard_ok p t f) = guard_ok p (view h t) (\<lambda>x. as_seen h (f x))"
  "as_seen h (guard_zero z p t f') = guard_zero z p (view h t) (\<lambda>x. as_seen h (f' x))"
  by (simp_all add: guard_ok_def guard_zero_def split: sum.split option.split)

lemma exists_seen [simp]:
  "pg_workspaceExists h (view h t) w = pg_workspaceExists h t w" "pg_boardExists h (view h t) b = pg_boardExists h t b"
  "pg_channelExists h (view h t) c = pg_channelExists h t c" "pg_pageExists h (view h t) p = pg_pageExists h t p"
  by (simp_all add: pg_workspaceExists_def pg_boardExists_def pg_channelExists_def pg_pageExists_def)

named_theorems seen

text \<open>Simplification goes into the branches.\<close>

lemmas deep = option.case_cong sum.case_cong if_cong

lemma seen_RenameColumn [seen]: "pg_RenameColumn h (view h t) k name = as_seen h (pg_RenameColumn h t k name)"
  by (simp add: pg_RenameColumn_def Let_def cong: deep)

lemma seen_DeleteColumn [seen]: "pg_DeleteColumn h (view h t) sc k = as_seen h (pg_DeleteColumn h t sc k)"
  by (simp add: pg_DeleteColumn_def board_column_ids_def Let_def cong: deep)

lemma seen_ReorderColumns [seen]: "pg_ReorderColumns h (view h t) sc b cs = as_seen h (pg_ReorderColumns h t sc b cs)"
  by (simp add: pg_ReorderColumns_def Let_def cong: deep)

lemma seen_MoveCard [seen]: "pg_MoveCard h (view h t) sc k target pos v now = as_seen h (pg_MoveCard h t sc k target pos v now)"
  by (simp add: pg_MoveCard_def columnCardIDs_def reindexWithout_def Let_def cong: deep)

lemma seen_UpdateCard [seen]: "pg_UpdateCard h (view h t) k title d sprint v now = as_seen h (pg_UpdateCard h t k title d sprint v now)"
  by (simp add: pg_UpdateCard_def Let_def cong: deep)

lemma seen_DeleteSprint [seen]: "pg_DeleteSprint h (view h t) k = as_seen h (pg_DeleteSprint h t k)"
proof -
  have "keep P (\<lambda>j. map_option f (m j)) = (\<lambda>j. map_option f (keep P m j))" if "\<And>v. P (f v) = P v"
    for P f and m :: "id \<rightharpoonup> Card" using that by (auto simp: keep_def fun_eq_iff split: option.split)
  then show ?thesis by (simp add: pg_DeleteSprint_def)
qed

lemma seen_UpdateSprint [seen]: "pg_UpdateSprint h (view h t) k name x y now = as_seen h (pg_UpdateSprint h t k name x y now)"
  by (simp add: pg_UpdateSprint_def pg_GetSprint_def Let_def cong: deep)

lemma seen_documents [seen]:
  "pg_TrashDocument h (view h t) k now = as_seen h (pg_TrashDocument h t k now)"
  "pg_RestoreDocument h (view h t) k = as_seen h (pg_RestoreDocument h t k)"
  by (simp_all add: pg_TrashDocument_def pg_RestoreDocument_def cong: deep)

lemma seen_UpdateMember [seen]:
  "pg_UpdateMemberDisplayName h (view h t) w u name = as_seen h (pg_UpdateMemberDisplayName h t w u name)"
  "pg_UpdateMemberRole h (view h t) w u role = as_seen h (pg_UpdateMemberRole h t w u role)"
  "pg_RemoveMember h (view h t) w u = as_seen h (pg_RemoveMember h t w u)"
  by (simp_all add: pg_UpdateMemberDisplayName_def pg_UpdateMemberRole_def pg_RemoveMember_def pg_GetMember_def pg_workspaceExists_def Let_def cong: deep)

lemma seen_tickets [seen]:
  "pg_CreateTicket h (view h t) nid sub c ro now = as_seen h (pg_CreateTicket h t nid sub c ro now)"
  "pg_CreateChatTicket h (view h t) nid sub c ro now = as_seen h (pg_CreateChatTicket h t nid sub c ro now)"
  by (simp_all add: pg_CreateTicket_def pg_CreateChatTicket_def insert_row_def Let_def cong: deep)

section \<open>Rows put in place\<close>

lemma found_seen:
  "t_invitations (view h t) k = Some iv \<Longrightarrow> app_workspace_tenant_matches h t (inv_WorkspaceID iv)"
  "t_documents (view h t) d = Some doc \<Longrightarrow> app_workspace_tenant_matches h t (doc_WorkspaceID doc)"
  "t_boards (view h t) b = Some bd \<Longrightarrow> app_workspace_tenant_matches h t (bd_WorkspaceID bd)"
  "t_columns (view h t) c = Some col \<Longrightarrow> below_board h t (co_BoardID col)"
  by (simp_all add: view_def del: view_tables)

lemma exists_matches: "pg_workspaceExists h t w = Inr x \<Longrightarrow> app_workspace_tenant_matches h t w"
  using workspace_seen by (auto simp: pg_workspaceExists_def split: if_splits)

lemma workspace_invitation_seen [simp]: "workspace_invitation h (view h t) w k = workspace_invitation h t w k"
  by (simp add: workspace_invitation_def)

lemma workspace_invitation_Some: "workspace_invitation h t w k = Some iv \<Longrightarrow> t_invitations (view h t) k = Some iv"
  by (auto simp: workspace_invitation_def split: option.splits if_splits)

lemma seen_invitations [seen]:
  "pg_UpdateInvitationPolicy h (view h t) w k role email uses expires =
     as_seen h (pg_UpdateInvitationPolicy h t w k role email uses expires)"
  "pg_RevokeInvitation h (view h t) w k now = as_seen h (pg_RevokeInvitation h t w k now)"
  by (auto simp: pg_UpdateInvitationPolicy_def pg_RevokeInvitation_def keep_put guard_ok_def Let_def
      dest!: workspace_invitation_Some found_seen split: sum.split option.split)

lemma seen_UpdateDocumentTitle [seen]: "pg_UpdateDocumentTitle h (view h t) k title now = as_seen h (pg_UpdateDocumentTitle h t k title now)"
  by (auto simp: pg_UpdateDocumentTitle_def keep_put Let_def dest!: found_seen split: option.split)

lemma channel_exists: "pg_channelExists h t c = Inr x \<Longrightarrow> t_channels (view h t) c \<noteq> None"
  by (auto simp: pg_channelExists_def split: if_splits)

lemma page_exists: "pg_pageExists h t p = Inr x \<Longrightarrow> t_pages (view h t) p \<noteq> None"
  by (auto simp: pg_pageExists_def split: if_splits)

lemma seen_UpsertChannelRead [seen]:
  assumes "keyed t"
  shows "pg_UpsertChannelRead h (view h t) c sub n now = as_seen h (pg_UpsertChannelRead h t c sub n now)"
proof (cases "pg_channelExists h t c")
  case (Inr x)
  then have c: "t_channels (view h t) c \<noteq> None" by (rule channel_exists)
  then have below: "below_channel h t c" using channel_below by blast
  have "t_reads (view h t) (c, sub) = t_reads t (c, sub)" using seen_below(2) [OF assms, of h "(c, sub)"] c by simp
  moreover have "rd_ChannelID r = c" if "t_reads t (c, sub) = Some r" for r using keyedD(5) [OF assms that] by simp
  ultimately show ?thesis using Inr below
    by (simp add: pg_UpsertChannelRead_def keep_put Let_def split: option.split)
qed (simp add: pg_UpsertChannelRead_def)

section \<open>Rows inserted\<close>

lemma seen_AddMember [seen]:
  assumes "keyed t"
  shows "pg_AddMember h (view h t) w u role now = as_seen h (pg_AddMember h t w u role now)"
proof (cases "pg_workspaceExists h t w")
  case (Inr x)
  then have "t_workspaces (view h t) w \<noteq> None" by (simp add: pg_workspaceExists_def split: if_splits)
  then have "t_members (view h t) (w, u) = t_members t (w, u)" using seen_below(1) [OF assms, of h "(w, u)"] by simp
  then show ?thesis using exists_matches [OF Inr]
    by (simp add: pg_AddMember_def Inr insert_row_def keep_put Let_def cong: deep)
qed (simp add: pg_AddMember_def)

lemma has_workspace_seen:
  "(app_workspace_tenant_matches h t w \<and> has_workspace (view h t) w) = (app_workspace_tenant_matches h t w \<and> has_workspace t w)"
  unfolding has_workspace_def view_tables(16) [symmetric]
  by (auto simp: app_workspace_tenant_matches_def app_tenant_matches_def keep_def simp del: view_tables split: option.splits)

lemma seen_AddAuditEvent [seen]:
  assumes "t_audits t (ae_ID e) = None"
  shows "pg_AddAuditEvent h (view h t) e = as_seen h (pg_AddAuditEvent h t e)"
  using assms by (simp add: pg_AddAuditEvent_def has_workspace_seen insert_row_def keep_put free_seen cong: deep)

lemma seen_AcceptInvitation [seen]:
  assumes "keyed t"
  shows "pg_AcceptInvitation h (view h t) k u now = as_seen h (pg_AcceptInvitation h t k u now)"
proof (cases "t_invitations (view h t) k")
  case (Some iv)
  let ?w = "inv_WorkspaceID iv"
  have m: "app_workspace_tenant_matches h t ?w" using found_seen(1) [OF Some] .
  then have "t_members (view h t) (?w, u) = t_members t (?w, u)"
    using keyedD(7) [OF assms] unfolding view_tables(1) [symmetric]
    by (cases "t_members t (?w, u)") (auto simp: keep_def simp del: view_tables)
  then show ?thesis using m
    by (simp add: pg_AcceptInvitation_def Some has_workspace_seen insert_row_def keep_put Let_def cong: deep)
qed (simp add: pg_AcceptInvitation_def)

lemma no_rows: "\<forall>k v. m k = Some v \<longrightarrow> \<not> P v \<Longrightarrow> select_rows ks m P = []"
  by (cases "select_rows ks m P") (use in_select_rows [of _ ks m P] in fastforce)+

lemma seen_CreateInvitation [seen]:
  assumes "t_invitations t nid = None" and "\<forall>k iv. t_invitations t k = Some iv \<longrightarrow> inv_TokenHash iv \<noteq> hash"
  shows "pg_CreateInvitation h (view h t) sc nid w hash role email uses expires who now =
    as_seen h (pg_CreateInvitation h t sc nid w hash role email uses expires who now)"
proof -
  have "\<not> hash_taken sc t hash" "\<not> hash_taken sc (view h t) hash"
    using assms(2) by (auto simp: hash_taken_def view_def simp del: view_tables intro!: no_rows) blast
  then show ?thesis using assms(1) exists_matches
    by (cases "pg_workspaceExists h t w")
      (simp_all add: pg_CreateInvitation_def insert_row_def keep_put free_seen Let_def cong: deep)
qed

lemma board_below: "t_boards (view h t) b = Some bd \<Longrightarrow> below_board h t b"
  unfolding view_tables(13) [symmetric] by (auto simp: below_board_def simp del: view_tables split: option.split)

lemma board_exists: "pg_boardExists h t b = Inr x \<Longrightarrow> below_board h t b"
  using board_below by (auto simp: pg_boardExists_def split: if_splits)

lemma seen_CreateColumn [seen]:
  assumes "t_columns t nid = None"
  shows "pg_CreateColumn h (view h t) sc nid b name now = as_seen h (pg_CreateColumn h t sc nid b name now)"
  using assms board_exists
  by (cases "pg_boardExists h t b") (simp_all add: pg_CreateColumn_def insert_row_def keep_put free_seen Let_def cong: deep)

lemma seen_CreateCard [seen]:
  assumes "t_cards t nid = None"
  shows "pg_CreateCard h (view h t) sc nid k title d now = as_seen h (pg_CreateCard h t sc nid k title d now)"
  using assms found_seen(4)
  by (cases "t_columns (view h t) k") (simp_all add: pg_CreateCard_def insert_row_def keep_put free_seen Let_def cong: deep)

lemma seen_CreateSprint [seen]:
  assumes "t_sprints t nid = None"
  shows "pg_CreateSprint h (view h t) nid b name x y now = as_seen h (pg_CreateSprint h t nid b name x y now)"
  using assms found_seen(3)
  by (cases "t_boards (view h t) b") (simp_all add: pg_CreateSprint_def insert_row_def keep_put free_seen Let_def cong: deep)

lemma seen_CreateDocument [seen]:
  assumes "t_documents t nid = None" and "\<forall>k d. t_documents t k = Some d \<longrightarrow> doc_CollabDocumentID d \<noteq> cid"
  shows "pg_CreateDocument h (view h t) sc nid cid w title body now = as_seen h (pg_CreateDocument h t sc nid cid w title body now)"
proof -
  have "\<not> document_room_taken sc t cid" "\<not> document_room_taken sc (view h t) cid"
    using assms(2) by (auto simp: document_room_taken_def view_def simp del: view_tables intro!: no_rows) blast
  then show ?thesis using assms(1) exists_matches
    by (cases "pg_workspaceExists h t w")
      (simp_all add: pg_CreateDocument_def insert_row_def keep_put free_seen Let_def cong: deep)
qed

lemma seen_AppendMessage [seen]:
  assumes "t_messages t nid = None"
  shows "pg_AppendMessage h (view h t) sc nid c sub body ms att now = as_seen h (pg_AppendMessage h t sc nid c sub body ms att now)"
proof (cases "pg_channelExists h t c")
  case (Inr x)
  then have c: "below_channel h t c" using channel_exists channel_below by blast
  have "select_rows ks (keep (\<lambda>m. below_channel h t (cm_ChannelID m)) m) (\<lambda>m. cm_ChannelID m = c \<and> cm_Seq m = n) =
      select_rows ks m (\<lambda>m. cm_ChannelID m = c \<and> cm_Seq m = n)" for ks n and m :: "id \<rightharpoonup> ChatMessage"
    unfolding select_rows_def by (induction ks) (auto simp: keep_def c split: option.split)
  from this [where m = "t_messages t"] have "seq_taken sc (view h t) c n = seq_taken sc t c n" for n
    by (simp add: seq_taken_def)
  then show ?thesis using assms c
    by (simp add: pg_AppendMessage_def channel_rows_def insert_row_def keep_put free_seen Let_def cong: deep)
qed (simp add: pg_AppendMessage_def)

lemma seen_SaveFile [seen]:
  assumes "t_files t (sf_ID f) = None"
  shows "pg_SaveFile h (view h t) f = as_seen h (pg_SaveFile h t f)"
  using assms exists_matches
  by (cases "pg_workspaceExists h t (sf_WorkspaceID f)")
    (simp_all add: pg_SaveFile_def insert_row_def keep_put free_seen cong: deep)

lemma seen_AttachPageFile [seen]:
  assumes "keyed t"
  shows "pg_AttachPageFile h (view h t) p f = as_seen h (pg_AttachPageFile h t p f)"
proof (cases "pg_pageExists h t p")
  case (Inr x)
  then have "t_pages (view h t) p \<noteq> None" by (rule page_exists)
  then have "below_page h t p" "t_pageFiles (view h t) (p, f) = t_pageFiles t (p, f)"
    using page_below seen_below(3) [OF assms, of h "(p, f)"] by auto
  then show ?thesis
    by (simp add: pg_AttachPageFile_def pg_GetFile_def insert_row_def keep_put cong: deep)
qed (simp add: pg_AttachPageFile_def)

lemma seen_AppendPageVersion [seen]:
  assumes "keyed t"
  shows "pg_AppendPageVersionIfChanged h (view h t) sc k title body st sub now =
    as_seen h (pg_AppendPageVersionIfChanged h t sc k title body st sub now)"
proof (cases "pg_pageExists h t k")
  case (Inr x)
  then have k: "t_pages (view h t) k \<noteq> None" by (rule page_exists)
  then have below: "below_page h t k" using page_below by blast
  have old: "keep P (\<lambda>(q, n). if q = k \<and> n \<le> c then None else if q = k \<and> n = j then Some v else m (q, n)) =
      (\<lambda>(q, n). if q = k \<and> n \<le> c then None else if q = k \<and> n = j then Some v else keep P m (q, n))"
    if "P v" for P c j v and m :: "id \<times> int \<rightharpoonup> PageVersion" using that by (auto simp: keep_def fun_eq_iff)
  have "pg_insert_version h (view h t) k n title body st sub now = as_seen h (pg_insert_version h t k n title body st sub now)" for n
    using below seen_below(4) [OF assms, of h "(k, n)"] k
    by (simp add: pg_insert_version_def insert_row_def keep_put old Let_def cong: deep)
  then show ?thesis by (simp add: pg_AppendPageVersionIfChanged_def version_rows_def Let_def cong: deep)
qed (simp add: pg_AppendPageVersionIfChanged_def)

section \<open>Tables that policies look at\<close>

lemma keep_cong: "(\<And>k v. m k = Some v \<Longrightarrow> P v = Q v) \<Longrightarrow> keep P m = keep Q m"
  by (auto simp: keep_def fun_eq_iff split: option.split)

text \<open>
  A change of boards, pages or channels that leaves every row in its workspace, but for new rows to which no
  other row refers, changes nothing of what is seen below them.
\<close>

lemma below_unmoved:
  "map_option bd_WorkspaceID (B b) = map_option bd_WorkspaceID (t_boards t b) \<Longrightarrow> below_board h (t\<lparr>t_boards := B\<rparr>) b = below_board h t b"
  "map_option pg_WorkspaceID (P b) = map_option pg_WorkspaceID (t_pages t b) \<Longrightarrow> below_page h (t\<lparr>t_pages := P\<rparr>) b = below_page h t b"
  "map_option ch_WorkspaceID (C b) = map_option ch_WorkspaceID (t_channels t b) \<Longrightarrow> below_channel h (t\<lparr>t_channels := C\<rparr>) b = below_channel h t b"
proof -
  show "map_option bd_WorkspaceID (B b) = map_option bd_WorkspaceID (t_boards t b) \<Longrightarrow> below_board h (t\<lparr>t_boards := B\<rparr>) b = below_board h t b"
    by (cases "B b"; cases "t_boards t b") (simp_all add: below_board_def split: option.split)
  show "map_option pg_WorkspaceID (P b) = map_option pg_WorkspaceID (t_pages t b) \<Longrightarrow> below_page h (t\<lparr>t_pages := P\<rparr>) b = below_page h t b"
    by (cases "P b"; cases "t_pages t b") (simp_all add: below_page_def split: option.split)
  show "map_option ch_WorkspaceID (C b) = map_option ch_WorkspaceID (t_channels t b) \<Longrightarrow> below_channel h (t\<lparr>t_channels := C\<rparr>) b = below_channel h t b"
    by (cases "C b"; cases "t_channels t b") (simp_all add: below_channel_def split: option.split)
qed

lemma view_boards:
  assumes "\<And>b. b \<notin> N \<Longrightarrow> map_option bd_WorkspaceID (B b) = map_option bd_WorkspaceID (t_boards t b)"
    and "\<forall>k c. t_columns t k = Some c \<longrightarrow> co_BoardID c \<notin> N" and "\<forall>k c. t_cards t k = Some c \<longrightarrow> ca_BoardID c \<notin> N"
  shows "view h (t\<lparr>t_boards := B\<rparr>) = (view h t)\<lparr>t_boards := keep (\<lambda>b. app_workspace_tenant_matches h t (bd_WorkspaceID b)) B\<rparr>"
proof -
  have "below_board h (t\<lparr>t_boards := B\<rparr>) b = below_board h t b" if "b \<notin> N" for b using below_unmoved(1) assms(1) that by blast
  then have "keep (\<lambda>c. below_board h (t\<lparr>t_boards := B\<rparr>) (co_BoardID c)) (t_columns t) = t_columns (view h t)"
    "keep (\<lambda>c. below_board h (t\<lparr>t_boards := B\<rparr>) (ca_BoardID c)) (t_cards t) = t_cards (view h t)"
    unfolding view_tables [symmetric] using assms(2,3) by (intro keep_cong; metis)+
  then show ?thesis
    by (simp add: view_def [of h "t\<lparr>t_boards := B\<rparr>"]) (simp add: view_def below_channel_def below_page_def del: view_tables cong: option.case_cong)
qed

lemma view_pages:
  assumes "\<And>p. p \<notin> N \<Longrightarrow> map_option pg_WorkspaceID (B p) = map_option pg_WorkspaceID (t_pages t p)"
    and "\<forall>k r. t_pageFiles t k = Some r \<longrightarrow> fst r \<notin> N" and "\<forall>k v. t_versions t k = Some v \<longrightarrow> pv_PageID v \<notin> N"
  shows "view h (t\<lparr>t_pages := B\<rparr>) = (view h t)\<lparr>t_pages := keep (\<lambda>p. app_workspace_tenant_matches h t (pg_WorkspaceID p)) B\<rparr>"
proof -
  have "below_page h (t\<lparr>t_pages := B\<rparr>) p = below_page h t p" if "p \<notin> N" for p using below_unmoved(2) assms(1) that by blast
  then have "keep (\<lambda>(p, _). below_page h (t\<lparr>t_pages := B\<rparr>) p) (t_pageFiles t) = t_pageFiles (view h t)"
    "keep (\<lambda>v. below_page h (t\<lparr>t_pages := B\<rparr>) (pv_PageID v)) (t_versions t) = t_versions (view h t)"
    unfolding view_tables [symmetric] using assms(2,3) by (intro keep_cong; metis case_prod_beta)+
  then show ?thesis
    by (simp add: view_def [of h "t\<lparr>t_pages := B\<rparr>"]) (simp add: view_def below_channel_def below_board_def del: view_tables cong: option.case_cong)
qed

lemma view_channels:
  assumes "\<And>c. c \<notin> N \<Longrightarrow> map_option ch_WorkspaceID (B c) = map_option ch_WorkspaceID (t_channels t c)"
    and "\<forall>k m. t_messages t k = Some m \<longrightarrow> cm_ChannelID m \<notin> N" and "\<forall>k r. t_reads t k = Some r \<longrightarrow> rd_ChannelID r \<notin> N"
  shows "view h (t\<lparr>t_channels := B\<rparr>) = (view h t)\<lparr>t_channels := keep (\<lambda>c. app_workspace_tenant_matches h t (ch_WorkspaceID c)) B\<rparr>"
proof -
  have "below_channel h (t\<lparr>t_channels := B\<rparr>) c = below_channel h t c" if "c \<notin> N" for c using below_unmoved(3) assms(1) that by blast
  then have "keep (\<lambda>m. below_channel h (t\<lparr>t_channels := B\<rparr>) (cm_ChannelID m)) (t_messages t) = t_messages (view h t)"
    "keep (\<lambda>r. below_channel h (t\<lparr>t_channels := B\<rparr>) (rd_ChannelID r)) (t_reads t) = t_reads (view h t)"
    unfolding view_tables [symmetric] using assms(2,3) by (intro keep_cong; metis)+
  then show ?thesis
    by (simp add: view_def [of h "t\<lparr>t_channels := B\<rparr>"]) (simp add: view_def below_page_def below_board_def del: view_tables cong: option.case_cong)
qed

lemma update_workspace:
  "(\<And>v. g (f v) = g v) \<Longrightarrow> map_option g (update_row k f m j) = map_option g (m j)"
  by (simp add: update_row_def option.map_comp o_def split: option.split)

lemma fold_workspace:
  "(\<And>x v. g (f x v) = g v) \<Longrightarrow> map_option g (fold (\<lambda>x. update_row (key x) (f x)) xs m j) = map_option g (m j)"
  by (induction xs arbitrary: m) (simp_all add: update_workspace)

section \<open>Boards, pages and channels\<close>

lemma seen_archive_board [seen]:
  "pg_ArchiveBoard h (view h t) b now = as_seen h (pg_ArchiveBoard h t b now)"
  "pg_UnarchiveBoard h (view h t) b = as_seen h (pg_UnarchiveBoard h t b)"
  by (simp_all add: pg_ArchiveBoard_def pg_UnarchiveBoard_def view_boards [where N = "{}"] update_workspace cong: deep)

lemma insert_columns_seen:
  assumes "\<And>c. c \<in> set cs \<Longrightarrow> Q (co_BoardID c)" and "\<And>c. c \<in> set cs \<Longrightarrow> m (co_ID c) = keep (\<lambda>c. Q (co_BoardID c)) m (co_ID c)"
  shows "insert_columns True cs (keep (\<lambda>c. Q (co_BoardID c)) m) =
    (case insert_columns True cs m of Inl e \<Rightarrow> Inl e | Inr rows \<Rightarrow> Inr (keep (\<lambda>c. Q (co_BoardID c)) rows))"
  using assms
proof (induction cs arbitrary: m)
  case (Cons c cs)
  let ?P = "\<lambda>c. Q (co_BoardID c)" let ?m = "m(co_ID c \<mapsto> c)"
  have k: "keep ?P ?m = (keep ?P m)(co_ID c \<mapsto> c)" using Cons.prems(1) by (simp add: keep_put)
  have "keep ?P m (co_ID c) = None \<longleftrightarrow> m (co_ID c) = None" using Cons.prems(2) [of c] by (metis list.set_intros(1))
  moreover have "insert_columns True cs (keep ?P ?m) = (case insert_columns True cs ?m of Inl e \<Rightarrow> Inl e | Inr rows \<Rightarrow> Inr (keep ?P rows))"
  proof (rule Cons.IH)
    show "?m (co_ID d) = keep ?P ?m (co_ID d)" if "d \<in> set cs" for d using that Cons.prems(2) [of d] unfolding k by simp
  qed (use Cons.prems in simp)
  ultimately show ?case by (simp add: insert_row_def k)
qed simp

lemma seen_CreateBoard [seen]:
  assumes new: "t_boards t bid = None" "\<forall>k c. t_columns t k = Some c \<longrightarrow> co_BoardID c \<noteq> bid"
      "\<forall>k c. t_cards t k = Some c \<longrightarrow> ca_BoardID c \<noteq> bid" and cids: "\<forall>k \<in> set cids. t_columns t k = None"
  shows "pg_CreateBoard h (view h t) bid cids w name now = as_seen h (pg_CreateBoard h t bid cids w name now)"
proof (cases "pg_workspaceExists h t w")
  case (Inr x)
  then have w: "app_workspace_tenant_matches h t w" by (rule exists_matches)
  let ?b = "\<lparr>bd_ID = bid, bd_WorkspaceID = w, bd_Name = name, bd_CreatedAt = now, bd_ArchivedAt = None\<rparr>"
  let ?t1 = "t\<lparr>t_boards := (t_boards t)(bid \<mapsto> ?b)\<rparr>" let ?cols = "map (new_column bid now) (List.enumerate 0 (zip cids defaultNames))"
  have v1: "view h ?t1 = (view h t)\<lparr>t_boards := (t_boards (view h t))(bid \<mapsto> ?b)\<rparr>"
    by (subst view_boards [where N = "{bid}"]) (use new w in \<open>auto simp: keep_put\<close>)
  have below: "below_board h ?t1 bid" using w by (simp add: below_board_def split: option.split)
  have "map (co_ID \<circ> new_column bid now) (List.enumerate n xs) = map fst xs" for n xs by (induction xs arbitrary: n) simp_all
  then have "map co_ID ?cols = map fst (zip cids defaultNames)" by simp
  then have "co_ID c \<in> set (map fst (zip cids defaultNames))" if "c \<in> set ?cols" for c using that by (metis image_eqI set_map)
  then have "co_ID c \<in> set cids" if "c \<in> set ?cols" for c using that by (fastforce dest: set_zip_leftD)
  moreover have "co_BoardID c = bid" if "c \<in> set ?cols" for c using that by (auto simp: new_column_def split: prod.splits)
  ultimately have cids': "co_ID c \<in> set cids \<and> co_BoardID c = bid" if "c \<in> set ?cols" for c using that by blast
  have "insert_columns True ?cols (keep (\<lambda>c. below_board h ?t1 (co_BoardID c)) (t_columns ?t1)) =
    (case insert_columns True ?cols (t_columns ?t1) of Inl e \<Rightarrow> Inl e | Inr rows \<Rightarrow> Inr (keep (\<lambda>c. below_board h ?t1 (co_BoardID c)) rows))"
  proof (rule insert_columns_seen)
    show "below_board h ?t1 (co_BoardID c)" if "c \<in> set ?cols" for c using cids' [OF that] below by metis
    show "t_columns ?t1 (co_ID c) = keep (\<lambda>c. below_board h ?t1 (co_BoardID c)) (t_columns ?t1) (co_ID c)" if "c \<in> set ?cols" for c
      using cids' [OF that] cids by (simp add: keep_def)
  qed
  from this [unfolded view_tables] have cols: "insert_columns True ?cols (t_columns (view h ?t1)) =
    (case insert_columns True ?cols (t_columns t) of Inl e \<Rightarrow> Inl e | Inr rows \<Rightarrow> Inr (keep (\<lambda>c. below_board h ?t1 (co_BoardID c)) rows))"
    by simp
  have b1: "below_board h ((view h t)\<lparr>t_boards := (t_boards (view h t))(bid \<mapsto> ?b)\<rparr>) bid" using below policies_view(2) [of h ?t1 bid] v1 by simp
  have "t_boards (view h t) bid = None" using new(1) by (rule free_seen)
  then show ?thesis using Inr w new(1) below b1 cols
    by (simp add: pg_CreateBoard_def insert_row_def v1 Let_def split: sum.split)
qed (simp add: pg_CreateBoard_def)

lemma seen_archive_page [seen]:
  "pg_ArchivePage h (view h t) sc k now = as_seen h (pg_ArchivePage h t sc k now)"
  "pg_UnarchivePage h (view h t) sc k = as_seen h (pg_UnarchivePage h t sc k)"
  by (simp_all add: pg_ArchivePage_def pg_UnarchivePage_def pg_set_archived_def view_pages [where N = "{}"] fold_workspace Let_def
      del: tree_rows.simps cong: deep)

lemma seen_UpdatePage [seen]: "pg_UpdatePage h (view h t) k title body st par v now = as_seen h (pg_UpdatePage h t k title body st par v now)"
  by (simp add: pg_UpdatePage_def view_pages [where N = "{}"] update_workspace Let_def cong: deep)

lemma seen_ApplyCollabSnapshot [seen]:
  "pg_ApplyCollabSnapshot h (view h t) sc cid plain editor now = as_seen h (pg_ApplyCollabSnapshot h t sc cid plain editor now)"
  by (simp add: pg_ApplyCollabSnapshot_def pages_of_room_def documents_of_room_def view_pages [where N = "{}"] fold_workspace Let_def
      cong: deep)

lemma seen_CreatePage [seen]:
  assumes new: "t_pages t nid = None" "\<forall>k r. t_pageFiles t k = Some r \<longrightarrow> fst r \<noteq> nid" "\<forall>k v. t_versions t k = Some v \<longrightarrow> pv_PageID v \<noteq> nid"
    and room: "\<forall>k p. t_pages t k = Some p \<longrightarrow> pg_CollabDocumentID p \<noteq> cid"
  shows "pg_CreatePage h (view h t) sc nid cid w [] title body st now = as_seen h (pg_CreatePage h t sc nid cid w [] title body st now)"
proof -
  have "\<not> page_room_taken sc t cid" "\<not> page_room_taken sc (view h t) cid"
    using room by (auto simp: page_room_taken_def view_def simp del: view_tables intro!: no_rows) blast
  moreover have "view h (t\<lparr>t_pages := (t_pages t)(nid \<mapsto> p)\<rparr>) =
      (view h t)\<lparr>t_pages := keep (\<lambda>p. app_workspace_tenant_matches h t (pg_WorkspaceID p)) ((t_pages t)(nid \<mapsto> p))\<rparr>" for p
    by (rule view_pages [where N = "{nid}"]) (use new in auto)
  ultimately show ?thesis using new(1) exists_matches
    by (cases "pg_workspaceExists h t w")
      (simp_all add: pg_CreatePage_def validateParent_def validateParentTx_def insert_row_def keep_put free_seen Let_def cong: deep)
qed

lemma seen_CreateChannel [seen]:
  assumes new: "t_channels t nid = None" "\<forall>k m. t_messages t k = Some m \<longrightarrow> cm_ChannelID m \<noteq> nid"
      "\<forall>k r. t_reads t k = Some r \<longrightarrow> rd_ChannelID r \<noteq> nid"
  shows "pg_CreateChannel h (view h t) nid w name now = as_seen h (pg_CreateChannel h t nid w name now)"
proof -
  have "view h (t\<lparr>t_channels := (t_channels t)(nid \<mapsto> c)\<rparr>) =
      (view h t)\<lparr>t_channels := keep (\<lambda>c. app_workspace_tenant_matches h t (ch_WorkspaceID c)) ((t_channels t)(nid \<mapsto> c))\<rparr>" for c
    by (rule view_channels [where N = "{nid}"]) (use new in auto)
  then show ?thesis using new(1) exists_matches
    by (cases "pg_workspaceExists h t w")
      (simp_all add: pg_CreateChannel_def insert_row_def keep_put free_seen Let_def cong: deep)
qed

section \<open>A new workspace\<close>

text \<open>No row names this workspace.\<close>

definition unnamed :: "Tables \<Rightarrow> id \<Rightarrow> bool" where
  "unnamed t w \<longleftrightarrow> t_workspaces t w = None \<and> (\<forall>k m. t_members t k = Some m \<longrightarrow> mb_WorkspaceID m \<noteq> w) \<and>
     (\<forall>k iv. t_invitations t k = Some iv \<longrightarrow> inv_WorkspaceID iv \<noteq> w) \<and> (\<forall>k e. t_audits t k = Some e \<longrightarrow> ae_WorkspaceID e \<noteq> w) \<and>
     (\<forall>k b. t_boards t k = Some b \<longrightarrow> bd_WorkspaceID b \<noteq> w) \<and> (\<forall>k sp. t_sprints t k = Some sp \<longrightarrow> sp_WorkspaceID sp \<noteq> w) \<and>
     (\<forall>k p. t_pages t k = Some p \<longrightarrow> pg_WorkspaceID p \<noteq> w) \<and> (\<forall>k d. t_documents t k = Some d \<longrightarrow> doc_WorkspaceID d \<noteq> w) \<and>
     (\<forall>k c. t_channels t k = Some c \<longrightarrow> ch_WorkspaceID c \<noteq> w) \<and> (\<forall>k f. t_files t k = Some f \<longrightarrow> sf_WorkspaceID f \<noteq> w)"

lemma keep_elsewhere:
  "(\<And>w. w \<noteq> gone \<Longrightarrow> P w = Q w) \<Longrightarrow> \<forall>k x. m k = Some x \<longrightarrow> f x \<noteq> gone \<Longrightarrow> keep (\<lambda>x. P (f x)) m = keep (\<lambda>x. Q (f x)) m"
  by (rule keep_cong) blast

lemma unnamed_policies:
  fixes ws :: Workspace
  assumes new: "unnamed t nid"
  defines "t1 \<equiv> t\<lparr>t_workspaces := (t_workspaces t)(nid \<mapsto> ws)\<rparr>"
  shows "w \<noteq> nid \<Longrightarrow> app_workspace_tenant_matches h t1 w = app_workspace_tenant_matches h t w"
    and "below_board h t1 = below_board h t" "below_channel h t1 = below_channel h t" "below_page h t1 = below_page h t"
proof -
  have same: "t_boards t1 = t_boards t" "t_channels t1 = t_channels t" "t_pages t1 = t_pages t" by (simp_all add: t1_def)
  show ws: "app_workspace_tenant_matches h t1 w = app_workspace_tenant_matches h t w" if "w \<noteq> nid" for w
    using that by (simp add: t1_def app_workspace_tenant_matches_def cong: option.case_cong)
  show "below_board h t1 = below_board h t" "below_channel h t1 = below_channel h t" "below_page h t1 = below_page h t"
    using new by (auto simp: fun_eq_iff below_board_def below_channel_def below_page_def unnamed_def ws same split: option.split)
qed

lemma view_workspaces:
  assumes new: "unnamed t nid"
  shows "view h (t\<lparr>t_workspaces := (t_workspaces t)(nid \<mapsto> ws)\<rparr>) =
    (view h t)\<lparr>t_workspaces := keep (\<lambda>w. app_tenant_matches h (ws_OrgID w)) ((t_workspaces t)(nid \<mapsto> ws))\<rparr>"
proof -
  let ?t1 = "t\<lparr>t_workspaces := (t_workspaces t)(nid \<mapsto> ws)\<rparr>"
  note ws = unnamed_policies(1) [OF new, where ws = ws] and below = unnamed_policies(2-4) [OF new, where ws = ws]
  have same: "keep (\<lambda>x. app_workspace_tenant_matches h ?t1 (mb_WorkspaceID x)) (t_members t) = t_members (view h t)"
    "keep (\<lambda>x. app_workspace_tenant_matches h ?t1 (inv_WorkspaceID x)) (t_invitations t) = t_invitations (view h t)"
    "keep (\<lambda>x. app_workspace_tenant_matches h ?t1 (ae_WorkspaceID x)) (t_audits t) = t_audits (view h t)"
    "keep (\<lambda>x. app_workspace_tenant_matches h ?t1 (bd_WorkspaceID x)) (t_boards t) = t_boards (view h t)"
    "keep (\<lambda>x. app_workspace_tenant_matches h ?t1 (sp_WorkspaceID x)) (t_sprints t) = t_sprints (view h t)"
    "keep (\<lambda>x. app_workspace_tenant_matches h ?t1 (pg_WorkspaceID x)) (t_pages t) = t_pages (view h t)"
    "keep (\<lambda>x. app_workspace_tenant_matches h ?t1 (doc_WorkspaceID x)) (t_documents t) = t_documents (view h t)"
    "keep (\<lambda>x. app_workspace_tenant_matches h ?t1 (ch_WorkspaceID x)) (t_channels t) = t_channels (view h t)"
    "keep (\<lambda>x. app_workspace_tenant_matches h ?t1 (sf_WorkspaceID x)) (t_files t) = t_files (view h t)"
    unfolding view_tables [symmetric]
    by (rule keep_elsewhere, erule ws, use new in \<open>auto simp: unnamed_def simp del: view_tables\<close>)+
  show ?thesis unfolding view_def [of h ?t1] by (simp add: below same)
qed

lemma seen_CreateWorkspace [seen]:
  assumes new: "unnamed t nid" and keys: "keyed t"
  shows "pg_CreateWorkspace h (view h t) nid name owner org now = as_seen h (pg_CreateWorkspace h t nid name owner org now)"
proof (cases "app_tenant_matches h org")
  case True
  let ?ws = "\<lparr>ws_ID = nid, ws_Name = name, ws_OrgID = org, ws_CreatedAt = now\<rparr>"
  let ?t1 = "t\<lparr>t_workspaces := (t_workspaces t)(nid \<mapsto> ?ws)\<rparr>"
  have free: "t_workspaces t nid = None" "t_members t (nid, owner) = None"
    using new keyedD(7) [OF keys, of "(nid, owner)"] by (auto simp: unnamed_def) fastforce
  have v1: "view h ?t1 = (view h t)\<lparr>t_workspaces := (t_workspaces (view h t))(nid \<mapsto> ?ws)\<rparr>"
    using True by (simp add: view_workspaces [OF new] keep_put)
  have m: "app_workspace_tenant_matches h ?t1 nid" using True by (simp add: app_workspace_tenant_matches_def split: option.split)
  then have m': "app_workspace_tenant_matches h ((view h t)\<lparr>t_workspaces := (t_workspaces (view h t))(nid \<mapsto> ?ws)\<rparr>) nid"
    using policies_view(1) [of h ?t1 nid] unfolding v1 by simp
  have "view h (?t1\<lparr>t_members := (t_members t)((nid, owner) \<mapsto> r)\<rparr>) = (view h ?t1)\<lparr>t_members := (t_members (view h t))((nid, owner) \<mapsto> r)\<rparr>"
    if "mb_WorkspaceID r = nid" for r
  proof -
    have "keep (\<lambda>m. app_workspace_tenant_matches h ?t1 (mb_WorkspaceID m)) (t_members t) = t_members (view h t)"
      using view_tables(1) [of h ?t1] unfolding v1 by simp
    then show ?thesis using m that by (simp add: view_update(1) [where t = "?t1"] keep_put)
  qed
  then show ?thesis using True free free_seen m m'
    by (simp add: pg_CreateWorkspace_def insert_row_def v1 Let_def)
qed (simp add: pg_CreateWorkspace_def insert_row_def Let_def)

section \<open>Operations that only read\<close>

fun reads_M :: "MemberOp \<Rightarrow> bool" where
  "reads_M (O_ListWorkspacesForSub _) \<longleftrightarrow> True"
| "reads_M (O_GetWorkspace _) \<longleftrightarrow> True"
| "reads_M (O_MemberRole _ _) \<longleftrightarrow> True"
| "reads_M (O_ListMembers _) \<longleftrightarrow> True"
| "reads_M (O_GetMember _ _) \<longleftrightarrow> True"
| "reads_M (O_ListInvitations _) \<longleftrightarrow> True"
| "reads_M (O_GetInvitationByTokenHash _) \<longleftrightarrow> True"
| "reads_M (O_ListAuditEvents _) \<longleftrightarrow> True"
| "reads_M _ \<longleftrightarrow> False"

fun reads_B :: "BoardOp \<Rightarrow> bool" where
  "reads_B (O_ListBoards _) \<longleftrightarrow> True"
| "reads_B (O_GetBoardDetail _) \<longleftrightarrow> True"
| "reads_B (O_BoardWorkspaceID _) \<longleftrightarrow> True"
| "reads_B (O_ColumnBoardID _) \<longleftrightarrow> True"
| "reads_B (O_GetCard _) \<longleftrightarrow> True"
| "reads_B (O_CardWorkspaceID _) \<longleftrightarrow> True"
| "reads_B (O_ListCardsInWorkspace _) \<longleftrightarrow> True"
| "reads_B (O_ListCardsOnBoard _) \<longleftrightarrow> True"
| "reads_B _ \<longleftrightarrow> False"

fun reads_P :: "PageOp \<Rightarrow> bool" where
  "reads_P (O_GetPage _) \<longleftrightarrow> True"
| "reads_P (O_ListPages _) \<longleftrightarrow> True"
| "reads_P (O_PageWorkspaceID _) \<longleftrightarrow> True"
| "reads_P _ \<longleftrightarrow> False"

fun reads_D :: "DocOp \<Rightarrow> bool" where
  "reads_D (O_ListDocuments _) \<longleftrightarrow> True"
| "reads_D (O_GetDocument _) \<longleftrightarrow> True"
| "reads_D (O_LookupCollab _) \<longleftrightarrow> True"
| "reads_D (O_GetTicket _) \<longleftrightarrow> True"
| "reads_D _ \<longleftrightarrow> False"

fun reads_C :: "ChatOp \<Rightarrow> bool" where
  "reads_C (O_ListChannels _) \<longleftrightarrow> True"
| "reads_C (O_GetChannel _) \<longleftrightarrow> True"
| "reads_C (O_ListMessages _ _) \<longleftrightarrow> True"
| "reads_C (O_CountMessagesAfter _ _) \<longleftrightarrow> True"
| "reads_C (O_GetChannelRead _ _) \<longleftrightarrow> True"
| "reads_C (O_GetChatTicket _) \<longleftrightarrow> True"
| "reads_C _ \<longleftrightarrow> False"

fun reads_F :: "FileOp \<Rightarrow> bool" where
  "reads_F (O_GetFile _) \<longleftrightarrow> True"
| "reads_F (O_ListPageFiles _) \<longleftrightarrow> True"
| "reads_F _ \<longleftrightarrow> False"

fun reads_S :: "SprintOp \<Rightarrow> bool" where
  "reads_S (O_ListSprints _) \<longleftrightarrow> True"
| "reads_S (O_GetSprint _) \<longleftrightarrow> True"
| "reads_S _ \<longleftrightarrow> False"

fun reads_V :: "VersionOp \<Rightarrow> bool" where
  "reads_V (O_ListPageVersions _) \<longleftrightarrow> True"
| "reads_V (O_GetPageVersion _ _) \<longleftrightarrow> True"
| "reads_V _ \<longleftrightarrow> False"

fun is_read :: "store_op \<Rightarrow> bool" where
  "is_read (O_M op) \<longleftrightarrow> reads_M op"
| "is_read (O_B op) \<longleftrightarrow> reads_B op"
| "is_read (O_P op) \<longleftrightarrow> reads_P op"
| "is_read (O_D op) \<longleftrightarrow> reads_D op"
| "is_read (O_C op) \<longleftrightarrow> reads_C op"
| "is_read (O_F op) \<longleftrightarrow> reads_F op"
| "is_read (O_S op) \<longleftrightarrow> reads_S op"
| "is_read (O_V op) \<longleftrightarrow> reads_V op"

lemmas read_defs =
  pg_workspaceExists_def pg_ListWorkspacesForSub_def pg_GetWorkspace_def pg_MemberRole_def pg_ListMembers_def
  pg_GetMember_def pg_ListInvitations_def pg_GetInvitationByTokenHash_def pg_ListAuditEvents_def pg_boardExists_def
  pg_ListBoards_def pg_GetBoardDetail_def pg_BoardWorkspaceID_def pg_ColumnBoardID_def pg_GetCard_def
  pg_CardWorkspaceID_def pg_ListCardsInWorkspace_def pg_ListCardsOnBoard_def pg_pageExists_def pg_GetPage_def
  pg_ListPages_def pg_PageWorkspaceID_def pg_ListDocuments_def pg_GetDocument_def pages_of_room_def
  documents_of_room_def pg_LookupCollab_def pg_GetTicket_def pg_channelExists_def pg_ListChannels_def
  pg_GetChannel_def channel_rows_def pg_ListMessages_def pg_CountMessagesAfter_def pg_GetChannelRead_def
  pg_GetChatTicket_def pg_GetFile_def pg_ListPageFiles_def pg_ListSprints_def pg_GetSprint_def version_rows_def
  pg_ListPageVersions_def pg_GetPageVersion_def

lemma same_view_answer:
  assumes "view h t = view h t'" and "is_read op"
  shows "fst (pg_run h sc op t) = fst (pg_run h sc op t')"
proof (cases op)
  case (O_M m)
  then show ?thesis using assms by (cases m) (simp_all add: answer_defs read_defs cong: option.case_cong list.case_cong)
next
  case (O_B m)
  then show ?thesis using assms by (cases m) (simp_all add: answer_defs read_defs cong: option.case_cong list.case_cong)
next
  case (O_P m)
  then show ?thesis using assms by (cases m) (simp_all add: answer_defs read_defs cong: option.case_cong list.case_cong)
next
  case (O_D m)
  then show ?thesis using assms by (cases m) (simp_all add: answer_defs read_defs cong: option.case_cong list.case_cong)
next
  case (O_C m)
  then show ?thesis using assms by (cases m) (simp_all add: answer_defs read_defs cong: option.case_cong list.case_cong)
next
  case (O_F m)
  then show ?thesis using assms by (cases m) (simp_all add: answer_defs read_defs cong: option.case_cong list.case_cong)
next
  case (O_S m)
  then show ?thesis using assms by (cases m) (simp_all add: answer_defs read_defs cong: option.case_cong list.case_cong)
next
  case (O_V m)
  then show ?thesis using assms by (cases m) (simp_all add: answer_defs read_defs cong: option.case_cong list.case_cong)
qed

lemma read_keeps: "is_read op \<Longrightarrow> snd (pg_run h sc op t) = t"
proof (cases op)
  case (O_M m)
  then show "is_read op \<Longrightarrow> ?thesis" by (cases m) (simp_all add: answer_defs)
next
  case (O_B m)
  then show "is_read op \<Longrightarrow> ?thesis" by (cases m) (simp_all add: answer_defs)
next
  case (O_P m)
  then show "is_read op \<Longrightarrow> ?thesis" by (cases m) (simp_all add: answer_defs)
next
  case (O_D m)
  then show "is_read op \<Longrightarrow> ?thesis" by (cases m) (simp_all add: answer_defs)
next
  case (O_C m)
  then show "is_read op \<Longrightarrow> ?thesis" by (cases m) (simp_all add: answer_defs)
next
  case (O_F m)
  then show "is_read op \<Longrightarrow> ?thesis" by (cases m) (simp_all add: answer_defs)
next
  case (O_S m)
  then show "is_read op \<Longrightarrow> ?thesis" by (cases m) (simp_all add: answer_defs)
next
  case (O_V m)
  then show "is_read op \<Longrightarrow> ?thesis" by (cases m) (simp_all add: answer_defs)
qed

lemma read_seen: "is_read op \<Longrightarrow> pg_run h sc op (view h t) = as_seen h (pg_run h sc op t)"
  using same_view_answer [of h "view h t" t op sc] by (simp add: as_seen_def prod_eq_iff read_keeps)

section \<open>Every operation\<close>

text \<open>
  What identifies something new is new to all rows, not only to those that are seen: identifiers and tokens
  are random.
\<close>

fun op_new_M :: "MemberOp \<Rightarrow> Tables \<Rightarrow> bool" where
  "op_new_M (O_CreateWorkspace nid name owner org now) t \<longleftrightarrow> unnamed t nid"
| "op_new_M (O_CreateInvitation nid ws hash role email uses expires who now) t \<longleftrightarrow>
     t_invitations t nid = None \<and> (\<forall>k iv. t_invitations t k = Some iv \<longrightarrow> inv_TokenHash iv \<noteq> hash)"
| "op_new_M (O_AddAuditEvent e) t \<longleftrightarrow> t_audits t (ae_ID e) = None"
| "op_new_M _ t \<longleftrightarrow> True"

fun op_new_B :: "BoardOp \<Rightarrow> Tables \<Rightarrow> bool" where
  "op_new_B (O_CreateBoard bid cids ws name now) t \<longleftrightarrow> t_boards t bid = None \<and> (\<forall>k \<in> set cids. t_columns t k = None) \<and>
     (\<forall>k c. t_columns t k = Some c \<longrightarrow> co_BoardID c \<noteq> bid) \<and> (\<forall>k c. t_cards t k = Some c \<longrightarrow> ca_BoardID c \<noteq> bid)"
| "op_new_B (O_CreateColumn nid b name now) t \<longleftrightarrow> t_columns t nid = None"
| "op_new_B (O_CreateCard nid c title desc now) t \<longleftrightarrow> t_cards t nid = None"
| "op_new_B _ t \<longleftrightarrow> True"

fun op_new_P :: "PageOp \<Rightarrow> Tables \<Rightarrow> bool" where
  "op_new_P (O_CreatePage nid cid ws parent title body status now) t \<longleftrightarrow> t_pages t nid = None \<and>
     (\<forall>k r. t_pageFiles t k = Some r \<longrightarrow> fst r \<noteq> nid) \<and> (\<forall>k v. t_versions t k = Some v \<longrightarrow> pv_PageID v \<noteq> nid) \<and>
     (\<forall>k p. t_pages t k = Some p \<longrightarrow> pg_CollabDocumentID p \<noteq> cid)"
| "op_new_P _ t \<longleftrightarrow> True"

fun op_new_D :: "DocOp \<Rightarrow> Tables \<Rightarrow> bool" where
  "op_new_D (O_CreateDocument nid cid ws title body now) t \<longleftrightarrow> t_documents t nid = None \<and>
     (\<forall>k d. t_documents t k = Some d \<longrightarrow> doc_CollabDocumentID d \<noteq> cid)"
| "op_new_D _ t \<longleftrightarrow> True"

fun op_new_C :: "ChatOp \<Rightarrow> Tables \<Rightarrow> bool" where
  "op_new_C (O_CreateChannel nid ws name now) t \<longleftrightarrow> t_channels t nid = None \<and>
     (\<forall>k m. t_messages t k = Some m \<longrightarrow> cm_ChannelID m \<noteq> nid) \<and> (\<forall>k r. t_reads t k = Some r \<longrightarrow> rd_ChannelID r \<noteq> nid)"
| "op_new_C (O_AppendMessage nid c sub body mentions att now) t \<longleftrightarrow> t_messages t nid = None"
| "op_new_C _ t \<longleftrightarrow> True"

fun op_new :: "store_op \<Rightarrow> Tables \<Rightarrow> bool" where
  "op_new (O_M op) t \<longleftrightarrow> op_new_M op t"
| "op_new (O_B op) t \<longleftrightarrow> op_new_B op t"
| "op_new (O_P op) t \<longleftrightarrow> op_new_P op t"
| "op_new (O_D op) t \<longleftrightarrow> op_new_D op t"
| "op_new (O_C op) t \<longleftrightarrow> op_new_C op t"
| "op_new (O_F (O_SaveFile f)) t \<longleftrightarrow> t_files t (sf_ID f) = None"
| "op_new (O_S (O_CreateSprint nid b name start stop now)) t \<longleftrightarrow> t_sprints t nid = None"
| "op_new _ t \<longleftrightarrow> True"

text \<open>The parent of a new page is looked up without the tenant, so pages with a parent are left out here.\<close>

fun no_parent :: "store_op \<Rightarrow> bool" where
  "no_parent (O_P (O_CreatePage nid cid ws parent title body status now)) \<longleftrightarrow> parent = []"
| "no_parent _ \<longleftrightarrow> True"

lemma seen_answers [simp]:
  "answer_write f (as_seen h p) = as_seen h (answer_write f p)" "answer_locked g f' (as_seen h q) = as_seen h (answer_locked g f' q)"
  "(case as_seen h r of (x, t1) \<Rightarrow> (k x, t1)) = as_seen h (case r of (x, t1) \<Rightarrow> (k x, t1))"
  by (simp_all add: answer_defs as_seen_def case_prod_beta split: sum.split)

lemma run_seen:
  assumes keys: "keyed t" and new: "op_new op t" "no_parent op"
  shows "pg_run h sc op (view h t) = as_seen h (pg_run h sc op t)"
proof (cases "is_read op")
  case False
  show ?thesis
  proof (cases op)
    case (O_M m)
    then show ?thesis using keys new False by (cases m) (simp_all add: seen)
  next
    case (O_B m)
    then show ?thesis using keys new False by (cases m) (simp_all add: seen)
  next
    case (O_P m)
    then show ?thesis using keys new False by (cases m) (simp_all add: seen)
  next
    case (O_D m)
    then show ?thesis using keys new False by (cases m) (simp_all add: seen)
  next
    case (O_C m)
    then show ?thesis using keys new False by (cases m) (simp_all add: seen)
  next
    case (O_F m)
    then show ?thesis using keys new False by (cases m) (simp_all add: seen)
  next
    case (O_S m)
    then show ?thesis using keys new False by (cases m) (simp_all add: seen)
  next
    case (O_V m)
    then show ?thesis using keys new False by (cases m) (simp_all add: seen)
  qed
qed (rule read_seen)

declare view_tables [simp del] view_tables_again [simp del] policies_view [simp del] view_update [simp del]

end
