(* ===== verification/PgSeparate.thy ===== *)
theory PgSeparate
  imports PgSecrecy
begin

text \<open>
  What a tenant does leaves everything as it is that it does not see: no row of another organisation changes,
  goes, or comes. So what one tenant sees and is told does not depend on what the others do.
\<close>

section \<open>The rows that are hidden\<close>

definition unseen :: "PgStore \<Rightarrow> Tables \<Rightarrow> Tables" where
  "unseen h t =
     t\<lparr>t_workspaces := keep (\<lambda>w. \<not> app_tenant_matches h (ws_OrgID w)) (t_workspaces t),
       t_members := keep (\<lambda>m. \<not> app_workspace_tenant_matches h t (mb_WorkspaceID m)) (t_members t),
       t_invitations := keep (\<lambda>iv. \<not> app_workspace_tenant_matches h t (inv_WorkspaceID iv)) (t_invitations t),
       t_audits := keep (\<lambda>e. \<not> app_workspace_tenant_matches h t (ae_WorkspaceID e)) (t_audits t),
       t_boards := keep (\<lambda>b. \<not> app_workspace_tenant_matches h t (bd_WorkspaceID b)) (t_boards t),
       t_columns := keep (\<lambda>c. \<not> below_board h t (co_BoardID c)) (t_columns t),
       t_sprints := keep (\<lambda>sp. \<not> app_workspace_tenant_matches h t (sp_WorkspaceID sp)) (t_sprints t),
       t_cards := keep (\<lambda>c. \<not> below_board h t (ca_BoardID c)) (t_cards t),
       t_pages := keep (\<lambda>p. \<not> app_workspace_tenant_matches h t (pg_WorkspaceID p)) (t_pages t),
       t_documents := keep (\<lambda>d. \<not> app_workspace_tenant_matches h t (doc_WorkspaceID d)) (t_documents t),
       t_channels := keep (\<lambda>c. \<not> app_workspace_tenant_matches h t (ch_WorkspaceID c)) (t_channels t),
       t_messages := keep (\<lambda>m. \<not> below_channel h t (cm_ChannelID m)) (t_messages t),
       t_reads := keep (\<lambda>r. \<not> below_channel h t (rd_ChannelID r)) (t_reads t),
       t_files := keep (\<lambda>f. \<not> app_workspace_tenant_matches h t (sf_WorkspaceID f)) (t_files t),
       t_pageFiles := keep (\<lambda>r. \<not> below_page h t (fst r)) (t_pageFiles t),
       t_versions := keep (\<lambda>v. \<not> below_page h t (pv_PageID v)) (t_versions t)\<rparr>"

lemma rest_update [simp]:
  "unseen h (t\<lparr>t_members := a\<rparr>) = (unseen h t)\<lparr>t_members := keep (\<lambda>m. \<not> app_workspace_tenant_matches h t (mb_WorkspaceID m)) a\<rparr>"
  "unseen h (t\<lparr>t_invitations := b\<rparr>) = (unseen h t)\<lparr>t_invitations := keep (\<lambda>iv. \<not> app_workspace_tenant_matches h t (inv_WorkspaceID iv)) b\<rparr>"
  "unseen h (t\<lparr>t_audits := c\<rparr>) = (unseen h t)\<lparr>t_audits := keep (\<lambda>e. \<not> app_workspace_tenant_matches h t (ae_WorkspaceID e)) c\<rparr>"
  "unseen h (t\<lparr>t_columns := d\<rparr>) = (unseen h t)\<lparr>t_columns := keep (\<lambda>c. \<not> below_board h t (co_BoardID c)) d\<rparr>"
  "unseen h (t\<lparr>t_sprints := e\<rparr>) = (unseen h t)\<lparr>t_sprints := keep (\<lambda>sp. \<not> app_workspace_tenant_matches h t (sp_WorkspaceID sp)) e\<rparr>"
  "unseen h (t\<lparr>t_cards := f\<rparr>) = (unseen h t)\<lparr>t_cards := keep (\<lambda>c. \<not> below_board h t (ca_BoardID c)) f\<rparr>"
  "unseen h (t\<lparr>t_documents := g\<rparr>) = (unseen h t)\<lparr>t_documents := keep (\<lambda>d. \<not> app_workspace_tenant_matches h t (doc_WorkspaceID d)) g\<rparr>"
  "unseen h (t\<lparr>t_messages := i\<rparr>) = (unseen h t)\<lparr>t_messages := keep (\<lambda>m. \<not> below_channel h t (cm_ChannelID m)) i\<rparr>"
  "unseen h (t\<lparr>t_reads := j\<rparr>) = (unseen h t)\<lparr>t_reads := keep (\<lambda>r. \<not> below_channel h t (rd_ChannelID r)) j\<rparr>"
  "unseen h (t\<lparr>t_files := k\<rparr>) = (unseen h t)\<lparr>t_files := keep (\<lambda>f. \<not> app_workspace_tenant_matches h t (sf_WorkspaceID f)) k\<rparr>"
  "unseen h (t\<lparr>t_pageFiles := l\<rparr>) = (unseen h t)\<lparr>t_pageFiles := keep (\<lambda>r. \<not> below_page h t (fst r)) l\<rparr>"
  "unseen h (t\<lparr>t_versions := m\<rparr>) = (unseen h t)\<lparr>t_versions := keep (\<lambda>v. \<not> below_page h t (pv_PageID v)) m\<rparr>"
  "unseen h (t\<lparr>t_collabTickets := n\<rparr>) = (unseen h t)\<lparr>t_collabTickets := n\<rparr>" "unseen h (t\<lparr>t_chatTickets := p\<rparr>) = (unseen h t)\<lparr>t_chatTickets := p\<rparr>"
  by (simp_all add: unseen_def app_workspace_tenant_matches_def below_board_def below_channel_def below_page_def cong: option.case_cong)

lemma rest_tables [simp]:
  "keep (\<lambda>m. \<not> app_workspace_tenant_matches h t (mb_WorkspaceID m)) (t_members t) = t_members (unseen h t)"
  "keep (\<lambda>iv. \<not> app_workspace_tenant_matches h t (inv_WorkspaceID iv)) (t_invitations t) = t_invitations (unseen h t)"
  "keep (\<lambda>e. \<not> app_workspace_tenant_matches h t (ae_WorkspaceID e)) (t_audits t) = t_audits (unseen h t)"
  "keep (\<lambda>c. \<not> below_board h t (co_BoardID c)) (t_columns t) = t_columns (unseen h t)"
  "keep (\<lambda>sp. \<not> app_workspace_tenant_matches h t (sp_WorkspaceID sp)) (t_sprints t) = t_sprints (unseen h t)"
  "keep (\<lambda>c. \<not> below_board h t (ca_BoardID c)) (t_cards t) = t_cards (unseen h t)"
  "keep (\<lambda>d. \<not> app_workspace_tenant_matches h t (doc_WorkspaceID d)) (t_documents t) = t_documents (unseen h t)"
  "keep (\<lambda>m. \<not> below_channel h t (cm_ChannelID m)) (t_messages t) = t_messages (unseen h t)"
  "keep (\<lambda>r. \<not> below_channel h t (rd_ChannelID r)) (t_reads t) = t_reads (unseen h t)"
  "keep (\<lambda>f. \<not> app_workspace_tenant_matches h t (sf_WorkspaceID f)) (t_files t) = t_files (unseen h t)"
  "keep (\<lambda>r. \<not> below_page h t (fst r)) (t_pageFiles t) = t_pageFiles (unseen h t)"
  "keep (\<lambda>v. \<not> below_page h t (pv_PageID v)) (t_versions t) = t_versions (unseen h t)"
  "keep (\<lambda>b. \<not> app_workspace_tenant_matches h t (bd_WorkspaceID b)) (t_boards t) = t_boards (unseen h t)"
  "keep (\<lambda>p. \<not> app_workspace_tenant_matches h t (pg_WorkspaceID p)) (t_pages t) = t_pages (unseen h t)"
  "keep (\<lambda>c. \<not> app_workspace_tenant_matches h t (ch_WorkspaceID c)) (t_channels t) = t_channels (unseen h t)"
  "keep (\<lambda>w. \<not> app_tenant_matches h (ws_OrgID w)) (t_workspaces t) = t_workspaces (unseen h t)"
  by (simp_all add: unseen_def)

text \<open>A row is not both seen and hidden.\<close>

lemma seen_not_hidden:
  "t_members (view h t) x \<noteq> None \<Longrightarrow> t_members (unseen h t) x = None" "t_invitations (view h t) k \<noteq> None \<Longrightarrow> t_invitations (unseen h t) k = None"
  "t_boards (view h t) k \<noteq> None \<Longrightarrow> t_boards (unseen h t) k = None" "t_columns (view h t) k \<noteq> None \<Longrightarrow> t_columns (unseen h t) k = None"
  "t_sprints (view h t) k \<noteq> None \<Longrightarrow> t_sprints (unseen h t) k = None" "t_cards (view h t) k \<noteq> None \<Longrightarrow> t_cards (unseen h t) k = None"
  "t_pages (view h t) k \<noteq> None \<Longrightarrow> t_pages (unseen h t) k = None" "t_documents (view h t) k \<noteq> None \<Longrightarrow> t_documents (unseen h t) k = None"
  by (auto simp: view_def unseen_def keep_None simp del: rest_tables)

lemma free_not_hidden:
  "t_workspaces t k = None \<Longrightarrow> t_workspaces (unseen h t) k = None" "t_invitations t k = None \<Longrightarrow> t_invitations (unseen h t) k = None"
  "t_audits t k = None \<Longrightarrow> t_audits (unseen h t) k = None" "t_boards t k = None \<Longrightarrow> t_boards (unseen h t) k = None"
  "t_columns t k = None \<Longrightarrow> t_columns (unseen h t) k = None" "t_sprints t k = None \<Longrightarrow> t_sprints (unseen h t) k = None"
  "t_cards t k = None \<Longrightarrow> t_cards (unseen h t) k = None" "t_pages t k = None \<Longrightarrow> t_pages (unseen h t) k = None"
  "t_documents t k = None \<Longrightarrow> t_documents (unseen h t) k = None" "t_channels t k = None \<Longrightarrow> t_channels (unseen h t) k = None"
  "t_messages t k = None \<Longrightarrow> t_messages (unseen h t) k = None" "t_files t k = None \<Longrightarrow> t_files (unseen h t) k = None"
  "t_members t x = None \<Longrightarrow> t_members (unseen h t) x = None" "t_pageFiles t y = None \<Longrightarrow> t_pageFiles (unseen h t) y = None"
  "t_versions t z = None \<Longrightarrow> t_versions (unseen h t) z = None" "t_reads t x = None \<Longrightarrow> t_reads (unseen h t) x = None"
  by (simp_all add: unseen_def keep_None del: rest_tables)

lemma absent [simp]:
  "m k = None \<Longrightarrow> update_row k f m = m" "m k = None \<Longrightarrow> m(k := None) = m"
  by (auto simp: update_row_def)

lemma fold_absent: "\<forall>x \<in> set xs. m (g x) = None \<Longrightarrow> fold (\<lambda>x. update_row (g x) (f x)) xs m = m"
  by (induction xs) simp_all

lemma columns_absent: "\<forall>k \<in> set ks. m k = None \<Longrightarrow> fold_index column_to j ks m = m"
  by (induction ks arbitrary: j) (simp_all add: column_to_def)

lemma cards_absent: "\<forall>k \<in> set ks. m k = None \<Longrightarrow> applyPositions ks m = m"
proof -
  have "\<forall>k \<in> set ks. m k = None \<Longrightarrow> fold_index card_to j ks m = m" for j by (induction ks arbitrary: j) (simp_all add: card_to_def)
  then show "\<forall>k \<in> set ks. m k = None \<Longrightarrow> applyPositions ks m = m" by (simp add: applyPositions_def)
qed

lemma same_table [simp]:
  "r\<lparr>t_members := t_members r\<rparr> = r" "r\<lparr>t_invitations := t_invitations r\<rparr> = r" "r\<lparr>t_audits := t_audits r\<rparr> = r"
  "r\<lparr>t_boards := t_boards r\<rparr> = r" "r\<lparr>t_columns := t_columns r\<rparr> = r" "r\<lparr>t_sprints := t_sprints r\<rparr> = r"
  "r\<lparr>t_cards := t_cards r\<rparr> = r" "r\<lparr>t_pages := t_pages r\<rparr> = r" "r\<lparr>t_documents := t_documents r\<rparr> = r"
  "r\<lparr>t_channels := t_channels r\<rparr> = r" "r\<lparr>t_messages := t_messages r\<rparr> = r" "r\<lparr>t_reads := t_reads r\<rparr> = r"
  "r\<lparr>t_files := t_files r\<rparr> = r" "r\<lparr>t_pageFiles := t_pageFiles r\<rparr> = r" "r\<lparr>t_versions := t_versions r\<rparr> = r"
  "r\<lparr>t_workspaces := t_workspaces r\<rparr> = r"
  by (cases r; simp)+

section \<open>Operations on what is seen\<close>

lemma rest_cases [simp]:
  "unseen h (snd (case r of Inl e \<Rightarrow> F e | Inr x \<Rightarrow> G x)) = (case r of Inl e \<Rightarrow> unseen h (snd (F e)) | Inr x \<Rightarrow> unseen h (snd (G x)))"
  "unseen h (snd (case q of None \<Rightarrow> A | Some y \<Rightarrow> B y)) = (case q of None \<Rightarrow> unseen h (snd A) | Some y \<Rightarrow> unseen h (snd (B y)))"
  "unseen h (snd (if c then A else A')) = (if c then unseen h (snd A) else unseen h (snd A'))"
  "unseen h (snd (guard_ok p t f)) = (case p of Inl e \<Rightarrow> unseen h t | Inr x \<Rightarrow> unseen h (snd (f x)))"
  "unseen h (snd (guard_zero z p t f')) = (case p of Inl e \<Rightarrow> unseen h t | Inr x \<Rightarrow> unseen h (snd (f' x)))"
  by (simp_all add: guard_ok_def guard_zero_def split: sum.split option.split)

named_theorems sealed

lemmas sealing = seen_not_hidden free_not_hidden keep_put insert_row_def Let_def

lemma sealed_members [sealed]:
  "unseen h (snd (pg_UpdateMemberDisplayName h t w u name)) = unseen h t" "unseen h (snd (pg_UpdateMemberRole h t w u role)) = unseen h t"
  "unseen h (snd (pg_RemoveMember h t w u)) = unseen h t" "unseen h (snd (pg_AddMember h t w u role now)) = unseen h t"
  "unseen h (snd (pg_AddAuditEvent h t e)) = unseen h t"
  by (auto simp: pg_UpdateMemberDisplayName_def pg_UpdateMemberRole_def pg_RemoveMember_def pg_AddMember_def pg_AddAuditEvent_def sealing
      split: sum.split option.split)

lemma sealed_invitations [sealed]:
  "unseen h (snd (pg_CreateInvitation h t sc nid w hash role email uses expires who now)) = unseen h t"
  "unseen h (snd (pg_UpdateInvitationPolicy h t w k role email uses expires)) = unseen h t"
  "unseen h (snd (pg_RevokeInvitation h t w k now)) = unseen h t" "unseen h (snd (pg_AcceptInvitation h t k u now)) = unseen h t"
  by (auto simp: pg_CreateInvitation_def pg_UpdateInvitationPolicy_def pg_RevokeInvitation_def pg_AcceptInvitation_def sealing
      dest!: workspace_invitation_Some dest: found_seen split: sum.split option.split sql_error.split)

lemma sealed_cards [sealed]:
  "unseen h (snd (pg_CreateColumn h t sc nid b name now)) = unseen h t" "unseen h (snd (pg_RenameColumn h t k name)) = unseen h t"
  "unseen h (snd (pg_CreateCard h t sc nid k title d now)) = unseen h t"
  "unseen h (snd (pg_UpdateCard h t k title d sprint v now)) = unseen h t"
  "unseen h (snd (pg_CreateSprint h t nid b name x y now)) = unseen h t" "unseen h (snd (pg_UpdateSprint h t k name x' y' now)) = unseen h t"
  by (auto simp: pg_CreateColumn_def pg_RenameColumn_def pg_CreateCard_def pg_UpdateCard_def pg_CreateSprint_def pg_UpdateSprint_def
      pg_GetSprint_def sealing split: sum.split option.split)

lemma sealed_DeleteSprint [sealed]: "unseen h (snd (pg_DeleteSprint h t k)) = unseen h t"
proof -
  have "keep (\<lambda>c. \<not> below_board h t (ca_BoardID c))
      (\<lambda>j. map_option (\<lambda>c. if below_board h t (ca_BoardID c) \<and> ca_SprintID c = k then c\<lparr>ca_SprintID := []\<rparr> else c) (t_cards t j)) =
    keep (\<lambda>c. \<not> below_board h t (ca_BoardID c)) (t_cards t)"
    by (auto simp: keep_def fun_eq_iff split: option.split)
  then show ?thesis by (auto simp: pg_DeleteSprint_def sealing)
qed

lemma sealed_columns [sealed]:
  assumes "keyed t"
  shows "unseen h (snd (pg_DeleteColumn h t sc k)) = unseen h t" and "unseen h (snd (pg_ReorderColumns h t sc b cs)) = unseen h t"
proof -
  have hidden: "t_columns (unseen h t) j = None" if "j \<in> co_ID ` set (select_rows ks (t_columns (view h t)) P)" for j ks P
    using that seen_rows(1) [OF assms] seen_not_hidden(4) by fastforce
  have ids: "\<forall>j \<in> set (board_column_ids h (t\<lparr>t_columns := (t_columns t)(k := None)\<rparr>) sc b). t_columns (unseen h t) j = None" for b
  proof -
    let ?t1 = "t\<lparr>t_columns := (t_columns t)(k := None)\<rparr>"
    have "keyed ?t1" using assms by (simp add: keyed_def)
    then have "t_columns (view h ?t1) j \<noteq> None" if "j \<in> set (board_column_ids h ?t1 sc b)" for j
      using that seen_rows(1) by (fastforce simp: board_column_ids_def)
    then have "t_columns (view h t) j \<noteq> None" if "j \<in> set (board_column_ids h ?t1 sc b)" for j
      using that by (fastforce simp: view_def split: if_splits)
    then show ?thesis using seen_not_hidden(4) by blast
  qed
  show "unseen h (snd (pg_DeleteColumn h t sc k)) = unseen h t"
  proof (cases "t_columns (view h t) k")
    case (Some col)
    then have "t_columns (unseen h t) k = None" using seen_not_hidden(4) [of h t k] by simp
    then show ?thesis using columns_absent [OF ids, of 0 "co_BoardID col"] Some
      by (simp add: pg_DeleteColumn_def Let_def keep_columns [of "\<lambda>b. \<not> below_board h t b"])
  qed (simp add: pg_DeleteColumn_def)
  have "keep (\<lambda>c. \<not> below_board h t (co_BoardID c)) (fold_index column_to 0 cs (t_columns t)) = t_columns (unseen h t)"
    if "set cs = co_ID ` set (select_rows ks (t_columns (view h t)) P)" for ks P
    using that hidden by (simp add: keep_columns [of "\<lambda>b. \<not> below_board h t b"] columns_absent)
  then show "unseen h (snd (pg_ReorderColumns h t sc b cs)) = unseen h t"
    by (auto simp: pg_ReorderColumns_def tick_off_Some sealing split: option.split sum.split)
qed

lemma sealed_MoveCard [sealed]:
  assumes "keyed t"
  shows "unseen h (snd (pg_MoveCard h t sc k target pos v now)) = unseen h t"
proof (cases "\<exists>c col. t_cards (view h t) k = Some c \<and> ca_Version c = v \<and> t_columns (view h t) target = Some col \<and> co_BoardID col = ca_BoardID c")
  case True
  then obtain c col where c: "t_cards (view h t) k = Some c" "ca_Version c = v" and col: "t_columns (view h t) target = Some col"
    "co_BoardID col = ca_BoardID c" by blast
  have ID: "co_ID col = target" using keyedD(1) [OF assms] col(1) by (simp add: view_def)
  have hidden: "\<forall>j \<in> set (columnCardIDs h t1 sc c). t_cards (unseen h t) j = None"
    if "keyed t1" "\<And>j. t_cards (view h t1) j \<noteq> None \<Longrightarrow> t_cards (view h t) j \<noteq> None" for t1 c
    using seen_rows(2) [OF that(1)] that(2) seen_not_hidden(6) by (fastforce simp: columnCardIDs_def)
  let ?K = "applyPositions (filter (\<lambda>j. j \<noteq> k) (columnCardIDs h t sc (ca_ColumnID c))) (t_cards t)" let ?t1 = "t\<lparr>t_cards := ?K\<rparr>"
  have K: "keep (\<lambda>c. \<not> below_board h t (ca_BoardID c)) ?K = t_cards (unseen h t)"
    using hidden [OF assms, of "ca_ColumnID c"] by (simp add: keep_cards [of "\<lambda>b. \<not> below_board h t b"] cards_absent)
  have "keyed ?t1" using keyedR(2) [OF assms] assms by (auto intro!: keyed_put)
  moreover have "t_cards (view h t) j \<noteq> None" if "t_cards (view h ?t1) j \<noteq> None" for j
    using that by (auto simp: view_def dest!: applyPositions_keeps)
  ultimately have "\<forall>j \<in> set (columnCardIDs h ?t1 sc target). t_cards (unseen h t) j = None" by (rule hidden)
  moreover have "t_cards (unseen h t) k = None" using c(1) seen_not_hidden(6) [of h t k] by simp
  ultimately have "keep (\<lambda>c. \<not> below_board h t (ca_BoardID c))
      (applyPositions (take n (columnCardIDs h ?t1 sc target) @ [k] @ drop n (columnCardIDs h ?t1 sc target)) ?K) = t_cards (unseen h t)" for n
    by (subst keep_cards [of "\<lambda>b. \<not> below_board h t b"], subst K) (auto intro!: cards_absent dest!: in_set_takeD in_set_dropD)
  then show ?thesis using \<open>t_cards (unseen h t) k = None\<close>
    by (simp add: pg_MoveCard_eq [OF c col(1) ID col(2)] reindexWithout_def Let_def)
next
  case False
  then show ?thesis by (auto simp: pg_MoveCard_def Let_def split: option.split)
qed

lemma sealed_documents [sealed]:
  "unseen h (snd (pg_CreateDocument h t sc nid cid w title body now)) = unseen h t"
  "unseen h (snd (pg_UpdateDocumentTitle h t k title now)) = unseen h t" "unseen h (snd (pg_TrashDocument h t k now)) = unseen h t"
  "unseen h (snd (pg_RestoreDocument h t k)) = unseen h t"
  by (auto simp: pg_CreateDocument_def pg_UpdateDocumentTitle_def pg_TrashDocument_def pg_RestoreDocument_def sealing dest: found_seen split: sum.split option.split)

lemma sealed_chat [sealed]:
  assumes "keyed t"
  shows "unseen h (snd (pg_AppendMessage h t sc nid c sub body ms att now)) = unseen h t"
    "unseen h (snd (pg_UpsertChannelRead h t c sub n now)) = unseen h t" "unseen h (snd (pg_SaveFile h t f)) = unseen h t"
    "unseen h (snd (pg_AttachPageFile h t p k)) = unseen h t"
proof -
  show "unseen h (snd (pg_SaveFile h t f)) = unseen h t"
    by (auto simp: pg_SaveFile_def sealing split: sum.split)
  have channel: "below_channel h t c" if "pg_channelExists h t c = Inr x" for x using channel_exists [OF that] channel_below by blast
  then show "unseen h (snd (pg_AppendMessage h t sc nid c sub body ms att now)) = unseen h t"
    by (auto simp: pg_AppendMessage_def sealing split: sum.split)
  have "t_reads (unseen h t) (c, sub) = None" if "pg_channelExists h t c = Inr x" for x
    using channel [OF that] keyedD(5) [OF assms] by (auto simp: unseen_def keep_None simp del: rest_tables)
  then show "unseen h (snd (pg_UpsertChannelRead h t c sub n now)) = unseen h t"
    using channel keyedD(5) [OF assms, of "(c, sub)"] by (auto simp: pg_UpsertChannelRead_def sealing split: sum.split option.split)
  show "unseen h (snd (pg_AttachPageFile h t p k)) = unseen h t"
    using free_not_hidden(14) [of t "(p, k)" h]
    by (cases "t_pageFiles t (p, k)") (auto simp: pg_AttachPageFile_def sealing split: sum.split sql_error.split)
qed

lemma sealed_version [sealed]:
  assumes "keyed t"
  shows "unseen h (snd (pg_AppendPageVersionIfChanged h t sc k title body st sub now)) = unseen h t"
proof (cases "pg_pageExists h t k")
  case (Inr x)
  then have below: "below_page h t k" using page_exists page_below by blast
  let ?P = "\<lambda>v. \<not> below_page h t (pv_PageID v)"
  have none: "keep ?P (t_versions t) (k, n) = None" for n using keyedD(6) [OF assms, of "(k, n)"] below by (auto simp: keep_None simp del: rest_tables)
  have old: "keep ?P (\<lambda>(q, n). if q = k \<and> n \<le> i then None else ((t_versions t)((k, j) \<mapsto> w)) (q, n)) =
      t_versions (unseen h t)" if "pv_PageID w = k" for i j w
    unfolding rest_tables [symmetric]
  proof (rule ext, clarify)
    fix q n show "keep ?P (\<lambda>(q, n). if q = k \<and> n \<le> i then None else ((t_versions t)((k, j) \<mapsto> w)) (q, n)) (q, n) =
      keep ?P (t_versions t) (q, n)"
      using none [of n] that below by (cases "q = k") (simp_all add: keep_def)
  qed
  have "unseen h (snd (pg_insert_version h t k n title body st sub now)) = unseen h t" for n
    using below free_not_hidden(15) [of t "(k, n)" h]
    by (cases "t_versions t (k, n)") (simp_all add: pg_insert_version_def insert_row_def keep_put old Let_def)
  then show ?thesis using Inr by (simp add: pg_AppendPageVersionIfChanged_def Let_def)
qed (simp add: pg_AppendPageVersionIfChanged_def)

section \<open>Tables that policies look at\<close>

lemma rest_boards:
  assumes "\<And>b. b \<notin> N \<Longrightarrow> map_option bd_WorkspaceID (B b) = map_option bd_WorkspaceID (t_boards t b)"
    and "\<forall>k c. t_columns t k = Some c \<longrightarrow> co_BoardID c \<notin> N" and "\<forall>k c. t_cards t k = Some c \<longrightarrow> ca_BoardID c \<notin> N"
  shows "unseen h (t\<lparr>t_boards := B\<rparr>) = (unseen h t)\<lparr>t_boards := keep (\<lambda>b. \<not> app_workspace_tenant_matches h t (bd_WorkspaceID b)) B\<rparr>"
proof -
  have "below_board h (t\<lparr>t_boards := B\<rparr>) b = below_board h t b" if "b \<notin> N" for b using below_unmoved(1) assms(1) that by blast
  then have "keep (\<lambda>c. \<not> below_board h (t\<lparr>t_boards := B\<rparr>) (co_BoardID c)) (t_columns t) = t_columns (unseen h t)"
    "keep (\<lambda>c. \<not> below_board h (t\<lparr>t_boards := B\<rparr>) (ca_BoardID c)) (t_cards t) = t_cards (unseen h t)"
    unfolding rest_tables [symmetric] using assms(2,3) by (intro keep_cong; metis)+
  then show ?thesis
    by (simp add: unseen_def [of h "t\<lparr>t_boards := B\<rparr>"]) (simp add: unseen_def below_channel_def below_page_def del: rest_tables cong: option.case_cong)
qed

lemma rest_pages:
  assumes "\<And>p. p \<notin> N \<Longrightarrow> map_option pg_WorkspaceID (B p) = map_option pg_WorkspaceID (t_pages t p)"
    and "\<forall>k r. t_pageFiles t k = Some r \<longrightarrow> fst r \<notin> N" and "\<forall>k v. t_versions t k = Some v \<longrightarrow> pv_PageID v \<notin> N"
  shows "unseen h (t\<lparr>t_pages := B\<rparr>) = (unseen h t)\<lparr>t_pages := keep (\<lambda>p. \<not> app_workspace_tenant_matches h t (pg_WorkspaceID p)) B\<rparr>"
proof -
  have "below_page h (t\<lparr>t_pages := B\<rparr>) p = below_page h t p" if "p \<notin> N" for p using below_unmoved(2) assms(1) that by blast
  then have "keep (\<lambda>r. \<not> below_page h (t\<lparr>t_pages := B\<rparr>) (fst r)) (t_pageFiles t) = t_pageFiles (unseen h t)"
    "keep (\<lambda>v. \<not> below_page h (t\<lparr>t_pages := B\<rparr>) (pv_PageID v)) (t_versions t) = t_versions (unseen h t)"
    unfolding rest_tables [symmetric] using assms(2,3) by (intro keep_cong; metis)+
  then show ?thesis
    by (simp add: unseen_def [of h "t\<lparr>t_pages := B\<rparr>"]) (simp add: unseen_def below_channel_def below_board_def del: rest_tables cong: option.case_cong)
qed

lemma rest_channels:
  assumes "\<And>c. c \<notin> N \<Longrightarrow> map_option ch_WorkspaceID (B c) = map_option ch_WorkspaceID (t_channels t c)"
    and "\<forall>k m. t_messages t k = Some m \<longrightarrow> cm_ChannelID m \<notin> N" and "\<forall>k r. t_reads t k = Some r \<longrightarrow> rd_ChannelID r \<notin> N"
  shows "unseen h (t\<lparr>t_channels := B\<rparr>) = (unseen h t)\<lparr>t_channels := keep (\<lambda>c. \<not> app_workspace_tenant_matches h t (ch_WorkspaceID c)) B\<rparr>"
proof -
  have "below_channel h (t\<lparr>t_channels := B\<rparr>) c = below_channel h t c" if "c \<notin> N" for c using below_unmoved(3) assms(1) that by blast
  then have "keep (\<lambda>m. \<not> below_channel h (t\<lparr>t_channels := B\<rparr>) (cm_ChannelID m)) (t_messages t) = t_messages (unseen h t)"
    "keep (\<lambda>r. \<not> below_channel h (t\<lparr>t_channels := B\<rparr>) (rd_ChannelID r)) (t_reads t) = t_reads (unseen h t)"
    unfolding rest_tables [symmetric] using assms(2,3) by (intro keep_cong; metis)+
  then show ?thesis
    by (simp add: unseen_def [of h "t\<lparr>t_channels := B\<rparr>"]) (simp add: unseen_def below_page_def below_board_def del: rest_tables cong: option.case_cong)
qed

lemma sealed_boards [sealed]:
  "unseen h (snd (pg_ArchiveBoard h t b now)) = unseen h t" "unseen h (snd (pg_UnarchiveBoard h t b)) = unseen h t"
  by (auto simp: pg_ArchiveBoard_def pg_UnarchiveBoard_def rest_boards [where N = "{}"] update_workspace seen_not_hidden split: option.split)

lemma insert_columns_hidden:
  "insert_columns b cs m = Inr m' \<Longrightarrow> \<forall>c \<in> set cs. \<not> P c \<Longrightarrow> keep P m' = keep P m"
proof (induction cs arbitrary: m)
  case (Cons c cs)
  then have "m (co_ID c) = None" "insert_columns b cs (m(co_ID c \<mapsto> c)) = Inr m'"
    by (auto simp: insert_row_def split: sum.splits if_splits)
  moreover have "keep P (m(co_ID c \<mapsto> c)) = keep P m" using Cons.prems(2) calculation(1) by (simp add: keep_put) (simp add: keep_def)
  ultimately show ?case using Cons.IH [of "m(co_ID c \<mapsto> c)"] Cons.prems(2) by (metis list.set_intros(2))
qed simp

lemma sealed_CreateBoard [sealed]:
  assumes new: "t_boards t bid = None" "\<forall>k c. t_columns t k = Some c \<longrightarrow> co_BoardID c \<noteq> bid"
      "\<forall>k c. t_cards t k = Some c \<longrightarrow> ca_BoardID c \<noteq> bid"
  shows "unseen h (snd (pg_CreateBoard h t bid cids w name now)) = unseen h t"
proof (cases "pg_workspaceExists h t w")
  case (Inr x)
  then have w: "app_workspace_tenant_matches h t w" by (rule exists_matches)
  let ?b = "\<lparr>bd_ID = bid, bd_WorkspaceID = w, bd_Name = name, bd_CreatedAt = now, bd_ArchivedAt = None\<rparr>"
  let ?t1 = "t\<lparr>t_boards := (t_boards t)(bid \<mapsto> ?b)\<rparr>" let ?cols = "map (new_column bid now) (List.enumerate 0 (zip cids defaultNames))"
  have r1: "unseen h ?t1 = unseen h t"
    by (subst rest_boards [where N = "{bid}"]) (use new w free_not_hidden(4) [of t bid h] in \<open>auto simp: keep_put\<close>)
  have below: "below_board h ?t1 bid" using w by (simp add: below_board_def split: option.split)
  have "co_BoardID c = bid" if "c \<in> set ?cols" for c using that by (auto simp: new_column_def split: prod.splits)
  then have "\<forall>c \<in> set ?cols. \<not> \<not> below_board h ?t1 (co_BoardID c)" using below by metis
  then have "keep (\<lambda>c. \<not> below_board h ?t1 (co_BoardID c)) rows = t_columns (unseen h ?t1)"
    if "insert_columns True ?cols (t_columns t) = Inr rows" for rows
    using insert_columns_hidden [OF that] rest_tables(4) [of h ?t1] by simp
  then have "unseen h (?t1\<lparr>t_columns := rows\<rparr>) = unseen h t" if "insert_columns True ?cols (t_columns t) = Inr rows" for rows
    using that r1 rest_update(4) [where t = "?t1"] by simp
  then show ?thesis using Inr w new(1) below by (auto simp: pg_CreateBoard_def insert_row_def Let_def split: sum.split)
qed (simp add: pg_CreateBoard_def)

lemma pages_hidden:
  assumes "keyed t"
  shows "p \<in> set (select_rows ks (t_pages (view h t)) P) \<Longrightarrow> t_pages (unseen h t) (pg_ID p) = None"
    and "d \<in> set (select_rows ks (t_documents (view h t)) Q) \<Longrightarrow> t_documents (unseen h t) (doc_ID d) = None"
  using seen_rows(3,4) [OF assms] seen_not_hidden(7,8) by fastforce+

lemma sealed_archive_page [sealed]:
  assumes "keyed t"
  shows "unseen h (snd (pg_ArchivePage h t sc k now)) = unseen h t" "unseen h (snd (pg_UnarchivePage h t sc k)) = unseen h t"
proof -
  have "\<forall>i \<in> set ids. t_pages (unseen h t) i = None"
    if "tree_rows fuel ks (t_pages (view h t)) (case t_pages (view h t) k of None \<Rightarrow> [] | Some p \<Rightarrow> [pg_ID p]) = Some ids" for fuel ks ids
  proof -
    have IDs: "\<forall>k p. t_pages (view h t) k = Some p \<longrightarrow> pg_ID p = k" using keyedD(3) [OF assms] by (simp add: page_seen)
    then have "\<forall>i \<in> set (case t_pages (view h t) k of None \<Rightarrow> [] | Some p \<Rightarrow> [pg_ID p]). t_pages (view h t) i \<noteq> None"
      by (cases "t_pages (view h t) k") simp_all
    then show ?thesis using tree_rows_seen [OF that _ IDs] seen_not_hidden(7) by blast
  qed
  then have "unseen h (snd (pg_set_archived h t sc k at)) = unseen h t" for at
    unfolding pg_set_archived_def Let_def
    by (auto simp: rest_pages [where N = "{}"] fold_workspace fold_absent [where g = "\<lambda>x. x"] simp del: tree_rows.simps split: option.split)
  then show "unseen h (snd (pg_ArchivePage h t sc k now)) = unseen h t" "unseen h (snd (pg_UnarchivePage h t sc k)) = unseen h t"
    by (simp_all add: pg_ArchivePage_def pg_UnarchivePage_def)
qed

lemma sealed_UpdatePage [sealed]: "unseen h (snd (pg_UpdatePage h t k title body st par v now)) = unseen h t"
proof (cases "t_pages (view h t) k")
  case (Some p)
  then show ?thesis using seen_not_hidden(7) [of h t k]
    by (simp add: pg_UpdatePage_def rest_pages [where N = "{}"] update_workspace Let_def split: sum.split)
qed (simp add: pg_UpdatePage_def)

lemma sealed_ApplyCollabSnapshot [sealed]:
  assumes "keyed t"
  shows "unseen h (snd (pg_ApplyCollabSnapshot h t sc cid plain editor now)) = unseen h t"
proof -
  have docs: "documents_of_room h (t\<lparr>t_pages := P\<rparr>) sc cid = documents_of_room h t sc cid" for P
    by (simp add: documents_of_room_def view_def)
  have "\<forall>p \<in> set (pages_of_room h t sc cid). t_pages (unseen h t) (pg_ID p) = None"
    "\<forall>d \<in> set (documents_of_room h t sc cid). t_documents (unseen h t) (doc_ID d) = None"
    using pages_hidden [OF assms] by (simp_all add: pages_of_room_def documents_of_room_def)
  then show ?thesis
    by (simp add: pg_ApplyCollabSnapshot_def docs rest_pages [where N = "{}"] fold_workspace fold_absent Let_def)
qed

lemma sealed_CreatePage [sealed]:
  assumes new: "t_pages t nid = None" "\<forall>k r. t_pageFiles t k = Some r \<longrightarrow> fst r \<noteq> nid" "\<forall>k v. t_versions t k = Some v \<longrightarrow> pv_PageID v \<noteq> nid"
  shows "unseen h (snd (pg_CreatePage h t sc nid cid w par title body st now)) = unseen h t"
proof -
  have "unseen h (t\<lparr>t_pages := (t_pages t)(nid \<mapsto> p)\<rparr>) =
      (unseen h t)\<lparr>t_pages := keep (\<lambda>p. \<not> app_workspace_tenant_matches h t (pg_WorkspaceID p)) ((t_pages t)(nid \<mapsto> p))\<rparr>" for p
    by (rule rest_pages [where N = "{nid}"]) (use new in auto)
  then show ?thesis using new(1) by (auto simp: pg_CreatePage_def sealing split: sum.split)
qed

lemma sealed_CreateChannel [sealed]:
  assumes new: "t_channels t nid = None" "\<forall>k m. t_messages t k = Some m \<longrightarrow> cm_ChannelID m \<noteq> nid"
      "\<forall>k r. t_reads t k = Some r \<longrightarrow> rd_ChannelID r \<noteq> nid"
  shows "unseen h (snd (pg_CreateChannel h t nid w name now)) = unseen h t"
proof -
  have "unseen h (t\<lparr>t_channels := (t_channels t)(nid \<mapsto> c)\<rparr>) =
      (unseen h t)\<lparr>t_channels := keep (\<lambda>c. \<not> app_workspace_tenant_matches h t (ch_WorkspaceID c)) ((t_channels t)(nid \<mapsto> c))\<rparr>" for c
    by (rule rest_channels [where N = "{nid}"]) (use new in auto)
  then show ?thesis using new(1) by (auto simp: pg_CreateChannel_def sealing split: sum.split)
qed

lemma sealed_CreateWorkspace [sealed]:
  assumes new: "unnamed t nid" and keys: "keyed t"
  shows "unseen h (snd (pg_CreateWorkspace h t nid name owner org now)) = unseen h t"
proof (cases "app_tenant_matches h org")
  case True
  let ?ws = "\<lparr>ws_ID = nid, ws_Name = name, ws_OrgID = org, ws_CreatedAt = now\<rparr>"
  let ?t1 = "t\<lparr>t_workspaces := (t_workspaces t)(nid \<mapsto> ?ws)\<rparr>"
  note ws = unnamed_policies(1) [OF new, where ws = ?ws] and below = unnamed_policies(2-4) [OF new, where ws = ?ws]
  have free: "t_workspaces t nid = None" "t_members t (nid, owner) = None"
    using new keyedD(7) [OF keys, of "(nid, owner)"] by (auto simp: unnamed_def) fastforce
  have hidden: "w \<noteq> nid \<Longrightarrow> (\<not> app_workspace_tenant_matches h ?t1 w) = (\<not> app_workspace_tenant_matches h t w)" for w using ws by simp
  have same: "keep (\<lambda>x. \<not> app_workspace_tenant_matches h ?t1 (mb_WorkspaceID x)) (t_members t) = t_members (unseen h t)"
    "keep (\<lambda>x. \<not> app_workspace_tenant_matches h ?t1 (inv_WorkspaceID x)) (t_invitations t) = t_invitations (unseen h t)"
    "keep (\<lambda>x. \<not> app_workspace_tenant_matches h ?t1 (ae_WorkspaceID x)) (t_audits t) = t_audits (unseen h t)"
    "keep (\<lambda>x. \<not> app_workspace_tenant_matches h ?t1 (bd_WorkspaceID x)) (t_boards t) = t_boards (unseen h t)"
    "keep (\<lambda>x. \<not> app_workspace_tenant_matches h ?t1 (sp_WorkspaceID x)) (t_sprints t) = t_sprints (unseen h t)"
    "keep (\<lambda>x. \<not> app_workspace_tenant_matches h ?t1 (pg_WorkspaceID x)) (t_pages t) = t_pages (unseen h t)"
    "keep (\<lambda>x. \<not> app_workspace_tenant_matches h ?t1 (doc_WorkspaceID x)) (t_documents t) = t_documents (unseen h t)"
    "keep (\<lambda>x. \<not> app_workspace_tenant_matches h ?t1 (ch_WorkspaceID x)) (t_channels t) = t_channels (unseen h t)"
    "keep (\<lambda>x. \<not> app_workspace_tenant_matches h ?t1 (sf_WorkspaceID x)) (t_files t) = t_files (unseen h t)"
    unfolding rest_tables [symmetric]
    by (rule keep_elsewhere [where gone = nid and P = "\<lambda>w. \<not> app_workspace_tenant_matches h ?t1 w" and Q = "\<lambda>w. \<not> app_workspace_tenant_matches h t w"],
      erule hidden, use new in \<open>auto simp: unnamed_def simp del: rest_tables\<close>)+
  have "keep (\<lambda>w. \<not> app_tenant_matches h (ws_OrgID w)) (t_workspaces ?t1) = t_workspaces (unseen h t)"
    using True free free_not_hidden(1) [of t nid h] by (simp add: keep_put)
  then have r1: "unseen h ?t1 = unseen h t" by (simp add: unseen_def [of h ?t1] below same) (simp add: unseen_def del: rest_tables)
  have m: "app_workspace_tenant_matches h ?t1 nid" using True by (simp add: app_workspace_tenant_matches_def split: option.split)
  have "unseen h (?t1\<lparr>t_members := (t_members t)((nid, owner) \<mapsto> r)\<rparr>) = unseen h t" if "mb_WorkspaceID r = nid" for r
    using m that same(1) r1 free_not_hidden(13) [OF free(2)] by (simp add: rest_update(1) [where t = "?t1"] keep_put)
  then show ?thesis using True free m by (simp add: pg_CreateWorkspace_def insert_row_def Let_def)
qed (simp add: pg_CreateWorkspace_def insert_row_def Let_def)

section \<open>Every operation\<close>

fun issues_ticket :: "store_op \<Rightarrow> bool" where
  "issues_ticket (O_D (O_CreateTicket _ _ _ _ _)) \<longleftrightarrow> True"
| "issues_ticket (O_C (O_CreateChatTicket _ _ _ _ _)) \<longleftrightarrow> True"
| "issues_ticket _ \<longleftrightarrow> False"

lemma rest_answers [simp]:
  "unseen h (snd (answer_write f p)) = unseen h (snd p)" "unseen h (snd (answer_locked g f' q)) = unseen h (snd q)"
  "unseen h (snd (case r of (x, t1) \<Rightarrow> (k x, t1))) = unseen h (snd r)"
  by (simp_all add: answer_defs case_prod_beta split: sum.split)

lemma run_sealed:
  assumes keys: "keyed t" and new: "op_new op t" and no: "\<not> issues_ticket op"
  shows "unseen h (snd (pg_run h sc op t)) = unseen h t"
proof (cases "is_read op")
  case False
  show ?thesis
  proof (cases op)
    case (O_M m)
    then show ?thesis using keys new False by (cases m) (simp_all add: sealed del: rest_cases)
  next
    case (O_B m)
    then show ?thesis using keys new False by (cases m) (simp_all add: sealed del: rest_cases)
  next
    case (O_P m)
    then show ?thesis using keys new False by (cases m) (simp_all add: sealed del: rest_cases)
  next
    case (O_D m)
    then show ?thesis using keys new False no by (cases m) (simp_all add: sealed del: rest_cases)
  next
    case (O_C m)
    then show ?thesis using keys new False no by (cases m) (simp_all add: sealed del: rest_cases)
  next
    case (O_F m)
    then show ?thesis using keys new False by (cases m) (simp_all add: sealed del: rest_cases)
  next
    case (O_S m)
    then show ?thesis using keys new False by (cases m) (simp_all add: sealed del: rest_cases)
  next
    case (O_V m)
    then show ?thesis using keys new False by (cases m) (simp_all add: sealed del: rest_cases)
  qed
qed (simp add: read_keeps)

text \<open>What another tenant sees is among the rows that are hidden.\<close>

lemma view_rest:
  assumes a: "row_tenant a = Some A" and h: "row_tenant h = Some B" and "A \<noteq> B"
  shows "view a (unseen h t) = view a t"
proof -
  have org: "app_tenant_matches a x \<Longrightarrow> \<not> app_tenant_matches h x" for x using assms by (simp add: app_tenant_matches_def)
  have apart: "app_workspace_tenant_matches a t w \<Longrightarrow> \<not> app_workspace_tenant_matches h t w" for w
    using assms by (auto simp: app_workspace_tenant_matches_def app_tenant_matches_def split: option.splits)
  have below: "below_board a t b \<Longrightarrow> \<not> below_board h t b" "below_channel a t b \<Longrightarrow> \<not> below_channel h t b"
    "below_page a t b \<Longrightarrow> \<not> below_page h t b" for b
    using assms apart by (auto simp: below_board_def below_channel_def below_page_def split: option.splits)
  have both: "(\<not> app_tenant_matches h x \<and> app_tenant_matches a x) = app_tenant_matches a x"
    "(\<not> app_workspace_tenant_matches h t w \<and> app_workspace_tenant_matches a t w) = app_workspace_tenant_matches a t w"
    "(\<not> below_board h t b \<and> below_board a t b) = below_board a t b" "(\<not> below_channel h t b \<and> below_channel a t b) = below_channel a t b"
    "(\<not> below_page h t b \<and> below_page a t b) = below_page a t b" for x w b
    using org apart below by blast+
  have ws: "app_workspace_tenant_matches a (unseen h t) w = app_workspace_tenant_matches a t w" for w
    by (auto simp: app_workspace_tenant_matches_def unseen_def keep_def a org simp del: rest_tables split: option.split)
  have parents: "below_board a (unseen h t) b = below_board a t b" "below_channel a (unseen h t) b = below_channel a t b"
    "below_page a (unseen h t) b = below_page a t b" for b
    by (auto simp: below_board_def below_channel_def below_page_def ws a apart simp del: rest_tables split: option.split)
      (auto simp: unseen_def keep_def apart simp del: rest_tables split: option.splits if_splits)
  show ?thesis
    unfolding view_def [of a "unseen h t"] ws parents unfolding view_def unseen_def
    by (simp add: both case_prod_beta' del: rest_tables)
qed

lemma same_tenant_view: "row_tenant a = row_tenant h \<Longrightarrow> view a t = view h t"
  by (simp add: view_def app_tenant_matches_def app_workspace_tenant_matches_def below_board_def below_channel_def below_page_def
      cong: option.case_cong)

section \<open>Requests of many tenants\<close>

text \<open>
  A system in which some requests are one's own. One's own see only a part of the state, and the others leave
  that part alone: then the answers to one's own, and the part that one sees, are those of a system
  that holds nothing but that part and gets no other request.
\<close>

definition own_part :: "('c \<times> 'o \<Rightarrow> bool) \<Rightarrow> ('c \<times> 'o) list \<Rightarrow> 'a list \<Rightarrow> 'a list" where
  "own_part own xs as = map snd (filter (\<lambda>(x, _). own x) (zip xs as))"

fun all_fit :: "('c \<times> 'o \<Rightarrow> 's \<Rightarrow> bool) \<Rightarrow> ('c \<Rightarrow> 'o \<Rightarrow> 's \<Rightarrow> 'a \<times> 's) \<Rightarrow> ('c \<times> 'o) list \<Rightarrow> 's \<Rightarrow> bool" where
  "all_fit fits run [] s \<longleftrightarrow> True"
| "all_fit fits run ((c, op) # xs) s \<longleftrightarrow> fits (c, op) s \<and> all_fit fits run xs (snd (run c op s))"

locale tenancy =
  fixes run :: "'c \<Rightarrow> 'o \<Rightarrow> 's \<Rightarrow> 'a \<times> 's" and own :: "'c \<times> 'o \<Rightarrow> bool" and sees :: "'s \<Rightarrow> 's"
    and good :: "'s \<Rightarrow> bool" and fits :: "'c \<times> 'o \<Rightarrow> 's \<Rightarrow> bool"
  assumes good_run: "good s \<Longrightarrow> good (snd (run c op s))"
    and own_run: "good s \<Longrightarrow> own (c, op) \<Longrightarrow> fits (c, op) s \<Longrightarrow> run c op (sees s) = (fst (run c op s), sees (snd (run c op s)))"
    and other_run: "good s \<Longrightarrow> \<not> own (c, op) \<Longrightarrow> fits (c, op) s \<Longrightarrow> sees (snd (run c op s)) = sees s"
begin

lemma purged:
  "good s \<Longrightarrow> all_fit fits run xs s \<Longrightarrow>
   trace run (filter own xs) (sees s) = (own_part own xs (fst (trace run xs s)), sees (snd (trace run xs s)))"
proof (induction xs arbitrary: s)
  case (Cons x xs)
  obtain c op where x: "x = (c, op)" by (cases x)
  let ?s = "snd (run c op s)"
  have unseen: "trace run (filter own xs) (sees ?s) = (own_part own xs (fst (trace run xs ?s)), sees (snd (trace run xs ?s)))"
    using Cons.IH [OF good_run [OF Cons.prems(1)]] Cons.prems(2) x by simp
  show ?case
  proof (cases "own x")
    case True
    then have "run c op (sees s) = (fst (run c op s), sees ?s)" using own_run Cons.prems x by simp
    then show ?thesis using unseen True by (simp add: x own_part_def Let_def case_prod_beta)
  next
    case False
    then have "sees ?s = sees s" using other_run Cons.prems x by simp
    then show ?thesis using unseen False by (simp add: x own_part_def Let_def case_prod_beta)
  qed
qed (simp add: own_part_def)

end

text \<open>
  Requests of the tenants of the store, as they fit the view of one of them: every connection is subject to the
  policies and has a tenant; what is created is new; the tenant itself creates no page below another,
  and the others issue no tickets, for the tables of tickets have no policy.
\<close>

definition of_tenant :: "string \<Rightarrow> (PgStore \<times> Scan) \<times> store_op \<Rightarrow> bool" where
  "of_tenant A x \<longleftrightarrow> row_tenant (fst (fst x)) = Some A"

definition tenant_fits :: "string \<Rightarrow> (PgStore \<times> Scan) \<times> store_op \<Rightarrow> Tables \<Rightarrow> bool" where
  "tenant_fits A x t \<longleftrightarrow> row_tenant (fst (fst x)) \<noteq> None \<and> op_new (snd x) t \<and>
     (if of_tenant A x then no_parent (snd x) else \<not> issues_ticket (snd x))"

lemma tenant_laws:
  assumes "row_tenant a = Some A"
  shows "tenancy pg_step (of_tenant A) (view a) keyed (tenant_fits A)"
proof
  fix t c op
  show "keyed t \<Longrightarrow> keyed (snd (pg_step c op t))" by (simp add: pg_step_def keyed_run)
  assume t: "keyed t" and fits: "tenant_fits A (c, op) t"
  show "pg_step c op (view a t) = (fst (pg_step c op t), view a (snd (pg_step c op t)))" if "of_tenant A (c, op)"
  proof -
    have "row_tenant a = row_tenant (fst c)" using that assms by (simp add: of_tenant_def)
    then have "view a = view (fst c)" using same_tenant_view by blast
    then show ?thesis using run_seen [OF t] fits that by (simp add: pg_step_def tenant_fits_def as_seen_def)
  qed
  show "view a (snd (pg_step c op t)) = view a t" if other: "\<not> of_tenant A (c, op)"
  proof -
    obtain B where B: "row_tenant (fst c) = Some B" "A \<noteq> B" using other fits by (cases "row_tenant (fst c)") (auto simp: of_tenant_def tenant_fits_def)
    have "unseen (fst c) (snd (pg_step c op t)) = unseen (fst c) t"
      using run_sealed [OF t] fits other by (simp add: pg_step_def tenant_fits_def)
    then show ?thesis using view_rest [OF assms B] by metis
  qed
qed

text \<open>A handle for each tenant, on a connection that is subject to the policies.\<close>

definition tenant_handle :: "string \<Rightarrow> PgStore" where
  "tenant_handle A = \<lparr>pg_pool = \<lparr>po_subject = True, po_setting = None\<rparr>, pg_tenant = A, pg_skipTenant = False\<rparr>"

lemma tenant_handle_row [simp]: "row_tenant (tenant_handle A) = Some A"
  by (simp add: tenant_handle_def row_tenant_def setTenantLocal_def)

interpretation tenants: tenancy pg_step "of_tenant A" "view (tenant_handle A)" keyed "tenant_fits A" for A
  by (rule tenant_laws) simp

lemma tenant_purged:
  assumes "row_tenant a = Some A" and "keyed t" and "all_fit (tenant_fits A) pg_step xs t"
  shows "trace pg_step (filter (of_tenant A) xs) (view a t) =
    (own_part (of_tenant A) xs (fst (trace pg_step xs t)), view a (snd (trace pg_step xs t)))"
  using tenants.purged [OF assms(2,3)] same_tenant_view [of a "tenant_handle A"] assms(1) by simp

end
