(* ===== verification/PgTenantProps.thy ===== *)
theory PgTenantProps
  imports PgSeparate
begin

text \<open>
  The two halves of the separation of tenants by row level security, and where it ends.
\<close>

section \<open>Where no policy applies\<close>

lemmas write_defs =
  pg_CreateWorkspace_def pg_AddMember_def pg_UpdateMemberDisplayName_def pg_UpdateMemberRole_def pg_RemoveMember_def
  pg_CreateInvitation_def workspace_invitation_def pg_UpdateInvitationPolicy_def pg_RevokeInvitation_def
  pg_AcceptInvitation_def pg_AddAuditEvent_def pg_CreateBoard_def pg_ArchiveBoard_def pg_UnarchiveBoard_def
  pg_CreateColumn_def pg_RenameColumn_def board_column_ids_def pg_DeleteColumn_def pg_ReorderColumns_def
  pg_CreateCard_def pg_UpdateCard_def columnCardIDs_def reindexWithout_def pg_MoveCard_def pg_CreateSprint_def
  pg_UpdateSprint_def pg_DeleteSprint_def validateParent_def pg_CreatePage_def pg_UpdatePage_def pg_set_archived_def
  pg_ArchivePage_def pg_UnarchivePage_def pg_insert_version_def pg_AppendPageVersionIfChanged_def
  pg_CreateDocument_def pg_UpdateDocumentTitle_def pg_TrashDocument_def pg_RestoreDocument_def pg_CreateTicket_def
  pg_ApplyCollabSnapshot_def pg_CreateChannel_def pg_AppendMessage_def pg_UpsertChannelRead_def
  pg_CreateChatTicket_def pg_SaveFile_def pg_AttachPageFile_def

lemma no_policy_run:
  assumes h: "sees_all h" and h': "sees_all h'"
  shows "pg_run h sc op t = pg_run h' sc op t"
proof -
  note all = all_rows [OF h] all_rows [OF h'] all_rows [OF sees_all_Unscoped [OF h]] all_rows [OF sees_all_Unscoped [OF h']]
  show ?thesis
  proof (cases op)
    case (O_M m)
    then show ?thesis by (cases m) (simp_all only: pg_run.simps pg_run_M.simps read_defs write_defs all)
  next
    case (O_B m)
    then show ?thesis by (cases m) (simp_all only: pg_run.simps pg_run_B.simps read_defs write_defs all)
  next
    case (O_P m)
    then show ?thesis by (cases m) (simp_all only: pg_run.simps pg_run_P.simps read_defs write_defs all)
  next
    case (O_D m)
    then show ?thesis by (cases m) (simp_all only: pg_run.simps pg_run_D.simps read_defs write_defs all)
  next
    case (O_C m)
    then show ?thesis by (cases m) (simp_all only: pg_run.simps pg_run_C.simps read_defs write_defs all)
  next
    case (O_F m)
    then show ?thesis by (cases m) (simp_all only: pg_run.simps pg_run_F.simps read_defs write_defs all)
  next
    case (O_S m)
    then show ?thesis by (cases m) (simp_all only: pg_run.simps pg_run_S.simps read_defs write_defs all)
  next
    case (O_V m)
    then show ?thesis by (cases m) (simp_all only: pg_run.simps pg_run_V.simps read_defs write_defs all)
  qed
qed

section \<open>Example\<close>

text \<open>Two organisations with a workspace each; a board in the second. The handle is for the first one.\<close>

definition demo_own :: Tables where
  "demo_own = empty_tables\<lparr>t_workspaces :=
     [''w1'' \<mapsto> \<lparr>ws_ID = ''w1'', ws_Name = ''Team'', ws_OrgID = ''A'', ws_CreatedAt = 1\<rparr>]\<rparr>"

definition demo_shared :: Tables where
  "demo_shared = demo_own\<lparr>
     t_workspaces := (t_workspaces demo_own)(''w2'' \<mapsto> \<lparr>ws_ID = ''w2'', ws_Name = ''Other'', ws_OrgID = ''B'', ws_CreatedAt = 2\<rparr>),
     t_boards := [''b'' \<mapsto> \<lparr>bd_ID = ''b'', bd_WorkspaceID = ''w2'', bd_Name = ''Plan'', bd_CreatedAt = 3, bd_ArchivedAt = None\<rparr>]\<rparr>"

definition demo_scan :: Scan where
  "demo_scan = \<lparr>sc_members = [], sc_invitations = [], sc_audits = [], sc_boards = [], sc_columns = [], sc_sprints = [],
     sc_cards = [], sc_pages = [], sc_documents = [], sc_channels = [], sc_messages = [], sc_pageFiles = [], sc_versions = []\<rparr>"

definition demo_tenant :: PgStore where
  "demo_tenant = \<lparr>pg_pool = \<lparr>po_subject = True, po_setting = None\<rparr>, pg_tenant = ''A'', pg_skipTenant = False\<rparr>"

lemmas demo_defs = demo_own_def demo_shared_def demo_scan_def demo_tenant_def empty_tables_def

lemma demo_row_tenant: "row_tenant demo_tenant = Some ''A''"
  by (simp add: demo_tenant_def row_tenant_def setTenantLocal_def)

lemma demo_keyed: "keyed demo_shared"
  by (simp add: keyed_def demo_defs)

lemma keep_upd: "keep P (m(k \<mapsto> v)) = (if P v then (keep P m)(k \<mapsto> v) else (keep P m)(k := None))"
  by (auto simp: keep_def)

lemma keep_empty: "keep P Map.empty = Map.empty"
  by (auto simp: keep_def)

lemma demo_views: "view demo_tenant demo_shared = view demo_tenant demo_own"
  by (simp add: view_def demo_own_def demo_shared_def empty_tables_def keep_upd keep_empty app_tenant_matches_def
      app_workspace_tenant_matches_def demo_row_tenant)

section \<open>Properties\<close>

text \<open>
  (C9) Whatever requests of one organisation do to the tables, on connections that are subject to
  row level security, every row of every other organisation is there afterwards as it was: workspaces with
  their members, invitations and audit events, boards with columns, cards and sprints, pages with versions
  and attachments, documents, channels with messages and read marks, and files.
\<close>

theorem tenant_confined:
  assumes "keyed t" and "\<forall>((h, sc), op) \<in> set xs. row_tenant h = Some A"
  shows "others_kept A t (snd (trace pg_step xs t))"
  by (rule others_sequence [OF assms])

theorem tenant_confined_witness:
  "t_boards (snd (trace pg_step [((demo_tenant, demo_scan), O_B (O_ArchiveBoard ''b'' 9)),
      ((demo_tenant, demo_scan), O_B (O_CreateBoard ''c'' [] ''w2'' ''Mine'' 10))] demo_shared)) ''b'' = t_boards demo_shared ''b''"
  using tenant_confined [OF demo_keyed, of "[((demo_tenant, demo_scan), O_B (O_ArchiveBoard ''b'' 9)),
      ((demo_tenant, demo_scan), O_B (O_CreateBoard ''c'' [] ''w2'' ''Mine'' 10))]" "''A''"]
  by (simp add: demo_row_tenant others_kept_def kept_def foreign_def demo_shared_def demo_own_def del: trace.simps trace_Cons_eq)



text \<open>
  (C10) The organisations do not interfere. However the requests of many organisations are interleaved, each one
  gets the answers, and is left to see the tables, of a database of its own: one that holds only the rows it sees at the
  start and gets none of the others' requests. So no request tells anything about the rows or the requests of another
  organisation. The identifiers and tokens of what is created are new among all rows; the
  organisation itself creates no page below another page, for the parent is looked up without the tenant; and the
  others issue no tickets, for the tables of tickets have no policy.
\<close>

theorem tenants_do_not_interfere:
  assumes "row_tenant a = Some A" and "keyed t" and "all_fit (tenant_fits A) pg_step xs t"
  shows "trace pg_step (filter (of_tenant A) xs) (view a t) =
    (own_part (of_tenant A) xs (fst (trace pg_step xs t)), view a (snd (trace pg_step xs t)))"
  by (rule tenant_purged [OF assms])

text \<open>The second organisation archives its board and adds a column to it; the first one asks for that board, before and after.\<close>

definition demo_other :: PgStore where
  "demo_other = demo_tenant\<lparr>pg_tenant := ''B''\<rparr>"

definition demo_requests :: "((PgStore \<times> Scan) \<times> store_op) list" where
  "demo_requests =
     [((demo_tenant, demo_scan), O_B (O_BoardWorkspaceID ''b'')), ((demo_other, demo_scan), O_B (O_ArchiveBoard ''b'' 9)),
      ((demo_other, demo_scan), O_B (O_CreateColumn ''k'' ''b'' ''Next'' 10)), ((demo_tenant, demo_scan), O_B (O_ColumnBoardID ''k''))]"

lemma demo_fits: "all_fit (tenant_fits ''A'') pg_step demo_requests demo_shared"
proof -
  have other: "row_tenant demo_other = Some ''B''" by (simp add: demo_other_def demo_tenant_def row_tenant_def setTenantLocal_def)
  have "t_columns (snd (pg_ArchiveBoard demo_other demo_shared ''b'' 9)) ''k'' = None" by code_simp
  then show ?thesis
    by (simp add: demo_requests_def tenant_fits_def of_tenant_def demo_row_tenant other pg_step_def answer_defs)
qed

theorem tenants_do_not_interfere_witness:
  "fst (trace pg_step [((demo_tenant, demo_scan), O_B (O_BoardWorkspaceID ''b'')), ((demo_tenant, demo_scan), O_B (O_ColumnBoardID ''k''))]
      (view demo_tenant demo_own)) = own_part (of_tenant ''A'') demo_requests (fst (trace pg_step demo_requests demo_shared))"
proof -
  have "filter (of_tenant ''A'') demo_requests =
      [((demo_tenant, demo_scan), O_B (O_BoardWorkspaceID ''b'')), ((demo_tenant, demo_scan), O_B (O_ColumnBoardID ''k''))]"
    by (simp add: demo_requests_def of_tenant_def demo_row_tenant) (simp add: demo_other_def demo_tenant_def row_tenant_def setTenantLocal_def)
  then show ?thesis using tenants_do_not_interfere [OF demo_row_tenant demo_keyed demo_fits] demo_views by simp
qed




text \<open>An invitation that is there, looked up on a new connection and on a used one.\<close>

definition demo_invited :: Tables where
  "demo_invited = demo_shared\<lparr>t_invitations := [''i'' \<mapsto> \<lparr>inv_ID = ''i'', inv_WorkspaceID = ''w2'', inv_TokenHash = ''hash'',
     inv_Role = ''member'', inv_InvitedEmail = [], inv_MaxUses = 1, inv_UseCount = 0, inv_ExpiresAt = 99, inv_InvitedBy = ''bob'',
     inv_CreatedAt = 4, inv_RevokedAt = None\<rparr>]\<rparr>"


end
