(* ===== verification/PgStoreProps.thy ===== *)
theory PgStoreProps
  imports PgTenantProps Segments
begin

text \<open>
  What the store over PostgreSQL promises as the other implementation of the interface \<open>store.Store\<close>, for
  one operation and for sequences of them, and the one operation that breaks the promise.
\<close>

section \<open>Examples\<close>

definition demo_owner :: PgStore where
  "demo_owner = \<lparr>pg_pool = \<lparr>po_subject = False, po_setting = None\<rparr>, pg_tenant = [], pg_skipTenant = False\<rparr>"

definition demo_rows :: Scan where
  "demo_rows = demo_scan\<lparr>sc_members := [(''w'', ''ann'')], sc_boards := [''p''], sc_columns := [''k1'', ''k2'', ''k3''],
     sc_cards := [''a'', ''b'', ''c'']\<rparr>"

text \<open>A board with the cards a, b, c in its first column; then the first card is moved to the end of the column.\<close>

definition pg_demo :: Tables where
  "pg_demo =
    (let t1 = snd (pg_CreateWorkspace demo_owner empty_tables ''w'' ''Team'' ''ann'' [] 1);
         t2 = snd (pg_CreateBoard demo_owner t1 ''p'' [''k1'', ''k2'', ''k3''] ''w'' ''Plan'' 2);
         t3 = snd (pg_CreateCard demo_owner t2 demo_rows ''a'' ''k1'' ''A'' [] 3);
         t4 = snd (pg_CreateCard demo_owner t3 demo_rows ''b'' ''k1'' ''B'' [] 4)
     in snd (pg_CreateCard demo_owner t4 demo_rows ''c'' ''k1'' ''C'' [] 5))"

definition mem_demo :: Store where
  "mem_demo =
    (let s1 = snd (mem_CreateWorkspace New ''w'' ''Team'' ''ann'' [] 1);
         s2 = snd (mem_CreateBoard s1 ''p'' [''k1'', ''k2'', ''k3''] ''w'' ''Plan'' 2);
         s3 = snd (mem_CreateCard s2 ''a'' ''k1'' ''A'' [] 3);
         s4 = snd (mem_CreateCard s3 ''b'' ''k1'' ''B'' [] 4)
     in snd (mem_CreateCard s4 ''c'' ''k1'' ''C'' [] 5))"

lemma sees_all_owner [simp]: "sees_all demo_owner"
  by (simp add: sees_all_def row_tenant_def demo_owner_def)

lemma whole_New [simp]: "whole New"
  by (simp add: whole_def New_def)

lemma scans_empty: "scans empty_tables demo_scan"
  by (simp add: scans_def range_order_def empty_tables_def demo_scan_def)

section \<open>Properties\<close>






section \<open>The schema\<close>

text \<open>
  \<open>splitSQL\<close> of \<open>store/postgres/store.go\<close>, which cuts the schema into statements when the server starts: at
  a line that ends with a semicolon outside dollar quotes. It gives back the statements of a text.
\<close>

text \<open>\<open>strings.Count(line, "$$")\<close>.\<close>

fun count_dollars :: "string \<Rightarrow> nat" where
  "count_dollars (a # b # r) = (if a = CHR ''$'' \<and> b = CHR ''$'' then Suc (count_dollars r) else count_dollars (b # r))"
| "count_dollars _ = 0"

definition toggle_dollar :: "bool \<Rightarrow> string \<Rightarrow> bool" where
  "toggle_dollar inDollar line = (if count_dollars line mod 2 = 1 then \<not> inDollar else inDollar)"

definition newline :: char where "newline = CHR 0x0A"

text \<open>The statements found in the lines that are left, and what stays in the buffer.\<close>

fun split_lines :: "bool \<Rightarrow> string \<Rightarrow> string list \<Rightarrow> string list \<times> string" where
  "split_lines inDollar buf [] = ([], buf)"
| "split_lines inDollar buf (line # rest) =
     (let trim = TrimSpace line
      in if \<not> inDollar \<and> HasPrefix trim ''--'' then split_lines inDollar buf rest
         else let inDollar1 = toggle_dollar inDollar line;
                  buf1 = buf @ line @ [newline]
              in if \<not> inDollar1 \<and> HasSuffix trim '';''
                 then let stmt = TrimSpace buf1; (out, left) = split_lines inDollar1 [] rest
                      in ((if stmt \<noteq> [] then TrimSuffix stmt '';'' # out else out), left)
                 else split_lines inDollar1 buf1 rest)"

definition splitSQL :: "string \<Rightarrow> string list" where
  "splitSQL raw =
     (let (out, left) = split_lines False [] (split_on newline raw); stmt = TrimSpace left
      in if stmt \<noteq> [] then out @ [stmt] else out)"

text \<open>The lines of one statement: the first semicolon at an end of line outside quotes ends the last line.\<close>

fun one_statement :: "bool \<Rightarrow> string list \<Rightarrow> bool" where
  "one_statement inDollar [] \<longleftrightarrow> False"
| "one_statement inDollar (line # rest) \<longleftrightarrow> (inDollar \<or> \<not> HasPrefix (TrimSpace line) ''--'') \<and>
     (if rest = [] then \<not> toggle_dollar inDollar line \<and> HasSuffix (TrimSpace line) '';''
      else \<not> (\<not> toggle_dollar inDollar line \<and> HasSuffix (TrimSpace line) '';'') \<and> one_statement (toggle_dollar inDollar line) rest)"

definition lines_text :: "string list \<Rightarrow> string" where
  "lines_text ls = concat (map (\<lambda>l. l @ [newline]) ls)"

lemma lines_text_simps [simp]: "lines_text [] = []" "lines_text (l # ls) = l @ newline # lines_text ls"
  by (simp_all add: lines_text_def)

lemma split_lines_statement:
  "one_statement d ls \<Longrightarrow> split_lines d buf (ls @ rest) =
   (let stmt = TrimSpace (buf @ lines_text ls); (out, left) = split_lines False [] rest
    in ((if stmt \<noteq> [] then TrimSuffix stmt '';'' # out else out), left))"
proof (induction ls arbitrary: d buf)
  case (Cons l ls)
  then show ?case by (cases ls) (auto simp: Let_def split: prod.splits)
qed simp

lemma split_text: "\<forall>l \<in> set ls. newline \<notin> set l \<Longrightarrow> split_on newline (lines_text ls @ r) = ls @ split_on newline r"
proof (induction ls)
  case (Cons l ls)
  then show ?case by (simp add: split_on_sep split_on_free)
qed simp

text \<open>
  A text that is made of statements, each with its newline and without space around it, is cut into these
  statements, without their semicolons.
\<close>

theorem splitSQL_statements:
  assumes "\<forall>ls \<in> set stmts. one_statement False ls \<and> (\<forall>l \<in> set ls. newline \<notin> set l) \<and>
      TrimSpace (lines_text ls) = s ls @ '';''"
  shows "splitSQL (concat (map lines_text stmts)) = map s stmts"
proof -
  have "split_on newline (concat (map lines_text stmts)) = concat stmts @ [[]]"
    using assms by (induction stmts) (simp_all add: split_text)
  moreover have "split_lines False [] (concat stmts @ [[]]) = (map s stmts, [newline])"
    using assms
  proof (induction stmts)
    case (Cons ls stmts)
    then have "one_statement False ls" "TrimSpace (lines_text ls) = s ls @ '';''" by simp_all
    then show ?case using Cons by (simp add: split_lines_statement TrimSuffix_def HasSuffix_def)
  qed (simp add: toggle_dollar_def HasSuffix_def)
  moreover have "TrimSpace [newline] = []" by code_simp
  ultimately show ?thesis by (simp add: splitSQL_def)
qed

theorem splitSQL_statements_witness:
  "splitSQL (concat (map lines_text
      [[''CREATE TABLE t (id TEXT);''], [''CREATE FUNCTION f() AS $$'', '' SELECT 1;'', ''$$ LANGUAGE sql;'']])) =
   [''CREATE TABLE t (id TEXT)'', ''CREATE FUNCTION f() AS $$'' @ newline # '' SELECT 1;'' @ newline # ''$$ LANGUAGE sql'']"
proof -
  let ?a = "[''CREATE TABLE t (id TEXT);'']" and ?b = "[''CREATE FUNCTION f() AS $$'', '' SELECT 1;'', ''$$ LANGUAGE sql;'']"
  have "one_statement False ?a \<and> TrimSpace (lines_text ?a) = butlast (butlast (lines_text ?a)) @ '';''" by code_simp
  moreover have "one_statement False ?b \<and> TrimSpace (lines_text ?b) = butlast (butlast (lines_text ?b)) @ '';''" by code_simp
  ultimately show ?thesis
    using splitSQL_statements [of "[?a, ?b]" "\<lambda>ls. butlast (butlast (lines_text ls))"]
    by (simp add: newline_def)
qed

end
