(* ===== verification/Spec2Isabelle.thy ===== *)
theory Spec2Isabelle
  imports Invitations ChatProps FileProps SearchProps Hub ServerProps PgStoreProps
begin

text \<open>
  A verification library for the API server of pf-workspace, the Go program under \<open>src/apps/api\<close>: shared
  workspaces with boards, a wiki, documents that several people edit at once, chat, files and search. It
  is modelled from the HTTP request down to the store, and what is proved of the parts is put together in
  \<open>SystemProps\<close> and \<open>ServerProps\<close>.

  \<^bold>\<open>How the program is put together.\<close> \<open>cmd/server/main.go\<close> reads the settings (\<open>config\<close>), opens a store and
  starts an HTTP server. A request passes the mux, then the authentication middleware (\<open>auth\<close>), then the
  switch over method and path in \<open>handleAPI\<close> (\<open>web/server.go\<close>), which calls a handler. The handler decodes
  the body, calls an operation of the service (\<open>service/*.go\<close>) on a store scoped to the organisation of
  the user, and writes the answer. An operation of the service asks for the role of the caller, checks its
  arguments and calls the store. There are two stores behind one interface (\<open>store/store.go\<close>): maps under a
  mutex (\<open>store/memory\<close>) and tables in PostgreSQL (\<open>store/postgres\<close>), with row level security per
  organisation. Pure functions on the data live in \<open>domain\<close>.
  Chat messages also go to the open connections through the hub (\<open>realtime\<close>). The collaboration server,
  another process, calls two internal endpoints.

  \<^bold>\<open>Theories.\<close> Go's own functions: \<open>GoStrings\<close>, \<open>Segments\<close> (package strings), \<open>GoPaths\<close> (filepath), \<open>Json\<close>
  (encoding/json, strconv), \<open>Rfc3339\<close> (time). Shared vocabulary: \<open>Prelude\<close>.

  \<^item> \<open>Domain\<close>: the structs of \<open>domain/domain.go\<close> as records, constants, small functions. \<open>LineDiff\<close>
    (\<open>diff.go\<close>), \<open>Mentions\<close>, \<open>SearchText\<close> (\<open>search.go\<close>), \<open>Burndown\<close> (\<open>sprint.go\<close>), \<open>PageTree\<close> (\<open>tree.go\<close>).
  \<^item> \<open>Store\<close>: the struct of the memory store with its maps, \<open>WithTenant\<close>, \<open>Unscoped\<close>. Its methods are
    the definitions \<open>mem_X\<close> in \<open>MemWorkspaces\<close>, \<open>MemBoards\<close>, \<open>MemPages\<close>, \<open>MemDocs\<close>, \<open>MemChat\<close>; a
    method that may write returns its result and the new store.
  \<^item> \<open>PgTables\<close>: the tables of \<open>schema.sql\<close> as maps from primary keys to rows, the handle of \<open>rls.go\<close>, and
    the policies as the \<open>view\<close> that a statement has of the tables. The methods of the PostgreSQL store are
    the definitions \<open>pg_X\<close> in \<open>PgWorkspaces\<close>, \<open>PgBoards\<close>, \<open>PgPages\<close>, \<open>PgChat\<close>; the order in
    which a table is scanned is an argument. \<open>StoreOps\<close> is the interface: the methods as a datatype
    \<open>store_op\<close>, and \<open>mem_run\<close> and \<open>pg_run\<close>, which run one of them.
  \<^item> \<open>PgRep\<close> states which tables represent which state of the memory store; \<open>PgSimMembers\<close>, \<open>PgSimBoards\<close>,
    \<open>PgSimPages\<close>, \<open>PgSimDocs\<close>, \<open>PgSimChat\<close> compare the two stores method by method. \<open>PgProps\<close> has the
    locale that lifts one step to sequences and interprets it on the two stores. \<open>PgTenants\<close> shows what row
    level security keeps apart, \<open>PgSecrecy\<close> that a tenant cannot tell the database from one with its rows
    only, \<open>PgSeparate\<close> that it leaves the rest as it is, and so, by a locale for systems that requests of many
    tenants share, that tenants do not interfere. The cutting of the schema into statements is in \<open>PgStoreProps\<close>.
  \<^item> The operations of the service are the definitions \<open>svc_X\<close> in \<open>SvcMembers\<close>, \<open>SvcInvitations\<close>,
    \<open>SvcBoards\<close>, \<open>SvcPages\<close>, \<open>SvcDocs\<close>, \<open>SvcChat\<close>, \<open>SvcFiles\<close>, \<open>SvcSearch\<close>; \<open>Contracts\<close> has the interface of
    collaboration and chat tickets.
  \<^item> One theory per component collects its requests in a datatype, runs them with a function \<open>exec_X\<close>,
    states the invariant and proves it kept: \<open>Membership\<close>, \<open>Boards\<close> (over \<open>Shelf\<close>, things kept in numbered
    order), \<open>Pages\<close> (over \<open>Forest\<close>), \<open>Collab\<close>, \<open>Chat\<close>, \<open>Files\<close>. \<open>Frames\<close> shows which maps a component
    leaves alone, \<open>System\<close> joins the components into one step relation.
  \<^item> \<open>Hub\<close>: rooms, queues of sixteen payloads and closed channels, with broadcasts that interleave with
    connections that come and go.
  \<^item> \<open>Auth\<close>, \<open>Config\<close>: claims, tokens, the caches of the middleware, the settings.
  \<^item> \<open>Routes\<close> (the switch of \<open>handleAPI\<close>, case by case, and the mux), \<open>WebBase\<close>, \<open>WebWorkspaces\<close>,
    \<open>WebBoards\<close>, \<open>WebPages\<close>, \<open>WebRest\<close> (the handlers \<open>web_X\<close>), \<open>Server\<close> (the dispatch, the internal
    endpoints, and \<open>serve\<close>, the whole way from a request to its response).

  \<^bold>\<open>What is shown.\<close>

  \<^item> \<open>SystemProps\<close>: in every state that requests can reach the invariants of all parts hold; a workspace
    keeps exactly its one owner; a request without the role it needs, or about a missing thing, fails;
    a request that fails changes nothing.
  \<^item> \<open>ServerProps\<close>, \<open>AuthProps\<close>, \<open>RouteProps\<close>: a request over HTTP changes nothing or runs exactly one
    operation in the name of the authenticated user; a live server serves nobody without a token and an
    organisation; every address is read back by the switch.
  \<^item> \<open>Invitations\<close>, \<open>BoardProps\<close>, \<open>PageReads\<close>, \<open>PageProps\<close>, \<open>CollabProps\<close>, \<open>ChatProps\<close>, \<open>FileProps\<close>,
    \<open>SearchProps\<close>, \<open>Hub\<close>: the behaviour of the operations on every branch, round trips, equivalences with
    short specifications.

  \<^item> \<open>PgStoreProps\<close>: where row level security hides nothing, the PostgreSQL store implements the memory
    store for every sequence of operations, but for the calls that \<open>op_ok\<close> excludes: a move within a column
    (where the PostgreSQL store puts the card in a wrong place), a second archiving of a board or trashing
    of a document, a second record for one file, a sprint with an empty window, identifiers that are not
    new. \<open>PgTenantProps\<close>: where the connection is subject to the policies, the requests of one organisation
    neither change nor read a row of another, and each organisation is answered as by a database of its own,
    however the requests interleave; where the connection is not, the tenant has no effect.

  \<^bold>\<open>Interfaces.\<close> Locales state what components rely on: the walk along parent links on a forest, things
  on a shelf, versions and optimistic locks (\<open>Contracts\<close>, for cards and pages), tickets (for collaboration
  and chat), operations gated by a role, one store that simulates another, a system that many tenants share. Each is
  interpreted on the operations of the model.

  \<^bold>\<open>What is supplied from outside.\<close> New identifiers (the package ulid; assumed not empty and not used
  yet), random bytes, readings of the clock, the order of a range over a map, the order in which
  \<open>sort.Slice\<close> leaves equal elements, SHA-256, \<open>unicode.ToLower\<close>, which system calls fail, the identity
  provider and the token library. They are arguments of the definitions; what is assumed of them is a
  hypothesis of the theorems (\<open>fresh\<close>, \<open>runtime_sys\<close>, \<open>runtime_ok\<close>, \<open>range_order\<close>).

  \<^bold>\<open>Bounds and fuel.\<close> The walk to the root of a page has fuel for two more steps than there are pages, the
  descent to its descendants as much as there are pages, the building of the tree one more than the
  length of the list, the recursive query of the PostgreSQL store one round more than there are pages; on
  a forest this is enough (\<open>Pages\<close>, \<open>PageTree\<close>, \<open>PgSimPages\<close>), and a walk out of fuel would answer
  with the internal error, which the theorems exclude. The other loops are structural or have a measure.
  Integers are unbounded: the program compares versions, positions and sizes that stay far below 64 bits,
  and the numbers that clients send are read by \<open>strconv.Atoi\<close> with its range check.

  \<^bold>\<open>Assumptions of the model.\<close> A method of the store is one atomic step, for it holds the mutex or
  is one transaction that locks the row it is about (\<open>DeleteSprint\<close> over PostgreSQL is two); a request is
  taken to run without interference of another one between its calls. \<open>os.Remove\<close> succeeds. A handler that
  reads the clock twice gets two readings. The mux sees clean paths. A JSON body is given decoded, keys
  match exactly; a nil list and an empty one are the same.

  \<^bold>\<open>Not modelled.\<close> Of the PostgreSQL store: connecting and running the schema, the scanning of rows into structs,
  connections that fail, transactions that interleave. The process itself (listening, signals, logging);
  the package that makes identifiers; the bytes of JSON and of websocket frames; the mock identity provider
  under \<open>deploy\<close>; the collaboration server (JavaScript) and the frontend (TypeScript).
\<close>

end
